(* ===== verification/Prelude.thy ===== *)
theory Prelude
  imports
    Main
    "HOL-Library.AList"
    "HOL-Library.Char_ord"
    "HOL-Library.List_Lexorder"
begin

text \<open>
  Shared vocabulary of the development.

  \<^item> Go maps: a \<open>map[K]V\<close> is an association list with distinct keys (\<open>go_map_ok\<close>).
    \<open>m[k]\<close> is \<open>map_of m k\<close>, \<open>m[k] = v\<close> is \<open>put k v m\<close>, \<open>delete(m, k)\<close> is \<open>del k m\<close>.
    A \<open>range\<close> loop visits the entries in the order of the list. Go leaves that order open;
    the theorems quantify over all lists, that is, over all orders.
  \<^item> Fallible operations return \<open>error + 'a\<close>, with the sentinel errors of
    \<^verbatim>\<open>internal/state/state.go\<close> as constructors.
  \<^item> \<open>time.Time\<close> is an \<open>int\<close>, the nanoseconds since Go's zero time (so \<open>IsZero\<close> is
    \<open>t = 0\<close>); every instant of the program is kept in UTC. \<open>time.Duration\<close> is an \<open>int\<close>
    of nanoseconds.
  \<^item> \<open>sort.Slice(xs, less)\<close> is \<open>sort_by lt xs\<close>. The locale \<open>total_less\<close> states the laws the
    program's comparators satisfy and proves that the sorted result is then the only one.
\<close>

named_theorems gomap_simps "lookup in an updated Go map"
named_theorems wf_keys_intros "preservation of distinct keys"

section \<open>Errors and results\<close>

datatype error =
    ErrNotFound
  | ErrNoQueuedJob
  | ErrConflict
  | ErrAdmissionAborted
  | ErrForbidden
  | ErrInvalidState
  | ErrInvalidLease
  | ErrNoCompletion
  | ErrLockTimeout
  | WebhookErrNotFound
  | WebhookErrConflict
  | WebhookErrInvalid
  | WebhookErrNoPendingDelivery
  | WebhookErrInvalidLease
  | ErrOther string

type_synonym 'a res = "error + 'a"
type_synonym time = int
type_synonym duration = int
type_synonym raw = string

definition bind_res :: "'a res \<Rightarrow> ('a \<Rightarrow> 'b res) \<Rightarrow> 'b res" where
  "bind_res r f = (case r of Inl e \<Rightarrow> Inl e | Inr a \<Rightarrow> f a)"

lemma bind_res_simps [simp]:
  "bind_res (Inl e) f = Inl e"
  "bind_res (Inr a) f = f a"
  by (simp_all add: bind_res_def)

lemma bind_res_eq_Inr [simp]:
  "bind_res r f = Inr b \<longleftrightarrow> (\<exists>a. r = Inr a \<and> f a = Inr b)"
  by (cases r) simp_all

lemma bind_res_eq_Inl [simp]:
  "bind_res r f = Inl e \<longleftrightarrow> r = Inl e \<or> (\<exists>a. r = Inr a \<and> f a = Inl e)"
  by (cases r) simp_all

text \<open>A loop whose body may fail: it stops at the first error.\<close>

fun fold_res :: "('x \<Rightarrow> 's \<Rightarrow> 's res) \<Rightarrow> 'x list \<Rightarrow> 's \<Rightarrow> 's res" where
  "fold_res f [] s = Inr s"
| "fold_res f (x # xs) s = bind_res (f x s) (fold_res f xs)"

lemma fold_res_inv:
  assumes "fold_res f xs s = Inr t" and "P s"
    and "\<And>x u v. x \<in> set xs \<Longrightarrow> P u \<Longrightarrow> f x u = Inr v \<Longrightarrow> P v"
  shows "P t"
  using assms by (induction xs arbitrary: s) auto

text \<open>\<open>option\<close> stands for a Go pointer: \<open>None\<close> is \<open>nil\<close>.\<close>

definition nonZeroTime :: "time \<Rightarrow> time \<Rightarrow> time" where
  "nonZeroTime value fallback = (if value = 0 then fallback else value)"

definition nanos_per_second :: int where
  "nanos_per_second = 1000000000"

text \<open>Go's integer division truncates towards zero.\<close>

definition go_div :: "int \<Rightarrow> int \<Rightarrow> int" where
  "go_div a b = sgn a * sgn b * (\<bar>a\<bar> div \<bar>b\<bar>)"

lemma go_div_nonneg: "0 \<le> a \<Longrightarrow> 0 < b \<Longrightarrow> go_div a b = a div b"
  by (cases "a = 0") (auto simp: go_div_def)

section \<open>Go maps\<close>

type_synonym ('k, 'v) gomap = "('k \<times> 'v) list"

abbreviation put :: "'k \<Rightarrow> 'v \<Rightarrow> ('k, 'v) gomap \<Rightarrow> ('k, 'v) gomap" where
  "put \<equiv> AList.update"

abbreviation del :: "'k \<Rightarrow> ('k, 'v) gomap \<Rightarrow> ('k, 'v) gomap" where
  "del \<equiv> AList.delete"

text \<open>\<open>m[k] = append(m[k], v)\<close>; the missing entry is the nil slice.\<close>

definition append_under :: "'k \<Rightarrow> 'v \<Rightarrow> ('k, 'v list) gomap \<Rightarrow> ('k, 'v list) gomap" where
  "append_under k v m = put k ((case map_of m k of Some vs \<Rightarrow> vs | None \<Rightarrow> []) @ [v]) m"

abbreviation go_map_ok :: "('k, 'v) gomap \<Rightarrow> bool" where
  "go_map_ok m \<equiv> distinct (map fst m)"

lemma map_of_put [simp, gomap_simps]: "map_of (put k v m) k' = (if k' = k then Some v else map_of m k')"
  by (simp add: update_conv')

lemma map_of_del [simp, gomap_simps]: "map_of (del k m) k' = (if k' = k then None else map_of m k')"
  by (simp add: delete_conv')

lemma go_map_ok_put [intro, wf_keys_intros]: "go_map_ok m \<Longrightarrow> go_map_ok (put k v m)"
  by (rule distinct_update)

lemma go_map_ok_del [intro, wf_keys_intros]: "go_map_ok m \<Longrightarrow> go_map_ok (del k m)"
  by (rule distinct_delete)

lemma go_map_ok_filter [intro, wf_keys_intros]: "go_map_ok m \<Longrightarrow> go_map_ok (filter p m)"
  by (induction m) auto

lemma map_of_filter_ok:
  "go_map_ok m \<Longrightarrow>
   map_of (filter (\<lambda>(k, v). p k v) m) k =
   (case map_of m k of None \<Rightarrow> None | Some v \<Rightarrow> if p k v then Some v else None)"
proof (induction m)
  case (Cons a m)
  obtain k0 v0 where a: "a = (k0, v0)" by force
  have absent: "map_of m k0 = None"
    using Cons.prems by (simp add: a map_of_eq_None_iff)
  show ?case
    using Cons.IH Cons.prems absent by (cases "k = k0") (auto simp: a split: option.splits)
qed simp

text \<open>
  A \<open>range\<close> loop that rewrites the value of each visited entry and stores it under its own key
  is a \<open>map\<close> over the entries.
\<close>

definition map_vals :: "('k \<Rightarrow> 'v \<Rightarrow> 'w) \<Rightarrow> ('k, 'v) gomap \<Rightarrow> ('k, 'w) gomap" where
  "map_vals f m = map (\<lambda>(k, v). (k, f k v)) m"

lemma map_of_map_vals [simp, gomap_simps]: "map_of (map_vals f m) k = map_option (f k) (map_of m k)"
  by (induction m) (auto simp: map_vals_def)

lemma fst_map_vals [simp]: "map fst (map_vals f m) = map fst m"
  by (induction m) (auto simp: map_vals_def)

lemma map_of_Some_in_snd: "map_of m k = Some v \<Longrightarrow> v \<in> snd ` set m"
  by (force dest: map_of_SomeD)

lemma in_set_map_of: "go_map_ok m \<Longrightarrow> (k, v) \<in> set m \<Longrightarrow> map_of m k = Some v"
  by (rule map_of_is_SomeI)

text \<open>Map entries whose key is the identity the value carries.\<close>

definition keyed_by :: "('v \<Rightarrow> 'k) \<Rightarrow> ('k, 'v) gomap \<Rightarrow> bool" where
  "keyed_by idf m \<longleftrightarrow> (\<forall>k v. map_of m k = Some v \<longrightarrow> idf v = k)"

lemma keyed_byD: "keyed_by idf m \<Longrightarrow> map_of m k = Some v \<Longrightarrow> idf v = k"
  by (simp add: keyed_by_def)

lemma keyed_by_put [intro]: "keyed_by idf m \<Longrightarrow> idf v = k \<Longrightarrow> keyed_by idf (put k v m)"
  by (simp add: keyed_by_def)

lemma keyed_by_del [intro]: "keyed_by idf m \<Longrightarrow> keyed_by idf (del k m)"
  by (simp add: keyed_by_def)

lemma keyed_by_map_vals [intro]:
  "keyed_by idf m \<Longrightarrow> (\<And>k v. map_of m k = Some v \<Longrightarrow> idf (f k v) = idf v) \<Longrightarrow>
   keyed_by idf (map_vals f m)"
  by (auto simp: keyed_by_def)

lemma put_put [simp]: "put k v (put k w m) = put k v m"
  by (induction m) auto

lemma put_append_right: "k \<notin> fst ` set p \<Longrightarrow> put k v (p @ q) = p @ put k v q"
  by (induction p) auto

text \<open>The \<open>range\<close> loop that overwrites the entries it selects, as a map over the entries.\<close>

lemma fold_put_map_vals:
  assumes "go_map_ok m"
  shows "fold (\<lambda>(k, v) acc. if hit k v then put k (f k v) acc else acc) m m =
    map_vals (\<lambda>k v. if hit k v then f k v else v) m"
proof -
  let ?g = "\<lambda>k v. if hit k v then f k v else v"
  let ?b = "\<lambda>(k, v) acc. if hit k v then put k (f k v) acc else acc"
  have "go_map_ok (p @ q) \<Longrightarrow> fold ?b q (map_vals ?g p @ q) = map_vals ?g (p @ q)" for p q
  proof (induction q arbitrary: p)
    case (Cons e q)
    obtain k v where e: "e = (k, v)" by force
    have "k \<notin> fst ` set (map_vals ?g p)"
      using Cons.prems fst_map_vals [of ?g p] by (metis (no_types, lifting) UnI1 distinct_append
          disjoint_iff e fst_conv list.set_intros(1) map_append list.set_map set_map list.simps(9))
    then have "?b e (map_vals ?g p @ e # q) = map_vals ?g (p @ [e]) @ q"
      by (simp add: e put_append_right map_vals_def)
    then show ?case
      using Cons.IH [of "p @ [e]"] Cons.prems by simp
  qed (simp add: map_vals_def)
  from this [of "[]" m] assms show ?thesis by (simp add: map_vals_def)
qed

text \<open>
  A \<open>range\<close> loop visits the entries the map had when the loop began. If the body changes no entry
  but the one it visits, each visit finds its entry unchanged.
\<close>

lemma fold_res_entries:
  assumes "fold_res f xs u = Inr t" and "distinct (map fst xs)"
    and "\<forall>(k, v) \<in> set xs. look u k = Some v" and "P u"
    and "\<And>k v u u'. P u \<Longrightarrow> look u k = Some v \<Longrightarrow> f (k, v) u = Inr u' \<Longrightarrow>
           P u' \<and> (\<forall>k'. k' \<noteq> k \<longrightarrow> look u' k' = look u k')"
  shows "P t"
  using assms(1-4)
proof (induction xs arbitrary: u)
  case (Cons e xs)
  obtain k v where e: "e = (k, v)" by force
  obtain u' where u': "f (k, v) u = Inr u'" and rest: "fold_res f xs u' = Inr t"
    using Cons.prems(1) by (auto simp: e)
  have step: "P u' \<and> (\<forall>k'. k' \<noteq> k \<longrightarrow> look u' k' = look u k')"
    using assms(5) [OF Cons.prems(4) _ u'] Cons.prems(3) by (auto simp: e)
  have "\<forall>(k', v') \<in> set xs. look u' k' = Some v'"
    using Cons.prems(2,3) step by (force simp: e)
  then show ?case
    using Cons.IH [OF rest] Cons.prems(2) step by (simp add: e)
qed simp

lemma fold_res_Inr: "fold_res (\<lambda>x s. Inr (f x s)) xs s = Inr (fold f xs s)"
  by (induction xs arbitrary: s) auto

lemma fold_entries:
  assumes "distinct (map fst xs)" and "\<forall>(k, v) \<in> set xs. look u k = Some v" and "P u"
    and "\<And>k v u. P u \<Longrightarrow> look u k = Some v \<Longrightarrow>
           P (f (k, v) u) \<and> (\<forall>k'. k' \<noteq> k \<longrightarrow> look (f (k, v) u) k' = look u k')"
  shows "P (fold f xs u)"
  using fold_res_entries [OF fold_res_Inr assms(1), where look = look and P = P, OF assms(2,3)] assms(4)
  by blast

section \<open>Sorting with a comparator\<close>

fun insert_by :: "('a \<Rightarrow> 'a \<Rightarrow> bool) \<Rightarrow> 'a \<Rightarrow> 'a list \<Rightarrow> 'a list" where
  "insert_by lt x [] = [x]"
| "insert_by lt x (y # ys) = (if lt y x then y # insert_by lt x ys else x # y # ys)"

definition sort_by :: "('a \<Rightarrow> 'a \<Rightarrow> bool) \<Rightarrow> 'a list \<Rightarrow> 'a list" where
  "sort_by lt xs = foldr (insert_by lt) xs []"

lemma sort_by_simps [simp]:
  "sort_by lt [] = []"
  "sort_by lt (x # xs) = insert_by lt x (sort_by lt xs)"
  by (simp_all add: sort_by_def)

lemma set_insert_by [simp]: "set (insert_by lt x xs) = insert x (set xs)"
  by (induction xs) auto

lemma set_sort_by [simp]: "set (sort_by lt xs) = set xs"
  by (induction xs) auto

lemma length_insert_by [simp]: "length (insert_by lt x xs) = Suc (length xs)"
  by (induction xs) auto

lemma length_sort_by [simp]: "length (sort_by lt xs) = length xs"
  by (induction xs) auto

lemma distinct_insert_by [simp]: "distinct (insert_by lt x xs) \<longleftrightarrow> x \<notin> set xs \<and> distinct xs"
  by (induction xs) auto

lemma distinct_sort_by [simp]: "distinct (sort_by lt xs) \<longleftrightarrow> distinct xs"
  by (induction xs) auto

text \<open>
  The laws of a comparator that orders the elements it is used on totally: the program's
  comparators end in a comparison of unique identifiers.
\<close>

locale total_less =
  fixes lt :: "'a \<Rightarrow> 'a \<Rightarrow> bool"
    and dom_ok :: "'a set \<Rightarrow> bool"
  assumes irrefl: "\<not> lt x x"
    and trans: "lt x y \<Longrightarrow> lt y z \<Longrightarrow> lt x z"
    and total: "dom_ok A \<Longrightarrow> x \<in> A \<Longrightarrow> y \<in> A \<Longrightarrow> x \<noteq> y \<Longrightarrow> lt x y \<or> lt y x"
    and dom_mono: "dom_ok A \<Longrightarrow> B \<subseteq> A \<Longrightarrow> dom_ok B"
begin

lemma asym: "lt x y \<Longrightarrow> \<not> lt y x"
  using irrefl trans by blast

lemma sorted_insert:
  assumes "dom_ok (insert x (set xs))" and "x \<notin> set xs" and "sorted_wrt lt xs"
  shows "sorted_wrt lt (insert_by lt x xs)"
  using assms
proof (induction xs)
  case (Cons y ys)
  have ok: "dom_ok (insert x (set ys))"
    by (rule dom_mono [OF Cons.prems(1)]) auto
  show ?case
  proof (cases "lt y x")
    case True
    have "sorted_wrt lt (insert_by lt x ys)"
      using Cons.IH [OF ok] Cons.prems(2,3) by simp
    then show ?thesis
      using True Cons.prems(3) by simp
  next
    case False
    then have "lt x y"
      using total [OF Cons.prems(1), of x y] Cons.prems(2) by auto
    then show ?thesis
      using False Cons.prems(3) trans by auto
  qed
qed simp

lemma sorted_sort_by: "dom_ok (set xs) \<Longrightarrow> distinct xs \<Longrightarrow> sorted_wrt lt (sort_by lt xs)"
proof (induction xs)
  case (Cons x xs)
  have ok: "dom_ok (set xs)"
    by (rule dom_mono [OF Cons.prems(1)]) auto
  show ?case
    using Cons.IH [OF ok] Cons.prems by (simp add: sorted_insert)
qed simp

lemma sorted_unique:
  assumes "sorted_wrt lt xs" and "sorted_wrt lt ys" and "set xs = set ys"
  shows "xs = ys"
  using assms
proof (induction xs arbitrary: ys)
  case Nil
  then show ?case by simp
next
  case (Cons x xs)
  from Cons.prems(3) obtain z zs where ys: "ys = z # zs"
    by (cases ys) auto
  have eq: "x = z"
  proof (rule ccontr)
    assume neq: "x \<noteq> z"
    with Cons.prems(3) ys have "z \<in> set xs" and "x \<in> set zs" by auto
    with Cons.prems(1,2) ys have "lt x z" and "lt z x" by auto
    then show False using asym by blast
  qed
  have nx: "x \<notin> set xs" and nz: "z \<notin> set zs"
    using Cons.prems(1,2) ys irrefl by auto
  have "set xs = set zs"
    using Cons.prems(3) ys eq nx nz by auto
  then show ?case
    using Cons ys eq by simp
qed

text \<open>Whatever order the elements arrive in, the sorted list is the same.\<close>

lemma sort_by_order_irrelevant:
  assumes "dom_ok (set xs)" and "distinct xs" and "distinct ys" and "set xs = set ys"
  shows "sort_by lt xs = sort_by lt ys"
  by (rule sorted_unique) (use assms sorted_sort_by in auto)

lemma hd_sort_by_least:
  assumes "dom_ok (set xs)" and "distinct xs" and "sort_by lt xs = m # rest" and "y \<in> set xs"
  shows "y = m \<or> lt m y"
proof -
  have "sorted_wrt lt (m # rest)"
    using sorted_sort_by [OF assms(1,2)] assms(3) by simp
  moreover have "y \<in> set (m # rest)"
    using assms(3,4) set_sort_by [of lt xs] by simp
  ultimately show ?thesis by auto
qed

end

section \<open>Invariants of transition systems\<close>

text \<open>
  The interface between a component's step relation and its invariant: what holds initially and
  is kept by every step holds in every reachable state.
\<close>

inductive reach :: "('s \<Rightarrow> bool) \<Rightarrow> ('s \<Rightarrow> 's \<Rightarrow> bool) \<Rightarrow> 's \<Rightarrow> bool"
  for init :: "'s \<Rightarrow> bool" and step :: "'s \<Rightarrow> 's \<Rightarrow> bool" where
  reach_init: "init s \<Longrightarrow> reach init step s"
| reach_step: "reach init step s \<Longrightarrow> step s t \<Longrightarrow> reach init step t"

locale inductive_invariant =
  fixes init :: "'s \<Rightarrow> bool"
    and step :: "'s \<Rightarrow> 's \<Rightarrow> bool"
    and inv :: "'s \<Rightarrow> bool"
  assumes inv_init: "init s \<Longrightarrow> inv s"
    and inv_step: "inv s \<Longrightarrow> step s t \<Longrightarrow> inv t"
begin

lemma reach_inv: "reach init step s \<Longrightarrow> inv s"
  by (induction rule: reach.induct) (auto intro: inv_init inv_step)

lemma steps_inv: "step\<^sup>*\<^sup>* s t \<Longrightarrow> inv s \<Longrightarrow> inv t"
  by (induction rule: rtranclp_induct) (auto intro: inv_step)

end

text \<open>A preorder on states that every step respects is respected by runs.\<close>

locale monotone_steps =
  fixes step :: "'s \<Rightarrow> 's \<Rightarrow> bool"
    and inv :: "'s \<Rightarrow> bool"
    and rel :: "'s \<Rightarrow> 's \<Rightarrow> bool"
  assumes rel_refl: "rel s s"
    and rel_trans: "rel s t \<Longrightarrow> rel t u \<Longrightarrow> rel s u"
    and keep_inv: "inv s \<Longrightarrow> step s t \<Longrightarrow> inv t"
    and step_rel: "inv s \<Longrightarrow> step s t \<Longrightarrow> rel s t"
begin

lemma steps_rel: "step\<^sup>*\<^sup>* s t \<Longrightarrow> inv s \<Longrightarrow> rel s t \<and> inv t"
proof (induction rule: rtranclp_induct)
  case base
  then show ?case using rel_refl by simp
next
  case (step t u)
  then show ?case using rel_trans step_rel keep_inv by blast
qed

end

end
