(* ===== verification/GoText.thy ===== *)
theory GoText
  imports Prelude
begin

text \<open>
  Go strings are byte strings, here \<open>string\<close> (a list of \<open>char\<close>, one per byte). This theory
  models what the program uses of the packages \<open>strings\<close>, \<open>unicode/utf8\<close>, \<open>encoding/hex\<close> and
  \<open>strconv\<close>, the identifier filter \<open>CleanID\<close> of \<^verbatim>\<open>internal/state/state.go\<close>, and the log window of
  \<^verbatim>\<open>internal/state/job_logs.go\<close> rests on it. \<open>string\<close> is ordered by
  \<open>HOL-Library.List_Lexorder\<close> over \<open>HOL-Library.Char_ord\<close>, which is Go's bytewise order.
\<close>

section \<open>Bytes\<close>

definition byte :: "char \<Rightarrow> nat" where
  "byte c = of_char c"

definition nul :: char where "nul = CHR 0x00"
definition unit_sep :: char where "unit_sep = CHR 0x1F"

definition is_lower :: "char \<Rightarrow> bool" where
  "is_lower c \<longleftrightarrow> 97 \<le> byte c \<and> byte c \<le> 122"

definition is_upper :: "char \<Rightarrow> bool" where
  "is_upper c \<longleftrightarrow> 65 \<le> byte c \<and> byte c \<le> 90"

definition is_digit :: "char \<Rightarrow> bool" where
  "is_digit c \<longleftrightarrow> 48 \<le> byte c \<and> byte c \<le> 57"

section \<open>strings.TrimSpace\<close>

text \<open>
  The Unicode white space runes in UTF-8. \<open>ws_len\<close> is the length in bytes of such a rune at the
  head of the string, 0 if there is none; on the reversed string and the reversed encodings it
  is the length of the last rune.
\<close>

definition ws_runes :: "nat list list" where
  "ws_runes =
     [[9], [10], [11], [12], [13], [32], [0xC2, 0x85], [0xC2, 0xA0], [0xE1, 0x9A, 0x80],
      [0xE2, 0x80, 0x80], [0xE2, 0x80, 0x81], [0xE2, 0x80, 0x82], [0xE2, 0x80, 0x83],
      [0xE2, 0x80, 0x84], [0xE2, 0x80, 0x85], [0xE2, 0x80, 0x86], [0xE2, 0x80, 0x87],
      [0xE2, 0x80, 0x88], [0xE2, 0x80, 0x89], [0xE2, 0x80, 0x8A], [0xE2, 0x80, 0xA8],
      [0xE2, 0x80, 0xA9], [0xE2, 0x80, 0xAF], [0xE2, 0x81, 0x9F], [0xE3, 0x80, 0x80]]"

fun ws_len :: "nat list list \<Rightarrow> nat list \<Rightarrow> nat" where
  "ws_len [] bs = 0"
| "ws_len (q # qs) bs = (if take (length q) bs = q then length q else ws_len qs bs)"

definition ws_head :: "nat list \<Rightarrow> nat" where
  "ws_head = ws_len ws_runes"

definition ws_last :: "nat list \<Rightarrow> nat" where
  "ws_last = ws_len (map rev ws_runes)"

lemma ws_len_eq_0_iff:
  "[] \<notin> set qs \<Longrightarrow> ws_len qs bs = 0 \<longleftrightarrow> (\<forall>q \<in> set qs. take (length q) bs \<noteq> q)"
  by (induction qs) auto

lemma ws_runes_nonempty: "[] \<notin> set ws_runes" "[] \<notin> set (map rev ws_runes)"
  by (simp_all add: ws_runes_def)

function drop_ws :: "(nat list \<Rightarrow> nat) \<Rightarrow> string \<Rightarrow> string" where
  "drop_ws w s =
     (let n = w (map byte s) in if n = 0 \<or> s = [] then s else drop_ws w (drop n s))"
  by pat_completeness auto
termination
  by (relation "measure (\<lambda>(w, s). length s)") auto

declare drop_ws.simps [simp del]

definition trim :: "string \<Rightarrow> string" where
  "trim s = rev (drop_ws ws_last (rev (drop_ws ws_head s)))"

lemma drop_ws_suffix: "\<exists>p. s = p @ drop_ws w s"
proof (induction w s rule: drop_ws.induct)
  case (1 w s)
  show ?case
  proof (cases "w (map byte s) = 0 \<or> s = []")
    case True
    then show ?thesis by (auto simp: drop_ws.simps [of w s] Let_def)
  next
    case False
    let ?t = "drop (w (map byte s)) s"
    obtain p where "?t = p @ drop_ws w ?t"
      using 1 False by auto
    then have "s = (take (w (map byte s)) s @ p) @ drop_ws w ?t"
      by (metis append.assoc append_take_drop_id)
    moreover have "drop_ws w s = drop_ws w ?t"
      using False by (simp add: drop_ws.simps [of w s] Let_def)
    ultimately show ?thesis by metis
  qed
qed

lemma drop_ws_stable: "drop_ws w s = [] \<or> w (map byte (drop_ws w s)) = 0"
proof (induction w s rule: drop_ws.induct)
  case (1 w s)
  then show ?case
    by (cases "w (map byte s) = 0 \<or> s = []")
      (auto simp: drop_ws.simps [of w s] Let_def)
qed

lemma drop_ws_fixed: "w (map byte s) = 0 \<Longrightarrow> drop_ws w s = s"
  by (simp add: drop_ws.simps)

lemma drop_ws_Nil [simp]: "drop_ws w [] = []"
  by (simp add: drop_ws.simps)

lemma take_prefix_eq: "take (length q) xs = q \<Longrightarrow> take (length q) (xs @ ys) = q"
  by (metis append_eq_conv_conj append_take_drop_id append.assoc)

lemma ws_head_prefix: "ws_head xs \<noteq> 0 \<Longrightarrow> ws_head (xs @ ys) \<noteq> 0"
  unfolding ws_head_def ws_len_eq_0_iff [OF ws_runes_nonempty(1)]
  using take_prefix_eq [of _ xs ys] by blast

lemma trim_Nil [simp]: "trim [] = []"
  by (simp add: trim_def)

lemma trim_idem [simp]: "trim (trim s) = trim s"
proof -
  let ?l = "drop_ws ws_head s"
  let ?r = "drop_ws ws_last (rev ?l)"
  obtain p where p: "rev ?l = p @ ?r"
    using drop_ws_suffix by blast
  then have l: "?l = rev ?r @ rev p"
    by (metis rev_append rev_rev_ident)
  have head: "drop_ws ws_head (rev ?r) = rev ?r"
  proof (cases "?l = []")
    case True
    then show ?thesis using l by simp
  next
    case False
    then have "ws_head (map byte ?l) = 0"
      using drop_ws_stable [of ws_head s] by blast
    then have "ws_head (map byte (rev ?r) @ map byte (rev p)) = 0"
      using l by (metis map_append)
    then have "ws_head (map byte (rev ?r)) = 0"
      using ws_head_prefix by blast
    then show ?thesis by (rule drop_ws_fixed)
  qed
  have last: "drop_ws ws_last ?r = ?r"
    using drop_ws_stable [of ws_last "rev ?l"] drop_ws_fixed [of ws_last ?r] by auto
  show ?thesis
    using head last by (simp add: trim_def)
qed

section \<open>UTF-8\<close>

text \<open>
  \<open>utf8.DecodeRune\<close>: the rune at the head and its width; \<open>(0xFFFD, 1)\<close> for an invalid
  encoding and \<open>(0xFFFD, 0)\<close> for the empty string.
\<close>

definition cont :: "nat \<Rightarrow> bool" where
  "cont b \<longleftrightarrow> 0x80 \<le> b \<and> b \<le> 0xBF"

definition rune2 :: "nat \<Rightarrow> nat list \<Rightarrow> nat \<times> nat" where
  "rune2 a rest = (case rest of
     b # _ \<Rightarrow> if cont b then ((a - 0xC0) * 64 + (b - 0x80), 2) else (0xFFFD, 1)
   | [] \<Rightarrow> (0xFFFD, 1))"

definition rune3 :: "nat \<Rightarrow> nat list \<Rightarrow> nat \<times> nat" where
  "rune3 a rest = (case rest of
     b # c # _ \<Rightarrow>
       if cont b \<and> cont c \<and> (a = 0xE0 \<longrightarrow> 0xA0 \<le> b) \<and> (a = 0xED \<longrightarrow> b \<le> 0x9F)
       then ((a - 0xE0) * 4096 + (b - 0x80) * 64 + (c - 0x80), 3) else (0xFFFD, 1)
   | _ \<Rightarrow> (0xFFFD, 1))"

definition rune4 :: "nat \<Rightarrow> nat list \<Rightarrow> nat \<times> nat" where
  "rune4 a rest = (case rest of
     b # c # d # _ \<Rightarrow>
       if cont b \<and> cont c \<and> cont d \<and> (a = 0xF0 \<longrightarrow> 0x90 \<le> b) \<and> (a = 0xF4 \<longrightarrow> b \<le> 0x8F)
       then ((a - 0xF0) * 262144 + (b - 0x80) * 4096 + (c - 0x80) * 64 + (d - 0x80), 4)
       else (0xFFFD, 1)
   | _ \<Rightarrow> (0xFFFD, 1))"

fun decode_rune :: "nat list \<Rightarrow> nat \<times> nat" where
  "decode_rune [] = (0xFFFD, 0)"
| "decode_rune (a # rest) =
     (if a < 0x80 then (a, 1)
      else if 0xC2 \<le> a \<and> a \<le> 0xDF then rune2 a rest
      else if 0xE0 \<le> a \<and> a \<le> 0xEF then rune3 a rest
      else if 0xF0 \<le> a \<and> a \<le> 0xF4 then rune4 a rest
      else (0xFFFD, 1))"

lemma rune_widths:
  "1 \<le> snd (rune2 a rest) \<and> snd (rune2 a rest) \<le> Suc (length rest) \<and> snd (rune2 a rest) \<le> 4"
  "1 \<le> snd (rune3 a rest) \<and> snd (rune3 a rest) \<le> Suc (length rest) \<and> snd (rune3 a rest) \<le> 4"
  "1 \<le> snd (rune4 a rest) \<and> snd (rune4 a rest) \<le> Suc (length rest) \<and> snd (rune4 a rest) \<le> 4"
  by (auto simp: rune2_def rune3_def rune4_def split: list.splits)

definition rune_start :: "nat \<Rightarrow> bool" where
  "rune_start b \<longleftrightarrow> \<not> cont b"

lemma decode_rune_width:
  "s \<noteq> [] \<Longrightarrow> 1 \<le> snd (decode_rune s) \<and> snd (decode_rune s) \<le> length s"
  using rune_widths by (cases s) auto

lemma decode_rune_width_le4: "snd (decode_rune s) \<le> 4"
  using rune_widths by (cases s) auto

text \<open>The runes a \<open>range\<close> loop over a string yields, each with its width in bytes.\<close>

function runes :: "nat list \<Rightarrow> (nat \<times> nat) list" where
  "runes s = (if s = [] then [] else decode_rune s # runes (drop (snd (decode_rune s)) s))"
  by pat_completeness auto
termination
proof (relation "measure length")
  fix s :: "nat list"
  assume "s \<noteq> []"
  then show "(drop (snd (decode_rune s)) s, s) \<in> measure length"
    using decode_rune_width [of s] by (auto simp: neq_Nil_conv)
qed auto

declare runes.simps [simp del]

lemma runes_Nil [simp]: "runes [] = []"
  by (simp add: runes.simps)

lemma runes_ascii: "a < 0x80 \<Longrightarrow> runes (a # s) = (a, 1) # runes s"
  by (simp add: runes.simps [of "a # s"])

definition valid_utf8 :: "string \<Rightarrow> bool" where
  "valid_utf8 s \<longleftrightarrow> (\<forall>r \<in> set (runes (map byte s)). r \<noteq> (0xFFFD, 1))"

section \<open>CleanID\<close>

definition clean_rune :: "nat \<Rightarrow> bool" where
  "clean_rune r \<longleftrightarrow>
     97 \<le> r \<and> r \<le> 122 \<or> 65 \<le> r \<and> r \<le> 90 \<or> 48 \<le> r \<and> r \<le> 57 \<or>
     r = 46 \<or> r = 45 \<or> r = 95 \<or> r = 58"

definition CleanID :: "string \<Rightarrow> string" where
  "CleanID value =
     (let value = trim value
      in map (\<lambda>(r, n). if clean_rune r then char_of r else CHR ''_'') (runes (map byte value)))"

lemma byte_char_of [simp]: "n < 256 \<Longrightarrow> byte (char_of n) = n"
  by (simp add: byte_def)

lemma char_of_byte [simp]: "char_of (byte c) = c"
  by (simp add: byte_def)

lemma byte_less [simp]: "byte c < 256"
  using range_nat_of_char by (auto simp: byte_def)

lemma clean_rune_ascii: "clean_rune r \<Longrightarrow> r < 0x80"
  by (auto simp: clean_rune_def)

lemma runes_clean: "list_all clean_rune bs \<Longrightarrow> runes bs = map (\<lambda>b. (b, 1)) bs"
  by (induction bs) (auto simp: runes_ascii dest: clean_rune_ascii)

lemma ws_len_hd:
  assumes "\<forall>q \<in> set qs. q \<noteq> [] \<and> hd q \<noteq> b"
  shows "ws_len qs (b # bs) = 0"
proof -
  have "take (length q) (b # bs) \<noteq> q" if "q \<in> set qs" for q
    using assms that by (cases q) auto
  then show ?thesis
    using assms by (subst ws_len_eq_0_iff) auto
qed

lemma ws_runes_not_clean:
  "\<forall>q \<in> set ws_runes. q \<noteq> [] \<and> \<not> clean_rune (hd q)"
  "\<forall>q \<in> set (map rev ws_runes). q \<noteq> [] \<and> \<not> clean_rune (hd q)"
  by (simp_all add: ws_runes_def clean_rune_def)

lemma ws_head_clean: "clean_rune b \<Longrightarrow> ws_head (b # bs) = 0"
  unfolding ws_head_def using ws_runes_not_clean(1) by (intro ws_len_hd) metis

lemma ws_last_clean: "clean_rune b \<Longrightarrow> ws_last (b # bs) = 0"
  unfolding ws_last_def using ws_runes_not_clean(2) by (intro ws_len_hd) metis

lemma ws_Nil [simp]: "ws_head [] = 0" "ws_last [] = 0"
  by (simp_all add: ws_head_def ws_last_def ws_runes_def)

lemma trim_clean: "list_all (clean_rune \<circ> byte) s \<Longrightarrow> trim s = s"
proof -
  assume c: "list_all (clean_rune \<circ> byte) s"
  have h: "ws_head (map byte s) = 0"
    using c by (cases s) (simp_all add: ws_head_clean)
  have l: "ws_last (map byte (rev s)) = 0"
    using c by (cases "rev s") (auto simp: list_all_iff ws_last_clean simp flip: set_rev [of s])
  show ?thesis
    using drop_ws_fixed [of ws_head s, OF h] drop_ws_fixed [of ws_last "rev s", OF l]
    by (simp add: trim_def)
qed

text \<open>The identifiers \<open>CleanID\<close> leaves alone are those made of its alphabet.\<close>

lemma clean_rune_95 [simp]: "clean_rune 95"
  by (simp add: clean_rune_def)

lemma CleanID_clean: "list_all (clean_rune \<circ> byte) (CleanID s)"
  unfolding list_all_iff
proof
  fix c assume "c \<in> set (CleanID s)"
  then obtain r where "c = (if clean_rune r then char_of r else CHR ''_'')"
    by (auto simp: CleanID_def Let_def)
  then show "(clean_rune \<circ> byte) c"
    using clean_rune_ascii [of r] by (auto simp: byte_def)
qed

lemma CleanID_fixed_iff: "CleanID s = s \<longleftrightarrow> list_all (clean_rune \<circ> byte) s"
proof
  assume "CleanID s = s"
  then show "list_all (clean_rune \<circ> byte) s" using CleanID_clean by metis
next
  assume c: "list_all (clean_rune \<circ> byte) s"
  then have "list_all clean_rune (map byte s)"
    by (simp add: list_all_iff)
  then have r: "runes (map byte s) = map (\<lambda>b. (b, 1)) (map byte s)"
    by (rule runes_clean)
  have "map (\<lambda>b. if clean_rune b then char_of b else CHR ''_'') (map byte s) = s"
    using c by (induction s) auto
  then show "CleanID s = s"
    by (simp add: CleanID_def trim_clean [OF c] r comp_def)
qed

section \<open>Prefixes, hexadecimal digests, decimal numbers\<close>

fun has_prefix :: "string \<Rightarrow> string \<Rightarrow> bool" where
  "has_prefix s [] = True"
| "has_prefix [] (c # p) = False"
| "has_prefix (d # s) (c # p) = (c = d \<and> has_prefix s p)"

lemma has_prefix_append [simp]: "has_prefix (p @ s) p"
  by (induction p) auto

lemma has_prefix_iff: "has_prefix s p \<longleftrightarrow> (\<exists>t. s = p @ t)"
proof
  show "has_prefix s p \<Longrightarrow> \<exists>t. s = p @ t"
    by (induction s p rule: has_prefix.induct) auto
qed auto

text \<open>\<open>hex.DecodeString\<close> succeeds on an even number of hexadecimal digits.\<close>

definition hex_digit :: "char \<Rightarrow> bool" where
  "hex_digit c \<longleftrightarrow> is_digit c \<or> 97 \<le> byte c \<and> byte c \<le> 102 \<or> 65 \<le> byte c \<and> byte c \<le> 70"

definition hex_decodable :: "string \<Rightarrow> bool" where
  "hex_decodable s \<longleftrightarrow> even (length s) \<and> list_all hex_digit s"

definition hex_of :: "nat \<Rightarrow> char" where
  "hex_of n = (if n < 10 then char_of (48 + n) else char_of (87 + n))"

text \<open>\<open>hex.EncodeToString\<close> of a list of bytes.\<close>

definition hex_encode :: "nat list \<Rightarrow> string" where
  "hex_encode bs = concat (map (\<lambda>b. [hex_of (b div 16), hex_of (b mod 16)]) bs)"

lemma hex_digit_hex_of: "n < 16 \<Longrightarrow> hex_digit (hex_of n)"
  by (auto simp: hex_digit_def hex_of_def is_digit_def byte_def of_char_of)

lemma length_hex_encode [simp]: "length (hex_encode bs) = 2 * length bs"
  by (induction bs) (simp_all add: hex_encode_def)

lemma hex_decodable_hex_encode:
  "\<forall>b \<in> set bs. b < 256 \<Longrightarrow> hex_decodable (hex_encode bs)"
proof -
  assume "\<forall>b \<in> set bs. b < 256"
  then have "list_all hex_digit (hex_encode bs)"
    by (auto simp: list_all_iff hex_encode_def intro!: hex_digit_hex_of)
  then show ?thesis by (simp add: hex_decodable_def)
qed

text \<open>\<open>strconv.FormatInt(n, 10)\<close>.\<close>

fun digits10 :: "nat \<Rightarrow> string" where
  "digits10 n = (if n < 10 then [char_of (48 + n)] else digits10 (n div 10) @ [char_of (48 + n mod 10)])"

declare digits10.simps [simp del]

definition itoa :: "int \<Rightarrow> string" where
  "itoa n = (if n < 0 then CHR ''-'' # digits10 (nat (- n)) else digits10 (nat n))"

section \<open>Small helpers of the program\<close>

fun firstNonEmpty :: "string list \<Rightarrow> string" where
  "firstNonEmpty [] = []"
| "firstNonEmpty (v # vs) = (if v \<noteq> [] then v else firstNonEmpty vs)"

definition stringPtr :: "string \<Rightarrow> string option" where
  "stringPtr value = (if value = [] then None else Some value)"

definition join :: "string \<Rightarrow> string list \<Rightarrow> string" where
  "join sep parts = (case parts of [] \<Rightarrow> [] | p # ps \<Rightarrow> p @ concat (map (\<lambda>x. sep @ x) ps))"

text \<open>A set of strings collected in a Go map and listed in sorted order.\<close>

definition sorted_set :: "string list \<Rightarrow> string list" where
  "sorted_set xs = sort (remdups xs)"

lemma set_sorted_set [simp]: "set (sorted_set xs) = set xs"
  by (simp add: sorted_set_def)

lemma distinct_sorted_set [simp]: "distinct (sorted_set xs)"
  by (simp add: sorted_set_def)

lemma sorted_sorted_set [simp]: "sorted (sorted_set xs)"
  by (simp add: sorted_set_def)

lemma sorted_set_eq_iff: "sorted_set xs = sorted_set ys \<longleftrightarrow> set xs = set ys"
  by (metis distinct_sorted_set set_sorted_set sorted_distinct_set_unique sorted_sorted_set)

lemma sorted_set_idem [simp]: "sorted_set (sorted_set xs) = sorted_set xs"
  by (simp add: sorted_set_eq_iff)

section \<open>strings.ToLower\<close>

text \<open>
  The case ranges of Go's \<open>unicode\<close> tables (Unicode 15.0): first rune, last rune, stride and the
  difference to the lower case rune.
\<close>

definition lower_ranges :: "(nat \<times> nat \<times> nat \<times> int) list" where
  "lower_ranges =
     [(65, 90, 1, 32), (192, 214, 1, 32), (216, 222, 1, 32), (256, 302, 2, 1),
      (304, 304, 1, - 199), (306, 310, 2, 1), (313, 327, 2, 1), (330, 374, 2, 1),
      (376, 376, 1, - 121), (377, 381, 2, 1), (385, 385, 1, 210), (386, 388, 2, 1),
      (390, 390, 1, 206), (391, 391, 1, 1), (393, 394, 1, 205), (395, 395, 1, 1),
      (398, 398, 1, 79), (399, 399, 1, 202), (400, 400, 1, 203), (401, 401, 1, 1),
      (403, 403, 1, 205), (404, 404, 1, 207), (406, 406, 1, 211), (407, 407, 1, 209),
      (408, 408, 1, 1), (412, 412, 1, 211), (413, 413, 1, 213), (415, 415, 1, 214),
      (416, 420, 2, 1), (422, 422, 1, 218), (423, 423, 1, 1), (425, 425, 1, 218), (428, 428, 1, 1),
      (430, 430, 1, 218), (431, 431, 1, 1), (433, 434, 1, 217), (435, 437, 2, 1),
      (439, 439, 1, 219), (440, 440, 1, 1), (444, 444, 1, 1), (452, 452, 1, 2), (453, 453, 1, 1),
      (455, 455, 1, 2), (456, 456, 1, 1), (458, 458, 1, 2), (459, 475, 2, 1), (478, 494, 2, 1),
      (497, 497, 1, 2), (498, 500, 2, 1), (502, 502, 1, - 97), (503, 503, 1, - 56),
      (504, 542, 2, 1), (544, 544, 1, - 130), (546, 562, 2, 1), (570, 570, 1, 10795),
      (571, 571, 1, 1), (573, 573, 1, - 163), (574, 574, 1, 10792), (577, 577, 1, 1),
      (579, 579, 1, - 195), (580, 580, 1, 69), (581, 581, 1, 71), (582, 590, 2, 1),
      (880, 882, 2, 1), (886, 886, 1, 1), (895, 895, 1, 116), (902, 902, 1, 38), (904, 906, 1, 37),
      (908, 908, 1, 64), (910, 911, 1, 63), (913, 929, 1, 32), (931, 939, 1, 32), (975, 975, 1, 8),
      (984, 1006, 2, 1), (1012, 1012, 1, - 60), (1015, 1015, 1, 1), (1017, 1017, 1, - 7),
      (1018, 1018, 1, 1), (1021, 1023, 1, - 130), (1024, 1039, 1, 80), (1040, 1071, 1, 32),
      (1120, 1152, 2, 1), (1162, 1214, 2, 1), (1216, 1216, 1, 15), (1217, 1229, 2, 1),
      (1232, 1326, 2, 1), (1329, 1366, 1, 48), (4256, 4293, 1, 7264), (4295, 4295, 1, 7264),
      (4301, 4301, 1, 7264), (5024, 5103, 1, 38864), (5104, 5109, 1, 8), (7312, 7354, 1, - 3008),
      (7357, 7359, 1, - 3008), (7680, 7828, 2, 1), (7838, 7838, 1, - 7615), (7840, 7934, 2, 1),
      (7944, 7951, 1, - 8), (7960, 7965, 1, - 8), (7976, 7983, 1, - 8), (7992, 7999, 1, - 8),
      (8008, 8013, 1, - 8), (8025, 8031, 2, - 8), (8040, 8047, 1, - 8), (8072, 8079, 1, - 8),
      (8088, 8095, 1, - 8), (8104, 8111, 1, - 8), (8120, 8121, 1, - 8), (8122, 8123, 1, - 74),
      (8124, 8124, 1, - 9), (8136, 8139, 1, - 86), (8140, 8140, 1, - 9), (8152, 8153, 1, - 8),
      (8154, 8155, 1, - 100), (8168, 8169, 1, - 8), (8170, 8171, 1, - 112), (8172, 8172, 1, - 7),
      (8184, 8185, 1, - 128), (8186, 8187, 1, - 126), (8188, 8188, 1, - 9),
      (8486, 8486, 1, - 7517), (8490, 8490, 1, - 8383), (8491, 8491, 1, - 8262),
      (8498, 8498, 1, 28), (8544, 8559, 1, 16), (8579, 8579, 1, 1), (9398, 9423, 1, 26),
      (11264, 11311, 1, 48), (11360, 11360, 1, 1), (11362, 11362, 1, - 10743),
      (11363, 11363, 1, - 3814), (11364, 11364, 1, - 10727), (11367, 11371, 2, 1),
      (11373, 11373, 1, - 10780), (11374, 11374, 1, - 10749), (11375, 11375, 1, - 10783),
      (11376, 11376, 1, - 10782), (11378, 11378, 1, 1), (11381, 11381, 1, 1),
      (11390, 11391, 1, - 10815), (11392, 11490, 2, 1), (11499, 11501, 2, 1), (11506, 11506, 1, 1),
      (42560, 42604, 2, 1), (42624, 42650, 2, 1), (42786, 42798, 2, 1), (42802, 42862, 2, 1),
      (42873, 42875, 2, 1), (42877, 42877, 1, - 35332), (42878, 42886, 2, 1), (42891, 42891, 1, 1),
      (42893, 42893, 1, - 42280), (42896, 42898, 2, 1), (42902, 42920, 2, 1),
      (42922, 42922, 1, - 42308), (42923, 42923, 1, - 42319), (42924, 42924, 1, - 42315),
      (42925, 42925, 1, - 42305), (42926, 42926, 1, - 42308), (42928, 42928, 1, - 42258),
      (42929, 42929, 1, - 42282), (42930, 42930, 1, - 42261), (42931, 42931, 1, 928),
      (42932, 42946, 2, 1), (42948, 42948, 1, - 48), (42949, 42949, 1, - 42307),
      (42950, 42950, 1, - 35384), (42951, 42953, 2, 1), (42960, 42960, 1, 1), (42966, 42968, 2, 1),
      (42997, 42997, 1, 1), (65313, 65338, 1, 32), (66560, 66599, 1, 40), (66736, 66771, 1, 40),
      (66928, 66964, 2, 39), (66929, 66937, 2, 39), (66941, 66953, 2, 39), (66957, 66961, 2, 39),
      (66965, 66965, 1, 39), (68736, 68786, 1, 64), (71840, 71871, 1, 32), (93760, 93791, 1, 32),
      (125184, 125217, 1, 34)]"

fun lower_in :: "(nat \<times> nat \<times> nat \<times> int) list \<Rightarrow> nat \<Rightarrow> nat" where
  "lower_in [] r = r"
| "lower_in ((lo, hi, stride, delta) # ranges) r =
     (if lo \<le> r \<and> r \<le> hi \<and> (r - lo) mod stride = 0 then nat (int r + delta) else lower_in ranges r)"

definition encode_rune :: "nat \<Rightarrow> nat list" where
  "encode_rune r =
     (if r < 0x80 then [r]
      else if r < 0x800 then [0xC0 + r div 64, 0x80 + r mod 64]
      else if r < 0x10000 then [0xE0 + r div 4096, 0x80 + r div 64 mod 64, 0x80 + r mod 64]
      else [0xF0 + r div 262144, 0x80 + r div 4096 mod 64, 0x80 + r div 64 mod 64, 0x80 + r mod 64])"

text \<open>Each rune is mapped; an invalid byte becomes U+FFFD, except that an ASCII string never has one.\<close>

definition to_lower :: "string \<Rightarrow> string" where
  "to_lower s = map char_of (concat (map (\<lambda>(r, n). encode_rune (lower_in lower_ranges r)) (runes (map byte s))))"

section \<open>strings.Split\<close>

fun split_on :: "char \<Rightarrow> string \<Rightarrow> string list" where
  "split_on sep [] = [[]]"
| "split_on sep (c # cs) =
     (if c = sep then [] # split_on sep cs
      else (case split_on sep cs of [] \<Rightarrow> [[c]] | t # ts \<Rightarrow> (c # t) # ts))"

lemma split_on_not_Nil [simp]: "split_on sep s \<noteq> []"
  by (induction s) (auto split: list.splits)

lemma join_split_on: "join [sep] (split_on sep s) = s"
proof (induction s)
  case (Cons c cs)
  then show ?case
    by (cases "split_on sep cs") (auto simp: join_def)
qed (simp add: join_def)

lemma split_on_no_sep: "\<forall>t \<in> set (split_on sep s). sep \<notin> set t"
  by (induction s) (auto split: list.splits)

section \<open>time.RFC3339\<close>

text \<open>
  The UTC calendar date of a day number counted from 1 January of year 1, by the cycles of the
  Gregorian calendar: 400, 100, 4 and 1 years.
\<close>

definition year_day :: "int \<Rightarrow> int \<times> int" where
  "year_day d =
     (let n400 = d div 146097; d1 = d mod 146097;
          n100 = min 3 (d1 div 36524); d2 = d1 - n100 * 36524;
          n4 = d2 div 1461; d3 = d2 mod 1461;
          n1 = min 3 (d3 div 365); d4 = d3 - n1 * 365
      in (400 * n400 + 100 * n100 + 4 * n4 + n1 + 1, d4))"

definition leap_year :: "int \<Rightarrow> bool" where
  "leap_year y \<longleftrightarrow> y mod 4 = 0 \<and> (y mod 100 \<noteq> 0 \<or> y mod 400 = 0)"

fun month_day :: "int \<Rightarrow> int list \<Rightarrow> int \<Rightarrow> int \<times> int" where
  "month_day m [] d = (m, d)"
| "month_day m (len # lens) d = (if d < len then (m, d + 1) else month_day (m + 1) lens (d - len))"

definition month_lengths :: "int \<Rightarrow> int list" where
  "month_lengths y = [31, if leap_year y then 29 else 28, 31, 30, 31, 30, 31, 31, 30, 31, 30, 31]"

definition pad :: "nat \<Rightarrow> int \<Rightarrow> string" where
  "pad n v = (let t = digits10 (nat v) in replicate (n - length t) (CHR ''0'') @ t)"

definition rfc3339 :: "time \<Rightarrow> string" where
  "rfc3339 t =
     (let secs = t div nanos_per_second; day = secs div 86400; sec = secs mod 86400;
          (y, yd) = year_day day; (m, md) = month_day 1 (month_lengths y) yd
      in pad 4 y @ ''-'' @ pad 2 m @ ''-'' @ pad 2 md @ ''T'' @ pad 2 (sec div 3600) @ '':'' @
         pad 2 (sec div 60 mod 60) @ '':'' @ pad 2 (sec mod 60) @ ''Z'')"

end
