(* ===== verification/Json.thy ===== *)
theory Json
  imports GoText
begin

text \<open>
  What the program uses of \<open>encoding/json\<close>. A \<open>json.RawMessage\<close> is its bytes (\<open>raw\<close>).
  \<open>json_parse\<close> is the decoder's grammar; a \<open>json\<close> tree keeps number and string literals as
  they are spelled, so that \<open>compact\<close> is what \<open>Marshal\<close> writes for a raw message. \<open>json_valid\<close>
  is \<open>json.Valid\<close>, \<open>unmarshal_object\<close> is \<open>Unmarshal\<close> into a \<open>map[string]json.RawMessage\<close>
  and \<open>marshal_object\<close> writes such a map. The parser has fuel: every character costs at most two
  units, and \<open>p_value_fuel\<close> shows that the amount \<open>json_parse\<close> supplies is enough.
\<close>

datatype json =
    JNull
  | JBool bool
  | JNum string
  | JStr string
  | JArr "json list"
  | JObj "(string \<times> json) list"

section \<open>Scanning\<close>

definition json_space :: "char \<Rightarrow> bool" where
  "json_space c \<longleftrightarrow> byte c = 32 \<or> byte c = 9 \<or> byte c = 10 \<or> byte c = 13"

definition skip_ws :: "string \<Rightarrow> string" where
  "skip_ws s = dropWhile json_space s"

definition dquote :: char where "dquote = CHR 0x22"
definition backslash :: char where "backslash = CHR 0x5C"

definition simple_escape :: "char \<Rightarrow> bool" where
  "simple_escape c \<longleftrightarrow> c = dquote \<or> c = backslash \<or> c \<in> set ''/bfnrt''"

text \<open>A string literal after its opening quote: its text and what follows the closing quote.\<close>

fun scan_str :: "string \<Rightarrow> (string \<times> string) option" where
  "scan_str [] = None"
| "scan_str (c # s) =
     (if c = dquote then Some ([], s)
      else if byte c < 32 then None
      else if c = backslash then
        (case s of
           [] \<Rightarrow> None
         | e # t \<Rightarrow>
             if simple_escape e then map_option (\<lambda>(l, r). (c # e # l, r)) (scan_str t)
             else if e = CHR ''u'' then
               (case t of
                  h1 # h2 # h3 # h4 # u \<Rightarrow>
                    if hex_digit h1 \<and> hex_digit h2 \<and> hex_digit h3 \<and> hex_digit h4
                    then map_option (\<lambda>(l, r). (c # e # h1 # h2 # h3 # h4 # l, r)) (scan_str u)
                    else None
                | _ \<Rightarrow> None)
             else None)
      else map_option (\<lambda>(l, r). (c # l, r)) (scan_str s))"

definition scan_digits :: "string \<Rightarrow> string \<times> string" where
  "scan_digits s = (takeWhile is_digit s, dropWhile is_digit s)"

definition scan_int :: "string \<Rightarrow> (string \<times> string) option" where
  "scan_int s = (case s of
     [] \<Rightarrow> None
   | c # t \<Rightarrow>
       if c = CHR ''0'' then Some ([c], t)
       else if is_digit c then Some (scan_digits s) else None)"

definition scan_frac :: "string \<Rightarrow> (string \<times> string) option" where
  "scan_frac s = (case s of
     c # t \<Rightarrow>
       if c = CHR ''.'' then
         (case scan_digits t of (ds, r) \<Rightarrow> if ds = [] then None else Some (c # ds, r))
       else Some ([], s)
   | [] \<Rightarrow> Some ([], []))"

definition scan_exp :: "string \<Rightarrow> (string \<times> string) option" where
  "scan_exp s = (case s of
     c # t \<Rightarrow>
       if c = CHR ''e'' \<or> c = CHR ''E'' then
         (case t of
            d # u \<Rightarrow>
              if d = CHR ''+'' \<or> d = CHR ''-'' then
                (case scan_digits u of (ds, r) \<Rightarrow> if ds = [] then None else Some (c # d # ds, r))
              else
                (case scan_digits t of (ds, r) \<Rightarrow> if ds = [] then None else Some (c # ds, r))
          | [] \<Rightarrow> None)
       else Some ([], s)
   | [] \<Rightarrow> Some ([], []))"

definition scan_num :: "string \<Rightarrow> (string \<times> string) option" where
  "scan_num s =
     (let (sign, s1) = (case s of c # t \<Rightarrow> if c = CHR ''-'' then ([c], t) else ([], s) | [] \<Rightarrow> ([], []))
      in case scan_int s1 of None \<Rightarrow> None
       | Some (i, s2) \<Rightarrow> (case scan_frac s2 of None \<Rightarrow> None
         | Some (f, s3) \<Rightarrow> (case scan_exp s3 of None \<Rightarrow> None
           | Some (e, s4) \<Rightarrow> Some (sign @ i @ f @ e, s4))))"

section \<open>Parsing\<close>

fun p_value :: "nat \<Rightarrow> string \<Rightarrow> (json \<times> string) option"
and p_elems :: "nat \<Rightarrow> string \<Rightarrow> (json list \<times> string) option"
and p_members :: "nat \<Rightarrow> string \<Rightarrow> ((string \<times> json) list \<times> string) option" where
  "p_value 0 s = None"
| "p_value (Suc n) s =
     (case skip_ws s of
        [] \<Rightarrow> None
      | c # t \<Rightarrow>
          if c = dquote then map_option (\<lambda>(l, r). (JStr l, r)) (scan_str t)
          else if c = CHR ''{'' then
            (case skip_ws t of
               d # u \<Rightarrow> if d = CHR ''}'' then Some (JObj [], u)
                         else map_option (\<lambda>(ms, r). (JObj ms, r)) (p_members n t)
             | [] \<Rightarrow> None)
          else if c = CHR ''['' then
            (case skip_ws t of
               d # u \<Rightarrow> if d = CHR '']'' then Some (JArr [], u)
                         else map_option (\<lambda>(vs, r). (JArr vs, r)) (p_elems n t)
             | [] \<Rightarrow> None)
          else if has_prefix (c # t) ''true'' then Some (JBool True, drop 4 (c # t))
          else if has_prefix (c # t) ''false'' then Some (JBool False, drop 5 (c # t))
          else if has_prefix (c # t) ''null'' then Some (JNull, drop 4 (c # t))
          else map_option (\<lambda>(l, r). (JNum l, r)) (scan_num (c # t)))"
| "p_elems 0 s = None"
| "p_elems (Suc n) s =
     (case p_value n s of
        None \<Rightarrow> None
      | Some (v, t) \<Rightarrow>
          (case skip_ws t of
             [] \<Rightarrow> None
           | c # u \<Rightarrow>
               if c = CHR '','' then map_option (\<lambda>(vs, r). (v # vs, r)) (p_elems n u)
               else if c = CHR '']'' then Some ([v], u) else None))"
| "p_members 0 s = None"
| "p_members (Suc n) s =
     (case skip_ws s of
        [] \<Rightarrow> None
      | c # t \<Rightarrow>
          if c \<noteq> dquote then None else
          (case scan_str t of
             None \<Rightarrow> None
           | Some (k, u) \<Rightarrow>
               (case skip_ws u of
                  [] \<Rightarrow> None
                | d # w \<Rightarrow>
                    if d \<noteq> CHR '':'' then None else
                    (case p_value n w of
                       None \<Rightarrow> None
                     | Some (v, x) \<Rightarrow>
                         (case skip_ws x of
                            [] \<Rightarrow> None
                          | e # y \<Rightarrow>
                              if e = CHR '','' then
                                map_option (\<lambda>(ms, r). ((k, v) # ms, r)) (p_members n y)
                              else if e = CHR ''}'' then Some ([(k, v)], y) else None)))))"

fun json_depth :: "json \<Rightarrow> nat" where
  "json_depth (JArr vs) = Suc (fold max (map json_depth vs) 0)"
| "json_depth (JObj ms) = Suc (fold max (map (\<lambda>(k, v). json_depth v) ms) 0)"
| "json_depth _ = 0"

text \<open>The decoder refuses more than 10000 nested arrays and objects.\<close>

definition json_parse :: "raw \<Rightarrow> json option" where
  "json_parse s =
     (case p_value (2 * length s + 2) s of
        Some (j, r) \<Rightarrow> if skip_ws r = [] \<and> json_depth j \<le> 10000 then Some j else None
      | None \<Rightarrow> None)"

definition json_valid :: "raw \<Rightarrow> bool" where
  "json_valid s \<longleftrightarrow> json_parse s \<noteq> None"

section \<open>Printing\<close>

text \<open>\<open>Marshal\<close> escapes \<open><\<close>, \<open>>\<close>, \<open>&\<close> and the line separators U+2028, U+2029 of a raw message.\<close>

fun html_escape :: "string \<Rightarrow> string" where
  "html_escape (a # b # c # s) =
     (if byte a = 0xE2 \<and> byte b = 0x80 \<and> (byte c = 0xA8 \<or> byte c = 0xA9)
      then backslash # ''u202'' @ hex_of (byte c mod 16) # html_escape s
      else if a \<in> set ''<>&''
      then backslash # ''u00'' @ [hex_of (byte a div 16), hex_of (byte a mod 16)] @ html_escape (b # c # s)
      else a # html_escape (b # c # s))"
| "html_escape (a # s) =
     (if a \<in> set ''<>&''
      then backslash # ''u00'' @ [hex_of (byte a div 16), hex_of (byte a mod 16)] @ html_escape s
      else a # html_escape s)"
| "html_escape [] = []"

fun compact :: "json \<Rightarrow> string" where
  "compact JNull = ''null''"
| "compact (JBool b) = (if b then ''true'' else ''false'')"
| "compact (JNum l) = l"
| "compact (JStr l) = dquote # html_escape l @ [dquote]"
| "compact (JArr vs) = ''['' @ join '','' (map compact vs) @ '']''"
| "compact (JObj ms) =
     ''{'' @ join '','' (map (\<lambda>(k, v). dquote # html_escape k @ [dquote] @ '':'' @ compact v) ms) @ ''}''"

text \<open>The text of a string literal for a Go string, as \<open>Marshal\<close> writes it.\<close>

function quote_text :: "nat list \<Rightarrow> string" where
  "quote_text bs =
     (case bs of
        [] \<Rightarrow> []
      | b # _ \<Rightarrow>
          (case decode_rune bs of
             (r, n) \<Rightarrow>
               (if b = 34 \<or> b = 92 then [backslash, char_of b]
                else if b = 8 then [backslash, CHR ''b''] else if b = 12 then [backslash, CHR ''f'']
                else if b = 10 then [backslash, CHR ''n''] else if b = 13 then [backslash, CHR ''r'']
                else if b = 9 then [backslash, CHR ''t'']
                else if b < 32 \<or> b = 60 \<or> b = 62 \<or> b = 38
                then backslash # ''u00'' @ [hex_of (b div 16), hex_of (b mod 16)]
                else if (r, n) = (0xFFFD, 1) then backslash # ''ufffd''
                else if r = 0x2028 \<or> r = 0x2029 then backslash # ''u202'' @ [hex_of (r mod 16)]
                else map char_of (take n bs)) @ quote_text (drop (max 1 n) bs)))"
  by pat_completeness auto
termination
  by (relation "measure length") auto

declare quote_text.simps [simp del]

definition JString :: "string \<Rightarrow> json" where
  "JString s = JStr (quote_text (map byte s))"

definition JInt :: "int \<Rightarrow> json" where
  "JInt n = JNum (itoa n)"

section \<open>Objects as Go maps\<close>

definition hex_val :: "char \<Rightarrow> nat" where
  "hex_val c =
     (if is_digit c then byte c - 48 else if byte c \<ge> 97 then byte c - 87 else byte c - 55)"

definition hex4 :: "string \<Rightarrow> nat" where
  "hex4 s = foldl (\<lambda>a c. 16 * a + hex_val c) 0 (take 4 s)"

definition low_surrogate :: "string \<Rightarrow> nat option" where
  "low_surrogate s = (case s of
     a # b # t \<Rightarrow>
       if a = backslash \<and> b = CHR ''u'' \<and> 4 \<le> length t \<and> 0xDC00 \<le> hex4 t \<and> hex4 t < 0xE000
       then Some (hex4 t) else None
   | _ \<Rightarrow> None)"

definition escape_byte :: "char \<Rightarrow> nat" where
  "escape_byte e =
     (if e = CHR ''b'' then 8 else if e = CHR ''f'' then 12 else if e = CHR ''n'' then 10
      else if e = CHR ''r'' then 13 else if e = CHR ''t'' then 9 else byte e)"

text \<open>The Go string a literal denotes: escapes resolved, invalid UTF-8 replaced by U+FFFD.\<close>

function unquote :: "string \<Rightarrow> nat list" where
  "unquote s =
     (case s of
        [] \<Rightarrow> []
      | c # t \<Rightarrow>
          if c = backslash then
            (case t of
               [] \<Rightarrow> []
             | e # u \<Rightarrow>
                 if e = CHR ''u'' then
                   (let r = hex4 u; rest = drop 4 u in
                    if 0xD800 \<le> r \<and> r < 0xE000 then
                      (if r < 0xDC00 \<and> low_surrogate rest \<noteq> None
                       then encode_rune (0x10000 + (r - 0xD800) * 1024 + (the (low_surrogate rest) - 0xDC00))
                            @ unquote (drop 6 rest)
                       else encode_rune 0xFFFD @ unquote rest)
                    else encode_rune r @ unquote rest)
                 else escape_byte e # unquote u)
          else
            (let (r, n) = decode_rune (map byte s) in encode_rune r @ unquote (drop (max 1 n) s)))"
  by pat_completeness auto
termination
  by (relation "measure length") auto

declare unquote.simps [simp del]

definition key_text :: "string \<Rightarrow> string" where
  "key_text lit = map char_of (unquote lit)"

text \<open>
  \<open>Unmarshal\<close> into a \<open>map[string]json.RawMessage\<close>: \<open>None\<close> is an error, \<open>Some None\<close> the nil map
  that \<open>null\<close> gives. A repeated key keeps its last value.
\<close>

definition unmarshal_object :: "raw \<Rightarrow> (string, json) gomap option option" where
  "unmarshal_object s =
     (case json_parse s of
        Some (JObj ms) \<Rightarrow> Some (Some (fold (\<lambda>(k, v) m. put (key_text k) v m) ms []))
      | Some JNull \<Rightarrow> Some None
      | _ \<Rightarrow> None)"

text \<open>\<open>Marshal\<close> writes the members of a map in the order of their keys.\<close>

definition marshal_object :: "(string, json) gomap \<Rightarrow> raw" where
  "marshal_object m =
     compact (JObj (map (\<lambda>(k, v). (quote_text (map byte k), v)) (sort_by (\<lambda>p q. fst p < fst q) m)))"

definition raw_json :: "raw \<Rightarrow> json" where
  "raw_json s = (case json_parse s of Some j \<Rightarrow> j | None \<Rightarrow> JNull)"

lemma json_valid_unmarshal: "unmarshal_object s \<noteq> None \<Longrightarrow> json_valid s"
  by (auto simp: unmarshal_object_def json_valid_def split: option.splits)

section \<open>The fuel is enough\<close>

lemma skip_ws_length: "length (skip_ws s) \<le> length s"
  by (simp add: skip_ws_def length_dropWhile_le)

lemma skip_ws_Cons: "skip_ws s = c # t \<Longrightarrow> length t < length s"
  using skip_ws_length [of s] by simp

lemma scan_str_length: "scan_str s = Some (l, r) \<Longrightarrow> length r < length s"
proof (induction s arbitrary: l r rule: length_induct)
  case (1 s)
  show ?case
  proof (cases s)
    case Nil
    then show ?thesis using 1 by simp
  next
    case (Cons c t)
    have "length r < length u" if "scan_str u = Some (l', r)" "length u < length s" for u l'
      using 1(1) that by blast
    then show ?thesis
      using 1(2) Cons
      by (fastforce split: if_splits list.splits)
  qed
qed

lemma scan_digits_length: "scan_digits s = (ds, r) \<Longrightarrow> length r \<le> length s"
  by (auto simp: scan_digits_def length_dropWhile_le)

lemma scan_int_length: "scan_int s = Some (l, r) \<Longrightarrow> length r < length s"
  by (auto simp: scan_int_def scan_digits_def length_dropWhile_le less_Suc_eq_le split: list.splits if_splits)

lemma scan_frac_length: "scan_frac s = Some (l, r) \<Longrightarrow> length r \<le> length s"
  by (auto simp: scan_frac_def dest!: scan_digits_length split: list.splits if_splits prod.splits)

lemma scan_exp_length: "scan_exp s = Some (l, r) \<Longrightarrow> length r \<le> length s"
  by (auto simp: scan_exp_def dest!: scan_digits_length split: list.splits if_splits prod.splits)

lemma scan_num_length: "scan_num s = Some (l, r) \<Longrightarrow> length r < length s"
  by (fastforce simp: scan_num_def Let_def dest!: scan_int_length scan_frac_length scan_exp_length
      split: list.splits if_splits option.splits)

lemmas scan_lengths = scan_str_length scan_num_length skip_ws_Cons

lemma p_lengths:
  "p_value n s = Some (v, r) \<Longrightarrow> length r < length s"
  "p_elems n s = Some (vs, r) \<Longrightarrow> length r < length s"
  "p_members n s = Some (ms, r) \<Longrightarrow> length r < length s"
proof (induction n s and n s and n s arbitrary: v r and vs r and ms r rule: p_value_p_elems_p_members.induct)
  case (2 n s)
  obtain c t where ct: "skip_ws s = c # t"
    using 2(3) by (cases "skip_ws s") auto
  have len: "length t < length s" using skip_ws_Cons [OF ct] .
  show ?case
  proof -
    have "length r < length t \<or> length r < length (c # t)"
      using 2 ct by (fastforce dest: scan_lengths split: if_splits list.splits)
    then show ?thesis using skip_ws_length [of s] ct by auto
  qed
next
  case (4 n s)
  then show ?case by (fastforce dest: skip_ws_Cons split: option.splits list.splits if_splits)
next
  case (6 n s)
  then show ?case by (fastforce dest: scan_lengths split: option.splits list.splits if_splits)
qed auto

lemma p_fuel:
  "(2 * length s < f \<longrightarrow> 2 * length s < g \<longrightarrow> p_value f s = p_value g s) \<and>
   (2 * length s + 1 < f \<longrightarrow> 2 * length s + 1 < g \<longrightarrow> p_elems f s = p_elems g s) \<and>
   (2 * length s + 1 < f \<longrightarrow> 2 * length s + 1 < g \<longrightarrow> p_members f s = p_members g s)"
proof (induction f arbitrary: g s)
  case (Suc f)
  have V: "p_value f u = p_value g u" if "2 * length u < f" "2 * length u < g" for g u
    using Suc.IH [of u g] that by blast
  have E: "p_elems f u = p_elems g u" if "2 * length u + 1 < f" "2 * length u + 1 < g" for g u
    using Suc.IH [of u g] that by blast
  have M: "p_members f u = p_members g u" if "2 * length u + 1 < f" "2 * length u + 1 < g" for g u
    using Suc.IH [of u g] that by blast
  have val: "p_value (Suc f) s = p_value g s" if b: "2 * length s < Suc f" "2 * length s < g"
  proof (cases g)
    case (Suc g')
    have "p_members f t = p_members g' t" "p_elems f t = p_elems g' t"
      if "skip_ws s = c # t" for c t
      using skip_ws_Cons [OF that] b Suc by (auto intro!: E M)
    then show ?thesis
      using Suc by (auto split: list.split)
  qed (use b in simp)
  have els: "p_elems (Suc f) s = p_elems g s"
    if b: "2 * length s + 1 < Suc f" "2 * length s + 1 < g"
  proof (cases g)
    case (Suc g')
    have v: "p_value f s = p_value g' s"
      using b Suc by (intro V) auto
    have "p_elems f u = p_elems g' u" if "p_value g' s = Some (w, t)" "skip_ws t = c # u" for w t c u
      using p_lengths(1) [OF that(1)] skip_ws_Cons [OF that(2)] b Suc by (intro E) auto
    then show ?thesis
      using Suc v by (auto split: list.split option.split)
  qed (use b in simp)
  have mem: "p_members (Suc f) s = p_members g s"
    if b: "2 * length s + 1 < Suc f" "2 * length s + 1 < g"
  proof (cases g)
    case (Suc g')
    have v: "p_value f w = p_value g' w"
      if "skip_ws s = c # t" "scan_str t = Some (k, u)" "skip_ws u = d # w" for c t k u d w
      using skip_ws_Cons [OF that(1)] scan_str_length [OF that(2)] skip_ws_Cons [OF that(3)] b Suc
      by (intro V) auto
    have m: "p_members f y = p_members g' y"
      if "skip_ws s = c # t" "scan_str t = Some (k, u)" "skip_ws u = d # w"
        "p_value g' w = Some (x, z)" "skip_ws z = e # y" for c t k u d w x z e y
      using skip_ws_Cons [OF that(1)] scan_str_length [OF that(2)] skip_ws_Cons [OF that(3)]
        p_lengths(1) [OF that(4)] skip_ws_Cons [OF that(5)] b Suc
      by (intro M) auto
    show ?thesis
      using Suc v m by (auto split: list.split option.split)
  qed (use b in simp)
  show ?case using val els mem by blast
qed simp

lemma p_value_fuel: "2 * length s < f \<Longrightarrow> p_value f s = p_value (2 * length s + 2) s"
  using p_fuel [of s f "2 * length s + 2"] by simp

end
