(* ===== verification/Sha256.thy ===== *)
theory Sha256
  imports GoText "HOL-Library.Word"
begin

unbundle bit_operations_syntax

text \<open>
  \<open>crypto/sha256\<close> as FIPS 180-4 defines it, on byte lists. The program fingerprints limit shapes
  and execution profiles and derives workspace keys with it; the only facts used of it are the
  length and the byte range of its result.
\<close>

type_synonym u32 = "32 word"

text \<open>The constants of the standard, in decimal.\<close>

definition sha_k :: "u32 list" where
  "sha_k =
    [1116352408, 1899447441, 3049323471, 3921009573, 961987163, 1508970993, 2453635748, 2870763221,
     3624381080, 310598401, 607225278, 1426881987, 1925078388, 2162078206, 2614888103, 3248222580,
     3835390401, 4022224774, 264347078, 604807628, 770255983, 1249150122, 1555081692, 1996064986,
     2554220882, 2821834349, 2952996808, 3210313671, 3336571891, 3584528711, 113926993, 338241895,
     666307205, 773529912, 1294757372, 1396182291, 1695183700, 1986661051, 2177026350, 2456956037,
     2730485921, 2820302411, 3259730800, 3345764771, 3516065817, 3600352804, 4094571909, 275423344,
     430227734, 506948616, 659060556, 883997877, 958139571, 1322822218, 1537002063, 1747873779,
     1955562222, 2024104815, 2227730452, 2361852424, 2428436474, 2756734187, 3204031479, 3329325298]"

definition sha_init :: "u32 list" where
  "sha_init =
    [1779033703, 3144134277, 1013904242, 2773480762, 1359893119, 2600822924, 528734635, 1541459225]"

definition rotr :: "nat \<Rightarrow> u32 \<Rightarrow> u32" where
  "rotr n x = drop_bit n x OR push_bit (32 - n) x"

definition big_endian :: "nat \<Rightarrow> nat \<Rightarrow> nat list" where
  "big_endian n v = map (\<lambda>i. (v div 256 ^ (n - 1 - i)) mod 256) [0..<n]"

definition sha_pad :: "nat list \<Rightarrow> nat list" where
  "sha_pad m =
     m @ [0x80] @ replicate ((119 - length m mod 64) mod 64) 0 @ big_endian 8 (8 * length m)"

definition word_of_bytes :: "nat list \<Rightarrow> u32" where
  "word_of_bytes bs = of_nat (foldl (\<lambda>a b. 256 * a + b) 0 (take 4 bs))"

definition block_words :: "nat list \<Rightarrow> u32 list" where
  "block_words bs = map (\<lambda>i. word_of_bytes (drop (4 * i) bs)) [0..<16]"

text \<open>The message schedule, latest word first.\<close>

primrec sha_schedule :: "nat \<Rightarrow> u32 list \<Rightarrow> u32 list" where
  "sha_schedule 0 w = w"
| "sha_schedule (Suc n) w =
     (let x15 = w ! 14; x2 = w ! 1;
          s0 = rotr 7 x15 XOR rotr 18 x15 XOR drop_bit 3 x15;
          s1 = rotr 17 x2 XOR rotr 19 x2 XOR drop_bit 10 x2
      in sha_schedule n ((w ! 15 + s0 + w ! 6 + s1) # w))"

fun sha_round :: "u32 \<times> u32 \<Rightarrow> u32 list \<Rightarrow> u32 list" where
  "sha_round (k, w) [a, b, c, d, e, f, g, h] =
     (let s1 = rotr 6 e XOR rotr 11 e XOR rotr 25 e;
          ch = (e AND f) XOR (NOT e AND g);
          t1 = h + s1 + ch + k + w;
          s0 = rotr 2 a XOR rotr 13 a XOR rotr 22 a;
          maj = (a AND b) XOR (a AND c) XOR (b AND c);
          t2 = s0 + maj
      in [t1 + t2, a, b, c, d + t1, e, f, g])"
| "sha_round _ st = st"

definition sha_block :: "nat list \<Rightarrow> u32 list \<Rightarrow> u32 list" where
  "sha_block bs st =
     (let w = rev (sha_schedule 48 (rev (block_words bs)))
      in map2 (+) st (fold sha_round (zip sha_k w) st))"

fun sha_blocks :: "nat \<Rightarrow> nat list \<Rightarrow> u32 list \<Rightarrow> u32 list" where
  "sha_blocks 0 bs st = st"
| "sha_blocks (Suc n) bs st = sha_blocks n (drop 64 bs) (sha_block (take 64 bs) st)"

definition word_bytes :: "u32 \<Rightarrow> nat list" where
  "word_bytes w = big_endian 4 (unat w)"

definition sha256 :: "nat list \<Rightarrow> nat list" where
  "sha256 m =
     (let p = sha_pad m
      in concat (map word_bytes (sha_blocks (length p div 64) p sha_init)))"

lemma length_sha_round: "length (sha_round kw st) = length st"
  by (cases "(kw, st)" rule: sha_round.cases) (auto simp: Let_def)

lemma length_fold_sha_round: "length (fold sha_round kws st) = length st"
  by (induction kws arbitrary: st) (auto simp: length_sha_round)

lemma length_sha_blocks: "length (sha_blocks n bs st) = length st"
  by (induction n bs st rule: sha_blocks.induct)
    (auto simp: sha_block_def Let_def length_fold_sha_round)

lemma length_sha256 [simp]: "length (sha256 m) = 32"
proof -
  have "length (concat (map word_bytes ws)) = 4 * length ws" for ws
    by (induction ws) (auto simp: word_bytes_def big_endian_def)
  then show ?thesis
    by (simp add: sha256_def Let_def length_sha_blocks sha_init_def)
qed

lemma sha256_bytes: "b \<in> set (sha256 m) \<Longrightarrow> b < 256"
  by (auto simp: sha256_def Let_def word_bytes_def big_endian_def)

definition sha256_hex :: "string \<Rightarrow> string" where
  "sha256_hex s = hex_encode (sha256 (map byte s))"

lemma length_sha256_hex [simp]: "length (sha256_hex s) = 64"
  by (simp add: sha256_hex_def)

lemma sha256_hex_decodable: "hex_decodable (sha256_hex s)"
  unfolding sha256_hex_def by (rule hex_decodable_hex_encode) (auto dest: sha256_bytes)

end
