(* ===== verification/Contract.thy ===== *)
theory Contract
  imports GoText Json Sha256
begin

text \<open>
  The data contract of \<^verbatim>\<open>internal/contract\<close>: actions, deployments and execution profiles, and the
  functions that normalise and resolve the values the job store pins on a job (route tags, worker
  labels, execution limits, runtime access).

  A slice whose nil and empty values the code tells apart is a \<open>string list option\<close>; every other
  slice is a list. An \<open>int32\<close> or \<open>int64\<close> field is an \<open>int\<close>: the code compares these fields and
  never does arithmetic on them. Formatted error texts are reduced to their constant part.
\<close>

section \<open>Defaults\<close>

definition DefaultWorkspace :: string where "DefaultWorkspace = ''default''"
definition DefaultGitSourceID :: string where "DefaultGitSourceID = ''local''"
definition DefaultRouteTag :: string where "DefaultRouteTag = ''default''"
definition MaxLabels :: nat where "MaxLabels = 16"
definition ReservedLabelPrefix :: string where "ReservedLabelPrefix = ''sys/''"
definition MaxKeyedConcurrencyLimits :: nat where "MaxKeyedConcurrencyLimits = 8"
definition MaxKeyedRateLimits :: nat where "MaxKeyedRateLimits = 8"
definition MaxExecutionInputPointers :: nat where "MaxExecutionInputPointers = 8"
definition MinRateWindowSeconds :: int where "MinRateWindowSeconds = 1"
definition MaxRateWindowSeconds :: int where "MaxRateWindowSeconds = 86400"
definition MaxConcurrencyPointerBytes :: nat where "MaxConcurrencyPointerBytes = 256"

definition NormalizeScriptLanguage :: "string \<Rightarrow> string res" where
  "NormalizeScriptLanguage value =
     (let value = trim value
      in if value = [] then Inr ''typescript''
         else if value \<in> {''typescript'', ''python'', ''go''} then Inr value
         else Inl (ErrOther ''unsupported scriptLang''))"

definition CellBearerTokenPrefixes :: "string list" where
  "CellBearerTokenPrefixes = [''wfjob_'', ''wfw_'', ''wfk_'', ''wfs_'', ''wfr_'']"

definition IsCellBearerToken :: "string \<Rightarrow> bool" where
  "IsCellBearerToken token \<longleftrightarrow> list_ex (has_prefix token) CellBearerTokenPrefixes"

text \<open>The regular expression \<^verbatim>\<open>^[a-z0-9]([a-z0-9._-]{0,62}[a-z0-9])?$\<close>.\<close>

definition label_edge :: "char \<Rightarrow> bool" where
  "label_edge c \<longleftrightarrow> is_lower c \<or> is_digit c"

definition label_inner :: "char \<Rightarrow> bool" where
  "label_inner c \<longleftrightarrow> label_edge c \<or> c = CHR ''.'' \<or> c = CHR ''_'' \<or> c = CHR ''-''"

definition labelPattern :: "string \<Rightarrow> bool" where
  "labelPattern s \<longleftrightarrow>
     (case s of [] \<Rightarrow> False
      | c # cs \<Rightarrow> label_edge c \<and>
          (cs = [] \<or> length cs \<le> 63 \<and> list_all label_inner (butlast cs) \<and> label_edge (last cs)))"

section \<open>Execution limits\<close>

record keyed_concurrency_limit =
  kcl_ID :: string
  kcl_MaxConcurrent :: int
  kcl_InputPointers :: "string list"

record keyed_rate_limit =
  krl_ID :: string
  krl_MaxAttempts :: int
  krl_WindowSeconds :: int
  krl_InputPointers :: "string list"

record execution_limits =
  el_Concurrency :: "keyed_concurrency_limit list"
  el_Rate :: "keyed_rate_limit list"

text \<open>The scan of one pointer token: a tilde is followed by 0 or 1.\<close>

fun escapes_ok :: "string \<Rightarrow> bool" where
  "escapes_ok [] = True"
| "escapes_ok (c # cs) =
     (if c \<noteq> CHR ''~'' then escapes_ok cs
      else (case cs of [] \<Rightarrow> False
            | d # ds \<Rightarrow> (d = CHR ''0'' \<or> d = CHR ''1'') \<and> escapes_ok ds))"

definition ValidateInputJSONPointer :: "string \<Rightarrow> unit res" where
  "ValidateInputJSONPointer pointer =
     (if pointer = [] \<or> \<not> has_prefix pointer ''/''
      then Inl (ErrOther ''must be a non-empty RFC 6901 pointer'')
      else if length pointer > MaxConcurrencyPointerBytes \<or> \<not> valid_utf8 pointer
      then Inl (ErrOther ''exceeds the UTF-8 pointer limit'')
      else if list_all escapes_ok (split_on (CHR ''/'') (tl pointer)) then Inr ()
      else Inl (ErrOther ''contains an invalid escape''))"

fun check_pointers :: "string list \<Rightarrow> string list \<Rightarrow> (string list) res" where
  "check_pointers seen [] = Inr []"
| "check_pointers seen (p # ps) =
     bind_res (ValidateInputJSONPointer p) (\<lambda>_.
       if p \<in> set seen then Inl (ErrOther ''input pointer is duplicated'')
       else bind_res (check_pointers (p # seen) ps) (\<lambda>rest. Inr (p # rest)))"

fun normalize_concurrency ::
  "string list \<Rightarrow> keyed_concurrency_limit list \<Rightarrow> (keyed_concurrency_limit list) res" where
  "normalize_concurrency ids [] = Inr []"
| "normalize_concurrency ids (item # items) =
     (let i = trim (kcl_ID item)
      in if \<not> labelPattern i then Inl (ErrOther ''concurrency limit id is invalid'')
         else if i \<in> set ids then Inl (ErrOther ''concurrency limit id is duplicated'')
         else if kcl_MaxConcurrent item \<le> 0 then Inl (ErrOther ''maxConcurrent must be positive'')
         else if kcl_InputPointers item = [] \<or> length (kcl_InputPointers item) > MaxExecutionInputPointers
         then Inl (ErrOther ''inputPointers out of range'')
         else bind_res (check_pointers [] (kcl_InputPointers item)) (\<lambda>pointers.
           bind_res (normalize_concurrency (i # ids) items) (\<lambda>rest.
             Inr (item\<lparr>kcl_ID := i, kcl_InputPointers := pointers\<rparr> # rest))))"

fun normalize_rate :: "string list \<Rightarrow> keyed_rate_limit list \<Rightarrow> (keyed_rate_limit list) res" where
  "normalize_rate ids [] = Inr []"
| "normalize_rate ids (item # items) =
     (let i = trim (krl_ID item)
      in if \<not> labelPattern i then Inl (ErrOther ''rate limit id is invalid'')
         else if i \<in> set ids then Inl (ErrOther ''rate limit id is duplicated'')
         else if krl_MaxAttempts item \<le> 0 then Inl (ErrOther ''maxAttempts must be positive'')
         else if krl_WindowSeconds item < MinRateWindowSeconds \<or> krl_WindowSeconds item > MaxRateWindowSeconds
         then Inl (ErrOther ''windowSeconds out of range'')
         else if krl_InputPointers item = [] \<or> length (krl_InputPointers item) > MaxExecutionInputPointers
         then Inl (ErrOther ''inputPointers out of range'')
         else bind_res (check_pointers [] (krl_InputPointers item)) (\<lambda>pointers.
           bind_res (normalize_rate (i # ids) items) (\<lambda>rest.
             Inr (item\<lparr>krl_ID := i, krl_InputPointers := pointers\<rparr> # rest))))"

definition NormalizeExecutionLimits :: "execution_limits \<Rightarrow> execution_limits res" where
  "NormalizeExecutionLimits limits =
     (if length (el_Concurrency limits) > MaxKeyedConcurrencyLimits
      then Inl (ErrOther ''concurrency declares too many limits'')
      else if length (el_Rate limits) > MaxKeyedRateLimits
      then Inl (ErrOther ''rate declares too many limits'')
      else bind_res (normalize_concurrency [] (el_Concurrency limits)) (\<lambda>c.
        bind_res (normalize_rate [] (el_Rate limits)) (\<lambda>r.
          Inr \<lparr>el_Concurrency = c, el_Rate = r\<rparr>)))"

text \<open>What admission relies on in a normalised declaration.\<close>

definition pointers_ok :: "string list \<Rightarrow> bool" where
  "pointers_ok ps \<longleftrightarrow> ps \<noteq> [] \<and> length ps \<le> MaxExecutionInputPointers \<and> distinct ps \<and>
     list_all (\<lambda>p. ValidateInputJSONPointer p = Inr ()) ps"

definition concurrency_ok :: "keyed_concurrency_limit \<Rightarrow> bool" where
  "concurrency_ok l \<longleftrightarrow> labelPattern (kcl_ID l) \<and> trim (kcl_ID l) = kcl_ID l \<and> 0 < kcl_MaxConcurrent l \<and>
     pointers_ok (kcl_InputPointers l)"

definition rate_ok :: "keyed_rate_limit \<Rightarrow> bool" where
  "rate_ok l \<longleftrightarrow> labelPattern (krl_ID l) \<and> trim (krl_ID l) = krl_ID l \<and> 0 < krl_MaxAttempts l \<and>
     MinRateWindowSeconds \<le> krl_WindowSeconds l \<and> krl_WindowSeconds l \<le> MaxRateWindowSeconds \<and>
     pointers_ok (krl_InputPointers l)"

definition limits_ok :: "execution_limits \<Rightarrow> bool" where
  "limits_ok l \<longleftrightarrow>
     length (el_Concurrency l) \<le> MaxKeyedConcurrencyLimits \<and> length (el_Rate l) \<le> MaxKeyedRateLimits \<and>
     list_all concurrency_ok (el_Concurrency l) \<and> distinct (map kcl_ID (el_Concurrency l)) \<and>
     list_all rate_ok (el_Rate l) \<and> distinct (map krl_ID (el_Rate l))"

lemma check_pointers_iff:
  "check_pointers seen ps = Inr qs \<longleftrightarrow>
   qs = ps \<and> distinct ps \<and> set ps \<inter> set seen = {} \<and>
   list_all (\<lambda>p. ValidateInputJSONPointer p = Inr ()) ps"
  by (induction seen ps arbitrary: qs rule: check_pointers.induct) auto

lemma normalize_concurrency_ok:
  "normalize_concurrency ids ls = Inr rs \<Longrightarrow>
   list_all concurrency_ok rs \<and> distinct (map kcl_ID rs) \<and> kcl_ID ` set rs \<inter> set ids = {} \<and>
   length rs = length ls"
proof (induction ids ls arbitrary: rs rule: normalize_concurrency.induct)
  case (2 ids item items)
  then show ?case
    by (auto simp: Let_def check_pointers_iff concurrency_ok_def pointers_ok_def split: if_splits) blast+
qed simp

lemma normalize_rate_ok:
  "normalize_rate ids ls = Inr rs \<Longrightarrow>
   list_all rate_ok rs \<and> distinct (map krl_ID rs) \<and> krl_ID ` set rs \<inter> set ids = {} \<and>
   length rs = length ls"
proof (induction ids ls arbitrary: rs rule: normalize_rate.induct)
  case (2 ids item items)
  then show ?case
    by (auto simp: Let_def check_pointers_iff rate_ok_def pointers_ok_def split: if_splits) blast+
qed simp

lemma normalize_concurrency_fixed:
  "list_all concurrency_ok ls \<Longrightarrow> distinct (map kcl_ID ls) \<Longrightarrow> kcl_ID ` set ls \<inter> set ids = {} \<Longrightarrow>
   normalize_concurrency ids ls = Inr ls"
proof (induction ids ls rule: normalize_concurrency.induct)
  case (2 ids item items)
  then show ?case
    by (auto simp: Let_def check_pointers_iff concurrency_ok_def pointers_ok_def)
qed simp

lemma normalize_rate_fixed:
  "list_all rate_ok ls \<Longrightarrow> distinct (map krl_ID ls) \<Longrightarrow> krl_ID ` set ls \<inter> set ids = {} \<Longrightarrow>
   normalize_rate ids ls = Inr ls"
proof (induction ids ls rule: normalize_rate.induct)
  case (2 ids item items)
  then show ?case
    by (auto simp: Let_def check_pointers_iff rate_ok_def pointers_ok_def)
qed simp

lemma NormalizeExecutionLimits_ok: "NormalizeExecutionLimits l = Inr r \<Longrightarrow> limits_ok r"
  by (auto simp: NormalizeExecutionLimits_def limits_ok_def split: if_splits
      dest!: normalize_concurrency_ok normalize_rate_ok)

lemma NormalizeExecutionLimits_fixed: "limits_ok l \<Longrightarrow> NormalizeExecutionLimits l = Inr l"
  by (auto simp: NormalizeExecutionLimits_def limits_ok_def normalize_concurrency_fixed normalize_rate_fixed)

section \<open>Runtime access\<close>

datatype runtime_config_scope = ScopeWorkspace | ScopeApp | ScopeActor | ScopeOther string
datatype runtime_variable_storage = StoragePlain | StorageSecret | StorageOther string

record runtime_config_target =
  rct_Scope :: runtime_config_scope
  rct_Path :: string

record runtime_variable_write_target =
  rvw_Target :: runtime_config_target
  rvw_Storage :: runtime_variable_storage

record runtime_access =
  ra_Variables :: "string list"
  ra_Resources :: "string list"
  ra_VariableTargets :: "runtime_config_target list"
  ra_ResourceTargets :: "runtime_config_target list"
  ra_WriteVariables :: "runtime_variable_write_target list"
  ra_WriteResources :: "runtime_config_target list"

definition validPortableKeyRune :: "nat \<Rightarrow> bool" where
  "validPortableKeyRune r \<longleftrightarrow>
     97 \<le> r \<and> r \<le> 122 \<or> 65 \<le> r \<and> r \<le> 90 \<or> 48 \<le> r \<and> r \<le> 57 \<or> r = 95"

definition path_rune :: "nat \<Rightarrow> bool" where
  "path_rune r \<longleftrightarrow> validPortableKeyRune r \<or> r = 46 \<or> r = 45"

definition path_segment :: "string \<Rightarrow> bool" where
  "path_segment segment \<longleftrightarrow>
     segment \<noteq> [] \<and> segment \<noteq> ''.'' \<and> segment \<noteq> ''..'' \<and>
     list_all (\<lambda>(r, n). path_rune r) (runes (map byte segment))"

definition NormalizeRuntimeConfigPath :: "string \<Rightarrow> string res" where
  "NormalizeRuntimeConfigPath value =
     (let value = trim value
      in if value = [] \<or> length value > 512 \<or> \<not> valid_utf8 value \<or> CHR 0x5C \<in> set value
         then Inl (ErrOther ''invalid runtime configuration path'')
         else let segments = split_on (CHR ''/'') value
           in if length segments > 32
              then Inl (ErrOther ''runtime configuration path exceeds 32 segments'')
              else if list_all path_segment segments then Inr value
              else Inl (ErrOther ''invalid runtime configuration path''))"

fun normalize_paths :: "string list \<Rightarrow> (string list) res" where
  "normalize_paths [] = Inr []"
| "normalize_paths (v # vs) =
     bind_res (NormalizeRuntimeConfigPath v) (\<lambda>p. bind_res (normalize_paths vs) (\<lambda>ps. Inr (p # ps)))"

definition normalizeRuntimeConfigPaths :: "string list \<Rightarrow> (string list) res" where
  "normalizeRuntimeConfigPaths values = bind_res (normalize_paths values) (\<lambda>ps. Inr (sorted_set ps))"

text \<open>
  The maps of the next two functions are keyed by the scope, a NUL byte and the path. The scopes
  that pass the first test are three different words without a NUL, so a key determines the scope
  and the path, and the model keeps the pair.
\<close>

fun normalize_targets ::
  "(runtime_config_scope \<times> string) list \<Rightarrow> runtime_config_target list \<Rightarrow> bool \<Rightarrow>
   (runtime_config_target list) res" where
  "normalize_targets seen [] requireApp = Inr []"
| "normalize_targets seen (v # vs) requireApp =
     (if rct_Scope v \<notin> {ScopeWorkspace, ScopeApp, ScopeActor}
      then Inl (ErrOther ''target scope must be workspace, app, or actor'')
      else if requireApp \<and> rct_Scope v \<notin> {ScopeApp, ScopeActor}
      then Inl (ErrOther ''runtime writes require app scope or actor scope'')
      else bind_res (NormalizeRuntimeConfigPath (rct_Path v)) (\<lambda>path.
        let key = (rct_Scope v, path)
        in if key \<in> set seen then normalize_targets seen vs requireApp
           else bind_res (normalize_targets (key # seen) vs requireApp) (\<lambda>rest.
             Inr (\<lparr>rct_Scope = rct_Scope v, rct_Path = path\<rparr> # rest))))"

definition normalizeRuntimeConfigTargets ::
  "runtime_config_target list \<Rightarrow> bool \<Rightarrow> (runtime_config_target list) res" where
  "normalizeRuntimeConfigTargets values requireApp = normalize_targets [] values requireApp"

fun normalize_writes ::
  "((runtime_config_scope \<times> string) \<times> runtime_variable_storage) list \<Rightarrow>
   runtime_variable_write_target list \<Rightarrow> (runtime_variable_write_target list) res" where
  "normalize_writes seen [] = Inr []"
| "normalize_writes seen (v # vs) =
     bind_res (normalizeRuntimeConfigTargets [rvw_Target v] True) (\<lambda>targets.
       if rvw_Storage v \<notin> {StoragePlain, StorageSecret} then Inl (ErrOther ''storage must be plain or secret'')
       else case targets of
         [] \<Rightarrow> Inl (ErrOther ''index out of range'')
       | target # _ \<Rightarrow>
           (let key = (rct_Scope target, rct_Path target)
            in case map_of seen key of
                 Some current \<Rightarrow>
                   if current \<noteq> rvw_Storage v
                   then Inl (ErrOther ''target declares conflicting storage classes'')
                   else normalize_writes seen vs
               | None \<Rightarrow>
                   bind_res (normalize_writes ((key, rvw_Storage v) # seen) vs) (\<lambda>rest.
                     Inr (\<lparr>rvw_Target = target, rvw_Storage = rvw_Storage v\<rparr> # rest))))"

definition removeLegacyWorkspaceTargets ::
  "string list \<Rightarrow> runtime_config_target list \<Rightarrow> runtime_config_target list" where
  "removeLegacyWorkspaceTargets legacy targets =
     filter (\<lambda>t. \<not> (rct_Scope t = ScopeWorkspace \<and> rct_Path t \<in> set legacy)) targets"

definition runtime_access_size :: "runtime_access \<Rightarrow> nat" where
  "runtime_access_size a =
     length (ra_Variables a) + length (ra_Resources a) + length (ra_VariableTargets a) +
     length (ra_ResourceTargets a) + length (ra_WriteVariables a) + length (ra_WriteResources a)"

definition NormalizeRuntimeAccess :: "runtime_access \<Rightarrow> runtime_access res" where
  "NormalizeRuntimeAccess access =
     bind_res (normalizeRuntimeConfigPaths (ra_Variables access)) (\<lambda>variables.
     bind_res (normalizeRuntimeConfigPaths (ra_Resources access)) (\<lambda>resources.
     bind_res (normalizeRuntimeConfigTargets (ra_VariableTargets access) False) (\<lambda>variableTargets.
     bind_res (normalizeRuntimeConfigTargets (ra_ResourceTargets access) False) (\<lambda>resourceTargets.
     bind_res (normalize_writes [] (ra_WriteVariables access)) (\<lambda>writeVariables.
     bind_res (normalizeRuntimeConfigTargets (ra_WriteResources access) True) (\<lambda>writeResources.
       let result = \<lparr>ra_Variables = variables, ra_Resources = resources,
             ra_VariableTargets = removeLegacyWorkspaceTargets variables variableTargets,
             ra_ResourceTargets = removeLegacyWorkspaceTargets resources resourceTargets,
             ra_WriteVariables = writeVariables, ra_WriteResources = writeResources\<rparr>
       in if runtime_access_size result > 256
          then Inl (ErrOther ''runtime access exceeds 256 paths'')
          else Inr result))))))"

definition ActorRuntimeConfigPath :: "string \<Rightarrow> string \<Rightarrow> string res" where
  "ActorRuntimeConfigPath subject value =
     (let subject = trim subject
      in if subject = [] then Inl (ErrOther ''actor runtime configuration requires an authenticated subject'')
         else bind_res (NormalizeRuntimeConfigPath value) (\<lambda>normalized.
           Inr (''actors/'' @ sha256_hex subject @ ''/'' @ normalized)))"

lemma normalize_targets_scope:
  "normalize_targets seen ts True = Inr rs \<Longrightarrow> t \<in> set rs \<Longrightarrow> rct_Scope t \<in> {ScopeApp, ScopeActor}"
proof (induction ts arbitrary: seen rs)
  case (Cons v vs)
  from Cons.prems show ?case
    by (simp add: Let_def split: if_splits) (use Cons.IH in fastforce)+
qed simp

lemma normalize_targets_distinct:
  "normalize_targets seen ts b = Inr rs \<Longrightarrow>
   distinct rs \<and> (\<forall>t \<in> set rs. (rct_Scope t, rct_Path t) \<notin> set seen)"
proof (induction ts arbitrary: seen rs)
  case (Cons v vs)
  obtain path where path: "NormalizeRuntimeConfigPath (rct_Path v) = Inr path"
    using Cons.prems by (auto split: if_splits)
  show ?case
  proof (cases "(rct_Scope v, path) \<in> set seen")
    case True
    then show ?thesis using Cons by (auto simp: path split: if_splits)
  next
    case False
    then obtain rest where rest: "normalize_targets ((rct_Scope v, path) # seen) vs b = Inr rest"
      and rs: "rs = \<lparr>rct_Scope = rct_Scope v, rct_Path = path\<rparr> # rest"
      using Cons.prems by (auto simp: path split: if_splits)
    show ?thesis
      using Cons.IH [OF rest] False by (force simp: rs)
  qed
qed simp

section \<open>Keys\<close>

definition ValidWorkspaceID :: "string \<Rightarrow> bool" where
  "ValidWorkspaceID value \<longleftrightarrow>
     2 \<le> length value \<and> length value \<le> 48 \<and> valid_utf8 value \<and>
     list_all (\<lambda>i. label_edge (value ! i) \<or>
       value ! i = CHR ''-'' \<and> 0 < i \<and> i < length value - 1) [0..<length value] \<and>
     is_lower (value ! 0)"

definition ValidAppKey :: "string \<Rightarrow> bool" where
  "ValidAppKey value \<longleftrightarrow>
     2 \<le> length value \<and> length value \<le> 64 \<and> valid_utf8 value \<and>
     list_all (\<lambda>(r, n). validPortableKeyRune r) (runes (map byte value))"

definition ValidActionKey :: "string \<Rightarrow> bool" where
  "ValidActionKey value \<longleftrightarrow>
     value \<noteq> [] \<and> length value \<le> 128 \<and> valid_utf8 value \<and>
     CHR ''/'' \<notin> set value \<and> CHR 0x5C \<notin> set value \<and>
     (let segments = split_on (CHR ''.'') value
      in length segments \<le> 8 \<and>
         list_all (\<lambda>segment. segment \<noteq> [] \<and>
           list_all (\<lambda>(r, n). validPortableKeyRune r) (runes (map byte segment))) segments)"

definition NormalizeWorkspace :: "string \<Rightarrow> string" where
  "NormalizeWorkspace value =
     (let value = trim value in if value = [] then DefaultWorkspace else value)"

definition NormalizeGitSourceID :: "string \<Rightarrow> string \<Rightarrow> string" where
  "NormalizeGitSourceID value app =
     (let value = trim value
      in if value \<noteq> [] then value
         else let app = trim app in if app \<noteq> [] then app else DefaultGitSourceID)"

lemma trim_default [simp]: "trim DefaultWorkspace = DefaultWorkspace"
  by (rule trim_clean) (simp add: DefaultWorkspace_def clean_rune_def byte_def)

lemma NormalizeWorkspace_idem [simp]: "NormalizeWorkspace (NormalizeWorkspace w) = NormalizeWorkspace w"
  by (simp add: NormalizeWorkspace_def Let_def)

lemma NormalizeWorkspace_not_Nil [simp]: "NormalizeWorkspace w \<noteq> []"
  by (simp add: NormalizeWorkspace_def Let_def DefaultWorkspace_def)

section \<open>Execution profiles\<close>

record execution_profile =
  ep_Version :: string
  ep_Key :: string
  ep_ID :: string
  ep_OS :: string
  ep_Arch :: string
  ep_Runtime :: string
  ep_RuntimeABI :: string
  ep_Libc :: string

definition zero_profile :: execution_profile where
  "zero_profile = \<lparr>ep_Version = [], ep_Key = [], ep_ID = [], ep_OS = [], ep_Arch = [], ep_Runtime = [],
     ep_RuntimeABI = [], ep_Libc = []\<rparr>"

definition ExecutionProfileVersion :: string where
  "ExecutionProfileVersion = ''execution-profile-v1''"

definition executionProfileLabelPrefix :: string where
  "executionProfileLabelPrefix = ReservedLabelPrefix @ ''execution-profile-''"

definition NormalizeExecutionRuntime :: "string \<Rightarrow> string res" where
  "NormalizeExecutionRuntime value =
     (let v = trim value
      in if v \<in> {[], ''typescript'', ''bun''} then Inr ''bun''
         else if v = ''python'' then Inr ''python''
         else if v = ''go'' then Inr ''go''
         else Inl (ErrOther ''unsupported execution runtime''))"

definition executionProfileKey :: "execution_profile \<Rightarrow> string" where
  "executionProfileKey p =
     sha256_hex (join [nul] [ExecutionProfileVersion, ep_ID p, ep_OS p, ep_Arch p, ep_Runtime p,
       ep_RuntimeABI p, ep_Libc p])"

definition NewExecutionProfile ::
  "string \<Rightarrow> string \<Rightarrow> string \<Rightarrow> string \<Rightarrow> string \<Rightarrow> string \<Rightarrow> execution_profile res" where
  "NewExecutionProfile id' osName arch runtimeName runtimeABI libc =
     bind_res (NormalizeExecutionRuntime runtimeName) (\<lambda>runtimeName.
       let profile = \<lparr>ep_Version = ExecutionProfileVersion, ep_Key = [], ep_ID = trim id',
             ep_OS = to_lower (trim osName), ep_Arch = to_lower (trim arch), ep_Runtime = runtimeName,
             ep_RuntimeABI = trim runtimeABI, ep_Libc = to_lower (trim libc)\<rparr>
       in if ep_OS profile = [] \<or> ep_Arch profile = [] \<or> ep_RuntimeABI profile = [] \<or> ep_Libc profile = []
          then Inl (ErrOther ''execution profile requires os, arch, runtime ABI, and libc identity'')
          else if length (ep_ID profile) > 512 \<or> length (ep_OS profile) > 32 \<or> length (ep_Arch profile) > 64 \<or>
            length (ep_RuntimeABI profile) > 256 \<or> length (ep_Libc profile) > 64
          then Inl (ErrOther ''execution profile field exceeds its size limit'')
          else Inr (profile\<lparr>ep_Key := executionProfileKey profile\<rparr>))"

definition ValidateExecutionProfile :: "execution_profile \<Rightarrow> unit res" where
  "ValidateExecutionProfile profile =
     (if ep_Version profile \<noteq> ExecutionProfileVersion
      then Inl (ErrOther ''unsupported execution profile version'')
      else bind_res (NewExecutionProfile (ep_ID profile) (ep_OS profile) (ep_Arch profile)
          (ep_Runtime profile) (ep_RuntimeABI profile) (ep_Libc profile)) (\<lambda>normalized.
        if profile \<noteq> normalized then Inl (ErrOther ''execution profile is not canonical'')
        else Inr ()))"

definition ExecutionProfilesCompatible :: "execution_profile \<Rightarrow> execution_profile \<Rightarrow> bool" where
  "ExecutionProfilesCompatible required offered \<longleftrightarrow>
     ValidateExecutionProfile required = Inr () \<and> ValidateExecutionProfile offered = Inr () \<and>
     ep_Key required = ep_Key offered"

definition AnyExecutionProfileCompatible :: "execution_profile \<Rightarrow> execution_profile list \<Rightarrow> bool" where
  "AnyExecutionProfileCompatible required offered \<longleftrightarrow>
     required = zero_profile \<or> list_ex (ExecutionProfilesCompatible required) offered"

fun collect_profiles ::
  "(string, execution_profile) gomap \<Rightarrow> execution_profile list \<Rightarrow> (string, execution_profile) gomap res" where
  "collect_profiles unique [] = Inr unique"
| "collect_profiles unique (p # ps) =
     bind_res (ValidateExecutionProfile p) (\<lambda>_. collect_profiles (put (ep_Key p) p unique) ps)"

definition NormalizeExecutionProfiles :: "execution_profile list \<Rightarrow> (execution_profile list) res" where
  "NormalizeExecutionProfiles profiles =
     bind_res (collect_profiles [] profiles) (\<lambda>unique.
       Inr (map (\<lambda>k. the (map_of unique k)) (sort (map fst unique))))"

definition ExecutionProfileLabel :: "execution_profile \<Rightarrow> string res" where
  "ExecutionProfileLabel profile =
     bind_res (ValidateExecutionProfile profile) (\<lambda>_.
       Inr (executionProfileLabelPrefix @ take 24 (ep_Key profile)))"

fun collect_labels :: "execution_profile list \<Rightarrow> (string list) res" where
  "collect_labels [] = Inr []"
| "collect_labels (p # ps) =
     bind_res (ExecutionProfileLabel p) (\<lambda>l. bind_res (collect_labels ps) (\<lambda>ls. Inr (l # ls)))"

text \<open>\<open>NormalizeLabels\<close>: the loop validates every label and keeps the first of equal ones.\<close>

fun check_labels :: "bool \<Rightarrow> string list \<Rightarrow> string list \<Rightarrow> (string list) res" where
  "check_labels allowReserved seen [] = Inr []"
| "check_labels allowReserved seen (raw' # rest) =
     (let label = trim raw';
          reserved = has_prefix label ReservedLabelPrefix;
          body = (if reserved then drop (length ReservedLabelPrefix) label else label)
      in if label = [] then Inl (ErrOther ''label must not be empty'')
         else if reserved \<and> \<not> allowReserved then Inl (ErrOther ''label uses the reserved prefix'')
         else if \<not> labelPattern body then Inl (ErrOther ''invalid label'')
         else if label \<in> set seen then check_labels allowReserved seen rest
         else bind_res (check_labels allowReserved (label # seen) rest) (\<lambda>out. Inr (label # out)))"

definition NormalizeLabels :: "string list \<Rightarrow> bool \<Rightarrow> (string list) res" where
  "NormalizeLabels labels allowReserved =
     bind_res (check_labels allowReserved [] labels) (\<lambda>out.
       if length out > MaxLabels then Inl (ErrOther ''at most 16 labels are allowed'') else Inr (sort out))"

definition NormalizeCapabilities :: "string list \<Rightarrow> (string list) res" where
  "NormalizeCapabilities caps = NormalizeLabels caps False"

definition ExecutionProfileLabels :: "execution_profile list \<Rightarrow> (string list) res" where
  "ExecutionProfileLabels profiles = bind_res (collect_labels profiles) (\<lambda>labels. NormalizeLabels labels True)"

definition WithExecutionProfileLabel :: "string list \<Rightarrow> execution_profile \<Rightarrow> (string list) res" where
  "WithExecutionProfileLabel labels profile =
     bind_res (ExecutionProfileLabel profile) (\<lambda>profileLabel.
       if profileLabel \<in> set labels then Inr labels else Inr (sort (labels @ [profileLabel])))"

definition WithExecutionProfileLabels :: "string list \<Rightarrow> execution_profile list \<Rightarrow> (string list) res" where
  "WithExecutionProfileLabels labels profiles =
     bind_res (ExecutionProfileLabels profiles) (\<lambda>profileLabels.
       Inr (sort (labels @ filter (\<lambda>l. l \<notin> set labels) (remdups profileLabels))))"

definition label_ok :: "bool \<Rightarrow> string \<Rightarrow> bool" where
  "label_ok allowReserved l \<longleftrightarrow>
     trim l = l \<and> l \<noteq> [] \<and>
     (if has_prefix l ReservedLabelPrefix
      then allowReserved \<and> labelPattern (drop (length ReservedLabelPrefix) l)
      else labelPattern l)"

lemma check_labels_step:
  "check_labels r seen (l # ls) = Inr out \<longleftrightarrow>
   label_ok r (trim l) \<and>
   (if trim l \<in> set seen then check_labels r seen ls = Inr out
    else \<exists>rest. check_labels r (trim l # seen) ls = Inr rest \<and> out = trim l # rest)"
  by (auto simp: label_ok_def Let_def)

declare check_labels.simps(2) [simp del]

lemma check_labels_ok:
  "check_labels r seen ls = Inr out \<Longrightarrow>
   distinct out \<and> set out \<inter> set seen = {} \<and> list_all (label_ok r) out \<and>
   set out \<union> set seen = trim ` set ls \<union> set seen"
proof (induction ls arbitrary: seen out)
  case (Cons l ls)
  show ?case
  proof (cases "trim l \<in> set seen")
    case True
    then show ?thesis using Cons by (auto simp: check_labels_step)
  next
    case False
    then obtain rest where "check_labels r (trim l # seen) ls = Inr rest" "out = trim l # rest"
      and "label_ok r (trim l)"
      using Cons.prems by (auto simp: check_labels_step)
    then show ?thesis using False Cons.IH [of "trim l # seen" rest] by auto
  qed
qed simp

lemma check_labels_fixed:
  "list_all (label_ok r) ls \<Longrightarrow> distinct ls \<Longrightarrow> set ls \<inter> set seen = {} \<Longrightarrow>
   check_labels r seen ls = Inr ls"
proof (induction ls arbitrary: seen)
  case (Cons l ls)
  have "trim l = l" using Cons.prems(1) by (simp add: label_ok_def)
  then show ?case using Cons by (simp add: check_labels_step)
qed simp

lemma NormalizeLabels_result:
  assumes "NormalizeLabels labels r = Inr out"
  shows "sorted out" and "distinct out" and "list_all (label_ok r) out"
    and "set out = trim ` set labels" and "length out \<le> MaxLabels"
proof -
  obtain xs where xs: "check_labels r [] labels = Inr xs" "out = sort xs" "length xs \<le> MaxLabels"
    using assms by (auto simp: NormalizeLabels_def split: if_splits)
  show "sorted out" "distinct out" "list_all (label_ok r) out" "set out = trim ` set labels"
    "length out \<le> MaxLabels"
    using xs check_labels_ok [OF xs(1)] by (simp_all add: list_all_iff)
qed

lemma NormalizeLabels_fixed:
  assumes "NormalizeLabels labels r = Inr out"
  shows "NormalizeLabels out r = Inr out"
  using NormalizeLabels_result [OF assms] check_labels_fixed [of r out "[]"]
  by (simp add: NormalizeLabels_def sorted_sort_id)

section \<open>Actions and deployments\<close>

record action_adapter =
  ad_Type :: string
  ad_Command :: "string list"
  ad_Env :: "string list"
  ad_Options :: "(string, raw) gomap"

record action =
  act_Action :: string
  act_Tag :: "string option"
  act_TagOverride :: "string option"
  act_RequiredLabelsOverride :: "string list option"
  act_Runtime :: string
  act_Entrypoint :: string
  act_Command :: "string list"
  act_Adapter :: "action_adapter option"
  act_InputSchema :: string
  act_OutputSchema :: string
  act_OperatorSettingsSchema :: string
  act_InputSchemaBody :: raw
  act_OutputSchemaBody :: raw
  act_OperatorSettingsSchemaBody :: raw
  act_PublicInterfaces :: "raw list"
  act_TimeoutS :: "int option"
  act_TimeoutMs :: int
  act_Capabilities :: "string list option"
  act_RunsOn :: "string list option"
  act_RuntimeAccess :: runtime_access
  act_ExecutionLimits :: execution_limits
  act_UpdatedAt :: "time option"

record deployment =
  dep_Workspace :: string
  dep_GitSourceID :: string
  dep_APIVersion :: string
  dep_App :: string
  dep_Version :: string
  dep_Tag :: string
  dep_TagOverride :: "string option"
  dep_RequiredLabelsOverride :: "string list option"
  dep_Entrypoint :: string
  dep_Runtime :: string
  dep_ScriptLang :: string
  dep_TimeoutS :: int
  dep_MaxConcurrent :: "int option"
  dep_ExecutionLimits :: execution_limits
  dep_RequiredCapabilities :: "string list option"
  dep_RequiredLabels :: "string list option"
  dep_Commit :: string
  dep_Message :: "string option"
  dep_Source :: string
  dep_DeploymentID :: "string option"
  dep_CreatedBy :: "string option"
  dep_BundleDigest :: string
  dep_BundleURI :: string
  dep_ExecutionProfile :: execution_profile
  dep_ObjectURI :: string
  dep_Actions :: "(string, action) gomap option"
  dep_UpdatedAt :: "time option"

definition no_limits :: execution_limits where
  "no_limits = \<lparr>el_Concurrency = [], el_Rate = []\<rparr>"

definition no_access :: runtime_access where
  "no_access = \<lparr>ra_Variables = [], ra_Resources = [], ra_VariableTargets = [], ra_ResourceTargets = [],
     ra_WriteVariables = [], ra_WriteResources = []\<rparr>"

definition zero_action :: action where
  "zero_action = \<lparr>act_Action = [], act_Tag = None, act_TagOverride = None,
     act_RequiredLabelsOverride = None, act_Runtime = [], act_Entrypoint = [], act_Command = [],
     act_Adapter = None, act_InputSchema = [], act_OutputSchema = [], act_OperatorSettingsSchema = [],
     act_InputSchemaBody = [], act_OutputSchemaBody = [], act_OperatorSettingsSchemaBody = [],
     act_PublicInterfaces = [], act_TimeoutS = None, act_TimeoutMs = 0, act_Capabilities = None,
     act_RunsOn = None, act_RuntimeAccess = no_access, act_ExecutionLimits = no_limits,
     act_UpdatedAt = None\<rparr>"

definition zero_deployment :: deployment where
  "zero_deployment = \<lparr>dep_Workspace = [], dep_GitSourceID = [], dep_APIVersion = [], dep_App = [],
     dep_Version = [], dep_Tag = [], dep_TagOverride = None, dep_RequiredLabelsOverride = None,
     dep_Entrypoint = [], dep_Runtime = [], dep_ScriptLang = [], dep_TimeoutS = 0,
     dep_MaxConcurrent = None, dep_ExecutionLimits = no_limits, dep_RequiredCapabilities = None,
     dep_RequiredLabels = None, dep_Commit = [], dep_Message = None, dep_Source = [],
     dep_DeploymentID = None, dep_CreatedBy = None, dep_BundleDigest = [], dep_BundleURI = [],
     dep_ExecutionProfile = zero_profile, dep_ObjectURI = [], dep_Actions = None, dep_UpdatedAt = None\<rparr>"

text \<open>
  \<open>CloneAction\<close> and \<open>CloneDeployment\<close> copy every pointer and slice; on values they are the
  identity, so pinning a deployment only selects the action.
\<close>

definition actions_of :: "deployment \<Rightarrow> (string, action) gomap" where
  "actions_of d = (case dep_Actions d of None \<Rightarrow> [] | Some m \<Rightarrow> m)"

definition PinExecutionDeployment :: "deployment \<Rightarrow> string \<Rightarrow> deployment" where
  "PinExecutionDeployment deployment' actionKey =
     deployment'\<lparr>dep_Actions := Some (case map_of (actions_of deployment') actionKey of
        Some a \<Rightarrow> [(actionKey, a)] | None \<Rightarrow> [])\<rparr>"

definition AdapterType :: "action \<Rightarrow> string" where
  "AdapterType a = (case act_Adapter a of
     None \<Rightarrow> ''json-file''
   | Some ad \<Rightarrow> let value = trim (ad_Type ad) in if value = [] then ''json-file'' else value)"

definition set_tag :: "string option \<Rightarrow> bool" where
  "set_tag t \<longleftrightarrow> (case t of None \<Rightarrow> False | Some v \<Rightarrow> trim v \<noteq> [])"

definition EffectiveRouteTag ::
  "string \<Rightarrow> string option \<Rightarrow> string option \<Rightarrow> string option \<Rightarrow> string" where
  "EffectiveRouteTag appTag appTagOverride actionTag actionTagOverride =
     (if set_tag actionTagOverride then trim (the actionTagOverride)
      else if set_tag appTagOverride then trim (the appTagOverride)
      else if set_tag actionTag then trim (the actionTag)
      else if trim appTag \<noteq> [] then trim appTag
      else DefaultRouteTag)"

definition EffectiveRouteTagForApp :: "deployment \<Rightarrow> string" where
  "EffectiveRouteTagForApp d = EffectiveRouteTag (dep_Tag d) (dep_TagOverride d) None None"

definition EffectiveRouteTagForAction :: "deployment \<Rightarrow> action \<Rightarrow> string" where
  "EffectiveRouteTagForAction d a =
     EffectiveRouteTag (dep_Tag d) (dep_TagOverride d) (act_Tag a) (act_TagOverride a)"

definition normalizedEffectiveLabels :: "string list option \<Rightarrow> string list option" where
  "normalizedEffectiveLabels labels =
     (case labels of None \<Rightarrow> None
      | Some ls \<Rightarrow> Some (sort (remdups (filter (\<lambda>l. l \<noteq> []) (map trim ls)))))"

definition slice :: "string list option \<Rightarrow> string list" where
  "slice s = (case s of None \<Rightarrow> [] | Some xs \<Rightarrow> xs)"

text \<open>\<open>append([]string(nil), xs...)\<close> is nil when nothing is appended.\<close>

definition append_nil :: "string list \<Rightarrow> string list option" where
  "append_nil xs = (if xs = [] then None else Some xs)"

definition EffectiveRequiredLabels :: "deployment \<Rightarrow> action \<Rightarrow> string list option" where
  "EffectiveRequiredLabels d a =
     (let effective =
        (case act_RequiredLabelsOverride a of
           Some o1 \<Rightarrow> normalizedEffectiveLabels (Some o1)
         | None \<Rightarrow>
           (case dep_RequiredLabelsOverride d of
              Some o2 \<Rightarrow> normalizedEffectiveLabels (Some o2)
            | None \<Rightarrow>
              let base = (case dep_RequiredLabels d of None \<Rightarrow> dep_RequiredCapabilities d | b \<Rightarrow> b);
                  more = (case act_RunsOn a of Some r \<Rightarrow> r
                          | None \<Rightarrow> (case act_Capabilities a of Some c \<Rightarrow> c | None \<Rightarrow> []))
              in normalizedEffectiveLabels (append_nil (slice base @ more))))
      in if trim (ep_Key (dep_ExecutionProfile d)) = [] then effective
         else case WithExecutionProfileLabel (slice effective) (dep_ExecutionProfile d) of
                Inl _ \<Rightarrow> effective
              | Inr withProfile \<Rightarrow> normalizedEffectiveLabels (Some withProfile))"

lemma normalizedEffectiveLabels_slice:
  "sorted (slice (normalizedEffectiveLabels l)) \<and> distinct (slice (normalizedEffectiveLabels l)) \<and>
   set (slice (normalizedEffectiveLabels l)) = trim ` set (slice l) - {[]}"
  by (cases l) (auto simp: normalizedEffectiveLabels_def slice_def)

section \<open>Job requests and results\<close>

record execution_interruption =
  int_Cause :: string
  int_Source :: string
  int_Message :: string
  int_Observed :: time

record job_request =
  req_JobID :: string
  req_App :: string
  req_Action :: string
  req_Input :: raw
  req_Deployment :: deployment

record job_result =
  res_JobID :: string
  res_App :: string
  res_Action :: string
  res_Output :: raw
  res_ExitCode :: int
  res_Stdout :: string
  res_Stderr :: string
  res_DurationMs :: int
  res_Error :: string
  res_Interruption :: "execution_interruption option"

end
