(* ===== verification/StateModel.thy ===== *)
theory StateModel
  imports Complex_Main Contract
begin

text \<open>
  The records of \<^verbatim>\<open>internal/state\<close> and of the packages whose values it stores, field by field, the
  snapshot that the local store keeps, and the constructors and small helpers of
  \<^verbatim>\<open>internal/state/state.go\<close> and \<^verbatim>\<open>internal/state/job_views.go\<close>.

  For each record \<open>r\<close>, \<open>zero_r\<close> is a value with every field at its zero value (an enumeration at its
  first constant); concrete examples are updates of it. An embedded struct is a field \<open>Key\<close>.
  A \<open>float64\<close> ratio is a rational number. Random identifiers (\<open>NewID\<close>) are arguments of the
  operations that draw them.
\<close>

section \<open>Enumerations\<close>

datatype run_state =
    RunQueued | RunRunning | RunWaitingHuman | RunResuming
  | RunSucceeded | RunFailed | RunCanceled | RunExpired

datatype job_state = JobQueued | JobRunning | JobSucceeded | JobFailed

datatype human_task_state =
    HumanTaskPending | HumanTaskDecided | HumanTaskCompleted | HumanTaskExpired | HumanTaskCanceled

text \<open>The empty mode and the empty outcome are the fields' unset values.\<close>

datatype human_task_mode = HumanTaskModeHold | HumanTaskModeSuspend | HumanTaskModeNone
datatype human_task_outcome = HumanTaskOutcomeSubmit | HumanTaskOutcomeCancel | HumanTaskOutcomeNone
datatype admission_outcome_state = AdmissionOutcomeAdmitted | AdmissionOutcomeAborted
datatype app_runtime_state = AppRuntimeActive | AppRuntimeTombstoned | AppRuntimeRevoked

datatype delivery_state =
    DeliveryPending | DeliveryDelivering | DeliveryRetrying
  | DeliverySucceeded | DeliveryFailed | DeliveryCanceled

section \<open>Records\<close>

record trace_context =
  tc_Version :: int
  tc_TraceParent :: string
  tc_TraceState :: string
  tc_Origin :: string
  tc_PropagationReason :: string

definition zero_trace_context :: trace_context where
  "zero_trace_context = \<lparr>tc_Version = 0, tc_TraceParent = [], tc_TraceState = [], tc_Origin = [],
     tc_PropagationReason = []\<rparr>"

record immutable_reference =
  iref_ID :: string
  iref_Version :: string

definition zero_immutable_reference :: immutable_reference where
  "zero_immutable_reference = \<lparr>iref_ID = [], iref_Version = []\<rparr>"

record named_reference_pin =
  nrp_Name :: string
  nrp_Reference :: immutable_reference

definition zero_named_reference_pin :: named_reference_pin where
  "zero_named_reference_pin = \<lparr>nrp_Name = [], nrp_Reference = zero_immutable_reference\<rparr>"

record invocation_pins =
  ipin_PublicationRef :: string
  ipin_RouteGeneration :: int
  ipin_OperationRef :: string
  ipin_CredentialRef :: immutable_reference
  ipin_References :: "named_reference_pin list"

definition zero_invocation_pins :: invocation_pins where
  "zero_invocation_pins = \<lparr>ipin_PublicationRef = [], ipin_RouteGeneration = 0, ipin_OperationRef = [],
     ipin_CredentialRef = zero_immutable_reference, ipin_References = []\<rparr>"

record http_policy =
  hp_ContentTypes :: "string list"
  hp_MaxBodyBytes :: int
  hp_AllowMissingContentType :: bool

definition zero_http_policy :: http_policy where
  "zero_http_policy = \<lparr>hp_ContentTypes = [], hp_MaxBodyBytes = 0, hp_AllowMissingContentType = False\<rparr>"

record execution_release_pin =
  erp_DeploymentID :: string
  erp_Commit :: string
  erp_BundleDigest :: string

definition zero_execution_release_pin :: execution_release_pin where
  "zero_execution_release_pin = \<lparr>erp_DeploymentID = [], erp_Commit = [], erp_BundleDigest = []\<rparr>"

record attestation_binding =
  eab_Kind :: string
  eab_Audience :: string
  eab_IssuerKeyID :: string
  eab_ExpiresAt :: string
  eab_RunRef :: string
  eab_Workspace :: string
  eab_App :: string
  eab_Action :: string
  eab_PublicationRef :: string
  eab_RouteGeneration :: int
  eab_OperationRef :: string
  eab_CredentialRef :: immutable_reference
  eab_Release :: execution_release_pin
  eab_References :: "named_reference_pin list"

definition zero_attestation_binding :: attestation_binding where
  "zero_attestation_binding = \<lparr>eab_Kind = [], eab_Audience = [], eab_IssuerKeyID = [], eab_ExpiresAt = [],
     eab_RunRef = [], eab_Workspace = [], eab_App = [], eab_Action = [],
     eab_PublicationRef = [], eab_RouteGeneration = 0, eab_OperationRef = [],
     eab_CredentialRef = zero_immutable_reference,
     eab_Release = zero_execution_release_pin, eab_References = []\<rparr>"

record execution_attestation =
  ea_Kind :: string
  ea_Binding :: attestation_binding
  ea_BindingDigest :: string
  ea_Algorithm :: string
  ea_Signature :: string

definition zero_execution_attestation :: execution_attestation where
  "zero_execution_attestation = \<lparr>ea_Kind = [], ea_Binding = zero_attestation_binding, ea_BindingDigest = [],
     ea_Algorithm = [], ea_Signature = []\<rparr>"

record app_concurrency_pin =
  acp_PolicyID :: string
  acp_ShapeFingerprint :: string
  acp_MaxConcurrent :: "int option"

definition zero_app_concurrency_pin :: app_concurrency_pin where
  "zero_app_concurrency_pin = \<lparr>acp_PolicyID = [], acp_ShapeFingerprint = [], acp_MaxConcurrent = None\<rparr>"

record keyed_concurrency_pin =
  kcp_PolicyID :: string
  kcp_PolicyRevision :: string
  kcp_ShapeFingerprint :: string
  kcp_Scope :: string
  kcp_KeyDigest :: string
  kcp_MaxConcurrent :: int

definition zero_keyed_concurrency_pin :: keyed_concurrency_pin where
  "zero_keyed_concurrency_pin = \<lparr>kcp_PolicyID = [], kcp_PolicyRevision = [], kcp_ShapeFingerprint = [],
     kcp_Scope = [], kcp_KeyDigest = [], kcp_MaxConcurrent = 0\<rparr>"

record keyed_rate_pin =
  krp_PolicyID :: string
  krp_PolicyRevision :: string
  krp_ShapeFingerprint :: string
  krp_Scope :: string
  krp_KeyDigest :: string
  krp_MaxAttempts :: int
  krp_WindowSeconds :: int

definition zero_keyed_rate_pin :: keyed_rate_pin where
  "zero_keyed_rate_pin = \<lparr>krp_PolicyID = [], krp_PolicyRevision = [], krp_ShapeFingerprint = [],
     krp_Scope = [], krp_KeyDigest = [], krp_MaxAttempts = 0, krp_WindowSeconds = 0\<rparr>"

record execution_limit_pins =
  elp_AppConcurrency :: "app_concurrency_pin option"
  elp_Concurrency :: "keyed_concurrency_pin list"
  elp_Rate :: "keyed_rate_pin list"

definition zero_execution_limit_pins :: execution_limit_pins where
  "zero_execution_limit_pins = \<lparr>elp_AppConcurrency = None, elp_Concurrency = [], elp_Rate = []\<rparr>"

record execution_rate_bucket =
  erb_WindowStart :: time
  erb_WindowEnd :: time
  erb_Consumed :: int

definition zero_execution_rate_bucket :: execution_rate_bucket where
  "zero_execution_rate_bucket = \<lparr>erb_WindowStart = 0, erb_WindowEnd = 0, erb_Consumed = 0\<rparr>"

record run =
  run_ID :: string
  run_Adapter :: string
  run_App :: string
  run_Action :: string
  run_State :: run_state
  run_Deployment :: deployment
  run_Input :: raw
  run_InputConfigResolved :: bool
  run_ExecutionLimits :: execution_limit_pins
  run_Output :: raw
  run_Result :: "job_result option"
  run_Error :: raw
  run_TaskID :: string
  run_CorrelationID :: string
  run_Env :: "string list"
  run_CreatedBy :: string
  run_PermissionedAs :: string
  run_ClientID :: string
  run_PrincipalKind :: string
  run_PrincipalID :: string
  run_IdempotencyHash :: string
  run_RequestFingerprint :: string
  run_TraceContext :: trace_context
  run_CreatedAt :: time
  run_UpdatedAt :: time
  run_ExpiresAt :: "time option"

definition zero_run :: run where
  "zero_run = \<lparr>run_ID = [], run_Adapter = [], run_App = [], run_Action = [], run_State = RunQueued,
     run_Deployment = zero_deployment, run_Input = [], run_InputConfigResolved = False,
     run_ExecutionLimits = zero_execution_limit_pins, run_Output = [], run_Result = None,
     run_Error = [], run_TaskID = [], run_CorrelationID = [], run_Env = [],
     run_CreatedBy = [], run_PermissionedAs = [], run_ClientID = [],
     run_PrincipalKind = [], run_PrincipalID = [], run_IdempotencyHash = [],
     run_RequestFingerprint = [], run_TraceContext = zero_trace_context,
     run_CreatedAt = 0, run_UpdatedAt = 0, run_ExpiresAt = None\<rparr>"

record job_payload =
  pl_Workspace :: string
  pl_GitSourceID :: string
  pl_Commit :: string
  pl_APIVersion :: string
  pl_App :: string
  pl_Action :: string
  pl_Version :: string
  pl_Tag :: string
  pl_DeploymentTag :: string
  pl_DeploymentTagOverride :: "string option"
  pl_Entrypoint :: string
  pl_Runtime :: string
  pl_ScriptLang :: string
  pl_TimeoutS :: int
  pl_MaxConcurrent :: "int option"
  pl_ExecutionLimits :: execution_limit_pins
  pl_RequiredCapabilities :: "string list option"
  pl_RequiredLabels :: "string list option"
  pl_DeploymentID :: "string option"
  pl_BundleDigest :: string
  pl_BundleURI :: string
  pl_ExecutionProfile :: execution_profile
  pl_ObjectURI :: string
  pl_TriggerKind :: string
  pl_TriggerHeaders :: raw
  pl_ScheduledFor :: string
  pl_ActionSpec :: action
  pl_InputSchema :: raw
  pl_OutputSchema :: raw
  pl_Input :: raw
  pl_InputConfigResolved :: bool
  pl_RuntimeAccess :: runtime_access
  pl_InvocationPins :: invocation_pins
  pl_ExecutionAttestation :: "execution_attestation option"
  pl_ResponsePolicy :: http_policy
  pl_Deployment :: "deployment option"
  pl_CorrelationID :: string
  pl_Env :: "string list"
  pl_CreatedBy :: string
  pl_PermissionedAs :: string
  pl_ClientID :: string
  pl_PrincipalKind :: string
  pl_PrincipalID :: string
  pl_FlowRunID :: string
  pl_FlowStepID :: string
  pl_FlowKey :: string
  pl_FlowStepKey :: string

definition zero_job_payload :: job_payload where
  "zero_job_payload = \<lparr>pl_Workspace = [], pl_GitSourceID = [], pl_Commit = [], pl_APIVersion = [],
     pl_App = [], pl_Action = [], pl_Version = [], pl_Tag = [], pl_DeploymentTag = [],
     pl_DeploymentTagOverride = None, pl_Entrypoint = [], pl_Runtime = [],
     pl_ScriptLang = [], pl_TimeoutS = 0, pl_MaxConcurrent = None,
     pl_ExecutionLimits = zero_execution_limit_pins, pl_RequiredCapabilities = None,
     pl_RequiredLabels = None, pl_DeploymentID = None, pl_BundleDigest = [],
     pl_BundleURI = [], pl_ExecutionProfile = zero_profile, pl_ObjectURI = [],
     pl_TriggerKind = [], pl_TriggerHeaders = [], pl_ScheduledFor = [],
     pl_ActionSpec = zero_action, pl_InputSchema = [], pl_OutputSchema = [],
     pl_Input = [], pl_InputConfigResolved = False, pl_RuntimeAccess = no_access,
     pl_InvocationPins = zero_invocation_pins, pl_ExecutionAttestation = None,
     pl_ResponsePolicy = zero_http_policy, pl_Deployment = None, pl_CorrelationID = [],
     pl_Env = [], pl_CreatedBy = [], pl_PermissionedAs = [], pl_ClientID = [],
     pl_PrincipalKind = [], pl_PrincipalID = [], pl_FlowRunID = [], pl_FlowStepID = [],
     pl_FlowKey = [], pl_FlowStepKey = []\<rparr>"

record worker_lease_identity =
  wli_Group :: string
  wli_CredentialGeneration :: int

definition zero_worker_lease_identity :: worker_lease_identity where
  "zero_worker_lease_identity = \<lparr>wli_Group = [], wli_CredentialGeneration = 0\<rparr>"

record job =
  job_ID :: string
  job_RunID :: string
  job_State :: job_state
  job_Kind :: string
  job_Payload :: job_payload
  job_Priority :: int
  job_Attempt :: int
  job_LeaseOwner :: string
  job_LeaseExpiresAt :: "time option"
  job_StartedAt :: "time option"
  job_CanceledBy :: "string option"
  job_CanceledReason :: "string option"
  job_TraceContext :: trace_context
  job_CreatedAt :: time
  job_UpdatedAt :: time
  job_LeaseIdentity :: "worker_lease_identity option"

definition zero_job :: job where
  "zero_job = \<lparr>job_ID = [], job_RunID = [], job_State = JobQueued, job_Kind = [],
     job_Payload = zero_job_payload, job_Priority = 0, job_Attempt = 0,
     job_LeaseOwner = [], job_LeaseExpiresAt = None, job_StartedAt = None,
     job_CanceledBy = None, job_CanceledReason = None,
     job_TraceContext = zero_trace_context, job_CreatedAt = 0, job_UpdatedAt = 0,
     job_LeaseIdentity = None\<rparr>"

record lease =
  ls_JobID :: string
  ls_WorkerID :: string
  ls_ExpiresAt :: time
  ls_Attempt :: int
  ls_AcquiredAt :: time
  ls_Identity :: "worker_lease_identity option"

definition zero_lease :: lease where
  "zero_lease = \<lparr>ls_JobID = [], ls_WorkerID = [], ls_ExpiresAt = 0, ls_Attempt = 0,
     ls_AcquiredAt = 0, ls_Identity = None\<rparr>"

record heartbeat_result =
  hb_CanceledBy :: "string option"
  hb_CanceledReason :: "string option"
  hb_StillOwned :: bool

definition zero_heartbeat_result :: heartbeat_result where
  "zero_heartbeat_result = \<lparr>hb_CanceledBy = None, hb_CanceledReason = None, hb_StillOwned = False\<rparr>"

record human_task =
  ht_ID :: string
  ht_WorkspaceID :: string
  ht_RunID :: string
  ht_JobID :: string
  ht_Attempt :: int
  ht_Key :: string
  ht_RequestFingerprint :: string
  ht_Mode :: human_task_mode
  ht_Kind :: string
  ht_State :: human_task_state
  ht_Title :: string
  ht_Description :: string
  ht_Schema :: raw
  ht_Presentation :: raw
  ht_PrivateContext :: raw
  ht_PrivateContextEncrypted :: raw
  ht_HasPrivateContext :: bool
  ht_DecisionOutcome :: human_task_outcome
  ht_Decision :: raw
  ht_DecisionEncrypted :: raw
  ht_HasDecision :: bool
  ht_DecisionIdempotencyKey :: string
  ht_DecisionFingerprint :: string
  ht_DecidedBy :: string
  ht_TerminalCause :: string
  ht_ResumeInput :: raw
  ht_CreatedAt :: time
  ht_UpdatedAt :: time
  ht_DecidedAt :: "time option"
  ht_CompletedAt :: "time option"
  ht_ExpiresAt :: "time option"

definition zero_human_task :: human_task where
  "zero_human_task = \<lparr>ht_ID = [], ht_WorkspaceID = [], ht_RunID = [], ht_JobID = [], ht_Attempt = 0,
     ht_Key = [], ht_RequestFingerprint = [], ht_Mode = HumanTaskModeNone, ht_Kind = [],
     ht_State = HumanTaskPending, ht_Title = [], ht_Description = [], ht_Schema = [],
     ht_Presentation = [], ht_PrivateContext = [], ht_PrivateContextEncrypted = [],
     ht_HasPrivateContext = False, ht_DecisionOutcome = HumanTaskOutcomeNone,
     ht_Decision = [], ht_DecisionEncrypted = [], ht_HasDecision = False,
     ht_DecisionIdempotencyKey = [], ht_DecisionFingerprint = [], ht_DecidedBy = [],
     ht_TerminalCause = [], ht_ResumeInput = [], ht_CreatedAt = 0, ht_UpdatedAt = 0,
     ht_DecidedAt = None, ht_CompletedAt = None, ht_ExpiresAt = None\<rparr>"

record human_task_decision =
  htd_Outcome :: human_task_outcome
  htd_Value :: raw
  htd_IdempotencyKey :: string
  htd_Fingerprint :: string
  htd_Actor :: string
  htd_DecidedAt :: time

definition zero_human_task_decision :: human_task_decision where
  "zero_human_task_decision = \<lparr>htd_Outcome = HumanTaskOutcomeNone, htd_Value = [], htd_IdempotencyKey = [],
     htd_Fingerprint = [], htd_Actor = [], htd_DecidedAt = 0\<rparr>"

record human_task_decision_result =
  htr_Task :: human_task
  htr_Decision :: human_task_decision
  htr_Replayed :: bool

definition zero_human_task_decision_result :: human_task_decision_result where
  "zero_human_task_decision_result = \<lparr>htr_Task = zero_human_task, htr_Decision = zero_human_task_decision,
     htr_Replayed = False\<rparr>"

record cancel_result =
  cr_Found :: bool
  cr_CompletedNow :: bool
  cr_SoftCanceled :: bool
  cr_AlreadyCompleted :: bool

definition zero_cancel_result :: cancel_result where
  "zero_cancel_result = \<lparr>cr_Found = False, cr_CompletedNow = False, cr_SoftCanceled = False,
     cr_AlreadyCompleted = False\<rparr>"

record requeue_app_spec =
  rq_WorkspaceID :: string
  rq_AppKey :: string
  rq_ActionKey :: "string option"
  rq_ActionTags :: "(string, string) gomap"

definition zero_requeue_app_spec :: requeue_app_spec where
  "zero_requeue_app_spec = \<lparr>rq_WorkspaceID = [], rq_AppKey = [], rq_ActionKey = None, rq_ActionTags = []\<rparr>"

record run_event =
  ev_ID :: int
  ev_RunID :: string
  ev_EventType :: string
  ev_Payload :: raw
  ev_CreatedAt :: time

definition zero_run_event :: run_event where
  "zero_run_event = \<lparr>ev_ID = 0, ev_RunID = [], ev_EventType = [], ev_Payload = [], ev_CreatedAt = 0\<rparr>"

record job_log =
  jl_JobID :: string
  jl_WorkspaceID :: string
  jl_Logs :: string
  jl_CreatedAt :: time

definition zero_job_log :: job_log where
  "zero_job_log = \<lparr>jl_JobID = [], jl_WorkspaceID = [], jl_Logs = [], jl_CreatedAt = 0\<rparr>"

record job_log_update =
  jlu_NewLogs :: string
  jlu_Offset :: int

definition zero_job_log_update :: job_log_update where
  "zero_job_log_update = \<lparr>jlu_NewLogs = [], jlu_Offset = 0\<rparr>"

record admission_outcome =
  ao_WorkspaceID :: string
  ao_AdmissionID :: string
  ao_RunID :: string
  ao_State :: admission_outcome_state
  ao_RequestFingerprint :: string
  ao_ResolvedBy :: string
  ao_CreatedAt :: time
  ao_UpdatedAt :: time

definition zero_admission_outcome :: admission_outcome where
  "zero_admission_outcome = \<lparr>ao_WorkspaceID = [], ao_AdmissionID = [], ao_RunID = [],
     ao_State = AdmissionOutcomeAdmitted, ao_RequestFingerprint = [], ao_ResolvedBy = [],
     ao_CreatedAt = 0, ao_UpdatedAt = 0\<rparr>"

record trigger_completion_callback =
  tcc_Endpoint :: string

definition zero_trigger_completion_callback :: trigger_completion_callback where
  "zero_trigger_completion_callback = \<lparr>tcc_Endpoint = []\<rparr>"

record trigger_completion_publish =
  tcp_Exchange :: string
  tcp_RoutingKey :: string

definition zero_trigger_completion_publish :: trigger_completion_publish where
  "zero_trigger_completion_publish = \<lparr>tcp_Exchange = [], tcp_RoutingKey = []\<rparr>"

record trigger_completion_policy =
  tpol_Mode :: string
  tpol_Callback :: "trigger_completion_callback option"
  tpol_Publish :: "trigger_completion_publish option"

definition zero_trigger_completion_policy :: trigger_completion_policy where
  "zero_trigger_completion_policy = \<lparr>tpol_Mode = [], tpol_Callback = None, tpol_Publish = None\<rparr>"

record trigger_response_policy =
  trp_Mode :: string
  trp_TimeoutSeconds :: int

definition zero_trigger_response_policy :: trigger_response_policy where
  "zero_trigger_response_policy = \<lparr>trp_Mode = [], trp_TimeoutSeconds = 0\<rparr>"

record trigger_definition =
  tdef_ID :: string
  tdef_WorkspaceID :: string
  tdef_Name :: string
  tdef_Kind :: string
  tdef_Enabled :: bool
  tdef_AppKey :: string
  tdef_ActionKey :: string
  tdef_CredentialRef :: string
  tdef_Config :: raw
  tdef_Completion :: trigger_completion_policy
  tdef_Response :: trigger_response_policy
  tdef_SecretConfig :: raw
  tdef_CreatedBy :: string
  tdef_UpdatedBy :: string
  tdef_CreatedAt :: time
  tdef_UpdatedAt :: time
  tdef_DeletedAt :: "time option"

definition zero_trigger_definition :: trigger_definition where
  "zero_trigger_definition = \<lparr>tdef_ID = [], tdef_WorkspaceID = [], tdef_Name = [], tdef_Kind = [],
     tdef_Enabled = False, tdef_AppKey = [], tdef_ActionKey = [],
     tdef_CredentialRef = [], tdef_Config = [],
     tdef_Completion = zero_trigger_completion_policy,
     tdef_Response = zero_trigger_response_policy, tdef_SecretConfig = [],
     tdef_CreatedBy = [], tdef_UpdatedBy = [], tdef_CreatedAt = 0, tdef_UpdatedAt = 0,
     tdef_DeletedAt = None\<rparr>"

text \<open>The stored trigger: the definition, its secret configuration in encrypted form only.\<close>

record trigger_record =
  trec_Definition :: trigger_definition
  trec_SecretConfigEncrypted :: raw

record trigger_delivery =
  td_ID :: string
  td_WorkspaceID :: string
  td_TriggerID :: string
  td_DeliveryID :: string
  td_CorrelationID :: string
  td_State :: string
  td_RunID :: string
  td_Attempt :: int
  td_ErrorSummary :: string
  td_ScheduledFor :: "time option"
  td_Completion :: trigger_completion_policy
  td_CompletionState :: string
  td_CompletionAttempt :: int
  td_CompletionNextAttemptAt :: time
  td_CompletionLeaseOwner :: string
  td_CompletionLeaseExpiresAt :: "time option"
  td_CompletionResponseStatus :: "int option"
  td_CompletionErrorSummary :: string
  td_CompletionCompletedAt :: "time option"
  td_CreatedAt :: time
  td_UpdatedAt :: time

definition zero_trigger_delivery :: trigger_delivery where
  "zero_trigger_delivery = \<lparr>td_ID = [], td_WorkspaceID = [], td_TriggerID = [], td_DeliveryID = [],
     td_CorrelationID = [], td_State = [], td_RunID = [], td_Attempt = 0,
     td_ErrorSummary = [], td_ScheduledFor = None,
     td_Completion = zero_trigger_completion_policy, td_CompletionState = [],
     td_CompletionAttempt = 0, td_CompletionNextAttemptAt = 0,
     td_CompletionLeaseOwner = [], td_CompletionLeaseExpiresAt = None,
     td_CompletionResponseStatus = None, td_CompletionErrorSummary = [],
     td_CompletionCompletedAt = None, td_CreatedAt = 0, td_UpdatedAt = 0\<rparr>"

record trigger_completion_lease =
  tl_DeliveryID :: string
  tl_WorkerID :: string
  tl_Attempt :: int
  tl_ExpiresAt :: time

definition zero_trigger_completion_lease :: trigger_completion_lease where
  "zero_trigger_completion_lease = \<lparr>tl_DeliveryID = [], tl_WorkerID = [], tl_Attempt = 0, tl_ExpiresAt = 0\<rparr>"

record trigger_completion_claim =
  tcl_Delivery :: trigger_delivery
  tcl_Run :: run
  tcl_Trigger :: trigger_definition
  tcl_Lease :: trigger_completion_lease

definition zero_trigger_completion_claim :: trigger_completion_claim where
  "zero_trigger_completion_claim = \<lparr>tcl_Delivery = zero_trigger_delivery, tcl_Run = zero_run,
     tcl_Trigger = zero_trigger_definition, tcl_Lease = zero_trigger_completion_lease\<rparr>"

record trigger_completion_result =
  tr_State :: string
  tr_NextAttemptAt :: time
  tr_ResponseStatus :: "int option"
  tr_ErrorSummary :: string
  tr_CompletedAt :: "time option"

definition zero_trigger_completion_result :: trigger_completion_result where
  "zero_trigger_completion_result = \<lparr>tr_State = [], tr_NextAttemptAt = 0, tr_ResponseStatus = None, tr_ErrorSummary = [],
     tr_CompletedAt = None\<rparr>"

record worker_resource_measurement =
  wrm_Supported :: bool
  wrm_Usage :: "int option"
  wrm_Limit :: "int option"
  wrm_Ratio :: "rat option"

definition zero_worker_resource_measurement :: worker_resource_measurement where
  "zero_worker_resource_measurement = \<lparr>wrm_Supported = False, wrm_Usage = None, wrm_Limit = None, wrm_Ratio = None\<rparr>"

record worker_resource_pressure =
  wrp_Supported :: bool
  wrp_AcceptingClaims :: bool
  wrp_ReasonCode :: string
  wrp_Scope :: string
  wrp_ObservedAt :: time
  wrp_FreshUntil :: time
  wrp_Measurements :: "(string, worker_resource_measurement) gomap"

definition zero_worker_resource_pressure :: worker_resource_pressure where
  "zero_worker_resource_pressure = \<lparr>wrp_Supported = False, wrp_AcceptingClaims = False, wrp_ReasonCode = [],
     wrp_Scope = [], wrp_ObservedAt = 0, wrp_FreshUntil = 0, wrp_Measurements = []\<rparr>"

record worker_record =
  wr_ID :: string
  wr_Group :: string
  wr_EngineVersion :: string
  wr_BuildRevision :: string
  wr_Tags :: "string list"
  wr_Labels :: "string list"
  wr_ExecutionProfiles :: "execution_profile list"
  wr_Slots :: int
  wr_Status :: string
  wr_CredentialID :: string
  wr_CredentialGeneration :: int
  wr_ResourcePressure :: "worker_resource_pressure option"
  wr_StartedAt :: time
  wr_LastHeartbeatAt :: time

definition zero_worker_record :: worker_record where
  "zero_worker_record = \<lparr>wr_ID = [], wr_Group = [], wr_EngineVersion = [], wr_BuildRevision = [],
     wr_Tags = [], wr_Labels = [], wr_ExecutionProfiles = [], wr_Slots = 0,
     wr_Status = [], wr_CredentialID = [], wr_CredentialGeneration = 0,
     wr_ResourcePressure = None, wr_StartedAt = 0, wr_LastHeartbeatAt = 0\<rparr>"

record worker_credential =
  wc_ID :: string
  wc_Group :: string
  wc_Generation :: int
  wc_WorkspaceIDs :: "string list"
  wc_Labels :: "string list"
  wc_Status :: string
  wc_ExpiresAt :: "time option"
  wc_RevokedAt :: "time option"
  wc_DrainDeadlineAt :: "time option"
  wc_CreatedBy :: string
  wc_CreatedAt :: time
  wc_UpdatedAt :: time
  wc_TokenHash :: string
  wc_OperationID :: string
  wc_RequestFingerprint :: string
  wc_RevokeOperationID :: string
  wc_RevokeFingerprint :: string

definition zero_worker_credential :: worker_credential where
  "zero_worker_credential = \<lparr>wc_ID = [], wc_Group = [], wc_Generation = 0, wc_WorkspaceIDs = [], wc_Labels = [],
     wc_Status = [], wc_ExpiresAt = None, wc_RevokedAt = None, wc_DrainDeadlineAt = None,
     wc_CreatedBy = [], wc_CreatedAt = 0, wc_UpdatedAt = 0, wc_TokenHash = [],
     wc_OperationID = [], wc_RequestFingerprint = [], wc_RevokeOperationID = [],
     wc_RevokeFingerprint = []\<rparr>"

record worker_group_run_state =
  wg_Group :: string
  wg_State :: string
  wg_OperationID :: string
  wg_Revision :: int
  wg_DeadlineAt :: "time option"
  wg_UpdatedBy :: string
  wg_UpdatedAt :: time
  wg_RequestFingerprint :: string

definition zero_worker_group_run_state :: worker_group_run_state where
  "zero_worker_group_run_state = \<lparr>wg_Group = [], wg_State = [], wg_OperationID = [], wg_Revision = 0,
     wg_DeadlineAt = None, wg_UpdatedBy = [], wg_UpdatedAt = 0, wg_RequestFingerprint = []\<rparr>"

record app_runtime_lifecycle =
  arl_WorkspaceID :: string
  arl_AppKey :: string
  arl_State :: app_runtime_state
  arl_Reason :: string
  arl_Actor :: string
  arl_Revision :: int
  arl_UpdatedAt :: time

definition zero_app_runtime_lifecycle :: app_runtime_lifecycle where
  "zero_app_runtime_lifecycle = \<lparr>arl_WorkspaceID = [], arl_AppKey = [], arl_State = AppRuntimeActive,
     arl_Reason = [], arl_Actor = [], arl_Revision = 0, arl_UpdatedAt = 0\<rparr>"

record app_runtime_lifecycle_audit =
  ara_WorkspaceID :: string
  ara_AppKey :: string
  ara_State :: app_runtime_state
  ara_Reason :: string
  ara_Actor :: string
  ara_Revision :: int
  ara_Purged :: bool
  ara_Forced :: bool
  ara_CreatedAt :: time

definition zero_app_runtime_lifecycle_audit :: app_runtime_lifecycle_audit where
  "zero_app_runtime_lifecycle_audit = \<lparr>ara_WorkspaceID = [], ara_AppKey = [], ara_State = AppRuntimeActive,
     ara_Reason = [], ara_Actor = [], ara_Revision = 0, ara_Purged = False,
     ara_Forced = False, ara_CreatedAt = 0\<rparr>"

record execution_limit_policy_key =
  lpk_WorkspaceID :: string
  lpk_AppKey :: string
  lpk_ActionKey :: string
  lpk_Scope :: string
  lpk_PolicyID :: string
  lpk_Kind :: string

definition zero_execution_limit_policy_key :: execution_limit_policy_key where
  "zero_execution_limit_policy_key = \<lparr>lpk_WorkspaceID = [], lpk_AppKey = [], lpk_ActionKey = [], lpk_Scope = [],
     lpk_PolicyID = [], lpk_Kind = []\<rparr>"

record execution_limit_policy =
  lp_Key :: execution_limit_policy_key
  lp_ShapeFingerprint :: string
  lp_Allowance :: int
  lp_WindowSeconds :: int
  lp_Revision :: int
  lp_Deleted :: bool
  lp_LastOperationID :: string
  lp_LastRequestFingerprint :: string
  lp_UpdatedBy :: string
  lp_UpdatedAt :: time

definition zero_execution_limit_policy :: execution_limit_policy where
  "zero_execution_limit_policy = \<lparr>lp_Key = zero_execution_limit_policy_key, lp_ShapeFingerprint = [],
     lp_Allowance = 0, lp_WindowSeconds = 0, lp_Revision = 0, lp_Deleted = False,
     lp_LastOperationID = [], lp_LastRequestFingerprint = [], lp_UpdatedBy = [],
     lp_UpdatedAt = 0\<rparr>"

record execution_limit_policy_audit =
  lpa_ID :: string
  lpa_Key :: execution_limit_policy_key
  lpa_EventKind :: string
  lpa_ShapeFingerprint :: string
  lpa_PreviousAllowance :: "int option"
  lpa_Allowance :: "int option"
  lpa_Revision :: int
  lpa_OperationID :: string
  lpa_Reason :: string
  lpa_Actor :: string
  lpa_CreatedAt :: time

definition zero_execution_limit_policy_audit :: execution_limit_policy_audit where
  "zero_execution_limit_policy_audit = \<lparr>lpa_ID = [], lpa_Key = zero_execution_limit_policy_key, lpa_EventKind = [],
     lpa_ShapeFingerprint = [], lpa_PreviousAllowance = None, lpa_Allowance = None,
     lpa_Revision = 0, lpa_OperationID = [], lpa_Reason = [], lpa_Actor = [],
     lpa_CreatedAt = 0\<rparr>"

record envelope =
  env_SpecVersion :: string
  env_ID :: string
  env_Type :: string
  env_Source :: string
  env_Subject :: string
  env_Time :: time
  env_DataContentType :: string
  env_Data :: raw

definition zero_envelope :: envelope where
  "zero_envelope = \<lparr>env_SpecVersion = [], env_ID = [], env_Type = [], env_Source = [], env_Subject = [],
     env_Time = 0, env_DataContentType = [], env_Data = []\<rparr>"

record webhook_delivery =
  wd_ID :: string
  wd_WorkspaceID :: string
  wd_EventID :: string
  wd_SubscriptionID :: string
  wd_State :: delivery_state
  wd_Attempt :: int
  wd_NextAttemptAt :: time
  wd_LeaseOwner :: "string option"
  wd_LeaseExpiresAt :: "time option"
  wd_ResponseStatus :: "int option"
  wd_LatencyMillis :: "int option"
  wd_ErrorSummary :: "string option"
  wd_CreatedAt :: time
  wd_UpdatedAt :: time
  wd_CompletedAt :: "time option"

definition zero_webhook_delivery :: webhook_delivery where
  "zero_webhook_delivery = \<lparr>wd_ID = [], wd_WorkspaceID = [], wd_EventID = [], wd_SubscriptionID = [],
     wd_State = DeliveryPending, wd_Attempt = 0, wd_NextAttemptAt = 0,
     wd_LeaseOwner = None, wd_LeaseExpiresAt = None, wd_ResponseStatus = None,
     wd_LatencyMillis = None, wd_ErrorSummary = None, wd_CreatedAt = 0, wd_UpdatedAt = 0,
     wd_CompletedAt = None\<rparr>"

record webhook_subscription =
  ws_ID :: string
  ws_WorkspaceID :: string
  ws_Name :: string
  ws_EndpointEncrypted :: raw
  ws_SigningSecretEncrypted :: raw
  ws_EventTypes :: "string list"
  ws_AppKeys :: "string list"
  ws_Enabled :: bool
  ws_CreatedBy :: string
  ws_UpdatedBy :: string
  ws_CreatedAt :: time
  ws_UpdatedAt :: time
  ws_DeletedAt :: "time option"

definition zero_webhook_subscription :: webhook_subscription where
  "zero_webhook_subscription = \<lparr>ws_ID = [], ws_WorkspaceID = [], ws_Name = [], ws_EndpointEncrypted = [],
     ws_SigningSecretEncrypted = [], ws_EventTypes = [], ws_AppKeys = [],
     ws_Enabled = False, ws_CreatedBy = [], ws_UpdatedBy = [], ws_CreatedAt = 0,
     ws_UpdatedAt = 0, ws_DeletedAt = None\<rparr>"

record webhook_audit =
  wa_ID :: string
  wa_WorkspaceID :: string
  wa_SubscriptionID :: string
  wa_DeliveryID :: string
  wa_Kind :: string
  wa_Detail :: string
  wa_Actor :: string
  wa_CreatedAt :: time

text \<open>
  The snapshot, with the maps that the modelled components read or write. The administrative maps
  (variables, resources, clients, workspaces, the release catalog, opaque ingress) are not part of it.
\<close>

record snapshot =
  StoreEpoch :: string
  SnapshotRevision :: int
  Sequence :: int
  Runs :: "(string, run) gomap"
  Jobs :: "(string, job) gomap"
  HumanTasks :: "(string, human_task) gomap"
  Events :: "run_event list"
  JobLogs :: "(string, job_log) gomap"
  JobState :: "(string, (string, raw) gomap) gomap"
  AppRuntimeLifecycles :: "(string, app_runtime_lifecycle) gomap"
  AppRuntimeLifecycleAudits :: "(string, app_runtime_lifecycle_audit list) gomap"
  WebhookSubscriptions :: "(string, webhook_subscription) gomap"
  ControlPlaneEvents :: "(string, envelope) gomap"
  WebhookDeliveries :: "(string, webhook_delivery) gomap"
  TriggerDeliveries :: "(string, trigger_delivery) gomap"
  WebhookAudits :: "(string, webhook_audit list) gomap"
  Triggers :: "(string, trigger_record) gomap"
  Workers :: "(string, worker_record) gomap"
  WorkerLeaseIdentities :: "(string, worker_lease_identity) gomap"
  WorkerCredentials :: "(string, worker_credential) gomap"
  WorkerGroupRunStates :: "(string, worker_group_run_state) gomap"
  ExecutionLimitPolicies :: "(string, execution_limit_policy) gomap"
  ExecutionLimitAudits :: "(string, execution_limit_policy_audit list) gomap"
  ExecutionRateBuckets :: "(string, execution_rate_bucket) gomap"
  AdmissionOutcomes :: "(string, admission_outcome) gomap"

definition newSnapshot :: "string \<Rightarrow> snapshot" where
  "newSnapshot epoch = \<lparr>StoreEpoch = epoch, SnapshotRevision = 0, Sequence = 0, Runs = [], Jobs = [],
     HumanTasks = [], Events = [], JobLogs = [], JobState = [], AppRuntimeLifecycles = [],
     AppRuntimeLifecycleAudits = [], WebhookSubscriptions = [], ControlPlaneEvents = [],
     WebhookDeliveries = [], TriggerDeliveries = [], WebhookAudits = [], Triggers = [], Workers = [],
     WorkerLeaseIdentities = [], WorkerCredentials = [], WorkerGroupRunStates = [],
     ExecutionLimitPolicies = [], ExecutionLimitAudits = [], ExecutionRateBuckets = [],
     AdmissionOutcomes = []\<rparr>"

section \<open>Runs and jobs\<close>

definition TerminalRunState :: "run_state \<Rightarrow> bool" where
  "TerminalRunState st \<longleftrightarrow> st \<in> {RunSucceeded, RunFailed, RunCanceled, RunExpired}"

definition retentionCutoff :: "run_state \<Rightarrow> time \<Rightarrow> time \<Rightarrow> time" where
  "retentionCutoff st successOlderThan failureOlderThan =
     (if st = RunSucceeded then successOlderThan else failureOlderThan)"

definition IsTerminal :: "run \<Rightarrow> bool" where
  "IsTerminal r \<longleftrightarrow> run_State r \<in> {RunSucceeded, RunFailed, RunCanceled, RunExpired}"

definition IsSettledForTrigger :: "run \<Rightarrow> bool" where
  "IsSettledForTrigger r \<longleftrightarrow> IsTerminal r \<or> run_State r = RunWaitingHuman"

definition defaultActorSubject :: string where "defaultActorSubject = ''system''"
definition defaultLeaseTime :: duration where "defaultLeaseTime = 30 * nanos_per_second"

definition actorCreatedBy :: "run \<Rightarrow> string" where
  "actorCreatedBy r = (let v = trim (run_CreatedBy r) in if v \<noteq> [] then v else defaultActorSubject)"

definition actorPermissionedAs :: "run \<Rightarrow> string" where
  "actorPermissionedAs r = (let v = trim (run_PermissionedAs r) in if v \<noteq> [] then v else actorCreatedBy r)"

definition cancelActorSubject :: "job \<Rightarrow> run \<Rightarrow> string \<Rightarrow> string" where
  "cancelActorSubject j r by' = firstNonEmpty
     [trim by', trim (run_PermissionedAs r), trim (run_CreatedBy r), trim (pl_PermissionedAs (job_Payload j)),
      trim (pl_CreatedBy (job_Payload j)), defaultActorSubject]"

definition SourceWorkspace :: "deployment \<Rightarrow> string" where
  "SourceWorkspace d = NormalizeWorkspace (dep_Workspace d)"

definition SourceGitSourceID :: "deployment \<Rightarrow> string" where
  "SourceGitSourceID d = NormalizeGitSourceID (dep_GitSourceID d) (dep_App d)"

definition NewRun ::
  "string \<Rightarrow> time \<Rightarrow> string \<Rightarrow> string \<Rightarrow> string \<Rightarrow> string \<Rightarrow> deployment \<Rightarrow> raw \<Rightarrow> run" where
  "NewRun fresh now adapter id' app action' deployment' input =
     zero_run\<lparr>run_ID := (if id' = [] then fresh else id'), run_Adapter := adapter, run_App := app,
       run_Action := action', run_State := RunQueued,
       run_Deployment := PinExecutionDeployment deployment' action',
       run_Input := (if input = [] then ''{}'' else input),
       run_CreatedBy := defaultActorSubject, run_PermissionedAs := defaultActorSubject,
       run_CreatedAt := now, run_UpdatedAt := now\<rparr>"

definition NewActionJob :: "string \<Rightarrow> time \<Rightarrow> run \<Rightarrow> raw \<Rightarrow> job" where
  "NewActionJob fresh now r input =
     (let input = (if input = [] then run_Input r else input);
          d = run_Deployment r;
          spec0 = (case map_of (actions_of d) (run_Action r) of Some a \<Rightarrow> a | None \<Rightarrow> zero_action);
          actionSpec = spec0\<lparr>act_InputSchemaBody := [], act_OutputSchemaBody := [],
             act_OperatorSettingsSchemaBody := [], act_ExecutionLimits := no_limits\<rparr>
      in zero_job\<lparr>job_ID := fresh, job_RunID := run_ID r, job_State := JobQueued, job_Kind := ''action'',
           job_Priority := 100, job_TraceContext := run_TraceContext r, job_CreatedAt := now,
           job_UpdatedAt := now,
           job_Payload := zero_job_payload\<lparr>pl_Workspace := SourceWorkspace d,
             pl_GitSourceID := SourceGitSourceID d, pl_Commit := dep_Commit d,
             pl_APIVersion := dep_APIVersion d, pl_App := run_App r, pl_Action := run_Action r,
             pl_Version := dep_Version d, pl_Tag := EffectiveRouteTagForAction d actionSpec,
             pl_DeploymentTag := dep_Tag d, pl_DeploymentTagOverride := dep_TagOverride d,
             pl_Entrypoint := dep_Entrypoint d, pl_Runtime := dep_Runtime d,
             pl_ScriptLang := dep_ScriptLang d, pl_TimeoutS := dep_TimeoutS d,
             pl_MaxConcurrent := dep_MaxConcurrent d, pl_ExecutionLimits := run_ExecutionLimits r,
             pl_RequiredCapabilities := append_nil (slice (dep_RequiredCapabilities d)),
             pl_RequiredLabels := EffectiveRequiredLabels d actionSpec,
             pl_DeploymentID := dep_DeploymentID d, pl_BundleDigest := dep_BundleDigest d,
             pl_BundleURI := dep_BundleURI d, pl_ExecutionProfile := dep_ExecutionProfile d,
             pl_ObjectURI := dep_ObjectURI d, pl_TriggerKind := run_Adapter r,
             pl_ActionSpec := actionSpec, pl_InputSchema := act_InputSchemaBody spec0,
             pl_OutputSchema := act_OutputSchemaBody spec0, pl_Input := input,
             pl_InputConfigResolved := run_InputConfigResolved r,
             pl_RuntimeAccess := act_RuntimeAccess actionSpec, pl_CorrelationID := run_CorrelationID r,
             pl_Env := run_Env r, pl_CreatedBy := actorCreatedBy r,
             pl_PermissionedAs := actorPermissionedAs r, pl_ClientID := run_ClientID r,
             pl_PrincipalKind := run_PrincipalKind r, pl_PrincipalID := run_PrincipalID r\<rparr>\<rparr>)"

definition or_str :: "string \<Rightarrow> string \<Rightarrow> string" where
  "or_str a b = (if a = [] then b else a)"

definition or_ptr :: "'a option \<Rightarrow> 'a option \<Rightarrow> 'a option" where
  "or_ptr a b = (case a of None \<Rightarrow> b | Some x \<Rightarrow> Some x)"

definition PinnedDeployment :: "job_payload \<Rightarrow> deployment" where
  "PinnedDeployment p =
     (let d = (case pl_Deployment p of Some d0 \<Rightarrow> d0 | None \<Rightarrow> zero_deployment)
      in d\<lparr>dep_Workspace := or_str (dep_Workspace d) (pl_Workspace p),
           dep_GitSourceID := or_str (dep_GitSourceID d) (pl_GitSourceID p),
           dep_Commit := or_str (dep_Commit d) (pl_Commit p),
           dep_APIVersion := or_str (dep_APIVersion d) (pl_APIVersion p),
           dep_App := or_str (dep_App d) (pl_App p),
           dep_Version := or_str (dep_Version d) (pl_Version p),
           dep_Tag := or_str (dep_Tag d) (pl_DeploymentTag p),
           dep_TagOverride := or_ptr (dep_TagOverride d) (pl_DeploymentTagOverride p),
           dep_Entrypoint := or_str (dep_Entrypoint d) (pl_Entrypoint p),
           dep_Runtime := or_str (dep_Runtime d) (pl_Runtime p),
           dep_ScriptLang := or_str (dep_ScriptLang d) (pl_ScriptLang p),
           dep_TimeoutS := (if dep_TimeoutS d = 0 then pl_TimeoutS p else dep_TimeoutS d),
           dep_MaxConcurrent := or_ptr (dep_MaxConcurrent d) (pl_MaxConcurrent p),
           dep_RequiredCapabilities := (if slice (dep_RequiredCapabilities d) = []
             then append_nil (slice (pl_RequiredCapabilities p)) else dep_RequiredCapabilities d),
           dep_RequiredLabels := (if slice (dep_RequiredLabels d) = []
             then append_nil (slice (pl_RequiredLabels p)) else dep_RequiredLabels d),
           dep_DeploymentID := or_ptr (dep_DeploymentID d) (pl_DeploymentID p),
           dep_BundleDigest := or_str (dep_BundleDigest d) (pl_BundleDigest p),
           dep_BundleURI := or_str (dep_BundleURI d) (pl_BundleURI p),
           dep_ExecutionProfile := (if dep_ExecutionProfile d = zero_profile
             then pl_ExecutionProfile p else dep_ExecutionProfile d),
           dep_ObjectURI := or_str (dep_ObjectURI d) (pl_ObjectURI p),
           dep_Actions := (if dep_Actions d = None \<and> pl_Action p \<noteq> []
             then Some [(pl_Action p, pl_ActionSpec p)] else dep_Actions d)\<rparr>)"

section \<open>Views of a job\<close>

definition normalizedJobWorkspace :: "string \<Rightarrow> job \<Rightarrow> string" where
  "normalizedJobWorkspace workspaceID j =
     (let w1 = or_str workspaceID (pl_Workspace (job_Payload j));
          w2 = (if w1 = [] then SourceWorkspace (PinnedDeployment (job_Payload j)) else w1)
      in NormalizeWorkspace w2)"

definition jobAppKey :: "job \<Rightarrow> string" where
  "jobAppKey j =
     (let app = trim (pl_App (job_Payload j))
      in if app \<noteq> [] then app else trim (dep_App (PinnedDeployment (job_Payload j))))"

definition jobTag :: "job \<Rightarrow> string" where
  "jobTag j =
     (if trim (pl_Tag (job_Payload j)) \<noteq> [] then trim (pl_Tag (job_Payload j))
      else EffectiveRouteTagForAction (PinnedDeployment (job_Payload j)) (pl_ActionSpec (job_Payload j)))"

definition jobRequiredLabels :: "job \<Rightarrow> string list" where
  "jobRequiredLabels j =
     (case pl_RequiredLabels (job_Payload j) of
        Some ls \<Rightarrow> ls | None \<Rightarrow> slice (pl_RequiredCapabilities (job_Payload j)))"

text \<open>The result 0 with \<open>False\<close> of the source is \<open>None\<close>.\<close>

definition positive_ptr :: "int option \<Rightarrow> int option" where
  "positive_ptr v = (case v of None \<Rightarrow> None | Some n \<Rightarrow> if n \<le> 0 then None else Some n)"

definition jobMaxConcurrent :: "job \<Rightarrow> int option" where
  "jobMaxConcurrent j =
     (case elp_AppConcurrency (pl_ExecutionLimits (job_Payload j)) of
        Some pin \<Rightarrow> positive_ptr (acp_MaxConcurrent pin)
      | None \<Rightarrow> positive_ptr (dep_MaxConcurrent (PinnedDeployment (job_Payload j))))"

text \<open>A tag set is the list of its members; the nil set of the source is the empty list.\<close>

definition normalizeClaimTags :: "string list \<Rightarrow> string list" where
  "normalizeClaimTags tags = remdups (filter (\<lambda>t. t \<noteq> []) (map trim tags))"

definition selectorAllowed :: "string \<Rightarrow> string list \<Rightarrow> string list \<Rightarrow> string list \<Rightarrow> bool" where
  "selectorAllowed tag requiredLabels tags labels \<longleftrightarrow>
     (tags = [] \<or> tag \<in> set tags) \<and> list_all (\<lambda>required. required \<in> set labels) requiredLabels"

definition claimAllowed :: "job \<Rightarrow> string list \<Rightarrow> string list \<Rightarrow> bool" where
  "claimAllowed j tags labels \<longleftrightarrow> selectorAllowed (jobTag j) (jobRequiredLabels j) tags labels"

definition jobTerminalStatus :: "job \<Rightarrow> run \<Rightarrow> string" where
  "jobTerminalStatus j r =
     (if run_State r = RunCanceled then ''canceled''
      else if job_State j = JobQueued then ''queued''
      else if job_State j = JobRunning then ''running''
      else if job_State j = JobSucceeded \<or> run_State r = RunSucceeded \<or> run_State r = RunWaitingHuman
      then ''success'' else ''failure'')"

definition canceledReasonValue :: "job \<Rightarrow> string" where
  "canceledReasonValue j = (case job_CanceledReason j of None \<Rightarrow> [] | Some r \<Rightarrow> r)"

text \<open>
  Event payloads are JSON objects. \<open>mustRaw\<close> marshals a map with its keys sorted; a nil map of values
  marshals to \<^verbatim>\<open>{}\<close> because \<open>eventPayload\<close> allocates it.
\<close>

definition eventPayload :: "string \<Rightarrow> (string, json) gomap \<Rightarrow> (string, json) gomap" where
  "eventPayload correlationID values =
     (if correlationID \<noteq> [] then put ''correlationId'' (JString correlationID) values else values)"

definition mustRaw :: "(string, json) gomap \<Rightarrow> raw" where
  "mustRaw values = marshal_object values"

definition mergeResumeInput :: "raw \<Rightarrow> string \<Rightarrow> raw \<Rightarrow> raw" where
  "mergeResumeInput original taskID resumeInput =
     (let original = (if original = [] \<or> \<not> json_valid original then ''{}'' else original);
          resumeInput = (if resumeInput = [] \<or> \<not> json_valid resumeInput then ''{}'' else resumeInput);
          resume = mustRaw [(''humanTaskID'', JString taskID), (''input'', raw_json resumeInput)]
      in case unmarshal_object original of
           Some (Some obj) \<Rightarrow> marshal_object (put ''$resume'' (raw_json resume) obj)
         | _ \<Rightarrow> marshal_object [(''$input'', raw_json original), (''$resume'', raw_json resume)])"

end
