(* ===== verification/ExecLimits.thy ===== *)
theory ExecLimits
  imports StateModel
begin

text \<open>
  Execution limits at claim time: the fingerprints of \<^verbatim>\<open>internal/executionlimit/fingerprint.go\<close>, the
  effective limits of \<^verbatim>\<open>internal/state/claim_execution_policy.go\<close>, the concurrency checks of
  \<^verbatim>\<open>internal/state/job_views.go\<close> and the fixed-window rate budgets of
  \<^verbatim>\<open>internal/state/execution_rate.go\<close>.
\<close>

section \<open>Fingerprints\<close>

definition KindConcurrency :: string where "KindConcurrency = ''concurrency''"
definition KindRate :: string where "KindRate = ''rate''"
definition ScopeAppName :: string where "ScopeAppName = ''app''"
definition ScopeActionName :: string where "ScopeActionName = ''action''"
definition ImplicitAppConcurrencyPolicyID :: string where
  "ImplicitAppConcurrencyPolicyID = ''app-concurrency''"
definition FingerprintVersion :: string where "FingerprintVersion = ''v1''"
definition FingerprintPrefix :: string where
  "FingerprintPrefix = ''elfp:'' @ FingerprintVersion @ '':sha256:''"

record shape =
  sh_WorkspaceID :: string
  sh_AppKey :: string
  sh_ActionKey :: string
  sh_Scope :: string
  sh_PolicyID :: string
  sh_Kind :: string
  sh_InputPointers :: "string list"
  sh_WindowSeconds :: int

definition normalizeShape :: "shape \<Rightarrow> shape res" where
  "normalizeShape s0 =
     (let s = s0\<lparr>sh_WorkspaceID := NormalizeWorkspace (sh_WorkspaceID s0), sh_AppKey := trim (sh_AppKey s0),
            sh_ActionKey := trim (sh_ActionKey s0), sh_Scope := trim (sh_Scope s0),
            sh_PolicyID := trim (sh_PolicyID s0), sh_Kind := trim (sh_Kind s0)\<rparr>
      in if sh_AppKey s = [] \<or> sh_PolicyID s = []
         then Inl (ErrOther ''execution limit shape requires app and policy id'')
         else if sh_Scope s \<noteq> ScopeAppName \<and> sh_Scope s \<noteq> ScopeActionName
         then Inl (ErrOther ''execution limit scope is invalid'')
         else if sh_Scope s = ScopeActionName \<and> sh_ActionKey s = []
         then Inl (ErrOther ''action-scoped execution limit requires an action'')
         else let s = (if sh_Scope s = ScopeAppName then s\<lparr>sh_ActionKey := []\<rparr> else s)
           in if sh_Kind s \<noteq> KindConcurrency \<and> sh_Kind s \<noteq> KindRate
              then Inl (ErrOther ''execution limit kind is invalid'')
              else if sh_Kind s = KindConcurrency \<and> sh_WindowSeconds s \<noteq> 0
              then Inl (ErrOther ''concurrency execution limit cannot declare a rate window'')
              else if sh_Kind s = KindRate \<and> sh_WindowSeconds s \<le> 0
              then Inl (ErrOther ''rate execution limit requires a positive window'')
              else if length (sh_InputPointers s) > MaxExecutionInputPointers
              then Inl (ErrOther ''execution limit shape declares too many input pointers'')
              else if list_all (\<lambda>p. ValidateInputJSONPointer p = Inr ()) (sh_InputPointers s) then Inr s
              else Inl (ErrOther ''execution limit shape input pointer''))"

text \<open>\<open>binary.BigEndian.PutUint32\<close> of a value modulo \<open>2^32\<close>.\<close>

definition be32 :: "int \<Rightarrow> string" where
  "be32 n = (let m = nat (n mod 2 ^ 32)
     in map char_of [m div 2 ^ 24, m div 2 ^ 16 mod 256, m div 2 ^ 8 mod 256, m mod 256])"

definition writeFrame :: "string \<Rightarrow> string" where
  "writeFrame value = be32 (int (length value)) @ value"

definition shape_frames :: "shape \<Rightarrow> string" where
  "shape_frames s =
     concat (map writeFrame ([''execution-limit-shape'', FingerprintVersion, sh_WorkspaceID s, sh_AppKey s,
       sh_ActionKey s, sh_Scope s, sh_PolicyID s, sh_Kind s] @ sh_InputPointers s)) @
     (if sh_Kind s = KindRate then be32 (sh_WindowSeconds s) else [])"

definition Fingerprint :: "shape \<Rightarrow> string res" where
  "Fingerprint s = bind_res (normalizeShape s) (\<lambda>normalized.
     Inr (FingerprintPrefix @ sha256_hex (shape_frames normalized)))"

definition AppConcurrencyFingerprint :: "string \<Rightarrow> string \<Rightarrow> string res" where
  "AppConcurrencyFingerprint workspaceID appKey =
     Fingerprint \<lparr>sh_WorkspaceID = workspaceID, sh_AppKey = appKey, sh_ActionKey = [],
       sh_Scope = ScopeAppName, sh_PolicyID = ImplicitAppConcurrencyPolicyID, sh_Kind = KindConcurrency,
       sh_InputPointers = [], sh_WindowSeconds = 0\<rparr>"

definition IsFingerprint :: "string \<Rightarrow> bool" where
  "IsFingerprint value \<longleftrightarrow>
     has_prefix value FingerprintPrefix \<and>
     (let digest = drop (length FingerprintPrefix) value in length digest = 64 \<and> hex_decodable digest)"

lemma Fingerprint_IsFingerprint: "Fingerprint s = Inr f \<Longrightarrow> IsFingerprint f"
  by (auto simp: Fingerprint_def IsFingerprint_def length_sha256_hex sha256_hex_decodable)

text \<open>
  Length framing: the frames of a tuple of short strings determine the tuple, so two shapes with
  different components are hashed as different byte strings.
\<close>

lemma bytes_of_nat:
  "(m :: nat) = 16777216 * (m div 16777216) + 65536 * (m div 65536 mod 256) + 256 * (m div 256 mod 256) + m mod 256"
proof -
  have "m div 256 div 256 = m div 65536" "m div 65536 div 256 = m div 16777216"
    by (simp_all flip: div_mult2_eq)
  then show ?thesis
    using mult_div_mod_eq [of 256 m] mult_div_mod_eq [of 256 "m div 256"]
      mult_div_mod_eq [of 256 "m div 65536"] by linarith
qed

lemma be32_inj:
  assumes "be32 a = be32 b" and "0 \<le> a" "a < 2 ^ 32" and "0 \<le> b" "b < 2 ^ 32"
  shows "a = b"
proof -
  define m n where "m = nat a" and "n = nat b"
  have lt: "m < 2 ^ 32" "n < 2 ^ 32" using assms by (auto simp: m_def n_def)
  have inj: "char_of x = (char_of y :: char) \<Longrightarrow> x < 256 \<Longrightarrow> y < 256 \<Longrightarrow> x = y" for x y :: nat
    by (metis byte_char_of)
  have top: "m div 16777216 < 256" "n div 16777216 < 256"
    using lt by (auto simp: less_mult_imp_div_less)
  have "char_of (m div 16777216) = (char_of (n div 16777216) :: char)"
    and "char_of (m div 65536 mod 256) = (char_of (n div 65536 mod 256) :: char)"
    and "char_of (m div 256 mod 256) = (char_of (n div 256 mod 256) :: char)"
    and "char_of (m mod 256) = (char_of (n mod 256) :: char)"
    using assms by (simp_all only: be32_def Let_def m_def n_def mod_pos_pos_trivial list.map list.inject) simp_all
  then have "m div 16777216 = n div 16777216" "m div 65536 mod 256 = n div 65536 mod 256"
    "m div 256 mod 256 = n div 256 mod 256" "m mod 256 = n mod 256"
    using inj top by (metis mod_less_divisor zero_less_numeral)+
  then have "m = n"
    using bytes_of_nat [of m] bytes_of_nat [of n] by simp
  then show ?thesis using assms(2,4) by (simp add: m_def n_def)
qed

lemma length_be32 [simp]: "length (be32 n) = 4"
  by (simp add: be32_def Let_def)

lemma writeFrame_inj:
  assumes "writeFrame a @ r = writeFrame b @ s" and "length a < 2 ^ 32" and "length b < 2 ^ 32"
  shows "a = b \<and> r = s"
proof -
  have "be32 (int (length a)) = be32 (int (length b))" and t: "a @ r = b @ s"
    using assms(1) by (simp_all add: writeFrame_def append_eq_append_conv)
  then have "length a = length b"
    using be32_inj [of "int (length a)" "int (length b)"] assms(2,3) by simp
  with t show ?thesis by simp
qed

lemma frames_inj:
  assumes "concat (map writeFrame xs) @ r = concat (map writeFrame ys) @ s"
    and "length xs = length ys" and "\<forall>x \<in> set (xs @ ys). length x < 2 ^ 32"
  shows "xs = ys \<and> r = s"
  using assms(2,1,3)
proof (induction xs ys rule: list_induct2)
  case (Cons x xs y ys)
  have "x = y \<and> concat (map writeFrame xs) @ r = concat (map writeFrame ys) @ s"
    using writeFrame_inj [of x _ y] Cons.prems by simp
  then show ?case using Cons by simp
qed simp

section \<open>Effective limits\<close>

definition executionLimitPolicyStorageKey :: "execution_limit_policy_key \<Rightarrow> string" where
  "executionLimitPolicyStorageKey key =
     join [unit_sep] [lpk_WorkspaceID key, lpk_AppKey key, lpk_ActionKey key, lpk_Scope key,
       lpk_PolicyID key, lpk_Kind key]"

definition executionPolicyKeyForJob :: "job \<Rightarrow> string \<Rightarrow> string \<Rightarrow> string \<Rightarrow> execution_limit_policy_key" where
  "executionPolicyKeyForJob candidate scope policyID kind =
     \<lparr>lpk_WorkspaceID = normalizedJobWorkspace [] candidate, lpk_AppKey = jobAppKey candidate,
      lpk_ActionKey = (if scope = ScopeActionName then trim (pl_Action (job_Payload candidate)) else []),
      lpk_Scope = scope, lpk_PolicyID = policyID, lpk_Kind = kind\<rparr>"

type_synonym policy_lookup = "(string, execution_limit_policy) gomap"

text \<open>A pair (value, found) of the source is an option.\<close>

definition matchingPolicyAllowance ::
  "policy_lookup \<Rightarrow> execution_limit_policy_key \<Rightarrow> string \<Rightarrow> int option" where
  "matchingPolicyAllowance policies key shapeFingerprint =
     (if \<not> IsFingerprint shapeFingerprint then None
      else case map_of policies (executionLimitPolicyStorageKey key) of
             None \<Rightarrow> None
           | Some policy \<Rightarrow>
               if lp_Deleted policy \<or> lp_Allowance policy \<le> 0 \<or> lp_ShapeFingerprint policy \<noteq> shapeFingerprint
               then None else Some (lp_Allowance policy))"

text \<open>
  The triple (limit, limited, valid): \<open>Invalid\<close> when the pin is not usable, \<open>Unlimited\<close> when neither
  the release nor an operator sets a bound.
\<close>

datatype limit = Invalid | Unlimited | AtMost int

definition minimumExecutionLimit :: "int option \<Rightarrow> int option \<Rightarrow> limit" where
  "minimumExecutionLimit first second =
     (case first of
        None \<Rightarrow> (case second of None \<Rightarrow> Unlimited | Some s \<Rightarrow> if s > 0 then AtMost s else Invalid)
      | Some f \<Rightarrow>
          (case second of
             None \<Rightarrow> if f > 0 then AtMost f else Invalid
           | Some s \<Rightarrow> let m = (if s < f then s else f) in if m > 0 then AtMost m else Invalid))"

definition effectiveAppConcurrencyLimit :: "job \<Rightarrow> policy_lookup \<Rightarrow> limit" where
  "effectiveAppConcurrencyLimit candidate policies =
     (let appKey = jobAppKey candidate
      in if appKey = [] then Unlimited
         else
           let key = executionPolicyKeyForJob candidate ScopeAppName ImplicitAppConcurrencyPolicyID KindConcurrency
           in case elp_AppConcurrency (pl_ExecutionLimits (job_Payload candidate)) of
                Some pin \<Rightarrow>
                  if acp_PolicyID pin \<noteq> ImplicitAppConcurrencyPolicyID \<or> \<not> IsFingerprint (acp_ShapeFingerprint pin)
                  then Invalid
                  else minimumExecutionLimit (jobMaxConcurrent candidate)
                         (matchingPolicyAllowance policies key (acp_ShapeFingerprint pin))
              | None \<Rightarrow>
                  (case AppConcurrencyFingerprint (normalizedJobWorkspace [] candidate) appKey of
                     Inl _ \<Rightarrow> Invalid
                   | Inr fingerprint \<Rightarrow>
                       minimumExecutionLimit (jobMaxConcurrent candidate)
                         (matchingPolicyAllowance policies key fingerprint)))"

definition cap_by :: "int \<Rightarrow> int option \<Rightarrow> int" where
  "cap_by limit allowance = (case allowance of Some a \<Rightarrow> if a < limit then a else limit | None \<Rightarrow> limit)"

definition effectiveKeyedConcurrencyLimit ::
  "job \<Rightarrow> keyed_concurrency_pin \<Rightarrow> policy_lookup \<Rightarrow> int option" where
  "effectiveKeyedConcurrencyLimit candidate pin policies =
     (if kcp_ShapeFingerprint pin = [] then Some (kcp_MaxConcurrent pin)
      else if \<not> IsFingerprint (kcp_ShapeFingerprint pin) then None
      else Some (cap_by (kcp_MaxConcurrent pin)
        (matchingPolicyAllowance policies
          (executionPolicyKeyForJob candidate (kcp_Scope pin) (kcp_PolicyID pin) KindConcurrency)
          (kcp_ShapeFingerprint pin))))"

definition effectiveKeyedRateLimit :: "job \<Rightarrow> keyed_rate_pin \<Rightarrow> policy_lookup \<Rightarrow> int option" where
  "effectiveKeyedRateLimit candidate pin policies =
     (if krp_ShapeFingerprint pin = [] then Some (krp_MaxAttempts pin)
      else if \<not> IsFingerprint (krp_ShapeFingerprint pin) then None
      else Some (cap_by (krp_MaxAttempts pin)
        (matchingPolicyAllowance policies
          (executionPolicyKeyForJob candidate (krp_Scope pin) (krp_PolicyID pin) KindRate)
          (krp_ShapeFingerprint pin))))"

lemma matchingPolicyAllowance_pos: "matchingPolicyAllowance ps k f = Some a \<Longrightarrow> 0 < a"
  by (auto simp: matchingPolicyAllowance_def split: if_splits option.splits)

lemma jobMaxConcurrent_pos: "jobMaxConcurrent j = Some n \<Longrightarrow> 0 < n"
  by (auto simp: jobMaxConcurrent_def positive_ptr_def split: option.splits if_splits)

lemma minimumExecutionLimit_cases:
  "minimumExecutionLimit None None = Unlimited"
  "0 < s \<Longrightarrow> minimumExecutionLimit None (Some s) = AtMost s"
  "0 < f \<Longrightarrow> minimumExecutionLimit (Some f) None = AtMost f"
  "0 < f \<Longrightarrow> 0 < s \<Longrightarrow> minimumExecutionLimit (Some f) (Some s) = AtMost (min f s)"
  by (auto simp: minimumExecutionLimit_def Let_def min_def)

lemma effectiveAppConcurrencyLimit_pos: "effectiveAppConcurrencyLimit j ps = AtMost n \<Longrightarrow> 0 < n"
  by (auto simp: effectiveAppConcurrencyLimit_def minimumExecutionLimit_def Let_def
      split: if_splits option.splits sum.splits)

section \<open>Concurrency\<close>

definition validExecutionLimitDigest :: "string \<Rightarrow> string \<Rightarrow> bool" where
  "validExecutionLimitDigest value prefix \<longleftrightarrow>
     has_prefix value prefix \<and> length value = length prefix + 64 \<and> hex_decodable (drop (length prefix) value)"

definition validKeyedConcurrencyPin :: "keyed_concurrency_pin \<Rightarrow> bool" where
  "validKeyedConcurrencyPin limit' \<longleftrightarrow>
     trim (kcp_PolicyID limit') \<noteq> [] \<and>
     validExecutionLimitDigest (kcp_PolicyRevision limit') ''sha256:'' \<and>
     (kcp_ShapeFingerprint limit' = [] \<or> IsFingerprint (kcp_ShapeFingerprint limit')) \<and>
     (kcp_Scope limit' = ScopeAppName \<or> kcp_Scope limit' = ScopeActionName) \<and>
     validExecutionLimitDigest (kcp_KeyDigest limit') ''hmac-sha256:'' \<and>
     0 < kcp_MaxConcurrent limit'"

definition jobHasKeyedConcurrencyPin :: "job \<Rightarrow> keyed_concurrency_pin \<Rightarrow> bool" where
  "jobHasKeyedConcurrencyPin j candidate \<longleftrightarrow>
     list_ex (\<lambda>running. (kcp_ShapeFingerprint candidate = [] \<or>
         kcp_ShapeFingerprint running = kcp_ShapeFingerprint candidate) \<and>
         kcp_PolicyID running = kcp_PolicyID candidate \<and> kcp_Scope running = kcp_Scope candidate \<and>
         kcp_KeyDigest running = kcp_KeyDigest candidate)
       (elp_Concurrency (pl_ExecutionLimits (job_Payload j)))"

definition count_jobs :: "(job \<Rightarrow> bool) \<Rightarrow> (string, job) gomap \<Rightarrow> int" where
  "count_jobs p jobs = int (length (filter (\<lambda>(k, j). p j) jobs))"

definition keyed_running :: "snapshot \<Rightarrow> job \<Rightarrow> keyed_concurrency_pin \<Rightarrow> int" where
  "keyed_running s candidate pin =
     count_jobs (\<lambda>j. job_State j = JobRunning \<and>
       normalizedJobWorkspace [] j = normalizedJobWorkspace [] candidate \<and>
       jobHasKeyedConcurrencyPin j pin) (Jobs s)"

definition keyedConcurrencyReached :: "snapshot \<Rightarrow> job \<Rightarrow> policy_lookup \<Rightarrow> bool" where
  "keyedConcurrencyReached s candidate policies \<longleftrightarrow>
     list_ex (\<lambda>pin. \<not> validKeyedConcurrencyPin pin \<or>
       (case effectiveKeyedConcurrencyLimit candidate pin policies of
          None \<Rightarrow> True | Some effectiveLimit \<Rightarrow> keyed_running s candidate pin \<ge> effectiveLimit))
       (elp_Concurrency (pl_ExecutionLimits (job_Payload candidate)))"

definition app_running :: "snapshot \<Rightarrow> string \<Rightarrow> string \<Rightarrow> int" where
  "app_running s workspaceID appKey =
     count_jobs (\<lambda>j. job_State j = JobRunning \<and> normalizedJobWorkspace [] j = workspaceID \<and>
       jobAppKey j = appKey) (Jobs s)"

definition maxConcurrentReached :: "snapshot \<Rightarrow> job \<Rightarrow> bool" where
  "maxConcurrentReached s candidate \<longleftrightarrow>
     keyedConcurrencyReached s candidate (ExecutionLimitPolicies s) \<or>
     (case effectiveAppConcurrencyLimit candidate (ExecutionLimitPolicies s) of
        Invalid \<Rightarrow> True
      | Unlimited \<Rightarrow> False
      | AtMost limit' \<Rightarrow>
          jobAppKey candidate \<noteq> [] \<and>
          app_running s (normalizedJobWorkspace [] candidate) (jobAppKey candidate) \<ge> limit')"

section \<open>Rates\<close>

definition validKeyedRatePin :: "keyed_rate_pin \<Rightarrow> bool" where
  "validKeyedRatePin limit' \<longleftrightarrow>
     trim (krp_PolicyID limit') \<noteq> [] \<and>
     validExecutionLimitDigest (krp_PolicyRevision limit') ''sha256:'' \<and>
     (krp_ShapeFingerprint limit' = [] \<or> IsFingerprint (krp_ShapeFingerprint limit')) \<and>
     (krp_Scope limit' = ScopeAppName \<or> krp_Scope limit' = ScopeActionName) \<and>
     validExecutionLimitDigest (krp_KeyDigest limit') ''hmac-sha256:'' \<and>
     0 < krp_MaxAttempts limit' \<and>
     MinRateWindowSeconds \<le> krp_WindowSeconds limit' \<and> krp_WindowSeconds limit' \<le> MaxRateWindowSeconds"

text \<open>The Unix epoch in seconds since Go's zero time.\<close>

definition unix_epoch :: int where "unix_epoch = 62135596800"

definition unix_seconds :: "time \<Rightarrow> int" where
  "unix_seconds t = t div nanos_per_second - unix_epoch"

definition unix_time :: "int \<Rightarrow> time" where
  "unix_time secs = (secs + unix_epoch) * nanos_per_second"

definition rateWindow :: "time \<Rightarrow> int \<Rightarrow> time \<times> time" where
  "rateWindow now windowSeconds =
     (let start = unix_time (go_div (unix_seconds now) windowSeconds * windowSeconds)
      in (start, start + windowSeconds * nanos_per_second))"

definition rateBucketKey :: "string \<Rightarrow> keyed_rate_pin \<Rightarrow> string" where
  "rateBucketKey workspaceID limit' =
     join [nul] [NormalizeWorkspace workspaceID, krp_Scope limit', krp_PolicyID limit',
       krp_ShapeFingerprint limit', krp_KeyDigest limit', itoa (krp_WindowSeconds limit')]"

definition rateLimitsReached :: "snapshot \<Rightarrow> job \<Rightarrow> time \<Rightarrow> bool" where
  "rateLimitsReached s candidate now \<longleftrightarrow>
     list_ex (\<lambda>pin. \<not> validKeyedRatePin pin \<or>
       (case effectiveKeyedRateLimit candidate pin (ExecutionLimitPolicies s) of
          None \<Rightarrow> True
        | Some effectiveLimit \<Rightarrow>
            (case map_of (ExecutionRateBuckets s) (rateBucketKey (normalizedJobWorkspace [] candidate) pin) of
               None \<Rightarrow> False
             | Some bucket \<Rightarrow>
                 erb_WindowStart bucket = fst (rateWindow now (krp_WindowSeconds pin)) \<and>
                 erb_Consumed bucket \<ge> effectiveLimit)))
       (elp_Rate (pl_ExecutionLimits (job_Payload candidate)))"

definition consume_bucket ::
  "string \<Rightarrow> time \<Rightarrow> keyed_rate_pin \<Rightarrow> (string, execution_rate_bucket) gomap \<Rightarrow>
   (string, execution_rate_bucket) gomap" where
  "consume_bucket workspaceID now pin buckets =
     (let (start, end') = rateWindow now (krp_WindowSeconds pin);
          key = rateBucketKey workspaceID pin;
          bucket0 = (case map_of buckets key of Some b \<Rightarrow> b | None \<Rightarrow> zero_execution_rate_bucket);
          bucket = (if erb_WindowStart bucket0 \<noteq> start
                    then \<lparr>erb_WindowStart = start, erb_WindowEnd = end', erb_Consumed = 0\<rparr> else bucket0)
      in put key (bucket\<lparr>erb_Consumed := erb_Consumed bucket + 1, erb_WindowEnd := end'\<rparr>) buckets)"

definition consumeRateLimits :: "snapshot \<Rightarrow> job \<Rightarrow> time \<Rightarrow> snapshot" where
  "consumeRateLimits s candidate now =
     s\<lparr>ExecutionRateBuckets :=
        fold (consume_bucket (normalizedJobWorkspace [] candidate) now)
          (elp_Rate (pl_ExecutionLimits (job_Payload candidate))) (ExecutionRateBuckets s)\<rparr>"

definition pruneExecutionRateBuckets :: "snapshot \<Rightarrow> time \<Rightarrow> snapshot" where
  "pruneExecutionRateBuckets s now =
     s\<lparr>ExecutionRateBuckets :=
        filter (\<lambda>(k, b). \<not> (erb_WindowEnd b = 0 \<or> \<not> erb_WindowEnd b > now)) (ExecutionRateBuckets s)\<rparr>"

section \<open>What the checks guarantee\<close>

lemma count_jobs_put_absent:
  "k \<notin> fst ` set m \<Longrightarrow> count_jobs p (put k j m) = count_jobs p m + (if p j then 1 else 0)"
  by (induction m) (auto simp: count_jobs_def)

lemma count_jobs_put:
  assumes "go_map_ok m" and "map_of m k = Some old"
  shows "count_jobs p (put k j m) =
    count_jobs p m - (if p old then 1 else 0) + (if p j then 1 else 0)"
  using assms
proof (induction m)
  case (Cons a m)
  obtain k0 v0 where a: "a = (k0, v0)" by force
  show ?case
  proof (cases "k0 = k")
    case True
    then show ?thesis using Cons.prems by (auto simp: a count_jobs_def)
  next
    case False
    then show ?thesis using Cons by (auto simp: a count_jobs_def)
  qed
qed simp

lemma count_jobs_nonneg: "0 \<le> count_jobs p m"
  by (simp add: count_jobs_def)

lemma not_maxConcurrentReached_app:
  assumes "\<not> maxConcurrentReached s c" and "effectiveAppConcurrencyLimit c (ExecutionLimitPolicies s) = AtMost n"
  shows "app_running s (normalizedJobWorkspace [] c) (jobAppKey c) < n"
  using assms by (auto simp: maxConcurrentReached_def effectiveAppConcurrencyLimit_def Let_def split: if_splits)

lemma not_maxConcurrentReached_valid:
  "\<not> maxConcurrentReached s c \<Longrightarrow> effectiveAppConcurrencyLimit c (ExecutionLimitPolicies s) \<noteq> Invalid"
  by (auto simp: maxConcurrentReached_def)

lemma not_maxConcurrentReached_keyed:
  assumes "\<not> maxConcurrentReached s c"
    and "pin \<in> set (elp_Concurrency (pl_ExecutionLimits (job_Payload c)))"
  obtains n where "validKeyedConcurrencyPin pin"
    and "effectiveKeyedConcurrencyLimit c pin (ExecutionLimitPolicies s) = Some n"
    and "keyed_running s c pin < n"
  using assms
  by (fastforce simp: maxConcurrentReached_def keyedConcurrencyReached_def list_ex_iff split: option.splits)

lemma effectiveKeyedConcurrencyLimit_le:
  "effectiveKeyedConcurrencyLimit c pin ps = Some n \<Longrightarrow> n \<le> kcp_MaxConcurrent pin"
  by (auto simp: effectiveKeyedConcurrencyLimit_def cap_by_def split: if_splits option.splits)

lemma effectiveKeyedRateLimit_le:
  "effectiveKeyedRateLimit c pin ps = Some n \<Longrightarrow> n \<le> krp_MaxAttempts pin"
  by (auto simp: effectiveKeyedRateLimit_def cap_by_def split: if_splits option.splits)

lemma effectiveKeyedRateLimit_pos:
  "effectiveKeyedRateLimit c pin ps = Some n \<Longrightarrow> validKeyedRatePin pin \<Longrightarrow> 0 < n"
  by (auto simp: effectiveKeyedRateLimit_def cap_by_def validKeyedRatePin_def
      dest: matchingPolicyAllowance_pos split: if_splits option.splits)

text \<open>The attempts already charged to a pin in the window that contains \<open>now\<close>.\<close>

definition consumed_in ::
  "string \<Rightarrow> time \<Rightarrow> keyed_rate_pin \<Rightarrow> (string, execution_rate_bucket) gomap \<Rightarrow> int" where
  "consumed_in w now pin b =
     (case map_of b (rateBucketKey w pin) of
        Some c \<Rightarrow> if erb_WindowStart c = fst (rateWindow now (krp_WindowSeconds pin)) then erb_Consumed c else 0
      | None \<Rightarrow> 0)"

lemma consume_bucket_other:
  "key \<noteq> rateBucketKey w pin \<Longrightarrow> map_of (consume_bucket w now pin b) key = map_of b key"
  by (simp add: consume_bucket_def Let_def split: prod.splits)

lemma consume_other:
  "key \<notin> rateBucketKey w ` set pins \<Longrightarrow> map_of (fold (consume_bucket w now) pins b) key = map_of b key"
  by (induction pins arbitrary: b) (auto simp: consume_bucket_other)

lemma consume_bucket_self:
  "\<exists>c. map_of (consume_bucket w now pin b) (rateBucketKey w pin) = Some c \<and>
     erb_WindowStart c = fst (rateWindow now (krp_WindowSeconds pin)) \<and>
     erb_WindowEnd c = snd (rateWindow now (krp_WindowSeconds pin)) \<and>
     erb_Consumed c = 1 + consumed_in w now pin b"
  by (auto simp: consume_bucket_def consumed_in_def Let_def zero_execution_rate_bucket_def
      split: prod.splits option.splits)

text \<open>One attempt is charged to the bucket of every pin, in the current window.\<close>

lemma consume_self:
  assumes "distinct (map (rateBucketKey w) pins)" and "pin \<in> set pins"
  shows "\<exists>c. map_of (fold (consume_bucket w now) pins b) (rateBucketKey w pin) = Some c \<and>
     erb_WindowStart c = fst (rateWindow now (krp_WindowSeconds pin)) \<and>
     erb_WindowEnd c = snd (rateWindow now (krp_WindowSeconds pin)) \<and>
     erb_Consumed c = 1 + consumed_in w now pin b"
  using assms
proof (induction pins arbitrary: b)
  case (Cons p ps)
  show ?case
  proof (cases "pin = p")
    case True
    have "rateBucketKey w p \<notin> rateBucketKey w ` set ps" using Cons.prems(1) by simp
    then show ?thesis
      using consume_bucket_self [of w now p b] unfolding True by (simp add: consume_other)
  next
    case False
    then have "pin \<in> set ps" and "rateBucketKey w pin \<noteq> rateBucketKey w p"
      using Cons.prems by (auto, metis image_eqI)
    then show ?thesis
      using Cons.IH [of "consume_bucket w now p b"] Cons.prems(1)
      by (simp add: consume_bucket_other consumed_in_def)
  qed
qed simp

lemma not_rateLimitsReached:
  assumes "\<not> rateLimitsReached s c now"
    and "pin \<in> set (elp_Rate (pl_ExecutionLimits (job_Payload c)))"
  obtains n where "validKeyedRatePin pin"
    and "effectiveKeyedRateLimit c pin (ExecutionLimitPolicies s) = Some n"
    and "consumed_in (normalizedJobWorkspace [] c) now pin (ExecutionRateBuckets s) < n"
proof -
  have v: "validKeyedRatePin pin"
    using assms by (auto simp: rateLimitsReached_def list_ex_iff)
  obtain n where n: "effectiveKeyedRateLimit c pin (ExecutionLimitPolicies s) = Some n"
    using assms by (fastforce simp: rateLimitsReached_def list_ex_iff split: option.splits)
  have "consumed_in (normalizedJobWorkspace [] c) now pin (ExecutionRateBuckets s) < n"
    using assms n effectiveKeyedRateLimit_pos [OF n v]
    by (fastforce simp: rateLimitsReached_def list_ex_iff consumed_in_def split: option.splits)
  then show ?thesis using that v n by blast
qed

lemma rateWindow_bounds:
  assumes "0 < w" and "0 \<le> unix_seconds now"
  shows "fst (rateWindow now w) \<le> now" and "now < snd (rateWindow now w)"
proof -
  let ?u = "unix_seconds now"
  have q: "go_div ?u w * w \<le> ?u" "?u < go_div ?u w * w + w"
    using assms by (simp_all add: go_div_nonneg minus_mod_eq_div_mult [symmetric] pos_mod_bound)
  have now: "now = (?u + unix_epoch) * nanos_per_second + now mod nanos_per_second"
    by (simp add: unix_seconds_def)
  have m: "0 \<le> now mod nanos_per_second" "now mod nanos_per_second < nanos_per_second"
    by (simp_all add: nanos_per_second_def)
  have n0: "0 \<le> nanos_per_second" by (simp add: nanos_per_second_def)
  have "(go_div ?u w * w + unix_epoch) * nanos_per_second \<le> (?u + unix_epoch) * nanos_per_second"
    using q(1) n0 by (intro mult_right_mono) auto
  then show "fst (rateWindow now w) \<le> now"
    using now m(1) by (simp add: rateWindow_def Let_def unix_time_def)
  have "(?u + 1 + unix_epoch) * nanos_per_second \<le> (go_div ?u w * w + w + unix_epoch) * nanos_per_second"
    using q(2) n0 by (intro mult_right_mono) auto
  then show "now < snd (rateWindow now w)"
    using now m(2) by (simp add: rateWindow_def Let_def unix_time_def algebra_simps)
qed

end
