(* ===== verification/Admission.thy ===== *)
theory Admission
  imports StateModel
begin

text \<open>
  Admission outcomes: \<^verbatim>\<open>internal/state/admission_outcome.go\<close> and the transaction bodies of
  \<^verbatim>\<open>internal/state/local_admission_outcome.go\<close>. An outcome fences an idempotent run identity: once
  it is recorded, admitted or aborted, it stays.
\<close>

definition maxAdmissionFingerprintBytes :: nat where "maxAdmissionFingerprintBytes = 512"

definition normalizeAdmissionOutcomeIdentity :: "string \<Rightarrow> string \<Rightarrow> (string \<times> string) res" where
  "normalizeAdmissionOutcomeIdentity workspaceID admissionID =
     (let w = NormalizeWorkspace workspaceID; a = trim admissionID
      in if \<not> ValidWorkspaceID w \<or> a = [] \<or> length a > 128 \<or> CleanID a \<noteq> a
         then Inl ErrInvalidState else Inr (w, a))"

definition normalizeAdmissionFingerprint :: "string \<Rightarrow> string res" where
  "normalizeAdmissionFingerprint value =
     (let v = trim value
      in if v = [] \<or> length v > maxAdmissionFingerprintBytes then Inl ErrInvalidState else Inr v)"

definition admissionOutcomeKey :: "string \<Rightarrow> string \<Rightarrow> string" where
  "admissionOutcomeKey workspaceID admissionID = workspaceID @ [nul] @ admissionID"

definition newAdmissionOutcome ::
  "string \<Rightarrow> string \<Rightarrow> string \<Rightarrow> admission_outcome_state \<Rightarrow> string \<Rightarrow> string \<Rightarrow> time \<Rightarrow> admission_outcome" where
  "newAdmissionOutcome workspaceID admissionID runID st fingerprint actor now =
     \<lparr>ao_WorkspaceID = workspaceID, ao_AdmissionID = admissionID, ao_RunID = trim runID, ao_State = st,
      ao_RequestFingerprint = trim fingerprint,
      ao_ResolvedBy = (if trim actor = [] then defaultActorSubject else trim actor),
      ao_CreatedAt = now, ao_UpdatedAt = now\<rparr>"

definition validateAdmissionOutcome :: "admission_outcome \<Rightarrow> unit res" where
  "validateAdmissionOutcome outcome =
     (if normalizeAdmissionOutcomeIdentity (ao_WorkspaceID outcome) (ao_AdmissionID outcome)
           \<noteq> Inr (ao_WorkspaceID outcome, ao_AdmissionID outcome)
      then Inl ErrInvalidState
      else bind_res (normalizeAdmissionFingerprint (ao_RequestFingerprint outcome)) (\<lambda>_.
        case ao_State outcome of
          AdmissionOutcomeAdmitted \<Rightarrow>
            if ao_RunID outcome = [] \<or> length (ao_RunID outcome) > 128 \<or>
               CleanID (ao_RunID outcome) \<noteq> ao_RunID outcome
            then Inl ErrInvalidState else Inr ()
        | AdmissionOutcomeAborted \<Rightarrow>
            if ao_RunID outcome \<noteq> [] then Inl ErrInvalidState else Inr ()))"

text \<open>\<open>Inr None\<close> is a run without an idempotency key, which is not tracked.\<close>

definition admissionIdentityForRun :: "string \<Rightarrow> run \<Rightarrow> (string \<times> string) option res" where
  "admissionIdentityForRun workspaceID r =
     (if trim (run_IdempotencyHash r) = [] then Inr None
      else bind_res (normalizeAdmissionOutcomeIdentity workspaceID (run_ID r)) (\<lambda>(_, admissionID).
        bind_res (normalizeAdmissionFingerprint (run_RequestFingerprint r)) (\<lambda>fingerprint.
          Inr (Some (admissionID, fingerprint)))))"

definition admissionOutcomeMatchesFingerprint :: "admission_outcome \<Rightarrow> string \<Rightarrow> unit res" where
  "admissionOutcomeMatchesFingerprint outcome expectedFingerprint =
     bind_res (normalizeAdmissionFingerprint expectedFingerprint) (\<lambda>expected.
       if ao_RequestFingerprint outcome \<noteq> expected then Inl ErrConflict else Inr ())"

definition bindLocalAdmissionOutcome :: "snapshot \<Rightarrow> string \<Rightarrow> run \<Rightarrow> time \<Rightarrow> snapshot res" where
  "bindLocalAdmissionOutcome s workspaceID r now =
     bind_res (admissionIdentityForRun workspaceID r) (\<lambda>tracked.
       case tracked of
         None \<Rightarrow> Inr s
       | Some (admissionID, fingerprint) \<Rightarrow>
           (let key = admissionOutcomeKey workspaceID admissionID
            in case map_of (AdmissionOutcomes s) key of
                 Some existing \<Rightarrow>
                   bind_res (validateAdmissionOutcome existing) (\<lambda>_.
                   bind_res (admissionOutcomeMatchesFingerprint existing fingerprint) (\<lambda>_.
                     if ao_State existing = AdmissionOutcomeAborted then Inl ErrAdmissionAborted
                     else Inl ErrConflict))
               | None \<Rightarrow>
                   Inr (s\<lparr>AdmissionOutcomes :=
                     put key (newAdmissionOutcome workspaceID admissionID (run_ID r)
                       AdmissionOutcomeAdmitted fingerprint ''core:admission'' now) (AdmissionOutcomes s)\<rparr>)))"

definition localAdmissionRun :: "snapshot \<Rightarrow> string \<Rightarrow> string \<Rightarrow> run option" where
  "localAdmissionRun s workspaceID admissionID =
     (case map_of (Runs s) admissionID of
        None \<Rightarrow> None
      | Some r \<Rightarrow>
          if run_IdempotencyHash r = [] then None
          else if list_ex (\<lambda>(k, j). job_RunID j = run_ID r \<and> normalizedJobWorkspace [] j = workspaceID) (Jobs s)
          then Some r else None)"

text \<open>The body of the transaction of \<open>ResolveAdmissionOutcome\<close>, on normalised arguments.\<close>

definition resolve_admission ::
  "snapshot \<Rightarrow> string \<Rightarrow> string \<Rightarrow> string \<Rightarrow> string \<Rightarrow> time \<Rightarrow> (snapshot \<times> admission_outcome) res" where
  "resolve_admission s workspaceID admissionID expectedFingerprint actor now =
     (let key = admissionOutcomeKey workspaceID admissionID
      in case map_of (AdmissionOutcomes s) key of
           Some existing \<Rightarrow>
             bind_res (validateAdmissionOutcome existing) (\<lambda>_.
             bind_res (admissionOutcomeMatchesFingerprint existing expectedFingerprint) (\<lambda>_.
               Inr (s, existing)))
         | None \<Rightarrow>
             bind_res
               (case localAdmissionRun s workspaceID admissionID of
                  Some r \<Rightarrow>
                    if run_RequestFingerprint r \<noteq> expectedFingerprint then Inl ErrConflict
                    else Inr (newAdmissionOutcome workspaceID admissionID (run_ID r)
                      AdmissionOutcomeAdmitted expectedFingerprint actor now)
                | None \<Rightarrow>
                    Inr (newAdmissionOutcome workspaceID admissionID [] AdmissionOutcomeAborted
                      expectedFingerprint actor now))
               (\<lambda>resolved. Inr (s\<lparr>AdmissionOutcomes := put key resolved (AdmissionOutcomes s)\<rparr>, resolved)))"

definition GetAdmissionOutcome :: "snapshot \<Rightarrow> string \<Rightarrow> string \<Rightarrow> admission_outcome option res" where
  "GetAdmissionOutcome s workspaceID admissionID =
     bind_res (normalizeAdmissionOutcomeIdentity workspaceID admissionID) (\<lambda>(w, a).
       case map_of (AdmissionOutcomes s) (admissionOutcomeKey w a) of
         Some outcome \<Rightarrow> bind_res (validateAdmissionOutcome outcome) (\<lambda>_. Inr (Some outcome))
       | None \<Rightarrow>
           (case localAdmissionRun s w a of
              None \<Rightarrow> Inr None
            | Some r \<Rightarrow>
                let outcome = (newAdmissionOutcome w a (run_ID r) AdmissionOutcomeAdmitted
                      (run_RequestFingerprint r) ''core:legacy-admission'' (run_CreatedAt r))
                        \<lparr>ao_UpdatedAt := run_UpdatedAt r\<rparr>
                in bind_res (validateAdmissionOutcome outcome) (\<lambda>_. Inr (Some outcome))))"

text \<open>The loop reads the runs and adds outcomes; \<open>migrate_job\<close> is its body.\<close>

definition migrate_job ::
  "(string, run) gomap \<Rightarrow> string \<times> job \<Rightarrow> (string, admission_outcome) gomap \<Rightarrow> (string, admission_outcome) gomap" where
  "migrate_job runs entry outcomes =
     (let j = snd entry
      in case map_of runs (job_RunID j) of
           None \<Rightarrow> outcomes
         | Some r \<Rightarrow>
             let workspaceID = normalizedJobWorkspace [] j
             in case admissionIdentityForRun workspaceID r of
                  Inr (Some (admissionID, fingerprint)) \<Rightarrow>
                    (let key = admissionOutcomeKey workspaceID admissionID
                     in if map_of outcomes key \<noteq> None then outcomes
                        else put key
                          ((newAdmissionOutcome workspaceID admissionID (run_ID r) AdmissionOutcomeAdmitted
                             fingerprint ''core:legacy-admission'' (run_CreatedAt r))
                               \<lparr>ao_UpdatedAt := run_UpdatedAt r\<rparr>) outcomes)
                | _ \<Rightarrow> outcomes)"

definition migrateLocalAdmissionOutcomes :: "snapshot \<Rightarrow> snapshot" where
  "migrateLocalAdmissionOutcomes s =
     s\<lparr>AdmissionOutcomes := fold (migrate_job (Runs s)) (Jobs s) (AdmissionOutcomes s)\<rparr>"

section \<open>Recorded outcomes stay\<close>

text \<open>The fence: every outcome of \<open>s\<close> is an outcome of \<open>t\<close>, unchanged.\<close>

definition outcomes_kept :: "snapshot \<Rightarrow> snapshot \<Rightarrow> bool" where
  "outcomes_kept s t \<longleftrightarrow> map_of (AdmissionOutcomes s) \<subseteq>\<^sub>m map_of (AdmissionOutcomes t)"

lemma outcomes_kept_refl [intro, simp]: "outcomes_kept s s"
  by (simp add: outcomes_kept_def)

lemma outcomes_kept_trans [trans]: "outcomes_kept s t \<Longrightarrow> outcomes_kept t u \<Longrightarrow> outcomes_kept s u"
  unfolding outcomes_kept_def by (rule map_le_trans)

lemma outcomes_kept_same: "AdmissionOutcomes t = AdmissionOutcomes s \<Longrightarrow> outcomes_kept s t"
  by (simp add: outcomes_kept_def)

lemma outcomes_kept_put:
  "map_of (AdmissionOutcomes s) k = None \<Longrightarrow> AdmissionOutcomes t = put k v (AdmissionOutcomes s) \<Longrightarrow>
   outcomes_kept s t"
  by (auto simp: outcomes_kept_def map_le_def dom_def)

text \<open>Admission succeeds only for an untracked run or an identity without an outcome.\<close>

lemma bind_cases:
  assumes "bindLocalAdmissionOutcome s w r now = Inr t"
  obtains "admissionIdentityForRun w r = Inr None" and "t = s"
  | a f where "admissionIdentityForRun w r = Inr (Some (a, f))"
    and "map_of (AdmissionOutcomes s) (admissionOutcomeKey w a) = None"
    and "t = s\<lparr>AdmissionOutcomes := put (admissionOutcomeKey w a)
           (newAdmissionOutcome w a (run_ID r) AdmissionOutcomeAdmitted f ''core:admission'' now)
           (AdmissionOutcomes s)\<rparr>"
proof -
  obtain i where i: "admissionIdentityForRun w r = Inr i"
    using assms by (auto simp: bindLocalAdmissionOutcome_def)
  show ?thesis
  proof (cases i)
    case None
    then show ?thesis using that(1) i assms by (simp add: bindLocalAdmissionOutcome_def)
  next
    case (Some p)
    then obtain a f where p: "i = Some (a, f)" by (cases p) simp
    have "map_of (AdmissionOutcomes s) (admissionOutcomeKey w a) = None"
      using assms i p by (cases "map_of (AdmissionOutcomes s) (admissionOutcomeKey w a)")
        (auto simp: bindLocalAdmissionOutcome_def Let_def split: if_splits)
    then show ?thesis
      using that(2) [of a f] assms i p by (simp add: bindLocalAdmissionOutcome_def Let_def)
  qed
qed

lemma bind_outcomes_kept: "bindLocalAdmissionOutcome s w r now = Inr t \<Longrightarrow> outcomes_kept s t"
  by (erule bind_cases) (auto intro: outcomes_kept_put)

lemma bind_frame:
  assumes "bindLocalAdmissionOutcome s w r now = Inr t"
  shows "\<exists>a. t = s\<lparr>AdmissionOutcomes := a\<rparr>"
  using assms
proof (rule bind_cases)
  assume "t = s"
  then show ?thesis by (intro exI [of _ "AdmissionOutcomes s"]) simp
qed blast

lemma resolve_outcomes_kept: "resolve_admission s w a f actor now = Inr (t, out) \<Longrightarrow> outcomes_kept s t"
  by (auto simp: resolve_admission_def Let_def intro: outcomes_kept_put
      split: option.splits prod.splits if_splits)

lemma migrate_job_keeps: "map_of outs \<subseteq>\<^sub>m map_of (migrate_job runs e outs)"
  by (auto simp: migrate_job_def Let_def map_le_def dom_def split: option.splits sum.splits prod.splits)

lemma migrate_jobs_keep: "map_of outs \<subseteq>\<^sub>m map_of (fold (migrate_job runs) es outs)"
proof (induction es arbitrary: outs)
  case (Cons e es)
  then show ?case
    by (auto intro: map_le_trans [OF migrate_job_keeps])
qed simp

lemma migrate_outcomes_kept: "outcomes_kept s (migrateLocalAdmissionOutcomes s)"
  by (simp add: outcomes_kept_def migrateLocalAdmissionOutcomes_def migrate_jobs_keep)

text \<open>Binding a run to a recorded outcome fails.\<close>

lemma outcomes_keptD:
  "outcomes_kept s t \<Longrightarrow> map_of (AdmissionOutcomes s) k = Some out \<Longrightarrow> map_of (AdmissionOutcomes t) k = Some out"
  unfolding outcomes_kept_def map_le_def by (metis domI)

lemma refused_by_outcome:
  assumes "map_of (AdmissionOutcomes s) (admissionOutcomeKey w a) = Some out" and "admissionIdentityForRun w r = Inr (Some (a, f))"
  shows "\<exists>e \<in> {ErrAdmissionAborted, ErrConflict, ErrInvalidState}. bindLocalAdmissionOutcome s w r now = Inl e"
  using assms
  by (auto simp: bindLocalAdmissionOutcome_def Let_def validateAdmissionOutcome_def admissionOutcomeMatchesFingerprint_def
      normalizeAdmissionFingerprint_def bind_res_def split: sum.splits if_splits admission_outcome_state.splits)

end
