(* ===== verification/Events.thy ===== *)
theory Events
  imports StateModel
begin

text \<open>
  Control-plane events of \<^verbatim>\<open>internal/event/event.go\<close> for human tasks, and the webhook outbox entries
  that \<^verbatim>\<open>internal/state/webhook.go\<close> derives from them.
\<close>

section \<open>The human task life cycle event\<close>

record human_task_lifecycle_data =
  hl_Workspace :: string
  hl_TaskID :: string
  hl_RunID :: string
  hl_JobID :: string
  hl_Attempt :: int
  hl_AppKey :: string
  hl_ActionKey :: string
  hl_CorrelationID :: string
  hl_Mode :: string
  hl_Kind :: string
  hl_State :: string
  hl_Outcome :: string
  hl_Actor :: string
  hl_TerminalCause :: string

definition HumanTaskCreatedType :: string where "HumanTaskCreatedType = ''windforce.human_task.created''"
definition HumanTaskDecidedType :: string where "HumanTaskDecidedType = ''windforce.human_task.decided''"
definition HumanTaskExpiredType :: string where "HumanTaskExpiredType = ''windforce.human_task.expired''"
definition HumanTaskCanceledType :: string where "HumanTaskCanceledType = ''windforce.human_task.canceled''"
definition CloudEventsSpecVersion :: string where "CloudEventsSpecVersion = ''1.0''"
definition JSONContentType :: string where "JSONContentType = ''application/json''"

text \<open>Go's encoding of the struct: the fields in order, three of them omitted when empty.\<close>

definition omit_empty :: "string \<Rightarrow> string \<Rightarrow> (string \<times> json) list" where
  "omit_empty name value = (if value = [] then [] else [(name, JString value)])"

definition marshal_lifecycle :: "human_task_lifecycle_data \<Rightarrow> raw" where
  "marshal_lifecycle d = compact (JObj
     ([(''workspace'', JString (hl_Workspace d)), (''task_id'', JString (hl_TaskID d)),
       (''run_id'', JString (hl_RunID d)), (''job_id'', JString (hl_JobID d)),
       (''attempt'', JInt (hl_Attempt d)), (''app_key'', JString (hl_AppKey d)),
       (''action_key'', JString (hl_ActionKey d))] @
      omit_empty ''correlation_id'' (hl_CorrelationID d) @
      [(''mode'', JString (hl_Mode d)), (''kind'', JString (hl_Kind d)), (''state'', JString (hl_State d))] @
      omit_empty ''outcome'' (hl_Outcome d) @
      [(''actor'', JString (hl_Actor d))] @
      omit_empty ''terminal_cause'' (hl_TerminalCause d)))"

text \<open>
  What decoding that document gives back: the same data, with every string passed through JSON, which
  replaces invalid UTF-8. \<open>json_text\<close> is the string a quoted literal denotes.
\<close>

definition json_text :: "string \<Rightarrow> string" where
  "json_text s = key_text (quote_text (map byte s))"

definition decoded_lifecycle :: "human_task_lifecycle_data \<Rightarrow> human_task_lifecycle_data" where
  "decoded_lifecycle d = d\<lparr>hl_Workspace := json_text (hl_Workspace d), hl_TaskID := json_text (hl_TaskID d),
     hl_RunID := json_text (hl_RunID d), hl_JobID := json_text (hl_JobID d),
     hl_AppKey := json_text (hl_AppKey d), hl_ActionKey := json_text (hl_ActionKey d),
     hl_CorrelationID := json_text (hl_CorrelationID d), hl_Mode := json_text (hl_Mode d),
     hl_Kind := json_text (hl_Kind d), hl_State := json_text (hl_State d),
     hl_Outcome := json_text (hl_Outcome d), hl_Actor := json_text (hl_Actor d),
     hl_TerminalCause := json_text (hl_TerminalCause d)\<rparr>"

definition wanted_state :: "string \<Rightarrow> string" where
  "wanted_state eventType =
     (if eventType = HumanTaskCreatedType then ''pending''
      else if eventType = HumanTaskDecidedType then ''decided''
      else if eventType = HumanTaskExpiredType then ''expired'' else ''canceled'')"

definition invalid_event :: error where "invalid_event = ErrOther ''invalid control plane event''"

definition validateHumanTaskLifecycle :: "envelope \<Rightarrow> human_task_lifecycle_data \<Rightarrow> unit res" where
  "validateHumanTaskLifecycle value d0 =
     (let d = (decoded_lifecycle d0)\<lparr>hl_Workspace := NormalizeWorkspace (hl_Workspace (decoded_lifecycle d0))\<rparr>
      in if trim (hl_TaskID d) = [] \<or> trim (hl_RunID d) = [] \<or> trim (hl_JobID d) = [] then Inl invalid_event
         else if hl_Attempt d \<le> 0 \<or> trim (hl_AppKey d) = [] \<or> trim (hl_ActionKey d) = [] then Inl invalid_event
         else if hl_Mode d \<noteq> ''hold'' \<or> trim (hl_Kind d) = [] \<or> trim (hl_Actor d) = [] then Inl invalid_event
         else if hl_State d \<noteq> wanted_state (env_Type value) then Inl invalid_event
         else if env_Type value = HumanTaskDecidedType \<and> hl_Outcome d \<noteq> ''submit'' \<and> hl_Outcome d \<noteq> ''cancel''
         then Inl invalid_event
         else if env_Type value \<noteq> HumanTaskDecidedType \<and> hl_Outcome d \<noteq> [] then Inl invalid_event
         else if (env_Type value = HumanTaskExpiredType \<or> env_Type value = HumanTaskCanceledType) \<and>
           hl_TerminalCause d = [] then Inl invalid_event
         else if \<not> (env_Type value = HumanTaskExpiredType \<or> env_Type value = HumanTaskCanceledType) \<and>
           hl_TerminalCause d \<noteq> [] then Inl invalid_event
         else if env_Source value \<noteq> ''/workspaces/'' @ hl_Workspace d @ ''/execution'' then Inl invalid_event
         else if env_Subject value \<noteq> ''human-tasks/'' @ hl_TaskID d then Inl invalid_event
         else Inr ())"

definition lifecycle_types :: "string list" where
  "lifecycle_types = [HumanTaskCreatedType, HumanTaskDecidedType, HumanTaskExpiredType, HumanTaskCanceledType]"

text \<open>\<open>Validate\<close> on an envelope whose data is a life cycle document.\<close>

definition validate_lifecycle :: "envelope \<Rightarrow> human_task_lifecycle_data \<Rightarrow> unit res" where
  "validate_lifecycle value d =
     (if env_SpecVersion value \<noteq> CloudEventsSpecVersion then Inl invalid_event
      else if \<not> has_prefix (env_ID value) ''evt_'' \<or> length (env_ID value) \<le> 4 then Inl invalid_event
      else if env_Time value = 0 then Inl invalid_event
      else if env_DataContentType value \<noteq> JSONContentType then Inl invalid_event
      else if env_Type value \<in> set lifecycle_types then validateHumanTaskLifecycle value d
      else Inl invalid_event)"

definition NewHumanTaskLifecycle ::
  "string \<Rightarrow> string \<Rightarrow> time \<Rightarrow> human_task_lifecycle_data \<Rightarrow> envelope res" where
  "NewHumanTaskLifecycle id' eventType occurredAt d0 =
     (let d1 = d0\<lparr>hl_Workspace := NormalizeWorkspace (hl_Workspace d0), hl_TaskID := trim (hl_TaskID d0),
            hl_RunID := trim (hl_RunID d0), hl_JobID := trim (hl_JobID d0), hl_AppKey := trim (hl_AppKey d0),
            hl_ActionKey := trim (hl_ActionKey d0), hl_CorrelationID := trim (hl_CorrelationID d0),
            hl_Mode := trim (hl_Mode d0), hl_Kind := trim (hl_Kind d0), hl_State := trim (hl_State d0),
            hl_Outcome := trim (hl_Outcome d0), hl_Actor := trim (hl_Actor d0),
            hl_TerminalCause := trim (hl_TerminalCause d0)\<rparr>;
          d = d1\<lparr>hl_Actor := (if hl_Actor d1 = [] then ''system'' else hl_Actor d1)\<rparr>;
          event = \<lparr>env_SpecVersion = CloudEventsSpecVersion, env_ID = trim id', env_Type = trim eventType,
            env_Source = ''/workspaces/'' @ hl_Workspace d @ ''/execution'',
            env_Subject = ''human-tasks/'' @ hl_TaskID d, env_Time = occurredAt,
            env_DataContentType = JSONContentType, env_Data = marshal_lifecycle d\<rparr>
      in bind_res (validate_lifecycle event d) (\<lambda>_. Inr event))"

section \<open>From a task change to the outbox\<close>

definition state_name :: "human_task_state \<Rightarrow> string" where
  "state_name st = (case st of HumanTaskPending \<Rightarrow> ''pending'' | HumanTaskDecided \<Rightarrow> ''decided''
     | HumanTaskCompleted \<Rightarrow> ''completed'' | HumanTaskExpired \<Rightarrow> ''expired'' | HumanTaskCanceled \<Rightarrow> ''canceled'')"

definition mode_name :: "human_task_mode \<Rightarrow> string" where
  "mode_name m = (case m of HumanTaskModeHold \<Rightarrow> ''hold'' | HumanTaskModeSuspend \<Rightarrow> ''suspend''
     | HumanTaskModeNone \<Rightarrow> [])"

definition outcome_name :: "human_task_outcome \<Rightarrow> string" where
  "outcome_name o' = (case o' of HumanTaskOutcomeSubmit \<Rightarrow> ''submit'' | HumanTaskOutcomeCancel \<Rightarrow> ''cancel''
     | HumanTaskOutcomeNone \<Rightarrow> [])"

text \<open>The empty event type is \<open>None\<close>.\<close>

definition humanTaskLifecycleEventType :: "bool \<Rightarrow> human_task_state \<Rightarrow> string option" where
  "humanTaskLifecycleEventType created st =
     (if created \<and> st = HumanTaskPending then Some HumanTaskCreatedType
      else case st of
        HumanTaskDecided \<Rightarrow> Some HumanTaskDecidedType
      | HumanTaskExpired \<Rightarrow> Some HumanTaskExpiredType
      | HumanTaskCanceled \<Rightarrow> Some HumanTaskCanceledType
      | _ \<Rightarrow> None)"

definition prepareHumanTaskLifecycleEvent ::
  "string \<Rightarrow> human_task \<Rightarrow> run \<Rightarrow> string \<Rightarrow> time \<Rightarrow> envelope res" where
  "prepareHumanTaskLifecycleEvent fresh task r eventType occurredAt =
     (let actor = (if eventType = HumanTaskCreatedType then ''app:'' @ run_App r
                   else if eventType = HumanTaskDecidedType \<and> trim (ht_DecidedBy task) \<noteq> []
                   then trim (ht_DecidedBy task) else ''system'')
      in NewHumanTaskLifecycle fresh eventType occurredAt
           \<lparr>hl_Workspace = ht_WorkspaceID task, hl_TaskID = ht_ID task, hl_RunID = ht_RunID task,
            hl_JobID = ht_JobID task, hl_Attempt = ht_Attempt task, hl_AppKey = run_App r,
            hl_ActionKey = run_Action r, hl_CorrelationID = run_CorrelationID r,
            hl_Mode = mode_name (ht_Mode task), hl_Kind = ht_Kind task, hl_State = state_name (ht_State task),
            hl_Outcome = outcome_name (ht_DecisionOutcome task), hl_Actor = actor,
            hl_TerminalCause = ht_TerminalCause task\<rparr>)"

definition subscription_matches :: "webhook_subscription \<Rightarrow> string \<Rightarrow> string \<Rightarrow> bool" where
  "subscription_matches sub eventType appKey \<longleftrightarrow>
     ws_Enabled sub \<and> ws_DeletedAt sub = None \<and> eventType \<in> set (ws_EventTypes sub) \<and>
     (ws_AppKeys sub = [] \<or> appKey \<in> set (ws_AppKeys sub))"

definition matchingSubscriptions ::
  "(string, webhook_subscription) gomap \<Rightarrow> string \<Rightarrow> string \<Rightarrow> string \<Rightarrow> webhook_subscription list" where
  "matchingSubscriptions records workspaceID eventType appKey =
     filter (\<lambda>record. NormalizeWorkspace (ws_WorkspaceID record) = NormalizeWorkspace workspaceID \<and>
       subscription_matches record eventType appKey) (map snd records)"

definition newWebhookDelivery :: "string \<Rightarrow> envelope \<Rightarrow> string \<Rightarrow> string \<Rightarrow> time \<Rightarrow> webhook_delivery" where
  "newWebhookDelivery fresh event workspaceID subscriptionID now =
     zero_webhook_delivery\<lparr>wd_ID := fresh, wd_WorkspaceID := NormalizeWorkspace workspaceID,
       wd_EventID := env_ID event, wd_SubscriptionID := subscriptionID, wd_State := DeliveryPending,
       wd_NextAttemptAt := now, wd_CreatedAt := now, wd_UpdatedAt := now\<rparr>"

end
