(* ===== verification/Store.thy ===== *)
theory Store
  imports Admission Events
begin

text \<open>
  The transaction frame of the local store (\<^verbatim>\<open>internal/state/local_store.go\<close>): \<open>Load\<close> with
  \<open>ensureSnapshot\<close>, \<open>updateWithClock\<close> with its human task hook, and \<open>write\<close>. The state file is a value
  of type \<open>snapshot\<close>; a transaction maps it to an error, which leaves the file as it is, or to the
  next file and a result. The file lock makes transactions sequential, so a history of the store is a
  sequence of them.

  Random values come from a source \<open>rnd\<close>, which gives a string for each draw; a draw is named by its
  purpose. Encryption at rest is the interface \<open>codec\<close>. JSON texts are stored up to insignificant
  white space.
\<close>

section \<open>Random identifiers and encryption at rest\<close>

type_synonym rnd = "string \<Rightarrow> string"

text \<open>\<open>NewID\<close> when the random source works: a UUID for runs, jobs and human tasks.\<close>

definition NewID :: "rnd \<Rightarrow> string \<Rightarrow> string \<Rightarrow> string" where
  "NewID rnd prefix draw =
     (if prefix \<in> {''run'', ''job'', ''human''} then rnd draw else prefix @ ''_'' @ rnd draw)"

record codec =
  enc_input :: "string \<Rightarrow> string \<Rightarrow> raw \<Rightarrow> raw res"
  dec_input :: "string \<Rightarrow> raw \<Rightarrow> raw res"
  enc_result :: "string \<Rightarrow> string \<Rightarrow> raw \<Rightarrow> raw res"
  dec_result :: "string \<Rightarrow> raw \<Rightarrow> raw res"
  enc_text :: "string \<Rightarrow> string \<Rightarrow> string \<Rightarrow> raw res"
  dec_text :: "string \<Rightarrow> raw \<Rightarrow> string res"

section \<open>Events\<close>

definition appendEvent :: "snapshot \<Rightarrow> string \<Rightarrow> string \<Rightarrow> (string, json) gomap \<Rightarrow> time \<Rightarrow> snapshot" where
  "appendEvent s runID eventType payload now =
     s\<lparr>Sequence := Sequence s + 1,
       Events := Events s @ [\<lparr>ev_ID = Sequence s + 1, ev_RunID = runID, ev_EventType = eventType,
         ev_Payload = mustRaw payload, ev_CreatedAt = now\<rparr>]\<rparr>"

section \<open>Loading\<close>

definition attach_identities :: "snapshot \<Rightarrow> snapshot" where
  "attach_identities s =
     s\<lparr>Jobs := map_vals (\<lambda>id' j. case map_of (WorkerLeaseIdentities s) id' of
          Some i \<Rightarrow> j\<lparr>job_LeaseIdentity := Some i\<rparr> | None \<Rightarrow> j) (Jobs s),
       WorkerLeaseIdentities := filter (\<lambda>(id', i). map_of (Jobs s) id' \<noteq> None) (WorkerLeaseIdentities s)\<rparr>"

definition ensureSnapshot :: "snapshot \<Rightarrow> snapshot" where
  "ensureSnapshot s = attach_identities (migrateLocalAdmissionOutcomes s)"

section \<open>Writing\<close>

text \<open>
  What the JSON document of the snapshot does not keep: the fields tagged \<open>json:"-"\<close>, and the
  difference between an empty and an absent slice of a field tagged \<open>omitempty\<close>.
\<close>

definition drop_empty :: "string list option \<Rightarrow> string list option" where
  "drop_empty v = (if v = Some [] then None else v)"

definition persist_deployment :: "deployment \<Rightarrow> deployment" where
  "persist_deployment d =
     d\<lparr>dep_RequiredCapabilities := drop_empty (dep_RequiredCapabilities d),
       dep_RequiredLabels := drop_empty (dep_RequiredLabels d)\<rparr>"

definition persist_payload :: "job_payload \<Rightarrow> job_payload" where
  "persist_payload p =
     p\<lparr>pl_RequiredCapabilities := drop_empty (pl_RequiredCapabilities p),
       pl_RequiredLabels := drop_empty (pl_RequiredLabels p),
       pl_Deployment := map_option persist_deployment (pl_Deployment p)\<rparr>"

definition persist_job :: "job \<Rightarrow> job" where
  "persist_job j = j\<lparr>job_Payload := persist_payload (job_Payload j), job_LeaseIdentity := None\<rparr>"

definition persist_run :: "run \<Rightarrow> run" where
  "persist_run r = r\<lparr>run_Deployment := persist_deployment (run_Deployment r)\<rparr>"

definition persist_task :: "human_task \<Rightarrow> human_task" where
  "persist_task t = t\<lparr>ht_PrivateContext := [], ht_Decision := []\<rparr>"

definition persist :: "snapshot \<Rightarrow> snapshot" where
  "persist s = s\<lparr>Runs := map_vals (\<lambda>k. persist_run) (Runs s), Jobs := map_vals (\<lambda>k. persist_job) (Jobs s),
     HumanTasks := map_vals (\<lambda>k. persist_task) (HumanTasks s)\<rparr>"

definition write_file :: "snapshot \<Rightarrow> snapshot" where
  "write_file s = (let e = ensureSnapshot s in persist (e\<lparr>SnapshotRevision := SnapshotRevision e + 1\<rparr>))"

section \<open>The human task hook\<close>

type_synonym outbox = "(string, envelope) gomap \<times> (string, webhook_delivery) gomap"

definition add_delivery ::
  "rnd \<Rightarrow> time \<Rightarrow> envelope \<Rightarrow> human_task \<Rightarrow> webhook_subscription \<Rightarrow>
   (string, webhook_delivery) gomap \<Rightarrow> (string, webhook_delivery) gomap" where
  "add_delivery rnd now event task sub deliveries =
     (let d = newWebhookDelivery (NewID rnd ''whd'' (''whd/'' @ ht_ID task @ ''/'' @ ws_ID sub)) event
            (ht_WorkspaceID task) (ws_ID sub) now
      in put (wd_ID d) d deliveries)"

definition hook_task ::
  "rnd \<Rightarrow> time \<Rightarrow> (string, human_task) gomap \<Rightarrow> snapshot \<Rightarrow> string \<times> human_task \<Rightarrow> outbox \<Rightarrow> outbox res" where
  "hook_task rnd now before s entry ob =
     (let id' = fst entry; task = snd entry; old = map_of before id'
      in if \<not> (old = None \<or> map_option ht_State old \<noteq> Some (ht_State task)) then Inr ob
         else if ht_Mode task \<noteq> HumanTaskModeHold then Inr ob
         else case humanTaskLifecycleEventType (old = None) (ht_State task) of
                None \<Rightarrow> Inr ob
              | Some eventType \<Rightarrow>
                  (case map_of (Runs s) (ht_RunID task) of
                     None \<Rightarrow> Inl ErrNotFound
                   | Some r \<Rightarrow>
                       bind_res (prepareHumanTaskLifecycleEvent
                           (NewID rnd ''evt'' (''evt/'' @ ht_ID task)) task r eventType now) (\<lambda>event.
                         Inr (put (env_ID event) event (fst ob),
                           fold (add_delivery rnd now event task)
                             (matchingSubscriptions (WebhookSubscriptions s) (ht_WorkspaceID task)
                               (env_Type event) (run_App r)) (snd ob)))))"

definition run_hook :: "rnd \<Rightarrow> time \<Rightarrow> (string, human_task) gomap \<Rightarrow> snapshot \<Rightarrow> snapshot res" where
  "run_hook rnd now before s =
     bind_res (fold_res (hook_task rnd now before s) (HumanTasks s) (ControlPlaneEvents s, WebhookDeliveries s))
       (\<lambda>ob. Inr (s\<lparr>ControlPlaneEvents := fst ob, WebhookDeliveries := snd ob\<rparr>))"

section \<open>Transactions\<close>

definition updateWithClock ::
  "rnd \<Rightarrow> time \<Rightarrow> snapshot \<Rightarrow> (snapshot \<Rightarrow> (snapshot \<times> 'a) res) \<Rightarrow> (snapshot \<times> 'a) res" where
  "updateWithClock rnd now s fn =
     (let loaded = ensureSnapshot s
      in bind_res (fn loaded) (\<lambda>(s', a).
         bind_res (run_hook rnd now (HumanTasks loaded) s') (\<lambda>s''. Inr (write_file s'', a))))"

text \<open>The identities that loading attaches and persisting drops, in one place.\<close>

lemma updateWithClock_cases:
  assumes "updateWithClock rnd now s fn = Inr (t, a)"
  obtains s' evs dels where "fn (ensureSnapshot s) = Inr (s', a)"
    and "t = write_file (s'\<lparr>ControlPlaneEvents := evs, WebhookDeliveries := dels\<rparr>)"
    and "run_hook rnd now (HumanTasks (ensureSnapshot s)) s' =
           Inr (s'\<lparr>ControlPlaneEvents := evs, WebhookDeliveries := dels\<rparr>)"
proof -
  obtain s' s'' where fn: "fn (ensureSnapshot s) = Inr (s', a)"
    and hook: "run_hook rnd now (HumanTasks (ensureSnapshot s)) s' = Inr s''" and t: "t = write_file s''"
    using assms by (auto simp: updateWithClock_def Let_def)
  from hook obtain ob where "s'' = s'\<lparr>ControlPlaneEvents := fst ob, WebhookDeliveries := snd ob\<rparr>"
    by (auto simp: run_hook_def)
  with fn hook t show ?thesis using that by blast
qed

text \<open>
  The contract between the transaction frame and an invariant of the store: loading, the outbox and
  persisting keep it. A transaction then keeps it if its body does.
\<close>

locale frame_stable =
  fixes inv :: "snapshot \<Rightarrow> bool"
  assumes inv_ensure: "inv s \<Longrightarrow> inv (ensureSnapshot s)"
    and inv_outbox: "inv s \<Longrightarrow> inv (s\<lparr>ControlPlaneEvents := evs, WebhookDeliveries := dels\<rparr>)"
    and inv_persist: "inv s \<Longrightarrow> inv (persist (s\<lparr>SnapshotRevision := n\<rparr>))"
begin

lemma inv_write: "inv s \<Longrightarrow> inv (write_file s)"
  unfolding write_file_def Let_def by (intro inv_persist inv_ensure)

lemma update_inv:
  assumes "updateWithClock rnd now s fn = Inr (t, a)" and "inv s"
    and "\<And>u v b. inv u \<Longrightarrow> fn u = Inr (v, b) \<Longrightarrow> inv v"
  shows "inv t"
  using assms(1)
proof (rule updateWithClock_cases)
  fix s' evs dels
  assume fn: "fn (ensureSnapshot s) = Inr (s', a)"
    and t: "t = write_file (s'\<lparr>ControlPlaneEvents := evs, WebhookDeliveries := dels\<rparr>)"
  have "inv s'" using assms(3) [OF inv_ensure [OF assms(2)] fn] .
  then show "inv t" unfolding t by (intro inv_write inv_outbox)
qed

end

text \<open>The same for a preorder that relates the store before and after.\<close>

locale frame_monotone =
  fixes rel :: "snapshot \<Rightarrow> snapshot \<Rightarrow> bool"
  assumes frame_refl: "rel s s"
    and frame_trans: "rel s t \<Longrightarrow> rel t u \<Longrightarrow> rel s u"
    and rel_ensure: "rel s (ensureSnapshot s)"
    and rel_outbox: "rel s (s\<lparr>ControlPlaneEvents := evs, WebhookDeliveries := dels\<rparr>)"
    and rel_persist: "rel s (persist (s\<lparr>SnapshotRevision := n\<rparr>))"
begin

lemma rel_write: "rel s (write_file s)"
  unfolding write_file_def Let_def by (rule frame_trans [OF rel_ensure rel_persist])

lemma update_rel:
  assumes "updateWithClock rnd now s fn = Inr (t, a)"
    and "\<And>v b. fn (ensureSnapshot s) = Inr (v, b) \<Longrightarrow> rel (ensureSnapshot s) v"
  shows "rel s t"
  using assms(1)
proof (rule updateWithClock_cases)
  fix s' evs dels
  assume fn: "fn (ensureSnapshot s) = Inr (s', a)"
    and t: "t = write_file (s'\<lparr>ControlPlaneEvents := evs, WebhookDeliveries := dels\<rparr>)"
  show "rel s t"
    unfolding t
    by (rule frame_trans [OF frame_trans [OF rel_ensure assms(2) [OF fn]]
          frame_trans [OF rel_outbox rel_write]])
qed

end

section \<open>What the frame does to the maps\<close>

lemma ensure_fields [simp]:
  "Runs (ensureSnapshot s) = Runs s" "HumanTasks (ensureSnapshot s) = HumanTasks s"
  "Events (ensureSnapshot s) = Events s" "Sequence (ensureSnapshot s) = Sequence s"
  "JobLogs (ensureSnapshot s) = JobLogs s" "JobState (ensureSnapshot s) = JobState s"
  "AppRuntimeLifecycles (ensureSnapshot s) = AppRuntimeLifecycles s"
  "AppRuntimeLifecycleAudits (ensureSnapshot s) = AppRuntimeLifecycleAudits s"
  "TriggerDeliveries (ensureSnapshot s) = TriggerDeliveries s"
  "WebhookDeliveries (ensureSnapshot s) = WebhookDeliveries s"
  "WebhookSubscriptions (ensureSnapshot s) = WebhookSubscriptions s"
  "ControlPlaneEvents (ensureSnapshot s) = ControlPlaneEvents s"
  "Workers (ensureSnapshot s) = Workers s" "WorkerCredentials (ensureSnapshot s) = WorkerCredentials s"
  "WorkerGroupRunStates (ensureSnapshot s) = WorkerGroupRunStates s"
  "ExecutionLimitPolicies (ensureSnapshot s) = ExecutionLimitPolicies s"
  "ExecutionLimitAudits (ensureSnapshot s) = ExecutionLimitAudits s"
  "ExecutionRateBuckets (ensureSnapshot s) = ExecutionRateBuckets s"
  "SnapshotRevision (ensureSnapshot s) = SnapshotRevision s" "StoreEpoch (ensureSnapshot s) = StoreEpoch s"
  "WebhookAudits (ensureSnapshot s) = WebhookAudits s" "Triggers (ensureSnapshot s) = Triggers s"
  by (simp_all add: ensureSnapshot_def attach_identities_def migrateLocalAdmissionOutcomes_def)

definition attached :: "snapshot \<Rightarrow> string \<Rightarrow> job \<Rightarrow> job" where
  "attached s id' j = (case map_of (WorkerLeaseIdentities s) id' of
     Some i \<Rightarrow> j\<lparr>job_LeaseIdentity := Some i\<rparr> | None \<Rightarrow> j)"

lemma ensure_Jobs: "Jobs (ensureSnapshot s) = map_vals (attached s) (Jobs s)"
  by (simp add: ensureSnapshot_def attach_identities_def migrateLocalAdmissionOutcomes_def attached_def [abs_def])

lemma attached_fields [simp]:
  "job_ID (attached s k j) = job_ID j" "job_RunID (attached s k j) = job_RunID j"
  "job_State (attached s k j) = job_State j" "job_Attempt (attached s k j) = job_Attempt j"
  "job_LeaseOwner (attached s k j) = job_LeaseOwner j"
  "job_LeaseExpiresAt (attached s k j) = job_LeaseExpiresAt j"
  "job_CanceledBy (attached s k j) = job_CanceledBy j"
  "job_CanceledReason (attached s k j) = job_CanceledReason j"
  "job_Payload (attached s k j) = job_Payload j" "job_UpdatedAt (attached s k j) = job_UpdatedAt j"
  "job_CreatedAt (attached s k j) = job_CreatedAt j" "job_Priority (attached s k j) = job_Priority j"
  by (simp_all add: attached_def split: option.splits)

lemma persist_job_fields [simp]:
  "job_ID (persist_job j) = job_ID j" "job_RunID (persist_job j) = job_RunID j"
  "job_State (persist_job j) = job_State j" "job_Attempt (persist_job j) = job_Attempt j"
  "job_LeaseOwner (persist_job j) = job_LeaseOwner j"
  "job_LeaseExpiresAt (persist_job j) = job_LeaseExpiresAt j"
  "job_CanceledBy (persist_job j) = job_CanceledBy j"
  "job_UpdatedAt (persist_job j) = job_UpdatedAt j"
  "job_CreatedAt (persist_job j) = job_CreatedAt j" "job_Priority (persist_job j) = job_Priority j"
  by (simp_all add: persist_job_def)

lemma persist_run_fields [simp]:
  "run_ID (persist_run r) = run_ID r" "run_State (persist_run r) = run_State r"
  "run_UpdatedAt (persist_run r) = run_UpdatedAt r" "run_TaskID (persist_run r) = run_TaskID r"
  "run_App (persist_run r) = run_App r" "run_Input (persist_run r) = run_Input r"
  "run_CorrelationID (persist_run r) = run_CorrelationID r"
  by (simp_all add: persist_run_def)

lemma persist_task_fields [simp]:
  "ht_ID (persist_task h) = ht_ID h" "ht_RunID (persist_task h) = ht_RunID h"
  "ht_JobID (persist_task h) = ht_JobID h" "ht_State (persist_task h) = ht_State h"
  "ht_Mode (persist_task h) = ht_Mode h" "ht_Attempt (persist_task h) = ht_Attempt h"
  "ht_WorkspaceID (persist_task h) = ht_WorkspaceID h" "ht_Key (persist_task h) = ht_Key h"
  "ht_ExpiresAt (persist_task h) = ht_ExpiresAt h"
  "ht_DecisionOutcome (persist_task h) = ht_DecisionOutcome h"
  "ht_DecisionEncrypted (persist_task h) = ht_DecisionEncrypted h"
  "ht_DecisionIdempotencyKey (persist_task h) = ht_DecisionIdempotencyKey h"
  "ht_DecisionFingerprint (persist_task h) = ht_DecisionFingerprint h"
  "ht_DecidedBy (persist_task h) = ht_DecidedBy h" "ht_DecidedAt (persist_task h) = ht_DecidedAt h"
  "ht_RequestFingerprint (persist_task h) = ht_RequestFingerprint h"
  "ht_TerminalCause (persist_task h) = ht_TerminalCause h"
  by (simp_all add: persist_task_def)

lemma persist_maps [simp]:
  "Runs (persist s) = map_vals (\<lambda>k. persist_run) (Runs s)"
  "Jobs (persist s) = map_vals (\<lambda>k. persist_job) (Jobs s)"
  "HumanTasks (persist s) = map_vals (\<lambda>k. persist_task) (HumanTasks s)"
  "Events (persist s) = Events s" "Sequence (persist s) = Sequence s"
  "AdmissionOutcomes (persist s) = AdmissionOutcomes s"
  "ExecutionRateBuckets (persist s) = ExecutionRateBuckets s"
  "ExecutionLimitPolicies (persist s) = ExecutionLimitPolicies s"
  "Workers (persist s) = Workers s" "WorkerCredentials (persist s) = WorkerCredentials s"
  "WorkerGroupRunStates (persist s) = WorkerGroupRunStates s"
  "AppRuntimeLifecycles (persist s) = AppRuntimeLifecycles s"
  "JobLogs (persist s) = JobLogs s" "TriggerDeliveries (persist s) = TriggerDeliveries s"
  "WebhookDeliveries (persist s) = WebhookDeliveries s"
  "ControlPlaneEvents (persist s) = ControlPlaneEvents s"
  "SnapshotRevision (persist s) = SnapshotRevision s" "StoreEpoch (persist s) = StoreEpoch s"
  "WebhookSubscriptions (persist s) = WebhookSubscriptions s"
  "WebhookAudits (persist s) = WebhookAudits s" "Triggers (persist s) = Triggers s"
  "ExecutionLimitAudits (persist s) = ExecutionLimitAudits s"
  by (simp_all add: persist_def)

lemma appendEvent_fields [simp]:
  "Runs (appendEvent s r t p now) = Runs s" "Jobs (appendEvent s r t p now) = Jobs s"
  "HumanTasks (appendEvent s r t p now) = HumanTasks s"
  "Sequence (appendEvent s r t p now) = Sequence s + 1"
  "AdmissionOutcomes (appendEvent s r t p now) = AdmissionOutcomes s"
  "WorkerLeaseIdentities (appendEvent s r t p now) = WorkerLeaseIdentities s"
  "ExecutionRateBuckets (appendEvent s r t p now) = ExecutionRateBuckets s"
  "ExecutionLimitPolicies (appendEvent s r t p now) = ExecutionLimitPolicies s"
  "AppRuntimeLifecycles (appendEvent s r t p now) = AppRuntimeLifecycles s"
  "Workers (appendEvent s r t p now) = Workers s"
  by (simp_all add: appendEvent_def)

interpretation outcomes_frame: frame_monotone outcomes_kept
proof
  show "outcomes_kept s s" for s by simp
  show "outcomes_kept s t \<Longrightarrow> outcomes_kept t u \<Longrightarrow> outcomes_kept s u" for s t u
    by (rule outcomes_kept_trans)
  show "outcomes_kept s (ensureSnapshot s)" for s
    unfolding ensureSnapshot_def
    by (rule outcomes_kept_trans [OF migrate_outcomes_kept])
      (simp add: outcomes_kept_same attach_identities_def)
  show "outcomes_kept s (s\<lparr>ControlPlaneEvents := evs, WebhookDeliveries := dels\<rparr>)" for s evs dels
    by (simp add: outcomes_kept_same)
  show "outcomes_kept s (persist (s\<lparr>SnapshotRevision := n\<rparr>))" for s n
    by (simp add: outcomes_kept_same)
qed

end
