(* ===== verification/HumanTasks.thy ===== *)
theory HumanTasks
  imports Store
begin

text \<open>
  Human tasks of a held execution: \<^verbatim>\<open>internal/state/human_task_hold.go\<close> and
  \<^verbatim>\<open>internal/state/local_human_task_hold.go\<close>. A task is pending until it is decided, expires or is
  canceled; each of these is final.
\<close>

section \<open>Normalisation\<close>

definition HumanTaskCauseDeadline :: string where "HumanTaskCauseDeadline = ''human_task_deadline''"
definition HumanTaskCauseRunCanceled :: string where "HumanTaskCauseRunCanceled = ''run_canceled''"
definition HumanTaskCauseActionTimeout :: string where "HumanTaskCauseActionTimeout = ''action_timeout''"
definition HumanTaskCauseWorkerLost :: string where "HumanTaskCauseWorkerLost = ''worker_lost''"
definition HumanTaskCauseJobCompleted :: string where "HumanTaskCauseJobCompleted = ''job_completed''"

definition default_schema :: raw where
  "default_schema = [CHR ''{'', dquote] @ ''type'' @ [dquote, CHR '':'', dquote] @ ''object'' @ [dquote, CHR ''}'']"

definition due :: "time \<Rightarrow> time option \<Rightarrow> bool" where
  "due now deadline = (case deadline of None \<Rightarrow> False | Some d \<Rightarrow> \<not> d > now)"

definition normalizeHeldHumanTask :: "rnd \<Rightarrow> human_task \<Rightarrow> time \<Rightarrow> human_task res" where
  "normalizeHeldHumanTask rnd task0 now =
     (let task = task0\<lparr>ht_WorkspaceID := NormalizeWorkspace (ht_WorkspaceID task0), ht_Key := trim (ht_Key task0),
            ht_Kind := (if trim (ht_Kind task0) = [] then ''form'' else trim (ht_Kind task0)),
            ht_Title := trim (ht_Title task0), ht_Description := trim (ht_Description task0),
            ht_RequestFingerprint := trim (ht_RequestFingerprint task0),
            ht_Mode := (if ht_Mode task0 = HumanTaskModeNone then HumanTaskModeHold else ht_Mode task0),
            ht_ID := (if ht_ID task0 = [] then NewID rnd ''human'' ''human'' else ht_ID task0)\<rparr>
      in if ht_Mode task \<noteq> HumanTaskModeHold then Inl ErrInvalidState
         else if ht_RunID task = [] \<or> ht_JobID task = [] \<or> ht_Attempt task \<le> 0
         then Inl (ErrOther ''run_id, job_id, and a positive attempt are required'')
         else if ht_Key task = [] \<or> ht_RequestFingerprint task = []
         then Inl (ErrOther ''key and request fingerprint are required'')
         else if length (ht_Key task) > 200 \<or> length (ht_Title task) > 500 \<or> length (ht_Description task) > 4000
         then Inl (ErrOther ''key, title, or description exceeds the HumanTask limit'')
         else if ht_Title task = [] then Inl (ErrOther ''title is required'')
         else if ht_Kind task \<noteq> ''form'' then Inl (ErrOther ''kind must be form'')
         else let task = (if ht_Schema task = [] then task\<lparr>ht_Schema := default_schema\<rparr> else task)
           in if \<not> json_valid (ht_Schema task) then Inl (ErrOther ''schema is not valid JSON'')
              else if length (ht_Schema task) > 2 ^ 20 \<or> length (ht_Presentation task) > 2 ^ 18 \<or>
                length (ht_PrivateContext task) > 2 ^ 20
              then Inl (ErrOther ''HumanTask schema, presentation, or private context exceeds the size limit'')
              else if ht_Presentation task \<noteq> [] \<and> \<not> json_valid (ht_Presentation task)
              then Inl (ErrOther ''presentation is not valid JSON'')
              else if ht_PrivateContext task \<noteq> [] \<and> \<not> json_valid (ht_PrivateContext task)
              then Inl (ErrOther ''private context is not valid JSON'')
              else if due now (ht_ExpiresAt task) then Inl (ErrOther ''expires_at must be in the future'')
              else let created = nonZeroTime (ht_CreatedAt task) now
                in Inr (task\<lparr>ht_State := HumanTaskPending, ht_CreatedAt := created,
                     ht_UpdatedAt := nonZeroTime (ht_UpdatedAt task) created\<rparr>))"

definition normalizeHumanTaskDecision :: "human_task_decision \<Rightarrow> human_task_decision res" where
  "normalizeHumanTaskDecision d0 =
     (let d = d0\<lparr>htd_IdempotencyKey := trim (htd_IdempotencyKey d0), htd_Fingerprint := trim (htd_Fingerprint d0),
            htd_Actor := trim (htd_Actor d0)\<rparr>
      in if htd_IdempotencyKey d = [] \<or> htd_Fingerprint d = []
         then Inl (ErrOther ''idempotency key and fingerprint are required'')
         else bind_res
           (case htd_Outcome d of
              HumanTaskOutcomeSubmit \<Rightarrow> Inr (if htd_Value d = [] then d\<lparr>htd_Value := ''null''\<rparr> else d)
            | HumanTaskOutcomeCancel \<Rightarrow> Inr (d\<lparr>htd_Value := ''null''\<rparr>)
            | HumanTaskOutcomeNone \<Rightarrow> Inl (ErrOther ''outcome must be submit or cancel''))
           (\<lambda>d. if \<not> json_valid (htd_Value d) then Inl (ErrOther ''decision value is not valid JSON'')
                 else if length (htd_Value d) > 2 ^ 20 then Inl (ErrOther ''decision value exceeds the size limit'')
                 else Inr d))"

definition humanTaskMetadata :: "human_task \<Rightarrow> human_task" where
  "humanTaskMetadata t =
     t\<lparr>ht_HasPrivateContext := ht_PrivateContextEncrypted t \<noteq> [], ht_HasDecision := ht_DecisionEncrypted t \<noteq> [],
       ht_PrivateContext := [], ht_PrivateContextEncrypted := [], ht_Decision := [],
       ht_DecisionEncrypted := [], ht_ResumeInput := [], ht_DecisionIdempotencyKey := [],
       ht_DecisionFingerprint := [], ht_RequestFingerprint := []\<rparr>"

definition humanTaskMatchesHoldKey :: "human_task \<Rightarrow> human_task \<Rightarrow> bool" where
  "humanTaskMatchesHoldKey t candidate \<longleftrightarrow>
     ht_Mode t = HumanTaskModeHold \<and> ht_WorkspaceID t = ht_WorkspaceID candidate \<and>
     ht_JobID t = ht_JobID candidate \<and> ht_Attempt t = ht_Attempt candidate \<and> ht_Key t = ht_Key candidate"

definition validateHeldTaskOwnership :: "human_task \<Rightarrow> string \<Rightarrow> unit res" where
  "validateHeldTaskOwnership t workspaceID =
     (if ht_Mode t \<noteq> HumanTaskModeHold \<or> ht_WorkspaceID t \<noteq> NormalizeWorkspace workspaceID
      then Inl ErrNotFound else Inr ())"

definition humanTaskTerminalCause :: "job_result \<Rightarrow> string" where
  "humanTaskTerminalCause result =
     (case res_Interruption result of
        None \<Rightarrow> HumanTaskCauseJobCompleted
      | Some i \<Rightarrow>
          if int_Cause i = ''action_timeout'' then HumanTaskCauseActionTimeout
          else if int_Cause i = ''run_canceled'' then HumanTaskCauseRunCanceled
          else if int_Cause i = ''lease_lost'' \<or> int_Cause i = ''worker_shutdown'' then HumanTaskCauseWorkerLost
          else HumanTaskCauseJobCompleted)"

definition valueOrZero :: "time option \<Rightarrow> time" where
  "valueOrZero v = (case v of None \<Rightarrow> 0 | Some t \<Rightarrow> t)"

section \<open>State changes\<close>

definition correlation_of :: "snapshot \<Rightarrow> string \<Rightarrow> string" where
  "correlation_of s runID = (case map_of (Runs s) runID of Some r \<Rightarrow> run_CorrelationID r | None \<Rightarrow> [])"

definition terminate_task ::
  "human_task_state \<Rightarrow> string \<Rightarrow> snapshot \<Rightarrow> human_task \<Rightarrow> string \<Rightarrow> time \<Rightarrow> snapshot \<times> human_task" where
  "terminate_task st eventType s task0 cause now =
     (let task = task0\<lparr>ht_State := st, ht_TerminalCause := cause, ht_UpdatedAt := now\<rparr>;
          s1 = s\<lparr>HumanTasks := put (ht_ID task) task (HumanTasks s)\<rparr>
      in (appendEvent s1 (ht_RunID task) eventType
            (eventPayload (correlation_of s1 (ht_RunID task))
              [(''jobId'', JString (ht_JobID task)), (''taskId'', JString (ht_ID task)),
               (''cause'', JString (ht_TerminalCause task))]) now, task))"

definition expireHeldTask :: "snapshot \<Rightarrow> human_task \<Rightarrow> string \<Rightarrow> time \<Rightarrow> snapshot \<times> human_task" where
  "expireHeldTask = terminate_task HumanTaskExpired ''human_task.expired''"

definition cancelHeldTask :: "snapshot \<Rightarrow> human_task \<Rightarrow> string \<Rightarrow> time \<Rightarrow> snapshot \<times> human_task" where
  "cancelHeldTask = terminate_task HumanTaskCanceled ''human_task.canceled''"

definition held_pending :: "string \<Rightarrow> string \<Rightarrow> human_task \<Rightarrow> bool" where
  "held_pending workspaceID jobID task \<longleftrightarrow>
     ht_Mode task = HumanTaskModeHold \<and> ht_WorkspaceID task = workspaceID \<and> ht_JobID task = jobID \<and>
     ht_State task = HumanTaskPending"

definition cancel_entry ::
  "(human_task \<Rightarrow> bool) \<Rightarrow> string \<Rightarrow> time \<Rightarrow> string \<times> human_task \<Rightarrow> snapshot \<Rightarrow> snapshot" where
  "cancel_entry hit cause now entry s =
     (let id' = fst entry; task = snd entry
      in if hit task
         then let (s', task') = cancelHeldTask s task cause now
              in s'\<lparr>HumanTasks := put id' task' (HumanTasks s')\<rparr>
         else s)"

definition cancelHeldHumanTasksInSnapshot ::
  "snapshot \<Rightarrow> string \<Rightarrow> string \<Rightarrow> string \<Rightarrow> time \<Rightarrow> snapshot" where
  "cancelHeldHumanTasksInSnapshot s workspaceID jobID cause now =
     fold (cancel_entry (held_pending workspaceID jobID) cause now) (HumanTasks s) s"

section \<open>Operations\<close>

fun find_hold :: "human_task \<Rightarrow> (string, human_task) gomap \<Rightarrow> human_task option" where
  "find_hold task [] = None"
| "find_hold task ((k, existing) # rest) =
     (if humanTaskMatchesHoldKey existing task then Some existing else find_hold task rest)"

definition actively_leased :: "job \<Rightarrow> int \<Rightarrow> time \<Rightarrow> bool" where
  "actively_leased j attempt now \<longleftrightarrow>
     job_State j = JobRunning \<and> job_Attempt j = attempt \<and>
     (case job_LeaseExpiresAt j of None \<Rightarrow> False | Some e \<Rightarrow> e > now)"

definition create_held :: "human_task \<Rightarrow> time \<Rightarrow> snapshot \<Rightarrow> (snapshot \<times> human_task \<times> bool) res" where
  "create_held task txNow s =
     (case map_of (Jobs s) (ht_JobID task) of
        None \<Rightarrow> Inl ErrNotFound
      | Some j \<Rightarrow>
          if normalizedJobWorkspace [] j \<noteq> ht_WorkspaceID task \<or> job_RunID j \<noteq> ht_RunID task then Inl ErrNotFound
          else if \<not> actively_leased j (ht_Attempt task) txNow then Inl ErrInvalidLease
          else case find_hold task (HumanTasks s) of
            Some existing \<Rightarrow>
              if ht_RequestFingerprint existing \<noteq> ht_RequestFingerprint task then Inl ErrConflict
              else Inr (s, existing, False)
          | None \<Rightarrow>
              if map_of (HumanTasks s) (ht_ID task) \<noteq> None then Inl ErrConflict
              else
                let task = task\<lparr>ht_CreatedAt := txNow, ht_UpdatedAt := txNow\<rparr>;
                    s1 = s\<lparr>HumanTasks := put (ht_ID task) task (HumanTasks s)\<rparr>
                in Inr (appendEvent s1 (ht_RunID task) ''human_task.created''
                     (eventPayload (correlation_of s1 (ht_RunID task))
                       [(''jobId'', JString (ht_JobID task)), (''taskId'', JString (ht_ID task)),
                        (''mode'', JString (mode_name (ht_Mode task))), (''kind'', JString (ht_Kind task))]) txNow,
                   task, True))"

definition CreateHeldHumanTask ::
  "codec \<Rightarrow> rnd \<Rightarrow> time \<Rightarrow> time \<Rightarrow> human_task \<Rightarrow> snapshot \<Rightarrow> (snapshot \<times> human_task \<times> bool) res" where
  "CreateHeldHumanTask cx rnd now txNow candidate s =
     bind_res (normalizeHeldHumanTask rnd candidate now) (\<lambda>task.
     bind_res (if ht_PrivateContext task = [] then Inr (ht_PrivateContextEncrypted task)
               else enc_input cx ''context'' (ht_WorkspaceID task) (ht_PrivateContext task)) (\<lambda>encrypted.
       let task = task\<lparr>ht_PrivateContextEncrypted := encrypted, ht_PrivateContext := []\<rparr>
       in bind_res (updateWithClock rnd txNow s (create_held task txNow)) (\<lambda>(t, stored, created).
            Inr (t, humanTaskMetadata stored, created))))"

definition human_task_less :: "human_task \<Rightarrow> human_task \<Rightarrow> bool" where
  "human_task_less a b \<longleftrightarrow>
     (if ht_CreatedAt a = ht_CreatedAt b then ht_ID a > ht_ID b else ht_CreatedAt a > ht_CreatedAt b)"

definition ListHumanTasks :: "snapshot \<Rightarrow> string \<Rightarrow> human_task_state option \<Rightarrow> int \<Rightarrow> human_task list" where
  "ListHumanTasks s workspaceID st limit0 =
     (let w = NormalizeWorkspace workspaceID;
          limit' = (if limit0 \<le> 0 \<or> limit0 > 500 then 100 else limit0);
          tasks = map humanTaskMetadata (filter (\<lambda>t. ht_Mode t = HumanTaskModeHold \<and> ht_WorkspaceID t = w \<and>
             (st = None \<or> st = Some (ht_State t))) (map snd (HumanTasks s)))
      in take (nat limit') (sort_by human_task_less tasks))"

definition GetHumanTask :: "snapshot \<Rightarrow> string \<Rightarrow> human_task res" where
  "GetHumanTask s taskID = (case map_of (HumanTasks s) taskID of None \<Rightarrow> Inl ErrNotFound | Some t \<Rightarrow> Inr t)"

definition GetHumanTaskForWorkspace :: "snapshot \<Rightarrow> string \<Rightarrow> string \<Rightarrow> human_task res" where
  "GetHumanTaskForWorkspace s workspaceID taskID =
     bind_res (GetHumanTask s (trim taskID)) (\<lambda>t.
     bind_res (validateHeldTaskOwnership t workspaceID) (\<lambda>_. Inr (humanTaskMetadata t)))"

definition GetHeldHumanTaskDecision :: "codec \<Rightarrow> snapshot \<Rightarrow> string \<Rightarrow> string \<Rightarrow> human_task_decision_result res" where
  "GetHeldHumanTaskDecision cx s workspaceID taskID =
     (let w = NormalizeWorkspace workspaceID
      in bind_res (GetHumanTask s (trim taskID)) (\<lambda>t.
         bind_res (validateHeldTaskOwnership t w) (\<lambda>_.
           let result = \<lparr>htr_Task = humanTaskMetadata t, htr_Decision = zero_human_task_decision
                 \<lparr>htd_Outcome := HumanTaskOutcomeNone\<rparr>, htr_Replayed = False\<rparr>
           in if ht_State t \<noteq> HumanTaskDecided then Inr result
              else bind_res (dec_input cx w (ht_DecisionEncrypted t)) (\<lambda>plain.
                Inr (result\<lparr>htr_Decision := zero_human_task_decision\<lparr>htd_Outcome := ht_DecisionOutcome t,
                  htd_Value := plain, htd_DecidedAt := valueOrZero (ht_DecidedAt t)\<rparr>\<rparr>)))))"

datatype decide_result = DecideReplayed human_task | DecideExpired human_task | DecideNew human_task

definition decide_held ::
  "string \<Rightarrow> string \<Rightarrow> human_task_decision \<Rightarrow> raw \<Rightarrow> time \<Rightarrow> snapshot \<Rightarrow> (snapshot \<times> decide_result) res" where
  "decide_held workspaceID taskID decision encrypted now s =
     (case map_of (HumanTasks s) (trim taskID) of
        None \<Rightarrow> Inl ErrNotFound
      | Some task \<Rightarrow>
          if validateHeldTaskOwnership task workspaceID \<noteq> Inr () then Inl ErrNotFound
          else if ht_State task = HumanTaskDecided
          then (if ht_DecisionIdempotencyKey task \<noteq> htd_IdempotencyKey decision \<or>
                   ht_DecisionFingerprint task \<noteq> htd_Fingerprint decision
                then Inl ErrConflict else Inr (s, DecideReplayed task))
          else if ht_State task \<noteq> HumanTaskPending then Inl ErrInvalidState
          else if due now (ht_ExpiresAt task)
          then (let (s', task') = expireHeldTask s task HumanTaskCauseDeadline now in Inr (s', DecideExpired task'))
          else
            let task' = task\<lparr>ht_State := HumanTaskDecided, ht_DecisionOutcome := htd_Outcome decision,
                  ht_DecisionEncrypted := encrypted, ht_DecisionIdempotencyKey := htd_IdempotencyKey decision,
                  ht_DecisionFingerprint := htd_Fingerprint decision, ht_DecidedBy := htd_Actor decision,
                  ht_DecidedAt := Some now, ht_UpdatedAt := now\<rparr>;
                s1 = s\<lparr>HumanTasks := put (ht_ID task') task' (HumanTasks s)\<rparr>
            in Inr (appendEvent s1 (ht_RunID task') ''human_task.decided''
                 (eventPayload (correlation_of s1 (ht_RunID task'))
                   [(''jobId'', JString (ht_JobID task')), (''taskId'', JString (ht_ID task')),
                    (''outcome'', JString (outcome_name (ht_DecisionOutcome task'))),
                    (''actor'', JString (ht_DecidedBy task'))]) now, DecideNew task'))"

definition DecideHeldHumanTask ::
  "codec \<Rightarrow> rnd \<Rightarrow> time \<Rightarrow> string \<Rightarrow> string \<Rightarrow> human_task_decision \<Rightarrow> snapshot \<Rightarrow>
   (snapshot \<times> human_task_decision_result) res" where
  "DecideHeldHumanTask cx rnd now workspaceID taskID candidate s =
     bind_res (normalizeHumanTaskDecision candidate) (\<lambda>decision.
       let w = NormalizeWorkspace workspaceID
       in bind_res (enc_input cx ''decision'' w (htd_Value decision)) (\<lambda>encrypted.
          bind_res (updateWithClock rnd now s (decide_held w taskID decision encrypted now)) (\<lambda>(t, r).
            let none = zero_human_task_decision\<lparr>htd_Outcome := HumanTaskOutcomeNone\<rparr>
            in case r of
                 DecideExpired task \<Rightarrow>
                   Inr (t, \<lparr>htr_Task = humanTaskMetadata task, htr_Decision = none, htr_Replayed = False\<rparr>)
               | DecideReplayed task \<Rightarrow>
                   bind_res (dec_input cx w (ht_DecisionEncrypted task)) (\<lambda>plain.
                     Inr (t, \<lparr>htr_Task = humanTaskMetadata task,
                       htr_Decision = none\<lparr>htd_Outcome := ht_DecisionOutcome task,
                         htd_DecidedAt := valueOrZero (ht_DecidedAt task), htd_Value := plain,
                         htd_IdempotencyKey := htd_IdempotencyKey decision\<rparr>, htr_Replayed = True\<rparr>))
               | DecideNew task \<Rightarrow>
                   Inr (t, \<lparr>htr_Task = humanTaskMetadata task,
                     htr_Decision = none\<lparr>htd_Outcome := ht_DecisionOutcome task, htd_DecidedAt := now,
                       htd_Value := htd_Value decision, htd_IdempotencyKey := htd_IdempotencyKey decision\<rparr>,
                     htr_Replayed = False\<rparr>))))"

definition expire_held :: "string \<Rightarrow> string \<Rightarrow> string \<Rightarrow> time \<Rightarrow> snapshot \<Rightarrow> (snapshot \<times> human_task) res" where
  "expire_held workspaceID taskID cause now s =
     (case map_of (HumanTasks s) (trim taskID) of
        None \<Rightarrow> Inl ErrNotFound
      | Some task \<Rightarrow>
          if validateHeldTaskOwnership task workspaceID \<noteq> Inr () then Inl ErrNotFound
          else if ht_State task = HumanTaskExpired then Inr (s, task)
          else if ht_State task \<noteq> HumanTaskPending then Inl ErrInvalidState
          else Inr (expireHeldTask s task (trim cause) now))"

definition ExpireHeldHumanTask ::
  "rnd \<Rightarrow> time \<Rightarrow> string \<Rightarrow> string \<Rightarrow> string \<Rightarrow> snapshot \<Rightarrow> (snapshot \<times> human_task) res" where
  "ExpireHeldHumanTask rnd now workspaceID taskID cause s =
     bind_res (updateWithClock rnd now s (expire_held (NormalizeWorkspace workspaceID) taskID cause now))
       (\<lambda>(t, task). Inr (t, humanTaskMetadata task))"

definition due_held :: "time \<Rightarrow> human_task \<Rightarrow> bool" where
  "due_held now t \<longleftrightarrow> ht_Mode t = HumanTaskModeHold \<and> ht_State t = HumanTaskPending \<and> due now (ht_ExpiresAt t)"

text \<open>The candidates carry the map key and the deadline.\<close>

definition due_less :: "string \<times> time \<Rightarrow> string \<times> time \<Rightarrow> bool" where
  "due_less a b \<longleftrightarrow> (if snd a = snd b then fst a < fst b else snd a < snd b)"

definition due_candidates :: "snapshot \<Rightarrow> time \<Rightarrow> (string \<times> time) list" where
  "due_candidates s now =
     sort_by due_less (map (\<lambda>(k, t). (k, valueOrZero (ht_ExpiresAt t))) (filter (\<lambda>(k, t). due_held now t) (HumanTasks s)))"

definition expire_one :: "time \<Rightarrow> string \<times> time \<Rightarrow> snapshot \<Rightarrow> snapshot" where
  "expire_one now candidate s =
     fst (expireHeldTask s (case map_of (HumanTasks s) (fst candidate) of Some t \<Rightarrow> t | None \<Rightarrow> zero_human_task)
       HumanTaskCauseDeadline now)"

definition localSnapshotHasDueHeldHumanTask :: "snapshot \<Rightarrow> time \<Rightarrow> bool" where
  "localSnapshotHasDueHeldHumanTask s now = list_ex (\<lambda>(k, t). due_held now t) (HumanTasks s)"

text \<open>
  The preflight reads some file \<open>pre\<close> without the lock. Without a due task nothing is written. The number of
  expired tasks is returned.
\<close>

definition ExpireDueHeldHumanTasks ::
  "rnd \<Rightarrow> time \<Rightarrow> time \<Rightarrow> int \<Rightarrow> snapshot \<Rightarrow> snapshot \<Rightarrow> (snapshot \<times> nat) res" where
  "ExpireDueHeldHumanTasks rnd clock now0 limit0 pre s =
     (let now = (if now0 = 0 then clock else now0);
          limit' = (if limit0 \<le> 0 \<or> limit0 > 1000 then 100 else limit0);
          due = take (nat limit') (due_candidates (ensureSnapshot s) now)
      in if \<not> localSnapshotHasDueHeldHumanTask pre now then Inr (s, 0)
         else if due = [] then Inr (s, 0)
         else updateWithClock rnd now s (\<lambda>u. Inr (fold (expire_one now) due u, length due)))"

definition CancelHeldHumanTasksForJob ::
  "rnd \<Rightarrow> time \<Rightarrow> string \<Rightarrow> string \<Rightarrow> string \<Rightarrow> snapshot \<Rightarrow> (snapshot \<times> unit) res" where
  "CancelHeldHumanTasksForJob rnd now workspaceID jobID cause s =
     updateWithClock rnd now s (\<lambda>u.
       Inr (cancelHeldHumanTasksInSnapshot u (NormalizeWorkspace workspaceID) jobID (trim cause) now, ()))"

end
