(* ===== verification/Workers.thy ===== *)
theory Workers
  imports Store
begin

text \<open>
  The worker registry and its management plane: \<^verbatim>\<open>internal/state/workers.go\<close>,
  \<^verbatim>\<open>worker_pressure.go\<close>, \<^verbatim>\<open>worker_management.go\<close>, \<^verbatim>\<open>local_worker_management.go\<close> and the worker
  operations of \<^verbatim>\<open>local_store.go\<close>.
\<close>

section \<open>Registry records\<close>

definition WorkerBuildValueMaxBytes :: nat where "WorkerBuildValueMaxBytes = 128"
definition WorkerStatusActive :: string where "WorkerStatusActive = ''active''"
definition WorkerStatusDraining :: string where "WorkerStatusDraining = ''draining''"
definition WorkerLiveTTL :: duration where "WorkerLiveTTL = 90 * nanos_per_second"
definition WorkerRegistryExpiry :: duration where "WorkerRegistryExpiry = 15 * 60 * nanos_per_second"
definition WorkerPressureFreshTTL :: duration where "WorkerPressureFreshTTL = 45 * nanos_per_second"

text \<open>\<open>unicode.IsControl\<close>: the C0 and C1 controls and DEL.\<close>

definition is_control :: "nat \<Rightarrow> bool" where
  "is_control r \<longleftrightarrow> r < 32 \<or> 127 \<le> r \<and> r < 160"

definition NormalizeWorkerBuildValue :: "string \<Rightarrow> string res" where
  "NormalizeWorkerBuildValue value0 =
     (let value = trim value0
      in if value = [] then Inr []
         else if length value > WorkerBuildValueMaxBytes \<or> \<not> valid_utf8 value
         then Inl (ErrOther ''worker build value must be valid UTF-8 and at most 128 bytes'')
         else if list_ex (\<lambda>(r, n). is_control r) (runes (map byte value))
         then Inl (ErrOther ''worker build value must not contain control characters'')
         else Inr value)"

definition NormalizeWorkerStatus :: "string \<Rightarrow> string res" where
  "NormalizeWorkerStatus value =
     (if value = [] \<or> value = WorkerStatusActive then Inr WorkerStatusActive
      else if value = WorkerStatusDraining then Inr WorkerStatusDraining
      else Inl (ErrOther ''unsupported worker status''))"

definition Live :: "worker_record \<Rightarrow> time \<Rightarrow> bool" where
  "Live w now \<longleftrightarrow> now - wr_LastHeartbeatAt w \<le> WorkerLiveTTL"

definition AcceptingClaims :: "worker_record \<Rightarrow> bool" where
  "AcceptingClaims w = (case wr_ResourcePressure w of None \<Rightarrow> True | Some p \<Rightarrow> wrp_AcceptingClaims p)"

definition NormalizeWorkerScope :: "string list \<Rightarrow> string list" where
  "NormalizeWorkerScope values = sorted_set (filter (\<lambda>v. v \<noteq> []) (map trim values))"

definition SameWorkerScope :: "string list \<Rightarrow> string list \<Rightarrow> bool" where
  "SameWorkerScope left right \<longleftrightarrow> NormalizeWorkerScope left = NormalizeWorkerScope right"

definition WorkspaceAllowed :: "string \<Rightarrow> string list \<Rightarrow> bool" where
  "WorkspaceAllowed workspaceID allowed \<longleftrightarrow> trim workspaceID \<in> set allowed"

definition workerJobWorkspace :: "job \<Rightarrow> string" where
  "workerJobWorkspace j =
     (let w = trim (pl_Workspace (job_Payload j))
      in NormalizeWorkspace (if w = [] then dep_Workspace (PinnedDeployment (job_Payload j)) else w))"

definition WorkerClaimSelector :: "worker_record \<Rightarrow> (string list \<times> string list) res" where
  "WorkerClaimSelector record =
     bind_res (WithExecutionProfileLabels (wr_Labels record) (wr_ExecutionProfiles record)) (\<lambda>labels.
       Inr (NormalizeWorkerScope (wr_Tags record), NormalizeWorkerScope labels))"

definition RegisteredWorkerClaim ::
  "worker_record \<Rightarrow> string list \<Rightarrow> string list \<Rightarrow> time \<Rightarrow>
   (string list \<times> string list \<times> worker_lease_identity) res" where
  "RegisteredWorkerClaim record requestedTags requestedLabels now =
     (if NormalizeWorkerStatus (wr_Status record) \<noteq> Inr WorkerStatusActive \<or> \<not> Live record now \<or>
         \<not> AcceptingClaims record
      then Inl ErrForbidden
      else bind_res (WorkerClaimSelector record) (\<lambda>(tags, labels).
        if \<not> SameWorkerScope requestedTags tags \<or> \<not> SameWorkerScope requestedLabels labels
        then Inl ErrForbidden
        else Inr (tags, labels, \<lparr>wli_Group = trim (wr_Group record),
               wli_CredentialGeneration = wr_CredentialGeneration record\<rparr>)))"

section \<open>Resource pressure reports\<close>

definition validWorkerPressureResource :: "string \<Rightarrow> bool" where
  "validWorkerPressureResource v \<longleftrightarrow> v \<in> {''memory'', ''cpu'', ''file_descriptors''}"

definition validWorkerPressureReason :: "string \<Rightarrow> bool \<Rightarrow> bool" where
  "validWorkerPressureReason v acceptingClaims \<longleftrightarrow>
     (if acceptingClaims then v = [] \<or> v = ''observation_unknown''
      else v \<in> {''memory_high'', ''cpu_high'', ''file_descriptors_high'', ''observation_unknown''})"

definition ratio_ok :: "worker_resource_measurement \<Rightarrow> bool" where
  "ratio_ok m = (case wrm_Ratio m of None \<Rightarrow> True | Some r \<Rightarrow> 0 \<le> r \<and> r \<le> 1)"

text \<open>
  A measurement map is rebuilt in key order; the first offending resource gives the error. The ratio
  is a rational number, so the NaN and infinity tests have no counterpart.
\<close>

fun check_measurements :: "(string \<times> worker_resource_measurement) list \<Rightarrow> unit res" where
  "check_measurements [] = Inr ()"
| "check_measurements ((resource, m) # rest) =
     (if \<not> validWorkerPressureResource resource then Inl (ErrOther ''unsupported worker pressure resource'')
      else if \<not> ratio_ok m then Inl (ErrOther ''worker pressure ratio must be between 0 and 1'')
      else check_measurements rest)"

definition NormalizeWorkerResourcePressure ::
  "worker_resource_pressure option \<Rightarrow> time \<Rightarrow> worker_resource_pressure option res" where
  "NormalizeWorkerResourcePressure value now =
     (case value of
        None \<Rightarrow> Inr None
      | Some p \<Rightarrow>
          let scope = trim (wrp_Scope p); reason = trim (wrp_ReasonCode p)
          in if scope \<notin> {''cgroup_v2'', ''process_tree_host'', ''unknown''}
             then Inl (ErrOther ''unsupported worker pressure scope'')
             else if \<not> validWorkerPressureReason reason (wrp_AcceptingClaims p)
             then Inl (ErrOther ''unsupported worker pressure reason'')
             else
               let ms = sort_by (\<lambda>a b. fst a < fst b) (wrp_Measurements p)
               in bind_res (check_measurements ms) (\<lambda>_.
                    Inr (Some (p\<lparr>wrp_Scope := scope, wrp_ReasonCode := reason,
                      wrp_ObservedAt := nonZeroTime (wrp_ObservedAt p) now,
                      wrp_FreshUntil := now + WorkerPressureFreshTTL, wrp_Measurements := ms,
                      wrp_Supported := list_ex (\<lambda>(k, m). wrm_Supported m) ms\<rparr>))))"

section \<open>Registry operations\<close>

definition register_worker :: "worker_record \<Rightarrow> time \<Rightarrow> snapshot \<Rightarrow> (snapshot \<times> unit) res" where
  "register_worker record0 now s =
     bind_res (NormalizeWorkerResourcePressure (wr_ResourcePressure record0) now) (\<lambda>pressure.
       let record = record0\<lparr>wr_ResourcePressure := pressure\<rparr>;
           existing = map_of (Workers s) (wr_ID record)
       in if (case existing of None \<Rightarrow> False
              | Some e \<Rightarrow> wr_CredentialID e \<noteq> wr_CredentialID record \<or>
                         wr_CredentialGeneration e \<noteq> wr_CredentialGeneration record)
          then Inl ErrForbidden
          else bind_res (NormalizeWorkerStatus (wr_Status record)) (\<lambda>status.
            let started = (if wr_StartedAt record \<noteq> 0 then wr_StartedAt record
                  else case existing of Some e \<Rightarrow> if wr_StartedAt e \<noteq> 0 then wr_StartedAt e else now | None \<Rightarrow> now);
                record' = record\<lparr>wr_Slots := (if wr_Slots record \<le> 0 then 1 else wr_Slots record),
                  wr_Status := status, wr_StartedAt := started, wr_LastHeartbeatAt := now\<rparr>
            in Inr (s\<lparr>Workers := put (wr_ID record') record' (Workers s)\<rparr>, ())))"

definition RegisterWorker :: "rnd \<Rightarrow> time \<Rightarrow> worker_record \<Rightarrow> snapshot \<Rightarrow> (snapshot \<times> unit) res" where
  "RegisterWorker rnd now record s =
     bind_res (NormalizeWorkerBuildValue (wr_EngineVersion record)) (\<lambda>engineVersion.
     bind_res (NormalizeWorkerBuildValue (wr_BuildRevision record)) (\<lambda>buildRevision.
     bind_res (NormalizeExecutionProfiles (wr_ExecutionProfiles record)) (\<lambda>profiles.
       updateWithClock rnd now s (register_worker (record\<lparr>wr_EngineVersion := engineVersion,
         wr_BuildRevision := buildRevision, wr_ExecutionProfiles := profiles\<rparr>) now))))"

definition heartbeat_worker ::
  "string \<Rightarrow> worker_resource_pressure option \<Rightarrow> time \<Rightarrow> snapshot \<Rightarrow> (snapshot \<times> unit) res" where
  "heartbeat_worker workerID pressure now s =
     (case map_of (Workers s) workerID of
        None \<Rightarrow> Inl ErrNotFound
      | Some record \<Rightarrow>
          (case pressure of
             None \<Rightarrow> Inr (s\<lparr>Workers := put workerID (record\<lparr>wr_LastHeartbeatAt := now\<rparr>) (Workers s)\<rparr>, ())
           | Some p \<Rightarrow>
               bind_res (NormalizeWorkerResourcePressure (Some p) now) (\<lambda>normalized.
                 Inr (s\<lparr>Workers := put workerID (record\<lparr>wr_ResourcePressure := normalized,
                   wr_LastHeartbeatAt := now\<rparr>) (Workers s)\<rparr>, ()))))"

definition HeartbeatWorker :: "rnd \<Rightarrow> time \<Rightarrow> string \<Rightarrow> snapshot \<Rightarrow> (snapshot \<times> unit) res" where
  "HeartbeatWorker rnd now workerID s = updateWithClock rnd now s (heartbeat_worker workerID None now)"

definition HeartbeatWorkerPressure ::
  "rnd \<Rightarrow> time \<Rightarrow> string \<Rightarrow> worker_resource_pressure \<Rightarrow> snapshot \<Rightarrow> (snapshot \<times> unit) res" where
  "HeartbeatWorkerPressure rnd now workerID pressure s =
     updateWithClock rnd now s (heartbeat_worker workerID (Some pressure) now)"

definition DeregisterWorker :: "rnd \<Rightarrow> time \<Rightarrow> string \<Rightarrow> snapshot \<Rightarrow> (snapshot \<times> unit) res" where
  "DeregisterWorker rnd now workerID s =
     updateWithClock rnd now s (\<lambda>u. Inr (u\<lparr>Workers := del workerID (Workers u)\<rparr>, ()))"

definition registry_stale :: "time \<Rightarrow> worker_record \<Rightarrow> bool" where
  "registry_stale now record \<longleftrightarrow> now - wr_LastHeartbeatAt record > WorkerRegistryExpiry"

definition ListWorkers :: "rnd \<Rightarrow> time \<Rightarrow> snapshot \<Rightarrow> snapshot \<times> worker_record list" where
  "ListWorkers rnd now s =
     (let out = filter (\<lambda>r. \<not> registry_stale now r) (map snd (Workers s));
          s' = (if list_ex (\<lambda>(k, r). registry_stale now r) (Workers s)
                then (case updateWithClock rnd now s (\<lambda>u.
                         Inr (u\<lparr>Workers := filter (\<lambda>(k, r). \<not> registry_stale now r) (Workers u)\<rparr>, ())) of
                        Inl _ \<Rightarrow> s | Inr (t, _) \<Rightarrow> t)
                else s)
      in (s', sort_by (\<lambda>a b. wr_ID a < wr_ID b) out))"

definition GetWorker :: "snapshot \<Rightarrow> string \<Rightarrow> worker_record res" where
  "GetWorker s workerID = (case map_of (Workers s) (trim workerID) of None \<Rightarrow> Inl ErrNotFound | Some r \<Rightarrow> Inr r)"

section \<open>Credentials and group run state\<close>

definition WorkerCredentialActive :: string where "WorkerCredentialActive = ''active''"
definition WorkerCredentialRevoked :: string where "WorkerCredentialRevoked = ''revoked''"
definition WorkerGroupRunning :: string where "WorkerGroupRunning = ''running''"
definition WorkerGroupDraining :: string where "WorkerGroupDraining = ''draining''"

definition NormalizeWorkerGroup :: "string \<Rightarrow> string res" where
  "NormalizeWorkerGroup value0 =
     (let value = trim value0
      in if value = [] then Inl (ErrOther ''worker group is required'')
         else if length value > 128 \<or> CleanID value \<noteq> value
         then Inl (ErrOther ''worker group must use at most 128 letters, digits, dots, dashes, underscores or colons'')
         else Inr value)"

definition NormalizeWorkerGroupRunState :: "string \<Rightarrow> string res" where
  "NormalizeWorkerGroupRunState value =
     (if trim value = WorkerGroupRunning then Inr WorkerGroupRunning
      else if trim value = WorkerGroupDraining then Inr WorkerGroupDraining
      else Inl (ErrOther ''state must be running or draining''))"

definition NormalizeWorkerCredentialScope :: "string list \<Rightarrow> string list \<Rightarrow> (string list \<times> string list) res" where
  "NormalizeWorkerCredentialScope workspaceIDs labels =
     (let workspaces = NormalizeWorkerScope workspaceIDs
      in if workspaces = [] then Inl ErrInvalidState
         else bind_res (NormalizeLabels labels True) (\<lambda>ls. Inr (workspaces, ls)))"

definition AllowsNewWork :: "worker_credential \<Rightarrow> time \<Rightarrow> bool" where
  "AllowsNewWork c now \<longleftrightarrow> wc_Status c = WorkerCredentialActive \<and>
     (case wc_ExpiresAt c of None \<Rightarrow> True | Some e \<Rightarrow> now < e)"

definition AllowsLeaseContinuation :: "worker_credential \<Rightarrow> time \<Rightarrow> bool" where
  "AllowsLeaseContinuation c now \<longleftrightarrow> AllowsNewWork c now \<or>
     wc_Status c = WorkerCredentialRevoked \<and> (case wc_DrainDeadlineAt c of None \<Rightarrow> False | Some d \<Rightarrow> \<not> now > d)"

definition DefaultWorkerGroupRunState :: "string \<Rightarrow> worker_group_run_state" where
  "DefaultWorkerGroupRunState grp = zero_worker_group_run_state\<lparr>wg_Group := grp, wg_State := WorkerGroupRunning\<rparr>"

record create_worker_credential_request =
  cwc_ID :: string
  cwc_Group :: string
  cwc_ExpectedGeneration :: int
  cwc_WorkspaceIDs :: "string list"
  cwc_Labels :: "string list"
  cwc_ExpiresAt :: "time option"
  cwc_TokenHash :: string
  cwc_OperationID :: string
  cwc_RequestFingerprint :: string
  cwc_Actor :: string

record revoke_worker_credential_request =
  rwc_Group :: string
  rwc_CredentialID :: string
  rwc_OperationID :: string
  rwc_RequestFingerprint :: string
  rwc_DrainDeadlineAt :: time
  rwc_Actor :: string

record put_worker_group_run_state_request =
  pwg_Group :: string
  pwg_State :: string
  pwg_OperationID :: string
  pwg_ExpectedRevision :: int
  pwg_DeadlineAt :: "time option"
  pwg_RequestFingerprint :: string
  pwg_Actor :: string

definition same_operation :: "string \<Rightarrow> string \<Rightarrow> worker_credential \<Rightarrow> bool" where
  "same_operation grp operationID c \<longleftrightarrow> wc_Group c = grp \<and> wc_OperationID c = operationID"

definition group_generation :: "string \<Rightarrow> (string, worker_credential) gomap \<Rightarrow> int" where
  "group_generation grp creds =
     fold (\<lambda>(k, c) g. if wc_Group c = grp \<and> wc_Generation c > g then wc_Generation c else g) creds 0"

definition create_credential ::
  "rnd \<Rightarrow> create_worker_credential_request \<Rightarrow> string \<Rightarrow> string list \<Rightarrow> string list \<Rightarrow> time \<Rightarrow>
   snapshot \<Rightarrow> (snapshot \<times> worker_credential \<times> bool) res" where
  "create_credential rnd request grp workspaces labels now s =
     (case List.find (same_operation grp (cwc_OperationID request)) (map snd (WorkerCredentials s)) of
        Some existing \<Rightarrow>
          if wc_RequestFingerprint existing \<noteq> cwc_RequestFingerprint request then Inl ErrConflict
          else Inr (s, existing, True)
      | None \<Rightarrow>
          let currentGeneration = group_generation grp (WorkerCredentials s)
          in if list_ex (\<lambda>(k, c). wc_TokenHash c = cwc_TokenHash request) (WorkerCredentials s) then Inl ErrConflict
             else if cwc_ExpectedGeneration request \<noteq> currentGeneration then Inl ErrConflict
             else
               let id' = (if trim (cwc_ID request) = [] then NewID rnd ''worker_credential'' ''credential''
                          else trim (cwc_ID request))
               in if map_of (WorkerCredentials s) id' \<noteq> None then Inl ErrConflict
                  else
                    let result = zero_worker_credential\<lparr>wc_ID := id', wc_Group := grp,
                          wc_Generation := currentGeneration + 1, wc_WorkspaceIDs := workspaces,
                          wc_Labels := labels, wc_Status := WorkerCredentialActive,
                          wc_ExpiresAt := cwc_ExpiresAt request, wc_CreatedBy := trim (cwc_Actor request),
                          wc_CreatedAt := now, wc_UpdatedAt := now, wc_TokenHash := cwc_TokenHash request,
                          wc_OperationID := cwc_OperationID request,
                          wc_RequestFingerprint := cwc_RequestFingerprint request\<rparr>
                    in Inr (s\<lparr>WorkerCredentials := put id' result (WorkerCredentials s)\<rparr>, result, False))"

definition CreateWorkerCredential ::
  "rnd \<Rightarrow> time \<Rightarrow> create_worker_credential_request \<Rightarrow> snapshot \<Rightarrow>
   (snapshot \<times> worker_credential \<times> bool) res" where
  "CreateWorkerCredential rnd now request0 s =
     bind_res (NormalizeWorkerGroup (cwc_Group request0)) (\<lambda>grp.
       let request = request0\<lparr>cwc_OperationID := trim (cwc_OperationID request0),
             cwc_RequestFingerprint := trim (cwc_RequestFingerprint request0),
             cwc_TokenHash := trim (cwc_TokenHash request0)\<rparr>
       in bind_res (NormalizeWorkerCredentialScope (cwc_WorkspaceIDs request) (cwc_Labels request))
            (\<lambda>(workspaces, labels).
              if cwc_ExpectedGeneration request < 0 \<or> cwc_OperationID request = [] \<or>
                 cwc_RequestFingerprint request = [] \<or> cwc_TokenHash request = []
              then Inl ErrInvalidState
              else updateWithClock rnd now s (create_credential rnd request grp workspaces labels now)))"

definition revoke_credential ::
  "revoke_worker_credential_request \<Rightarrow> string \<Rightarrow> time \<Rightarrow> snapshot \<Rightarrow> (snapshot \<times> worker_credential \<times> bool) res" where
  "revoke_credential request grp now s =
     (case map_of (WorkerCredentials s) (rwc_CredentialID request) of
        None \<Rightarrow> Inl ErrNotFound
      | Some c \<Rightarrow>
          if wc_Group c \<noteq> grp then Inl ErrNotFound
          else if wc_RevokeOperationID c \<noteq> []
          then (if wc_RevokeOperationID c \<noteq> rwc_OperationID request \<or>
                   wc_RevokeFingerprint c \<noteq> rwc_RequestFingerprint request
                then Inl ErrConflict else Inr (s, c, True))
          else
            let c' = c\<lparr>wc_Status := WorkerCredentialRevoked, wc_RevokedAt := Some now,
                  wc_DrainDeadlineAt := Some (rwc_DrainDeadlineAt request),
                  wc_RevokeOperationID := rwc_OperationID request,
                  wc_RevokeFingerprint := rwc_RequestFingerprint request, wc_UpdatedAt := now\<rparr>
            in Inr (s\<lparr>WorkerCredentials := put (wc_ID c') c' (WorkerCredentials s)\<rparr>, c', False))"

definition RevokeWorkerCredential ::
  "rnd \<Rightarrow> time \<Rightarrow> revoke_worker_credential_request \<Rightarrow> snapshot \<Rightarrow>
   (snapshot \<times> worker_credential \<times> bool) res" where
  "RevokeWorkerCredential rnd now request0 s =
     bind_res (NormalizeWorkerGroup (rwc_Group request0)) (\<lambda>grp.
       let request = request0\<lparr>rwc_CredentialID := trim (rwc_CredentialID request0),
             rwc_OperationID := trim (rwc_OperationID request0),
             rwc_RequestFingerprint := trim (rwc_RequestFingerprint request0)\<rparr>
       in if rwc_CredentialID request = [] \<or> rwc_OperationID request = [] \<or>
             rwc_RequestFingerprint request = [] \<or> rwc_DrainDeadlineAt request = 0
          then Inl ErrInvalidState
          else updateWithClock rnd now s (revoke_credential request grp now))"

definition put_group_state ::
  "put_worker_group_run_state_request \<Rightarrow> string \<Rightarrow> string \<Rightarrow> time \<Rightarrow> snapshot \<Rightarrow>
   (snapshot \<times> worker_group_run_state \<times> bool) res" where
  "put_group_state request grp stateValue now s =
     (let current = (case map_of (WorkerGroupRunStates s) grp of
            Some c \<Rightarrow> c | None \<Rightarrow> DefaultWorkerGroupRunState grp)
      in if wg_OperationID current = pwg_OperationID request
         then (if wg_RequestFingerprint current \<noteq> pwg_RequestFingerprint request then Inl ErrConflict
               else Inr (s, current, True))
         else if wg_Revision current \<noteq> pwg_ExpectedRevision request then Inl ErrConflict
         else
           let result = \<lparr>wg_Group = grp, wg_State = stateValue, wg_OperationID = pwg_OperationID request,
                 wg_Revision = wg_Revision current + 1, wg_DeadlineAt = pwg_DeadlineAt request,
                 wg_UpdatedBy = trim (pwg_Actor request), wg_UpdatedAt = now,
                 wg_RequestFingerprint = pwg_RequestFingerprint request\<rparr>
           in Inr (s\<lparr>WorkerGroupRunStates := put grp result (WorkerGroupRunStates s)\<rparr>, result, False))"

definition PutWorkerGroupRunState ::
  "rnd \<Rightarrow> time \<Rightarrow> put_worker_group_run_state_request \<Rightarrow> snapshot \<Rightarrow>
   (snapshot \<times> worker_group_run_state \<times> bool) res" where
  "PutWorkerGroupRunState rnd now request0 s =
     bind_res (NormalizeWorkerGroup (pwg_Group request0)) (\<lambda>grp.
     bind_res (NormalizeWorkerGroupRunState (pwg_State request0)) (\<lambda>stateValue.
       let request1 = request0\<lparr>pwg_OperationID := trim (pwg_OperationID request0),
             pwg_RequestFingerprint := trim (pwg_RequestFingerprint request0)\<rparr>
       in if pwg_ExpectedRevision request1 < 0 \<or> pwg_OperationID request1 = [] \<or>
             pwg_RequestFingerprint request1 = [] \<or>
             (stateValue = WorkerGroupDraining \<and> pwg_DeadlineAt request1 = None)
          then Inl ErrInvalidState
          else
            let request = (if stateValue = WorkerGroupRunning then request1\<lparr>pwg_DeadlineAt := None\<rparr> else request1)
            in updateWithClock rnd now s (put_group_state request grp stateValue now)))"

definition GetWorkerGroupRunState :: "snapshot \<Rightarrow> string \<Rightarrow> worker_group_run_state res" where
  "GetWorkerGroupRunState s group0 =
     bind_res (NormalizeWorkerGroup group0) (\<lambda>grp.
       Inr (case map_of (WorkerGroupRunStates s) grp of Some c \<Rightarrow> c | None \<Rightarrow> DefaultWorkerGroupRunState grp))"

definition GetWorkerCredential :: "snapshot \<Rightarrow> string \<Rightarrow> string \<Rightarrow> worker_credential res" where
  "GetWorkerCredential s group0 id' =
     bind_res (NormalizeWorkerGroup group0) (\<lambda>grp.
       case map_of (WorkerCredentials s) (trim id') of
         None \<Rightarrow> Inl ErrNotFound
       | Some c \<Rightarrow> if wc_Group c \<noteq> grp then Inl ErrNotFound else Inr c)"

definition GetWorkerCredentialByTokenHash :: "snapshot \<Rightarrow> string \<Rightarrow> worker_credential res" where
  "GetWorkerCredentialByTokenHash s tokenHash =
     (if trim tokenHash = [] then Inl ErrNotFound
      else case List.find (\<lambda>c. wc_TokenHash c = trim tokenHash) (map snd (WorkerCredentials s)) of
             None \<Rightarrow> Inl ErrNotFound | Some c \<Rightarrow> Inr c)"

end
