(* ===== verification/AppRuntime.thy ===== *)
theory AppRuntime
  imports Workers
begin

text \<open>
  The life cycle of an app's runtime: \<^verbatim>\<open>internal/state/local_app_runtime_lifecycle.go\<close>. Only an active
  app gets new attempts; revoking an app asks its running jobs to stop.
\<close>

definition appRuntimeLifecycleKey :: "string \<Rightarrow> string \<Rightarrow> string" where
  "appRuntimeLifecycleKey workspaceID appKey = NormalizeWorkspace workspaceID @ [nul] @ trim appKey"

definition activeAppRuntimeLifecycle :: "string \<Rightarrow> string \<Rightarrow> app_runtime_lifecycle" where
  "activeAppRuntimeLifecycle workspaceID appKey =
     zero_app_runtime_lifecycle\<lparr>arl_WorkspaceID := NormalizeWorkspace workspaceID, arl_AppKey := trim appKey,
       arl_State := AppRuntimeActive\<rparr>"

record set_app_runtime_lifecycle_request =
  sar_WorkspaceID :: string
  sar_AppKey :: string
  sar_State :: app_runtime_state
  sar_Reason :: string
  sar_Actor :: string
  sar_ExpectedRevision :: "int option"

definition GetAppRuntimeLifecycle :: "snapshot \<Rightarrow> string \<Rightarrow> string \<Rightarrow> app_runtime_lifecycle" where
  "GetAppRuntimeLifecycle s workspaceID appKey =
     (case map_of (AppRuntimeLifecycles s) (appRuntimeLifecycleKey workspaceID appKey) of
        Some l \<Rightarrow> l | None \<Rightarrow> activeAppRuntimeLifecycle workspaceID appKey)"

definition revoke_hits :: "set_app_runtime_lifecycle_request \<Rightarrow> job \<Rightarrow> bool" where
  "revoke_hits request j \<longleftrightarrow>
     NormalizeWorkspace (pl_Workspace (job_Payload j)) = sar_WorkspaceID request \<and>
     pl_App (job_Payload j) = sar_AppKey request \<and> job_State j = JobRunning"

definition revoke_reason :: "set_app_runtime_lifecycle_request \<Rightarrow> string" where
  "revoke_reason request =
     (if sar_Reason request = [] then ''App runtime access was emergency revoked'' else sar_Reason request)"

definition revoked_job :: "set_app_runtime_lifecycle_request \<Rightarrow> time \<Rightarrow> job \<Rightarrow> job" where
  "revoked_job request now j =
     j\<lparr>job_CanceledBy := Some (sar_Actor request), job_CanceledReason := Some (revoke_reason request),
       job_UpdatedAt := now\<rparr>"

definition set_lifecycle ::
  "set_app_runtime_lifecycle_request \<Rightarrow> time \<Rightarrow> snapshot \<Rightarrow> (snapshot \<times> app_runtime_lifecycle) res" where
  "set_lifecycle request now s =
     (let key = appRuntimeLifecycleKey (sar_WorkspaceID request) (sar_AppKey request);
          current = (case map_of (AppRuntimeLifecycles s) key of Some l \<Rightarrow> l
            | None \<Rightarrow> activeAppRuntimeLifecycle (sar_WorkspaceID request) (sar_AppKey request))
      in if (case sar_ExpectedRevision request of None \<Rightarrow> False | Some e \<Rightarrow> arl_Revision current \<noteq> e)
         then Inl ErrConflict
         else
           let result = \<lparr>arl_WorkspaceID = sar_WorkspaceID request, arl_AppKey = sar_AppKey request,
                 arl_State = sar_State request, arl_Reason = sar_Reason request, arl_Actor = sar_Actor request,
                 arl_Revision = arl_Revision current + 1, arl_UpdatedAt = now\<rparr>;
               audit = \<lparr>ara_WorkspaceID = arl_WorkspaceID result, ara_AppKey = arl_AppKey result,
                 ara_State = arl_State result, ara_Reason = arl_Reason result, ara_Actor = arl_Actor result,
                 ara_Revision = arl_Revision result, ara_Purged = False, ara_Forced = False, ara_CreatedAt = now\<rparr>;
               audits = (case map_of (AppRuntimeLifecycleAudits s) key of Some a \<Rightarrow> a | None \<Rightarrow> []);
               s1 = s\<lparr>AppRuntimeLifecycles := put key result (AppRuntimeLifecycles s),
                 AppRuntimeLifecycleAudits := put key (audits @ [audit]) (AppRuntimeLifecycleAudits s)\<rparr>
           in Inr (if sar_State request = AppRuntimeRevoked
                   then s1\<lparr>Jobs := map_vals (\<lambda>k j. if revoke_hits request j then revoked_job request now j else j) (Jobs s1)\<rparr>
                   else s1, result))"

definition SetAppRuntimeLifecycle ::
  "rnd \<Rightarrow> time \<Rightarrow> set_app_runtime_lifecycle_request \<Rightarrow> snapshot \<Rightarrow> (snapshot \<times> app_runtime_lifecycle) res" where
  "SetAppRuntimeLifecycle rnd now request0 s =
     (let request = request0\<lparr>sar_WorkspaceID := NormalizeWorkspace (sar_WorkspaceID request0),
            sar_AppKey := trim (sar_AppKey request0), sar_Actor := trim (sar_Actor request0),
            sar_Reason := trim (sar_Reason request0)\<rparr>
      in if sar_AppKey request = [] \<or> sar_Actor request = [] then Inl ErrInvalidState
         else updateWithClock rnd now s (set_lifecycle request now))"

definition job_lifecycle :: "snapshot \<Rightarrow> job \<Rightarrow> app_runtime_lifecycle option" where
  "job_lifecycle s j =
     map_of (AppRuntimeLifecycles s) (appRuntimeLifecycleKey (workerJobWorkspace j) (pl_App (job_Payload j)))"

definition appRuntimeAllowsRunningAttempt :: "snapshot \<Rightarrow> job \<Rightarrow> bool" where
  "appRuntimeAllowsRunningAttempt s j =
     (case job_lifecycle s j of
        None \<Rightarrow> True
      | Some l \<Rightarrow>
          if arl_State l = AppRuntimeActive then True
          else if arl_State l = AppRuntimeRevoked then False
          else (case job_StartedAt j of None \<Rightarrow> False | Some st \<Rightarrow> \<not> st > arl_UpdatedAt l))"

definition appRuntimeAllowsNewAttempt :: "snapshot \<Rightarrow> job \<Rightarrow> bool" where
  "appRuntimeAllowsNewAttempt s j =
     (case job_lifecycle s j of None \<Rightarrow> True | Some l \<Rightarrow> arl_State l = AppRuntimeActive)"

end
