(* ===== verification/JobStore.thy ===== *)
theory JobStore
  imports ExecLimits HumanTasks AppRuntime
begin

text \<open>
  The run and job operations of \<^verbatim>\<open>internal/state/local_store.go\<close>. An operation takes the time its
  transaction reads, its random source and encryption, and the state file; its transaction body is a
  separate definition on the loaded snapshot.
\<close>

section \<open>Encryption of stored results\<close>

definition encryptJobResult :: "codec \<Rightarrow> string \<Rightarrow> string \<Rightarrow> job_result \<Rightarrow> job_result res" where
  "encryptJobResult cx draw workspaceID result =
     bind_res (enc_result cx draw workspaceID (res_Output result)) (\<lambda>output. Inr (result\<lparr>res_Output := output\<rparr>))"

definition encryptStoredRunResult :: "codec \<Rightarrow> string \<Rightarrow> string \<Rightarrow> snapshot \<Rightarrow> string \<Rightarrow> snapshot res" where
  "encryptStoredRunResult cx draw workspaceID s runID =
     (case map_of (Runs s) runID of
        None \<Rightarrow> Inr s
      | Some r \<Rightarrow>
          bind_res (if run_Output r = [] then Inr (run_Output r)
                    else enc_result cx (draw @ ''/output'') workspaceID (run_Output r)) (\<lambda>output.
          bind_res (case run_Result r of None \<Rightarrow> Inr None
                    | Some result \<Rightarrow> bind_res (encryptJobResult cx (draw @ ''/result'') workspaceID result)
                        (\<lambda>x. Inr (Some x))) (\<lambda>result.
            Inr (s\<lparr>Runs := put runID (r\<lparr>run_Output := output, run_Result := result\<rparr>) (Runs s)\<rparr>))))"

definition decryptRunResult :: "codec \<Rightarrow> string \<Rightarrow> run \<Rightarrow> run res" where
  "decryptRunResult cx workspaceID r =
     bind_res (if run_Output r = [] then Inr (run_Output r) else dec_result cx workspaceID (run_Output r)) (\<lambda>output.
     bind_res (case run_Result r of
                 None \<Rightarrow> Inr None
               | Some result \<Rightarrow>
                   if res_Output result = [] then Inr (Some result)
                   else bind_res (dec_result cx workspaceID (res_Output result)) (\<lambda>o'.
                     Inr (Some (result\<lparr>res_Output := o'\<rparr>)))) (\<lambda>result.
       Inr (r\<lparr>run_Output := output, run_Result := result\<rparr>)))"

section \<open>Enqueue and read\<close>

definition create_run_and_enqueue :: "codec \<Rightarrow> run \<Rightarrow> job \<Rightarrow> time \<Rightarrow> snapshot \<Rightarrow> (snapshot \<times> unit) res" where
  "create_run_and_enqueue cx run0 job0 now s =
     (let workspaceID = normalizedJobWorkspace [] job0
      in bind_res (bindLocalAdmissionOutcome s workspaceID run0 now) (\<lambda>s1.
         if map_of (Runs s1) (run_ID run0) \<noteq> None then Inl ErrConflict
         else if map_of (Jobs s1) (job_ID job0) \<noteq> None then Inl ErrConflict
         else
           let r = run0\<lparr>run_CreatedAt := nonZeroTime (run_CreatedAt run0) now, run_UpdatedAt := now\<rparr>;
               j1 = job0\<lparr>job_CreatedAt := nonZeroTime (job_CreatedAt job0) now, job_UpdatedAt := now\<rparr>;
               j = (if pl_CorrelationID (job_Payload j1) = []
                    then j1\<lparr>job_Payload := (job_Payload j1)\<lparr>pl_CorrelationID := run_CorrelationID r\<rparr>\<rparr> else j1)
           in bind_res (enc_input cx ''run'' workspaceID (run_Input r)) (\<lambda>runInput.
              bind_res (enc_input cx ''job'' workspaceID (pl_Input (job_Payload j))) (\<lambda>jobInput.
                let r' = r\<lparr>run_Input := runInput\<rparr>;
                    j' = j\<lparr>job_Payload := (job_Payload j)\<lparr>pl_Input := jobInput\<rparr>\<rparr>;
                    s2 = s1\<lparr>Runs := put (run_ID r') r' (Runs s1), Jobs := put (job_ID j') j' (Jobs s1)\<rparr>;
                    s3 = appendEvent s2 (run_ID r') ''run_created''
                      (eventPayload (run_CorrelationID r')
                        [(''app'', JString (run_App r')), (''action'', JString (run_Action r'))]) now
                in Inr (appendEvent s3 (run_ID r') ''job_enqueued''
                     (eventPayload (run_CorrelationID r') [(''jobId'', JString (job_ID j'))]) now, ())))))"

definition CreateRunAndEnqueue ::
  "codec \<Rightarrow> rnd \<Rightarrow> time \<Rightarrow> run \<Rightarrow> job \<Rightarrow> snapshot \<Rightarrow> (snapshot \<times> unit) res" where
  "CreateRunAndEnqueue cx rnd now r j s = updateWithClock rnd now s (create_run_and_enqueue cx r j now)"

definition GetRun :: "codec \<Rightarrow> snapshot \<Rightarrow> string \<Rightarrow> run res" where
  "GetRun cx s runID =
     (case map_of (Runs s) runID of
        None \<Rightarrow> Inl ErrNotFound
      | Some r \<Rightarrow>
          bind_res (dec_input cx (SourceWorkspace (run_Deployment r)) (run_Input r)) (\<lambda>input.
            decryptRunResult cx (SourceWorkspace (run_Deployment r)) (r\<lparr>run_Input := input\<rparr>)))"

definition GetJob :: "codec \<Rightarrow> snapshot \<Rightarrow> string \<Rightarrow> string \<Rightarrow> (job \<times> run) option res" where
  "GetJob cx s workspaceID jobID =
     (case map_of (Jobs s) jobID of
        None \<Rightarrow> Inr None
      | Some j \<Rightarrow>
          if normalizedJobWorkspace [] j \<noteq> NormalizeWorkspace workspaceID then Inr None
          else case map_of (Runs s) (job_RunID j) of
                 None \<Rightarrow> Inl ErrNotFound
               | Some r \<Rightarrow>
                   bind_res (dec_input cx (normalizedJobWorkspace [] j) (pl_Input (job_Payload j))) (\<lambda>jobInput.
                   bind_res (dec_input cx (SourceWorkspace (run_Deployment r)) (run_Input r)) (\<lambda>runInput.
                   bind_res (decryptRunResult cx (normalizedJobWorkspace [] j) (r\<lparr>run_Input := runInput\<rparr>)) (\<lambda>r'.
                     Inr (Some (j\<lparr>job_Payload := (job_Payload j)\<lparr>pl_Input := jobInput\<rparr>\<rparr>, r'))))))"

section \<open>Requeue for routing\<close>

definition requeue_tag :: "requeue_app_spec \<Rightarrow> job \<Rightarrow> string option" where
  "requeue_tag spec j =
     (if job_State j \<noteq> JobQueued \<or> normalizedJobWorkspace [] j \<noteq> NormalizeWorkspace (rq_WorkspaceID spec) \<or>
         pl_App (job_Payload j) \<noteq> rq_AppKey spec then None
      else if (case rq_ActionKey spec of None \<Rightarrow> False | Some a \<Rightarrow> pl_Action (job_Payload j) \<noteq> a) then None
      else case map_of (rq_ActionTags spec) (pl_Action (job_Payload j)) of
             None \<Rightarrow> None
           | Some tag \<Rightarrow>
               if trim tag = [] \<or> pl_Tag (job_Payload j) = trim tag then None else Some (trim tag))"

definition RequeueQueuedJobsForApp ::
  "rnd \<Rightarrow> time \<Rightarrow> requeue_app_spec \<Rightarrow> snapshot \<Rightarrow> (snapshot \<times> nat) res" where
  "RequeueQueuedJobsForApp rnd now spec s =
     updateWithClock rnd now s (\<lambda>u.
       Inr (u\<lparr>Jobs := map_vals (\<lambda>k j. case requeue_tag spec j of
                None \<Rightarrow> j
              | Some tag \<Rightarrow> j\<lparr>job_Payload := (job_Payload j)\<lparr>pl_Tag := tag\<rparr>, job_UpdatedAt := now\<rparr>) (Jobs u)\<rparr>,
            length (filter (\<lambda>(k, j). requeue_tag spec j \<noteq> None) (Jobs u))))"

section \<open>Cancellation and expired leases\<close>

definition cancelBeforeExecutionMessage :: string where
  "cancelBeforeExecutionMessage = ''job canceled before execution''"
definition cancelDuringExecutionMessage :: string where
  "cancelDuringExecutionMessage = ''job canceled''"
definition cancelWorkerLostMessage :: string where
  "cancelWorkerLostMessage = ''job canceled; worker lost during execution''"

definition canceledJobResult :: "job \<Rightarrow> run \<Rightarrow> string \<Rightarrow> time \<Rightarrow> job_result" where
  "canceledJobResult j r message now =
     \<lparr>res_JobID = job_ID j, res_App = run_App r, res_Action = run_Action r,
      res_Output = mustRaw [(''name'', JString ''Canceled''), (''message'', JString message)],
      res_ExitCode = - 1, res_Stdout = [], res_Stderr = [], res_DurationMs = 0, res_Error = message,
      res_Interruption = Some \<lparr>int_Cause = ''run_canceled'', int_Source = ''control_plane'',
        int_Message = message, int_Observed = now\<rparr>\<rparr>"

definition canceled_job :: "job \<Rightarrow> string \<Rightarrow> string \<Rightarrow> time \<Rightarrow> job" where
  "canceled_job j by' reason now =
     j\<lparr>job_State := JobFailed, job_LeaseExpiresAt := None, job_CanceledBy := Some by',
       job_CanceledReason := Some reason, job_UpdatedAt := now\<rparr>"

definition canceled_run :: "job \<Rightarrow> run \<Rightarrow> string \<Rightarrow> string \<Rightarrow> string \<Rightarrow> time \<Rightarrow> run" where
  "canceled_run j r by' reason message now =
     r\<lparr>run_State := RunCanceled, run_Result := Some (canceledJobResult j r message now),
       run_Error := mustRaw [(''message'', JString message), (''canceledBy'', JString by'),
         (''canceledReason'', JString reason)], run_UpdatedAt := now\<rparr>"

definition applyCanceledJob ::
  "snapshot \<Rightarrow> job \<Rightarrow> run \<Rightarrow> string \<Rightarrow> string \<Rightarrow> string \<Rightarrow> time \<Rightarrow> snapshot" where
  "applyCanceledJob s j0 r0 by' reason message0 now =
     (let message = (if trim message0 = [] then ''job canceled'' else trim message0);
          j = canceled_job j0 by' reason now;
          r = canceled_run j r0 by' reason message now;
          s1 = s\<lparr>Jobs := put (job_ID j) j (Jobs s), Runs := put (run_ID r) r (Runs s)\<rparr>
      in appendEvent s1 (run_ID r) ''run_canceled''
           (eventPayload (run_CorrelationID r)
             [(''jobId'', JString (job_ID j)), (''by'', JString by'), (''reason'', JString reason)]) now)"

definition lease_expired :: "job \<Rightarrow> time \<Rightarrow> bool" where
  "lease_expired j now \<longleftrightarrow>
     job_State j = JobRunning \<and> (case job_LeaseExpiresAt j of None \<Rightarrow> False | Some e \<Rightarrow> \<not> e > now)"

definition requeued_job :: "job \<Rightarrow> time \<Rightarrow> job" where
  "requeued_job j now =
     j\<lparr>job_State := JobQueued, job_LeaseOwner := [], job_LeaseExpiresAt := None, job_StartedAt := None,
       job_LeaseIdentity := None, job_UpdatedAt := now\<rparr>"

definition requeue_entry :: "codec \<Rightarrow> time \<Rightarrow> string \<times> job \<Rightarrow> snapshot \<Rightarrow> snapshot res" where
  "requeue_entry cx now entry s =
     (let id' = fst entry; j = snd entry
      in if \<not> lease_expired j now then Inr s
         else case job_CanceledBy j of
                Some by' \<Rightarrow>
                  (case map_of (Runs s) (job_RunID j) of
                     None \<Rightarrow> Inr s
                   | Some r \<Rightarrow>
                       encryptStoredRunResult cx (job_ID j) (normalizedJobWorkspace [] j)
                         (applyCanceledJob s j r by' (canceledReasonValue j) cancelWorkerLostMessage now) (run_ID r))
              | None \<Rightarrow>
                  Inr (appendEvent
                    (s\<lparr>WorkerLeaseIdentities := del id' (WorkerLeaseIdentities s),
                       Jobs := put id' (requeued_job j now) (Jobs s)\<rparr>)
                    (job_RunID j) ''job_lease_expired''
                    (eventPayload (pl_CorrelationID (job_Payload j)) [(''jobId'', JString (job_ID j))]) now))"

definition requeueExpiredJobs :: "codec \<Rightarrow> snapshot \<Rightarrow> time \<Rightarrow> snapshot res" where
  "requeueExpiredJobs cx s now = fold_res (requeue_entry cx now) (Jobs s) s"

section \<open>Claim\<close>

definition job_less :: "job \<Rightarrow> job \<Rightarrow> bool" where
  "job_less left right \<longleftrightarrow>
     (if job_Priority left \<noteq> job_Priority right then job_Priority left < job_Priority right
      else if job_CreatedAt left \<noteq> job_CreatedAt right then job_CreatedAt left < job_CreatedAt right
      else job_ID left < job_ID right)"

definition offered :: "snapshot \<Rightarrow> string list \<Rightarrow> string list \<Rightarrow> string list \<Rightarrow> job \<Rightarrow> bool" where
  "offered s allowedWorkspaces allowedTags offeredLabels j \<longleftrightarrow>
     job_State j = JobQueued \<and>
     (allowedWorkspaces = [] \<or> workerJobWorkspace j \<in> set allowedWorkspaces) \<and>
     appRuntimeAllowsNewAttempt s j \<and> claimAllowed j allowedTags offeredLabels"

definition claim_candidates :: "snapshot \<Rightarrow> string list \<Rightarrow> string list \<Rightarrow> string list \<Rightarrow> job list" where
  "claim_candidates s allowedWorkspaces allowedTags offeredLabels =
     sort_by job_less (filter (offered s allowedWorkspaces allowedTags offeredLabels) (map snd (Jobs s)))"

definition admissible :: "snapshot \<Rightarrow> time \<Rightarrow> job \<Rightarrow> bool" where
  "admissible s now candidate \<longleftrightarrow>
     \<not> maxConcurrentReached s candidate \<and> \<not> rateLimitsReached s candidate now"

definition claimed_job :: "job \<Rightarrow> string \<Rightarrow> worker_lease_identity option \<Rightarrow> time \<Rightarrow> time \<Rightarrow> job" where
  "claimed_job j workerID leaseIdentity expiresAt now =
     j\<lparr>job_State := JobRunning, job_Attempt := job_Attempt j + 1, job_LeaseOwner := workerID,
       job_LeaseExpiresAt := Some expiresAt, job_StartedAt := Some now, job_UpdatedAt := now,
       job_LeaseIdentity := leaseIdentity\<rparr>"

definition start_run :: "snapshot \<Rightarrow> job \<Rightarrow> time \<Rightarrow> snapshot" where
  "start_run s j now =
     (case map_of (Runs s) (job_RunID j) of
        None \<Rightarrow> s
      | Some r \<Rightarrow>
          if run_State r = RunQueued \<or> run_State r = RunResuming
          then appendEvent (s\<lparr>Runs := put (run_ID r) (r\<lparr>run_State := RunRunning, run_UpdatedAt := now\<rparr>) (Runs s)\<rparr>)
                 (run_ID r) ''run_running''
                 (eventPayload (run_CorrelationID r) [(''jobId'', JString (job_ID j))]) now
          else s)"

definition grant_claim ::
  "snapshot \<Rightarrow> job \<Rightarrow> string \<Rightarrow> worker_lease_identity option \<Rightarrow> duration \<Rightarrow> time \<Rightarrow> snapshot \<times> job \<times> lease" where
  "grant_claim s candidate workerID leaseIdentity leaseTTL now =
     (let s1 = consumeRateLimits s candidate now;
          expiresAt = now + leaseTTL;
          j = claimed_job candidate workerID leaseIdentity expiresAt now;
          s2 = s1\<lparr>WorkerLeaseIdentities := (case leaseIdentity of
                   Some i \<Rightarrow> put (job_ID j) i (WorkerLeaseIdentities s1)
                 | None \<Rightarrow> del (job_ID j) (WorkerLeaseIdentities s1)),
               Jobs := put (job_ID j) j (Jobs s1)\<rparr>;
          s3 = start_run s2 j now;
          s4 = appendEvent s3 (job_RunID j) ''job_claimed''
            (eventPayload (pl_CorrelationID (job_Payload j))
              [(''jobId'', JString (job_ID j)), (''workerId'', JString workerID), (''attempt'', JInt (job_Attempt j))]) now
      in (s4, j, \<lparr>ls_JobID = job_ID j, ls_WorkerID = workerID, ls_ExpiresAt = expiresAt,
                  ls_Attempt = job_Attempt j, ls_AcquiredAt = now, ls_Identity = leaseIdentity\<rparr>))"

text \<open>What a registered worker may claim with, and the identity pinned to the attempt.\<close>

definition claim_selector ::
  "snapshot \<Rightarrow> string \<Rightarrow> string list \<Rightarrow> string list \<Rightarrow> time \<Rightarrow>
   (string list \<times> string list \<times> worker_lease_identity option) res" where
  "claim_selector s workerID requestedTags requestedLabels now =
     (case map_of (Workers s) workerID of
        None \<Rightarrow> Inr (normalizeClaimTags requestedTags, normalizeClaimTags requestedLabels, None)
      | Some record \<Rightarrow>
          bind_res (RegisteredWorkerClaim record requestedTags requestedLabels now) (\<lambda>(tags, labels, identity).
            Inr (normalizeClaimTags tags, normalizeClaimTags labels, Some identity)))"

definition claim_tx ::
  "codec \<Rightarrow> string \<Rightarrow> string list \<Rightarrow> string list \<Rightarrow> string list \<Rightarrow> duration \<Rightarrow> time \<Rightarrow> snapshot \<Rightarrow>
   (snapshot \<times> job \<times> lease) res" where
  "claim_tx cx workerID requestedTags requestedLabels allowedWorkspaces leaseTTL now s0 =
     bind_res (requeueExpiredJobs cx s0 now) (\<lambda>s1.
       let s = pruneExecutionRateBuckets s1 now
       in bind_res (claim_selector s workerID requestedTags requestedLabels now) (\<lambda>(tags, labels, identity).
            case List.find (admissible s now) (claim_candidates s allowedWorkspaces tags labels) of
              None \<Rightarrow> Inl ErrNoQueuedJob
            | Some candidate \<Rightarrow>
                if job_ID candidate = [] then Inl ErrNoQueuedJob
                else Inr (grant_claim s candidate workerID identity leaseTTL now)))"

text \<open>The lock-free preflight, on the file \<open>pre\<close> that it happens to read.\<close>

definition localClaimMayOfferJob ::
  "snapshot \<Rightarrow> string \<Rightarrow> string list \<Rightarrow> string list \<Rightarrow> time \<Rightarrow> bool res" where
  "localClaimMayOfferJob pre workerID requestedTags requestedLabels now =
     bind_res (case map_of (Workers pre) workerID of
                 None \<Rightarrow> Inr ()
               | Some record \<Rightarrow> bind_res (RegisteredWorkerClaim record requestedTags requestedLabels now) (\<lambda>_. Inr ()))
       (\<lambda>_. Inr (list_ex (\<lambda>(k, j). job_State j = JobQueued \<or> lease_expired j now) (Jobs pre)))"

definition ClaimJobForWorkerScope ::
  "codec \<Rightarrow> rnd \<Rightarrow> time \<Rightarrow> time \<Rightarrow> string \<Rightarrow> string list \<Rightarrow> string list \<Rightarrow> string list \<Rightarrow> duration \<Rightarrow>
   snapshot \<Rightarrow> snapshot \<Rightarrow> (snapshot \<times> job \<times> lease) res" where
  "ClaimJobForWorkerScope cx rnd preNow now workerID0 tags labels workspaceIDs leaseTTL0 pre s =
     (let workerID = (if workerID0 = [] then NewID rnd ''worker'' ''worker'' else workerID0);
          leaseTTL = (if leaseTTL0 \<le> 0 then defaultLeaseTime else leaseTTL0);
          requestedTags = NormalizeWorkerScope tags;
          requestedLabels = NormalizeWorkerScope labels
      in bind_res (localClaimMayOfferJob pre workerID requestedTags requestedLabels preNow) (\<lambda>mayOfferJob.
           if \<not> mayOfferJob then Inl ErrNoQueuedJob
           else updateWithClock rnd now s
             (claim_tx cx workerID requestedTags requestedLabels (normalizeClaimTags workspaceIDs) leaseTTL now)))"

section \<open>Lease holders\<close>

definition holds_lease :: "job \<Rightarrow> lease \<Rightarrow> bool" where
  "holds_lease j l \<longleftrightarrow>
     job_State j = JobRunning \<and> job_LeaseOwner j = ls_WorkerID l \<and> job_Attempt j = ls_Attempt l"

definition heartbeat_tx :: "lease \<Rightarrow> duration \<Rightarrow> time \<Rightarrow> snapshot \<Rightarrow> (snapshot \<times> heartbeat_result) res" where
  "heartbeat_tx l leaseTTL now s =
     (let lost = \<lparr>hb_CanceledBy = None, hb_CanceledReason = None, hb_StillOwned = False\<rparr>
      in case map_of (Jobs s) (ls_JobID l) of
           None \<Rightarrow> Inr (s, lost)
         | Some j \<Rightarrow>
             if \<not> holds_lease j l then Inr (s, lost)
             else Inr (s\<lparr>Jobs := put (job_ID j)
                    (j\<lparr>job_LeaseExpiresAt := Some (now + leaseTTL), job_UpdatedAt := now\<rparr>) (Jobs s)\<rparr>,
                  \<lparr>hb_CanceledBy = job_CanceledBy j, hb_CanceledReason = job_CanceledReason j, hb_StillOwned = True\<rparr>))"

definition HeartbeatJob ::
  "rnd \<Rightarrow> time \<Rightarrow> lease \<Rightarrow> duration \<Rightarrow> snapshot \<Rightarrow> (snapshot \<times> heartbeat_result) res" where
  "HeartbeatJob rnd now l leaseTTL s =
     updateWithClock rnd now s (heartbeat_tx l (if leaseTTL \<le> 0 then defaultLeaseTime else leaseTTL) now)"

definition leasedJobAndRun :: "snapshot \<Rightarrow> lease \<Rightarrow> time \<Rightarrow> (job \<times> run) res" where
  "leasedJobAndRun s l now =
     (case map_of (Jobs s) (ls_JobID l) of
        None \<Rightarrow> Inl ErrNotFound
      | Some j \<Rightarrow>
          if \<not> holds_lease j l then Inl ErrInvalidLease
          else if (case job_LeaseExpiresAt j of None \<Rightarrow> False | Some e \<Rightarrow> e < now) then Inl ErrInvalidLease
          else case map_of (Runs s) (job_RunID j) of None \<Rightarrow> Inl ErrNotFound | Some r \<Rightarrow> Inr (j, r))"

text \<open>A completion that finds its job canceled settles the cancellation instead.\<close>

definition settle_canceled ::
  "codec \<Rightarrow> snapshot \<Rightarrow> job \<Rightarrow> run \<Rightarrow> string \<Rightarrow> bool \<Rightarrow> time \<Rightarrow> snapshot res" where
  "settle_canceled cx s j r by' cancelTasks now =
     (let s1 = applyCanceledJob s j r by' (canceledReasonValue j) cancelDuringExecutionMessage now;
          s2 = (if cancelTasks
                then cancelHeldHumanTasksInSnapshot s1 (normalizedJobWorkspace [] j) (job_ID j) HumanTaskCauseRunCanceled now
                else s1)
      in encryptStoredRunResult cx ''canceled'' (normalizedJobWorkspace [] j) s2 (run_ID r))"

definition finished_job :: "job_state \<Rightarrow> job \<Rightarrow> time \<Rightarrow> job" where
  "finished_job st j now = j\<lparr>job_State := st, job_LeaseExpiresAt := None, job_UpdatedAt := now\<rparr>"

definition complete_succeeded ::
  "codec \<Rightarrow> lease \<Rightarrow> job_result \<Rightarrow> time \<Rightarrow> snapshot \<Rightarrow> (snapshot \<times> unit) res" where
  "complete_succeeded cx l result now s =
     bind_res (leasedJobAndRun s l now) (\<lambda>(j, r).
       case job_CanceledBy j of
         Some by' \<Rightarrow> bind_res (settle_canceled cx s j r by' True now) (\<lambda>t. Inr (t, ()))
       | None \<Rightarrow>
           bind_res (encryptJobResult cx ''result'' (normalizedJobWorkspace [] j) result) (\<lambda>stored.
             let j' = finished_job JobSucceeded j now;
                 r' = r\<lparr>run_State := RunSucceeded, run_Output := res_Output stored, run_Result := Some stored,
                   run_Error := [], run_TaskID := [], run_UpdatedAt := now\<rparr>;
                 s1 = s\<lparr>Jobs := put (job_ID j') j' (Jobs s), Runs := put (run_ID r') r' (Runs s)\<rparr>;
                 s2 = cancelHeldHumanTasksInSnapshot s1 (normalizedJobWorkspace [] j') (job_ID j')
                   HumanTaskCauseJobCompleted now
             in Inr (appendEvent s2 (run_ID r') ''run_succeeded''
                  (eventPayload (run_CorrelationID r') [(''jobId'', JString (job_ID j'))]) now, ())))"

definition failure_text :: "job_result \<Rightarrow> job_result" where
  "failure_text result =
     (if res_Error result = [] \<and> res_ExitCode result \<noteq> 0
      then result\<lparr>res_Error := ''action exited with code '' @ itoa (res_ExitCode result)\<rparr> else result)"

definition complete_failed ::
  "codec \<Rightarrow> lease \<Rightarrow> job_result \<Rightarrow> time \<Rightarrow> snapshot \<Rightarrow> (snapshot \<times> unit) res" where
  "complete_failed cx l result0 now s =
     bind_res (leasedJobAndRun s l now) (\<lambda>(j, r).
       case job_CanceledBy j of
         Some by' \<Rightarrow> bind_res (settle_canceled cx s j r by' True now) (\<lambda>t. Inr (t, ()))
       | None \<Rightarrow>
           let result = failure_text result0
           in bind_res (encryptJobResult cx ''result'' (normalizedJobWorkspace [] j) result) (\<lambda>stored.
             let j' = finished_job JobFailed j now;
                 r' = r\<lparr>run_State := RunFailed, run_Result := Some stored,
                   run_Error := mustRaw [(''message'', JString (res_Error result)), (''exitCode'', JInt (res_ExitCode result))],
                   run_UpdatedAt := now\<rparr>;
                 s1 = s\<lparr>Jobs := put (job_ID j') j' (Jobs s), Runs := put (run_ID r') r' (Runs s)\<rparr>;
                 s2 = cancelHeldHumanTasksInSnapshot s1 (normalizedJobWorkspace [] j') (job_ID j')
                   (humanTaskTerminalCause result) now
             in Inr (appendEvent s2 (run_ID r') ''run_failed''
                  (eventPayload (run_CorrelationID r') [(''jobId'', JString (job_ID j')),
                    (''error'', JString (res_Error result)), (''exitCode'', JInt (res_ExitCode result))]) now, ())))"

text \<open>An empty task state of the source is the pending state.\<close>

definition complete_waiting_human ::
  "codec \<Rightarrow> rnd \<Rightarrow> lease \<Rightarrow> job_result \<Rightarrow> human_task \<Rightarrow> time \<Rightarrow> snapshot \<Rightarrow> (snapshot \<times> unit) res" where
  "complete_waiting_human cx rnd l result task0 now s =
     bind_res (leasedJobAndRun s l now) (\<lambda>(j, r).
       case job_CanceledBy j of
         Some by' \<Rightarrow> bind_res (settle_canceled cx s j r by' False now) (\<lambda>t. Inr (t, ()))
       | None \<Rightarrow>
           bind_res (encryptJobResult cx ''result'' (normalizedJobWorkspace [] j) result) (\<lambda>stored.
             let task = task0\<lparr>ht_ID := (if ht_ID task0 = [] then NewID rnd ''human'' ''human'' else ht_ID task0),
                   ht_RunID := (if ht_RunID task0 = [] then run_ID r else ht_RunID task0),
                   ht_CreatedAt := nonZeroTime (ht_CreatedAt task0) now\<rparr>
             in if map_of (HumanTasks s) (ht_ID task) \<noteq> None then Inl ErrConflict
                else
                  let j' = finished_job JobSucceeded j now;
                      r' = r\<lparr>run_State := RunWaitingHuman, run_Result := Some stored, run_Error := [],
                        run_TaskID := ht_ID task, run_UpdatedAt := now\<rparr>;
                      s1 = s\<lparr>Jobs := put (job_ID j') j' (Jobs s), Runs := put (run_ID r') r' (Runs s),
                        HumanTasks := put (ht_ID task) task (HumanTasks s)\<rparr>
                  in Inr (appendEvent s1 (run_ID r') ''human_task_created''
                       (eventPayload (run_CorrelationID r')
                         [(''jobId'', JString (job_ID j')), (''taskId'', JString (ht_ID task))]) now, ())))"

definition CompleteJobSucceeded ::
  "codec \<Rightarrow> rnd \<Rightarrow> time \<Rightarrow> lease \<Rightarrow> job_result \<Rightarrow> snapshot \<Rightarrow> (snapshot \<times> unit) res" where
  "CompleteJobSucceeded cx rnd now l result s = updateWithClock rnd now s (complete_succeeded cx l result now)"

definition CompleteJobFailed ::
  "codec \<Rightarrow> rnd \<Rightarrow> time \<Rightarrow> lease \<Rightarrow> job_result \<Rightarrow> snapshot \<Rightarrow> (snapshot \<times> unit) res" where
  "CompleteJobFailed cx rnd now l result s = updateWithClock rnd now s (complete_failed cx l result now)"

definition CompleteJobWaitingHuman ::
  "codec \<Rightarrow> rnd \<Rightarrow> time \<Rightarrow> lease \<Rightarrow> job_result \<Rightarrow> human_task \<Rightarrow> snapshot \<Rightarrow> (snapshot \<times> unit) res" where
  "CompleteJobWaitingHuman cx rnd now l result task s =
     updateWithClock rnd now s (complete_waiting_human cx rnd l result task now)"

section \<open>Resume and retry\<close>

definition resume_tx ::
  "codec \<Rightarrow> rnd \<Rightarrow> string \<Rightarrow> raw \<Rightarrow> time \<Rightarrow> snapshot \<Rightarrow> (snapshot \<times> run \<times> job) res" where
  "resume_tx cx rnd taskID resumeInput0 now s =
     (case map_of (HumanTasks s) taskID of
        None \<Rightarrow> Inl ErrNotFound
      | Some task \<Rightarrow>
          if ht_State task \<noteq> HumanTaskPending then Inl ErrInvalidState
          else case map_of (Runs s) (ht_RunID task) of
            None \<Rightarrow> Inl ErrNotFound
          | Some r \<Rightarrow>
              if run_State r \<noteq> RunWaitingHuman then Inl ErrInvalidState
              else
                let resumeInput = (if resumeInput0 = [] then ''{}'' else resumeInput0)
                in if \<not> json_valid resumeInput then Inl (ErrOther ''resume input is not valid JSON'')
                   else
                     let task' = task\<lparr>ht_State := HumanTaskCompleted, ht_ResumeInput := resumeInput,
                           ht_CompletedAt := Some now\<rparr>;
                         r' = r\<lparr>run_State := RunResuming, run_TaskID := [], run_UpdatedAt := now\<rparr>
                     in bind_res (dec_input cx (SourceWorkspace (run_Deployment r')) (run_Input r')) (\<lambda>plain.
                       let jobInput = mergeResumeInput plain (ht_ID task') resumeInput;
                           j = NewActionJob (NewID rnd ''job'' ''job'') now r' jobInput
                       in bind_res (enc_input cx ''job'' (normalizedJobWorkspace [] j) (pl_Input (job_Payload j))) (\<lambda>stored.
                         let j' = j\<lparr>job_Payload := (job_Payload j)\<lparr>pl_Input := stored\<rparr>\<rparr>;
                             s1 = s\<lparr>HumanTasks := put (ht_ID task') task' (HumanTasks s),
                               Runs := put (run_ID r') r' (Runs s), Jobs := put (job_ID j') j' (Jobs s)\<rparr>
                         in Inr (appendEvent s1 (run_ID r') ''human_task_resumed''
                              (eventPayload (run_CorrelationID r')
                                [(''taskId'', JString (ht_ID task')), (''jobId'', JString (job_ID j))]) now, r', j))))"

definition ResumeHumanTask ::
  "codec \<Rightarrow> rnd \<Rightarrow> time \<Rightarrow> string \<Rightarrow> raw \<Rightarrow> snapshot \<Rightarrow> (snapshot \<times> run \<times> job) res" where
  "ResumeHumanTask cx rnd now taskID resumeInput s = updateWithClock rnd now s (resume_tx cx rnd taskID resumeInput now)"

definition ResumeRun ::
  "codec \<Rightarrow> rnd \<Rightarrow> time \<Rightarrow> string \<Rightarrow> raw \<Rightarrow> snapshot \<Rightarrow> (snapshot \<times> run \<times> job) res" where
  "ResumeRun cx rnd now runID resumeInput s =
     bind_res (GetRun cx s runID) (\<lambda>r.
       if run_TaskID r = [] then Inl ErrInvalidState
       else ResumeHumanTask cx rnd now (run_TaskID r) resumeInput s)"

definition retry_tx :: "codec \<Rightarrow> rnd \<Rightarrow> string \<Rightarrow> time \<Rightarrow> snapshot \<Rightarrow> (snapshot \<times> run \<times> job) res" where
  "retry_tx cx rnd runID now s =
     (case map_of (Runs s) runID of
        None \<Rightarrow> Inl ErrNotFound
      | Some r \<Rightarrow>
          if run_State r \<notin> {RunFailed, RunCanceled, RunExpired} then Inl ErrInvalidState
          else
            let r' = r\<lparr>run_State := RunQueued, run_Output := [], run_Result := None, run_Error := [],
                  run_TaskID := [], run_UpdatedAt := now\<rparr>
            in bind_res (dec_input cx (SourceWorkspace (run_Deployment r')) (run_Input r')) (\<lambda>plain.
              let j = NewActionJob (NewID rnd ''job'' ''job'') now r' plain
              in bind_res (enc_input cx ''job'' (normalizedJobWorkspace [] j) (pl_Input (job_Payload j))) (\<lambda>stored.
                let j' = j\<lparr>job_Payload := (job_Payload j)\<lparr>pl_Input := stored\<rparr>\<rparr>;
                    s1 = s\<lparr>Runs := put (run_ID r') r' (Runs s), Jobs := put (job_ID j') j' (Jobs s)\<rparr>
                in Inr (appendEvent s1 (run_ID r') ''run_retried''
                     (eventPayload (run_CorrelationID r') [(''jobId'', JString (job_ID j))]) now, r', j))))"

definition RetryRun :: "codec \<Rightarrow> rnd \<Rightarrow> time \<Rightarrow> string \<Rightarrow> snapshot \<Rightarrow> (snapshot \<times> run \<times> job) res" where
  "RetryRun cx rnd now runID s = updateWithClock rnd now s (retry_tx cx rnd runID now)"

section \<open>Cancel\<close>

definition cancel_job_tx ::
  "codec \<Rightarrow> string \<Rightarrow> string \<Rightarrow> string \<Rightarrow> string \<Rightarrow> time \<Rightarrow> snapshot \<Rightarrow> (snapshot \<times> cancel_result) res" where
  "cancel_job_tx cx workspaceID jobID by' reason now s =
     (let none = \<lparr>cr_Found = False, cr_CompletedNow = False, cr_SoftCanceled = False, cr_AlreadyCompleted = False\<rparr>
      in case map_of (Jobs s) jobID of
           None \<Rightarrow> Inr (s, none)
         | Some j \<Rightarrow>
             if normalizedJobWorkspace [] j \<noteq> NormalizeWorkspace workspaceID then Inr (s, none)
             else case map_of (Runs s) (job_RunID j) of
               None \<Rightarrow> Inl ErrNotFound
             | Some r \<Rightarrow>
                 let found = none\<lparr>cr_Found := True\<rparr>
                 in if IsTerminal r \<or> job_State j = JobSucceeded \<or> job_State j = JobFailed
                    then Inr (s, found\<lparr>cr_AlreadyCompleted := True\<rparr>)
                    else
                      let canceledBy = cancelActorSubject j r by'
                      in if job_State j = JobRunning
                         then Inr (s\<lparr>Jobs := put (job_ID j) (j\<lparr>job_CanceledBy := Some canceledBy,
                                job_CanceledReason := Some reason, job_UpdatedAt := now\<rparr>) (Jobs s)\<rparr>,
                              found\<lparr>cr_SoftCanceled := True\<rparr>)
                         else bind_res (encryptStoredRunResult cx ''canceled'' (normalizedJobWorkspace [] j)
                             (applyCanceledJob s j r canceledBy reason cancelBeforeExecutionMessage now) (run_ID r))
                             (\<lambda>t. Inr (t, found\<lparr>cr_CompletedNow := True\<rparr>)))"

definition CancelJob ::
  "codec \<Rightarrow> rnd \<Rightarrow> time \<Rightarrow> string \<Rightarrow> string \<Rightarrow> string \<Rightarrow> string \<Rightarrow> snapshot \<Rightarrow> (snapshot \<times> cancel_result) res" where
  "CancelJob cx rnd now workspaceID jobID by' reason s =
     updateWithClock rnd now s (cancel_job_tx cx workspaceID jobID by' reason now)"

definition active_job :: "job \<Rightarrow> bool" where
  "active_job j \<longleftrightarrow> job_State j = JobQueued \<or> job_State j = JobRunning"

definition run_canceled_job :: "job \<Rightarrow> time \<Rightarrow> job" where
  "run_canceled_job j now =
     j\<lparr>job_State := JobFailed, job_LeaseOwner := [], job_LeaseExpiresAt := None, job_LeaseIdentity := None,
       job_UpdatedAt := now\<rparr>"

definition cancel_run_task :: "string \<Rightarrow> time \<Rightarrow> string \<times> human_task \<Rightarrow> snapshot \<Rightarrow> snapshot" where
  "cancel_run_task runID now entry s =
     (let id' = fst entry; task = snd entry
      in if ht_RunID task \<noteq> runID \<or> ht_State task \<noteq> HumanTaskPending then s
         else if ht_Mode task = HumanTaskModeHold
         then let (s', task') = cancelHeldTask s task HumanTaskCauseRunCanceled now
              in s'\<lparr>HumanTasks := put id' task' (HumanTasks s')\<rparr>
         else s\<lparr>HumanTasks := put id' (task\<lparr>ht_State := HumanTaskExpired, ht_UpdatedAt := now\<rparr>) (HumanTasks s)\<rparr>)"

definition cancel_run_tx :: "string \<Rightarrow> string \<Rightarrow> time \<Rightarrow> snapshot \<Rightarrow> (snapshot \<times> run) res" where
  "cancel_run_tx runID reason now s =
     (case map_of (Runs s) runID of
        None \<Rightarrow> Inl ErrNotFound
      | Some r \<Rightarrow>
          if IsTerminal r then Inl ErrInvalidState
          else
            let r' = r\<lparr>run_State := RunCanceled, run_Error := mustRaw [(''message'', JString reason)], run_UpdatedAt := now\<rparr>;
                hit = (\<lambda>j. job_RunID j = runID \<and> active_job j);
                s1 = s\<lparr>WorkerLeaseIdentities := filter (\<lambda>(id', i). case map_of (Jobs s) id' of None \<Rightarrow> True | Some j \<Rightarrow> \<not> hit j)
                          (WorkerLeaseIdentities s),
                       Jobs := map_vals (\<lambda>k j. if hit j then run_canceled_job j now else j) (Jobs s)\<rparr>;
                s2 = fold (cancel_run_task runID now) (HumanTasks s1) s1;
                s3 = s2\<lparr>Runs := put runID r' (Runs s2)\<rparr>
            in Inr (appendEvent s3 runID ''run_canceled''
                 (eventPayload (run_CorrelationID r') [(''reason'', JString reason)]) now, r'))"

definition CancelRun :: "rnd \<Rightarrow> time \<Rightarrow> string \<Rightarrow> string \<Rightarrow> snapshot \<Rightarrow> (snapshot \<times> run) res" where
  "CancelRun rnd now runID reason s = updateWithClock rnd now s (cancel_run_tx runID reason now)"

section \<open>Retention\<close>

definition prunable :: "time \<Rightarrow> time \<Rightarrow> run \<Rightarrow> bool" where
  "prunable successOlderThan failureOlderThan r \<longleftrightarrow>
     TerminalRunState (run_State r) \<and>
     run_UpdatedAt r < retentionCutoff (run_State r) successOlderThan failureOlderThan"

definition prune_tx :: "time \<Rightarrow> time \<Rightarrow> snapshot \<Rightarrow> (snapshot \<times> nat) res" where
  "prune_tx successOlderThan failureOlderThan s =
     (let expiredRuns = map fst (filter (\<lambda>(id', r). prunable successOlderThan failureOlderThan r) (Runs s));
          gone = (\<lambda>j. job_RunID j \<in> set expiredRuns);
          goneIDs = map fst (filter (\<lambda>(id', j). gone j) (Jobs s))
      in if expiredRuns = [] then Inr (s, 0)
         else Inr (s\<lparr>Jobs := filter (\<lambda>(id', j). \<not> gone j) (Jobs s),
                WorkerLeaseIdentities := filter (\<lambda>(id', i). id' \<notin> set goneIDs) (WorkerLeaseIdentities s),
                JobLogs := filter (\<lambda>(id', l). id' \<notin> set goneIDs) (JobLogs s),
                HumanTasks := filter (\<lambda>(id', t). ht_RunID t \<notin> set expiredRuns) (HumanTasks s),
                Events := filter (\<lambda>e. ev_RunID e \<notin> set expiredRuns) (Events s),
                Runs := filter (\<lambda>(id', r). id' \<notin> set expiredRuns) (Runs s)\<rparr>, length goneIDs))"

definition PruneSettledJobs :: "rnd \<Rightarrow> time \<Rightarrow> time \<Rightarrow> time \<Rightarrow> snapshot \<Rightarrow> (snapshot \<times> nat) res" where
  "PruneSettledJobs rnd now successOlderThan failureOlderThan s =
     updateWithClock rnd now s (prune_tx successOlderThan failureOlderThan)"

definition latest_progress :: "snapshot \<Rightarrow> string \<Rightarrow> run \<Rightarrow> time" where
  "latest_progress s id' r =
     fold (\<lambda>(k, j) latest. if job_RunID j = id' \<and> job_UpdatedAt j > latest then job_UpdatedAt j else latest)
       (Jobs s) (run_UpdatedAt r)"

definition stuck_run :: "time \<Rightarrow> snapshot \<Rightarrow> string \<Rightarrow> run \<Rightarrow> bool" where
  "stuck_run stuckBefore s id' r \<longleftrightarrow>
     run_State r \<in> {RunQueued, RunRunning, RunResuming} \<and> latest_progress s id' r < stuckBefore"

definition expired_job :: "time \<Rightarrow> job \<Rightarrow> time \<Rightarrow> job" where
  "expired_job stuckBefore j now =
     j\<lparr>job_State := JobFailed,
       job_CanceledReason := Some (''expired by retention policy: no progress before '' @ rfc3339 stuckBefore),
       job_UpdatedAt := now\<rparr>"

definition expire_job_entry :: "time \<Rightarrow> time \<Rightarrow> string \<Rightarrow> string \<times> job \<Rightarrow> snapshot \<Rightarrow> snapshot" where
  "expire_job_entry stuckBefore now runID entry s =
     (let jobID = fst entry; j = snd entry
      in if job_RunID j \<noteq> runID \<or> job_State j = JobSucceeded \<or> job_State j = JobFailed then s
         else
           let j' = expired_job stuckBefore j now
           in cancelHeldHumanTasksInSnapshot (s\<lparr>Jobs := put jobID j' (Jobs s)\<rparr>)
                (normalizedJobWorkspace [] j') (job_ID j') HumanTaskCauseWorkerLost now)"

definition expire_run_entry :: "time \<Rightarrow> time \<Rightarrow> string \<times> run \<Rightarrow> snapshot \<times> nat \<Rightarrow> snapshot \<times> nat" where
  "expire_run_entry stuckBefore now entry acc =
     (let id' = fst entry; r = snd entry; s = fst acc
      in if \<not> stuck_run stuckBefore s id' r then acc
         else
           let s1 = s\<lparr>Runs := put id' (r\<lparr>run_State := RunExpired, run_UpdatedAt := now\<rparr>) (Runs s)\<rparr>
           in (fold (expire_job_entry stuckBefore now id') (Jobs s1) s1, snd acc + 1))"

definition expire_stuck_tx :: "time \<Rightarrow> time \<Rightarrow> snapshot \<Rightarrow> (snapshot \<times> nat) res" where
  "expire_stuck_tx stuckBefore now s = Inr (fold (expire_run_entry stuckBefore now) (Runs s) (s, 0))"

definition ExpireStuckJobs :: "rnd \<Rightarrow> time \<Rightarrow> time \<Rightarrow> snapshot \<Rightarrow> (snapshot \<times> nat) res" where
  "ExpireStuckJobs rnd now stuckBefore s = updateWithClock rnd now s (expire_stuck_tx stuckBefore now)"

section \<open>Logs and action state\<close>

text \<open>\<open>strings.ToValidUTF8\<close>: a run of invalid bytes becomes one replacement.\<close>

fun valid_runes :: "bool \<Rightarrow> (nat \<times> nat) list \<Rightarrow> nat list" where
  "valid_runes inBad [] = []"
| "valid_runes inBad ((r, n) # rest) =
     (if (r, n) = (0xFFFD, 1)
      then (if inBad then [] else encode_rune 0xFFFD) @ valid_runes True rest
      else encode_rune r @ valid_runes False rest)"

definition to_valid_utf8 :: "string \<Rightarrow> string" where
  "to_valid_utf8 s = map char_of (valid_runes False (runes (map byte s)))"

definition append_logs :: "string \<Rightarrow> string \<Rightarrow> string \<Rightarrow> time \<Rightarrow> snapshot \<Rightarrow> (snapshot \<times> unit) res" where
  "append_logs jobID workspaceID chunk now s =
     (case map_of (Jobs s) jobID of
        None \<Rightarrow> Inl ErrNotFound
      | Some j \<Rightarrow>
          let w = normalizedJobWorkspace workspaceID j;
              log0 = (case map_of (JobLogs s) jobID of Some l \<Rightarrow> l | None \<Rightarrow> zero_job_log);
              log1 = (if jl_JobID log0 = []
                      then log0\<lparr>jl_JobID := jobID, jl_WorkspaceID := w, jl_CreatedAt := now\<rparr> else log0);
              log2 = (if jl_WorkspaceID log1 = [] then log1\<lparr>jl_WorkspaceID := w\<rparr> else log1)
          in Inr (s\<lparr>JobLogs := put jobID (log2\<lparr>jl_Logs := jl_Logs log2 @ chunk\<rparr>) (JobLogs s)\<rparr>, ()))"

definition AppendLogs :: "rnd \<Rightarrow> time \<Rightarrow> string \<Rightarrow> string \<Rightarrow> string \<Rightarrow> snapshot \<Rightarrow> (snapshot \<times> unit) res" where
  "AppendLogs rnd now jobID workspaceID chunk s =
     (if chunk = [] then Inr (s, ())
      else updateWithClock rnd now s (append_logs jobID workspaceID (to_valid_utf8 chunk) now))"

definition GetLogs :: "snapshot \<Rightarrow> string \<Rightarrow> string \<Rightarrow> string option" where
  "GetLogs s workspaceID jobID =
     (let w = NormalizeWorkspace workspaceID
      in case map_of (JobLogs s) jobID of
           Some l \<Rightarrow>
             if NormalizeWorkspace (jl_WorkspaceID l) = w then Some (jl_Logs l)
             else (case map_of (Jobs s) jobID of None \<Rightarrow> None
                   | Some j \<Rightarrow> if normalizedJobWorkspace [] j \<noteq> w then None else Some [])
         | None \<Rightarrow> (case map_of (Jobs s) jobID of None \<Rightarrow> None
                   | Some j \<Rightarrow> if normalizedJobWorkspace [] j \<noteq> w then None else Some []))"

definition SetState :: "rnd \<Rightarrow> time \<Rightarrow> string \<Rightarrow> string \<Rightarrow> raw \<Rightarrow> snapshot \<Rightarrow> (snapshot \<times> unit) res" where
  "SetState rnd now workspaceID statePath value0 s =
     (let value = (if value0 = [] then ''null'' else value0)
      in if \<not> json_valid value then Inl (ErrOther ''state value is not valid JSON'')
         else
           let w = NormalizeWorkspace workspaceID
           in updateWithClock rnd now s (\<lambda>u.
                let values = (case map_of (JobState u) w of Some m \<Rightarrow> m | None \<Rightarrow> [])
                in Inr (u\<lparr>JobState := put w (put statePath value values) (JobState u)\<rparr>, ())))"

definition GetState :: "snapshot \<Rightarrow> string \<Rightarrow> string \<Rightarrow> raw option" where
  "GetState s workspaceID statePath =
     (case map_of (JobState s) (NormalizeWorkspace workspaceID) of
        None \<Rightarrow> None | Some values \<Rightarrow> map_of values statePath)"

text \<open>The body of \<open>ResolveAdmissionOutcome\<close> runs in a transaction on normalised arguments.\<close>

definition ResolveAdmissionOutcome ::
  "rnd \<Rightarrow> time \<Rightarrow> string \<Rightarrow> string \<Rightarrow> string \<Rightarrow> string \<Rightarrow> snapshot \<Rightarrow> (snapshot \<times> admission_outcome) res" where
  "ResolveAdmissionOutcome rnd now workspaceID admissionID expectedFingerprint actor s =
     bind_res (normalizeAdmissionOutcomeIdentity workspaceID admissionID) (\<lambda>(w, a).
     bind_res (normalizeAdmissionFingerprint expectedFingerprint) (\<lambda>f.
       updateWithClock rnd now s (\<lambda>u. resolve_admission u w a f actor now)))"

end
