(* ===== verification/JobInv.thy ===== *)
theory JobInv
  imports JobStore
begin

text \<open>
  The invariant of runs and jobs and the order in which a job advances, with one lemma per kind of
  change and one per transaction of \<open>JobStore\<close>.
\<close>

text \<open>Lookups stay lookups: they are not turned into membership in the list of entries.\<close>

declare map_of_eq_Some_iff [simp del] Some_eq_map_of_iff [simp del]

section \<open>Coherence of runs and jobs\<close>

definition live_run :: "run \<Rightarrow> bool" where
  "live_run r \<longleftrightarrow> run_State r = RunQueued \<or> run_State r = RunRunning \<or> run_State r = RunResuming"

text \<open>A running attempt has a number and a lease, and its run is running.\<close>

definition attempt_ok :: "run \<Rightarrow> job \<Rightarrow> bool" where
  "attempt_ok r j \<longleftrightarrow> 0 \<le> job_Attempt j \<and>
     (job_State j = JobRunning \<longrightarrow>
        job_LeaseExpiresAt j \<noteq> None \<and> 1 \<le> job_Attempt j \<and> run_State r = RunRunning)"

text \<open>
  A run and the jobs that name it: jobs without a run do not exist; at most one job of a run is queued
  or running, and there is one exactly when the run is queued, running or resuming.
\<close>

definition view_ok :: "run option \<Rightarrow> (string \<times> job) set \<Rightarrow> bool" where
  "view_ok ro J \<longleftrightarrow>
     (case ro of
        None \<Rightarrow> J = {}
      | Some r \<Rightarrow> (\<forall>(k, j) \<in> J. attempt_ok r j) \<and>
          (\<forall>(k, j) \<in> J. \<forall>(k', j') \<in> J. active_job j \<longrightarrow> active_job j' \<longrightarrow> k = k') \<and>
          (live_run r \<longleftrightarrow> (\<exists>(k, j) \<in> J. active_job j)))"

definition jobs_of :: "(string, job) gomap \<Rightarrow> string \<Rightarrow> (string \<times> job) set" where
  "jobs_of jobs rid = {(k, j). map_of jobs k = Some j \<and> job_RunID j = rid}"

definition coherent :: "(string, run) gomap \<Rightarrow> (string, job) gomap \<Rightarrow> bool" where
  "coherent runs jobs \<longleftrightarrow>
     go_map_ok runs \<and> go_map_ok jobs \<and> keyed_by run_ID runs \<and> keyed_by job_ID jobs \<and>
     (\<forall>rid. view_ok (map_of runs rid) (jobs_of jobs rid))"

lemma coherentD:
  assumes "coherent runs jobs"
  shows "go_map_ok runs" "go_map_ok jobs" "keyed_by run_ID runs" "keyed_by job_ID jobs"
    and "view_ok (map_of runs rid) (jobs_of jobs rid)"
  using assms by (simp_all add: coherent_def)

lemma coherent_empty: "coherent [] []"
  by (simp add: coherent_def keyed_by_def view_ok_def jobs_of_def)

lemma in_jobs_of [simp]: "(k, j) \<in> jobs_of jobs rid \<longleftrightarrow> map_of jobs k = Some j \<and> job_RunID j = rid"
  by (simp add: jobs_of_def)

text \<open>What coherence says of a stored job.\<close>

lemma coherent_job:
  assumes "coherent runs jobs" and "map_of jobs k = Some j"
  obtains r where "map_of runs (job_RunID j) = Some r" "run_ID r = job_RunID j" "attempt_ok r j"
    "active_job j \<Longrightarrow> live_run r" "job_ID j = k"
proof -
  have v: "view_ok (map_of runs (job_RunID j)) (jobs_of jobs (job_RunID j))"
    and mem: "(k, j) \<in> jobs_of jobs (job_RunID j)"
    using coherentD(5) [OF assms(1)] assms(2) by auto
  obtain r where r: "map_of runs (job_RunID j) = Some r"
    using v mem by (cases "map_of runs (job_RunID j)") (auto simp: view_ok_def)
  have "attempt_ok r j" and "active_job j \<Longrightarrow> live_run r"
    using v mem unfolding view_ok_def r option.case by blast+
  then show ?thesis
    using that r keyed_byD [OF coherentD(3) [OF assms(1)] r] keyed_byD [OF coherentD(4) [OF assms(1)] assms(2)]
    by blast
qed

lemma coherent_one_active:
  assumes "coherent runs jobs" and "map_of jobs k = Some j" "map_of jobs k' = Some j'"
    and "active_job j" "active_job j'" "job_RunID j = job_RunID j'"
  shows "k = k'"
proof -
  obtain r where r: "map_of runs (job_RunID j) = Some r"
    using coherent_job [OF assms(1,2)] by blast
  have "(k, j) \<in> jobs_of jobs (job_RunID j)" "(k', j') \<in> jobs_of jobs (job_RunID j)"
    using assms by simp_all
  then show ?thesis
    using coherentD(5) [OF assms(1), of "job_RunID j"] assms(4,5)
    unfolding r view_ok_def option.case by blast
qed

lemma coherent_live_has_job:
  assumes "coherent runs jobs" and "map_of runs k = Some r" and "live_run r"
  obtains k' j where "map_of jobs k' = Some j" "active_job j" "job_RunID j = k"
proof -
  have "\<exists>(k', j) \<in> jobs_of jobs k. active_job j"
    using coherentD(5) [OF assms(1), of k] assms(2,3) unfolding assms(2) view_ok_def option.case by blast
  then show ?thesis using that by auto
qed

section \<open>How a job advances\<close>

definition settled_job :: "job \<Rightarrow> bool" where
  "settled_job j \<longleftrightarrow> job_State j = JobSucceeded \<or> job_State j = JobFailed"

lemma settled_iff_not_active: "settled_job j \<longleftrightarrow> \<not> active_job j"
  by (cases "job_State j") (simp_all add: settled_job_def active_job_def)

definition advanced :: "job \<Rightarrow> job \<Rightarrow> bool" where
  "advanced j j' \<longleftrightarrow>
     job_Attempt j \<le> job_Attempt j' \<and>
     (job_State j' = JobRunning \<longrightarrow> job_Attempt j' = job_Attempt j \<longrightarrow>
        job_State j = JobRunning \<and> job_LeaseOwner j' = job_LeaseOwner j) \<and>
     (settled_job j \<longrightarrow> settled_job j' \<and> job_Attempt j' = job_Attempt j)"

lemma advanced_refl [simp, intro]: "advanced j j"
  by (simp add: advanced_def)

lemma advanced_trans: "advanced a b \<Longrightarrow> advanced b c \<Longrightarrow> advanced a c"
  unfolding advanced_def settled_job_def by (metis order.trans order.antisym)

definition advances :: "(string, job) gomap \<Rightarrow> (string, job) gomap \<Rightarrow> bool" where
  "advances jobs jobs' \<longleftrightarrow>
     (\<forall>k j j'. map_of jobs k = Some j \<longrightarrow> map_of jobs' k = Some j' \<longrightarrow> advanced j j')"

text \<open>
  Nothing but pruning removes a job; \<open>kept N\<close> says that none is removed, and that the new ones are in \<open>N\<close>.
\<close>

definition kept :: "string set \<Rightarrow> (string, job) gomap \<Rightarrow> (string, job) gomap \<Rightarrow> bool" where
  "kept N jobs jobs' \<longleftrightarrow> advances jobs jobs' \<and> dom (map_of jobs) \<subseteq> dom (map_of jobs') \<and>
     dom (map_of jobs') \<subseteq> dom (map_of jobs) \<union> N"

lemma kept_refl [simp, intro]: "kept N jobs jobs"
  by (simp add: kept_def advances_def)

lemma kept_trans: "kept N a b \<Longrightarrow> kept N b c \<Longrightarrow> kept N a c"
proof -
  assume ab: "kept N a b" and bc: "kept N b c"
  have "advanced j j'" if "map_of a k = Some j" and "map_of c k = Some j'" for k j j'
  proof -
    have "k \<in> dom (map_of b)"
      using ab domI [of "map_of a", OF that(1)] unfolding kept_def by blast
    then obtain m where "map_of b k = Some m" by blast
    then show ?thesis
      using ab bc that advanced_trans [of j m j'] by (simp add: kept_def advances_def)
  qed
  moreover have "dom (map_of a) \<subseteq> dom (map_of c)" "dom (map_of c) \<subseteq> dom (map_of a) \<union> N"
    using ab bc unfolding kept_def by blast+
  ultimately show ?thesis by (simp add: kept_def advances_def)
qed

lemma kept_put:
  assumes "map_of jobs k = Some j" and "advanced j j'"
  shows "kept N jobs (put k j' jobs)"
  using assms by (auto simp: kept_def advances_def split: if_splits)

lemma kept_fresh: "map_of jobs k = None \<Longrightarrow> k \<in> N \<Longrightarrow> kept N jobs (put k j jobs)"
  by (auto simp: kept_def advances_def split: if_splits)

lemma kept_map_vals: "(\<And>k j. map_of jobs k = Some j \<Longrightarrow> advanced j (f k j)) \<Longrightarrow> kept N jobs (map_vals f jobs)"
  by (auto simp: kept_def advances_def)

section \<open>Changes that keep coherence\<close>

text \<open>One job of a run changes, and the run with it.\<close>

lemma jobs_of_put:
  "jobs_of (put k j jobs) rid =
     (if job_RunID j = rid then {(k, j)} else {}) \<union> {(k', x). (k', x) \<in> jobs_of jobs rid \<and> k' \<noteq> k}"
  by (auto simp: jobs_of_def split: if_splits)

lemma view_put:
  assumes "\<forall>(k', x) \<in> J. k' \<noteq> k \<longrightarrow> \<not> active_job x \<and> 0 \<le> job_Attempt x"
    and "attempt_ok r j" and "live_run r \<longleftrightarrow> active_job j"
  shows "view_ok (Some r) ({(k, j)} \<union> {(k', x). (k', x) \<in> J \<and> k' \<noteq> k})"
proof -
  have "attempt_ok r x" if "(k', x) \<in> J" "k' \<noteq> k" for k' x
    using assms(1) that by (force simp: attempt_ok_def active_job_def)
  then show ?thesis
    unfolding view_ok_def option.case using assms by blast
qed

lemma view_others:
  assumes "view_ok ro J"
    and "(k, j) \<in> J \<and> active_job j \<or> (\<forall>r. ro = Some r \<longrightarrow> \<not> live_run r)"
  shows "\<forall>(k', x) \<in> J. k' \<noteq> k \<longrightarrow> \<not> active_job x \<and> 0 \<le> job_Attempt x"
  using assms by (cases ro) (fastforce simp: view_ok_def attempt_ok_def)+

lemma coherent_put:
  assumes c: "coherent runs jobs"
    and ids: "run_ID r = rid" "job_RunID j = rid" "job_ID j = k"
    and old: "\<And>x. map_of jobs k = Some x \<Longrightarrow> job_RunID x = rid"
    and excl: "(\<exists>x. map_of jobs k = Some x \<and> active_job x) \<or>
               (\<forall>x. map_of runs rid = Some x \<longrightarrow> \<not> live_run x)"
    and new: "attempt_ok r j" "live_run r \<longleftrightarrow> active_job j"
  shows "coherent (put rid r runs) (put k j jobs)"
proof -
  have "view_ok (map_of (put rid r runs) rid') (jobs_of (put k j jobs) rid')" for rid'
  proof (cases "rid' = rid")
    case True
    have "\<exists>x. (k, x) \<in> jobs_of jobs rid \<and> active_job x \<or> (\<forall>y. map_of runs rid = Some y \<longrightarrow> \<not> live_run y)"
      using excl old by auto
    then have "\<forall>(k', x) \<in> jobs_of jobs rid. k' \<noteq> k \<longrightarrow> \<not> active_job x \<and> 0 \<le> job_Attempt x"
      using view_others [OF coherentD(5) [OF c]] by blast
    from view_put [OF this new] show ?thesis
      using True ids by (simp add: jobs_of_put del: in_jobs_of)
  next
    case False
    then have "jobs_of (put k j jobs) rid' = jobs_of jobs rid'"
      using ids old by (auto simp: jobs_of_put)
    then show ?thesis using coherentD(5) [OF c, of rid'] False by simp
  qed
  then show ?thesis
    unfolding coherent_def using coherentD [OF c] ids by (auto simp: keyed_by_put)
qed

lemma coherent_map_of:
  "coherent runs jobs \<Longrightarrow> go_map_ok runs' \<Longrightarrow> go_map_ok jobs' \<Longrightarrow> map_of runs' = map_of runs \<Longrightarrow>
   map_of jobs' = map_of jobs \<Longrightarrow> coherent runs' jobs'"
  by (simp add: coherent_def keyed_by_def jobs_of_def)

text \<open>The active job of a run changes and stays active; the run is not touched.\<close>

lemma coherent_put_job:
  assumes c: "coherent runs jobs" and k: "map_of jobs k = Some x" "active_job x" "active_job j"
    and r: "map_of runs (job_RunID x) = Some r"
    and same: "job_ID j = job_ID x" "job_RunID j = job_RunID x" and ok: "attempt_ok r j"
  shows "coherent runs (put k j jobs)"
proof (rule coherent_map_of)
  have live: "live_run r"
    using coherent_job [OF c k(1)] k(2) r by auto
  show "coherent (put (job_RunID x) r runs) (put k j jobs)"
    by (rule coherent_put [OF c])
      (use keyed_byD [OF coherentD(3) [OF c] r] keyed_byD [OF coherentD(4) [OF c] k(1)] k same ok live in auto)
qed (use coherentD [OF c] r in \<open>auto simp: fun_eq_iff\<close>)

text \<open>Changes that coherence does not see.\<close>

definition same_job :: "job \<Rightarrow> job \<Rightarrow> bool" where
  "same_job j j' \<longleftrightarrow> job_ID j' = job_ID j \<and> job_RunID j' = job_RunID j \<and> job_State j' = job_State j \<and>
     job_Attempt j' = job_Attempt j \<and> job_LeaseOwner j' = job_LeaseOwner j \<and> (job_LeaseExpiresAt j' = None \<longleftrightarrow> job_LeaseExpiresAt j = None)"

definition same_run :: "run \<Rightarrow> run \<Rightarrow> bool" where
  "same_run r r' \<longleftrightarrow> run_ID r' = run_ID r \<and> run_State r' = run_State r"

lemma same_jobD:
  assumes "same_job j j'"
  shows "advanced j j'" "active_job j' = active_job j" "job_RunID j' = job_RunID j" "job_ID j' = job_ID j"
    "attempt_ok r j' = attempt_ok r j"
  using assms by (auto simp: same_job_def advanced_def settled_job_def active_job_def attempt_ok_def)

lemma same_runD:
  "same_run r r' \<Longrightarrow> run_ID r' = run_ID r \<and> live_run r' = live_run r \<and> attempt_ok r' j = attempt_ok r j"
  by (auto simp: same_run_def live_run_def attempt_ok_def)

lemma view_image:
  assumes "view_ok ro J" and "\<And>k j. (k, j) \<in> J \<Longrightarrow> same_job j (f k j)"
  shows "view_ok ro ((\<lambda>(k, j). (k, f k j)) ` J)"
proof (cases ro)
  case (Some r)
  have act: "active_job (f k j) \<longleftrightarrow> active_job j" and ok: "attempt_ok r (f k j) \<longleftrightarrow> attempt_ok r j"
    if "(k, j) \<in> J" for k j
    using same_jobD [OF assms(2) [OF that]] by auto
  have v: "\<And>k j. (k, j) \<in> J \<Longrightarrow> attempt_ok r j"
    "\<And>k j k' j'. (k, j) \<in> J \<Longrightarrow> (k', j') \<in> J \<Longrightarrow> active_job j \<Longrightarrow> active_job j' \<Longrightarrow> k = k'"
    "live_run r \<longleftrightarrow> (\<exists>k j. (k, j) \<in> J \<and> active_job j)"
    using assms(1) unfolding Some view_ok_def option.case by blast+
  have "live_run r \<longleftrightarrow> (\<exists>k j. (k, j) \<in> J \<and> active_job (f k j))"
    using v(3) act by blast
  moreover have "k = k'" if "(k, j) \<in> J" "(k', j') \<in> J" "active_job (f k j)" "active_job (f k' j')" for k j k' j'
    using v(2) act that by blast
  moreover have "attempt_ok r (f k j)" if "(k, j) \<in> J" for k j
    using v(1) ok that by blast
  moreover have "(\<lambda>(k, j). (k, f k j)) ` J = {(k, x). \<exists>j. (k, j) \<in> J \<and> x = f k j}"
    by force
  ultimately show ?thesis
    unfolding Some view_ok_def option.case by auto
qed (use assms(1) in \<open>simp add: view_ok_def\<close>)

lemma jobs_of_map_vals:
  assumes "\<And>k j. map_of jobs k = Some j \<Longrightarrow> job_RunID (f k j) = job_RunID j"
  shows "jobs_of (map_vals f jobs) rid = (\<lambda>(k, j). (k, f k j)) ` jobs_of jobs rid"
  using assms by (auto simp: jobs_of_def image_iff)

lemma coherent_map_jobs:
  assumes c: "coherent runs jobs" and same: "\<And>k j. map_of jobs k = Some j \<Longrightarrow> same_job j (f k j)"
  shows "coherent runs (map_vals f jobs)"
proof -
  have "jobs_of (map_vals f jobs) rid = (\<lambda>(k, j). (k, f k j)) ` jobs_of jobs rid" for rid
    by (rule jobs_of_map_vals) (rule same_jobD(3) [OF same])
  moreover have "view_ok (map_of runs rid) ((\<lambda>(k, j). (k, f k j)) ` jobs_of jobs rid)" for rid
    by (rule view_image [OF coherentD(5) [OF c]]) (simp add: same)
  moreover have "keyed_by job_ID (map_vals f jobs)"
    using coherentD(4) [OF c] same_jobD(4) [OF same] by (rule keyed_by_map_vals)
  ultimately show ?thesis
    using coherentD [OF c] by (simp add: coherent_def)
qed

lemma coherent_map_runs:
  assumes c: "coherent runs jobs" and same: "\<And>k r. map_of runs k = Some r \<Longrightarrow> same_run r (f k r)"
  shows "coherent (map_vals f runs) jobs"
proof -
  have "view_ok (map_of (map_vals f runs) rid) (jobs_of jobs rid)" for rid
  proof (cases "map_of runs rid")
    case (Some r)
    have "live_run (f rid r) = live_run r" "attempt_ok (f rid r) = attempt_ok r"
      using same_runD [OF same [OF Some]] by (simp_all add: fun_eq_iff)
    then show ?thesis
      using coherentD(5) [OF c, of rid] by (simp add: Some view_ok_def)
  qed (use coherentD(5) [OF c, of rid] in simp)
  moreover have "keyed_by run_ID (map_vals f runs)"
    using coherentD(3) [OF c] by (rule keyed_by_map_vals) (use same same_runD in blast)
  ultimately show ?thesis
    using coherentD [OF c] by (simp add: coherent_def)
qed

lemma map_of_put_map_vals:
  "map_of m k = Some x \<Longrightarrow> map_of (put k y m) = map_of (map_vals (\<lambda>k' v. if k' = k then y else v) m)"
  by (auto simp: fun_eq_iff option.map_ident cong: option.map_cong)

lemma coherent_put_same:
  assumes c: "coherent runs jobs" and j: "map_of jobs k = Some j" and same: "same_job j j'"
  shows "coherent runs (put k j' jobs)"
proof (rule coherent_map_of)
  show "coherent runs (map_vals (\<lambda>k' x. if k' = k then j' else x) jobs)"
    by (rule coherent_map_jobs [OF c]) (use j same in \<open>auto simp: same_job_def\<close>)
qed (use coherentD [OF c] map_of_put_map_vals [OF j] in auto)

lemma coherent_put_same_run:
  assumes c: "coherent runs jobs" and r: "map_of runs k = Some r" and same: "same_run r r'"
  shows "coherent (put k r' runs) jobs"
proof (rule coherent_map_of)
  show "coherent (map_vals (\<lambda>k' x. if k' = k then r' else x) runs) jobs"
    by (rule coherent_map_runs [OF c]) (use r same in \<open>auto simp: same_run_def\<close>)
qed (use coherentD [OF c] map_of_put_map_vals [OF r] in auto)

text \<open>A run that ends takes its active job with it.\<close>

lemma coherent_end_run:
  assumes c: "coherent runs jobs" and r: "map_of runs rid = Some r" "run_ID r' = rid" "\<not> live_run r'"
    and f: "\<And>k j. map_of jobs k = Some j \<Longrightarrow> job_RunID (f k j) = job_RunID j \<and> job_ID (f k j) = job_ID j"
      "\<And>k j. map_of jobs k = Some j \<Longrightarrow> job_RunID j \<noteq> rid \<Longrightarrow> f k j = j"
      "\<And>k j. map_of jobs k = Some j \<Longrightarrow> job_RunID j = rid \<Longrightarrow> settled_job (f k j) \<and> job_Attempt (f k j) = job_Attempt j"
  shows "coherent (put rid r' runs) (map_vals f jobs)"
proof -
  have img: "jobs_of (map_vals f jobs) rid' = (\<lambda>(k, j). (k, f k j)) ` jobs_of jobs rid'" for rid'
    by (rule jobs_of_map_vals) (simp add: f)
  have "view_ok (map_of (put rid r' runs) rid') (jobs_of (map_vals f jobs) rid')" for rid'
  proof (cases "rid' = rid")
    case True
    have "attempt_ok r' (f k j) \<and> \<not> active_job (f k j)" if "(k, j) \<in> jobs_of jobs rid" for k j
    proof -
      have "0 \<le> job_Attempt j"
        using coherent_job [OF c, of k j] that by (auto simp: attempt_ok_def)
      then show ?thesis
        using f(3) that by (auto simp: attempt_ok_def settled_iff_not_active active_job_def)
    qed
    then show ?thesis using True r(3) unfolding img view_ok_def by auto
  next
    case False
    then have "jobs_of (map_vals f jobs) rid' = jobs_of jobs rid'"
      unfolding img using f(2) by force
    then show ?thesis using coherentD(5) [OF c, of rid'] False by simp
  qed
  moreover have "keyed_by job_ID (map_vals f jobs)"
    using coherentD(4) [OF c] by (rule keyed_by_map_vals) (simp add: f)
  ultimately show ?thesis
    unfolding coherent_def using coherentD [OF c] r(2) by (auto simp: keyed_by_put)
qed

text \<open>Runs that are not live leave with all their jobs.\<close>

lemma coherent_drop_runs:
  assumes c: "coherent runs jobs"
  shows "coherent (filter (\<lambda>(k, r). k \<notin> D) runs) (filter (\<lambda>(k, j). job_RunID j \<notin> D) jobs)"
proof -
  have runs: "map_of (filter (\<lambda>(k, r). k \<notin> D) runs) rid = (if rid \<in> D then None else map_of runs rid)" for rid
    using map_of_filter_ok [OF coherentD(1) [OF c], of "\<lambda>k r. k \<notin> D"] by (auto split: option.splits)
  have jobs: "map_of (filter (\<lambda>(k, j). job_RunID j \<notin> D) jobs) k = Some j \<longleftrightarrow>
      map_of jobs k = Some j \<and> job_RunID j \<notin> D" for k j
    using map_of_filter_ok [OF coherentD(2) [OF c], of "\<lambda>k j. job_RunID j \<notin> D"]
    by (auto split: option.splits)
  have "jobs_of (filter (\<lambda>(k, j). job_RunID j \<notin> D) jobs) rid = (if rid \<in> D then {} else jobs_of jobs rid)" for rid
    by (auto simp: jobs_of_def jobs)
  then show ?thesis
    using coherentD [OF c] unfolding coherent_def runs
    by (auto simp: keyed_by_def runs jobs view_ok_def split: if_splits)
qed

end
