(* ===== verification/StoreInv.thy ===== *)
theory StoreInv
  imports JobInv
begin

text \<open>
  The invariant of the local store and the order in which it progresses, for every transaction body.
  \<open>store_ok\<close> collects the coherence of runs and jobs, the keys of the human tasks and the numbering of the
  events. \<open>progress\<close> is what no transaction but pruning undoes: jobs advance, new ones are in a given set, settled human tasks and
  admission outcomes stay, the event log grows at its end.
\<close>

section \<open>Events\<close>

definition events_ok :: "snapshot \<Rightarrow> bool" where
  "events_ok s \<longleftrightarrow> sorted_wrt (<) (map ev_ID (Events s)) \<and> (\<forall>e \<in> set (Events s). ev_ID e \<le> Sequence s)"

definition events_grow :: "snapshot \<Rightarrow> snapshot \<Rightarrow> bool" where
  "events_grow s t \<longleftrightarrow> Sequence s \<le> Sequence t \<and>
     (\<exists>es. Events t = Events s @ es \<and> sorted_wrt (<) (map ev_ID es) \<and>
        (\<forall>e \<in> set es. Sequence s < ev_ID e \<and> ev_ID e \<le> Sequence t))"

lemma events_grow_same: "Events t = Events s \<Longrightarrow> Sequence t = Sequence s \<Longrightarrow> events_grow s t"
  by (simp add: events_grow_def)

lemma events_grow_trans:
  assumes "events_grow s t" and "events_grow t u"
  shows "events_grow s u"
proof -
  obtain es where es: "Events t = Events s @ es" "sorted_wrt (<) (map ev_ID es)"
    "\<forall>e \<in> set es. Sequence s < ev_ID e \<and> ev_ID e \<le> Sequence t" and st: "Sequence s \<le> Sequence t"
    using assms(1) by (auto simp: events_grow_def)
  obtain fs where fs: "Events u = Events t @ fs" "sorted_wrt (<) (map ev_ID fs)"
    "\<forall>e \<in> set fs. Sequence t < ev_ID e \<and> ev_ID e \<le> Sequence u" and tu: "Sequence t \<le> Sequence u"
    using assms(2) by (auto simp: events_grow_def)
  have "sorted_wrt (<) (map ev_ID (es @ fs))"
    using es fs by (fastforce simp: sorted_wrt_append)
  moreover have "\<forall>e \<in> set (es @ fs). Sequence s < ev_ID e \<and> ev_ID e \<le> Sequence u"
    using es fs st tu by fastforce
  ultimately show ?thesis
    unfolding events_grow_def using es(1) fs(1) st tu by (intro conjI exI [of _ "es @ fs"]) auto
qed

lemma events_grow_append: "events_grow s t \<Longrightarrow> events_grow s (appendEvent t r ty p now)"
  by (rule events_grow_trans)
    (auto simp: events_grow_def appendEvent_def intro!: exI [of _ "[x]" for x])

lemma events_ok_grow:
  assumes "events_ok s" and "events_grow s t"
  shows "events_ok t"
proof -
  obtain es where es: "Events t = Events s @ es" "sorted_wrt (<) (map ev_ID es)"
    "\<forall>e \<in> set es. Sequence s < ev_ID e \<and> ev_ID e \<le> Sequence t" and st: "Sequence s \<le> Sequence t"
    using assms(2) by (auto simp: events_grow_def)
  have "ev_ID e \<le> Sequence t" if "e \<in> set (Events s)" for e
    using assms(1) that st by (force simp: events_ok_def)
  then show ?thesis
    using assms(1) es by (fastforce simp: events_ok_def sorted_wrt_append)
qed

lemma events_ok_filter: "events_ok s \<Longrightarrow> Events t = filter p (Events s) \<Longrightarrow> Sequence t = Sequence s \<Longrightarrow> events_ok t"
  by (auto simp: events_ok_def sorted_wrt_map intro: sorted_wrt_filter)

section \<open>Human tasks\<close>

definition tasks_ok :: "(string, human_task) gomap \<Rightarrow> bool" where
  "tasks_ok tasks \<longleftrightarrow> go_map_ok tasks \<and> keyed_by ht_ID tasks"

text \<open>A task that is no longer pending does not change; only its transient fields are not stored.\<close>

definition task_kept :: "human_task \<Rightarrow> human_task \<Rightarrow> bool" where
  "task_kept h h' \<longleftrightarrow> (ht_State h \<noteq> HumanTaskPending \<longrightarrow> persist_task h' = persist_task h)"

definition tasks_kept :: "(string, human_task) gomap \<Rightarrow> (string, human_task) gomap \<Rightarrow> bool" where
  "tasks_kept T T' \<longleftrightarrow> (\<forall>k h. map_of T k = Some h \<longrightarrow> (\<exists>h'. map_of T' k = Some h' \<and> task_kept h h'))"

lemma task_kept_refl [simp, intro]: "task_kept h h"
  by (simp add: task_kept_def)

lemma task_kept_trans:
  assumes "task_kept a b" and "task_kept b c"
  shows "task_kept a c"
proof -
  have "ht_State b = ht_State a" if "ht_State a \<noteq> HumanTaskPending"
    using assms(1) that persist_task_fields(4) unfolding task_kept_def by metis
  then show ?thesis using assms by (simp add: task_kept_def)
qed

lemma tasks_kept_refl [simp, intro]: "tasks_kept T T"
  by (simp add: tasks_kept_def)

lemma tasks_kept_trans: "tasks_kept a b \<Longrightarrow> tasks_kept b c \<Longrightarrow> tasks_kept a c"
  unfolding tasks_kept_def by (meson task_kept_trans)

lemma tasks_kept_put: "(\<And>h. map_of T k = Some h \<Longrightarrow> task_kept h h') \<Longrightarrow> tasks_kept T (put k h' T)"
  by (auto simp: tasks_kept_def)

lemma tasks_ok_put: "tasks_ok T \<Longrightarrow> ht_ID h = k \<Longrightarrow> tasks_ok (put k h T)"
  by (auto simp: tasks_ok_def)

lemma persist_task_idem [simp]: "persist_task (persist_task h) = persist_task h"
  by (simp add: persist_task_def)

section \<open>The invariant and the order of the store\<close>

definition store_ok :: "snapshot \<Rightarrow> bool" where
  "store_ok s \<longleftrightarrow> coherent (Runs s) (Jobs s) \<and> tasks_ok (HumanTasks s) \<and> events_ok s"

definition progress :: "string set \<Rightarrow> snapshot \<Rightarrow> snapshot \<Rightarrow> bool" where
  "progress N s t \<longleftrightarrow> kept N (Jobs s) (Jobs t) \<and> tasks_kept (HumanTasks s) (HumanTasks t) \<and>
     events_grow s t \<and> outcomes_kept s t"

definition good :: "string set \<Rightarrow> snapshot \<Rightarrow> snapshot \<Rightarrow> bool" where
  "good N s t \<longleftrightarrow> store_ok t \<and> progress N s t"

lemma progress_trans: "progress N a b \<Longrightarrow> progress N b c \<Longrightarrow> progress N a c"
  unfolding progress_def
  by (meson kept_trans tasks_kept_trans events_grow_trans outcomes_kept_trans)

lemma good_trans: "good N a b \<Longrightarrow> good N b c \<Longrightarrow> good N a c"
  unfolding good_def by (meson progress_trans)

lemma good_refl: "store_ok s \<Longrightarrow> good N s s"
  by (simp add: good_def progress_def events_grow_same)

lemma goodD: "good N s t \<Longrightarrow> store_ok t"
  by (simp add: good_def)

lemma store_okD:
  assumes "store_ok s"
  shows "coherent (Runs s) (Jobs s)" "tasks_ok (HumanTasks s)" "events_ok s"
  using assms by (simp_all add: store_ok_def)

lemma goodI:
  assumes "store_ok s" and "coherent (Runs t) (Jobs t)" and "kept N (Jobs s) (Jobs t)"
    and "tasks_ok (HumanTasks t)" and "tasks_kept (HumanTasks s) (HumanTasks t)"
    and "events_grow s t" and "outcomes_kept s t"
  shows "good N s t"
  using assms events_ok_grow by (auto simp: good_def store_ok_def progress_def)

lemma good_event: "good N s t \<Longrightarrow> good N s (appendEvent t r ty p now)"
  by (rule good_trans, assumption, rule goodI)
    (auto simp: good_def store_ok_def intro: events_grow_append events_grow_same outcomes_kept_same)

text \<open>Changes to one part of the state.\<close>

lemma good_other:
  assumes "store_ok s" and "Runs t = Runs s" "Jobs t = Jobs s" "HumanTasks t = HumanTasks s"
    "Events t = Events s" "Sequence t = Sequence s" "outcomes_kept s t"
  shows "good N s t"
  using assms by (intro goodI) (auto simp: store_ok_def intro: events_grow_same)

lemma good_jobs:
  assumes "store_ok s" and "coherent (Runs t) (Jobs t)" and "kept N (Jobs s) (Jobs t)"
    and "HumanTasks t = HumanTasks s" "Events t = Events s" "Sequence t = Sequence s"
    "AdmissionOutcomes t = AdmissionOutcomes s"
  shows "good N s t"
  using assms by (intro goodI) (auto simp: store_ok_def intro: events_grow_same outcomes_kept_same)

lemma good_task:
  assumes "store_ok s" and "ht_ID h = k"
    and "\<And>x. map_of (HumanTasks s) k = Some x \<Longrightarrow> ht_State x = HumanTaskPending"
  shows "good N s (s\<lparr>HumanTasks := put k h (HumanTasks s)\<rparr>)"
proof (rule goodI)
  show "tasks_kept (HumanTasks s) (HumanTasks (s\<lparr>HumanTasks := put k h (HumanTasks s)\<rparr>))"
    by (simp, rule tasks_kept_put) (simp add: assms(3) task_kept_def)
qed (use assms in \<open>auto simp: store_ok_def intro: tasks_ok_put events_grow_same outcomes_kept_same\<close>)

section \<open>The transaction frame\<close>

interpretation store_frame: frame_stable store_ok
proof
  show "store_ok (ensureSnapshot s)" if "store_ok s" for s
  proof -
    have "coherent (Runs s) (map_vals (attached s) (Jobs s))"
      by (rule coherent_map_jobs [OF store_okD(1) [OF that]]) (simp add: same_job_def)
    then show ?thesis
      using that by (simp add: store_ok_def ensure_Jobs events_ok_def)
  qed
  show "store_ok (s\<lparr>ControlPlaneEvents := evs, WebhookDeliveries := dels\<rparr>)" if "store_ok s" for s evs dels
    using that by (simp add: store_ok_def events_ok_def)
  show "store_ok (persist (s\<lparr>SnapshotRevision := n\<rparr>))" if "store_ok s" for s n
  proof -
    have "coherent (map_vals (\<lambda>k. persist_run) (Runs s)) (map_vals (\<lambda>k. persist_job) (Jobs s))"
      by (intro coherent_map_runs coherent_map_jobs store_okD(1) [OF that])
        (simp_all add: same_job_def same_run_def)
    moreover have "tasks_ok (map_vals (\<lambda>k. persist_task) (HumanTasks s))"
      using store_okD(2) [OF that] by (auto simp: tasks_ok_def)
    ultimately show ?thesis
      using that by (simp add: store_ok_def events_ok_def)
  qed
qed

interpretation progress_frame: frame_monotone "progress N" for N
proof
  show "progress N s s" for s by (simp add: progress_def events_grow_same)
  show "progress N s t \<Longrightarrow> progress N t u \<Longrightarrow> progress N s u" for s t u by (rule progress_trans)
  show "progress N s (ensureSnapshot s)" for s
    unfolding progress_def ensure_Jobs
    by (auto intro!: kept_map_vals events_grow_same outcomes_frame.rel_ensure
        simp: advanced_def settled_job_def)
  show "progress N s (s\<lparr>ControlPlaneEvents := evs, WebhookDeliveries := dels\<rparr>)" for s evs dels
    by (simp add: progress_def events_grow_same outcomes_kept_same)
  show "progress N s (persist (s\<lparr>SnapshotRevision := n\<rparr>))" for s n
    by (auto simp: progress_def tasks_kept_def task_kept_def advanced_def settled_job_def
        intro!: kept_map_vals events_grow_same outcomes_kept_same)
qed

lemma update_good:
  assumes "updateWithClock rnd now s fn = Inr (t, a)" and "store_ok s"
    and "\<And>v b. store_ok (ensureSnapshot s) \<Longrightarrow> fn (ensureSnapshot s) = Inr (v, b) \<Longrightarrow> good N (ensureSnapshot s) v"
  shows "good N s t"
  using assms(1)
proof (rule updateWithClock_cases)
  fix s' evs dels
  assume fn: "fn (ensureSnapshot s) = Inr (s', a)"
    and t: "t = write_file (s'\<lparr>ControlPlaneEvents := evs, WebhookDeliveries := dels\<rparr>)"
  have "store_ok s'" "progress N (ensureSnapshot s) s'"
    using assms(3) [OF store_frame.inv_ensure [OF assms(2)] fn] by (simp_all add: good_def)
  then have "store_ok t" "progress N (ensureSnapshot s) t"
    unfolding t
    using store_frame.inv_write store_frame.inv_outbox
      progress_trans [OF _ progress_trans [OF progress_frame.rel_outbox progress_frame.rel_write]]
    by simp_all
  then show "good N s t"
    unfolding good_def using progress_trans [OF progress_frame.rel_ensure] by simp
qed

end
