(* ===== verification/StoreSteps.thy ===== *)
theory StoreSteps
  imports StoreInv
begin

text \<open>
  Every transaction body keeps \<open>store_ok\<close> and, pruning apart, makes \<open>progress\<close>: one lemma per body.
\<close>

declare map_of_eq_Some_iff [simp del] Some_eq_map_of_iff [simp del]

section \<open>Human tasks\<close>

lemma go_map_entries: "go_map_ok m \<Longrightarrow> \<forall>(k, v) \<in> set m. map_of m k = Some v"
  by (auto intro: in_set_map_of)

text \<open>
  The loops that end pending tasks change nothing but tasks and events. They also run where a run and
  its jobs are between two coherent states.
\<close>

definition only_tasks :: "snapshot \<Rightarrow> snapshot \<Rightarrow> bool" where
  "only_tasks s u \<longleftrightarrow> Runs u = Runs s \<and> Jobs u = Jobs s \<and> AdmissionOutcomes u = AdmissionOutcomes s \<and>
     tasks_ok (HumanTasks u) \<and> tasks_kept (HumanTasks s) (HumanTasks u) \<and> events_grow s u"

lemma only_tasks_refl: "tasks_ok (HumanTasks s) \<Longrightarrow> only_tasks s s"
  by (simp add: only_tasks_def events_grow_same)

lemma only_tasks_trans: "only_tasks s t \<Longrightarrow> only_tasks t u \<Longrightarrow> only_tasks s u"
  unfolding only_tasks_def using tasks_kept_trans events_grow_trans by simp blast

lemma only_tasksD: "only_tasks s u \<Longrightarrow> tasks_ok (HumanTasks u)"
  by (simp add: only_tasks_def)

lemma only_tasks_good: "store_ok s \<Longrightarrow> only_tasks s u \<Longrightarrow> good N s u"
  by (rule goodI) (auto simp: only_tasks_def store_ok_def outcomes_kept_same)

lemma only_tasks_event: "only_tasks s u \<Longrightarrow> only_tasks s (appendEvent u r ty p now)"
  by (simp add: only_tasks_def events_grow_append)

lemma only_tasks_put:
  assumes "tasks_ok (HumanTasks s)" and "ht_ID h = k"
    and "\<And>x. map_of (HumanTasks s) k = Some x \<Longrightarrow> ht_State x = HumanTaskPending"
  shows "only_tasks s (s\<lparr>HumanTasks := put k h (HumanTasks s)\<rparr>)"
proof -
  have "tasks_kept (HumanTasks s) (put k h (HumanTasks s))"
    by (rule tasks_kept_put) (simp add: assms(3) task_kept_def)
  then show ?thesis using assms by (simp add: only_tasks_def tasks_ok_put events_grow_same)
qed

lemma terminate_step:
  assumes ok: "tasks_ok (HumanTasks s)" and k: "map_of (HumanTasks s) k = Some task" "ht_State task = HumanTaskPending"
    and t: "terminate_task st ev s task cause now = (u, task')"
  shows "only_tasks s u \<and> HumanTasks u = put k task' (HumanTasks s)"
proof -
  have "ht_ID task = k"
    using ok k(1) by (simp add: tasks_ok_def keyed_by_def)
  then show ?thesis
    using t k by (auto simp: terminate_task_def Let_def intro!: only_tasks_event only_tasks_put [OF ok])
qed

lemma only_tasks_loop:
  assumes ok: "tasks_ok (HumanTasks s)"
    and body: "\<And>k v u. tasks_ok (HumanTasks u) \<Longrightarrow> map_of (HumanTasks u) k = Some v \<Longrightarrow>
      only_tasks u (f (k, v) u) \<and> (\<forall>k'. k' \<noteq> k \<longrightarrow> map_of (HumanTasks (f (k, v) u)) k' = map_of (HumanTasks u) k')"
  shows "only_tasks s (fold f (HumanTasks s) s)"
proof (rule fold_entries [where look = "\<lambda>u. map_of (HumanTasks u)"])
  show keys: "go_map_ok (HumanTasks s)"
    using ok by (simp add: tasks_ok_def)
  then show "\<forall>(k, v) \<in> set (HumanTasks s). map_of (HumanTasks s) k = Some v"
    by (rule go_map_entries)
  show "only_tasks s s" by (rule only_tasks_refl [OF ok])
  show "only_tasks s (f (k, v) u) \<and> (\<forall>k'. k' \<noteq> k \<longrightarrow> map_of (HumanTasks (f (k, v) u)) k' = map_of (HumanTasks u) k')"
    if u: "only_tasks s u" "map_of (HumanTasks u) k = Some v" for k v u
    using body [OF only_tasksD [OF u(1)] u(2)] only_tasks_trans [OF u(1)] by simp
qed

lemma cancel_entry_step:
  assumes "tasks_ok (HumanTasks u)" and "map_of (HumanTasks u) k = Some v"
    and "\<And>h. hit h \<Longrightarrow> ht_State h = HumanTaskPending"
  shows "only_tasks u (cancel_entry hit cause now (k, v) u) \<and>
    (\<forall>k'. k' \<noteq> k \<longrightarrow> map_of (HumanTasks (cancel_entry hit cause now (k, v) u)) k' = map_of (HumanTasks u) k')"
proof (cases "hit v")
  case True
  obtain w task' where w: "cancelHeldTask u v cause now = (w, task')" by force
  have u: "only_tasks u w" and tasks: "HumanTasks w = put k task' (HumanTasks u)"
    using terminate_step [OF assms(1,2) assms(3) [OF True]] w by (simp_all add: cancelHeldTask_def)
  have "w\<lparr>HumanTasks := put k task' (HumanTasks w)\<rparr> = w\<lparr>HumanTasks := HumanTasks w\<rparr>"
    unfolding tasks put_put ..
  then have "cancel_entry hit cause now (k, v) u = w"
    using True w by (simp add: cancel_entry_def)
  then show ?thesis
    using u tasks by simp
qed (simp add: cancel_entry_def only_tasks_refl [OF assms(1)])

lemma cancelHeld_step:
  "tasks_ok (HumanTasks s) \<Longrightarrow> only_tasks s (cancelHeldHumanTasksInSnapshot s w jobID cause now)"
  unfolding cancelHeldHumanTasksInSnapshot_def
  by (rule only_tasks_loop) (auto intro!: cancel_entry_step [THEN conjunct1] cancel_entry_step [THEN conjunct2, rule_format]
      simp: held_pending_def)

lemma cancel_run_task_step:
  assumes ok: "tasks_ok (HumanTasks u)" and k: "map_of (HumanTasks u) k = Some v"
  shows "only_tasks u (cancel_run_task runID now (k, v) u) \<and>
    (\<forall>k'. k' \<noteq> k \<longrightarrow> map_of (HumanTasks (cancel_run_task runID now (k, v) u)) k' = map_of (HumanTasks u) k')"
proof -
  let ?held = "\<lambda>h. ht_RunID h = runID \<and> ht_State h = HumanTaskPending \<and> ht_Mode h = HumanTaskModeHold"
  consider (held) "?held v" | (ended) "\<not> (ht_RunID v = runID \<and> ht_State v = HumanTaskPending)"
    | (resume) "ht_RunID v = runID" "ht_State v = HumanTaskPending" "ht_Mode v \<noteq> HumanTaskModeHold" by blast
  then show ?thesis
  proof cases
    case held
    then have "cancel_run_task runID now (k, v) u = cancel_entry ?held HumanTaskCauseRunCanceled now (k, v) u"
      by (simp add: cancel_run_task_def cancel_entry_def)
    then show ?thesis using cancel_entry_step [OF ok k, of ?held] by simp
  next
    case ended
    then show ?thesis by (auto simp: cancel_run_task_def only_tasks_refl [OF ok])
  next
    case resume
    have "ht_ID v = k" using ok k by (simp add: tasks_ok_def keyed_by_def)
    then show ?thesis
      using resume k by (auto simp: cancel_run_task_def intro!: only_tasks_put [OF ok])
  qed
qed

lemma good_create_held:
  assumes ok: "store_ok s" and "create_held task now s = Inr (t, a)"
  shows "good N s t"
proof -
  let ?h = "task\<lparr>ht_CreatedAt := now, ht_UpdatedAt := now\<rparr>"
  have "good N s (s\<lparr>HumanTasks := put (ht_ID task) ?h (HumanTasks s)\<rparr>)"
    if "map_of (HumanTasks s) (ht_ID task) = None"
    by (rule good_task [OF ok]) (use that in auto)
  then show ?thesis
    using assms(2) good_refl [OF ok]
    by (auto simp: create_held_def Let_def intro!: good_event split: option.splits if_splits)
qed

lemma good_decide_held:
  assumes ok: "store_ok s" and r: "decide_held w taskID d enc now s = Inr (t, a)"
  shows "good N s t"
proof -
  obtain task where task: "map_of (HumanTasks s) (trim taskID) = Some task"
    using r by (auto simp: decide_held_def split: option.splits)
  have id: "ht_ID task = trim taskID"
    using store_okD(2) [OF ok] task by (simp add: tasks_ok_def keyed_by_def)
  have expire: "good N s u" if "ht_State task = HumanTaskPending" "expireHeldTask s task c now = (u, task')" for u task' c
    using terminate_step [OF store_okD(2) [OF ok] task that(1)] that(2) only_tasks_good [OF ok]
    by (simp add: expireHeldTask_def)
  show ?thesis
    using r task good_refl [OF ok]
    by (auto simp: decide_held_def Let_def id intro!: good_event good_task [OF ok] intro: expire
        split: if_splits prod.splits)
qed

lemma good_expire_held:
  assumes ok: "store_ok s" and r: "expire_held w taskID cause now s = Inr (t, a)"
  shows "good N s t"
proof -
  obtain task where task: "map_of (HumanTasks s) (trim taskID) = Some task"
    using r by (auto simp: expire_held_def split: option.splits)
  have "good N s u" if "ht_State task = HumanTaskPending" "expireHeldTask s task c now = (u, task')" for u task' c
    using terminate_step [OF store_okD(2) [OF ok] task that(1)] that(2) only_tasks_good [OF ok]
    by (simp add: expireHeldTask_def)
  then show ?thesis
    using r task good_refl [OF ok] by (auto simp: expire_held_def split: if_splits)
qed

lemma expire_one_step:
  assumes ok: "tasks_ok (HumanTasks u)" and k: "map_of (HumanTasks u) k = Some h" "due_held now h"
  shows "only_tasks u (expire_one now (k, e) u) \<and>
    (\<forall>k'. k' \<noteq> k \<longrightarrow> map_of (HumanTasks (expire_one now (k, e) u)) k' = map_of (HumanTasks u) k')"
proof -
  obtain w task' where w: "expireHeldTask u h HumanTaskCauseDeadline now = (w, task')" by force
  have "ht_State h = HumanTaskPending" using k(2) by (simp add: due_held_def)
  from terminate_step [OF ok k(1) this] w show ?thesis
    using k(1) by (simp add: expireHeldTask_def expire_one_def)
qed

text \<open>Due candidates are stored pending tasks, each once.\<close>

lemma due_candidates_sound:
  assumes "go_map_ok (HumanTasks s)" and "(k, e) \<in> set (due_candidates s now)"
  shows "\<exists>h. map_of (HumanTasks s) k = Some h \<and> due_held now h \<and> e = valueOrZero (ht_ExpiresAt h)"
  using assms in_set_map_of [OF assms(1)] by (fastforce simp: due_candidates_def)

lemma distinct_fst_insert_by: "distinct (map fst (insert_by lt x xs)) \<longleftrightarrow> fst x \<notin> fst ` set xs \<and> distinct (map fst xs)"
  by (induction xs) auto

lemma distinct_fst_sort_by: "distinct (map fst (sort_by lt xs)) \<longleftrightarrow> distinct (map fst xs)"
  by (induction xs) (simp_all add: distinct_fst_insert_by)

lemma due_candidates_distinct:
  assumes "go_map_ok (HumanTasks s)"
  shows "distinct (map fst (due_candidates s now))"
proof -
  have "map fst (map (\<lambda>(k, t). (k, valueOrZero (ht_ExpiresAt t))) xs) = map fst xs" for xs :: "(string \<times> human_task) list"
    by (induction xs) auto
  then show ?thesis
    unfolding due_candidates_def distinct_fst_sort_by using go_map_ok_filter [OF assms] by metis
qed

lemma expire_due_step:
  assumes ok: "tasks_ok (HumanTasks s)"
  shows "only_tasks s (fold (expire_one now) (take n (due_candidates s now)) s)"
proof -
  let ?look = "\<lambda>u k. case map_of (HumanTasks u) k of
    Some h \<Rightarrow> if due_held now h then Some (valueOrZero (ht_ExpiresAt h)) else None | None \<Rightarrow> None"
  have keys: "go_map_ok (HumanTasks s)"
    using ok by (simp add: tasks_ok_def)
  show ?thesis
  proof (rule fold_entries [where look = ?look])
    show "distinct (map fst (take n (due_candidates s now)))"
      using due_candidates_distinct [OF keys] by (simp add: take_map [symmetric] distinct_take)
    show "\<forall>(k, v) \<in> set (take n (due_candidates s now)). ?look s k = Some v"
      using due_candidates_sound [OF keys] by (fastforce dest: in_set_takeD)
    show "only_tasks s s" by (rule only_tasks_refl [OF ok])
    show "only_tasks s (expire_one now (k, v) u) \<and>
        (\<forall>k'. k' \<noteq> k \<longrightarrow> ?look (expire_one now (k, v) u) k' = ?look u k')"
      if u: "only_tasks s u" "?look u k = Some v" for k v u
    proof -
      obtain h where h: "map_of (HumanTasks u) k = Some h" "due_held now h"
        using u(2) by (auto split: option.splits if_splits)
      from expire_one_step [OF only_tasksD [OF u(1)] h, of v] show ?thesis
        using only_tasks_trans [OF u(1)] by simp
    qed
  qed
qed

section \<open>Enqueue, resume and retry\<close>

text \<open>A queued job for a run that is new or has no active job.\<close>

lemma coherent_enqueue:
  assumes "coherent runs jobs" and "map_of jobs k = None" and "job_ID j = k" "run_ID r = rid"
    and "job_RunID j = rid" "job_State j = JobQueued" "job_Attempt j = 0"
    and "run_State r = RunQueued \<or> run_State r = RunResuming"
    and "\<And>x. map_of runs rid = Some x \<Longrightarrow> \<not> live_run x"
  shows "coherent (put rid r runs) (put k j jobs)"
  by (rule coherent_put [OF assms(1)])
    (use assms(2-) in \<open>auto simp: attempt_ok_def live_run_def active_job_def\<close>)

text \<open>What admission hands to the store: a queued run and its first job.\<close>

definition enqueue_ok :: "run \<Rightarrow> job \<Rightarrow> bool" where
  "enqueue_ok r j \<longleftrightarrow> job_RunID j = run_ID r \<and> run_State r = RunQueued \<and> job_State j = JobQueued \<and> job_Attempt j = 0"

lemma NewActionJob_fields [simp]:
  "job_ID (NewActionJob fresh now r inp) = fresh" "job_RunID (NewActionJob fresh now r inp) = run_ID r"
  "job_State (NewActionJob fresh now r inp) = JobQueued" "job_Attempt (NewActionJob fresh now r inp) = 0"
  by (simp_all add: NewActionJob_def Let_def zero_job_def)

lemma enqueue_ok_New:
  "enqueue_ok (NewRun fresh now adapter id' app act d inp) (NewActionJob jid now' (NewRun fresh now adapter id' app act d inp) inp')"
  by (simp add: enqueue_ok_def NewRun_def)

lemma good_enqueue:
  assumes ok: "store_ok s" and e: "enqueue_ok r j" and new: "job_ID j \<in> N"
    and tx: "create_run_and_enqueue cx r j now s = Inr (t, a)"
  shows "good N s t"
proof -
  obtain s1 where s1: "bindLocalAdmissionOutcome s (normalizedJobWorkspace [] j) r now = Inr s1"
    using tx by (auto simp: create_run_and_enqueue_def Let_def)
  obtain outs where outs: "s1 = s\<lparr>AdmissionOutcomes := outs\<rparr>"
    using bind_frame [OF s1] by blast
  have g1: "good N s s1"
    by (rule good_other [OF ok]) (use outs bind_outcomes_kept [OF s1] in simp_all)
  have fresh: "map_of (Runs s1) (run_ID r) = None" "map_of (Jobs s1) (job_ID j) = None"
    using tx s1 by (auto simp: create_run_and_enqueue_def Let_def split: if_splits)
  have g2: "good N s1 (s1\<lparr>Runs := put (run_ID r) r' (Runs s1), Jobs := put (job_ID j) j' (Jobs s1)\<rparr>)"
    if "run_ID r' = run_ID r" "run_State r' = run_State r" "job_ID j' = job_ID j" "job_RunID j' = job_RunID j"
      "job_State j' = job_State j" "job_Attempt j' = job_Attempt j" for r' j'
    by (rule good_jobs [OF goodD [OF g1]])
      (use that e fresh new store_okD(1) [OF goodD [OF g1]] in \<open>auto simp: enqueue_ok_def intro!: coherent_enqueue kept_fresh\<close>)
  show ?thesis
    using tx s1 fresh
    by (auto simp: create_run_and_enqueue_def Let_def split: if_splits
        intro!: good_event good_trans [OF g1] g2)
qed

lemma job_id_draw [simp]: "NewID rnd ''job'' draw = rnd draw"
  by (simp add: NewID_def)

lemma good_retry:
  assumes ok: "store_ok s" and fresh: "map_of (Jobs s) (rnd ''job'') = None" "rnd ''job'' \<in> N"
    and tx: "retry_tx cx rnd runID now s = Inr (t, a)"
  shows "good N s t"
proof -
  obtain r where r: "map_of (Runs s) runID = Some r" and st: "run_State r \<in> {RunFailed, RunCanceled, RunExpired}"
    using tx by (auto simp: retry_tx_def split: option.splits if_splits)
  have id: "run_ID r = runID"
    using coherentD(3) [OF store_okD(1) [OF ok]] r by (rule keyed_byD)
  have g: "good N s (s\<lparr>Runs := put runID r' (Runs s), Jobs := put (rnd ''job'') j' (Jobs s)\<rparr>)"
    if "run_ID r' = runID" "run_State r' = RunQueued" "job_ID j' = rnd ''job''" "job_RunID j' = runID"
      "job_State j' = JobQueued" "job_Attempt j' = 0" for r' j'
  proof (rule good_jobs [OF ok])
    have "coherent (put runID r' (Runs s)) (put (rnd ''job'') j' (Jobs s))"
      by (rule coherent_enqueue [OF store_okD(1) [OF ok]]) (use that fresh r st in \<open>auto simp: live_run_def\<close>)
    then show "coherent (Runs (s\<lparr>Runs := put runID r' (Runs s), Jobs := put (rnd ''job'') j' (Jobs s)\<rparr>))
        (Jobs (s\<lparr>Runs := put runID r' (Runs s), Jobs := put (rnd ''job'') j' (Jobs s)\<rparr>))"
      by simp
  qed (use fresh in \<open>auto intro: kept_fresh\<close>)
  show ?thesis
    using tx r st by (auto simp: retry_tx_def Let_def id intro!: good_event g split: if_splits)
qed

lemma good_resume:
  assumes ok: "store_ok s" and fresh: "map_of (Jobs s) (rnd ''job'') = None" "rnd ''job'' \<in> N"
    and tx: "resume_tx cx rnd taskID inp now s = Inr (t, a)"
  shows "good N s t"
proof -
  obtain task r where task: "map_of (HumanTasks s) taskID = Some task" "ht_State task = HumanTaskPending"
    and r: "map_of (Runs s) (ht_RunID task) = Some r" "run_State r = RunWaitingHuman"
    using tx by (auto simp: resume_tx_def split: option.splits if_splits)
  have ids: "run_ID r = ht_RunID task" "ht_ID task = taskID"
    using keyed_byD [OF coherentD(3) [OF store_okD(1) [OF ok]] r(1)] store_okD(2) [OF ok] task(1)
    by (simp_all add: tasks_ok_def keyed_by_def)
  let ?s1 = "\<lambda>h r' j'. s\<lparr>HumanTasks := put taskID h (HumanTasks s), Runs := put (ht_RunID task) r' (Runs s),
      Jobs := put (rnd ''job'') j' (Jobs s)\<rparr>"
  have g: "good N s (?s1 h r' j')"
    if new: "ht_ID h = taskID" "run_ID r' = ht_RunID task" "run_State r' = RunResuming" "job_ID j' = rnd ''job''"
      "job_RunID j' = ht_RunID task" "job_State j' = JobQueued" "job_Attempt j' = 0" for h r' j'
  proof (rule goodI [OF ok])
    have "coherent (put (ht_RunID task) r' (Runs s)) (put (rnd ''job'') j' (Jobs s))"
      by (rule coherent_enqueue [OF store_okD(1) [OF ok]]) (use new fresh r in \<open>auto simp: live_run_def\<close>)
    then show "coherent (Runs (?s1 h r' j')) (Jobs (?s1 h r' j'))" by simp
    have "tasks_kept (HumanTasks s) (put taskID h (HumanTasks s))"
      by (rule tasks_kept_put) (use task in \<open>simp add: task_kept_def\<close>)
    then show "tasks_kept (HumanTasks s) (HumanTasks (?s1 h r' j'))" by simp
  qed (use fresh new store_okD(2) [OF ok] in \<open>auto intro: kept_fresh tasks_ok_put events_grow_same outcomes_kept_same\<close>)
  show ?thesis
    using tx task r by (auto simp: resume_tx_def Let_def ids intro!: good_event g split: if_splits)
qed

section \<open>Settling a job\<close>

text \<open>The active job of a run is settled, and the run with it.\<close>

lemma coherent_settle:
  assumes c: "coherent runs jobs" and k: "map_of jobs k = Some x" "active_job x"
    and r: "map_of runs (job_RunID x) = Some r"
    and new: "job_ID j = job_ID x" "job_RunID j = job_RunID x" "settled_job j" "job_Attempt j = job_Attempt x"
      "run_ID r' = run_ID r" "\<not> live_run r'"
  shows "coherent (put (run_ID r') r' runs) (put (job_ID j) j jobs)"
proof -
  obtain r0 where r0: "attempt_ok r0 x" and k': "job_ID x = k" and rid: "run_ID r = job_RunID x"
    using coherent_job [OF c k(1)] keyed_byD [OF coherentD(3) [OF c] r] by metis
  have "coherent (put (job_RunID x) r' runs) (put k j jobs)"
    by (rule coherent_put [OF c])
      (use k r0 k' rid new in \<open>auto simp: attempt_ok_def settled_iff_not_active active_job_def\<close>)
  then show ?thesis using k' rid new by simp
qed

lemma advanced_settle: "active_job x \<Longrightarrow> settled_job j \<Longrightarrow> job_Attempt j = job_Attempt x \<Longrightarrow> advanced x j"
  by (auto simp: advanced_def settled_iff_not_active active_job_def)

lemma good_settle:
  assumes ok: "store_ok s" and k: "map_of (Jobs s) k = Some x" "active_job x"
    and r: "map_of (Runs s) (job_RunID x) = Some r"
    and new: "job_ID j = job_ID x" "job_RunID j = job_RunID x" "settled_job j" "job_Attempt j = job_Attempt x"
      "run_ID r' = run_ID r" "\<not> live_run r'"
  shows "good N s (s\<lparr>Jobs := put (job_ID j) j (Jobs s), Runs := put (run_ID r') r' (Runs s)\<rparr>)"
proof (rule good_jobs [OF ok])
  have id: "job_ID x = k" using coherentD(4) [OF store_okD(1) [OF ok]] k(1) by (rule keyed_byD)
  show "kept N (Jobs s) (Jobs (s\<lparr>Jobs := put (job_ID j) j (Jobs s), Runs := put (run_ID r') r' (Runs s)\<rparr>))"
    using kept_put [OF k(1) advanced_settle [OF k(2) new(3,4)]] new(1) id by simp
qed (use coherent_settle [OF store_okD(1) [OF ok] k r new] in simp_all)

lemma good_encryptStoredRunResult:
  assumes ok: "store_ok s" and tx: "encryptStoredRunResult cx draw w s runID = Inr t"
  shows "good N s t"
proof (cases "map_of (Runs s) runID")
  case None
  then show ?thesis using tx good_refl [OF ok] by (simp add: encryptStoredRunResult_def)
next
  case (Some r)
  obtain o' res where t: "t = s\<lparr>Runs := put runID (r\<lparr>run_Output := o', run_Result := res\<rparr>) (Runs s)\<rparr>"
    using tx Some by (auto simp: encryptStoredRunResult_def)
  show ?thesis
    unfolding t by (rule good_jobs [OF ok])
      (use coherent_put_same_run [OF store_okD(1) [OF ok] Some] in \<open>simp_all add: same_run_def\<close>)
qed

lemma good_applyCanceled:
  assumes ok: "store_ok s" and k: "map_of (Jobs s) k = Some j" "active_job j"
    and r: "map_of (Runs s) (job_RunID j) = Some r"
  shows "good N s (applyCanceledJob s j r by' reason msg now)"
  unfolding applyCanceledJob_def Let_def
  by (intro good_event good_settle [OF ok k r])
    (simp_all add: canceled_job_def canceled_run_def settled_job_def live_run_def)

lemma leased_cases:
  assumes "leasedJobAndRun s l now = Inr (j, r)"
  shows "map_of (Jobs s) (ls_JobID l) = Some j" "map_of (Runs s) (job_RunID j) = Some r" "holds_lease j l" "active_job j"
  using assms by (auto simp: leasedJobAndRun_def holds_lease_def active_job_def split: option.splits if_splits)

lemma good_then_cancelHeld: "good N s t \<Longrightarrow> good N s (cancelHeldHumanTasksInSnapshot t w jid c now)"
  using only_tasks_good [OF goodD cancelHeld_step [OF store_okD(2) [OF goodD]]] good_trans by blast

lemma good_settle_canceled:
  assumes ok: "store_ok s" and k: "map_of (Jobs s) k = Some j" "active_job j"
    and r: "map_of (Runs s) (job_RunID j) = Some r"
    and tx: "settle_canceled cx s j r by' flag now = Inr t"
  shows "good N s t"
proof -
  let ?s1 = "applyCanceledJob s j r by' (canceledReasonValue j) cancelDuringExecutionMessage now"
  have g1: "good N s ?s1" by (rule good_applyCanceled [OF ok k r])
  let ?s2 = "if flag then cancelHeldHumanTasksInSnapshot ?s1 (normalizedJobWorkspace [] j) (job_ID j)
      HumanTaskCauseRunCanceled now else ?s1"
  have g2: "good N s ?s2"
    using g1 good_then_cancelHeld [OF g1] by simp
  have "encryptStoredRunResult cx ''canceled'' (normalizedJobWorkspace [] j) ?s2 (run_ID r) = Inr t"
    using tx by (simp add: settle_canceled_def Let_def)
  from good_encryptStoredRunResult [OF goodD [OF g2] this] show ?thesis
    by (rule good_trans [OF g2])
qed

text \<open>A completion: the leased job is settled, tasks may be canceled, one event is written.\<close>

lemma good_complete:
  assumes ok: "store_ok s" and l: "leasedJobAndRun s l now = Inr (j, r)"
    and st: "settled_job (finished_job st j now)" and r': "run_ID r' = run_ID r" "\<not> live_run r'"
  shows "good N s (s\<lparr>Jobs := put (job_ID j) (finished_job st j now) (Jobs s), Runs := put (run_ID r) r' (Runs s)\<rparr>)"
proof -
  have "good N s (s\<lparr>Jobs := put (job_ID (finished_job st j now)) (finished_job st j now) (Jobs s),
      Runs := put (run_ID r') r' (Runs s)\<rparr>)"
    by (rule good_settle [OF ok leased_cases(1) [OF l] leased_cases(4) [OF l] leased_cases(2) [OF l]])
      (use st r' in \<open>simp_all add: finished_job_def\<close>)
  then show ?thesis using r' by (simp add: finished_job_def)
qed

lemma finished_job_fields [simp]:
  "job_ID (finished_job st j now) = job_ID j" "settled_job (finished_job JobSucceeded j now)"
  "settled_job (finished_job JobFailed j now)"
  by (simp_all add: finished_job_def settled_job_def)

lemma good_complete_succeeded:
  assumes ok: "store_ok s" and tx: "complete_succeeded cx l result now s = Inr (t, a)"
  shows "good N s t"
proof -
  obtain j r where l: "leasedJobAndRun s l now = Inr (j, r)"
    using tx by (auto simp: complete_succeeded_def)
  show ?thesis
    using tx l good_settle_canceled [OF ok leased_cases(1) [OF l] leased_cases(4) [OF l] leased_cases(2) [OF l]]
    by (auto simp: complete_succeeded_def Let_def live_run_def
        intro!: good_event good_then_cancelHeld good_complete [OF ok l] split: option.splits)
qed

lemma good_complete_failed:
  assumes ok: "store_ok s" and tx: "complete_failed cx l result now s = Inr (t, a)"
  shows "good N s t"
proof -
  obtain j r where l: "leasedJobAndRun s l now = Inr (j, r)"
    using tx by (auto simp: complete_failed_def)
  show ?thesis
    using tx l good_settle_canceled [OF ok leased_cases(1) [OF l] leased_cases(4) [OF l] leased_cases(2) [OF l]]
    by (auto simp: complete_failed_def Let_def live_run_def
        intro!: good_event good_then_cancelHeld good_complete [OF ok l] split: option.splits)
qed

lemma good_complete_waiting_human:
  assumes ok: "store_ok s" and tx: "complete_waiting_human cx rnd l result task now s = Inr (t, a)"
  shows "good N s t"
proof -
  obtain j r where l: "leasedJobAndRun s l now = Inr (j, r)"
    using tx by (auto simp: complete_waiting_human_def)
  have g: "good N s (s\<lparr>Jobs := put (job_ID j) (finished_job JobSucceeded j now) (Jobs s),
      Runs := put (run_ID r) r' (Runs s), HumanTasks := put k h (HumanTasks s)\<rparr>)"
    if new: "run_ID r' = run_ID r" "\<not> live_run r'" "ht_ID h = k" "map_of (HumanTasks s) k = None" for r' h k
  proof -
    have g1: "good N s (s\<lparr>Jobs := put (job_ID j) (finished_job JobSucceeded j now) (Jobs s), Runs := put (run_ID r) r' (Runs s)\<rparr>)"
      by (rule good_complete [OF ok l]) (use new in simp_all)
    show ?thesis
      using good_trans [OF g1 good_task [OF goodD [OF g1] new(3)]] new(4) by simp
  qed
  show ?thesis
    using tx l good_settle_canceled [OF ok leased_cases(1) [OF l] leased_cases(4) [OF l] leased_cases(2) [OF l]]
    by (auto simp: complete_waiting_human_def Let_def live_run_def
        intro!: good_event g split: option.splits if_splits)
qed

section \<open>Claim, heartbeat and expired leases\<close>

lemma good_requeue_entry:
  assumes ok: "store_ok u" and k: "map_of (Jobs u) k = Some j" and tx: "requeue_entry cx now (k, j) u = Inr v"
  shows "good N u v \<and> (\<forall>k'. k' \<noteq> k \<longrightarrow> map_of (Jobs v) k' = map_of (Jobs u) k')"
proof -
  obtain r where r: "map_of (Runs u) (job_RunID j) = Some r" "attempt_ok r j" "active_job j \<Longrightarrow> live_run r" "job_ID j = k"
    using coherent_job [OF store_okD(1) [OF ok] k] by blast
  consider (alive) "\<not> lease_expired j now" | (canceled) by' where "lease_expired j now" "job_CanceledBy j = Some by'"
    | (lost) "lease_expired j now" "job_CanceledBy j = None" by (cases "job_CanceledBy j") blast+
  then show ?thesis
  proof cases
    case alive
    then show ?thesis using tx good_refl [OF ok] by (simp add: requeue_entry_def)
  next
    case canceled
    let ?w = "applyCanceledJob u j r by' (canceledReasonValue j) cancelWorkerLostMessage now"
    have act: "active_job j" using canceled by (simp add: lease_expired_def active_job_def)
    have enc: "encryptStoredRunResult cx (job_ID j) (normalizedJobWorkspace [] j) ?w (run_ID r) = Inr v"
      using tx canceled r by (simp add: requeue_entry_def)
    have g: "good N u ?w" by (rule good_applyCanceled [OF ok k act r(1)])
    have "Jobs v = Jobs ?w"
      using enc by (auto simp: encryptStoredRunResult_def split: option.splits)
    then show ?thesis
      using good_trans [OF g good_encryptStoredRunResult [OF goodD [OF g] enc]] r(4)
      by (simp add: applyCanceledJob_def Let_def canceled_job_def)
  next
    case lost
    have act: "active_job j" using lost by (simp add: lease_expired_def active_job_def)
    have "coherent (Runs u) (put k (requeued_job j now) (Jobs u))"
      by (rule coherent_put_job [OF store_okD(1) [OF ok] k act _ r(1)])
        (use r(2) in \<open>simp_all add: requeued_job_def active_job_def attempt_ok_def\<close>)
    moreover have "kept N (Jobs u) (put k (requeued_job j now) (Jobs u))"
      by (rule kept_put [OF k]) (use act in \<open>auto simp: advanced_def requeued_job_def settled_iff_not_active\<close>)
    ultimately show ?thesis
      using tx lost by (auto simp: requeue_entry_def intro!: good_event good_jobs [OF ok])
  qed
qed

lemma good_requeueExpired:
  assumes ok: "store_ok s" and tx: "requeueExpiredJobs cx s now = Inr t"
  shows "good N s t"
  using tx unfolding requeueExpiredJobs_def
proof (rule fold_res_entries [where look = "\<lambda>u. map_of (Jobs u)"])
  show keys: "go_map_ok (Jobs s)" by (rule coherentD(2) [OF store_okD(1) [OF ok]])
  show "\<forall>(k, v) \<in> set (Jobs s). map_of (Jobs s) k = Some v" by (rule go_map_entries [OF keys])
  show "good N s s" by (rule good_refl [OF ok])
  show "good N s u' \<and> (\<forall>k'. k' \<noteq> k \<longrightarrow> map_of (Jobs u') k' = map_of (Jobs u) k')"
    if u: "good N s u" "map_of (Jobs u) k = Some v" "requeue_entry cx now (k, v) u = Inr u'" for k v u u'
    using good_requeue_entry [OF goodD [OF u(1)] u(2,3)] good_trans [OF u(1)] by blast
qed

lemma rate_fields [simp]:
  "Runs (consumeRateLimits s j now) = Runs s" "Jobs (consumeRateLimits s j now) = Jobs s"
  "HumanTasks (consumeRateLimits s j now) = HumanTasks s" "Events (consumeRateLimits s j now) = Events s"
  "Sequence (consumeRateLimits s j now) = Sequence s"
  "AdmissionOutcomes (consumeRateLimits s j now) = AdmissionOutcomes s"
  "Runs (pruneExecutionRateBuckets s now) = Runs s" "Jobs (pruneExecutionRateBuckets s now) = Jobs s"
  "HumanTasks (pruneExecutionRateBuckets s now) = HumanTasks s" "Events (pruneExecutionRateBuckets s now) = Events s"
  "Sequence (pruneExecutionRateBuckets s now) = Sequence s"
  "AdmissionOutcomes (pruneExecutionRateBuckets s now) = AdmissionOutcomes s"
  by (simp_all add: consumeRateLimits_def pruneExecutionRateBuckets_def)

text \<open>What a claim returns was a stored queued job that the worker may have.\<close>

lemma find_Some: "List.find p xs = Some x \<Longrightarrow> x \<in> set xs \<and> p x"
  by (metis find_Some_iff nth_mem)

lemma candidate_stored:
  assumes c: "coherent (Runs s) (Jobs s)" and "j \<in> set (claim_candidates s ws tags labels)"
  shows "map_of (Jobs s) (job_ID j) = Some j" "offered s ws tags labels j"
proof -
  from assms(2) obtain k where k: "(k, j) \<in> set (Jobs s)" and "offered s ws tags labels j"
    by (auto simp: claim_candidates_def)
  then show "offered s ws tags labels j" by simp
  have "map_of (Jobs s) k = Some j" using in_set_map_of [OF coherentD(2) [OF c] k] .
  then show "map_of (Jobs s) (job_ID j) = Some j"
    using keyed_byD [OF coherentD(4) [OF c]] by auto
qed

lemma good_grant:
  assumes ok: "store_ok s" and j: "map_of (Jobs s) (job_ID j) = Some j" "job_State j = JobQueued"
  shows "good N s (fst (grant_claim s j workerID identity ttl now))"
proof -
  let ?j = "claimed_job j workerID identity (now + ttl) now"
  obtain r where r: "map_of (Runs s) (job_RunID j) = Some r" "run_ID r = job_RunID j" "attempt_ok r j"
    "active_job j \<Longrightarrow> live_run r"
    using coherent_job [OF store_okD(1) [OF ok] j(1)] by blast
  have act: "active_job j" "active_job ?j" using j(2) by (simp_all add: active_job_def claimed_job_def)
  have live: "live_run r" using r(4) act by simp
  define started where "started = (if run_State r = RunRunning then r else r\<lparr>run_State := RunRunning, run_UpdatedAt := now\<rparr>)"
  have coh: "coherent (put (job_RunID j) started (Runs s)) (put (job_ID j) ?j (Jobs s))"
    by (rule coherent_put [OF store_okD(1) [OF ok]])
      (use j act r in \<open>auto simp: started_def claimed_job_def attempt_ok_def live_run_def active_job_def\<close>)
  have kept: "kept N (Jobs s) (put (job_ID j) ?j (Jobs s))"
    by (rule kept_put [OF j(1)]) (use act in \<open>auto simp: advanced_def claimed_job_def settled_iff_not_active\<close>)
  have "coherent (Runs s) (put (job_ID j) ?j (Jobs s))" if "run_State r = RunRunning"
    by (rule coherent_map_of [OF coh])
      (use coherentD [OF store_okD(1) [OF ok]] r that in \<open>auto simp: started_def fun_eq_iff\<close>)
  with coh kept live r show ?thesis
    by (auto simp: grant_claim_def Let_def start_run_def claimed_job_def started_def live_run_def
        intro!: good_event good_jobs [OF ok] split: option.splits)
qed

lemma claim_tx_cases:
  assumes "claim_tx cx workerID tags labels ws ttl now s = Inr (t, j, l)"
  obtains s1 s2 tags' labels' ident cand where "requeueExpiredJobs cx s now = Inr s1"
    and "s2 = pruneExecutionRateBuckets s1 now"
    and "claim_selector s2 workerID tags labels now = Inr (tags', labels', ident)"
    and "List.find (admissible s2 now) (claim_candidates s2 ws tags' labels') = Some cand" and "job_ID cand \<noteq> []"
    and "grant_claim s2 cand workerID ident ttl now = (t, j, l)"
proof -
  obtain s1 where s1: "requeueExpiredJobs cx s now = Inr s1"
    using assms by (auto simp: claim_tx_def)
  define s2 where "s2 = pruneExecutionRateBuckets s1 now"
  obtain tags' labels' ident where sel: "claim_selector s2 workerID tags labels now = Inr (tags', labels', ident)"
    using assms s1 by (auto simp: claim_tx_def Let_def s2_def)
  show ?thesis
  proof (cases "List.find (admissible s2 now) (claim_candidates s2 ws tags' labels')")
    case None
    then show ?thesis using assms s1 sel by (simp add: claim_tx_def Let_def s2_def)
  next
    case (Some cand)
    then show ?thesis
      using assms s1 sel that [OF s1 s2_def sel Some]
      by (simp add: claim_tx_def Let_def s2_def split: if_splits)
  qed
qed

lemma good_claim:
  assumes ok: "store_ok s" and tx: "claim_tx cx workerID tags labels ws ttl now s = Inr (t, j, l)"
  shows "good N s t"
proof -
  obtain s1 s2 tags' labels' ident cand where s1: "requeueExpiredJobs cx s now = Inr s1"
    and s2: "s2 = pruneExecutionRateBuckets s1 now"
    and find: "List.find (admissible s2 now) (claim_candidates s2 ws tags' labels') = Some cand"
    and t: "grant_claim s2 cand workerID ident ttl now = (t, j, l)"
    using claim_tx_cases [OF tx] by metis
  have g1: "good N s s1" by (rule good_requeueExpired [OF ok s1])
  have g2: "good N s1 s2" unfolding s2 by (rule good_other [OF goodD [OF g1]]) (simp_all add: outcomes_kept_same)
  have "map_of (Jobs s2) (job_ID cand) = Some cand" "job_State cand = JobQueued"
    using candidate_stored [OF store_okD(1) [OF goodD [OF g2]]] find_Some [OF find] by (auto simp: offered_def)
  from good_grant [OF goodD [OF g2] this, of _ workerID ident ttl now] show ?thesis
    unfolding t fst_conv by (rule good_trans [OF good_trans [OF g1 g2]])
qed

lemma good_heartbeat:
  assumes ok: "store_ok s" and tx: "heartbeat_tx l ttl now s = Inr (t, a)"
  shows "good N s t"
proof (cases "\<exists>j. map_of (Jobs s) (ls_JobID l) = Some j \<and> holds_lease j l")
  case True
  then obtain j where j: "map_of (Jobs s) (ls_JobID l) = Some j" "holds_lease j l" by blast
  let ?j = "j\<lparr>job_LeaseExpiresAt := Some (now + ttl), job_UpdatedAt := now\<rparr>"
  have id: "job_ID j = ls_JobID l" using coherentD(4) [OF store_okD(1) [OF ok]] j(1) by (rule keyed_byD)
  obtain r where r: "map_of (Runs s) (job_RunID j) = Some r" "attempt_ok r j"
    using coherent_job [OF store_okD(1) [OF ok] j(1)] by blast
  have "same_job j ?j" using r(2) j(2) by (auto simp: same_job_def attempt_ok_def holds_lease_def)
  then have "coherent (Runs s) (put (ls_JobID l) ?j (Jobs s))" "kept N (Jobs s) (put (ls_JobID l) ?j (Jobs s))"
    using coherent_put_same [OF store_okD(1) [OF ok] j(1)] kept_put [OF j(1)] same_jobD(1) by auto
  then show ?thesis
    using tx j id by (auto simp: heartbeat_tx_def Let_def intro!: good_jobs [OF ok])
next
  case False
  then show ?thesis
    using tx good_refl [OF ok] by (auto simp: heartbeat_tx_def Let_def split: option.splits if_splits)
qed

section \<open>Cancellation, retention, lifecycle and the rest\<close>

lemma good_cancel_job:
  assumes ok: "store_ok s" and tx: "cancel_job_tx cx w jobID by' reason now s = Inr (t, a)"
  shows "good N s t"
proof -
  have unchanged: "good N s s" by (rule good_refl [OF ok])
  show ?thesis
  proof (cases "map_of (Jobs s) jobID")
    case None
    then show ?thesis using tx unchanged by (simp add: cancel_job_tx_def Let_def)
  next
    case (Some j)
    obtain r where r: "map_of (Runs s) (job_RunID j) = Some r" "job_ID j = jobID"
      using coherent_job [OF store_okD(1) [OF ok] Some] by blast
    have soft: "good N s (s\<lparr>Jobs := put (job_ID j) (j\<lparr>job_CanceledBy := b, job_CanceledReason := c, job_UpdatedAt := now\<rparr>) (Jobs s)\<rparr>)" for b c
      by (rule good_jobs [OF ok])
        (use r coherent_put_same [OF store_okD(1) [OF ok] Some] kept_put [OF Some] in
          \<open>auto simp: same_job_def advanced_def settled_job_def\<close>)
    have hard: "good N s u" if "active_job j" "encryptStoredRunResult cx d v (applyCanceledJob s j r b c m now) k = Inr u" for d v b c m k u
      using good_trans [OF good_applyCanceled [OF ok Some that(1) r(1)]
          good_encryptStoredRunResult [OF goodD [OF good_applyCanceled [OF ok Some that(1) r(1)]] that(2)]] .
    have "active_job j" if "job_State j \<noteq> JobSucceeded" "job_State j \<noteq> JobFailed"
      using that by (cases "job_State j") (simp_all add: active_job_def)
    then show ?thesis
      using tx Some r unchanged by (auto simp: cancel_job_tx_def Let_def intro: soft hard split: if_splits)
  qed
qed

lemma end_run_step:
  assumes ok: "store_ok s" and r: "map_of (Runs s) rid = Some r" "run_ID r' = rid" "\<not> live_run r'"
    and f: "\<And>k j. map_of (Jobs s) k = Some j \<Longrightarrow> job_RunID (f k j) = job_RunID j \<and> job_ID (f k j) = job_ID j \<and>
        job_Attempt (f k j) = job_Attempt j"
      "\<And>k j. map_of (Jobs s) k = Some j \<Longrightarrow> job_RunID j \<noteq> rid \<Longrightarrow> f k j = j"
      "\<And>k j. map_of (Jobs s) k = Some j \<Longrightarrow> job_RunID j = rid \<Longrightarrow> settled_job (f k j)"
  shows "coherent (put rid r' (Runs s)) (map_vals f (Jobs s))" "kept N (Jobs s) (map_vals f (Jobs s))"
proof -
  show "coherent (put rid r' (Runs s)) (map_vals f (Jobs s))"
    by (rule coherent_end_run [OF store_okD(1) [OF ok] r]) (use f in auto)
  have "advanced j (f k j)" if k: "map_of (Jobs s) k = Some j" for k j
  proof (cases "job_RunID j = rid")
    case True
    then have "settled_job (f k j)" "job_Attempt (f k j) = job_Attempt j" using f k by auto
    then show ?thesis by (auto simp: advanced_def settled_job_def)
  qed (simp add: f(2) [OF k])
  then show "kept N (Jobs s) (map_vals f (Jobs s))" by (rule kept_map_vals)
qed

lemma good_cancel_run:
  assumes ok: "store_ok s" and tx: "cancel_run_tx runID reason now s = Inr (t, a)"
  shows "good N s t"
proof -
  obtain r where r: "map_of (Runs s) runID = Some r"
    using tx by (auto simp: cancel_run_tx_def split: option.splits)
  have id: "run_ID r = runID" using coherentD(3) [OF store_okD(1) [OF ok]] r by (rule keyed_byD)
  let ?f = "\<lambda>k j. if job_RunID j = runID \<and> active_job j then run_canceled_job j now else j"
  let ?r = "r\<lparr>run_State := RunCanceled, run_Error := mustRaw [(''message'', JString reason)], run_UpdatedAt := now\<rparr>"
  have ended: "coherent (put runID ?r (Runs s)) (map_vals ?f (Jobs s))" "kept N (Jobs s) (map_vals ?f (Jobs s))"
    by (rule end_run_step [OF ok r, where r' = ?r and f = ?f];
        use id in \<open>simp add: live_run_def run_canceled_job_def settled_iff_not_active active_job_def\<close>)+
  define s1 where "s1 = s\<lparr>WorkerLeaseIdentities := filter (\<lambda>(id', i). case map_of (Jobs s) id' of None \<Rightarrow> True
        | Some j \<Rightarrow> \<not> (job_RunID j = runID \<and> active_job j)) (WorkerLeaseIdentities s), Jobs := map_vals ?f (Jobs s)\<rparr>"
  have s1: "Runs s1 = Runs s" "Jobs s1 = map_vals ?f (Jobs s)" "HumanTasks s1 = HumanTasks s"
    "Events s1 = Events s" "Sequence s1 = Sequence s" "AdmissionOutcomes s1 = AdmissionOutcomes s"
    by (simp_all add: s1_def)
  let ?s2 = "fold (cancel_run_task runID now) (HumanTasks s1) s1"
  have "only_tasks s1 ?s2"
    by (rule only_tasks_loop) (use store_okD(2) [OF ok] s1 cancel_run_task_step in auto)
  then have "good N s (?s2\<lparr>Runs := put runID ?r (Runs ?s2)\<rparr>)"
    using ended s1 by (intro goodI [OF ok]) (auto simp: only_tasks_def events_grow_def intro: outcomes_kept_same)
  moreover have "t = appendEvent (?s2\<lparr>Runs := put runID ?r (Runs ?s2)\<rparr>) runID ''run_canceled''
      (eventPayload (run_CorrelationID ?r) [(''reason'', JString reason)]) now"
    using tx r unfolding cancel_run_tx_def Let_def s1_def by (auto split: if_splits)
  ultimately show ?thesis by (simp add: good_event)
qed

lemma expire_jobs_fold:
  fixes s :: snapshot and stuckBefore now :: time and runID :: string
  assumes keys: "go_map_ok (Jobs s)" and ok: "tasks_ok (HumanTasks s)"
  defines "f \<equiv> \<lambda>k j. if \<not> (job_RunID j \<noteq> runID \<or> job_State j = JobSucceeded \<or> job_State j = JobFailed)
      then expired_job stuckBefore j now else j"
  defines "u \<equiv> fold (expire_job_entry stuckBefore now runID) (Jobs s) s"
  shows "Runs u = Runs s" "Jobs u = map_vals f (Jobs s)" "only_tasks (s\<lparr>Jobs := map_vals f (Jobs s)\<rparr>) u"
proof -
  let ?hit = "\<lambda>k j. \<not> (job_RunID j \<noteq> runID \<or> job_State j = JobSucceeded \<or> job_State j = JobFailed)"
  let ?jf = "\<lambda>(k, j) acc. if ?hit k j then put k (expired_job stuckBefore j now) acc else acc"
  have step: "only_tasks (w\<lparr>Jobs := ?jf e (Jobs w)\<rparr>) (expire_job_entry stuckBefore now runID e w)"
    if "tasks_ok (HumanTasks w)" for e w
  proof (cases "?hit (fst e) (snd e)")
    case True
    have "only_tasks v (cancelHeldHumanTasksInSnapshot v a b c now)" if "tasks_ok (HumanTasks v)" for v a b c
      using cancelHeld_step [OF that] .
    then show ?thesis
      using True that by (simp add: expire_job_entry_def Let_def case_prod_beta)
  next
    case False
    then show ?thesis using that by (auto simp: expire_job_entry_def case_prod_beta intro: only_tasks_refl)
  qed
  have "only_tasks (w\<lparr>Jobs := fold ?jf es (Jobs w)\<rparr>) (fold (expire_job_entry stuckBefore now runID) es w)"
    if "tasks_ok (HumanTasks w)" for es w
    using that
  proof (induction es arbitrary: w)
    case (Cons e es)
    let ?v = "expire_job_entry stuckBefore now runID e w"
    have v: "only_tasks (w\<lparr>Jobs := ?jf e (Jobs w)\<rparr>) ?v" by (rule step [OF Cons.prems])
    have "only_tasks (?v\<lparr>Jobs := fold ?jf es (Jobs ?v)\<rparr>) (fold (expire_job_entry stuckBefore now runID) es ?v)"
      by (rule Cons.IH) (rule only_tasksD [OF v])
    moreover have "only_tasks (w\<lparr>Jobs := fold ?jf (e # es) (Jobs w)\<rparr>) (?v\<lparr>Jobs := fold ?jf es (Jobs ?v)\<rparr>)"
      using v by (simp add: only_tasks_def events_grow_def)
    ultimately show ?case using only_tasks_trans by simp
  qed (simp add: only_tasks_refl)
  from this [OF ok, of "Jobs s"] show "only_tasks (s\<lparr>Jobs := map_vals f (Jobs s)\<rparr>) u"
    unfolding u_def f_def fold_put_map_vals [OF keys, of ?hit "\<lambda>k j. expired_job stuckBefore j now"] .
  then show "Runs u = Runs s" "Jobs u = map_vals f (Jobs s)" by (simp_all add: only_tasks_def)
qed

lemma good_expire_run:
  assumes ok: "store_ok s" and r: "map_of (Runs s) k = Some r"
  shows "good N s (fst (expire_run_entry stuckBefore now (k, r) (s, n))) \<and>
    (\<forall>k'. k' \<noteq> k \<longrightarrow> map_of (Runs (fst (expire_run_entry stuckBefore now (k, r) (s, n)))) k' = map_of (Runs s) k')"
proof (cases "stuck_run stuckBefore s k r")
  case False
  then show ?thesis by (simp add: expire_run_entry_def good_refl [OF ok])
next
  case True
  have id: "run_ID r = k" using coherentD(3) [OF store_okD(1) [OF ok]] r by (rule keyed_byD)
  let ?r = "r\<lparr>run_State := RunExpired, run_UpdatedAt := now\<rparr>"
  let ?s1 = "s\<lparr>Runs := put k ?r (Runs s)\<rparr>"
  let ?f = "\<lambda>k' j. if \<not> (job_RunID j \<noteq> k \<or> job_State j = JobSucceeded \<or> job_State j = JobFailed)
      then expired_job stuckBefore j now else j"
  let ?u = "fold (expire_job_entry stuckBefore now k) (Jobs ?s1) ?s1"
  have ended: "coherent (put k ?r (Runs s)) (map_vals ?f (Jobs s))" "kept N (Jobs s) (map_vals ?f (Jobs s))"
    by (rule end_run_step [OF ok r, where r' = ?r and f = ?f];
        use id in \<open>auto simp: live_run_def expired_job_def settled_job_def\<close>)+
  have u: "Runs ?u = Runs ?s1" "Jobs ?u = map_vals ?f (Jobs s)" "only_tasks (?s1\<lparr>Jobs := map_vals ?f (Jobs s)\<rparr>) ?u"
    using expire_jobs_fold [where s = ?s1 and runID = k and stuckBefore = stuckBefore and now = now] coherentD(2) [OF store_okD(1) [OF ok]] store_okD(2) [OF ok] by simp_all
  have "good N s ?u"
    using u ended by (intro goodI [OF ok]) (auto simp: only_tasks_def events_grow_def intro: outcomes_kept_same)
  then show ?thesis
    using True u(1) by (simp add: expire_run_entry_def Let_def)
qed

lemma good_expire_stuck:
  assumes ok: "store_ok s" and tx: "expire_stuck_tx stuckBefore now s = Inr (t, n)"
  shows "good N s t"
proof -
  have keys: "go_map_ok (Runs s)" by (rule coherentD(1) [OF store_okD(1) [OF ok]])
  have "good N s (fst (fold (expire_run_entry stuckBefore now) (Runs s) (s, 0)))"
  proof (rule fold_entries [where look = "\<lambda>acc. map_of (Runs (fst acc))"])
    show "go_map_ok (Runs s)" by (rule keys)
    show "\<forall>(k, v) \<in> set (Runs s). map_of (Runs (fst (s, 0 :: nat))) k = Some v"
      using go_map_entries [OF keys] by simp
    show "good N s (fst (s, 0 :: nat))" by (simp add: good_refl [OF ok])
    show "good N s (fst (expire_run_entry stuckBefore now (k, v) u)) \<and>
        (\<forall>k'. k' \<noteq> k \<longrightarrow> map_of (Runs (fst (expire_run_entry stuckBefore now (k, v) u))) k' = map_of (Runs (fst u)) k')"
      if u: "good N s (fst u)" "map_of (Runs (fst u)) k = Some v" for k v and u :: "snapshot \<times> nat"
      using good_expire_run [OF goodD [OF u(1)] u(2), of _ stuckBefore now "snd u"] good_trans [OF u(1)] by simp
  qed
  then show ?thesis using tx by (simp add: expire_stuck_tx_def)
qed

text \<open>Pruning removes settled runs with everything that belongs to them; what is left is still coherent.\<close>

lemma ok_prune:
  assumes ok: "store_ok s" and tx: "prune_tx a b s = Inr (t, n)"
  shows "store_ok t"
proof (cases "filter (\<lambda>(id', r). prunable a b r) (Runs s) = []")
  case True
  then show ?thesis using tx ok by (simp add: prune_tx_def)
next
  case False
  let ?D = "set (map fst (filter (\<lambda>(id', r). prunable a b r) (Runs s)))"
  have "coherent (filter (\<lambda>(k, r). k \<notin> ?D) (Runs s)) (filter (\<lambda>(k, j). job_RunID j \<notin> ?D) (Jobs s))"
    by (rule coherent_drop_runs [OF store_okD(1) [OF ok]])
  moreover have "tasks_ok (filter (\<lambda>(k, h). ht_RunID h \<notin> ?D) (HumanTasks s))"
    using store_okD(2) [OF ok] map_of_filter_ok [of "HumanTasks s" "\<lambda>k h. ht_RunID h \<notin> ?D"]
    by (auto simp: tasks_ok_def keyed_by_def split: option.splits if_splits)
  moreover have "events_ok t"
    using tx False by (auto simp: prune_tx_def Let_def intro!: events_ok_filter [OF store_okD(3) [OF ok]])
  ultimately show ?thesis
    using tx False by (auto simp: prune_tx_def Let_def store_ok_def)
qed

lemma good_map_same:
  assumes ok: "store_ok s" and same: "\<And>k j. map_of (Jobs s) k = Some j \<Longrightarrow> same_job j (f k j)"
    and "Runs t = Runs s" "Jobs t = map_vals f (Jobs s)" "HumanTasks t = HumanTasks s" "Events t = Events s"
    "Sequence t = Sequence s" "AdmissionOutcomes t = AdmissionOutcomes s"
  shows "good N s t"
  using coherent_map_jobs [OF store_okD(1) [OF ok] same] kept_map_vals [OF same_jobD(1) [OF same]] assms(3-)
  by (intro good_jobs [OF ok]) auto

lemma good_set_lifecycle:
  assumes ok: "store_ok s" and tx: "set_lifecycle request now s = Inr (t, a)"
  shows "good N s t"
proof -
  let ?f = "\<lambda>k j. if sar_State request = AppRuntimeRevoked \<and> revoke_hits request j then revoked_job request now j else j"
  have "Jobs t = map_vals ?f (Jobs s) \<and> Runs t = Runs s \<and> HumanTasks t = HumanTasks s \<and> Events t = Events s \<and>
      Sequence t = Sequence s \<and> AdmissionOutcomes t = AdmissionOutcomes s"
    using tx by (auto simp: set_lifecycle_def Let_def map_vals_def split: if_splits)
  then show ?thesis
    by (intro good_map_same [OF ok, of ?f]) (auto simp: same_job_def revoked_job_def)
qed

lemma good_append_logs:
  "store_ok s \<Longrightarrow> append_logs jobID w chunk now s = Inr (t, a) \<Longrightarrow> good N s t"
  by (auto simp: append_logs_def Let_def intro!: good_other outcomes_kept_same split: option.splits)

lemma good_resolve_admission:
  assumes ok: "store_ok s" and tx: "resolve_admission s w a f actor now = Inr (t, out)"
  shows "good N s t"
  by (rule good_other [OF ok])
    (use tx resolve_outcomes_kept [OF tx] in \<open>auto simp: resolve_admission_def Let_def split: option.splits if_splits\<close>)

end
