(* ===== verification/Policies.thy ===== *)
theory Policies
  imports Store ExecLimits
begin

text \<open>
  Operator policies for execution limits: \<^verbatim>\<open>internal/state/execution_limit_policy.go\<close> and
  \<^verbatim>\<open>internal/state/local_execution_limit_policy.go\<close>. A policy lowers a limit that a release declares. It
  is changed by compare and swap on its revision, a repeated request is answered from the stored policy, and
  a deleted policy leaves a tombstone that keeps its revision.
\<close>

declare map_of_eq_Some_iff [simp del] Some_eq_map_of_iff [simp del]

section \<open>Requests\<close>

record mutate_execution_limit_policy_request =
  mlp_Policy :: execution_limit_policy
  mlp_ExpectedRevision :: int
  mlp_OperationID :: string
  mlp_RequestFingerprint :: string
  mlp_Delete :: bool
  mlp_Actor :: string
  mlp_Reason :: string

record execution_limit_policy_mutation_result =
  mlr_Policy :: execution_limit_policy
  mlr_Replayed :: bool

definition NormalizeExecutionLimitPolicyKey :: "execution_limit_policy_key \<Rightarrow> execution_limit_policy_key res" where
  "NormalizeExecutionLimitPolicyKey key0 =
     (let key = \<lparr>lpk_WorkspaceID = NormalizeWorkspace (lpk_WorkspaceID key0), lpk_AppKey = trim (lpk_AppKey key0),
            lpk_ActionKey = trim (lpk_ActionKey key0), lpk_Scope = trim (lpk_Scope key0),
            lpk_PolicyID = trim (lpk_PolicyID key0), lpk_Kind = trim (lpk_Kind key0)\<rparr>
      in if lpk_AppKey key = [] \<or> CleanID (lpk_AppKey key) \<noteq> lpk_AppKey key \<or>
            lpk_PolicyID key = [] \<or> CleanID (lpk_PolicyID key) \<noteq> lpk_PolicyID key then Inl ErrInvalidState
         else if lpk_Scope key \<noteq> ScopeAppName \<and> lpk_Scope key \<noteq> ScopeActionName then Inl ErrInvalidState
         else if lpk_Scope key = ScopeActionName \<and>
            (lpk_ActionKey key = [] \<or> CleanID (lpk_ActionKey key) \<noteq> lpk_ActionKey key) then Inl ErrInvalidState
         else
           let key = (if lpk_Scope key = ScopeActionName then key else key\<lparr>lpk_ActionKey := []\<rparr>)
           in if lpk_Kind key \<noteq> KindConcurrency \<and> lpk_Kind key \<noteq> KindRate then Inl ErrInvalidState
              else Inr key)"

definition NormalizeExecutionLimitPolicyMutation ::
  "mutate_execution_limit_policy_request \<Rightarrow> mutate_execution_limit_policy_request res" where
  "NormalizeExecutionLimitPolicyMutation request0 =
     bind_res (NormalizeExecutionLimitPolicyKey (lp_Key (mlp_Policy request0))) (\<lambda>key.
       let policy = (mlp_Policy request0)\<lparr>lp_Key := key,
             lp_ShapeFingerprint := trim (lp_ShapeFingerprint (mlp_Policy request0))\<rparr>;
           request = request0\<lparr>mlp_Policy := policy, mlp_OperationID := trim (mlp_OperationID request0),
             mlp_RequestFingerprint := trim (mlp_RequestFingerprint request0),
             mlp_Actor := trim (mlp_Actor request0), mlp_Reason := trim (mlp_Reason request0)\<rparr>
       in if \<not> IsFingerprint (lp_ShapeFingerprint policy) \<or> mlp_ExpectedRevision request < 0 \<or>
             mlp_OperationID request = [] \<or> 128 < length (mlp_OperationID request) \<or>
             CleanID (mlp_OperationID request) \<noteq> mlp_OperationID request \<or>
             mlp_RequestFingerprint request = [] then Inl ErrInvalidState
          else if 256 < length (mlp_RequestFingerprint request) \<or> 1024 < length (mlp_Reason request)
          then Inl ErrInvalidState
          else if \<not> mlp_Delete request \<and> lp_Allowance policy \<le> 0 then Inl ErrInvalidState
          else if lpk_Kind key = KindConcurrency \<and> lp_WindowSeconds policy \<noteq> 0 then Inl ErrInvalidState
          else if lpk_Kind key = KindRate \<and> lp_WindowSeconds policy \<le> 0 then Inl ErrInvalidState
          else Inr (if mlp_Delete request then request\<lparr>mlp_Policy := policy\<lparr>lp_Allowance := 0\<rparr>\<rparr> else request))"

definition request_key :: "mutate_execution_limit_policy_request \<Rightarrow> string" where
  "request_key request = executionLimitPolicyStorageKey (lp_Key (mlp_Policy request))"

fun normalize_batch ::
  "string list \<Rightarrow> mutate_execution_limit_policy_request list \<Rightarrow> mutate_execution_limit_policy_request list res" where
  "normalize_batch seen [] = Inr []"
| "normalize_batch seen (request # requests) =
     bind_res (NormalizeExecutionLimitPolicyMutation request) (\<lambda>item.
       if request_key item \<in> set seen then Inl ErrInvalidState
       else bind_res (normalize_batch (request_key item # seen) requests) (\<lambda>items. Inr (item # items)))"

definition normalizeExecutionLimitPolicyBatch ::
  "mutate_execution_limit_policy_request list \<Rightarrow> mutate_execution_limit_policy_request list res" where
  "normalizeExecutionLimitPolicyBatch requests = normalize_batch [] requests"

section \<open>Mutations\<close>

definition executionLimitPolicyAuditKey :: "string \<Rightarrow> string \<Rightarrow> string" where
  "executionLimitPolicyAuditKey workspaceID appKey = NormalizeWorkspace workspaceID @ [unit_sep] @ trim appKey"

definition changed_policy :: "mutate_execution_limit_policy_request \<Rightarrow> time \<Rightarrow> execution_limit_policy" where
  "changed_policy request now = (mlp_Policy request)\<lparr>lp_Revision := mlp_ExpectedRevision request + 1,
     lp_Deleted := mlp_Delete request, lp_LastOperationID := mlp_OperationID request,
     lp_LastRequestFingerprint := mlp_RequestFingerprint request, lp_UpdatedBy := mlp_Actor request,
     lp_UpdatedAt := now\<rparr>"

definition policy_audit ::
  "rnd \<Rightarrow> mutate_execution_limit_policy_request \<Rightarrow> execution_limit_policy option \<Rightarrow> execution_limit_policy \<Rightarrow>
   time \<Rightarrow> execution_limit_policy_audit" where
  "policy_audit rnd request current result now =
     (let live = (case current of Some c \<Rightarrow> \<not> lp_Deleted c | None \<Rightarrow> False)
      in \<lparr>lpa_ID = NewID rnd ''audit'' (''audit/'' @ request_key request), lpa_Key = lp_Key result,
          lpa_EventKind = (if mlp_Delete request then ''deleted'' else if live then ''updated'' else ''created''),
          lpa_ShapeFingerprint = lp_ShapeFingerprint result,
          lpa_PreviousAllowance = (if live then map_option lp_Allowance current else None),
          lpa_Allowance = (if mlp_Delete request then None else Some (lp_Allowance result)),
          lpa_Revision = lp_Revision result, lpa_OperationID = mlp_OperationID request,
          lpa_Reason = mlp_Reason request, lpa_Actor = mlp_Actor request, lpa_CreatedAt = now\<rparr>)"

definition applyLocalExecutionLimitPolicyMutation ::
  "rnd \<Rightarrow> mutate_execution_limit_policy_request \<Rightarrow> time \<Rightarrow> snapshot \<Rightarrow>
   (snapshot \<times> execution_limit_policy \<times> bool) res" where
  "applyLocalExecutionLimitPolicyMutation rnd request now s =
     (let storageKey = request_key request;
          current = map_of (ExecutionLimitPolicies s) storageKey;
          store = (let result = changed_policy request now
            in Inr (s\<lparr>ExecutionLimitPolicies := put storageKey result (ExecutionLimitPolicies s),
                 ExecutionLimitAudits :=
                   append_under (executionLimitPolicyAuditKey (lpk_WorkspaceID (lp_Key result)) (lpk_AppKey (lp_Key result)))
                     (policy_audit rnd request current result now) (ExecutionLimitAudits s)\<rparr>, result, False))
      in case current of
           None \<Rightarrow> if mlp_ExpectedRevision request \<noteq> 0 then Inl ErrConflict else store
         | Some c \<Rightarrow>
             if lp_LastOperationID c = mlp_OperationID request
             then (if lp_LastRequestFingerprint c \<noteq> mlp_RequestFingerprint request then Inl ErrConflict
                   else Inr (s, c, True))
             else if lp_Revision c \<noteq> mlp_ExpectedRevision request then Inl ErrConflict
             else if \<not> lp_Deleted c \<and> lp_ShapeFingerprint c \<noteq> lp_ShapeFingerprint (mlp_Policy request)
             then Inl ErrConflict
             else store)"

definition MutateExecutionLimitPolicy ::
  "rnd \<Rightarrow> time \<Rightarrow> mutate_execution_limit_policy_request \<Rightarrow> snapshot \<Rightarrow>
   (snapshot \<times> execution_limit_policy \<times> bool) res" where
  "MutateExecutionLimitPolicy rnd now request s =
     bind_res (NormalizeExecutionLimitPolicyMutation request) (\<lambda>request.
       updateWithClock rnd now s (applyLocalExecutionLimitPolicyMutation rnd request now))"

fun mutate_batch ::
  "rnd \<Rightarrow> time \<Rightarrow> mutate_execution_limit_policy_request list \<Rightarrow> snapshot \<Rightarrow>
   (snapshot \<times> execution_limit_policy_mutation_result list) res" where
  "mutate_batch rnd now [] s = Inr (s, [])"
| "mutate_batch rnd now (request # requests) s =
     bind_res (applyLocalExecutionLimitPolicyMutation rnd request now s) (\<lambda>(s1, policy, replayed).
     bind_res (mutate_batch rnd now requests s1) (\<lambda>(s2, results).
       Inr (s2, \<lparr>mlr_Policy = policy, mlr_Replayed = replayed\<rparr> # results)))"

definition MutateExecutionLimitPolicies ::
  "rnd \<Rightarrow> time \<Rightarrow> mutate_execution_limit_policy_request list \<Rightarrow> snapshot \<Rightarrow>
   (snapshot \<times> execution_limit_policy_mutation_result list) res" where
  "MutateExecutionLimitPolicies rnd now requests s =
     bind_res (normalizeExecutionLimitPolicyBatch requests) (\<lambda>normalized.
       updateWithClock rnd now s (mutate_batch rnd now normalized))"

section \<open>Reading\<close>

definition GetExecutionLimitPolicy :: "snapshot \<Rightarrow> execution_limit_policy_key \<Rightarrow> execution_limit_policy res" where
  "GetExecutionLimitPolicy s key0 =
     bind_res (NormalizeExecutionLimitPolicyKey key0) (\<lambda>key.
       case map_of (ExecutionLimitPolicies s) (executionLimitPolicyStorageKey key) of
         None \<Rightarrow> Inl ErrNotFound
       | Some policy \<Rightarrow> if lp_Deleted policy then Inl ErrNotFound else Inr policy)"

definition policy_less :: "execution_limit_policy \<Rightarrow> execution_limit_policy \<Rightarrow> bool" where
  "policy_less p q \<longleftrightarrow>
     (let a = lp_Key p; b = lp_Key q
      in if lpk_Scope a \<noteq> lpk_Scope b then lpk_Scope a < lpk_Scope b
         else if lpk_ActionKey a \<noteq> lpk_ActionKey b then lpk_ActionKey a < lpk_ActionKey b
         else if lpk_Kind a \<noteq> lpk_Kind b then lpk_Kind a < lpk_Kind b
         else lpk_PolicyID a < lpk_PolicyID b)"

definition ListExecutionLimitPolicies :: "snapshot \<Rightarrow> string \<Rightarrow> string \<Rightarrow> execution_limit_policy list" where
  "ListExecutionLimitPolicies s workspaceID appKey =
     sort_by policy_less (filter (\<lambda>policy.
       lpk_WorkspaceID (lp_Key policy) = NormalizeWorkspace workspaceID \<and>
       (trim appKey = [] \<or> lpk_AppKey (lp_Key policy) = trim appKey) \<and> \<not> lp_Deleted policy)
       (map snd (ExecutionLimitPolicies s)))"

definition audit_less :: "execution_limit_policy_audit \<Rightarrow> execution_limit_policy_audit \<Rightarrow> bool" where
  "audit_less a b \<longleftrightarrow>
     (if lpa_CreatedAt a \<noteq> lpa_CreatedAt b then lpa_CreatedAt a < lpa_CreatedAt b else lpa_ID a < lpa_ID b)"

definition ListExecutionLimitPolicyAudit :: "snapshot \<Rightarrow> string \<Rightarrow> string \<Rightarrow> execution_limit_policy_audit list" where
  "ListExecutionLimitPolicyAudit s workspaceID appKey =
     sort_by audit_less
       (if trim appKey \<noteq> []
        then (case map_of (ExecutionLimitAudits s) (executionLimitPolicyAuditKey (NormalizeWorkspace workspaceID) (trim appKey))
              of Some records \<Rightarrow> records | None \<Rightarrow> [])
        else filter (\<lambda>record. lpk_WorkspaceID (lpa_Key record) = NormalizeWorkspace workspaceID)
          (concat (map snd (ExecutionLimitAudits s))))"

section \<open>One mutation\<close>

lemma mutation_cases:
  assumes "applyLocalExecutionLimitPolicyMutation rnd request now s = Inr (t, p, replayed)"
  shows "if replayed then t = s \<and> map_of (ExecutionLimitPolicies s) (request_key request) = Some p \<and>
      lp_LastOperationID p = mlp_OperationID request \<and> lp_LastRequestFingerprint p = mlp_RequestFingerprint request
    else p = changed_policy request now \<and>
      (\<exists>audits. t = s\<lparr>ExecutionLimitPolicies := put (request_key request) p (ExecutionLimitPolicies s),
        ExecutionLimitAudits := audits\<rparr>) \<and>
      (case map_of (ExecutionLimitPolicies s) (request_key request) of
         None \<Rightarrow> mlp_ExpectedRevision request = 0
       | Some c \<Rightarrow> lp_Revision c = mlp_ExpectedRevision request \<and> lp_LastOperationID c \<noteq> mlp_OperationID request)"
  using assms
  by (auto simp: applyLocalExecutionLimitPolicyMutation_def Let_def split: if_splits option.splits)

text \<open>A mutation reads and writes the policy under its own key only.\<close>

lemma mutation_reads:
  assumes "map_of (ExecutionLimitPolicies s') (request_key request) = map_of (ExecutionLimitPolicies s) (request_key request)"
    and "applyLocalExecutionLimitPolicyMutation rnd request now s = Inr (t, p, replayed)"
  shows "\<exists>t'. applyLocalExecutionLimitPolicyMutation rnd request now s' = Inr (t', p, replayed)"
  using assms
  by (auto simp: applyLocalExecutionLimitPolicyMutation_def Let_def split: if_splits option.splits)

lemma mutation_policies:
  assumes "applyLocalExecutionLimitPolicyMutation rnd request now s = Inr (t, p, replayed)"
  shows "map_of (ExecutionLimitPolicies t) k =
    (if k = request_key request then Some p else map_of (ExecutionLimitPolicies s) k)"
  using mutation_cases [OF assms] by (auto split: if_splits)

lemma changed_policy_fields [simp]:
  "lp_Revision (changed_policy r now) = mlp_ExpectedRevision r + 1"
  "lp_Deleted (changed_policy r now) = mlp_Delete r"
  "lp_LastOperationID (changed_policy r now) = mlp_OperationID r"
  "lp_LastRequestFingerprint (changed_policy r now) = mlp_RequestFingerprint r"
  "lp_Key (changed_policy r now) = lp_Key (mlp_Policy r)"
  "lp_Allowance (changed_policy r now) = lp_Allowance (mlp_Policy r)"
  "lp_ShapeFingerprint (changed_policy r now) = lp_ShapeFingerprint (mlp_Policy r)"
  by (simp_all add: changed_policy_def)

section \<open>Batches\<close>

lemma normalize_batch_keys:
  "normalize_batch seen requests = Inr items \<Longrightarrow>
   distinct (map request_key items) \<and> set (map request_key items) \<inter> set seen = {} \<and>
   list_all2 (\<lambda>r i. NormalizeExecutionLimitPolicyMutation r = Inr i) requests items"
proof (induction requests arbitrary: seen items)
  case (Cons r rs)
  then obtain i xs where "NormalizeExecutionLimitPolicyMutation r = Inr i" "request_key i \<notin> set seen"
    "normalize_batch (request_key i # seen) rs = Inr xs" "items = i # xs"
    by (auto split: if_splits)
  with Cons.IH [of "request_key i # seen" xs] show ?case by auto
qed simp

text \<open>A batch over distinct policies is its requests, each run on the file the batch started from.\<close>

lemma mutate_batch_single:
  assumes "mutate_batch rnd now requests s = Inr (t, results)" and "distinct (map request_key requests)"
  shows "list_all2 (\<lambda>r x. \<exists>u. applyLocalExecutionLimitPolicyMutation rnd r now s = Inr (u, mlr_Policy x, mlr_Replayed x) \<and>
      map_of (ExecutionLimitPolicies t) (request_key r) = Some (mlr_Policy x)) requests results \<and>
    (\<forall>k. k \<notin> request_key ` set requests \<longrightarrow>
      map_of (ExecutionLimitPolicies t) k = map_of (ExecutionLimitPolicies s) k)"
  using assms
proof (induction requests arbitrary: s results)
  case (Cons r rs)
  obtain s1 p b xs where one: "applyLocalExecutionLimitPolicyMutation rnd r now s = Inr (s1, p, b)"
    and rest: "mutate_batch rnd now rs s1 = Inr (t, xs)" and x: "results = \<lparr>mlr_Policy = p, mlr_Replayed = b\<rparr> # xs"
    using Cons.prems(1) by auto
  note p1 = mutation_policies [OF one]
  have ih: "list_all2 (\<lambda>r x. \<exists>u. applyLocalExecutionLimitPolicyMutation rnd r now s1 = Inr (u, mlr_Policy x, mlr_Replayed x) \<and>
      map_of (ExecutionLimitPolicies t) (request_key r) = Some (mlr_Policy x)) rs xs"
    and frame: "\<And>k. k \<notin> request_key ` set rs \<Longrightarrow> map_of (ExecutionLimitPolicies t) k = map_of (ExecutionLimitPolicies s1) k"
    using Cons.IH [OF rest] Cons.prems(2) by auto
  have "list_all2 (\<lambda>r x. \<exists>u. applyLocalExecutionLimitPolicyMutation rnd r now s = Inr (u, mlr_Policy x, mlr_Replayed x) \<and>
      map_of (ExecutionLimitPolicies t) (request_key r) = Some (mlr_Policy x)) rs xs"
  proof (rule list.rel_mono_strong [OF ih])
    fix r' y
    assume r': "r' \<in> set rs" and y: "\<exists>u. applyLocalExecutionLimitPolicyMutation rnd r' now s1 = Inr (u, mlr_Policy y, mlr_Replayed y) \<and>
      map_of (ExecutionLimitPolicies t) (request_key r') = Some (mlr_Policy y)"
    have "request_key r' \<noteq> request_key r" using Cons.prems(2) r' by (metis distinct.simps(2) image_eqI list.set_map list.simps(9))
    then show "\<exists>u. applyLocalExecutionLimitPolicyMutation rnd r' now s = Inr (u, mlr_Policy y, mlr_Replayed y) \<and>
      map_of (ExecutionLimitPolicies t) (request_key r') = Some (mlr_Policy y)"
      using y mutation_reads [of s r' s1 rnd now] p1 by auto
  qed
  moreover have "map_of (ExecutionLimitPolicies t) (request_key r) = Some p"
    using frame [of "request_key r"] Cons.prems(2) p1 by auto
  ultimately show ?case
    using one frame p1 by (auto simp: x)
qed simp

lemma mutate_batch_total:
  assumes "\<And>r. r \<in> set requests \<Longrightarrow> \<exists>u p b. applyLocalExecutionLimitPolicyMutation rnd r now s = Inr (u, p, b)"
    and "distinct (map request_key requests)"
  shows "\<exists>t results. mutate_batch rnd now requests s = Inr (t, results)"
  using assms
proof (induction requests arbitrary: s)
  case (Cons r rs)
  obtain s1 p b where one: "applyLocalExecutionLimitPolicyMutation rnd r now s = Inr (s1, p, b)"
    using Cons.prems(1) by force
  have "\<exists>u p b. applyLocalExecutionLimitPolicyMutation rnd r' now s1 = Inr (u, p, b)" if r': "r' \<in> set rs" for r'
  proof -
    have "request_key r' \<noteq> request_key r" using Cons.prems(2) r' by (metis distinct.simps(2) image_eqI list.set_map list.simps(9))
    then show ?thesis
      using mutation_reads [of s1 r' s rnd now] mutation_policies [OF one] Cons.prems(1) [of r'] r' by fastforce
  qed
  then show ?case using Cons.IH [of s1] Cons.prems(2) one by fastforce
qed simp

text \<open>A policy only lowers a limit: it matches the shape it was made for, and its allowance is positive.\<close>

lemma normalized_allowance:
  "NormalizeExecutionLimitPolicyMutation r = Inr i \<Longrightarrow>
   IsFingerprint (lp_ShapeFingerprint (mlp_Policy i)) \<and> 0 \<le> mlp_ExpectedRevision i \<and>
   (if mlp_Delete i then lp_Allowance (mlp_Policy i) = 0 else 0 < lp_Allowance (mlp_Policy i))"
  by (auto simp: NormalizeExecutionLimitPolicyMutation_def Let_def split: if_splits)

end
