(* ===== verification/Webhooks.thy ===== *)
theory Webhooks
  imports Store
begin

text \<open>
  Webhook subscriptions and their deliveries in the local store: \<^verbatim>\<open>internal/state/local_webhook.go\<close>, the
  subscription part of \<^verbatim>\<open>internal/state/webhook.go\<close>, and the validation of \<^verbatim>\<open>internal/webhook/webhook.go\<close>.
  A delivery is claimed under a lease (owner, attempt, deadline) by a dispatcher, and is completed or retried
  under that lease. \<open>net/url.Parse\<close> and \<open>net/netip.ParseAddr\<close> are arguments, of type \<open>net\<close>: the store
  keeps the text of an endpoint and uses only the few components of \<open>parsed_url\<close>.
\<close>

declare map_of_eq_Some_iff [simp del] Some_eq_map_of_iff [simp del]

section \<open>Data\<close>

record parsed_url =
  url_Scheme :: string
  url_Host :: string
  url_Hostname :: string
  url_User :: "string option"
  url_Fragment :: string

record net =
  parse_url :: "string \<Rightarrow> parsed_url option"
  loopback_addr :: "string \<Rightarrow> bool"

record subscription =
  sub_ID :: string
  sub_WorkspaceID :: string
  sub_Name :: string
  sub_Endpoint :: string
  sub_SigningSecret :: string
  sub_EventTypes :: "string list"
  sub_AppKeys :: "string list"
  sub_Enabled :: bool
  sub_CreatedBy :: string
  sub_UpdatedBy :: string
  sub_CreatedAt :: time
  sub_UpdatedAt :: time
  sub_DeletedAt :: "time option"

record delivery_lease =
  dl_DeliveryID :: string
  dl_WorkerID :: string
  dl_Attempt :: int
  dl_ExpiresAt :: time

record claimed_delivery =
  cd_Delivery :: webhook_delivery
  cd_Event :: envelope
  cd_Subscription :: subscription
  cd_Lease :: delivery_lease

record delivery_result =
  dr_State :: delivery_state
  dr_NextAttemptAt :: time
  dr_ResponseStatus :: "int option"
  dr_LatencyMillis :: "int option"
  dr_ErrorSummary :: "string option"
  dr_CompletedAt :: time

record delivery_detail =
  dd_Delivery :: webhook_delivery
  dd_Event :: envelope
  dd_SubscriptionName :: string

record delivery_list_query =
  dq_SubscriptionID :: string
  dq_State :: "delivery_state option"
  dq_Limit :: int
  dq_CursorCreatedAt :: time
  dq_CursorID :: string

record queue_stats =
  qs_PendingCount :: nat
  qs_OldestPending :: "time option"

record retention_policy =
  rp_SucceededBefore :: time
  rp_CanceledBefore :: time
  rp_FailedBefore :: time
  rp_SubscriptionBefore :: time
  rp_BatchSize :: int

record retention_result =
  rr_Deliveries :: nat
  rr_Events :: nat
  rr_Subscriptions :: nat

section \<open>Validation\<close>

definition isLoopbackHost :: "net \<Rightarrow> string \<Rightarrow> bool" where
  "isLoopbackHost net host0 =
     (let low = to_lower (trim host0);
          host = (if low \<noteq> [] \<and> last low = CHR ''.'' then butlast low else low)
      in host = ''localhost'' \<or> loopback_addr net host)"

definition validateEndpoint :: "net \<Rightarrow> string \<Rightarrow> bool \<Rightarrow> bool \<Rightarrow> parsed_url res" where
  "validateEndpoint net raw allowHTTPLoopback allowHTTPNonLoopback =
     (case parse_url net (trim raw) of
        None \<Rightarrow> Inl WebhookErrInvalid
      | Some parsed \<Rightarrow>
          if url_Scheme parsed \<noteq> ''https'' \<and>
             \<not> (url_Scheme parsed = ''http'' \<and>
                (allowHTTPNonLoopback \<or> (allowHTTPLoopback \<and> isLoopbackHost net (url_Hostname parsed))))
          then Inl WebhookErrInvalid
          else if url_Hostname parsed = [] then Inl WebhookErrInvalid
          else if url_User parsed \<noteq> None then Inl WebhookErrInvalid
          else if url_Fragment parsed \<noteq> [] then Inl WebhookErrInvalid
          else Inr parsed)"

definition ReleasePublishedType :: string where "ReleasePublishedType = ''windforce.release.published''"
definition ReleaseRolledBackType :: string where "ReleaseRolledBackType = ''windforce.release.rolled_back''"
definition WebhookTestType :: string where "WebhookTestType = ''windforce.webhook.test''"

definition ValidateSubscription :: "net \<Rightarrow> subscription \<Rightarrow> unit res" where
  "ValidateSubscription net sub =
     (if trim (sub_Name sub) = [] then Inl WebhookErrInvalid
      else bind_res (validateEndpoint net (sub_Endpoint sub) True False) (\<lambda>_.
        if length (sub_SigningSecret sub) < 16 then Inl WebhookErrInvalid
        else if sub_EventTypes sub = [] then Inl WebhookErrInvalid
        else if list_all (\<lambda>t. t \<in> set ([ReleasePublishedType, ReleaseRolledBackType] @ lifecycle_types)) (sub_EventTypes sub)
        then Inr () else Inl WebhookErrInvalid))"

definition uniqueSorted :: "string list \<Rightarrow> string list" where
  "uniqueSorted values = sorted_set (filter (\<lambda>v. v \<noteq> []) (map trim values))"

definition NormalizeFilters :: "subscription \<Rightarrow> subscription" where
  "NormalizeFilters sub = sub\<lparr>sub_Name := trim (sub_Name sub), sub_EventTypes := uniqueSorted (sub_EventTypes sub),
     sub_AppKeys := uniqueSorted (sub_AppKeys sub)\<rparr>"

definition ValidateDeliveryResult :: "delivery_result \<Rightarrow> unit res" where
  "ValidateDeliveryResult result =
     (case dr_State result of
        DeliverySucceeded \<Rightarrow> if dr_CompletedAt result = 0 then Inl WebhookErrInvalid else Inr ()
      | DeliveryFailed \<Rightarrow> if dr_CompletedAt result = 0 then Inl WebhookErrInvalid else Inr ()
      | DeliveryCanceled \<Rightarrow> if dr_CompletedAt result = 0 then Inl WebhookErrInvalid else Inr ()
      | DeliveryRetrying \<Rightarrow> if dr_NextAttemptAt result = 0 then Inl WebhookErrInvalid else Inr ()
      | _ \<Rightarrow> Inl WebhookErrInvalid)"

section \<open>Subscriptions\<close>

definition prepareNewSubscription :: "net \<Rightarrow> rnd \<Rightarrow> subscription \<Rightarrow> time \<Rightarrow> subscription res" where
  "prepareNewSubscription net rnd sub0 now =
     (let id0 = trim (sub_ID sub0);
          id' = (if id0 = [] then NewID rnd ''whs'' ''whs'' else id0);
          actor = (if trim (sub_CreatedBy sub0) = [] then ''system'' else trim (sub_CreatedBy sub0));
          sub = NormalizeFilters (sub0\<lparr>sub_WorkspaceID := NormalizeWorkspace (sub_WorkspaceID sub0), sub_ID := id'\<rparr>)
      in if \<not> has_prefix id' ''whs_'' then Inl WebhookErrInvalid
         else bind_res (ValidateSubscription net sub) (\<lambda>_.
           Inr (sub\<lparr>sub_CreatedBy := actor, sub_UpdatedBy := actor, sub_CreatedAt := now, sub_UpdatedAt := now,
             sub_DeletedAt := None\<rparr>)))"

definition prepareUpdatedSubscription :: "net \<Rightarrow> subscription \<Rightarrow> subscription \<Rightarrow> time \<Rightarrow> subscription res" where
  "prepareUpdatedSubscription net existing update0 now =
     (let upd = NormalizeFilters (update0
            \<lparr>sub_Endpoint := (if trim (sub_Endpoint update0) = [] then sub_Endpoint existing else sub_Endpoint update0),
             sub_SigningSecret := (if sub_SigningSecret update0 = [] then sub_SigningSecret existing else sub_SigningSecret update0),
             sub_ID := sub_ID existing, sub_WorkspaceID := sub_WorkspaceID existing,
             sub_CreatedBy := sub_CreatedBy existing, sub_CreatedAt := sub_CreatedAt existing,
             sub_DeletedAt := sub_DeletedAt existing\<rparr>)
      in bind_res (ValidateSubscription net upd) (\<lambda>_.
           Inr (upd\<lparr>sub_UpdatedBy := firstNonEmpty [trim (sub_UpdatedBy update0), sub_UpdatedBy existing, ''system''],
             sub_UpdatedAt := now\<rparr>)))"

definition webhookSubscriptionKey :: "string \<Rightarrow> string \<Rightarrow> string" where
  "webhookSubscriptionKey workspaceID subscriptionID = NormalizeWorkspace workspaceID @ ''/'' @ subscriptionID"

definition subscriptionRecord :: "subscription \<Rightarrow> raw \<Rightarrow> raw \<Rightarrow> webhook_subscription" where
  "subscriptionRecord sub endpointEncrypted secretEncrypted =
     \<lparr>ws_ID = sub_ID sub, ws_WorkspaceID = sub_WorkspaceID sub, ws_Name = sub_Name sub,
      ws_EndpointEncrypted = endpointEncrypted, ws_SigningSecretEncrypted = secretEncrypted,
      ws_EventTypes = sub_EventTypes sub, ws_AppKeys = sub_AppKeys sub, ws_Enabled = sub_Enabled sub,
      ws_CreatedBy = sub_CreatedBy sub, ws_UpdatedBy = sub_UpdatedBy sub, ws_CreatedAt = sub_CreatedAt sub,
      ws_UpdatedAt = sub_UpdatedAt sub, ws_DeletedAt = sub_DeletedAt sub\<rparr>"

definition subscriptionFromRecord :: "webhook_subscription \<Rightarrow> string \<Rightarrow> string \<Rightarrow> subscription" where
  "subscriptionFromRecord record endpoint signingSecret =
     \<lparr>sub_ID = ws_ID record, sub_WorkspaceID = ws_WorkspaceID record, sub_Name = ws_Name record,
      sub_Endpoint = endpoint, sub_SigningSecret = signingSecret, sub_EventTypes = ws_EventTypes record,
      sub_AppKeys = ws_AppKeys record, sub_Enabled = ws_Enabled record, sub_CreatedBy = ws_CreatedBy record,
      sub_UpdatedBy = ws_UpdatedBy record, sub_CreatedAt = ws_CreatedAt record, sub_UpdatedAt = ws_UpdatedAt record,
      sub_DeletedAt = ws_DeletedAt record\<rparr>"

definition localSubscription :: "codec \<Rightarrow> webhook_subscription \<Rightarrow> subscription res" where
  "localSubscription cx record =
     bind_res (dec_text cx (ws_WorkspaceID record) (ws_EndpointEncrypted record)) (\<lambda>endpoint.
     bind_res (dec_text cx (ws_WorkspaceID record) (ws_SigningSecretEncrypted record)) (\<lambda>secret.
       Inr (subscriptionFromRecord record endpoint secret)))"

definition encryptLocalSubscription :: "codec \<Rightarrow> subscription \<Rightarrow> (raw \<times> raw) res" where
  "encryptLocalSubscription cx sub =
     bind_res (enc_text cx ''webhook endpoint'' (sub_WorkspaceID sub) (sub_Endpoint sub)) (\<lambda>endpoint.
     bind_res (enc_text cx ''webhook signing secret'' (sub_WorkspaceID sub) (sub_SigningSecret sub)) (\<lambda>secret.
       Inr (endpoint, secret)))"

definition newWebhookAudit :: "rnd \<Rightarrow> string \<Rightarrow> string \<Rightarrow> string \<Rightarrow> string \<Rightarrow> string \<Rightarrow> string \<Rightarrow> time \<Rightarrow> webhook_audit" where
  "newWebhookAudit rnd workspaceID subscriptionID deliveryID kind detail actor now =
     \<lparr>wa_ID = NewID rnd ''wha'' ''wha'', wa_WorkspaceID = NormalizeWorkspace workspaceID,
      wa_SubscriptionID = trim subscriptionID, wa_DeliveryID = trim deliveryID, wa_Kind = trim kind,
      wa_Detail = trim detail, wa_Actor = firstNonEmpty [trim actor, ''system''], wa_CreatedAt = now\<rparr>"

definition bool_text :: "bool \<Rightarrow> string" where
  "bool_text b = (if b then ''true'' else ''false'')"

definition webhookSubscriptionAuditDetail :: "subscription \<Rightarrow> string" where
  "webhookSubscriptionAuditDetail sub =
     ''name='' @ sub_Name sub @ ''; enabled='' @ bool_text (sub_Enabled sub) @
     ''; event_types='' @ itoa (int (length (sub_EventTypes sub))) @
     ''; app_keys='' @ itoa (int (length (sub_AppKeys sub)))"

definition webhookSubscriptionUpdateAuditDetail :: "subscription \<Rightarrow> subscription \<Rightarrow> string" where
  "webhookSubscriptionUpdateAuditDetail before after =
     ''name='' @ sub_Name after @ ''; enabled='' @ bool_text (sub_Enabled before) @ ''->'' @ bool_text (sub_Enabled after) @
     ''; event_types='' @ itoa (int (length (sub_EventTypes before))) @ ''->'' @ itoa (int (length (sub_EventTypes after))) @
     ''; app_keys='' @ itoa (int (length (sub_AppKeys before))) @ ''->'' @ itoa (int (length (sub_AppKeys after)))"

definition name_taken :: "(string \<Rightarrow> bool) \<Rightarrow> subscription \<Rightarrow> (string, webhook_subscription) gomap \<Rightarrow> bool" where
  "name_taken other sub records \<longleftrightarrow>
     list_ex (\<lambda>(key, existing). other key \<and> ws_DeletedAt existing = None \<and>
       NormalizeWorkspace (ws_WorkspaceID existing) = sub_WorkspaceID sub \<and> ws_Name existing = sub_Name sub) records"

definition create_subscription ::
  "rnd \<Rightarrow> subscription \<Rightarrow> raw \<Rightarrow> raw \<Rightarrow> time \<Rightarrow> snapshot \<Rightarrow> (snapshot \<times> unit) res" where
  "create_subscription rnd prepared endpoint secret now s =
     (let key = webhookSubscriptionKey (sub_WorkspaceID prepared) (sub_ID prepared)
      in if map_of (WebhookSubscriptions s) key \<noteq> None then Inl WebhookErrConflict
         else if name_taken (\<lambda>_. True) prepared (WebhookSubscriptions s) then Inl WebhookErrConflict
         else Inr (s\<lparr>WebhookSubscriptions := put key (subscriptionRecord prepared endpoint secret) (WebhookSubscriptions s),
           WebhookAudits := append_under (sub_WorkspaceID prepared)
             (newWebhookAudit rnd (sub_WorkspaceID prepared) (sub_ID prepared) [] ''webhook_subscription_created''
               (webhookSubscriptionAuditDetail prepared) (sub_CreatedBy prepared) now) (WebhookAudits s)\<rparr>, ()))"

definition CreateSubscription ::
  "net \<Rightarrow> codec \<Rightarrow> rnd \<Rightarrow> time \<Rightarrow> time \<Rightarrow> subscription \<Rightarrow> snapshot \<Rightarrow> (snapshot \<times> subscription) res" where
  "CreateSubscription net cx rnd preNow now sub s =
     bind_res (prepareNewSubscription net rnd sub preNow) (\<lambda>prepared.
     bind_res (encryptLocalSubscription cx prepared) (\<lambda>(endpoint, secret).
     bind_res (updateWithClock rnd now s (create_subscription rnd prepared endpoint secret now)) (\<lambda>(t, _).
       Inr (t, prepared))))"

definition update_subscription ::
  "net \<Rightarrow> codec \<Rightarrow> rnd \<Rightarrow> subscription \<Rightarrow> time \<Rightarrow> snapshot \<Rightarrow> (snapshot \<times> subscription) res" where
  "update_subscription net cx rnd upd now s =
     (let workspaceID = NormalizeWorkspace (sub_WorkspaceID upd);
          key = webhookSubscriptionKey workspaceID (sub_ID upd)
      in case map_of (WebhookSubscriptions s) key of
           None \<Rightarrow> Inl WebhookErrNotFound
         | Some current \<Rightarrow>
             if ws_DeletedAt current \<noteq> None then Inl WebhookErrNotFound
             else
               bind_res (localSubscription cx current) (\<lambda>existing.
               bind_res (prepareUpdatedSubscription net existing upd now) (\<lambda>prepared.
                 if name_taken (\<lambda>k. k \<noteq> key) prepared (WebhookSubscriptions s) then Inl WebhookErrConflict
                 else bind_res (encryptLocalSubscription cx prepared) (\<lambda>(endpoint, secret).
                   let kind = (if sub_Enabled existing \<and> \<not> sub_Enabled prepared then ''webhook_subscription_disabled''
                               else if \<not> sub_Enabled existing \<and> sub_Enabled prepared then ''webhook_subscription_enabled''
                               else ''webhook_subscription_updated'')
                   in Inr (s\<lparr>WebhookSubscriptions := put key (subscriptionRecord prepared endpoint secret) (WebhookSubscriptions s),
                        WebhookAudits := append_under (sub_WorkspaceID prepared)
                          (newWebhookAudit rnd (sub_WorkspaceID prepared) (sub_ID prepared) [] kind
                            (webhookSubscriptionUpdateAuditDetail existing prepared) (sub_UpdatedBy prepared) now)
                          (WebhookAudits s)\<rparr>, prepared)))))"

definition UpdateSubscription ::
  "net \<Rightarrow> codec \<Rightarrow> rnd \<Rightarrow> time \<Rightarrow> subscription \<Rightarrow> snapshot \<Rightarrow> (snapshot \<times> subscription) res" where
  "UpdateSubscription net cx rnd now upd s = updateWithClock rnd now s (update_subscription net cx rnd upd now)"

definition cancels :: "string \<Rightarrow> string \<Rightarrow> webhook_delivery \<Rightarrow> bool" where
  "cancels workspaceID subscriptionID d \<longleftrightarrow>
     NormalizeWorkspace (wd_WorkspaceID d) = NormalizeWorkspace workspaceID \<and> wd_SubscriptionID d = subscriptionID \<and>
     (wd_State d = DeliveryPending \<or> wd_State d = DeliveryRetrying)"

definition delete_subscription ::
  "rnd \<Rightarrow> string \<Rightarrow> string \<Rightarrow> string \<Rightarrow> time \<Rightarrow> snapshot \<Rightarrow> (snapshot \<times> unit) res" where
  "delete_subscription rnd workspaceID subscriptionID actor now s =
     (let key = webhookSubscriptionKey workspaceID subscriptionID
      in case map_of (WebhookSubscriptions s) key of
           None \<Rightarrow> Inl WebhookErrNotFound
         | Some record0 \<Rightarrow>
             if ws_DeletedAt record0 \<noteq> None then Inl WebhookErrNotFound
             else
               let record = record0\<lparr>ws_Enabled := False, ws_UpdatedBy := firstNonEmpty [trim actor, ''system''],
                     ws_UpdatedAt := now, ws_DeletedAt := Some now\<rparr>
               in Inr (s\<lparr>WebhookSubscriptions := put key record (WebhookSubscriptions s),
                    WebhookDeliveries := map_vals (\<lambda>_ d. if cancels workspaceID subscriptionID d
                      then d\<lparr>wd_State := DeliveryCanceled, wd_UpdatedAt := now, wd_CompletedAt := Some now\<rparr> else d)
                      (WebhookDeliveries s),
                    WebhookAudits := append_under (NormalizeWorkspace workspaceID)
                      (newWebhookAudit rnd workspaceID subscriptionID [] ''webhook_subscription_deleted''
                        (''name='' @ ws_Name record @ ''; subscription deleted'') actor now) (WebhookAudits s)\<rparr>, ()))"

definition DeleteSubscription ::
  "rnd \<Rightarrow> time \<Rightarrow> string \<Rightarrow> string \<Rightarrow> string \<Rightarrow> snapshot \<Rightarrow> (snapshot \<times> unit) res" where
  "DeleteSubscription rnd now workspaceID subscriptionID actor s =
     updateWithClock rnd now s (delete_subscription rnd workspaceID subscriptionID actor now)"

definition GetSubscription :: "codec \<Rightarrow> snapshot \<Rightarrow> string \<Rightarrow> string \<Rightarrow> subscription res" where
  "GetSubscription cx s workspaceID subscriptionID =
     (case map_of (WebhookSubscriptions s) (webhookSubscriptionKey workspaceID subscriptionID) of
        None \<Rightarrow> Inl WebhookErrNotFound
      | Some record \<Rightarrow> if ws_DeletedAt record \<noteq> None then Inl WebhookErrNotFound else localSubscription cx record)"

definition subscription_less :: "subscription \<Rightarrow> subscription \<Rightarrow> bool" where
  "subscription_less a b \<longleftrightarrow> (if sub_Name a = sub_Name b then sub_ID a < sub_ID b else sub_Name a < sub_Name b)"

definition listSubscriptions :: "codec \<Rightarrow> snapshot \<Rightarrow> string \<Rightarrow> bool \<Rightarrow> subscription list res" where
  "listSubscriptions cx s workspaceID includeDeleted =
     bind_res (fold_res (\<lambda>record out. bind_res (localSubscription cx record) (\<lambda>sub. Inr (out @ [sub])))
         (filter (\<lambda>record. NormalizeWorkspace (ws_WorkspaceID record) = NormalizeWorkspace workspaceID \<and>
           (includeDeleted \<or> ws_DeletedAt record = None)) (map snd (WebhookSubscriptions s))) [])
       (\<lambda>out. Inr (sort_by subscription_less out))"

section \<open>Deliveries\<close>

definition deliveryEligible :: "webhook_delivery \<Rightarrow> webhook_subscription \<Rightarrow> time \<Rightarrow> bool" where
  "deliveryEligible d sub now \<longleftrightarrow>
     ws_Enabled sub \<and> ws_DeletedAt sub = None \<and>
     (case wd_State d of
        DeliveryPending \<Rightarrow> wd_NextAttemptAt d \<le> now
      | DeliveryRetrying \<Rightarrow> wd_NextAttemptAt d \<le> now
      | DeliveryDelivering \<Rightarrow> (case wd_LeaseExpiresAt d of Some e \<Rightarrow> e \<le> now | None \<Rightarrow> False)
      | _ \<Rightarrow> False)"

definition eligible_record :: "snapshot \<Rightarrow> time \<Rightarrow> webhook_delivery \<Rightarrow> webhook_subscription option" where
  "eligible_record s now d =
     (case map_of (WebhookSubscriptions s) (webhookSubscriptionKey (wd_WorkspaceID d) (wd_SubscriptionID d)) of
        Some record \<Rightarrow> if deliveryEligible d record now then Some record else None
      | None \<Rightarrow> None)"

definition localSnapshotHasEligibleDelivery :: "snapshot \<Rightarrow> time \<Rightarrow> bool" where
  "localSnapshotHasEligibleDelivery s now \<longleftrightarrow>
     list_ex (\<lambda>(id', d). eligible_record s now d \<noteq> None) (WebhookDeliveries s)"

definition due_before :: "webhook_delivery \<Rightarrow> webhook_delivery \<Rightarrow> bool" where
  "due_before d e \<longleftrightarrow>
     wd_NextAttemptAt d < wd_NextAttemptAt e \<or>
     (wd_NextAttemptAt d = wd_NextAttemptAt e \<and> wd_CreatedAt d < wd_CreatedAt e)"

definition pick_delivery ::
  "snapshot \<Rightarrow> time \<Rightarrow> string \<times> webhook_delivery \<Rightarrow> (webhook_delivery \<times> webhook_subscription) option \<Rightarrow>
   (webhook_delivery \<times> webhook_subscription) option" where
  "pick_delivery s now entry best =
     (case eligible_record s now (snd entry) of
        None \<Rightarrow> best
      | Some record \<Rightarrow>
          (case best of
             None \<Rightarrow> Some (snd entry, record)
           | Some (selected, _) \<Rightarrow> if due_before (snd entry) selected then Some (snd entry, record) else best))"

definition claim_delivery ::
  "codec \<Rightarrow> string \<Rightarrow> duration \<Rightarrow> time \<Rightarrow> snapshot \<Rightarrow> (snapshot \<times> claimed_delivery) res" where
  "claim_delivery cx workerID leaseTTL now s =
     (case fold (pick_delivery s now) (WebhookDeliveries s) None of
        None \<Rightarrow> Inl WebhookErrNoPendingDelivery
      | Some (d, record) \<Rightarrow>
          bind_res (localSubscription cx record) (\<lambda>sub.
            case map_of (ControlPlaneEvents s) (wd_EventID d) of
              None \<Rightarrow> Inl WebhookErrNotFound
            | Some event \<Rightarrow>
                let expiresAt = now + leaseTTL;
                    selected = d\<lparr>wd_State := DeliveryDelivering, wd_Attempt := wd_Attempt d + 1,
                      wd_LeaseOwner := Some workerID, wd_LeaseExpiresAt := Some expiresAt, wd_UpdatedAt := now\<rparr>;
                    lease = \<lparr>dl_DeliveryID = wd_ID selected, dl_WorkerID = workerID, dl_Attempt = wd_Attempt selected,
                      dl_ExpiresAt = expiresAt\<rparr>
                in Inr (s\<lparr>WebhookDeliveries := put (wd_ID selected) selected (WebhookDeliveries s)\<rparr>,
                     \<lparr>cd_Delivery = selected, cd_Event = event, cd_Subscription = sub, cd_Lease = lease\<rparr>)))"

definition ClaimDelivery ::
  "codec \<Rightarrow> rnd \<Rightarrow> time \<Rightarrow> time \<Rightarrow> string \<Rightarrow> duration \<Rightarrow> snapshot \<Rightarrow> snapshot \<Rightarrow> (snapshot \<times> claimed_delivery) res" where
  "ClaimDelivery cx rnd preNow now worker0 ttl0 pre s =
     (let workerID = trim worker0; leaseTTL = (if ttl0 \<le> 0 then 30 * nanos_per_second else ttl0)
      in if workerID = [] then Inl WebhookErrInvalidLease
         else if \<not> localSnapshotHasEligibleDelivery pre preNow then Inl WebhookErrNoPendingDelivery
         else updateWithClock rnd now s (claim_delivery cx workerID leaseTTL now))"

definition validateDeliveryLease :: "webhook_delivery \<Rightarrow> delivery_lease \<Rightarrow> unit res" where
  "validateDeliveryLease d l =
     (if wd_State d \<noteq> DeliveryDelivering \<or> wd_LeaseOwner d = None \<or> wd_LeaseExpiresAt d = None then Inl WebhookErrInvalidLease
      else if wd_LeaseOwner d \<noteq> Some (dl_WorkerID l) \<or> wd_Attempt d \<noteq> dl_Attempt l \<or>
              wd_LeaseExpiresAt d \<noteq> Some (dl_ExpiresAt l) then Inl WebhookErrInvalidLease
      else Inr ())"

definition complete_delivery ::
  "delivery_lease \<Rightarrow> delivery_result \<Rightarrow> time \<Rightarrow> snapshot \<Rightarrow> (snapshot \<times> unit) res" where
  "complete_delivery l result now s =
     (case map_of (WebhookDeliveries s) (dl_DeliveryID l) of
        None \<Rightarrow> Inl WebhookErrNotFound
      | Some d \<Rightarrow>
          bind_res (validateDeliveryLease d l) (\<lambda>_.
            case map_of (WebhookSubscriptions s) (webhookSubscriptionKey (wd_WorkspaceID d) (wd_SubscriptionID d)) of
              None \<Rightarrow> Inl WebhookErrNotFound
            | Some record \<Rightarrow>
                let canceled = (ws_DeletedAt record \<noteq> None \<and> dr_State result = DeliveryRetrying);
                    effectiveState = (if canceled then DeliveryCanceled else dr_State result);
                    completedAt = (if canceled then now else dr_CompletedAt result);
                    d' = d\<lparr>wd_State := effectiveState, wd_NextAttemptAt := dr_NextAttemptAt result,
                      wd_ResponseStatus := dr_ResponseStatus result, wd_LatencyMillis := dr_LatencyMillis result,
                      wd_ErrorSummary := dr_ErrorSummary result, wd_LeaseOwner := None, wd_LeaseExpiresAt := None,
                      wd_UpdatedAt := now,
                      wd_CompletedAt := (if effectiveState = DeliveryRetrying then None else Some completedAt)\<rparr>
                in Inr (s\<lparr>WebhookDeliveries := put (wd_ID d') d' (WebhookDeliveries s)\<rparr>, ())))"

definition CompleteDelivery ::
  "rnd \<Rightarrow> time \<Rightarrow> delivery_lease \<Rightarrow> delivery_result \<Rightarrow> snapshot \<Rightarrow> (snapshot \<times> unit) res" where
  "CompleteDelivery rnd now l result s =
     bind_res (ValidateDeliveryResult result) (\<lambda>_. updateWithClock rnd now s (complete_delivery l result now))"

definition retry_delivery ::
  "rnd \<Rightarrow> string \<Rightarrow> string \<Rightarrow> string \<Rightarrow> time \<Rightarrow> snapshot \<Rightarrow> (snapshot \<times> unit) res" where
  "retry_delivery rnd workspaceID deliveryID actor now s =
     (case map_of (WebhookDeliveries s) deliveryID of
        None \<Rightarrow> Inl WebhookErrNotFound
      | Some d \<Rightarrow>
          if NormalizeWorkspace (wd_WorkspaceID d) \<noteq> NormalizeWorkspace workspaceID then Inl WebhookErrNotFound
          else if wd_State d \<noteq> DeliveryFailed then Inl WebhookErrConflict
          else case map_of (WebhookSubscriptions s) (webhookSubscriptionKey (wd_WorkspaceID d) (wd_SubscriptionID d)) of
                 None \<Rightarrow> Inl WebhookErrConflict
               | Some record \<Rightarrow>
                   if ws_DeletedAt record \<noteq> None \<or> \<not> ws_Enabled record then Inl WebhookErrConflict
                   else
                     let d' = d\<lparr>wd_State := DeliveryRetrying, wd_NextAttemptAt := now, wd_LeaseOwner := None,
                           wd_LeaseExpiresAt := None, wd_CompletedAt := None, wd_UpdatedAt := now\<rparr>
                     in Inr (s\<lparr>WebhookDeliveries := put (wd_ID d') d' (WebhookDeliveries s),
                          WebhookAudits := append_under (NormalizeWorkspace workspaceID)
                            (newWebhookAudit rnd workspaceID (wd_SubscriptionID d') (wd_ID d') ''webhook_delivery_retried''
                              ''failed delivery queued for retry'' actor now) (WebhookAudits s)\<rparr>, ()))"

definition RetryDelivery ::
  "rnd \<Rightarrow> time \<Rightarrow> string \<Rightarrow> string \<Rightarrow> string \<Rightarrow> snapshot \<Rightarrow> (snapshot \<times> unit) res" where
  "RetryDelivery rnd now workspaceID deliveryID actor s =
     updateWithClock rnd now s (retry_delivery rnd workspaceID deliveryID actor now)"

section \<open>Test deliveries\<close>

record webhook_test_data =
  wt_Workspace :: string
  wt_SubscriptionID :: string
  wt_Actor :: string

definition marshal_test :: "webhook_test_data \<Rightarrow> raw" where
  "marshal_test d = compact (JObj [(''workspace'', JString (wt_Workspace d)),
     (''subscription_id'', JString (wt_SubscriptionID d)), (''actor'', JString (wt_Actor d))])"

definition validateWebhookTest :: "envelope \<Rightarrow> webhook_test_data \<Rightarrow> unit res" where
  "validateWebhookTest value d0 =
     (let workspace = NormalizeWorkspace (json_text (wt_Workspace d0)); sub = json_text (wt_SubscriptionID d0)
      in if trim sub = [] then Inl invalid_event
         else if trim (json_text (wt_Actor d0)) = [] then Inl invalid_event
         else if env_Source value \<noteq> ''/workspaces/'' @ workspace @ ''/control-plane'' then Inl invalid_event
         else if env_Subject value \<noteq> ''webhooks/'' @ sub @ ''/test'' then Inl invalid_event
         else Inr ())"

text \<open>\<open>Validate\<close> on an envelope of the test type, whose data is a test document.\<close>

definition validate_test :: "envelope \<Rightarrow> webhook_test_data \<Rightarrow> unit res" where
  "validate_test value d =
     (if env_SpecVersion value \<noteq> CloudEventsSpecVersion then Inl invalid_event
      else if \<not> has_prefix (env_ID value) ''evt_'' \<or> length (env_ID value) \<le> 4 then Inl invalid_event
      else if env_Time value = 0 then Inl invalid_event
      else if env_DataContentType value \<noteq> JSONContentType then Inl invalid_event
      else validateWebhookTest value d)"

definition NewWebhookTest :: "string \<Rightarrow> time \<Rightarrow> webhook_test_data \<Rightarrow> envelope res" where
  "NewWebhookTest id' occurredAt d0 =
     (let d = \<lparr>wt_Workspace = NormalizeWorkspace (wt_Workspace d0), wt_SubscriptionID = trim (wt_SubscriptionID d0),
            wt_Actor = (if trim (wt_Actor d0) = [] then ''system'' else trim (wt_Actor d0))\<rparr>;
          event = \<lparr>env_SpecVersion = CloudEventsSpecVersion, env_ID = trim id', env_Type = WebhookTestType,
            env_Source = ''/workspaces/'' @ wt_Workspace d @ ''/control-plane'',
            env_Subject = ''webhooks/'' @ wt_SubscriptionID d @ ''/test'', env_Time = occurredAt,
            env_DataContentType = JSONContentType, env_Data = marshal_test d\<rparr>
      in bind_res (validate_test event d) (\<lambda>_. Inr event))"

definition create_test_delivery ::
  "rnd \<Rightarrow> string \<Rightarrow> string \<Rightarrow> string \<Rightarrow> time \<Rightarrow> snapshot \<Rightarrow> (snapshot \<times> delivery_detail) res" where
  "create_test_delivery rnd workspaceID0 subscriptionID actor now s =
     (let workspaceID = NormalizeWorkspace workspaceID0
      in case map_of (WebhookSubscriptions s) (webhookSubscriptionKey workspaceID subscriptionID) of
           None \<Rightarrow> Inl WebhookErrNotFound
         | Some record \<Rightarrow>
             if ws_DeletedAt record \<noteq> None then Inl WebhookErrNotFound
             else if \<not> ws_Enabled record then Inl WebhookErrConflict
             else
               bind_res (NewWebhookTest (NewID rnd ''evt'' ''evt/test'') now
                   \<lparr>wt_Workspace = workspaceID, wt_SubscriptionID = subscriptionID, wt_Actor = actor\<rparr>) (\<lambda>event.
                 let d = newWebhookDelivery (NewID rnd ''whd'' ''whd/test'') event workspaceID subscriptionID now
                 in Inr (s\<lparr>ControlPlaneEvents := put (env_ID event) event (ControlPlaneEvents s),
                      WebhookDeliveries := put (wd_ID d) d (WebhookDeliveries s),
                      WebhookAudits := append_under workspaceID
                        (newWebhookAudit rnd workspaceID subscriptionID (wd_ID d) ''webhook_test_requested''
                          ''test delivery queued'' actor now) (WebhookAudits s)\<rparr>,
                      \<lparr>dd_Delivery = d, dd_Event = event, dd_SubscriptionName = ws_Name record\<rparr>)))"

definition CreateTestDelivery ::
  "rnd \<Rightarrow> time \<Rightarrow> string \<Rightarrow> string \<Rightarrow> string \<Rightarrow> snapshot \<Rightarrow> (snapshot \<times> delivery_detail) res" where
  "CreateTestDelivery rnd now workspaceID subscriptionID actor s =
     updateWithClock rnd now s (create_test_delivery rnd workspaceID subscriptionID actor now)"

section \<open>Reading\<close>

definition delivery_view :: "snapshot \<Rightarrow> webhook_delivery \<Rightarrow> delivery_detail option" where
  "delivery_view s d =
     (case map_of (ControlPlaneEvents s) (wd_EventID d) of
        None \<Rightarrow> None
      | Some event \<Rightarrow> Some \<lparr>dd_Delivery = d, dd_Event = event, dd_SubscriptionName =
          (case map_of (WebhookSubscriptions s) (webhookSubscriptionKey (wd_WorkspaceID d) (wd_SubscriptionID d)) of
             Some record \<Rightarrow> ws_Name record | None \<Rightarrow> [])\<rparr>)"

definition GetDelivery :: "snapshot \<Rightarrow> string \<Rightarrow> string \<Rightarrow> delivery_detail res" where
  "GetDelivery s workspaceID deliveryID =
     (case map_of (WebhookDeliveries s) (trim deliveryID) of
        None \<Rightarrow> Inl WebhookErrNotFound
      | Some d \<Rightarrow>
          if NormalizeWorkspace (wd_WorkspaceID d) \<noteq> NormalizeWorkspace workspaceID then Inl WebhookErrNotFound
          else case delivery_view s d of None \<Rightarrow> Inl WebhookErrNotFound | Some detail \<Rightarrow> Inr detail)"

definition prepareWebhookDeliveryQuery :: "delivery_list_query \<Rightarrow> delivery_list_query res" where
  "prepareWebhookDeliveryQuery query0 =
     (let query = query0\<lparr>dq_SubscriptionID := trim (dq_SubscriptionID query0), dq_CursorID := trim (dq_CursorID query0),
            dq_Limit := (if dq_Limit query0 \<le> 0 then 50 else if 101 < dq_Limit query0 then 101 else dq_Limit query0)\<rparr>
      in if (dq_CursorCreatedAt query = 0) \<noteq> (dq_CursorID query = []) then Inl WebhookErrInvalid else Inr query)"

definition webhookDeliveryMatches :: "webhook_delivery \<Rightarrow> string \<Rightarrow> delivery_list_query \<Rightarrow> bool" where
  "webhookDeliveryMatches d workspaceID query \<longleftrightarrow>
     NormalizeWorkspace (wd_WorkspaceID d) = NormalizeWorkspace workspaceID \<and>
     (dq_SubscriptionID query = [] \<or> wd_SubscriptionID d = dq_SubscriptionID query) \<and>
     (case dq_State query of None \<Rightarrow> True | Some st \<Rightarrow> wd_State d = st) \<and>
     (dq_CursorCreatedAt query = 0 \<or>
      \<not> (dq_CursorCreatedAt query < wd_CreatedAt d \<or>
         (wd_CreatedAt d = dq_CursorCreatedAt query \<and> dq_CursorID query \<le> wd_ID d)))"

definition newest_first :: "delivery_detail \<Rightarrow> delivery_detail \<Rightarrow> bool" where
  "newest_first a b \<longleftrightarrow>
     (if wd_CreatedAt (dd_Delivery a) = wd_CreatedAt (dd_Delivery b) then wd_ID (dd_Delivery b) < wd_ID (dd_Delivery a)
      else wd_CreatedAt (dd_Delivery b) < wd_CreatedAt (dd_Delivery a))"

definition ListDeliveries :: "snapshot \<Rightarrow> string \<Rightarrow> delivery_list_query \<Rightarrow> delivery_detail list res" where
  "ListDeliveries s workspaceID query0 =
     bind_res (prepareWebhookDeliveryQuery query0) (\<lambda>query.
       Inr (take (nat (dq_Limit query)) (sort_by newest_first
         (List.map_filter (\<lambda>(id', d). if webhookDeliveryMatches d workspaceID query then delivery_view s d else None)
           (WebhookDeliveries s)))))"

definition isActiveWebhookDelivery :: "delivery_state \<Rightarrow> bool" where
  "isActiveWebhookDelivery st \<longleftrightarrow> st \<in> {DeliveryPending, DeliveryRetrying, DeliveryDelivering}"

definition count_pending :: "string \<times> webhook_delivery \<Rightarrow> queue_stats \<Rightarrow> queue_stats" where
  "count_pending entry stats =
     (if \<not> isActiveWebhookDelivery (wd_State (snd entry)) then stats
      else \<lparr>qs_PendingCount = qs_PendingCount stats + 1,
            qs_OldestPending = (case qs_OldestPending stats of
               None \<Rightarrow> Some (wd_CreatedAt (snd entry))
             | Some t \<Rightarrow> if wd_CreatedAt (snd entry) < t then Some (wd_CreatedAt (snd entry)) else Some t)\<rparr>)"

definition WebhookQueueStats :: "snapshot \<Rightarrow> queue_stats" where
  "WebhookQueueStats s = fold count_pending (WebhookDeliveries s) \<lparr>qs_PendingCount = 0, qs_OldestPending = None\<rparr>"

section \<open>Retention\<close>

definition webhookDeliveryRetentionTime :: "webhook_delivery \<Rightarrow> time" where
  "webhookDeliveryRetentionTime d = (case wd_CompletedAt d of Some t \<Rightarrow> t | None \<Rightarrow> wd_UpdatedAt d)"

definition webhookDeliveryExpired :: "webhook_delivery \<Rightarrow> retention_policy \<Rightarrow> bool" where
  "webhookDeliveryExpired d policy \<longleftrightarrow>
     (case wd_State d of
        DeliverySucceeded \<Rightarrow> rp_SucceededBefore policy \<noteq> 0 \<and> webhookDeliveryRetentionTime d < rp_SucceededBefore policy
      | DeliveryCanceled \<Rightarrow> rp_CanceledBefore policy \<noteq> 0 \<and> webhookDeliveryRetentionTime d < rp_CanceledBefore policy
      | DeliveryFailed \<Rightarrow> rp_FailedBefore policy \<noteq> 0 \<and> webhookDeliveryRetentionTime d < rp_FailedBefore policy
      | _ \<Rightarrow> False)"

definition normalizedWebhookRetentionBatchSize :: "int \<Rightarrow> int" where
  "normalizedWebhookRetentionBatchSize batchSize = (if batchSize \<le> 0 then 1000 else batchSize)"

definition retention_less :: "webhook_delivery \<Rightarrow> webhook_delivery \<Rightarrow> bool" where
  "retention_less a b \<longleftrightarrow>
     (if webhookDeliveryRetentionTime a = webhookDeliveryRetentionTime b then wd_ID a < wd_ID b
      else webhookDeliveryRetentionTime a < webhookDeliveryRetentionTime b)"

definition drop_keys :: "'k list \<Rightarrow> ('k, 'v) gomap \<Rightarrow> ('k, 'v) gomap" where
  "drop_keys ks m = fold del ks m"

definition expired_deliveries :: "retention_policy \<Rightarrow> snapshot \<Rightarrow> string list" where
  "expired_deliveries policy s =
     map wd_ID (sort_by retention_less (filter (\<lambda>d. webhookDeliveryExpired d policy) (map snd (WebhookDeliveries s))))"

definition unreferenced_events :: "snapshot \<Rightarrow> string list" where
  "unreferenced_events s =
     sort (filter (\<lambda>e. e \<notin> set (map (wd_EventID \<circ> snd) (WebhookDeliveries s))) (map fst (ControlPlaneEvents s)))"

definition removable_subscriptions :: "retention_policy \<Rightarrow> snapshot \<Rightarrow> string list" where
  "removable_subscriptions policy s =
     sort (map fst (filter (\<lambda>(key, sub).
       (case ws_DeletedAt sub of None \<Rightarrow> False | Some t \<Rightarrow> t < rp_SubscriptionBefore policy) \<and>
       key \<notin> set (map (\<lambda>(id', d). webhookSubscriptionKey (wd_WorkspaceID d) (wd_SubscriptionID d)) (WebhookDeliveries s)))
       (WebhookSubscriptions s)))"

definition prune_webhooks :: "retention_policy \<Rightarrow> snapshot \<Rightarrow> (snapshot \<times> retention_result) res" where
  "prune_webhooks policy s =
     (let batch = nat (rp_BatchSize policy);
          deliveries = take batch (expired_deliveries policy s);
          s1 = s\<lparr>WebhookDeliveries := drop_keys deliveries (WebhookDeliveries s)\<rparr>;
          rest1 = batch - length deliveries;
          events = take rest1 (unreferenced_events s1);
          s2 = s1\<lparr>ControlPlaneEvents := drop_keys events (ControlPlaneEvents s1)\<rparr>;
          rest2 = rest1 - length events;
          subs = (if rp_SubscriptionBefore policy = 0 then [] else take rest2 (removable_subscriptions policy s2));
          s3 = s2\<lparr>WebhookSubscriptions := drop_keys subs (WebhookSubscriptions s2)\<rparr>
      in Inr (s3, \<lparr>rr_Deliveries = length deliveries, rr_Events = length events, rr_Subscriptions = length subs\<rparr>))"

definition PruneWebhookData ::
  "rnd \<Rightarrow> time \<Rightarrow> retention_policy \<Rightarrow> snapshot \<Rightarrow> (snapshot \<times> retention_result) res" where
  "PruneWebhookData rnd now policy s =
     updateWithClock rnd now s
       (prune_webhooks (policy\<lparr>rp_BatchSize := normalizedWebhookRetentionBatchSize (rp_BatchSize policy)\<rparr>))"

definition ListAudit :: "snapshot \<Rightarrow> string \<Rightarrow> webhook_audit list" where
  "ListAudit s workspaceID =
     sort_by (\<lambda>a b. if wa_CreatedAt a = wa_CreatedAt b then wa_ID b < wa_ID a else wa_CreatedAt b < wa_CreatedAt a)
       (case map_of (WebhookAudits s) (NormalizeWorkspace workspaceID) of Some audits \<Rightarrow> audits | None \<Rightarrow> [])"

end
