(* ===== verification/System.thy ===== *)
theory System
  imports StoreSteps Workers Policies Webhooks
begin

text \<open>
  The local store as a transition system. A command is a call of one store operation with its arguments;
  \<open>exec\<close> runs it on the state file. Since every operation holds the file lock, a history of the store is a
  sequence of commands. The ghost component \<open>issued\<close> remembers the identifiers of all jobs ever enqueued:
  a command that enqueues a job draws a new one, as \<open>NewID\<close> does with its random UUIDs.
\<close>

declare map_of_eq_Some_iff [simp del] Some_eq_map_of_iff [simp del]

section \<open>Commands\<close>

datatype command =
    CmdEnqueue run job
  | CmdRequeueApp requeue_app_spec
  | CmdClaim time string "string list" "string list" "string list" duration snapshot
  | CmdHeartbeat lease duration
  | CmdSucceed lease job_result
  | CmdFail lease job_result
  | CmdWaitHuman lease job_result human_task
  | CmdResumeTask string raw
  | CmdResumeRun string raw
  | CmdRetry string
  | CmdCancelJob string string string string
  | CmdCancelRun string string
  | CmdPrune time time
  | CmdExpireStuck time
  | CmdAppendLogs string string string
  | CmdSetState string string raw
  | CmdResolveAdmission string string string string
  | CmdCreateTask time human_task
  | CmdDecideTask string string human_task_decision
  | CmdExpireTask string string string
  | CmdExpireDueTasks time int snapshot
  | CmdCancelTasks string string string
  | CmdSetLifecycle set_app_runtime_lifecycle_request
  | CmdRegisterWorker worker_record
  | CmdHeartbeatWorker string "worker_resource_pressure option"
  | CmdDeregisterWorker string
  | CmdCreateCredential create_worker_credential_request
  | CmdRevokeCredential revoke_worker_credential_request
  | CmdPutGroupState put_worker_group_run_state_request
  | CmdMutatePolicy mutate_execution_limit_policy_request
  | CmdMutatePolicies "mutate_execution_limit_policy_request list"
  | CmdCreateSubscription net time subscription
  | CmdUpdateSubscription net subscription
  | CmdDeleteSubscription string string string
  | CmdTestDelivery string string string
  | CmdClaimDelivery time string duration snapshot
  | CmdCompleteDelivery delivery_lease delivery_result
  | CmdRetryDelivery string string string
  | CmdPruneWebhooks retention_policy

definition file_of :: "(snapshot \<times> 'a) res \<Rightarrow> snapshot res" where
  "file_of r = bind_res r (\<lambda>(t, a). Inr t)"

fun exec :: "codec \<Rightarrow> rnd \<Rightarrow> time \<Rightarrow> command \<Rightarrow> snapshot \<Rightarrow> snapshot res" where
  "exec cx rnd now (CmdEnqueue r j) s = file_of (CreateRunAndEnqueue cx rnd now r j s)"
| "exec cx rnd now (CmdRequeueApp spec) s = file_of (RequeueQueuedJobsForApp rnd now spec s)"
| "exec cx rnd now (CmdClaim preNow w tags labels ws ttl pre) s =
     file_of (ClaimJobForWorkerScope cx rnd preNow now w tags labels ws ttl pre s)"
| "exec cx rnd now (CmdHeartbeat l ttl) s = file_of (HeartbeatJob rnd now l ttl s)"
| "exec cx rnd now (CmdSucceed l result) s = file_of (CompleteJobSucceeded cx rnd now l result s)"
| "exec cx rnd now (CmdFail l result) s = file_of (CompleteJobFailed cx rnd now l result s)"
| "exec cx rnd now (CmdWaitHuman l result task) s = file_of (CompleteJobWaitingHuman cx rnd now l result task s)"
| "exec cx rnd now (CmdResumeTask task input) s = file_of (ResumeHumanTask cx rnd now task input s)"
| "exec cx rnd now (CmdResumeRun runID input) s = file_of (ResumeRun cx rnd now runID input s)"
| "exec cx rnd now (CmdRetry runID) s = file_of (RetryRun cx rnd now runID s)"
| "exec cx rnd now (CmdCancelJob w jobID by' reason) s = file_of (CancelJob cx rnd now w jobID by' reason s)"
| "exec cx rnd now (CmdCancelRun runID reason) s = file_of (CancelRun rnd now runID reason s)"
| "exec cx rnd now (CmdPrune a b) s = file_of (PruneSettledJobs rnd now a b s)"
| "exec cx rnd now (CmdExpireStuck before) s = file_of (ExpireStuckJobs rnd now before s)"
| "exec cx rnd now (CmdAppendLogs jobID w chunk) s = file_of (AppendLogs rnd now jobID w chunk s)"
| "exec cx rnd now (CmdSetState w path v) s = file_of (SetState rnd now w path v s)"
| "exec cx rnd now (CmdResolveAdmission w a f actor) s = file_of (ResolveAdmissionOutcome rnd now w a f actor s)"
| "exec cx rnd now (CmdCreateTask preNow task) s = file_of (CreateHeldHumanTask cx rnd preNow now task s)"
| "exec cx rnd now (CmdDecideTask w task d) s = file_of (DecideHeldHumanTask cx rnd now w task d s)"
| "exec cx rnd now (CmdExpireTask w task cause) s = file_of (ExpireHeldHumanTask rnd now w task cause s)"
| "exec cx rnd now (CmdExpireDueTasks due' limit' pre) s = file_of (ExpireDueHeldHumanTasks rnd now due' limit' pre s)"
| "exec cx rnd now (CmdCancelTasks w jobID cause) s = file_of (CancelHeldHumanTasksForJob rnd now w jobID cause s)"
| "exec cx rnd now (CmdSetLifecycle request) s = file_of (SetAppRuntimeLifecycle rnd now request s)"
| "exec cx rnd now (CmdRegisterWorker record) s = file_of (RegisterWorker rnd now record s)"
| "exec cx rnd now (CmdHeartbeatWorker w None) s = file_of (HeartbeatWorker rnd now w s)"
| "exec cx rnd now (CmdHeartbeatWorker w (Some p)) s = file_of (HeartbeatWorkerPressure rnd now w p s)"
| "exec cx rnd now (CmdDeregisterWorker w) s = file_of (DeregisterWorker rnd now w s)"
| "exec cx rnd now (CmdCreateCredential request) s = file_of (CreateWorkerCredential rnd now request s)"
| "exec cx rnd now (CmdRevokeCredential request) s = file_of (RevokeWorkerCredential rnd now request s)"
| "exec cx rnd now (CmdPutGroupState request) s = file_of (PutWorkerGroupRunState rnd now request s)"
| "exec cx rnd now (CmdMutatePolicy request) s = file_of (MutateExecutionLimitPolicy rnd now request s)"
| "exec cx rnd now (CmdMutatePolicies requests) s = file_of (MutateExecutionLimitPolicies rnd now requests s)"
| "exec cx rnd now (CmdCreateSubscription net preNow sub) s = file_of (CreateSubscription net cx rnd preNow now sub s)"
| "exec cx rnd now (CmdUpdateSubscription net sub) s = file_of (UpdateSubscription net cx rnd now sub s)"
| "exec cx rnd now (CmdDeleteSubscription w sub actor) s = file_of (DeleteSubscription rnd now w sub actor s)"
| "exec cx rnd now (CmdTestDelivery w sub actor) s = file_of (CreateTestDelivery rnd now w sub actor s)"
| "exec cx rnd now (CmdClaimDelivery preNow w ttl pre) s = file_of (ClaimDelivery cx rnd preNow now w ttl pre s)"
| "exec cx rnd now (CmdCompleteDelivery l result) s = file_of (CompleteDelivery rnd now l result s)"
| "exec cx rnd now (CmdRetryDelivery w delivery actor) s = file_of (RetryDelivery rnd now w delivery actor s)"
| "exec cx rnd now (CmdPruneWebhooks policy) s = file_of (PruneWebhookData rnd now policy s)"

text \<open>The identifiers a command gives to new jobs, and what admission guarantees of a new run.\<close>

fun new_jobs :: "rnd \<Rightarrow> command \<Rightarrow> string set" where
  "new_jobs rnd (CmdEnqueue r j) = {job_ID j}"
| "new_jobs rnd (CmdResumeTask task input) = {rnd ''job''}"
| "new_jobs rnd (CmdResumeRun runID input) = {rnd ''job''}"
| "new_jobs rnd (CmdRetry runID) = {rnd ''job''}"
| "new_jobs rnd _ = {}"

fun well_formed :: "command \<Rightarrow> bool" where
  "well_formed (CmdEnqueue r j) \<longleftrightarrow> enqueue_ok r j"
| "well_formed _ \<longleftrightarrow> True"

fun is_prune :: "command \<Rightarrow> bool" where
  "is_prune (CmdPrune a b) \<longleftrightarrow> True"
| "is_prune _ \<longleftrightarrow> False"

record history =
  state_file :: snapshot
  issued :: "string set"

definition initial :: "history \<Rightarrow> bool" where
  "initial h \<longleftrightarrow> (\<exists>epoch. state_file h = newSnapshot epoch) \<and> issued h = {}"

inductive store_step :: "codec \<Rightarrow> history \<Rightarrow> history \<Rightarrow> bool" for cx :: codec where
  command_step: "exec cx rnd now c (state_file h) = Inr t \<Longrightarrow> well_formed c \<Longrightarrow> new_jobs rnd c \<inter> issued h = {} \<Longrightarrow>
    store_step cx h \<lparr>state_file = t, issued = issued h \<union> new_jobs rnd c\<rparr>"

inductive_cases store_stepE: "store_step cx h h'"

section \<open>Every command keeps the invariant\<close>

lemma file_of_eq [simp]: "file_of r = Inr t \<longleftrightarrow> (\<exists>a. r = Inr (t, a))"
  by (cases r) (auto simp: file_of_def)

lemma fresh_ensure [simp]: "map_of (Jobs (ensureSnapshot s)) k = None \<longleftrightarrow> map_of (Jobs s) k = None"
  by (simp add: ensure_Jobs)

text \<open>Operations whose transaction touches no run, job, task or event.\<close>

lemma update_other:
  assumes "updateWithClock rnd now s fn = Inr (t, a)" and "store_ok s"
    and "\<And>u v b. fn u = Inr (v, b) \<Longrightarrow> Runs v = Runs u \<and> Jobs v = Jobs u \<and> HumanTasks v = HumanTasks u \<and>
      Events v = Events u \<and> Sequence v = Sequence u \<and> AdmissionOutcomes v = AdmissionOutcomes u"
  shows "good N s t"
  using assms(1,2)
proof (rule update_good)
  fix v b
  assume ok: "store_ok (ensureSnapshot s)" and fn: "fn (ensureSnapshot s) = Inr (v, b)"
  show "good N (ensureSnapshot s) v"
    by (rule good_other [OF ok]) (use assms(3) [OF fn] in \<open>simp_all add: outcomes_kept_same\<close>)
qed

lemma SetState_good: "store_ok s \<Longrightarrow> SetState rnd now w p v s = Inr (t, a) \<Longrightarrow> good N s t"
  unfolding SetState_def Let_def
  by (split if_split_asm; (simp; fail)?) (erule update_other, assumption, auto)

lemma RegisterWorker_good: "store_ok s \<Longrightarrow> RegisterWorker rnd now r s = Inr (t, a) \<Longrightarrow> good N s t"
  by (auto simp: RegisterWorker_def register_worker_def Let_def split: if_splits elim!: update_other)

lemma HeartbeatWorker_good: "store_ok s \<Longrightarrow> updateWithClock rnd now s (heartbeat_worker w p now) = Inr (t, a) \<Longrightarrow> good N s t"
  by (erule update_other) (auto simp: heartbeat_worker_def split: option.splits)

lemma DeregisterWorker_good: "store_ok s \<Longrightarrow> DeregisterWorker rnd now w s = Inr (t, a) \<Longrightarrow> good N s t"
  unfolding DeregisterWorker_def by (erule update_other) auto

lemma CreateWorkerCredential_good: "store_ok s \<Longrightarrow> CreateWorkerCredential rnd now r s = Inr (t, a) \<Longrightarrow> good N s t"
  by (auto simp: CreateWorkerCredential_def create_credential_def Let_def
      split: if_splits option.splits elim!: update_other)

lemma RevokeWorkerCredential_good: "store_ok s \<Longrightarrow> RevokeWorkerCredential rnd now r s = Inr (t, a) \<Longrightarrow> good N s t"
  by (auto simp: RevokeWorkerCredential_def revoke_credential_def Let_def
      split: if_splits option.splits elim!: update_other)

lemma PutWorkerGroupRunState_good: "store_ok s \<Longrightarrow> PutWorkerGroupRunState rnd now r s = Inr (t, a) \<Longrightarrow> good N s t"
  by (auto simp: PutWorkerGroupRunState_def put_group_state_def Let_def
      split: if_splits option.splits elim!: update_other)

lemma CreateRunAndEnqueue_good:
  "store_ok s \<Longrightarrow> enqueue_ok r j \<Longrightarrow> job_ID j \<in> N \<Longrightarrow> CreateRunAndEnqueue cx rnd now r j s = Inr (t, a) \<Longrightarrow> good N s t"
  unfolding CreateRunAndEnqueue_def by (erule update_good) (auto intro: good_enqueue)

lemma RequeueQueuedJobsForApp_good:
  "store_ok s \<Longrightarrow> RequeueQueuedJobsForApp rnd now spec s = Inr (t, a) \<Longrightarrow> good N s t"
  unfolding RequeueQueuedJobsForApp_def
  by (erule update_good, assumption, rule good_map_same [where f = "\<lambda>k j. case requeue_tag spec j of None \<Rightarrow> j
        | Some tag \<Rightarrow> j\<lparr>job_Payload := (job_Payload j)\<lparr>pl_Tag := tag\<rparr>, job_UpdatedAt := now\<rparr>"])
    (auto simp: same_job_def split: option.splits)

lemma ClaimJob_good:
  "store_ok s \<Longrightarrow> ClaimJobForWorkerScope cx rnd preNow now w tags labels ws ttl pre s = Inr (t, a) \<Longrightarrow> good N s t"
  by (cases a) (auto simp: ClaimJobForWorkerScope_def Let_def split: if_splits elim!: update_good intro: good_claim)

lemma CancelHeldHumanTasksForJob_good:
  "store_ok s \<Longrightarrow> CancelHeldHumanTasksForJob rnd now w jobID cause s = Inr (t, a) \<Longrightarrow> good N s t"
  unfolding CancelHeldHumanTasksForJob_def
  by (erule update_good) (auto intro: only_tasks_good cancelHeld_step store_okD)

lemma ExpireDueHeldHumanTasks_good:
  "store_ok s \<Longrightarrow> ExpireDueHeldHumanTasks rnd clock now limit' pre s = Inr (t, a) \<Longrightarrow> good N s t"
  by (auto simp: ExpireDueHeldHumanTasks_def Let_def good_refl split: if_splits elim!: update_good
      intro: only_tasks_good expire_due_step store_okD)

lemma CreateHeldHumanTask_good:
  "store_ok s \<Longrightarrow> CreateHeldHumanTask cx rnd preNow now task s = Inr (t, a) \<Longrightarrow> good N s t"
  by (auto simp: CreateHeldHumanTask_def Let_def elim!: update_good intro: good_create_held)

lemma DecideHeldHumanTask_cases:
  assumes "DecideHeldHumanTask cx rnd now w task d s = Inr (t, a)"
  obtains decision enc r where "normalizeHumanTaskDecision d = Inr decision"
    and "enc_input cx ''decision'' (NormalizeWorkspace w) (htd_Value decision) = Inr enc"
    and "updateWithClock rnd now s (decide_held (NormalizeWorkspace w) task decision enc now) = Inr (t, r)"
proof -
  obtain decision enc t' r where d: "normalizeHumanTaskDecision d = Inr decision"
    "enc_input cx ''decision'' (NormalizeWorkspace w) (htd_Value decision) = Inr enc"
    "updateWithClock rnd now s (decide_held (NormalizeWorkspace w) task decision enc now) = Inr (t', r)"
    using assms by (auto simp: DecideHeldHumanTask_def Let_def)
  then have "t' = t" using assms by (cases r) (auto simp: DecideHeldHumanTask_def Let_def)
  with d that show ?thesis by blast
qed

lemma DecideHeldHumanTask_good:
  "store_ok s \<Longrightarrow> DecideHeldHumanTask cx rnd now w task d s = Inr (t, a) \<Longrightarrow> good N s t"
  by (erule DecideHeldHumanTask_cases) (auto elim!: update_good intro: good_decide_held)

lemma ExpireHeldHumanTask_good:
  "store_ok s \<Longrightarrow> ExpireHeldHumanTask rnd now w task cause s = Inr (t, a) \<Longrightarrow> good N s t"
  by (auto simp: ExpireHeldHumanTask_def elim!: update_good intro: good_expire_held)

lemma ResumeHumanTask_good:
  "store_ok s \<Longrightarrow> map_of (Jobs s) (rnd ''job'') = None \<Longrightarrow> rnd ''job'' \<in> N \<Longrightarrow>
   ResumeHumanTask cx rnd now task inp s = Inr (t, a) \<Longrightarrow> good N s t"
  unfolding ResumeHumanTask_def by (erule update_good) (auto intro: good_resume)

lemma RetryRun_good:
  "store_ok s \<Longrightarrow> map_of (Jobs s) (rnd ''job'') = None \<Longrightarrow> rnd ''job'' \<in> N \<Longrightarrow>
   RetryRun cx rnd now runID s = Inr (t, a) \<Longrightarrow> good N s t"
  unfolding RetryRun_def by (erule update_good) (auto intro: good_retry)

lemma AppendLogs_good: "store_ok s \<Longrightarrow> AppendLogs rnd now jobID w chunk s = Inr (t, a) \<Longrightarrow> good N s t"
  by (auto simp: AppendLogs_def good_refl split: if_splits elim!: update_good intro: good_append_logs)

lemma ResolveAdmissionOutcome_good:
  "store_ok s \<Longrightarrow> ResolveAdmissionOutcome rnd now w a f actor s = Inr (t, out) \<Longrightarrow> good N s t"
  by (auto simp: ResolveAdmissionOutcome_def elim!: update_good intro: good_resolve_admission)

lemma SetAppRuntimeLifecycle_good:
  "store_ok s \<Longrightarrow> SetAppRuntimeLifecycle rnd now request s = Inr (t, a) \<Longrightarrow> good N s t"
  by (auto simp: SetAppRuntimeLifecycle_def Let_def split: if_splits elim!: update_good intro: good_set_lifecycle)

text \<open>Policies, subscriptions and deliveries.\<close>

definition same_core :: "snapshot \<Rightarrow> snapshot \<Rightarrow> bool" where
  "same_core u v \<longleftrightarrow> Runs v = Runs u \<and> Jobs v = Jobs u \<and> HumanTasks v = HumanTasks u \<and>
     Events v = Events u \<and> Sequence v = Sequence u \<and> AdmissionOutcomes v = AdmissionOutcomes u"

lemma same_core_trans: "same_core u v \<Longrightarrow> same_core v w \<Longrightarrow> same_core u w"
  by (simp add: same_core_def)

lemma mutation_core: "applyLocalExecutionLimitPolicyMutation rnd request now u = Inr (v, b) \<Longrightarrow> same_core u v"
  by (cases b) (auto simp: same_core_def dest!: mutation_cases split: if_splits)

lemma mutate_batch_core: "mutate_batch rnd now requests u = Inr (v, b) \<Longrightarrow> same_core u v"
  by (induction requests arbitrary: u b) (auto simp: same_core_def dest!: mutation_core)

lemma webhook_core:
  "create_subscription rnd prepared endpoint secret now u = Inr (v, x1) \<Longrightarrow> same_core u v"
  "update_subscription net cx rnd sub now u = Inr (v, x2) \<Longrightarrow> same_core u v"
  "delete_subscription rnd w i actor now u = Inr (v, x3) \<Longrightarrow> same_core u v"
  "create_test_delivery rnd w i actor now u = Inr (v, x4) \<Longrightarrow> same_core u v"
  "claim_delivery cx w ttl now u = Inr (v, x5) \<Longrightarrow> same_core u v"
  "complete_delivery l result now u = Inr (v, x6) \<Longrightarrow> same_core u v"
  "retry_delivery rnd w d actor now u = Inr (v, x7) \<Longrightarrow> same_core u v"
  "prune_webhooks policy u = Inr (v, x8) \<Longrightarrow> same_core u v"
  by (auto simp: same_core_def create_subscription_def update_subscription_def delete_subscription_def
      create_test_delivery_def claim_delivery_def complete_delivery_def retry_delivery_def prune_webhooks_def Let_def
      split: if_splits option.splits)

lemmas admin_core = mutation_core mutate_batch_core webhook_core

lemmas admin_defs = MutateExecutionLimitPolicy_def MutateExecutionLimitPolicies_def CreateSubscription_def UpdateSubscription_def
  DeleteSubscription_def CreateTestDelivery_def ClaimDelivery_def CompleteDelivery_def RetryDelivery_def PruneWebhookData_def

lemma update_admin:
  assumes "updateWithClock rnd now s fn = Inr (t, a)" and "store_ok s" and "\<And>u v b. fn u = Inr (v, b) \<Longrightarrow> same_core u v"
  shows "good N s t"
  by (rule update_other [OF assms(1,2)]) (use assms(3) in \<open>simp add: same_core_def\<close>)

lemma admin_good:
  assumes "store_ok s"
  shows "MutateExecutionLimitPolicy rnd now request s = Inr (t, x1) \<Longrightarrow> good N s t"
    and "MutateExecutionLimitPolicies rnd now requests s = Inr (t, x2) \<Longrightarrow> good N s t"
    and "CreateSubscription net cx rnd preNow now sub s = Inr (t, x3) \<Longrightarrow> good N s t"
    and "UpdateSubscription net cx rnd now sub s = Inr (t, x4) \<Longrightarrow> good N s t"
    and "DeleteSubscription rnd now w i actor s = Inr (t, x5) \<Longrightarrow> good N s t"
    and "CreateTestDelivery rnd now w i actor s = Inr (t, x6) \<Longrightarrow> good N s t"
    and "ClaimDelivery cx rnd preNow now w ttl pre s = Inr (t, x7) \<Longrightarrow> good N s t"
    and "CompleteDelivery rnd now l result s = Inr (t, x8) \<Longrightarrow> good N s t"
    and "RetryDelivery rnd now w d actor s = Inr (t, x9) \<Longrightarrow> good N s t"
    and "PruneWebhookData rnd now policy s = Inr (t, x10) \<Longrightarrow> good N s t"
  by (auto simp: admin_defs Let_def split: if_splits elim!: update_admin [OF _ assms] dest: admin_core)

lemmas transaction_good = good_heartbeat good_complete_succeeded good_complete_failed good_complete_waiting_human
  good_cancel_job good_cancel_run good_expire_stuck

lemmas transaction_defs = HeartbeatJob_def CompleteJobSucceeded_def CompleteJobFailed_def CompleteJobWaitingHuman_def
  CancelJob_def CancelRun_def ExpireStuckJobs_def

lemmas operation_good = CreateRunAndEnqueue_good RequeueQueuedJobsForApp_good ClaimJob_good
  CancelHeldHumanTasksForJob_good ExpireDueHeldHumanTasks_good CreateHeldHumanTask_good DecideHeldHumanTask_good
  ExpireHeldHumanTask_good ResumeHumanTask_good RetryRun_good AppendLogs_good ResolveAdmissionOutcome_good
  SetAppRuntimeLifecycle_good SetState_good RegisterWorker_good DeregisterWorker_good
  CreateWorkerCredential_good RevokeWorkerCredential_good PutWorkerGroupRunState_good admin_good

lemma exec_good:
  assumes ok: "store_ok s" and c: "well_formed c" "\<And>k. k \<in> new_jobs rnd c \<Longrightarrow> map_of (Jobs s) k = None"
    and run: "exec cx rnd now c s = Inr t" and keep: "\<not> is_prune c"
  shows "good (new_jobs rnd c) s t"
proof (cases c)
  case (CmdHeartbeatWorker w p)
  then show ?thesis
    using run HeartbeatWorker_good [OF ok]
    by (cases p) (auto simp: HeartbeatWorker_def HeartbeatWorkerPressure_def)
next
  case (CmdResumeRun runID input)
  then show ?thesis
    using run c ResumeHumanTask_good [OF ok] by (auto simp: ResumeRun_def split: if_splits)
qed (use run c keep ok in \<open>auto simp: transaction_defs intro: operation_good transaction_good elim!: update_good\<close>)

lemma exec_prune_ok:
  assumes "store_ok s" and "exec cx rnd now (CmdPrune a b) s = Inr t"
  shows "store_ok t"
  using assms ok_prune by (auto simp: PruneSettledJobs_def elim!: store_frame.update_inv)

section \<open>Histories\<close>

text \<open>A job that is gone does not come back under its identifier, and a stored job only advances.\<close>

definition job_later :: "job option \<Rightarrow> job option \<Rightarrow> bool" where
  "job_later a b \<longleftrightarrow> (\<forall>j'. b = Some j' \<longrightarrow> (\<exists>j. a = Some j \<and> advanced j j'))"

lemma job_later_refl [simp, intro]: "job_later a a"
  by (auto simp: job_later_def)

lemma job_later_trans: "job_later a b \<Longrightarrow> job_later b c \<Longrightarrow> job_later a c"
  by (cases a; cases b; cases c) (auto simp: job_later_def intro: advanced_trans)

definition shrunk :: "snapshot \<Rightarrow> snapshot \<Rightarrow> bool" where
  "shrunk s t \<longleftrightarrow> (\<forall>k. job_later (map_of (Jobs s) k) (map_of (Jobs t) k)) \<and> outcomes_kept s t \<and> Sequence s \<le> Sequence t"

interpretation shrunk_frame: frame_monotone shrunk
proof
  show "shrunk s s" for s by (simp add: shrunk_def)
  show "shrunk s t \<Longrightarrow> shrunk t u \<Longrightarrow> shrunk s u" for s t u
    unfolding shrunk_def by (blast intro: job_later_trans outcomes_kept_trans order.trans)
  show "shrunk s (ensureSnapshot s)" for s
    by (auto simp: shrunk_def ensure_Jobs job_later_def advanced_def settled_job_def
        intro: outcomes_frame.rel_ensure)
  show "shrunk s (s\<lparr>ControlPlaneEvents := evs, WebhookDeliveries := dels\<rparr>)" for s evs dels
    by (simp add: shrunk_def outcomes_kept_same)
  show "shrunk s (persist (s\<lparr>SnapshotRevision := n\<rparr>))" for s n
    by (auto simp: shrunk_def job_later_def advanced_def settled_job_def outcomes_kept_same)
qed

lemma prune_shrunk:
  assumes keys: "go_map_ok (Jobs s)" and tx: "prune_tx a b s = Inr (t, n)"
  shows "shrunk s t"
proof -
  have "job_later (map_of (Jobs s) k) (map_of (filter (\<lambda>(id', j). p j) (Jobs s)) k)" for k p
    using map_of_filter_ok [OF keys, of "\<lambda>_. p"] by (auto simp: job_later_def split: option.splits if_splits)
  then show ?thesis
    using tx by (auto simp: prune_tx_def Let_def shrunk_def outcomes_kept_same split: if_splits)
qed

definition history_ok :: "history \<Rightarrow> bool" where
  "history_ok h \<longleftrightarrow> store_ok (state_file h) \<and> dom (map_of (Jobs (state_file h))) \<subseteq> issued h"

definition later :: "history \<Rightarrow> history \<Rightarrow> bool" where
  "later h h' \<longleftrightarrow> issued h \<subseteq> issued h' \<and>
     (\<forall>k \<in> issued h. job_later (map_of (Jobs (state_file h)) k) (map_of (Jobs (state_file h')) k)) \<and>
     outcomes_kept (state_file h) (state_file h') \<and> Sequence (state_file h) \<le> Sequence (state_file h')"

lemma exec_later:
  assumes ok: "history_ok h" and run: "exec cx rnd now c (state_file h) = Inr t" and c: "well_formed c"
    and fresh: "new_jobs rnd c \<inter> issued h = {}"
  shows "history_ok \<lparr>state_file = t, issued = issued h \<union> new_jobs rnd c\<rparr> \<and>
    later h \<lparr>state_file = t, issued = issued h \<union> new_jobs rnd c\<rparr>"
proof (cases "is_prune c")
  case True
  then obtain a b where p: "c = CmdPrune a b" by (cases c) auto
  have keys: "go_map_ok (Jobs (ensureSnapshot (state_file h)))"
    using ok store_frame.inv_ensure coherentD(2) [OF store_okD(1)] by (auto simp: history_ok_def)
  have "shrunk (state_file h) t"
    using run p prune_shrunk [OF keys] by (auto simp: PruneSettledJobs_def elim!: shrunk_frame.update_rel)
  moreover have "store_ok t"
    using exec_prune_ok [of "state_file h" cx rnd now a b t] ok run p by (simp add: history_ok_def)
  ultimately show ?thesis
    using ok p by (fastforce simp: history_ok_def later_def shrunk_def job_later_def)
next
  case False
  have "map_of (Jobs (state_file h)) k = None" if "k \<in> new_jobs rnd c" for k
    using ok fresh that by (fastforce simp: history_ok_def)
  then have g: "good (new_jobs rnd c) (state_file h) t"
    using exec_good [OF _ c _ run False] ok by (simp add: history_ok_def)
  then have dom: "dom (map_of (Jobs t)) \<subseteq> dom (map_of (Jobs (state_file h))) \<union> new_jobs rnd c"
    and adv: "advances (Jobs (state_file h)) (Jobs t)"
    by (simp_all add: good_def progress_def kept_def)
  have "job_later (map_of (Jobs (state_file h)) k) (map_of (Jobs t) k)" if "k \<in> issued h" for k
  proof -
    have "k \<in> dom (map_of (Jobs (state_file h)))" if "k \<in> dom (map_of (Jobs t))"
      using dom fresh \<open>k \<in> issued h\<close> that by blast
    then show ?thesis using adv by (fastforce simp: job_later_def advances_def)
  qed
  then show ?thesis
    using g dom ok by (auto simp: history_ok_def later_def good_def progress_def events_grow_def)
qed

lemma initial_ok: "initial h \<Longrightarrow> history_ok h"
  by (auto simp: initial_def history_ok_def store_ok_def newSnapshot_def coherent_empty tasks_ok_def keyed_by_def events_ok_def)

lemma step_ok:
  assumes "history_ok h" and "store_step cx h h'"
  shows "history_ok h' \<and> later h h'"
  using assms(2) by (rule store_stepE) (use exec_later [OF assms(1)] in blast)

interpretation store_history: inductive_invariant initial "store_step cx" history_ok for cx
  by unfold_locales (auto simp: initial_ok dest: step_ok)

interpretation store_order: monotone_steps "store_step cx" history_ok later for cx
proof
  show "later h h" for h by (simp add: later_def)
  show "later a b \<Longrightarrow> later b c \<Longrightarrow> later a c" for a b c
    unfolding later_def by (blast intro: job_later_trans outcomes_kept_trans order.trans)
qed (use step_ok in blast)+

abbreviation reachable :: "codec \<Rightarrow> history \<Rightarrow> bool" where
  "reachable cx \<equiv> reach initial (store_step cx)"

lemma reachable_ok: "reachable cx h \<Longrightarrow> history_ok h"
  by (rule store_history.reach_inv)

lemma steps_later: "(store_step cx)\<^sup>*\<^sup>* h h' \<Longrightarrow> history_ok h \<Longrightarrow> later h h' \<and> history_ok h'"
  by (rule store_order.steps_rel)

end
