(* ===== verification/Leases.thy ===== *)
theory Leases
  imports System
begin

text \<open>
  Lease fencing. A lease names a job, a worker and an attempt; the store accepts it while the job runs that
  attempt for that worker. The locale \<open>fenced_lease\<close> states when a lease, once dead, is refused for ever;
  it is interpreted on the histories of the store.
\<close>

declare map_of_eq_Some_iff [simp del] Some_eq_map_of_iff [simp del]

section \<open>The contract\<close>

locale fenced_lease =
  fixes step :: "'s \<Rightarrow> 's \<Rightarrow> bool"
    and inv :: "'s \<Rightarrow> bool"
    and dead :: "'l \<Rightarrow> 's \<Rightarrow> bool"
    and owned :: "'l \<Rightarrow> 's \<Rightarrow> bool"
  assumes inv_kept: "inv s \<Longrightarrow> step s t \<Longrightarrow> inv t"
    and dead_kept: "inv s \<Longrightarrow> dead l s \<Longrightarrow> step s t \<Longrightarrow> dead l t"
    and dead_not_owned: "inv s \<Longrightarrow> dead l s \<Longrightarrow> \<not> owned l s"
begin

lemma dead_forever: "step\<^sup>*\<^sup>* s t \<Longrightarrow> inv s \<Longrightarrow> dead l s \<Longrightarrow> inv t \<and> dead l t \<and> \<not> owned l t"
  by (induction rule: rtranclp_induct) (use inv_kept dead_kept dead_not_owned in blast)+

end

section \<open>Leases of the store\<close>

definition owns :: "lease \<Rightarrow> snapshot \<Rightarrow> bool" where
  "owns l s \<longleftrightarrow> (\<exists>j. map_of (Jobs s) (ls_JobID l) = Some j \<and> holds_lease j l)"

definition lease_dead :: "lease \<Rightarrow> history \<Rightarrow> bool" where
  "lease_dead l h \<longleftrightarrow> ls_JobID l \<in> issued h \<and>
     (\<forall>j. map_of (Jobs (state_file h)) (ls_JobID l) = Some j \<longrightarrow>
        ls_Attempt l \<le> job_Attempt j \<and> (job_Attempt j = ls_Attempt l \<longrightarrow> job_State j \<noteq> JobRunning))"

lemma dead_later: "lease_dead l h \<Longrightarrow> later h h' \<Longrightarrow> lease_dead l h'"
  unfolding lease_dead_def later_def job_later_def advanced_def
  by (metis order.trans order.antisym subsetD)

text \<open>A lease that was owned and no longer is, is dead.\<close>

lemma lost_dead:
  assumes "history_ok h" and "owns l (state_file h)" and "later h h'" and "\<not> owns l (state_file h')"
  shows "lease_dead l h'"
proof -
  obtain j where j: "map_of (Jobs (state_file h)) (ls_JobID l) = Some j" "holds_lease j l"
    using assms(2) by (auto simp: owns_def)
  then have id: "ls_JobID l \<in> issued h" using assms(1) by (auto simp: history_ok_def)
  have "advanced j j'" if "map_of (Jobs (state_file h')) (ls_JobID l) = Some j'" for j'
    using assms(3) id j(1) that by (auto simp: later_def job_later_def)
  then show ?thesis
    using assms(3,4) id j(2) by (fastforce simp: lease_dead_def later_def advanced_def owns_def holds_lease_def)
qed

interpretation job_lease: fenced_lease "store_step cx" history_ok lease_dead "\<lambda>l h. owns l (state_file h)" for cx
proof
  show "history_ok h \<Longrightarrow> store_step cx h h' \<Longrightarrow> history_ok h'" for h h' cx
    using step_ok by blast
  show "history_ok h \<Longrightarrow> lease_dead l h \<Longrightarrow> store_step cx h h' \<Longrightarrow> lease_dead l h'" for h h' l cx
    using step_ok dead_later by blast
  show "history_ok h \<Longrightarrow> lease_dead l h \<Longrightarrow> \<not> owns l (state_file h)" for h l
    by (auto simp: lease_dead_def owns_def holds_lease_def)
qed

text \<open>What the operations of a lease holder do with a lease that is not owned.\<close>

lemma owns_ensure [simp]: "owns l (ensureSnapshot s) \<longleftrightarrow> owns l s"
  by (auto simp: owns_def ensure_Jobs holds_lease_def)

lemma leased_not_owned:
  "\<not> owns l s \<Longrightarrow> leasedJobAndRun s l now = Inl ErrNotFound \<or> leasedJobAndRun s l now = Inl ErrInvalidLease"
  by (auto simp: leasedJobAndRun_def owns_def split: option.splits)

lemma bind_Inl_cases: "r = Inl e \<or> r = Inl e' \<Longrightarrow> bind_res r f = Inl e \<or> bind_res r f = Inl e'"
  by auto

definition lease_refused :: "'a res \<Rightarrow> bool" where
  "lease_refused r \<longleftrightarrow> r = Inl ErrNotFound \<or> r = Inl ErrInvalidLease"

lemma update_refused: "lease_refused (fn (ensureSnapshot s)) \<Longrightarrow> lease_refused (updateWithClock rnd now s fn)"
  by (auto simp: lease_refused_def updateWithClock_def Let_def)

lemma completion_refused:
  assumes "\<not> owns l s"
  shows "lease_refused (CompleteJobSucceeded cx rnd now l result s)"
    and "lease_refused (CompleteJobFailed cx rnd now l result s)"
    and "lease_refused (CompleteJobWaitingHuman cx rnd now l result task s)"
proof -
  have "lease_refused (leasedJobAndRun (ensureSnapshot s) l now)"
    using leased_not_owned [of l "ensureSnapshot s"] assms by (simp add: lease_refused_def)
  then show "lease_refused (CompleteJobSucceeded cx rnd now l result s)"
    and "lease_refused (CompleteJobFailed cx rnd now l result s)"
    and "lease_refused (CompleteJobWaitingHuman cx rnd now l result task s)"
    unfolding CompleteJobSucceeded_def CompleteJobFailed_def CompleteJobWaitingHuman_def
    by (intro update_refused; auto simp: lease_refused_def complete_succeeded_def complete_failed_def
        complete_waiting_human_def)+
qed

lemma heartbeat_not_owned:
  assumes "\<not> owns l s" and "HeartbeatJob rnd now l ttl s = Inr (t, r)"
  shows "\<not> hb_StillOwned r"
proof -
  obtain v where "heartbeat_tx l (if ttl \<le> 0 then defaultLeaseTime else ttl) now (ensureSnapshot s) = Inr (v, r)"
    using assms(2) unfolding HeartbeatJob_def by (rule updateWithClock_cases)
  moreover have "\<not> owns l (ensureSnapshot s)" using assms(1) by simp
  ultimately show ?thesis
    by (auto simp: heartbeat_tx_def Let_def owns_def split: option.splits if_splits)
qed

section \<open>Completion kills the lease\<close>

lemma write_file_Jobs: "Jobs (write_file s) = map_vals (\<lambda>k j. persist_job (attached s k j)) (Jobs s)"
  by (simp add: write_file_def Let_def ensure_Jobs map_vals_def case_prod_beta)

lemma update_job:
  assumes "updateWithClock rnd now s fn = Inr (t, a)"
  obtains v where "fn (ensureSnapshot s) = Inr (v, a)"
    and "\<And>k j. map_of (Jobs v) k = Some j \<Longrightarrow> \<exists>j'. map_of (Jobs t) k = Some j' \<and> job_State j' = job_State j \<and>
      job_Attempt j' = job_Attempt j \<and> job_LeaseOwner j' = job_LeaseOwner j \<and> job_RunID j' = job_RunID j \<and>
      job_LeaseExpiresAt j' = job_LeaseExpiresAt j"
  using assms
proof (rule updateWithClock_cases)
  fix v evs dels
  assume fn: "fn (ensureSnapshot s) = Inr (v, a)"
    and t: "t = write_file (v\<lparr>ControlPlaneEvents := evs, WebhookDeliveries := dels\<rparr>)"
  show thesis
    by (rule that [OF fn]) (auto simp: t write_file_Jobs)
qed

text \<open>The job a completion settles.\<close>

definition settled_by :: "lease \<Rightarrow> snapshot \<Rightarrow> bool" where
  "settled_by l s \<longleftrightarrow> (\<exists>j. map_of (Jobs s) (ls_JobID l) = Some j \<and> settled_job j \<and> job_Attempt j = ls_Attempt l)"

lemma cancelHeld_Jobs: "tasks_ok (HumanTasks s) \<Longrightarrow> Jobs (cancelHeldHumanTasksInSnapshot s w k c now) = Jobs s"
  using cancelHeld_step by (simp add: only_tasks_def)

lemma encryptStored_Jobs: "encryptStoredRunResult cx d w s k = Inr t \<Longrightarrow> Jobs t = Jobs s"
  by (auto simp: encryptStoredRunResult_def split: option.splits)

lemma applyCanceled_fields [simp]:
  "Jobs (applyCanceledJob s j r b c m now) = put (job_ID j) (canceled_job j b c now) (Jobs s)"
  "HumanTasks (applyCanceledJob s j r b c m now) = HumanTasks s"
  by (simp_all add: applyCanceledJob_def Let_def canceled_job_def)

lemma settle_canceled_Jobs:
  assumes "settle_canceled cx s j r b flag now = Inr t" and "tasks_ok (HumanTasks s)"
  shows "Jobs t = put (job_ID j) (canceled_job j b (canceledReasonValue j) now) (Jobs s)"
proof -
  let ?s1 = "applyCanceledJob s j r b (canceledReasonValue j) cancelDuringExecutionMessage now"
  have "Jobs (cancelHeldHumanTasksInSnapshot ?s1 w k c now) = Jobs ?s1" for w k c
    by (rule cancelHeld_Jobs) (simp add: assms(2))
  then show ?thesis
    using assms(1) encryptStored_Jobs by (auto simp: settle_canceled_def Let_def split: if_splits)
qed

lemma completed_settles:
  assumes ok: "store_ok s" and l: "leasedJobAndRun s l now = Inr (j, r)"
  shows "settle_canceled cx s j r b flag now = Inr t \<Longrightarrow> settled_by l t"
    and "Jobs t = put (job_ID j) (finished_job st j now) (Jobs s) \<Longrightarrow> st = JobSucceeded \<or> st = JobFailed \<Longrightarrow> settled_by l t"
proof -
  have j: "map_of (Jobs s) (ls_JobID l) = Some j" "job_ID j = ls_JobID l" "job_Attempt j = ls_Attempt l"
    using leased_cases [OF l] keyed_byD [OF coherentD(4) [OF store_okD(1) [OF ok]]] by (auto simp: holds_lease_def)
  show "settle_canceled cx s j r b flag now = Inr t \<Longrightarrow> settled_by l t"
    using settle_canceled_Jobs [OF _ store_okD(2) [OF ok]] j
    by (auto simp: settled_by_def canceled_job_def settled_job_def)
  show "Jobs t = put (job_ID j) (finished_job st j now) (Jobs s) \<Longrightarrow> st = JobSucceeded \<or> st = JobFailed \<Longrightarrow> settled_by l t"
    using j by (auto simp: settled_by_def finished_job_def settled_job_def)
qed

lemma complete_succeeded_settles:
  assumes ok: "store_ok s" and tx: "complete_succeeded cx l result now s = Inr (t, a)"
  shows "settled_by l t"
proof -
  obtain j r where l: "leasedJobAndRun s l now = Inr (j, r)"
    using tx by (auto simp: complete_succeeded_def)
  have "settled_by l t" if "job_CanceledBy j = None"
    by (rule completed_settles(2) [OF ok l, of _ JobSucceeded])
      (use tx l that store_okD(2) [OF ok] in \<open>auto simp: complete_succeeded_def Let_def cancelHeld_Jobs\<close>)
  then show ?thesis
    using tx l completed_settles(1) [OF ok l] by (auto simp: complete_succeeded_def split: option.splits)
qed

lemma complete_failed_settles:
  assumes ok: "store_ok s" and tx: "complete_failed cx l result now s = Inr (t, a)"
  shows "settled_by l t"
proof -
  obtain j r where l: "leasedJobAndRun s l now = Inr (j, r)"
    using tx by (auto simp: complete_failed_def)
  have "settled_by l t" if "job_CanceledBy j = None"
    by (rule completed_settles(2) [OF ok l, of _ JobFailed])
      (use tx l that store_okD(2) [OF ok] in \<open>auto simp: complete_failed_def Let_def cancelHeld_Jobs\<close>)
  then show ?thesis
    using tx l completed_settles(1) [OF ok l] by (auto simp: complete_failed_def split: option.splits)
qed

lemma complete_waiting_settles:
  assumes ok: "store_ok s" and tx: "complete_waiting_human cx rnd l result task now s = Inr (t, a)"
  shows "settled_by l t"
proof -
  obtain j r where l: "leasedJobAndRun s l now = Inr (j, r)"
    using tx by (auto simp: complete_waiting_human_def)
  have "settled_by l t" if "job_CanceledBy j = None"
    by (rule completed_settles(2) [OF ok l, of _ JobSucceeded])
      (use tx l that in \<open>auto simp: complete_waiting_human_def Let_def split: if_splits\<close>)
  then show ?thesis
    using tx l completed_settles(1) [OF ok l] by (auto simp: complete_waiting_human_def split: option.splits)
qed

lemma update_settles:
  assumes "updateWithClock rnd now s fn = Inr (t, a)" and "store_ok s"
    and "\<And>v b. store_ok (ensureSnapshot s) \<Longrightarrow> fn (ensureSnapshot s) = Inr (v, b) \<Longrightarrow> settled_by l v"
  shows "settled_by l t"
  using assms(1)
proof (rule update_job)
  fix v
  assume fn: "fn (ensureSnapshot s) = Inr (v, a)"
    and jobs: "\<And>k j. map_of (Jobs v) k = Some j \<Longrightarrow> \<exists>j'. map_of (Jobs t) k = Some j' \<and> job_State j' = job_State j \<and>
      job_Attempt j' = job_Attempt j \<and> job_LeaseOwner j' = job_LeaseOwner j \<and> job_RunID j' = job_RunID j \<and>
      job_LeaseExpiresAt j' = job_LeaseExpiresAt j"
  obtain j where "map_of (Jobs v) (ls_JobID l) = Some j" "settled_job j" "job_Attempt j = ls_Attempt l"
    using assms(3) [OF store_frame.inv_ensure [OF assms(2)] fn] by (auto simp: settled_by_def)
  with jobs [of "ls_JobID l" j] show ?thesis by (auto simp: settled_by_def settled_job_def)
qed

fun completes :: "lease \<Rightarrow> command \<Rightarrow> bool" where
  "completes l (CmdSucceed l' r) \<longleftrightarrow> l' = l"
| "completes l (CmdFail l' r) \<longleftrightarrow> l' = l"
| "completes l (CmdWaitHuman l' r task) \<longleftrightarrow> l' = l"
| "completes l _ \<longleftrightarrow> False"

lemma completion_settles:
  assumes "store_ok s" and "completes l c" and "exec cx rnd now c s = Inr t"
  shows "settled_by l t"
  using assms(2,3)
  by (cases c) (auto simp: CompleteJobSucceeded_def CompleteJobFailed_def CompleteJobWaitingHuman_def
      elim!: update_settles [OF _ assms(1)]
      intro: complete_succeeded_settles complete_failed_settles complete_waiting_settles)

lemma settled_dead:
  assumes "history_ok h" and "settled_by l (state_file h)"
  shows "lease_dead l h"
  using assms by (auto simp: lease_dead_def settled_by_def settled_job_def history_ok_def)

end
