(* ===== verification/Gcm.thy ===== *)
theory Gcm
  imports Sha256
begin

unbundle bit_operations_syntax

text \<open>
  The parts of Go's standard library that encryption uses: \<open>crypto/aes\<close> with a 256-bit key (FIPS 197),
  \<open>crypto/cipher\<close>'s GCM with a 12-byte nonce and a 16-byte tag (NIST SP 800-38D), and \<open>encoding/base64\<close>.
  A byte of a block is an \<open>8 word\<close>. The facts proved are the round trips: what is sealed is opened under
  the same key, nonce and associated data, and what is encoded is decoded.
\<close>

section \<open>AES-256\<close>

type_synonym u8 = "8 word"

definition sbox :: "u8 list" where
  "sbox =
    [0x63, 0x7c, 0x77, 0x7b, 0xf2, 0x6b, 0x6f, 0xc5, 0x30, 0x01, 0x67, 0x2b, 0xfe, 0xd7, 0xab, 0x76,
     0xca, 0x82, 0xc9, 0x7d, 0xfa, 0x59, 0x47, 0xf0, 0xad, 0xd4, 0xa2, 0xaf, 0x9c, 0xa4, 0x72, 0xc0,
     0xb7, 0xfd, 0x93, 0x26, 0x36, 0x3f, 0xf7, 0xcc, 0x34, 0xa5, 0xe5, 0xf1, 0x71, 0xd8, 0x31, 0x15,
     0x04, 0xc7, 0x23, 0xc3, 0x18, 0x96, 0x05, 0x9a, 0x07, 0x12, 0x80, 0xe2, 0xeb, 0x27, 0xb2, 0x75,
     0x09, 0x83, 0x2c, 0x1a, 0x1b, 0x6e, 0x5a, 0xa0, 0x52, 0x3b, 0xd6, 0xb3, 0x29, 0xe3, 0x2f, 0x84,
     0x53, 0xd1, 0x00, 0xed, 0x20, 0xfc, 0xb1, 0x5b, 0x6a, 0xcb, 0xbe, 0x39, 0x4a, 0x4c, 0x58, 0xcf,
     0xd0, 0xef, 0xaa, 0xfb, 0x43, 0x4d, 0x33, 0x85, 0x45, 0xf9, 0x02, 0x7f, 0x50, 0x3c, 0x9f, 0xa8,
     0x51, 0xa3, 0x40, 0x8f, 0x92, 0x9d, 0x38, 0xf5, 0xbc, 0xb6, 0xda, 0x21, 0x10, 0xff, 0xf3, 0xd2,
     0xcd, 0x0c, 0x13, 0xec, 0x5f, 0x97, 0x44, 0x17, 0xc4, 0xa7, 0x7e, 0x3d, 0x64, 0x5d, 0x19, 0x73,
     0x60, 0x81, 0x4f, 0xdc, 0x22, 0x2a, 0x90, 0x88, 0x46, 0xee, 0xb8, 0x14, 0xde, 0x5e, 0x0b, 0xdb,
     0xe0, 0x32, 0x3a, 0x0a, 0x49, 0x06, 0x24, 0x5c, 0xc2, 0xd3, 0xac, 0x62, 0x91, 0x95, 0xe4, 0x79,
     0xe7, 0xc8, 0x37, 0x6d, 0x8d, 0xd5, 0x4e, 0xa9, 0x6c, 0x56, 0xf4, 0xea, 0x65, 0x7a, 0xae, 0x08,
     0xba, 0x78, 0x25, 0x2e, 0x1c, 0xa6, 0xb4, 0xc6, 0xe8, 0xdd, 0x74, 0x1f, 0x4b, 0xbd, 0x8b, 0x8a,
     0x70, 0x3e, 0xb5, 0x66, 0x48, 0x03, 0xf6, 0x0e, 0x61, 0x35, 0x57, 0xb9, 0x86, 0xc1, 0x1d, 0x9e,
     0xe1, 0xf8, 0x98, 0x11, 0x69, 0xd9, 0x8e, 0x94, 0x9b, 0x1e, 0x87, 0xe9, 0xce, 0x55, 0x28, 0xdf,
     0x8c, 0xa1, 0x89, 0x0d, 0xbf, 0xe6, 0x42, 0x68, 0x41, 0x99, 0x2d, 0x0f, 0xb0, 0x54, 0xbb, 0x16]"

definition sub_byte :: "u8 \<Rightarrow> u8" where
  "sub_byte b = sbox ! unat b"

definition xtime :: "u8 \<Rightarrow> u8" where
  "xtime b = push_bit 1 b XOR (if bit b 7 then 0x1b else 0)"

definition xor_bytes :: "u8 list \<Rightarrow> u8 list \<Rightarrow> u8 list" where
  "xor_bytes xs ys = map2 (XOR) xs ys"

definition shift_rows :: "u8 list \<Rightarrow> u8 list" where
  "shift_rows st = map (\<lambda>i. st ! ((i + 4 * (i mod 4)) mod 16)) [0..<16]"

definition mix_column :: "u8 list \<Rightarrow> u8 list" where
  "mix_column col =
     map (\<lambda>i. let a = col ! i; b = col ! ((i + 1) mod 4); c = col ! ((i + 2) mod 4); d = col ! ((i + 3) mod 4)
       in xtime a XOR (xtime b XOR b) XOR c XOR d) [0..<4]"

definition mix_columns :: "u8 list \<Rightarrow> u8 list" where
  "mix_columns st = concat (map (\<lambda>c. mix_column (take 4 (drop (4 * c) st))) [0..<4])"

text \<open>The key schedule, latest word first; \<open>i\<close> is the number of the next word.\<close>

fun key_words :: "nat \<Rightarrow> nat \<Rightarrow> u8 list list \<Rightarrow> u8 list list" where
  "key_words 0 i ws = ws"
| "key_words (Suc n) i ws =
     (let t = ws ! 0;
          t' = (if i mod 8 = 0 then xor_bytes (map sub_byte (rotate1 t)) [push_bit (i div 8 - 1) 1, 0, 0, 0]
                else if i mod 8 = 4 then map sub_byte t else t)
      in key_words n (Suc i) (xor_bytes (ws ! 7) t' # ws))"

definition key_schedule :: "u8 list \<Rightarrow> u8 list list" where
  "key_schedule key = rev (key_words 52 8 (rev (map (\<lambda>i. take 4 (drop (4 * i) key)) [0..<8])))"

definition round_keys :: "u8 list \<Rightarrow> u8 list list" where
  "round_keys key = map (\<lambda>r. concat (take 4 (drop (4 * r) (key_schedule key)))) [0..<15]"

definition aes_round :: "u8 list \<Rightarrow> u8 list \<Rightarrow> u8 list" where
  "aes_round rk st = xor_bytes (mix_columns (shift_rows (map sub_byte st))) rk"

definition aes_encrypt :: "u8 list list \<Rightarrow> u8 list \<Rightarrow> u8 list" where
  "aes_encrypt rks block =
     xor_bytes (shift_rows (map sub_byte (fold aes_round (take 13 (drop 1 rks)) (xor_bytes block (rks ! 0)))))
       (rks ! 14)"

section \<open>GCM\<close>

type_synonym u128 = "128 word"

definition word_of_block :: "u8 list \<Rightarrow> u128" where
  "word_of_block bs = foldl (\<lambda>a b. push_bit 8 a OR ucast b) 0 bs"

definition block_of_word :: "u128 \<Rightarrow> u8 list" where
  "block_of_word w = map (\<lambda>i. ucast (drop_bit (8 * (15 - i)) w)) [0..<16]"

definition gf_step :: "u128 \<Rightarrow> nat \<Rightarrow> u128 \<times> u128 \<Rightarrow> u128 \<times> u128" where
  "gf_step x i zv =
     (let (z, v) = zv
      in (if bit x (127 - i) then z XOR v else z,
          if bit v 0 then drop_bit 1 v XOR push_bit 120 0xE1 else drop_bit 1 v))"

definition gf_mul :: "u128 \<Rightarrow> u128 \<Rightarrow> u128" where
  "gf_mul x y = fst (fold (gf_step x) [0..<128] (0, y))"

definition pad16 :: "u8 list \<Rightarrow> u8 list" where
  "pad16 bs = bs @ replicate ((16 - length bs mod 16) mod 16) 0"

definition blocks16 :: "u8 list \<Rightarrow> u8 list list" where
  "blocks16 bs = map (\<lambda>i. take 16 (drop (16 * i) bs)) [0..<length bs div 16]"

definition be_bytes :: "nat \<Rightarrow> nat \<Rightarrow> u8 list" where
  "be_bytes n v = map of_nat (big_endian n v)"

definition ghash :: "u128 \<Rightarrow> u8 list \<Rightarrow> u128" where
  "ghash h bs = fold (\<lambda>b y. gf_mul (y XOR word_of_block b) h) (blocks16 bs) 0"

definition gcm_tag :: "u8 list list \<Rightarrow> u8 list \<Rightarrow> u8 list \<Rightarrow> u8 list \<Rightarrow> u8 list" where
  "gcm_tag rks nonce aad ct =
     (let h = word_of_block (aes_encrypt rks (replicate 16 0));
          s = ghash h (pad16 aad @ pad16 ct @ be_bytes 8 (8 * length aad) @ be_bytes 8 (8 * length ct))
      in xor_bytes (block_of_word s) (aes_encrypt rks (nonce @ be_bytes 4 1)))"

text \<open>The counter of the first block of text is 2; it is a 32-bit number.\<close>

definition key_stream :: "u8 list list \<Rightarrow> u8 list \<Rightarrow> nat \<Rightarrow> u8 list" where
  "key_stream rks nonce n =
     take n (concat (map (\<lambda>i. aes_encrypt rks (nonce @ be_bytes 4 ((i + 2) mod 2 ^ 32))) [0..<(n + 15) div 16]))"

definition gcm_seal :: "u8 list \<Rightarrow> u8 list \<Rightarrow> u8 list \<Rightarrow> u8 list \<Rightarrow> u8 list" where
  "gcm_seal key nonce plain aad =
     (let rks = round_keys key;
          ct = xor_bytes plain (key_stream rks nonce (length plain))
      in ct @ gcm_tag rks nonce aad ct)"

definition gcm_open :: "u8 list \<Rightarrow> u8 list \<Rightarrow> u8 list \<Rightarrow> u8 list \<Rightarrow> u8 list option" where
  "gcm_open key nonce sealed aad =
     (if length sealed < 16 then None
      else
        let rks = round_keys key;
            ct = take (length sealed - 16) sealed;
            tag = drop (length sealed - 16) sealed
        in if tag \<noteq> gcm_tag rks nonce aad ct then None
           else Some (xor_bytes ct (key_stream rks nonce (length ct))))"

section \<open>Base64\<close>

definition b64_alphabet :: string where
  "b64_alphabet = ''ABCDEFGHIJKLMNOPQRSTUVWXYZabcdefghijklmnopqrstuvwxyz0123456789+/''"

definition b64_char :: "nat \<Rightarrow> char" where
  "b64_char n = b64_alphabet ! n"

definition b64_val :: "char \<Rightarrow> nat option" where
  "b64_val c = map_of (zip b64_alphabet [0..<64]) c"

text \<open>\<open>EncodeToString\<close> of \<open>StdEncoding\<close> (with padding) and of \<open>RawStdEncoding\<close> (without).\<close>

fun b64_encode :: "bool \<Rightarrow> nat list \<Rightarrow> string" where
  "b64_encode padding (a # b # c # rest) =
     [b64_char (a div 4), b64_char ((a mod 4) * 16 + b div 16), b64_char ((b mod 16) * 4 + c div 64),
      b64_char (c mod 64)] @ b64_encode padding rest"
| "b64_encode padding [a, b] =
     [b64_char (a div 4), b64_char ((a mod 4) * 16 + b div 16), b64_char ((b mod 16) * 4)] @
     (if padding then ''='' else [])"
| "b64_encode padding [a] =
     [b64_char (a div 4), b64_char ((a mod 4) * 16)] @ (if padding then ''=='' else [])"
| "b64_encode padding [] = []"

definition b64_quantum :: "char \<Rightarrow> char \<Rightarrow> char \<Rightarrow> char \<Rightarrow> bool \<Rightarrow> nat list option" where
  "b64_quantum c1 c2 c3 c4 last' =
     (case (b64_val c1, b64_val c2) of
        (Some a, Some b) \<Rightarrow>
          (case b64_val c3 of
             Some c \<Rightarrow>
               (case b64_val c4 of
                  Some d \<Rightarrow> Some [a * 4 + b div 16, (b mod 16) * 16 + c div 4, (c mod 4) * 64 + d]
                | None \<Rightarrow> if last' \<and> c4 = CHR ''='' then Some [a * 4 + b div 16, (b mod 16) * 16 + c div 4] else None)
           | None \<Rightarrow> if last' \<and> c3 = CHR ''='' \<and> c4 = CHR ''='' then Some [a * 4 + b div 16] else None)
      | _ \<Rightarrow> None)"

fun b64_groups :: "string \<Rightarrow> nat list option" where
  "b64_groups [] = Some []"
| "b64_groups (c1 # c2 # c3 # c4 # rest) =
     (case b64_quantum c1 c2 c3 c4 (rest = []) of
        None \<Rightarrow> None
      | Some bs \<Rightarrow> map_option (\<lambda>t. bs @ t) (b64_groups rest))"
| "b64_groups _ = None"

text \<open>\<open>StdEncoding.DecodeString\<close>; line breaks are ignored.\<close>

definition b64_decode :: "string \<Rightarrow> nat list option" where
  "b64_decode s = b64_groups (filter (\<lambda>c. byte c \<noteq> 10 \<and> byte c \<noteq> 13) s)"

section \<open>Round trips\<close>

lemma length_xor_bytes [simp]: "length (xor_bytes xs ys) = min (length xs) (length ys)"
  by (simp add: xor_bytes_def)

lemma xor_bytes_twice: "length xs \<le> length ks \<Longrightarrow> xor_bytes (xor_bytes xs ks) ks = xs"
  by (rule nth_equalityI) (simp_all add: xor_bytes_def xor.assoc)

lemma length_shift_rows [simp]: "length (shift_rows st) = 16"
  by (simp add: shift_rows_def)

lemma length_key_words: "length (key_words n i ws) = length ws + n"
  by (induction n i ws rule: key_words.induct) (simp_all add: Let_def)

lemma word_lengths:
  assumes "\<forall>w \<in> set ws. length w = 4" and "8 \<le> length ws"
  shows "\<forall>w \<in> set (key_words n i ws). length w = 4"
  using assms
proof (induction n i ws rule: key_words.induct)
  case (2 n i ws)
  let ?t = "if i mod 8 = 0 then xor_bytes (map sub_byte (rotate1 (ws ! 0))) [push_bit (i div 8 - 1) 1, 0, 0, 0]
      else if i mod 8 = 4 then map sub_byte (ws ! 0) else ws ! 0"
  have "ws ! 0 \<in> set ws" "ws ! 7 \<in> set ws" using 2(3) by (auto intro!: nth_mem)
  then have "length (ws ! 0) = 4" "length (ws ! 7) = 4" using 2(2) by simp_all
  then have "length (xor_bytes (ws ! 7) ?t) = 4" by simp
  then have "\<forall>w \<in> set (xor_bytes (ws ! 7) ?t # ws). length w = 4" using 2(2) by simp
  from 2(1) [OF refl refl this] show ?case
    unfolding key_words.simps Let_def using 2(3) by simp
qed simp

lemma concat_lengths: "\<forall>w \<in> set ws. length w = n \<Longrightarrow> length (concat ws) = n * length ws"
  by (induction ws) auto

lemma round_key_length:
  assumes "length key = 32" and "r < 15"
  shows "length (round_keys key ! r) = 16"
proof -
  let ?k = "rev (map (\<lambda>i. take 4 (drop (4 * i) key)) [0..<8])"
  have "\<forall>w \<in> set ?k. length w = 4" and len: "length ?k = 8"
    using assms(1) by (simp_all only: length_rev length_map length_upt set_rev set_map) auto
  then have all: "\<forall>w \<in> set (key_schedule key). length w = 4"
    unfolding key_schedule_def set_rev by (intro word_lengths) simp_all
  have "length (key_schedule key) = 60"
    unfolding key_schedule_def length_rev length_key_words using len by simp
  then have "length (take 4 (drop (4 * r) (key_schedule key))) = 4" using assms(2) by simp
  moreover have "\<forall>w \<in> set (take 4 (drop (4 * r) (key_schedule key))). length w = 4"
    using all by (meson in_set_takeD in_set_dropD)
  ultimately have "length (concat (take 4 (drop (4 * r) (key_schedule key)))) = 16"
    using concat_lengths [of "take 4 (drop (4 * r) (key_schedule key))" 4] by simp
  then show ?thesis
    unfolding round_keys_def using assms(2) by (subst nth_map) simp_all
qed

lemma length_aes_encrypt: "length key = 32 \<Longrightarrow> length (aes_encrypt (round_keys key) block) = 16"
  using round_key_length [of key 14] by (simp add: aes_encrypt_def)

lemma length_key_stream: "length key = 32 \<Longrightarrow> length (key_stream (round_keys key) nonce n) = n"
proof -
  assume key: "length key = 32"
  have "length (concat (map (\<lambda>i. aes_encrypt (round_keys key) (nonce @ be_bytes 4 ((i + 2) mod 2 ^ 32)))
      [0..<(n + 15) div 16])) = 16 * ((n + 15) div 16)"
    using concat_lengths [of "map (\<lambda>i. aes_encrypt (round_keys key) (nonce @ be_bytes 4 ((i + 2) mod 2 ^ 32)))
      [0..<(n + 15) div 16]" 16] length_aes_encrypt [OF key] by simp
  then show ?thesis by (simp add: key_stream_def)
qed

lemma length_gcm_tag: "length key = 32 \<Longrightarrow> length (gcm_tag (round_keys key) nonce aad ct) = 16"
  by (simp add: gcm_tag_def Let_def length_aes_encrypt block_of_word_def)

lemma gcm_roundtrip:
  assumes key: "length key = 32"
  shows "gcm_open key nonce (gcm_seal key nonce plain aad) aad = Some plain"
proof -
  let ?ct = "xor_bytes plain (key_stream (round_keys key) nonce (length plain))"
  have ct: "length ?ct = length plain" by (simp add: length_key_stream [OF key])
  have tag: "length (gcm_tag (round_keys key) nonce aad ?ct) = 16" by (rule length_gcm_tag [OF key])
  have "xor_bytes ?ct (key_stream (round_keys key) nonce (length plain)) = plain"
    by (rule xor_bytes_twice) (simp add: length_key_stream [OF key])
  then show ?thesis
    using ct tag by (simp add: gcm_open_def gcm_seal_def Let_def)
qed

lemma b64_val_char: "n < 64 \<Longrightarrow> b64_val (b64_char n) = Some n"
proof -
  assume n: "n < 64"
  have dist: "distinct b64_alphabet" and len: "length b64_alphabet = 64"
    by (simp_all add: b64_alphabet_def)
  have "map_of (zip b64_alphabet [0..<64]) (b64_alphabet ! n) = Some ([0..<64] ! n)"
    by (rule map_of_zip_nth) (use n dist len in simp_all)
  then show ?thesis using n by (simp add: b64_val_def b64_char_def)
qed

lemma b64_val_pad: "b64_val (CHR ''='') = None"
  by (simp add: b64_val_def b64_alphabet_def upt_rec)

lemma six_bits:
  fixes a b c :: nat
  assumes "a < 256" "b < 256" "c < 256"
  shows "a div 4 < 64" "(a mod 4) * 16 + b div 16 < 64" "(b mod 16) * 4 + c div 64 < 64" "c mod 64 < 64"
    "(a mod 4) * 16 < 64" "(b mod 16) * 4 < 64"
proof -
  have m: "a mod 4 < 4" "b mod 16 < 16" by simp_all
  have d: "b div 16 < 16" "c div 64 < 4" using assms by (simp_all add: less_mult_imp_div_less)
  show "a div 4 < 64" using assms by (simp add: less_mult_imp_div_less)
  show "(a mod 4) * 16 + b div 16 < 64" using m(1) d(1) by linarith
  show "(b mod 16) * 4 + c div 64 < 64" using m(2) d(2) by linarith
  show "c mod 64 < 64" by simp
  show "(a mod 4) * 16 < 64" "(b mod 16) * 4 < 64" using m by simp_all
qed

lemma eight_bits:
  fixes a b c :: nat
  assumes "b < 256" "c < 256"
  shows "a div 4 * 4 + ((a mod 4) * 16 + b div 16) div 16 = a"
    "((a mod 4) * 16 + b div 16) mod 16 * 16 + ((b mod 16) * 4 + c div 64) div 4 = b"
    "((b mod 16) * 4 + c div 64) mod 4 * 64 + c mod 64 = c"
proof -
  have d: "b div 16 < 16" "c div 64 < 4" using assms by (simp_all add: less_mult_imp_div_less)
  have "((a mod 4) * 16 + b div 16) div 16 = a mod 4" using d(1) by simp
  then show "a div 4 * 4 + ((a mod 4) * 16 + b div 16) div 16 = a" by simp
  have "((a mod 4) * 16 + b div 16) mod 16 = b div 16" "((b mod 16) * 4 + c div 64) div 4 = b mod 16"
    using d by simp_all
  then show "((a mod 4) * 16 + b div 16) mod 16 * 16 + ((b mod 16) * 4 + c div 64) div 4 = b" by simp
  have "((b mod 16) * 4 + c div 64) mod 4 = c div 64" using d(2) by simp
  then show "((b mod 16) * 4 + c div 64) mod 4 * 64 + c mod 64 = c" by simp
qed

lemma b64_groups_encode: "\<forall>b \<in> set bs. b < 256 \<Longrightarrow> b64_groups (b64_encode True bs) = Some bs"
proof (induction "True" bs rule: b64_encode.induct)
  case (1 a b c rest)
  have lt: "a < 256" "b < 256" "c < 256" using 1(2) by simp_all
  have "b64_quantum (b64_char (a div 4)) (b64_char ((a mod 4) * 16 + b div 16)) (b64_char ((b mod 16) * 4 + c div 64))
      (b64_char (c mod 64)) l = Some [a, b, c]" for l
    unfolding b64_quantum_def using six_bits [OF lt] eight_bits [OF lt(2,3)] by (simp add: b64_val_char)
  then show ?case using 1 by simp
next
  case (2 a b)
  have lt: "a < 256" "b < 256" "(0::nat) < 256" using 2 by simp_all
  show ?case
    using six_bits [OF lt] eight_bits [OF lt(2,3)] by (simp add: b64_quantum_def b64_val_char b64_val_pad)
next
  case (3 a)
  have lt: "a < 256" "(0::nat) < 256" "(0::nat) < 256" using 3 by simp_all
  show ?case
    using six_bits [OF lt] eight_bits [OF lt(2,3)] by (simp add: b64_quantum_def b64_val_char b64_val_pad)
qed simp

text \<open>The characters of an encoding need no escape in a JSON string.\<close>

definition b64_text :: "string \<Rightarrow> bool" where
  "b64_text s \<longleftrightarrow> (\<forall>c \<in> set s. c \<in> set b64_alphabet \<or> c = CHR ''='')"

lemma b64_char_in: "n < 64 \<Longrightarrow> b64_char n \<in> set b64_alphabet"
  unfolding b64_char_def by (rule nth_mem) (simp add: b64_alphabet_def)

lemma b64_encode_text: "\<forall>b \<in> set bs. b < 256 \<Longrightarrow> b64_text (b64_encode padding bs)"
proof (induction padding bs rule: b64_encode.induct)
  case (1 padding a b c rest)
  have "a < 256" "b < 256" "c < 256" using 1(2) by simp_all
  from six_bits [OF this] show ?case using 1 b64_char_in by (simp add: b64_text_def)
next
  case (2 padding a b)
  have "a < 256" "b < 256" "(0::nat) < 256" using 2 by simp_all
  from six_bits [OF this] show ?case using b64_char_in by (simp add: b64_text_def)
next
  case (3 padding a)
  have "a < 256" "(0::nat) < 256" "(0::nat) < 256" using 3 by simp_all
  from six_bits [OF this] show ?case using b64_char_in by (simp add: b64_text_def)
qed (simp add: b64_text_def)

lemma b64_roundtrip:
  assumes "\<forall>b \<in> set bs. b < 256"
  shows "b64_decode (b64_encode True bs) = Some bs"
proof -
  have "byte c \<noteq> 10 \<and> byte c \<noteq> 13" if "c \<in> set b64_alphabet \<or> c = CHR ''=''" for c
    using that by (auto simp: b64_alphabet_def byte_def)
  then have "filter (\<lambda>c. byte c \<noteq> 10 \<and> byte c \<noteq> 13) (b64_encode True bs) = b64_encode True bs"
    using b64_encode_text [OF assms] by (simp add: b64_text_def filter_id_conv)
  then show ?thesis
    using b64_groups_encode [OF assms] by (simp add: b64_decode_def)
qed

end
