(* ===== verification/Crypto.thy ===== *)
theory Crypto
  imports Gcm Json JobStore
begin

text \<open>
  Encryption at rest: \<^verbatim>\<open>internal/crypto/crypto.go\<close>, \<^verbatim>\<open>internal/crypto/envelope.go\<close> and
  \<^verbatim>\<open>internal/state/crypto.go\<close>. The key rows of workspaces, which workspace administration writes once, are
  an argument \<open>keys\<close>; random bytes come from the source \<open>rnd\<close>. The locale \<open>at_rest_codec\<close> is what the store
  relies on, and the last section interprets it on the codec the local store builds.
\<close>

section \<open>Keys\<close>

definition bytes_of :: "string \<Rightarrow> u8 list" where
  "bytes_of s = map (\<lambda>c. of_nat (byte c)) s"

definition text_of :: "u8 list \<Rightarrow> string" where
  "text_of bs = map (\<lambda>b. char_of (unat b)) bs"

text \<open>\<open>io.ReadFull\<close> fills a buffer of \<open>n\<close> bytes.\<close>

definition read_full :: "nat \<Rightarrow> string \<Rightarrow> string" where
  "read_full n s = take n (s @ replicate n nul)"

definition DeriveWorkspaceKey :: "string \<Rightarrow> string \<Rightarrow> string" where
  "DeriveWorkspaceKey secret workspaceID = b64_encode False (sha256 (map byte (secret @ '':'' @ workspaceID)))"

definition DeriveKEK :: "string \<Rightarrow> string" where
  "DeriveKEK secret = b64_encode False (sha256 (map byte (secret @ '':wsdek-kek'')))"

definition GenerateDEK :: "string \<Rightarrow> string" where
  "GenerateDEK draw = b64_encode False (map byte (read_full 32 draw))"

section \<open>Authenticated encryption\<close>

definition aeadFor :: "string \<Rightarrow> u8 list" where
  "aeadFor key = map of_nat (sha256 (map byte key))"

definition EncryptWithAAD :: "string \<Rightarrow> string \<Rightarrow> string \<Rightarrow> string \<Rightarrow> string" where
  "EncryptWithAAD draw key plaintext associatedData =
     (let nonce = bytes_of (read_full 12 draw)
      in b64_encode True (map unat (nonce @ gcm_seal (aeadFor key) nonce (bytes_of plaintext) (bytes_of associatedData))))"

definition DecryptWithAAD :: "string \<Rightarrow> string \<Rightarrow> string \<Rightarrow> string res" where
  "DecryptWithAAD key encoded associatedData =
     (case b64_decode encoded of
        None \<Rightarrow> Inl (ErrOther ''illegal base64 data'')
      | Some raw \<Rightarrow>
          if length raw < 12 then Inl (ErrOther ''ciphertext too short'')
          else
            let raw' = map of_nat raw
            in case gcm_open (aeadFor key) (take 12 raw') (drop 12 raw') (bytes_of associatedData) of
                 None \<Rightarrow> Inl (ErrOther ''cipher: message authentication failed'')
               | Some plain \<Rightarrow> Inr (text_of plain))"

definition Encrypt :: "string \<Rightarrow> string \<Rightarrow> string \<Rightarrow> string" where
  "Encrypt draw key plaintext = EncryptWithAAD draw key plaintext []"

definition Decrypt :: "string \<Rightarrow> string \<Rightarrow> string res" where
  "Decrypt key encoded = DecryptWithAAD key encoded []"

definition WrapDEK :: "string \<Rightarrow> string \<Rightarrow> string \<Rightarrow> string" where
  "WrapDEK draw kek dek = Encrypt draw kek dek"

definition UnwrapDEK :: "string \<Rightarrow> string \<Rightarrow> string res" where
  "UnwrapDEK kek wrapped = Decrypt kek wrapped"

text \<open>The loop tries each key in turn and keeps the last error.\<close>

fun try_keks :: "string \<Rightarrow> error option \<Rightarrow> string list \<Rightarrow> string res" where
  "try_keks storedKey lastErr [] =
     Inl (case lastErr of Some e \<Rightarrow> e | None \<Rightarrow> ErrOther ''no KEK available to unwrap the workspace DEK'')"
| "try_keks storedKey lastErr (kek # keks) =
     (if kek = [] then try_keks storedKey lastErr keks
      else case UnwrapDEK kek storedKey of
             Inr dek \<Rightarrow> Inr dek
           | Inl e \<Rightarrow> try_keks storedKey (Some e) keks)"

definition ResolveDEK :: "string \<Rightarrow> int \<Rightarrow> string list \<Rightarrow> string res" where
  "ResolveDEK storedKey kekVersion keks =
     (if kekVersion = 0 then Inr storedKey else try_keks storedKey None keks)"

definition WrappedDEKVersion :: int where "WrappedDEKVersion = 1"

definition NewWrappedDEK :: "string \<Rightarrow> string \<Rightarrow> string \<Rightarrow> string \<times> int" where
  "NewWrappedDEK dekDraw nonceDraw secret =
     (WrapDEK nonceDraw (DeriveKEK secret) (GenerateDEK dekDraw), WrappedDEKVersion)"

section \<open>Envelopes\<close>

definition encMarkerKey :: string where "encMarkerKey = ''__wf_enc''"

definition IsEnc :: "raw \<Rightarrow> bool" where
  "IsEnc b \<longleftrightarrow> b \<noteq> [] \<and>
     (case unmarshal_object b of Some (Some m) \<Rightarrow> map_of m encMarkerKey \<noteq> None | _ \<Rightarrow> False)"

definition WrapEnc :: "string \<Rightarrow> string \<Rightarrow> raw \<Rightarrow> raw" where
  "WrapEnc draw dek plaintextJSON =
     compact (JObj [(''__wf_enc'', JInt 1), (''ct'', JString (Encrypt draw dek plaintextJSON))])"

text \<open>
  \<open>Unmarshal\<close> into the envelope: a member goes to the field whose name it has, up to ASCII case, a value of
  another type is an error, \<open>null\<close> leaves the field as it is, and the last member counts.
\<close>

definition ascii_lower :: "string \<Rightarrow> string" where
  "ascii_lower s = map (\<lambda>c. if 65 \<le> byte c \<and> byte c \<le> 90 then char_of (byte c + 32) else c) s"

definition int64_literal :: "string \<Rightarrow> bool" where
  "int64_literal l =
     (let neg = (l \<noteq> [] \<and> hd l = CHR ''-'');
          ds = (if neg then tl l else l);
          n = foldl (\<lambda>a c. 10 * a + (int (byte c) - 48)) 0 ds
      in ds \<noteq> [] \<and> list_all is_digit ds \<and> (if neg then n \<le> 2 ^ 63 else n < 2 ^ 63))"

definition envelope_member :: "string \<times> json \<Rightarrow> string \<Rightarrow> string res" where
  "envelope_member kv ct =
     (let name = ascii_lower (key_text (fst kv)); v = snd kv
      in if name = ''__wf_enc''
         then (case v of
                 JNull \<Rightarrow> Inr ct
               | JNum l \<Rightarrow> if int64_literal l then Inr ct else Inl (ErrOther ''cannot unmarshal into int'')
               | _ \<Rightarrow> Inl (ErrOther ''cannot unmarshal into int''))
         else if name = ''ct''
         then (case v of
                 JNull \<Rightarrow> Inr ct
               | JStr l \<Rightarrow> Inr (key_text l)
               | _ \<Rightarrow> Inl (ErrOther ''cannot unmarshal into string''))
         else Inr ct)"

definition unmarshal_envelope :: "raw \<Rightarrow> string res" where
  "unmarshal_envelope b =
     (case json_parse b of
        Some (JObj ms) \<Rightarrow> fold_res envelope_member ms []
      | Some JNull \<Rightarrow> Inr []
      | _ \<Rightarrow> Inl (ErrOther ''cannot unmarshal into envelope''))"

definition UnwrapEnc :: "string \<Rightarrow> raw \<Rightarrow> raw res" where
  "UnwrapEnc dek b =
     (if \<not> IsEnc b then Inr b
      else bind_res (unmarshal_envelope b) (\<lambda>ct. Decrypt dek ct))"

section \<open>Values at rest\<close>

record input_crypto_config =
  icc_SecretKey :: string
  icc_SecretKeyPrevious :: string

type_synonym key_provider = "string \<Rightarrow> (string \<times> int) res"

definition canonicalJSONValue :: "raw \<Rightarrow> string \<Rightarrow> raw" where
  "canonicalJSONValue input defaultJSON = (if input = [] then defaultJSON else input)"

definition inputKEKs :: "input_crypto_config \<Rightarrow> string list" where
  "inputKEKs config =
     (let keks = [DeriveKEK (trim (icc_SecretKey config))]; previous = trim (icc_SecretKeyPrevious config)
      in if previous \<noteq> [] then keks @ [DeriveKEK previous] else keks)"

definition resolveInputDEK :: "key_provider \<Rightarrow> input_crypto_config \<Rightarrow> string \<Rightarrow> (string \<times> bool) res" where
  "resolveInputDEK keys config workspaceID0 =
     (let workspaceID = NormalizeWorkspace workspaceID0
      in bind_res (keys workspaceID) (\<lambda>(key, version).
           if key \<noteq> [] then bind_res (ResolveDEK key version (inputKEKs config)) (\<lambda>dek. Inr (dek, False))
           else Inr (DeriveWorkspaceKey (trim (icc_SecretKey config)) workspaceID, True)))"

definition encryptJSONAtRest ::
  "string \<Rightarrow> key_provider \<Rightarrow> input_crypto_config \<Rightarrow> string \<Rightarrow> raw \<Rightarrow> string \<Rightarrow> raw res" where
  "encryptJSONAtRest draw keys config workspaceID value0 defaultJSON =
     (let value = canonicalJSONValue value0 defaultJSON
      in if \<not> json_valid value then Inl (ErrOther ''value is not valid JSON'')
         else if trim (icc_SecretKey config) = [] \<or> IsEnc value then Inr value
         else bind_res (resolveInputDEK keys config workspaceID) (\<lambda>(dek, _). Inr (WrapEnc draw dek value)))"

definition decryptJSONAtRest ::
  "key_provider \<Rightarrow> input_crypto_config \<Rightarrow> string \<Rightarrow> raw \<Rightarrow> string \<Rightarrow> raw res" where
  "decryptJSONAtRest keys config workspaceID value0 defaultJSON =
     (let value = canonicalJSONValue value0 defaultJSON
      in if \<not> IsEnc value then Inr value
         else if trim (icc_SecretKey config) = [] then Inl (ErrOther ''value is encrypted but SECRET_KEY is not configured'')
         else bind_res (resolveInputDEK keys config workspaceID) (\<lambda>(dek, legacyDerived).
           let first = UnwrapEnc dek value;
               second = (case first of
                  Inr p \<Rightarrow> Inr p
                | Inl e \<Rightarrow>
                    if legacyDerived \<and> trim (icc_SecretKeyPrevious config) \<noteq> []
                    then UnwrapEnc (DeriveWorkspaceKey (trim (icc_SecretKeyPrevious config)) (NormalizeWorkspace workspaceID)) value
                    else Inl e)
           in bind_res second (\<lambda>plain.
                if \<not> json_valid plain then Inl (ErrOther ''decrypted value is not valid JSON'') else Inr plain)))"

text \<open>Strings of webhook subscriptions: a JSON string, encrypted; \<open>Unmarshal\<close> into a string leaves it empty on \<open>null\<close>.\<close>

definition unmarshal_text :: "raw \<Rightarrow> string res" where
  "unmarshal_text v =
     (case json_parse v of
        Some (JStr l) \<Rightarrow> Inr (key_text l)
      | Some JNull \<Rightarrow> Inr []
      | _ \<Rightarrow> Inl (ErrOther ''decode''))"

definition encryptWebhookString ::
  "string \<Rightarrow> key_provider \<Rightarrow> input_crypto_config \<Rightarrow> string \<Rightarrow> string \<Rightarrow> raw res" where
  "encryptWebhookString draw keys config workspaceID value =
     (if trim (icc_SecretKey config) = [] then Inl (ErrOther ''requires SECRET_KEY'')
      else encryptJSONAtRest draw keys config workspaceID (compact (JString value)) [dquote, dquote])"

definition decryptWebhookString :: "key_provider \<Rightarrow> input_crypto_config \<Rightarrow> string \<Rightarrow> raw \<Rightarrow> string res" where
  "decryptWebhookString keys config workspaceID value =
     bind_res (decryptJSONAtRest keys config workspaceID value [dquote, dquote]) unmarshal_text"

text \<open>The codec of the local store; results default to \<open>null\<close>, inputs to the empty object.\<close>

definition local_codec :: "key_provider \<Rightarrow> input_crypto_config \<Rightarrow> rnd \<Rightarrow> codec" where
  "local_codec keys config rnd =
     \<lparr>enc_input = \<lambda>draw w v. encryptJSONAtRest (rnd (''nonce/'' @ draw)) keys config w v ''{}'',
      dec_input = \<lambda>w v. decryptJSONAtRest keys config w v ''{}'',
      enc_result = \<lambda>draw w v. encryptJSONAtRest (rnd (''nonce/'' @ draw)) keys config w v ''null'',
      dec_result = \<lambda>w v. decryptJSONAtRest keys config w v ''null'',
      enc_text = \<lambda>draw w v. encryptWebhookString (rnd (''nonce/'' @ draw)) keys config w v,
      dec_text = \<lambda>w v. decryptWebhookString keys config w v\<rparr>"

section \<open>Round trips\<close>

lemma text_bytes: "text_of (bytes_of s) = s"
proof -
  have "unat (of_nat (byte c) :: u8) = byte c" for c
    using nat_of_char_less_256 [of c] by (simp add: byte_def unsigned_of_nat take_bit_nat_eq_self)
  then show ?thesis by (simp add: text_of_def bytes_of_def comp_def byte_def)
qed

lemma length_read_full [simp]: "length (read_full n s) = n"
  by (simp add: read_full_def)

lemma length_aeadFor [simp]: "length (aeadFor key) = 32"
  by (simp add: aeadFor_def)

lemma map_unat_word8: "map of_nat (map unat bs) = (bs :: u8 list)"
  by (simp add: comp_def)

lemma Decrypt_Encrypt_AAD: "DecryptWithAAD key (EncryptWithAAD draw key plain aad) aad = Inr plain"
proof -
  let ?n = "bytes_of (read_full 12 draw)"
  let ?ct = "gcm_seal (aeadFor key) ?n (bytes_of plain) (bytes_of aad)"
  have bytes: "\<forall>b \<in> set (map unat (?n @ ?ct)). b < 256"
  proof -
    have "unat b < 256" for b :: u8 using unsigned_less [of b, where ?'a = nat] by simp
    then show ?thesis by auto
  qed
  have len: "length ?n = 12" by (simp add: bytes_of_def)
  have "b64_decode (EncryptWithAAD draw key plain aad) = Some (map unat (?n @ ?ct))"
    unfolding EncryptWithAAD_def Let_def by (rule b64_roundtrip [OF bytes])
  moreover have "gcm_open (aeadFor key) ?n ?ct (bytes_of aad) = Some (bytes_of plain)"
    by (rule gcm_roundtrip) simp
  ultimately show ?thesis
    using len unfolding DecryptWithAAD_def Let_def
    by (simp add: map_unat_word8 text_bytes del: map_append map_map)
qed

lemma Decrypt_Encrypt: "Decrypt key (Encrypt draw key plain) = Inr plain"
  by (simp add: Decrypt_def Encrypt_def Decrypt_Encrypt_AAD)

text \<open>A wrapped key is found under the key that wrapped it, whatever keys are tried before.\<close>

lemma ResolveDEK_wrapped:
  assumes "kek \<in> set keks" and "kek \<noteq> []" and "version \<noteq> 0"
  shows "\<exists>dek'. ResolveDEK (WrapDEK draw kek dek) version keks = Inr dek'"
proof -
  have "\<exists>dek'. try_keks (WrapDEK draw kek dek) e keks = Inr dek'" for e
    using assms(1,2)
  proof (induction keks arbitrary: e)
    case (Cons k ks)
    then show ?case
      by (cases "UnwrapDEK k (WrapDEK draw kek dek)") (auto simp: UnwrapDEK_def WrapDEK_def Decrypt_Encrypt)
  qed simp
  then show ?thesis using assms(3) by (simp add: ResolveDEK_def)
qed

section \<open>The envelope as JSON text\<close>

text \<open>Text that JSON strings hold as it is.\<close>

definition plain_char :: "char \<Rightarrow> bool" where
  "plain_char c \<longleftrightarrow> 32 \<le> byte c \<and> byte c < 128 \<and> byte c \<noteq> 34 \<and> byte c \<noteq> 92 \<and> byte c \<noteq> 60 \<and> byte c \<noteq> 62 \<and> byte c \<noteq> 38"

lemma b64_plain: "b64_text s \<Longrightarrow> list_all plain_char s"
proof -
  have "list_all plain_char (CHR ''='' # b64_alphabet)"
    by code_simp
  then show "b64_text s \<Longrightarrow> list_all plain_char s"
    unfolding b64_text_def list_all_iff by auto
qed

lemma plain_not_special:
  "plain_char c \<Longrightarrow> c \<noteq> dquote \<and> c \<noteq> backslash \<and> c \<notin> set ''<>&'' \<and> \<not> byte c < 32 \<and> byte c \<noteq> 226"
  by (auto simp: plain_char_def dquote_def backslash_def byte_def)

lemma quote_plain: "list_all plain_char s \<Longrightarrow> quote_text (map byte s) = s"
proof (induction s)
  case Nil
  then show ?case by (simp add: quote_text.simps)
next
  case (Cons c s)
  then have c: "plain_char c" and s: "quote_text (map byte s) = s" by simp_all
  show ?case
    using c s by (subst quote_text.simps) (simp add: plain_char_def byte_def)
qed

lemma html_plain: "list_all plain_char s \<Longrightarrow> html_escape s = s"
  by (induction s rule: html_escape.induct) (use plain_not_special in \<open>auto\<close>)

lemma scan_plain: "list_all plain_char s \<Longrightarrow> scan_str (s @ dquote # r) = Some (s, r)"
proof (induction s)
  case (Cons c s)
  then show ?case using plain_not_special [of c] by simp
qed simp

lemma unquote_plain: "list_all plain_char s \<Longrightarrow> unquote s = map byte s"
proof (induction s)
  case Nil
  then show ?case by (simp add: unquote.simps)
next
  case (Cons c s)
  then have c: "plain_char c" and s: "unquote s = map byte s" by simp_all
  show ?case
    using c s plain_not_special [OF c] by (subst unquote.simps) (simp add: plain_char_def encode_rune_def)
qed

lemma key_text_plain: "list_all plain_char s \<Longrightarrow> key_text s = s"
  by (simp add: key_text_def unquote_plain byte_def comp_def)

lemma marker_plain: "list_all plain_char ''__wf_enc''" "list_all plain_char ''ct''"
  by code_simp+

text \<open>The text of an object with a number and a string.\<close>

definition envelope_text :: "string \<Rightarrow> string \<Rightarrow> string \<Rightarrow> string" where
  "envelope_text k1 k2 ct = CHR ''{'' # dquote # (k1 @ dquote # CHR '':'' # CHR ''1'' # CHR '','' # dquote #
     (k2 @ dquote # CHR '':'' # dquote # (ct @ dquote # [CHR ''}''])))"

lemma compact_envelope:
  assumes "list_all plain_char k1" "list_all plain_char k2" "list_all plain_char ct"
  shows "compact (JObj [(k1, JInt 1), (k2, JString ct)]) = envelope_text k1 k2 ct"
proof -
  have "itoa 1 = ''1''" by code_simp
  then show ?thesis
    using assms by (simp add: quote_plain html_plain JInt_def JString_def envelope_text_def join_def)
qed

lemma skip_ws_heads [simp]:
  "skip_ws (dquote # s) = dquote # s" "skip_ws (CHR ''{'' # s) = CHR ''{'' # s" "skip_ws (CHR ''}'' # s) = CHR ''}'' # s"
  "skip_ws (CHR '':'' # s) = CHR '':'' # s" "skip_ws (CHR '','' # s) = CHR '','' # s" "skip_ws (CHR ''1'' # s) = CHR ''1'' # s"
  "skip_ws [] = []"
  by (simp_all add: skip_ws_def json_space_def byte_def dquote_def)

lemma dquote_heads [simp]:
  "CHR ''1'' \<noteq> dquote" "CHR ''{'' \<noteq> dquote" "dquote \<noteq> CHR ''}''" "dquote \<noteq> CHR '',''"
  by (simp_all add: dquote_def)

lemma p_one: "p_value (Suc n) (CHR ''1'' # CHR '','' # s) = Some (JNum ''1'', CHR '','' # s)"
  by (simp add: scan_num_def scan_int_def scan_frac_def scan_exp_def scan_digits_def is_digit_def byte_def)

lemma p_string: "list_all plain_char ct \<Longrightarrow> p_value (Suc n) (dquote # (ct @ dquote # s)) = Some (JStr ct, s)"
  by (simp add: scan_plain)

lemma parse_envelope:
  assumes k1: "list_all plain_char k1" and k2: "list_all plain_char k2" and ct: "list_all plain_char ct"
  shows "json_parse (envelope_text k1 k2 ct) = Some (JObj [(k1, JNum ''1''), (k2, JStr ct)])"
proof -
  obtain n where n: "2 * length (envelope_text k1 k2 ct) + 2 = Suc (Suc (Suc (Suc n)))"
    by (simp add: envelope_text_def)
  let ?r2 = "CHR '':'' # dquote # (ct @ dquote # [CHR ''}''])"
  have "p_members (Suc (Suc n)) (dquote # (k2 @ dquote # ?r2)) = Some ([(k2, JStr ct)], [])"
    using scan_plain [OF k2] p_string [OF ct] by (simp del: p_value.simps)
  then have "p_members (Suc (Suc (Suc n))) (dquote # (k1 @ dquote # CHR '':'' # CHR ''1'' # CHR '','' # dquote #
     (k2 @ dquote # ?r2))) = Some ([(k1, JNum ''1''), (k2, JStr ct)], [])"
    using scan_plain [OF k1] by (simp add: p_one del: p_value.simps)
  then have "p_value (Suc (Suc (Suc (Suc n)))) (envelope_text k1 k2 ct) = Some (JObj [(k1, JNum ''1''), (k2, JStr ct)], [])"
    unfolding envelope_text_def by (simp del: p_members.simps)
  then show ?thesis
    unfolding json_parse_def n by simp
qed

lemma Encrypt_plain: "list_all plain_char (Encrypt draw dek plain)"
proof -
  have "unat b < 256" for b :: u8 using unsigned_less [of b, where ?'a = nat] by simp
  then show ?thesis
    unfolding Encrypt_def EncryptWithAAD_def Let_def by (intro b64_plain b64_encode_text) auto
qed

lemma WrapEnc_parse:
  "json_parse (WrapEnc draw dek v) = Some (JObj [(''__wf_enc'', JNum ''1''), (''ct'', JStr (Encrypt draw dek v))])"
  unfolding WrapEnc_def compact_envelope [OF marker_plain Encrypt_plain]
  by (rule parse_envelope [OF marker_plain Encrypt_plain])

lemma IsEnc_WrapEnc: "IsEnc (WrapEnc draw dek v)"
proof -
  have "WrapEnc draw dek v \<noteq> []"
    unfolding WrapEnc_def compact_envelope [OF marker_plain Encrypt_plain] by (simp add: envelope_text_def)
  then show ?thesis
    unfolding IsEnc_def unmarshal_object_def WrapEnc_parse
    using key_text_plain [OF marker_plain(1)] key_text_plain [OF marker_plain(2)] by (simp add: encMarkerKey_def)
qed

lemma UnwrapEnc_WrapEnc: "UnwrapEnc dek (WrapEnc draw dek v) = Inr v"
proof -
  have "ascii_lower ''__wf_enc'' = ''__wf_enc''" "ascii_lower ''ct'' = ''ct''" "int64_literal ''1''"
    by code_simp+
  then have "unmarshal_envelope (WrapEnc draw dek v) = Inr (Encrypt draw dek v)"
    unfolding unmarshal_envelope_def WrapEnc_parse
    using key_text_plain [OF marker_plain(1)] key_text_plain [OF marker_plain(2)] key_text_plain [OF Encrypt_plain]
    by (simp add: envelope_member_def Let_def)
  then show ?thesis
    by (simp add: UnwrapEnc_def IsEnc_WrapEnc Decrypt_Encrypt)
qed

section \<open>What the store relies on\<close>

text \<open>
  A value that is not itself an envelope, encrypted for a workspace, is decrypted for it to the same value,
  whatever random draw the encryption used. Empty values stand for their default documents.
\<close>

locale at_rest_codec =
  fixes cx :: codec
    and plain :: "raw \<Rightarrow> bool"
  assumes input_roundtrip: "plain v \<Longrightarrow> enc_input cx draw w v = Inr c \<Longrightarrow>
      dec_input cx w c = Inr (if v = [] then ''{}'' else v)"
    and result_roundtrip: "plain v \<Longrightarrow> enc_result cx draw w v = Inr c \<Longrightarrow>
      dec_result cx w c = Inr (if v = [] then ''null'' else v)"
    and text_roundtrip: "list_all plain_char v \<Longrightarrow> enc_text cx draw w v = Inr c \<Longrightarrow> dec_text cx w c = Inr v"
begin

lemma result_decrypts:
  assumes "encryptJobResult cx draw w result = Inr stored" and "plain (res_Output result)" and "res_Output result \<noteq> []"
    and "res_Output stored \<noteq> []"
  shows "decryptRunResult cx w (r\<lparr>run_Output := res_Output stored, run_Result := Some stored\<rparr>) =
    Inr (r\<lparr>run_Output := res_Output result, run_Result := Some result\<rparr>)"
proof -
  obtain o' where o': "enc_result cx draw w (res_Output result) = Inr o'" "stored = result\<lparr>res_Output := o'\<rparr>"
    using assms(1) by (auto simp: encryptJobResult_def)
  have "dec_result cx w o' = Inr (res_Output result)"
    using result_roundtrip [OF assms(2) o'(1)] assms(3) by simp
  then show ?thesis
    using o' assms(4) by (simp add: decryptRunResult_def)
qed

end

lemma at_rest_roundtrip:
  assumes plain: "\<not> IsEnc v" "\<not> IsEnc default'" "default' \<noteq> []"
    and enc: "encryptJSONAtRest draw keys config w v default' = Inr c"
  shows "decryptJSONAtRest keys config w c default' = Inr (if v = [] then default' else v)"
proof -
  define u where "u = (if v = [] then default' else v)"
  have u: "canonicalJSONValue v default' = u" "\<not> IsEnc u" "u \<noteq> []"
    using plain by (simp_all add: u_def canonicalJSONValue_def)
  have valid: "json_valid u"
    using enc u by (simp add: encryptJSONAtRest_def Let_def split: if_splits)
  show ?thesis
  proof (cases "trim (icc_SecretKey config) = []")
    case True
    then have "c = u" using enc u by (simp add: encryptJSONAtRest_def Let_def split: if_splits)
    then show ?thesis using u by (simp add: decryptJSONAtRest_def canonicalJSONValue_def u_def)
  next
    case False
    then obtain dek b where dek: "resolveInputDEK keys config w = Inr (dek, b)" and c: "c = WrapEnc draw dek u"
      using enc u valid by (auto simp: encryptJSONAtRest_def Let_def split: if_splits)
    have "c \<noteq> []" using IsEnc_WrapEnc [of draw dek u] by (auto simp: c IsEnc_def)
    then have "decryptJSONAtRest keys config w c default' = Inr u"
      using False dek valid by (simp add: decryptJSONAtRest_def canonicalJSONValue_def c IsEnc_WrapEnc UnwrapEnc_WrapEnc)
    then show ?thesis by (simp add: u_def)
  qed
qed

lemma at_rest_not_Nil:
  assumes "encryptJSONAtRest draw keys config w v default' = Inr c" and "default' \<noteq> []"
  shows "c \<noteq> []"
proof -
  have "WrapEnc draw dek u \<noteq> []" for dek u using IsEnc_WrapEnc [of draw dek u] by (auto simp: IsEnc_def)
  then show ?thesis
    using assms by (auto simp: encryptJSONAtRest_def Let_def canonicalJSONValue_def split: if_splits)
qed

lemma default_plain: "\<not> IsEnc ''{}''" "\<not> IsEnc ''null''"
  by code_simp+

text \<open>A JSON string of plain characters.\<close>

lemma parse_plain_text:
  assumes "list_all plain_char v"
  shows "json_parse (compact (JString v)) = Some (JStr v)"
proof -
  have t: "compact (JString v) = dquote # (v @ dquote # [])"
    using assms by (simp add: JString_def quote_plain html_plain)
  obtain n where n: "2 * length (compact (JString v)) + 2 = Suc n" by simp
  show ?thesis
    unfolding json_parse_def n unfolding t p_string [OF assms] by simp
qed

lemma webhook_string_roundtrip:
  assumes "list_all plain_char v" and "encryptWebhookString draw keys config w v = Inr c"
  shows "decryptWebhookString keys config w c = Inr v"
proof -
  let ?t = "compact (JString v)"
  have parse: "json_parse ?t = Some (JStr v)" by (rule parse_plain_text [OF assms(1)])
  have q: "json_parse [dquote, dquote] = Some (JStr [])"
    using parse_plain_text [of "[]"] by (simp add: JString_def quote_text.simps)
  have "\<not> IsEnc ?t" "\<not> IsEnc [dquote, dquote]"
    by (simp_all add: IsEnc_def unmarshal_object_def parse q)
  then have "decryptJSONAtRest keys config w c [dquote, dquote] = Inr ?t"
    using at_rest_roundtrip [of ?t "[dquote, dquote]" draw keys config w c] assms(2)
    by (auto simp: encryptWebhookString_def JString_def split: if_splits)
  then show ?thesis
    using key_text_plain [OF assms(1)] by (simp add: decryptWebhookString_def unmarshal_text_def parse)
qed

interpretation local_at_rest: at_rest_codec "local_codec keys config rnd" "\<lambda>v. \<not> IsEnc v" for keys config rnd
  by unfold_locales (auto simp: local_codec_def dest: at_rest_roundtrip [OF _ default_plain(1)]
      at_rest_roundtrip [OF _ default_plain(2)] webhook_string_roundtrip)

end
