(* ===== verification/Operations.thy ===== *)
theory Operations
  imports Leases Crypto
begin

text \<open>
  What single operations of the local store do to the file: retention, logs, the state of actions and
  cancellation. The transaction frame is removed once, by the facts on \<open>write_file\<close>.
\<close>

declare map_of_eq_Some_iff [simp del] Some_eq_map_of_iff [simp del]

section \<open>What writing keeps\<close>

lemma write_file_tasks: "HumanTasks (write_file s) = map_vals (\<lambda>k. persist_task) (HumanTasks s)"
  and write_file_runs: "Runs (write_file s) = map_vals (\<lambda>k. persist_run) (Runs s)"
  and write_file_logs: "JobLogs (write_file s) = JobLogs s"
  and write_file_state: "JobState (write_file s) = JobState s"
  and write_file_jobs: "Jobs (write_file s) = map_vals (\<lambda>k j. persist_job (attached s k j)) (Jobs s)"
  by (simp_all add: write_file_def Let_def persist_def ensure_Jobs map_vals_def case_prod_beta)

lemmas write_file_fields = write_file_tasks write_file_runs write_file_logs write_file_state write_file_jobs

section \<open>Retention\<close>

text \<open>Pruning removes the runs that are over and old enough, with their jobs, and nothing else.\<close>

lemma prune_fields:
  assumes ok: "store_ok s" and tx: "prune_tx a b s = Inr (t, n)"
  shows "map_of (Runs t) k = (case map_of (Runs s) k of None \<Rightarrow> None | Some r \<Rightarrow> if prunable a b r then None else Some r)"
    and "map_of (Jobs t) k = (case map_of (Jobs s) k of None \<Rightarrow> None
      | Some j \<Rightarrow> if (\<exists>r. map_of (Runs s) (job_RunID j) = Some r \<and> prunable a b r) then None else Some j)"
proof -
  note c = store_okD(1) [OF ok]
  let ?D = "set (map fst (filter (\<lambda>(id', r). prunable a b r) (Runs s)))"
  have D: "k \<in> ?D \<longleftrightarrow> (\<exists>r. map_of (Runs s) k = Some r \<and> prunable a b r)" for k
    using in_set_map_of [OF coherentD(1) [OF c]] map_of_SomeD by force
  have t: "Runs t = filter (\<lambda>(k, r). k \<notin> ?D) (Runs s)" "Jobs t = filter (\<lambda>(k, j). job_RunID j \<notin> ?D) (Jobs s)"
    using tx by (auto simp: prune_tx_def Let_def filter_empty_conv split: if_splits intro!: filter_True [symmetric])
  show "map_of (Runs t) k = (case map_of (Runs s) k of None \<Rightarrow> None | Some r \<Rightarrow> if prunable a b r then None else Some r)"
    unfolding t map_of_filter_ok [OF coherentD(1) [OF c]] using D by (auto split: option.splits)
  show "map_of (Jobs t) k = (case map_of (Jobs s) k of None \<Rightarrow> None
      | Some j \<Rightarrow> if (\<exists>r. map_of (Runs s) (job_RunID j) = Some r \<and> prunable a b r) then None else Some j)"
    unfolding t map_of_filter_ok [OF coherentD(2) [OF c]] using D by (auto split: option.splits)
qed

lemma prune_removes:
  assumes ok: "store_ok s" and "PruneSettledJobs rnd now a b s = Inr (t, n)"
  shows "map_of (Runs t) k = (case map_of (Runs s) k of None \<Rightarrow> None
      | Some r \<Rightarrow> if prunable a b r then None else Some (persist_run r))"
    and "map_of (Jobs t) k \<noteq> None \<longleftrightarrow> (\<exists>j r. map_of (Jobs s) k = Some j \<and> map_of (Runs s) (job_RunID j) = Some r \<and> \<not> prunable a b r)"
proof -
  obtain v evs dels where tx: "prune_tx a b (ensureSnapshot s) = Inr (v, n)"
    and t: "t = write_file (v\<lparr>ControlPlaneEvents := evs, WebhookDeliveries := dels\<rparr>)"
    using assms(2) unfolding PruneSettledJobs_def by (rule updateWithClock_cases)
  note f = prune_fields [OF store_frame.inv_ensure [OF ok] tx]
  show "map_of (Runs t) k = (case map_of (Runs s) k of None \<Rightarrow> None
      | Some r \<Rightarrow> if prunable a b r then None else Some (persist_run r))"
    using f(1) [of k] by (simp add: t write_file_fields split: option.splits)
  have "\<exists>r. map_of (Runs s) (job_RunID j) = Some r" if "map_of (Jobs s) k = Some j" for j
    using coherent_job [OF store_okD(1) [OF ok] that] by blast
  then show "map_of (Jobs t) k \<noteq> None \<longleftrightarrow> (\<exists>j r. map_of (Jobs s) k = Some j \<and> map_of (Runs s) (job_RunID j) = Some r \<and> \<not> prunable a b r)"
    using f(2) [of k] by (auto simp: t write_file_fields ensure_Jobs split: option.splits if_splits)
qed

section \<open>Action state and logs\<close>

lemma SetState_GetState:
  assumes "SetState rnd now w p v s = Inr (t, a)"
  shows "GetState t w p = Some (if v = [] then ''null'' else v)"
    and "NormalizeWorkspace w' \<noteq> NormalizeWorkspace w \<or> p' \<noteq> p \<Longrightarrow> GetState t w' p' = GetState s w' p'"
proof -
  have "updateWithClock rnd now s (\<lambda>u. let values = (case map_of (JobState u) (NormalizeWorkspace w) of Some m \<Rightarrow> m | None \<Rightarrow> [])
      in Inr (u\<lparr>JobState := put (NormalizeWorkspace w) (put p (if v = [] then ''null'' else v) values) (JobState u)\<rparr>, ())) =
      Inr (t, a)"
    using assms by (simp add: SetState_def Let_def split: if_splits)
  then have "JobState t = put (NormalizeWorkspace w) (put p (if v = [] then ''null'' else v)
      (case map_of (JobState s) (NormalizeWorkspace w) of Some m \<Rightarrow> m | None \<Rightarrow> [])) (JobState s)"
    by (rule updateWithClock_cases) (auto simp: write_file_fields Let_def)
  then show "GetState t w p = Some (if v = [] then ''null'' else v)"
    and "NormalizeWorkspace w' \<noteq> NormalizeWorkspace w \<or> p' \<noteq> p \<Longrightarrow> GetState t w' p' = GetState s w' p'"
    by (auto simp: GetState_def split: option.splits)
qed

text \<open>The log of a job grows by each chunk, and is read under the workspace that its first chunk named.\<close>

lemma AppendLogs_stored:
  assumes "AppendLogs rnd now jobID w chunk s = Inr (t, a)" and "chunk \<noteq> []" and "jobID \<noteq> []"
  shows "\<exists>j. map_of (Jobs s) jobID = Some j \<and>
    (\<exists>l. map_of (JobLogs t) jobID = Some l \<and> jl_JobID l \<noteq> [] \<and> jl_WorkspaceID l \<noteq> [] \<and>
       jl_Logs l = (case map_of (JobLogs s) jobID of None \<Rightarrow> [] | Some l0 \<Rightarrow> jl_Logs l0) @ to_valid_utf8 chunk \<and>
       (\<forall>l0. map_of (JobLogs s) jobID = Some l0 \<longrightarrow> jl_JobID l0 \<noteq> [] \<longrightarrow> jl_WorkspaceID l0 \<noteq> [] \<longrightarrow>
          jl_WorkspaceID l = jl_WorkspaceID l0) \<and>
       (map_of (JobLogs s) jobID = None \<longrightarrow> jl_WorkspaceID l = normalizedJobWorkspace w j)) \<and>
    (\<forall>k. k \<noteq> jobID \<longrightarrow> map_of (JobLogs t) k = map_of (JobLogs s) k)"
proof -
  obtain v evs dels where tx: "append_logs jobID w (to_valid_utf8 chunk) now (ensureSnapshot s) = Inr (v, a)"
    and t: "t = write_file (v\<lparr>ControlPlaneEvents := evs, WebhookDeliveries := dels\<rparr>)"
    using assms(1,2) by (auto simp: AppendLogs_def elim!: updateWithClock_cases)
  have w: "normalizedJobWorkspace w j \<noteq> []" for j
    by (simp add: normalizedJobWorkspace_def Let_def)
  obtain j where j: "map_of (Jobs s) jobID = Some j"
    using tx by (auto simp: append_logs_def ensure_Jobs split: option.splits)
  have "normalizedJobWorkspace w (attached s jobID j) = normalizedJobWorkspace w j"
    by (simp add: normalizedJobWorkspace_def Let_def)
  then show ?thesis
    using tx j w [of j] assms(3)
    by (auto simp: t append_logs_def ensure_Jobs write_file_fields Let_def zero_job_log_def split: option.splits)
qed

section \<open>Decisions\<close>

text \<open>A transaction that leaves the human tasks alone produces no outbox entries.\<close>

lemma fold_res_skip: "(\<And>x. x \<in> set xs \<Longrightarrow> f x s = Inr s) \<Longrightarrow> fold_res f xs s = Inr s"
  by (induction xs) auto

lemma run_hook_same:
  assumes "HumanTasks v = T" and "go_map_ok T"
  shows "run_hook rnd now T v = Inr v"
proof -
  have "fold_res (hook_task rnd now T v) (HumanTasks v) ob = Inr ob" for ob
  proof (rule fold_res_skip)
    show "hook_task rnd now T v e ob = Inr ob" if "e \<in> set (HumanTasks v)" for e
    proof -
      have "map_of T (fst e) = Some (snd e)"
        by (rule in_set_map_of [OF assms(2)]) (use that assms(1) in simp)
      then show ?thesis by (simp add: hook_task_def Let_def)
    qed
  qed
  then show ?thesis by (simp add: run_hook_def)
qed

text \<open>What a new decision stores.\<close>

definition decided_with :: "human_task_decision \<Rightarrow> raw \<Rightarrow> string \<Rightarrow> time \<Rightarrow> human_task \<Rightarrow> bool" where
  "decided_with decision enc w now h \<longleftrightarrow>
     ht_Mode h = HumanTaskModeHold \<and> ht_WorkspaceID h = w \<and> ht_State h = HumanTaskDecided \<and>
     ht_DecisionOutcome h = htd_Outcome decision \<and> ht_DecisionEncrypted h = enc \<and>
     ht_DecisionIdempotencyKey h = htd_IdempotencyKey decision \<and> ht_DecisionFingerprint h = htd_Fingerprint decision \<and>
     ht_DecidedAt h = Some now"

lemma decide_held_new:
  assumes ok: "store_ok s" and tx: "decide_held (NormalizeWorkspace w) task decision enc now s = Inr (v, DecideNew h)"
  shows "map_of (HumanTasks v) (trim task) = Some h" "decided_with decision enc (NormalizeWorkspace w) now h"
proof -
  obtain h0 where h0: "map_of (HumanTasks s) (trim task) = Some h0" "validateHeldTaskOwnership h0 (NormalizeWorkspace w) = Inr ()"
    using tx by (auto simp: decide_held_def split: option.splits if_splits)
  have "ht_ID h0 = trim task"
    using store_okD(2) [OF ok] h0(1) by (simp add: tasks_ok_def keyed_by_def)
  then show "map_of (HumanTasks v) (trim task) = Some h" "decided_with decision enc (NormalizeWorkspace w) now h"
    using tx h0 by (auto simp: decide_held_def decided_with_def validateHeldTaskOwnership_def Let_def split: if_splits prod.splits)
qed

lemma decide_held_replay:
  assumes h: "map_of (HumanTasks s) (trim task) = Some h" "decided_with decision enc (NormalizeWorkspace w) now h"
  shows "decide_held (NormalizeWorkspace w) task decision enc' now' s = Inr (s, DecideReplayed h)"
  using assms by (simp add: decide_held_def decided_with_def validateHeldTaskOwnership_def)

lemma persist_decided: "decided_with decision enc w now (persist_task h) = decided_with decision enc w now h"
  by (simp add: decided_with_def)

lemma decide_replays:
  assumes ok: "store_ok s" and first: "DecideHeldHumanTask cx rnd now w task d s = Inr (t, r)"
    and new: "\<not> htr_Replayed r" "htd_Outcome (htr_Decision r) \<noteq> HumanTaskOutcomeNone"
    and codec: "\<And>draw v c. \<lbrakk>enc_input cx draw (NormalizeWorkspace w) v = Inr c; v = htd_Value (htr_Decision r)\<rbrakk> \<Longrightarrow>
      dec_input cx (NormalizeWorkspace w) c = Inr v"
  shows "\<exists>t' r'. DecideHeldHumanTask cx rnd' now' w task d t = Inr (t', r') \<and> htr_Replayed r' \<and>
    htr_Task r' = humanTaskMetadata (persist_task (the (map_of (HumanTasks t) (trim task)))) \<and>
    htr_Decision r' = htr_Decision r"
proof -
  obtain decision enc x where d: "normalizeHumanTaskDecision d = Inr decision"
    and enc: "enc_input cx ''decision'' (NormalizeWorkspace w) (htd_Value decision) = Inr enc"
    and up: "updateWithClock rnd now s (decide_held (NormalizeWorkspace w) task decision enc now) = Inr (t, x)"
    using first by (rule DecideHeldHumanTask_cases)
  have outcome: "htd_Outcome decision \<noteq> HumanTaskOutcomeNone"
    using d by (auto simp: normalizeHumanTaskDecision_def Let_def split: if_splits human_task_outcome.splits)
  obtain h where x: "x = DecideNew h"
    using first d enc up new
    by (cases x) (auto simp: DecideHeldHumanTask_def Let_def zero_human_task_decision_def)
  obtain v evs dels where tx: "decide_held (NormalizeWorkspace w) task decision enc now (ensureSnapshot s) = Inr (v, x)"
    and t: "t = write_file (v\<lparr>ControlPlaneEvents := evs, WebhookDeliveries := dels\<rparr>)"
    using up by (rule updateWithClock_cases)
  have h: "map_of (HumanTasks v) (trim task) = Some h" "decided_with decision enc (NormalizeWorkspace w) now h"
    using decide_held_new [OF store_frame.inv_ensure [OF ok]] tx x by blast+
  have ht: "map_of (HumanTasks (ensureSnapshot t)) (trim task) = Some (persist_task h)"
    using h(1) by (simp add: t write_file_fields)
  have dec: "dec_input cx (NormalizeWorkspace w) enc = Inr (htd_Value decision)"
    using first d enc up x by (intro codec [OF enc]) (auto simp: DecideHeldHumanTask_def Let_def)
  have "go_map_ok (HumanTasks t)"
    using store_okD(2) [OF goodD [OF DecideHeldHumanTask_good [OF ok first]]] by (simp add: tasks_ok_def)
  then have "updateWithClock rnd' now' t (decide_held (NormalizeWorkspace w) task decision enc now') =
      Inr (write_file (ensureSnapshot t), DecideReplayed (persist_task h))"
    using decide_held_replay [OF ht] h(2) by (simp add: updateWithClock_def persist_decided run_hook_same)
  then show ?thesis
    using first d enc up x dec h(2) ht
    by (auto simp: DecideHeldHumanTask_def Let_def decided_with_def valueOrZero_def)
qed

section \<open>Worker credentials and run states\<close>

lemma write_file_workers: "WorkerCredentials (write_file s) = WorkerCredentials s"
  "WorkerGroupRunStates (write_file s) = WorkerGroupRunStates s"
  "AppRuntimeLifecycles (write_file s) = AppRuntimeLifecycles s"
  by (simp_all add: write_file_def Let_def)

lemma group_generation_ge:
  assumes "(k, c) \<in> set creds" and "wc_Group c = grp"
  shows "wc_Generation c \<le> group_generation grp creds"
proof -
  let ?f = "\<lambda>(k, c) g. if wc_Group c = grp \<and> wc_Generation c > g then wc_Generation c else g"
  have mono: "g \<le> fold ?f xs g" for xs g
  proof (induction xs arbitrary: g)
    case (Cons x xs)
    have "g \<le> ?f x g" by (auto split: prod.splits)
    then show ?case using Cons [of "?f x g"] by (simp del: split_paired_All)
  qed simp
  have "wc_Generation c \<le> fold ?f creds g" for g
    using assms
  proof (induction creds arbitrary: g)
    case (Cons x xs)
    then show ?case using mono [of "?f x g" xs] by (auto split: if_splits intro: order.trans)
  qed simp
  then show ?thesis by (simp add: group_generation_def)
qed

lemma create_credential_new:
  assumes "CreateWorkerCredential rnd now request s = Inr (t, c, False)"
  shows "map_of (WorkerCredentials s) (wc_ID c) = None" "WorkerCredentials t = put (wc_ID c) c (WorkerCredentials s)"
    "wc_Generation c = cwc_ExpectedGeneration request + 1" "wc_Status c = WorkerCredentialActive"
    "(k, c') \<in> set (WorkerCredentials s) \<Longrightarrow> wc_TokenHash c' \<noteq> wc_TokenHash c"
    "(k, c') \<in> set (WorkerCredentials s) \<Longrightarrow> wc_Group c' = wc_Group c \<Longrightarrow> wc_Generation c' < wc_Generation c"
proof -
  define req where "req = request\<lparr>cwc_OperationID := trim (cwc_OperationID request),
    cwc_RequestFingerprint := trim (cwc_RequestFingerprint request), cwc_TokenHash := trim (cwc_TokenHash request)\<rparr>"
  have req: "cwc_ExpectedGeneration req = cwc_ExpectedGeneration request" by (simp add: req_def)
  obtain grp ws ls where "updateWithClock rnd now s (create_credential rnd req grp ws ls now) = Inr (t, c, False)"
    using assms by (auto simp: CreateWorkerCredential_def Let_def req_def split: if_splits)
  then obtain v evs dels where tx: "create_credential rnd req grp ws ls now (ensureSnapshot s) = Inr (v, c, False)"
    and t: "t = write_file (v\<lparr>ControlPlaneEvents := evs, WebhookDeliveries := dels\<rparr>)"
    by (rule updateWithClock_cases)
  have w: "WorkerCredentials (ensureSnapshot s) = WorkerCredentials s" by simp
  show "map_of (WorkerCredentials s) (wc_ID c) = None" "WorkerCredentials t = put (wc_ID c) c (WorkerCredentials s)"
    "wc_Generation c = cwc_ExpectedGeneration request + 1" "wc_Status c = WorkerCredentialActive"
    "(k, c') \<in> set (WorkerCredentials s) \<Longrightarrow> wc_TokenHash c' \<noteq> wc_TokenHash c"
    "(k, c') \<in> set (WorkerCredentials s) \<Longrightarrow> wc_Group c' = wc_Group c \<Longrightarrow> wc_Generation c' < wc_Generation c"
    using tx req group_generation_ge [of k c' "WorkerCredentials s" "wc_Group c"]
    by (auto simp: create_credential_def Let_def t write_file_workers w list_ex_iff split: option.splits if_splits)
qed

lemma revoked_credential:
  assumes "RevokeWorkerCredential rnd now request s = Inr (t, c, False)"
  shows "\<not> AllowsNewWork c now'" "AllowsLeaseContinuation c now' \<longleftrightarrow> now' \<le> rwc_DrainDeadlineAt request"
    "map_of (WorkerCredentials t) (wc_ID c) = Some c"
proof -
  define req where "req = request\<lparr>rwc_CredentialID := trim (rwc_CredentialID request),
    rwc_OperationID := trim (rwc_OperationID request), rwc_RequestFingerprint := trim (rwc_RequestFingerprint request)\<rparr>"
  have req: "rwc_DrainDeadlineAt req = rwc_DrainDeadlineAt request" by (simp add: req_def)
  obtain grp where "updateWithClock rnd now s (revoke_credential req grp now) = Inr (t, c, False)"
    using assms by (auto simp: RevokeWorkerCredential_def Let_def req_def split: if_splits)
  then obtain v evs dels where tx: "revoke_credential req grp now (ensureSnapshot s) = Inr (v, c, False)"
    and t: "t = write_file (v\<lparr>ControlPlaneEvents := evs, WebhookDeliveries := dels\<rparr>)"
    by (rule updateWithClock_cases)
  show "\<not> AllowsNewWork c now'" "AllowsLeaseContinuation c now' \<longleftrightarrow> now' \<le> rwc_DrainDeadlineAt request"
    "map_of (WorkerCredentials t) (wc_ID c) = Some c"
    using tx req by (auto simp: revoke_credential_def Let_def AllowsNewWork_def AllowsLeaseContinuation_def t write_file_workers
        WorkerCredentialActive_def WorkerCredentialRevoked_def split: option.splits if_splits)
qed

text \<open>Run states of worker groups: compare and swap on the revision, and replay of the last operation.\<close>

lemma put_state_cases:
  assumes "PutWorkerGroupRunState rnd now request s = Inr (t, g, b)"
  obtains grp stateValue req where "NormalizeWorkerGroup (pwg_Group request) = Inr grp"
    "NormalizeWorkerGroupRunState (pwg_State request) = Inr stateValue"
    "pwg_ExpectedRevision req = pwg_ExpectedRevision request" "pwg_OperationID req = trim (pwg_OperationID request)"
    "pwg_RequestFingerprint req = trim (pwg_RequestFingerprint request)"
    "updateWithClock rnd now s (put_group_state req grp stateValue now) = Inr (t, g, b)"
    "\<And>now' rnd' u. PutWorkerGroupRunState rnd' now' request u = updateWithClock rnd' now' u (put_group_state req grp stateValue now')"
proof -
  obtain grp stateValue where n: "NormalizeWorkerGroup (pwg_Group request) = Inr grp"
    "NormalizeWorkerGroupRunState (pwg_State request) = Inr stateValue"
    using assms by (auto simp: PutWorkerGroupRunState_def)
  define req where "req = request\<lparr>pwg_OperationID := trim (pwg_OperationID request),
    pwg_RequestFingerprint := trim (pwg_RequestFingerprint request),
    pwg_DeadlineAt := (if stateValue = WorkerGroupRunning then None else pwg_DeadlineAt request)\<rparr>"
  have call: "PutWorkerGroupRunState rnd' now' request u = updateWithClock rnd' now' u (put_group_state req grp stateValue now')"
    for rnd' now' u
    using assms by (auto simp: PutWorkerGroupRunState_def n Let_def req_def split: if_splits)
  show thesis
    by (rule that [OF n, of req]) (use assms call in \<open>auto simp: req_def\<close>)
qed

lemma put_state_new:
  assumes "PutWorkerGroupRunState rnd now request s = Inr (t, g, False)"
  shows "\<exists>grp. NormalizeWorkerGroup (pwg_Group request) = Inr grp \<and> map_of (WorkerGroupRunStates t) grp = Some g"
    "wg_Revision g = pwg_ExpectedRevision request + 1" "wg_OperationID g = trim (pwg_OperationID request)"
    "wg_RequestFingerprint g = trim (pwg_RequestFingerprint request)"
proof -
  obtain grp stateValue req v evs dels where req: "NormalizeWorkerGroup (pwg_Group request) = Inr grp"
      "pwg_ExpectedRevision req = pwg_ExpectedRevision request" "pwg_OperationID req = trim (pwg_OperationID request)"
      "pwg_RequestFingerprint req = trim (pwg_RequestFingerprint request)"
    and tx: "put_group_state req grp stateValue now (ensureSnapshot s) = Inr (v, g, False)"
    and t: "t = write_file (v\<lparr>ControlPlaneEvents := evs, WebhookDeliveries := dels\<rparr>)"
    using assms by (elim put_state_cases updateWithClock_cases) blast
  show "\<exists>grp. NormalizeWorkerGroup (pwg_Group request) = Inr grp \<and> map_of (WorkerGroupRunStates t) grp = Some g"
    "wg_Revision g = pwg_ExpectedRevision request + 1" "wg_OperationID g = trim (pwg_OperationID request)"
    "wg_RequestFingerprint g = trim (pwg_RequestFingerprint request)"
    using tx req by (auto simp: put_group_state_def Let_def t write_file_workers split: if_splits)
qed

lemma put_state_stale:
  assumes "PutWorkerGroupRunState rnd now r1 s = Inr (t, g, False)"
    and "NormalizeWorkerGroup (pwg_Group r2) = NormalizeWorkerGroup (pwg_Group r1)"
    and "pwg_ExpectedRevision r2 = pwg_ExpectedRevision r1" and "trim (pwg_OperationID r2) \<noteq> trim (pwg_OperationID r1)"
  shows "\<exists>e. PutWorkerGroupRunState rnd' now' r2 t = Inl e"
proof (rule ccontr)
  assume "\<not> ?thesis"
  then obtain t' g' b where "PutWorkerGroupRunState rnd' now' r2 t = Inr (t', g', b)"
    by (metis prod_cases3 sum.exhaust)
  then obtain grp stateValue req v evs dels where req: "NormalizeWorkerGroup (pwg_Group r2) = Inr grp"
      "pwg_ExpectedRevision req = pwg_ExpectedRevision r2" "pwg_OperationID req = trim (pwg_OperationID r2)"
    and tx: "put_group_state req grp stateValue now' (ensureSnapshot t) = Inr (v, g', b)"
    by (elim put_state_cases updateWithClock_cases) blast
  show False
    using tx req put_state_new [OF assms(1)] assms(2-) by (auto simp: put_group_state_def Let_def split: if_splits)
qed

lemma put_state_replays:
  assumes "PutWorkerGroupRunState rnd now r s = Inr (t, g, False)" and "go_map_ok (HumanTasks t)"
  shows "\<exists>t'. PutWorkerGroupRunState rnd' now' r t = Inr (t', g, True) \<and> WorkerGroupRunStates t' = WorkerGroupRunStates t"
proof -
  obtain grp stateValue req where req: "NormalizeWorkerGroup (pwg_Group r) = Inr grp"
      "pwg_OperationID req = trim (pwg_OperationID r)" "pwg_RequestFingerprint req = trim (pwg_RequestFingerprint r)"
    and call: "PutWorkerGroupRunState rnd' now' r u = updateWithClock rnd' now' u (put_group_state req grp stateValue now')" for u
    using assms(1) by (elim put_state_cases) blast
  have "put_group_state req grp stateValue now' (ensureSnapshot t) = Inr (ensureSnapshot t, g, True)"
    using req put_state_new [OF assms(1)] by (auto simp: put_group_state_def Let_def)
  then show ?thesis
    using assms(2) by (simp add: call updateWithClock_def run_hook_same write_file_workers)
qed

section \<open>Revocation\<close>

lemma revocation_effect:
  assumes "SetAppRuntimeLifecycle rnd now request s = Inr (t, lc)" and "sar_State request = AppRuntimeRevoked"
  shows "map_of (Jobs t) k = Some j \<Longrightarrow> job_State j = JobRunning \<Longrightarrow>
      NormalizeWorkspace (pl_Workspace (job_Payload j)) = NormalizeWorkspace (sar_WorkspaceID request) \<Longrightarrow>
      pl_App (job_Payload j) = trim (sar_AppKey request) \<Longrightarrow> job_CanceledBy j = Some (trim (sar_Actor request))"
    and "workerJobWorkspace j = NormalizeWorkspace (sar_WorkspaceID request) \<Longrightarrow>
      trim (pl_App (job_Payload j)) = trim (sar_AppKey request) \<Longrightarrow> \<not> offered t ws tags labels j"
proof -
  define req where "req = request\<lparr>sar_WorkspaceID := NormalizeWorkspace (sar_WorkspaceID request),
    sar_AppKey := trim (sar_AppKey request), sar_Actor := trim (sar_Actor request), sar_Reason := trim (sar_Reason request)\<rparr>"
  have "updateWithClock rnd now s (set_lifecycle req now) = Inr (t, lc)"
    using assms(1) by (simp add: SetAppRuntimeLifecycle_def Let_def req_def split: if_splits)
  then obtain v evs dels where tx: "set_lifecycle req now (ensureSnapshot s) = Inr (v, lc)"
    and t: "t = write_file (v\<lparr>ControlPlaneEvents := evs, WebhookDeliveries := dels\<rparr>)"
    by (rule updateWithClock_cases)
  have st: "sar_State req = AppRuntimeRevoked" using assms(2) by (simp add: req_def)
  have v: "Jobs v = map_vals (\<lambda>k j. if revoke_hits req j then revoked_job req now j else j) (Jobs (ensureSnapshot s))"
    "map_of (AppRuntimeLifecycles v) (appRuntimeLifecycleKey (sar_WorkspaceID req) (sar_AppKey req)) = Some lc"
    "arl_State lc = AppRuntimeRevoked"
    using tx st by (auto simp: set_lifecycle_def Let_def split: if_splits)
  show "job_CanceledBy j = Some (trim (sar_Actor request))"
    if stored: "map_of (Jobs t) k = Some j" and hit: "job_State j = JobRunning"
      "NormalizeWorkspace (pl_Workspace (job_Payload j)) = NormalizeWorkspace (sar_WorkspaceID request)"
      "pl_App (job_Payload j) = trim (sar_AppKey request)"
  proof -
    let ?f = "\<lambda>z. if revoke_hits req z then revoked_job req now z else z"
    obtain z u where j: "j = persist_job (attached u k (?f z))"
      using stored by (auto simp: t write_file_fields v(1))
    have "job_State (?f z) = job_State z" "job_Payload (?f z) = job_Payload z"
      by (simp_all add: revoked_job_def)
    then have "revoke_hits req z"
      using hit unfolding j revoke_hits_def by (simp add: req_def persist_job_def persist_payload_def)
    then show ?thesis unfolding j by (simp add: revoked_job_def req_def)
  qed
  show "\<not> offered t ws tags labels j"
    if "workerJobWorkspace j = NormalizeWorkspace (sar_WorkspaceID request)" "trim (pl_App (job_Payload j)) = trim (sar_AppKey request)"
    using v(2,3) that
    by (simp add: offered_def appRuntimeAllowsNewAttempt_def job_lifecycle_def t write_file_workers appRuntimeLifecycleKey_def req_def)
qed

section \<open>Cancellation\<close>

text \<open>A running job is canceled softly: the request waits on the job for its worker.\<close>

lemma cancel_running:
  assumes ok: "store_ok s" and "CancelJob cx rnd now w jobID by' reason s = Inr (t, cr)" and "cr_SoftCanceled cr"
  shows "\<exists>j who. map_of (Jobs t) jobID = Some j \<and> job_State j = JobRunning \<and> job_CanceledBy j = Some who \<and>
    job_CanceledReason j = Some reason"
proof -
  obtain v evs dels where tx: "cancel_job_tx cx w jobID by' reason now (ensureSnapshot s) = Inr (v, cr)"
    and t: "t = write_file (v\<lparr>ControlPlaneEvents := evs, WebhookDeliveries := dels\<rparr>)"
    using assms(2) unfolding CancelJob_def by (rule updateWithClock_cases)
  have "job_ID j = jobID" if "map_of (Jobs (ensureSnapshot s)) jobID = Some j" for j
    using that keyed_byD [OF coherentD(4) [OF store_okD(1) [OF store_frame.inv_ensure [OF ok]]]] by blast
  then have "\<exists>j who. map_of (Jobs v) jobID = Some j \<and> job_State j = JobRunning \<and> job_CanceledBy j = Some who \<and>
      job_CanceledReason j = Some reason"
    using tx assms(3) by (auto simp: cancel_job_tx_def Let_def split: option.splits if_splits)
  then show ?thesis
    by (auto simp: t write_file_fields) (simp add: persist_job_def)
qed

lemma heartbeat_reports_cancel:
  assumes "HeartbeatJob rnd now l ttl s = Inr (t, hb)" and "hb_StillOwned hb" and "map_of (Jobs s) (ls_JobID l) = Some j"
  shows "hb_CanceledBy hb = job_CanceledBy j" "hb_CanceledReason hb = job_CanceledReason j"
proof -
  obtain v where "heartbeat_tx l (if ttl \<le> 0 then defaultLeaseTime else ttl) now (ensureSnapshot s) = Inr (v, hb)"
    using assms(1) unfolding HeartbeatJob_def by (rule updateWithClock_cases)
  then show "hb_CanceledBy hb = job_CanceledBy j" "hb_CanceledReason hb = job_CanceledReason j"
    using assms(2,3) by (auto simp: heartbeat_tx_def ensure_Jobs Let_def split: if_splits)
qed

text \<open>A completion of a canceled job settles the run as canceled, whatever the worker reports.\<close>

lemma encryptStored_state:
  assumes "encryptStoredRunResult cx d w s k = Inr t" and "map_of (Runs s) k' = Some r"
  shows "\<exists>r'. map_of (Runs t) k' = Some r' \<and> run_State r' = run_State r"
  using assms by (auto simp: encryptStoredRunResult_def split: option.splits)

lemma settle_canceled_state:
  assumes "settle_canceled cx s j r by' flag now = Inr t" and "tasks_ok (HumanTasks s)"
  shows "\<exists>r'. map_of (Runs t) (run_ID r) = Some r' \<and> run_State r' = RunCanceled"
proof -
  let ?s1 = "applyCanceledJob s j r by' (canceledReasonValue j) cancelDuringExecutionMessage now"
  have s1: "map_of (Runs ?s1) (run_ID r) = Some x \<Longrightarrow> run_State x = RunCanceled" "map_of (Runs ?s1) (run_ID r) \<noteq> None" for x
    by (auto simp: applyCanceledJob_def canceled_run_def Let_def)
  have "HumanTasks ?s1 = HumanTasks s" by (simp add: applyCanceledJob_def Let_def)
  then have "Runs (cancelHeldHumanTasksInSnapshot ?s1 w k c now) = Runs ?s1" for w k c
    using cancelHeld_step [of ?s1] assms(2) by (simp add: only_tasks_def)
  then show ?thesis
    using assms(1) s1 encryptStored_state by (fastforce simp: settle_canceled_def Let_def split: if_splits)
qed

lemma canceled_run_settles:
  assumes ok: "store_ok s" and tx: "settle_canceled cx s j r by' flag now = Inr t" and "leasedJobAndRun s l now = Inr (j, r)"
  shows "\<exists>r'. map_of (Runs t) (job_RunID j) = Some r' \<and> run_State r' = RunCanceled"
proof -
  have "map_of (Runs s) (job_RunID j) = Some r" using leased_cases [OF assms(3)] by simp
  then have "run_ID r = job_RunID j" using keyed_byD [OF coherentD(3) [OF store_okD(1) [OF ok]]] by blast
  then show ?thesis using settle_canceled_state [OF tx store_okD(2) [OF ok]] by simp
qed

lemma update_run_state:
  assumes "updateWithClock rnd now s fn = Inr (t, a)"
    and "\<And>v. fn (ensureSnapshot s) = Inr (v, a) \<Longrightarrow> \<exists>r. map_of (Runs v) k = Some r \<and> run_State r = st"
  shows "\<exists>r. map_of (Runs t) k = Some r \<and> run_State r = st"
  using assms(1)
proof (rule updateWithClock_cases)
  fix v evs dels
  assume "fn (ensureSnapshot s) = Inr (v, a)" and t: "t = write_file (v\<lparr>ControlPlaneEvents := evs, WebhookDeliveries := dels\<rparr>)"
  then obtain r where "map_of (Runs v) k = Some r" "run_State r = st" using assms(2) by blast
  then show ?thesis by (simp add: t write_file_fields)
qed

lemma completion_of_canceled:
  assumes ok: "store_ok s" and c: "completes l c" "exec cx rnd now c s = Inr t"
    and j: "map_of (Jobs s) (ls_JobID l) = Some j" "job_CanceledBy j = Some who"
  shows "\<exists>r. map_of (Runs t) (job_RunID j) = Some r \<and> run_State r = RunCanceled"
proof -
  have leased: "job_RunID j' = job_RunID j \<and> job_CanceledBy j' = Some who"
    if "leasedJobAndRun (ensureSnapshot s) l now = Inr (j', r)" for j' r
    using leased_cases [OF that] j by (auto simp: ensure_Jobs)
  note settles = canceled_run_settles [OF store_frame.inv_ensure [OF ok]]
  have "\<exists>r. map_of (Runs v) (job_RunID j) = Some r \<and> run_State r = RunCanceled"
    if "complete_succeeded cx l result now (ensureSnapshot s) = Inr (v, ()) \<or>
      complete_failed cx l result now (ensureSnapshot s) = Inr (v, ()) \<or>
      complete_waiting_human cx rnd l result task now (ensureSnapshot s) = Inr (v, ())" for v result task
    using that leased settles
    by (fastforce simp: complete_succeeded_def complete_failed_def complete_waiting_human_def)
  then show ?thesis
    using c by (cases c) (auto simp: CompleteJobSucceeded_def CompleteJobFailed_def CompleteJobWaitingHuman_def
        elim!: update_run_state)
qed

section \<open>Results\<close>

text \<open>The result a worker reports is what readers of the run get, through encryption at rest.\<close>

lemma SourceWorkspace_persist [simp]: "SourceWorkspace (persist_deployment d) = SourceWorkspace d"
  by (simp add: SourceWorkspace_def persist_deployment_def)

lemma success_readable:
  fixes keys config rnd0
  defines "cx \<equiv> local_codec keys config rnd0"
  assumes ok: "store_ok s" and done': "CompleteJobSucceeded cx rnd now l result s = Inr (t, ())"
    and j: "map_of (Jobs s) (ls_JobID l) = Some j" "job_CanceledBy j = None" "map_of (Runs s) (job_RunID j) = Some r"
    and w: "normalizedJobWorkspace [] j = SourceWorkspace (run_Deployment r)"
    and inp: "dec_input cx (SourceWorkspace (run_Deployment r)) (run_Input r) = Inr input"
    and out: "\<not> IsEnc (res_Output result)" "res_Output result \<noteq> []"
  shows "\<exists>r'. GetRun cx t (job_RunID j) = Inr r' \<and> run_State r' = RunSucceeded \<and> run_Input r' = input \<and>
    run_Output r' = res_Output result \<and> run_Result r' = Some result"
proof -
  obtain v evs dels where tx: "complete_succeeded cx l result now (ensureSnapshot s) = Inr (v, ())"
    and t: "t = write_file (v\<lparr>ControlPlaneEvents := evs, WebhookDeliveries := dels\<rparr>)"
    using done' unfolding CompleteJobSucceeded_def by (rule updateWithClock_cases)
  obtain j' r0 where lr: "leasedJobAndRun (ensureSnapshot s) l now = Inr (j', r0)"
    using tx by (auto simp: complete_succeeded_def)
  have j': "j' = attached s (ls_JobID l) j" and r0: "r0 = r"
    using leased_cases [OF lr] j by (auto simp: ensure_Jobs)
  have ws: "normalizedJobWorkspace [] j' = normalizedJobWorkspace [] j"
    by (simp add: j' normalizedJobWorkspace_def Let_def)
  have id: "run_ID r = job_RunID j"
    using keyed_byD [OF coherentD(3) [OF store_okD(1) [OF ok]] j(3)] .
  obtain stored where enc: "encryptJobResult cx ''result'' (normalizedJobWorkspace [] j) result = Inr stored"
    using tx lr j(2) ws by (auto simp: complete_succeeded_def j')
  let ?r = "r\<lparr>run_State := RunSucceeded, run_Output := res_Output stored, run_Result := Some stored,
    run_Error := [], run_TaskID := [], run_UpdatedAt := now\<rparr>"
  have held: "Runs (cancelHeldHumanTasksInSnapshot u w' k c now) = Runs u" if "HumanTasks u = HumanTasks s" for u w' k c
    using cancelHeld_step [of u] store_okD(2) [OF ok] that by (simp add: only_tasks_def)
  have "Runs v = put (run_ID r) ?r (Runs s)"
    using tx lr enc j(2) ws by (auto simp: complete_succeeded_def r0 j' held Let_def)
  then have run: "map_of (Runs t) (job_RunID j) = Some (persist_run ?r)"
    by (simp add: t write_file_fields id)
  have "res_Output stored \<noteq> []"
    using enc by (auto simp: encryptJobResult_def cx_def local_codec_def dest: at_rest_not_Nil)
  then have dec: "decryptRunResult cx (SourceWorkspace (run_Deployment r)) x =
      Inr (x\<lparr>run_Output := res_Output result, run_Result := Some result\<rparr>)"
    if "run_Output x = res_Output stored" "run_Result x = Some stored" for x
  proof -
    have "x = x\<lparr>run_Output := res_Output stored, run_Result := Some stored\<rparr>" using that by (cases x) simp
    moreover have "decryptRunResult cx (SourceWorkspace (run_Deployment r)) (x\<lparr>run_Output := res_Output stored, run_Result := Some stored\<rparr>) =
        Inr (x\<lparr>run_Output := res_Output result, run_Result := Some result\<rparr>)"
      unfolding cx_def
      by (intro local_at_rest.result_decrypts) (use enc out w \<open>res_Output stored \<noteq> []\<close> in \<open>simp_all add: cx_def\<close>)
    ultimately show ?thesis by metis
  qed
  show ?thesis
    using run inp by (simp add: GetRun_def persist_run_def dec)
qed

end
