(* ===== verification/Claims.thy ===== *)
theory Claims
  imports Leases Operations
begin

text \<open>
  What a claim hands out: the order of candidates, the attempt it starts, and the execution limits that
  hold in the file it writes.
\<close>

declare map_of_eq_Some_iff [simp del] Some_eq_map_of_iff [simp del]

section \<open>The order of candidates\<close>

definition distinct_ids :: "job set \<Rightarrow> bool" where
  "distinct_ids A \<longleftrightarrow> inj_on job_ID A"

interpretation claim_order: total_less job_less distinct_ids
proof
  show "\<not> job_less x x" for x by (simp add: job_less_def)
  show "job_less x y \<Longrightarrow> job_less y z \<Longrightarrow> job_less x z" for x y z
    by (auto simp: job_less_def split: if_splits)
  show "distinct_ids A \<Longrightarrow> x \<in> A \<Longrightarrow> y \<in> A \<Longrightarrow> x \<noteq> y \<Longrightarrow> job_less x y \<or> job_less y x" for A x y
    using linorder_less_linear [of "job_ID x" "job_ID y"] by (auto simp: job_less_def distinct_ids_def inj_on_def)
  show "distinct_ids A \<Longrightarrow> B \<subseteq> A \<Longrightarrow> distinct_ids B" for A B
    unfolding distinct_ids_def by (rule inj_on_subset)
qed

lemma find_least:
  assumes "sorted_wrt lt xs" and "List.find p xs = Some x" and "y \<in> set xs" and "p y"
  shows "y = x \<or> lt x y"
  using assms by (induction xs) (auto split: if_splits)

lemma stored_jobs_distinct:
  assumes "coherent runs jobs"
  shows "distinct (map snd jobs)" "distinct_ids (set (map snd jobs))"
proof -
  have entry: "job_ID j = k" if "(k, j) \<in> set jobs" for k j
    using keyed_byD [OF coherentD(4) [OF assms]] in_set_map_of [OF coherentD(2) [OF assms] that] .
  have "map fst jobs = map job_ID (map snd jobs)"
    using entry by (auto simp: case_prod_beta)
  then have "distinct (map job_ID (map snd jobs))"
    using coherentD(2) [OF assms] by metis
  then show "distinct (map snd jobs)" "distinct_ids (set (map snd jobs))"
    unfolding distinct_ids_def using distinct_map [of job_ID "map snd jobs"] by blast+
qed

lemma candidates_sorted:
  assumes "coherent (Runs s) (Jobs s)"
  shows "sorted_wrt job_less (claim_candidates s ws tags labels)"
  unfolding claim_candidates_def
proof (rule claim_order.sorted_sort_by)
  let ?js = "filter (offered s ws tags labels) (map snd (Jobs s))"
  show "distinct_ids (set ?js)"
    by (rule claim_order.dom_mono [OF stored_jobs_distinct(2) [OF assms]]) auto
  show "distinct ?js"
    using stored_jobs_distinct(1) [OF assms] by (rule distinct_filter)
qed

section \<open>What a claim reads and writes\<close>

lemma requeue_entry_fields:
  "requeue_entry cx now e u = Inr v \<Longrightarrow> ExecutionLimitPolicies v = ExecutionLimitPolicies u \<and>
     Workers v = Workers u \<and> AppRuntimeLifecycles v = AppRuntimeLifecycles u"
  by (auto simp: requeue_entry_def Let_def applyCanceledJob_def encryptStoredRunResult_def
      split: if_splits option.splits)

lemma requeueExpired_fields:
  assumes "requeueExpiredJobs cx s now = Inr t"
  shows "ExecutionLimitPolicies t = ExecutionLimitPolicies s \<and> Workers t = Workers s \<and>
    AppRuntimeLifecycles t = AppRuntimeLifecycles s"
  using assms unfolding requeueExpiredJobs_def
  by (rule fold_res_inv [where P = "\<lambda>u. ExecutionLimitPolicies u = ExecutionLimitPolicies s \<and>
        Workers u = Workers s \<and> AppRuntimeLifecycles u = AppRuntimeLifecycles s"])
    (auto dest: requeue_entry_fields)

text \<open>The state in which a claim chooses: expired leases are settled and old rate buckets dropped.\<close>

definition claim_state :: "codec \<Rightarrow> time \<Rightarrow> snapshot \<Rightarrow> snapshot res" where
  "claim_state cx now s =
     bind_res (requeueExpiredJobs cx (ensureSnapshot s) now) (\<lambda>s1. Inr (pruneExecutionRateBuckets s1 now))"

lemma claim_state_good:
  assumes ok: "store_ok s" and s2: "claim_state cx now s = Inr s2"
  shows "store_ok s2" "kept N (Jobs (ensureSnapshot s)) (Jobs s2)"
    "ExecutionLimitPolicies s2 = ExecutionLimitPolicies s" "Workers s2 = Workers s"
    "AppRuntimeLifecycles s2 = AppRuntimeLifecycles s"
proof -
  obtain s1 where s1: "requeueExpiredJobs cx (ensureSnapshot s) now = Inr s1"
    and s2': "s2 = pruneExecutionRateBuckets s1 now"
    using s2 by (auto simp: claim_state_def)
  have g1: "good N (ensureSnapshot s) s1" for N
    by (rule good_requeueExpired [OF store_frame.inv_ensure [OF ok] s1])
  have g2: "good N s1 s2" for N unfolding s2'
    by (rule good_other [OF goodD [OF g1]]) (simp_all add: outcomes_kept_same)
  show "store_ok s2" by (rule goodD [OF g2])
  show "kept N (Jobs (ensureSnapshot s)) (Jobs s2)"
    using good_trans [OF g1 g2] by (simp add: good_def progress_def)
  show "ExecutionLimitPolicies s2 = ExecutionLimitPolicies s" "Workers s2 = Workers s"
    "AppRuntimeLifecycles s2 = AppRuntimeLifecycles s"
    using requeueExpired_fields [OF s1] by (simp_all add: s2' pruneExecutionRateBuckets_def)
qed

lemma claim_cases:
  assumes ok: "store_ok s"
    and claim: "ClaimJobForWorkerScope cx rnd preNow now workerID tags labels ws ttl pre s = Inr (t, j, l)"
  obtains s2 w tags' labels' ident cand ttl' v evs dels where
    "claim_state cx now s = Inr s2"
    "w = (if workerID = [] then NewID rnd ''worker'' ''worker'' else workerID)"
    "ttl' = (if ttl \<le> 0 then defaultLeaseTime else ttl)"
    "claim_selector s2 w (NormalizeWorkerScope tags) (NormalizeWorkerScope labels) now = Inr (tags', labels', ident)"
    "List.find (admissible s2 now) (claim_candidates s2 (normalizeClaimTags ws) tags' labels') = Some cand"
    "map_of (Jobs s2) (job_ID cand) = Some cand" "offered s2 (normalizeClaimTags ws) tags' labels' cand"
    "admissible s2 now cand"
    "grant_claim s2 cand w ident ttl' now = (v, j, l)"
    "t = write_file (v\<lparr>ControlPlaneEvents := evs, WebhookDeliveries := dels\<rparr>)"
proof -
  let ?w = "if workerID = [] then NewID rnd ''worker'' ''worker'' else workerID"
  let ?ttl = "if ttl \<le> 0 then defaultLeaseTime else ttl"
  have "updateWithClock rnd now s (claim_tx cx ?w (NormalizeWorkerScope tags) (NormalizeWorkerScope labels)
      (normalizeClaimTags ws) ?ttl now) = Inr (t, j, l)"
    using claim by (simp add: ClaimJobForWorkerScope_def Let_def split: if_splits)
  then obtain v evs dels where tx: "claim_tx cx ?w (NormalizeWorkerScope tags) (NormalizeWorkerScope labels)
      (normalizeClaimTags ws) ?ttl now (ensureSnapshot s) = Inr (v, j, l)"
    and t: "t = write_file (v\<lparr>ControlPlaneEvents := evs, WebhookDeliveries := dels\<rparr>)"
    by (rule updateWithClock_cases)
  obtain s1 s2 tags' labels' ident cand where s1: "requeueExpiredJobs cx (ensureSnapshot s) now = Inr s1"
    and s2: "s2 = pruneExecutionRateBuckets s1 now"
    and sel: "claim_selector s2 ?w (NormalizeWorkerScope tags) (NormalizeWorkerScope labels) now = Inr (tags', labels', ident)"
    and find: "List.find (admissible s2 now) (claim_candidates s2 (normalizeClaimTags ws) tags' labels') = Some cand"
    and grant: "grant_claim s2 cand ?w ident ?ttl now = (v, j, l)"
    using claim_tx_cases [OF tx] by metis
  have st: "claim_state cx now s = Inr s2" by (simp add: claim_state_def s1 s2)
  have "map_of (Jobs s2) (job_ID cand) = Some cand" "offered s2 (normalizeClaimTags ws) tags' labels' cand"
    "admissible s2 now cand"
    using candidate_stored [OF store_okD(1) [OF claim_state_good(1) [OF ok st]]] find_Some [OF find] by auto
  with that [OF st refl refl sel find _ _ _ grant t] show ?thesis by blast
qed

lemma grant_fields:
  assumes "grant_claim s2 cand w ident ttl now = (v, j, l)"
  shows "j = claimed_job cand w ident (now + ttl) now"
    "Jobs v = put (job_ID cand) j (Jobs s2)"
    "ExecutionRateBuckets v = ExecutionRateBuckets (consumeRateLimits s2 cand now)"
    "ls_JobID l = job_ID cand" "ls_WorkerID l = w" "ls_Attempt l = job_Attempt cand + 1"
    "ls_ExpiresAt l = now + ttl"
proof -
  have run: "Jobs (start_run u j' now) = Jobs u \<and> ExecutionRateBuckets (start_run u j' now) = ExecutionRateBuckets u" for u j'
    by (simp add: start_run_def split: option.splits)
  show "j = claimed_job cand w ident (now + ttl) now"
    "Jobs v = put (job_ID cand) j (Jobs s2)"
    "ExecutionRateBuckets v = ExecutionRateBuckets (consumeRateLimits s2 cand now)"
    "ls_JobID l = job_ID cand" "ls_WorkerID l = w" "ls_Attempt l = job_Attempt cand + 1"
    "ls_ExpiresAt l = now + ttl"
    using assms run by (auto simp: grant_claim_def Let_def claimed_job_def)
qed

section \<open>Attempts\<close>

text \<open>A claim starts a new attempt of a stored job, and the new lease is owned.\<close>

lemma claim_attempt:
  assumes ok: "store_ok s"
    and claim: "ClaimJobForWorkerScope cx rnd preNow now workerID tags labels ws ttl pre s = Inr (t, j, l)"
  shows "\<exists>j0. map_of (Jobs s) (ls_JobID l) = Some j0 \<and> job_Attempt j0 < ls_Attempt l" and "owns l t"
proof -
  obtain s2 w tags' labels' ident cand ttl' v evs dels where
    st: "claim_state cx now s = Inr s2"
    and stored: "map_of (Jobs s2) (job_ID cand) = Some cand"
    and grant: "grant_claim s2 cand w ident ttl' now = (v, j, l)"
    and t: "t = write_file (v\<lparr>ControlPlaneEvents := evs, WebhookDeliveries := dels\<rparr>)"
    using ok claim by (rule claim_cases) blast
  note g = grant_fields [OF grant]
  have kept: "kept {} (Jobs (ensureSnapshot s)) (Jobs s2)"
    by (rule claim_state_good(2) [OF ok st])
  then obtain je where je: "map_of (Jobs (ensureSnapshot s)) (job_ID cand) = Some je"
    using stored domI [of "map_of (Jobs s2)", OF stored] unfolding kept_def by blast
  have "job_Attempt je \<le> job_Attempt cand"
    using kept je stored by (simp add: kept_def advances_def advanced_def)
  then show "\<exists>j0. map_of (Jobs s) (ls_JobID l) = Some j0 \<and> job_Attempt j0 < ls_Attempt l"
    using je g by (auto simp: ensure_Jobs)
  show "owns l t"
    by (simp add: owns_def t write_file_Jobs g holds_lease_def claimed_job_def)
qed

lemma attempt_at_least:
  assumes h: "history_ok h" and own: "owns l (state_file h)" and steps: "(store_step cx)\<^sup>*\<^sup>* h h'"
    and j: "map_of (Jobs (state_file h')) (ls_JobID l) = Some j"
  shows "ls_Attempt l \<le> job_Attempt j"
proof -
  obtain j0 where j0: "map_of (Jobs (state_file h)) (ls_JobID l) = Some j0" "job_Attempt j0 = ls_Attempt l"
    using own by (auto simp: owns_def holds_lease_def)
  have "later h h'" using steps_later [OF steps h] by simp
  moreover have "ls_JobID l \<in> issued h" using h j0(1) by (auto simp: history_ok_def)
  ultimately have "\<exists>j0. map_of (Jobs (state_file h)) (ls_JobID l) = Some j0 \<and> advanced j0 j"
    using j by (auto simp: later_def job_later_def)
  then show ?thesis using j0 by (auto simp: advanced_def)
qed

section \<open>Limits\<close>

lemma persist_payload_fields [simp]:
  "normalizedJobWorkspace w (persist_job j) = normalizedJobWorkspace w j" "jobAppKey (persist_job j) = jobAppKey j"
  "pl_ExecutionLimits (job_Payload (persist_job j)) = pl_ExecutionLimits (job_Payload j)"
  by (simp_all add: normalizedJobWorkspace_def jobAppKey_def persist_job_def persist_payload_def
      PinnedDeployment_def persist_deployment_def SourceWorkspace_def Let_def split: option.splits)

lemma attached_payload_fields [simp]:
  "normalizedJobWorkspace w (attached s k j) = normalizedJobWorkspace w j" "jobAppKey (attached s k j) = jobAppKey j"
  by (simp_all add: normalizedJobWorkspace_def jobAppKey_def Let_def)

lemma count_jobs_map_vals: "(\<And>k j. p (f k j) = p j) \<Longrightarrow> count_jobs p (map_vals f m) = count_jobs p m"
  by (induction m) (auto simp: count_jobs_def map_vals_def)

lemma app_running_write [simp]: "app_running (write_file s) w a = app_running s w a"
  by (simp add: app_running_def write_file_Jobs count_jobs_map_vals)

lemma keyed_running_write [simp]: "keyed_running (write_file s) c pin = keyed_running s c pin"
  by (simp add: keyed_running_def write_file_Jobs count_jobs_map_vals jobHasKeyedConcurrencyPin_def)

text \<open>The counts of running jobs after a claim.\<close>

lemma count_claim:
  assumes "go_map_ok (Jobs s2)" and "map_of (Jobs s2) (job_ID cand) = Some cand" "job_State cand = JobQueued"
    and "Jobs v = put (job_ID cand) j (Jobs s2)" and "\<And>x. p x \<Longrightarrow> job_State x = JobRunning"
  shows "count_jobs p (Jobs v) \<le> count_jobs p (Jobs s2) + 1"
  using count_jobs_put [OF assms(1,2), of p j] assms(3-5) by auto

lemma claimed_payload [simp]:
  "job_Payload (claimed_job j w i e now) = job_Payload j" "job_ID (claimed_job j w i e now) = job_ID j"
  "normalizedJobWorkspace x (claimed_job j w i e now) = normalizedJobWorkspace x j"
  "jobAppKey (claimed_job j w i e now) = jobAppKey j"
  by (simp_all add: claimed_job_def normalizedJobWorkspace_def jobAppKey_def Let_def)

lemma effective_claimed [simp]:
  "effectiveAppConcurrencyLimit (claimed_job j w i e now) ps = effectiveAppConcurrencyLimit j ps"
  "effectiveKeyedConcurrencyLimit (claimed_job j w i e now) pin ps = effectiveKeyedConcurrencyLimit j pin ps"
  "effectiveKeyedRateLimit (claimed_job j w i e now) rate ps = effectiveKeyedRateLimit j rate ps"
  unfolding effectiveAppConcurrencyLimit_def effectiveKeyedConcurrencyLimit_def effectiveKeyedRateLimit_def
    executionPolicyKeyForJob_def jobMaxConcurrent_def claimed_payload by (rule refl)+

text \<open>After a claim the limits pinned to the job, as operators lowered them, are respected.\<close>

lemma app_running_same [simp]:
  "app_running (s\<lparr>ControlPlaneEvents := a, WebhookDeliveries := b\<rparr>) w k = app_running s w k"
  "keyed_running (s\<lparr>ControlPlaneEvents := a, WebhookDeliveries := b\<rparr>) c pin = keyed_running s c pin"
  by (simp_all add: app_running_def keyed_running_def)

lemma claim_concurrency:
  assumes ok: "store_ok s"
    and claim: "ClaimJobForWorkerScope cx rnd preNow now workerID tags labels ws ttl pre s = Inr (t, j, l)"
  shows "effectiveAppConcurrencyLimit j (ExecutionLimitPolicies s) = AtMost n \<Longrightarrow>
      app_running t (normalizedJobWorkspace [] j) (jobAppKey j) \<le> n"
    and "effectiveAppConcurrencyLimit j (ExecutionLimitPolicies s) \<noteq> Invalid"
    and "pin \<in> set (elp_Concurrency (pl_ExecutionLimits (job_Payload j))) \<Longrightarrow>
      \<exists>m. effectiveKeyedConcurrencyLimit j pin (ExecutionLimitPolicies s) = Some m \<and> m \<le> kcp_MaxConcurrent pin \<and>
        keyed_running t j pin \<le> m"
proof -
  obtain s2 w tags' labels' ident cand ttl' v evs dels where
    st: "claim_state cx now s = Inr s2"
    and stored: "map_of (Jobs s2) (job_ID cand) = Some cand"
    and off: "offered s2 (normalizeClaimTags ws) tags' labels' cand" and adm: "admissible s2 now cand"
    and grant: "grant_claim s2 cand w ident ttl' now = (v, j, l)"
    and t: "t = write_file (v\<lparr>ControlPlaneEvents := evs, WebhookDeliveries := dels\<rparr>)"
    using ok claim by (rule claim_cases) blast
  note g = grant_fields [OF grant] and ps = claim_state_good(3) [OF ok st]
  have keys: "go_map_ok (Jobs s2)"
    by (rule coherentD(2) [OF store_okD(1) [OF claim_state_good(1) [OF ok st]]])
  have count: "count_jobs p (Jobs v) \<le> count_jobs p (Jobs s2) + 1" if "\<And>x. p x \<Longrightarrow> job_State x = JobRunning" for p
    by (rule count_claim [OF keys stored _ g(2) that]) (use off in \<open>simp_all add: offered_def\<close>)
  have free: "\<not> maxConcurrentReached s2 cand" using adm by (simp add: admissible_def)
  show "app_running t (normalizedJobWorkspace [] j) (jobAppKey j) \<le> n"
    if "effectiveAppConcurrencyLimit j (ExecutionLimitPolicies s) = AtMost n"
  proof -
    have "app_running s2 (normalizedJobWorkspace [] cand) (jobAppKey cand) < n"
      by (rule not_maxConcurrentReached_app [OF free]) (use that in \<open>simp add: g(1) ps\<close>)
    then show ?thesis
      using count [of "\<lambda>x. job_State x = JobRunning \<and> normalizedJobWorkspace [] x = normalizedJobWorkspace [] cand \<and>
          jobAppKey x = jobAppKey cand"]
      by (simp add: t g(1) app_running_def [of v] app_running_def [of s2])
  qed
  show "effectiveAppConcurrencyLimit j (ExecutionLimitPolicies s) \<noteq> Invalid"
    using not_maxConcurrentReached_valid [OF free] by (simp add: g(1) ps)
  show "\<exists>m. effectiveKeyedConcurrencyLimit j pin (ExecutionLimitPolicies s) = Some m \<and> m \<le> kcp_MaxConcurrent pin \<and>
      keyed_running t j pin \<le> m"
    if "pin \<in> set (elp_Concurrency (pl_ExecutionLimits (job_Payload j)))"
  proof -
    have "pin \<in> set (elp_Concurrency (pl_ExecutionLimits (job_Payload cand)))" using that by (simp add: g(1))
    from free this obtain m where m: "effectiveKeyedConcurrencyLimit cand pin (ExecutionLimitPolicies s2) = Some m"
      "keyed_running s2 cand pin < m"
      by (rule not_maxConcurrentReached_keyed)
    have "keyed_running v cand pin \<le> keyed_running s2 cand pin + 1"
      unfolding keyed_running_def by (rule count) simp
    moreover have "keyed_running t j pin = keyed_running v cand pin"
      by (simp add: t g(1)) (simp add: keyed_running_def)
    ultimately show ?thesis
      using m effectiveKeyedConcurrencyLimit_le [OF m(1)] by (auto simp: g(1) ps)
  qed
qed

lemma write_file_buckets [simp]: "ExecutionRateBuckets (write_file s) = ExecutionRateBuckets s"
  by (simp add: write_file_def Let_def)

lemma claim_rates:
  assumes ok: "store_ok s"
    and claim: "ClaimJobForWorkerScope cx rnd preNow now workerID tags labels ws ttl pre s = Inr (t, j, l)"
    and pins: "distinct (map (rateBucketKey (normalizedJobWorkspace [] j)) (elp_Rate (pl_ExecutionLimits (job_Payload j))))"
      "rate \<in> set (elp_Rate (pl_ExecutionLimits (job_Payload j)))"
  shows "\<exists>m b. effectiveKeyedRateLimit j rate (ExecutionLimitPolicies s) = Some m \<and> m \<le> krp_MaxAttempts rate \<and>
    map_of (ExecutionRateBuckets t) (rateBucketKey (normalizedJobWorkspace [] j) rate) = Some b \<and>
    erb_WindowStart b = fst (rateWindow now (krp_WindowSeconds rate)) \<and> erb_Consumed b \<le> m"
proof -
  obtain s2 w tags' labels' ident cand ttl' v evs dels where
    st: "claim_state cx now s = Inr s2" and adm: "admissible s2 now cand"
    and grant: "grant_claim s2 cand w ident ttl' now = (v, j, l)"
    and t: "t = write_file (v\<lparr>ControlPlaneEvents := evs, WebhookDeliveries := dels\<rparr>)"
    using ok claim by (rule claim_cases) blast
  note g = grant_fields [OF grant] and ps = claim_state_good(3) [OF ok st]
  have rate: "rate \<in> set (elp_Rate (pl_ExecutionLimits (job_Payload cand)))"
    and dist: "distinct (map (rateBucketKey (normalizedJobWorkspace [] cand)) (elp_Rate (pl_ExecutionLimits (job_Payload cand))))"
    using pins by (simp_all add: g(1))
  have "\<not> rateLimitsReached s2 cand now" using adm by (simp add: admissible_def)
  from this rate obtain m where m: "effectiveKeyedRateLimit cand rate (ExecutionLimitPolicies s2) = Some m"
    "consumed_in (normalizedJobWorkspace [] cand) now rate (ExecutionRateBuckets s2) < m"
    by (rule not_rateLimitsReached)
  show ?thesis
    using consume_self [OF dist rate, of now "ExecutionRateBuckets s2"] m effectiveKeyedRateLimit_le [OF m(1)]
    by (auto simp: t g(1) g(3) ps consumeRateLimits_def)
qed

section \<open>Which job a claim takes\<close>

lemma claim_least:
  assumes ok: "store_ok s"
    and claim: "ClaimJobForWorkerScope cx rnd preNow now workerID tags labels ws ttl pre s = Inr (t, j, l)"
    and st: "claim_state cx now s = Inr s2"
    and sel: "claim_selector s2 (ls_WorkerID l) (NormalizeWorkerScope tags) (NormalizeWorkerScope labels) now =
      Inr (tags', labels', ident)"
    and y: "map_of (Jobs s2) k = Some y" "offered s2 (normalizeClaimTags ws) tags' labels' y" "admissible s2 now y"
  shows "\<exists>c. map_of (Jobs s2) (ls_JobID l) = Some c \<and> job_State c = JobQueued \<and> (y = c \<or> job_less c y)"
proof -
  obtain tags1 labels1 ident1 cand w ttl' v where
    w: "claim_selector s2 w (NormalizeWorkerScope tags) (NormalizeWorkerScope labels) now = Inr (tags1, labels1, ident1)"
    and find: "List.find (admissible s2 now) (claim_candidates s2 (normalizeClaimTags ws) tags1 labels1) = Some cand"
    and stored: "map_of (Jobs s2) (job_ID cand) = Some cand" "offered s2 (normalizeClaimTags ws) tags1 labels1 cand"
    and grant: "grant_claim s2 cand w ident1 ttl' now = (v, j, l)"
    using ok claim st by (elim claim_cases) auto
  have l: "ls_JobID l = job_ID cand" "ls_WorkerID l = w" using grant_fields [OF grant] by simp_all
  then have "tags1 = tags'" "labels1 = labels'" using w sel by simp_all
  then have "y \<in> set (claim_candidates s2 (normalizeClaimTags ws) tags1 labels1)"
    using y by (auto simp: claim_candidates_def intro: map_of_Some_in_snd)
  then show ?thesis
    using find_least [OF candidates_sorted find] store_okD(1) [OF claim_state_good(1) [OF ok st]] y(3) stored l
    by (auto simp: offered_def)
qed

text \<open>A claim finds a job whenever one is offered and within its limits.\<close>

lemma requeueExpired_tasks:
  assumes "requeueExpiredJobs cx s now = Inr t"
  shows "HumanTasks t = HumanTasks s"
  using assms unfolding requeueExpiredJobs_def
  by (rule fold_res_inv [where P = "\<lambda>u. HumanTasks u = HumanTasks s"])
    (auto simp: requeue_entry_def Let_def encryptStoredRunResult_def split: if_splits option.splits)

lemma grant_tasks: "HumanTasks (fst (grant_claim s c w i ttl now)) = HumanTasks s"
  by (simp add: grant_claim_def Let_def start_run_def consumeRateLimits_def split: option.splits)

lemma claim_succeeds:
  assumes ok: "store_ok s" and st: "claim_state cx now s = Inr s2" and w: "w \<noteq> []"
    and sel: "claim_selector s2 w (NormalizeWorkerScope tags) (NormalizeWorkerScope labels) now = Inr (tags', labels', ident)"
    and pre: "localClaimMayOfferJob pre w (NormalizeWorkerScope tags) (NormalizeWorkerScope labels) preNow = Inr True"
    and y: "map_of (Jobs s2) k = Some y" "offered s2 (normalizeClaimTags ws) tags' labels' y" "admissible s2 now y"
    and ids: "map_of (Jobs s2) [] = None"
  shows "\<exists>t j l. ClaimJobForWorkerScope cx rnd preNow now w tags labels ws ttl pre s = Inr (t, j, l)"
proof -
  let ?ttl = "if ttl \<le> 0 then defaultLeaseTime else ttl"
  obtain s1 where s1: "requeueExpiredJobs cx (ensureSnapshot s) now = Inr s1" and s2: "s2 = pruneExecutionRateBuckets s1 now"
    using st by (auto simp: claim_state_def)
  have "y \<in> set (claim_candidates s2 (normalizeClaimTags ws) tags' labels')"
    using y by (auto simp: claim_candidates_def intro: map_of_Some_in_snd)
  then obtain c where c: "List.find (admissible s2 now) (claim_candidates s2 (normalizeClaimTags ws) tags' labels') = Some c"
    using y(3) by (cases "List.find (admissible s2 now) (claim_candidates s2 (normalizeClaimTags ws) tags' labels')")
      (auto simp: find_None_iff)
  have "map_of (Jobs s2) (job_ID c) = Some c"
    using candidate_stored(1) [OF store_okD(1) [OF claim_state_good(1) [OF ok st]]] find_Some [OF c] by blast
  then have "job_ID c \<noteq> []" using ids by force
  then have tx: "claim_tx cx w (NormalizeWorkerScope tags) (NormalizeWorkerScope labels) (normalizeClaimTags ws) ?ttl now
      (ensureSnapshot s) = Inr (grant_claim s2 c w ident ?ttl now)"
    using sel c by (simp add: claim_tx_def s1 flip: s2)
  have "HumanTasks (fst (grant_claim s2 c w ident ?ttl now)) = HumanTasks (ensureSnapshot s)"
    using requeueExpired_tasks [OF s1] by (simp add: grant_tasks s2 pruneExecutionRateBuckets_def)
  then have "run_hook rnd now (HumanTasks (ensureSnapshot s)) (fst (grant_claim s2 c w ident ?ttl now)) =
      Inr (fst (grant_claim s2 c w ident ?ttl now))"
    using store_okD(2) [OF ok] by (intro run_hook_same) (simp_all add: tasks_ok_def)
  then show ?thesis
    using w tx pre by (cases "grant_claim s2 c w ident ?ttl now")
      (simp add: ClaimJobForWorkerScope_def Let_def updateWithClock_def)
qed

end
