(* ===== verification/Scenario.thy ===== *)
theory Scenario
  imports Claims Crypto Operations
begin

text \<open>
  A short concrete history of the store, without encryption: a run is enqueued, worker \<open>w1\<close> claims its job
  and loses the lease, worker \<open>w2\<close> claims it again and completes it. The files are described by the
  fields that the theorems read; the theorems of the other theories are applied to them.
\<close>

declare map_of_eq_Some_iff [simp del] Some_eq_map_of_iff [simp del]

section \<open>Data\<close>

definition demo_codec :: codec where
  "demo_codec = local_codec (\<lambda>w. Inr ([], 0)) \<lparr>icc_SecretKey = [], icc_SecretKeyPrevious = []\<rparr> (\<lambda>d. [])"

definition demo_rnd :: rnd where "demo_rnd = (\<lambda>d. ''id-'' @ d)"

definition demo_hex :: string where
  "demo_hex = ''0123456789abcdef0123456789abcdef0123456789abcdef0123456789abcdef''"

definition demo_app_pin :: app_concurrency_pin where
  "demo_app_pin = \<lparr>acp_PolicyID = ImplicitAppConcurrencyPolicyID, acp_ShapeFingerprint = ''elfp:v1:sha256:'' @ demo_hex,
     acp_MaxConcurrent = Some 1\<rparr>"

definition demo_key_pin :: keyed_concurrency_pin where
  "demo_key_pin = \<lparr>kcp_PolicyID = ''per-user'', kcp_PolicyRevision = ''sha256:'' @ demo_hex, kcp_ShapeFingerprint = [],
     kcp_Scope = ''app'', kcp_KeyDigest = ''hmac-sha256:'' @ demo_hex, kcp_MaxConcurrent = 1\<rparr>"

definition demo_rate_pin :: keyed_rate_pin where
  "demo_rate_pin = \<lparr>krp_PolicyID = ''per-minute'', krp_PolicyRevision = ''sha256:'' @ demo_hex, krp_ShapeFingerprint = [],
     krp_Scope = ''app'', krp_KeyDigest = ''hmac-sha256:'' @ demo_hex, krp_MaxAttempts = 5, krp_WindowSeconds = 60\<rparr>"

definition demo_payload :: job_payload where
  "demo_payload = zero_job_payload\<lparr>pl_Workspace := ''team'', pl_App := ''app'', pl_Tag := ''default'', pl_Input := ''{}'',
     pl_ExecutionLimits := \<lparr>elp_AppConcurrency = Some demo_app_pin, elp_Concurrency = [demo_key_pin],
       elp_Rate = [demo_rate_pin]\<rparr>\<rparr>"

definition demo_deployment :: deployment where "demo_deployment = zero_deployment\<lparr>dep_Workspace := ''team''\<rparr>"

definition demo_run :: run where
  "demo_run = zero_run\<lparr>run_ID := ''run-1'', run_App := ''app'', run_Action := ''act'', run_Deployment := demo_deployment,
     run_Input := ''{}''\<rparr>"

definition demo_job :: job where
  "demo_job = zero_job\<lparr>job_ID := ''job-1'', job_RunID := ''run-1'', job_Payload := demo_payload\<rparr>"

text \<open>Times are seconds after an instant of 2023.\<close>

definition demo_at :: "int \<Rightarrow> time" where "demo_at seconds = unix_time (1700000000 + seconds)"

lemma demo_at_simps [simp]:
  "demo_at a = demo_at b \<longleftrightarrow> a = b" "demo_at a < demo_at b \<longleftrightarrow> a < b" "demo_at a \<le> demo_at b \<longleftrightarrow> a \<le> b"
  by (simp_all add: demo_at_def unix_time_def nanos_per_second_def)

text \<open>The job as the store keeps it, by its state, attempt, lease and time stamps.\<close>

definition demo_stored :: "job_state \<Rightarrow> int \<Rightarrow> string \<Rightarrow> time option \<Rightarrow> time option \<Rightarrow> time \<Rightarrow> job" where
  "demo_stored st attempt owner expires started updated =
     demo_job\<lparr>job_State := st, job_Attempt := attempt, job_LeaseOwner := owner, job_LeaseExpiresAt := expires,
       job_StartedAt := started, job_CreatedAt := demo_at 10, job_UpdatedAt := updated\<rparr>"

definition demo_stored_run :: "run_state \<Rightarrow> time \<Rightarrow> run" where
  "demo_stored_run st updated = demo_run\<lparr>run_State := st, run_CreatedAt := demo_at 10, run_UpdatedAt := updated\<rparr>"

section \<open>Evaluation of the views of the job\<close>

lemma trim_literals [simp]: "trim [] = []" "trim ''team'' = ''team''" "trim ''app'' = ''app''" "trim ''default'' = ''default''"
  "trim ''per-user'' = ''per-user''" "trim ''per-minute'' = ''per-minute''"
  by code_simp+

lemma empty_document: "json_valid ''{}''"
  by code_simp

lemma demo_codec_input [simp]: "enc_input demo_codec draw w ''{}'' = Inr ''{}''"
  by (simp add: demo_codec_def local_codec_def encryptJSONAtRest_def canonicalJSONValue_def empty_document)

lemma demo_views [simp]:
  assumes "job_Payload j = demo_payload"
  shows "normalizedJobWorkspace [] j = ''team''" "jobAppKey j = ''app''" "workerJobWorkspace j = ''team''"
    "jobTag j = ''default''" "jobRequiredLabels j = []" "jobMaxConcurrent j = Some 1"
  using assms
  by (simp_all add: normalizedJobWorkspace_def jobAppKey_def workerJobWorkspace_def jobTag_def jobRequiredLabels_def
      jobMaxConcurrent_def demo_payload_def zero_job_payload_def or_str_def NormalizeWorkspace_def positive_ptr_def
      demo_app_pin_def slice_def Let_def)

lemma demo_hex_ok: "hex_decodable demo_hex" "length demo_hex = 64"
  by code_simp+

lemma demo_fingerprint: "IsFingerprint (acp_ShapeFingerprint demo_app_pin)"
  using demo_hex_ok by (simp add: IsFingerprint_def demo_app_pin_def FingerprintPrefix_def FingerprintVersion_def)

lemma demo_pins_valid: "validKeyedConcurrencyPin demo_key_pin" "validKeyedRatePin demo_rate_pin"
  using demo_hex_ok
  by (simp_all add: validKeyedConcurrencyPin_def validKeyedRatePin_def validExecutionLimitDigest_def demo_key_pin_def
      demo_rate_pin_def ScopeAppName_def MinRateWindowSeconds_def MaxRateWindowSeconds_def)

lemma demo_app_limit [simp]:
  "job_Payload j = demo_payload \<Longrightarrow> effectiveAppConcurrencyLimit j [] = AtMost 1"
  using demo_fingerprint
  by (simp add: effectiveAppConcurrencyLimit_def demo_payload_def Let_def matchingPolicyAllowance_def minimumExecutionLimit_def)
    (simp add: demo_app_pin_def)

section \<open>Files with the one run\<close>

definition demo_file :: "run \<Rightarrow> job \<Rightarrow> snapshot \<Rightarrow> bool" where
  "demo_file r j s \<longleftrightarrow> Runs s = [(''run-1'', r)] \<and> Jobs s = [(''job-1'', j)] \<and> HumanTasks s = [] \<and>
     AdmissionOutcomes s = [] \<and> Workers s = [] \<and> WorkerLeaseIdentities s = [] \<and>
     ExecutionLimitPolicies s = [] \<and> AppRuntimeLifecycles s = []"

definition demo_rates :: "int \<Rightarrow> snapshot \<Rightarrow> bool" where
  "demo_rates n s \<longleftrightarrow> (\<forall>(k, b) \<in> set (ExecutionRateBuckets s). erb_Consumed b \<le> n)"

lemma ensure_demo:
  assumes "demo_file (demo_stored_run rs ru) (demo_stored st a w e b u) s"
  shows "ensureSnapshot s = s"
  using assms
  by (cases s) (simp add: demo_file_def ensureSnapshot_def attach_identities_def migrateLocalAdmissionOutcomes_def
      map_vals_def migrate_job_def demo_stored_def demo_job_def demo_stored_run_def demo_run_def zero_run_def
      admissionIdentityForRun_def Let_def)

lemma persist_demo [simp]:
  "persist_job (demo_stored st a w e b u) = demo_stored st a w e b u"
  "persist_run (demo_stored_run rs ru) = demo_stored_run rs ru"
  by (simp_all add: persist_job_def persist_run_def persist_payload_def persist_deployment_def drop_empty_def
      demo_stored_def demo_job_def demo_payload_def demo_stored_run_def demo_run_def zero_job_def zero_run_def
      zero_job_payload_def demo_deployment_def zero_deployment_def)

lemma write_demo:
  assumes "demo_file (demo_stored_run rs ru) (demo_stored st a w e b u) s"
  shows "demo_file (demo_stored_run rs ru) (demo_stored st a w e b u) (write_file s)"
    and "ExecutionRateBuckets (write_file s) = ExecutionRateBuckets s"
  using assms ensure_demo [OF assms]
  by (simp_all add: write_file_def Let_def persist_def demo_file_def map_vals_def)

text \<open>A transaction on such a file, when its body leaves such a file.\<close>

lemma update_demo:
  assumes s: "demo_file (demo_stored_run rs ru) (demo_stored st a w e b u) s"
    and fn: "fn s = Inr (v, x)"
    and v: "demo_file (demo_stored_run rs' ru') (demo_stored st' a' w' e' b' u') v"
  shows "\<exists>t. updateWithClock rnd now s fn = Inr (t, x) \<and>
    demo_file (demo_stored_run rs' ru') (demo_stored st' a' w' e' b' u') t \<and>
    ExecutionRateBuckets t = ExecutionRateBuckets v"
proof -
  have hook: "run_hook rnd now (HumanTasks s) v = Inr v"
    using v by (simp add: run_hook_def demo_file_def)
  show ?thesis
    using write_demo [OF v] by (simp add: updateWithClock_def ensure_demo [OF s] fn hook)
qed

section \<open>The steps\<close>

lemma demo_fields [simp]:
  "job_ID (demo_stored st a w e b u) = ''job-1''" "job_RunID (demo_stored st a w e b u) = ''run-1''"
  "job_State (demo_stored st a w e b u) = st" "job_Attempt (demo_stored st a w e b u) = a"
  "job_LeaseOwner (demo_stored st a w e b u) = w" "job_LeaseExpiresAt (demo_stored st a w e b u) = e"
  "job_Payload (demo_stored st a w e b u) = demo_payload" "job_CanceledBy (demo_stored st a w e b u) = None"
  "run_ID (demo_stored_run rs ru) = ''run-1''" "run_State (demo_stored_run rs ru) = rs"
  by (simp_all add: demo_stored_def demo_job_def demo_stored_run_def demo_run_def zero_job_def)

lemma demo_updates [simp]:
  "claimed_job (demo_stored st a w e b u) w' None x now = demo_stored JobRunning (a + 1) w' (Some x) (Some now) now"
  "requeued_job (demo_stored st a w e b u) now = demo_stored JobQueued a [] None None now"
  "finished_job st' (demo_stored st a w e b u) now = demo_stored st' a w None b now"
  "(demo_stored_run rs ru)\<lparr>run_State := rs', run_UpdatedAt := now\<rparr> = demo_stored_run rs' now"
  by (simp_all add: demo_stored_def demo_job_def demo_stored_run_def demo_run_def zero_job_def claimed_job_def
      requeued_job_def finished_job_def)

lemma demo_limits [simp]:
  "pl_ExecutionLimits demo_payload = \<lparr>elp_AppConcurrency = Some demo_app_pin, elp_Concurrency = [demo_key_pin],
     elp_Rate = [demo_rate_pin]\<rparr>"
  "effectiveKeyedConcurrencyLimit j demo_key_pin [] = Some 1"
  "effectiveKeyedRateLimit j demo_rate_pin [] = Some 5"
  by (simp_all add: demo_payload_def effectiveKeyedConcurrencyLimit_def effectiveKeyedRateLimit_def demo_key_pin_def
      demo_rate_pin_def)

text \<open>The one job is admissible while it is queued and its rate window is not used up.\<close>

lemma demo_admissible:
  assumes "demo_file r (demo_stored JobQueued a w e b u) s" and "demo_rates n s" "n < 5"
  shows "admissible s now (demo_stored JobQueued a w e b u)"
proof -
  have "\<not> maxConcurrentReached s (demo_stored JobQueued a w e b u)"
    using assms(1) demo_pins_valid
    by (simp add: maxConcurrentReached_def keyedConcurrencyReached_def keyed_running_def app_running_def count_jobs_def
        demo_file_def)
  moreover have "\<not> rateLimitsReached s (demo_stored JobQueued a w e b u) now"
    using assms demo_pins_valid
    by (fastforce simp: rateLimitsReached_def demo_file_def demo_rates_def split: option.splits dest: map_of_SomeD)
  ultimately show ?thesis by (simp add: admissible_def)
qed

lemma demo_candidates:
  assumes "demo_file r (demo_stored JobQueued a w e b u) s"
  shows "claim_candidates s [] [] [] = [demo_stored JobQueued a w e b u]"
  using assms
  by (simp add: claim_candidates_def demo_file_def offered_def claimAllowed_def selectorAllowed_def
      appRuntimeAllowsNewAttempt_def job_lifecycle_def activeAppRuntimeLifecycle_def)

lemma set_put: "x \<in> set (put k v m) \<Longrightarrow> x = (k, v) \<or> x \<in> set m"
  by (induction m) (auto split: if_splits)

lemma consume_demo:
  assumes "\<forall>(k, c) \<in> set m. erb_Consumed c \<le> n" "0 \<le> n" and "(k, c) \<in> set (consume_bucket w now pin m)"
  shows "erb_Consumed c \<le> n + 1"
proof -
  obtain c' where "(k, c) = (rateBucketKey w pin, c') \<and> erb_Consumed c' \<le> n + 1 \<or> (k, c) \<in> set m"
    using assms by (fastforce simp: consume_bucket_def Let_def zero_execution_rate_bucket_def
        split: prod.splits option.splits dest: map_of_SomeD dest!: set_put)
  then show ?thesis using assms(1) by auto
qed

lemma grant_demo:
  assumes s: "demo_file (demo_stored_run rs ru) (demo_stored JobQueued a o' e b u) s" and rates: "demo_rates n s" "0 \<le> n" "n < 5"
    and rs: "rs = RunQueued \<or> rs = RunRunning" and g: "grant_claim s (demo_stored JobQueued a o' e b u) w None ttl now = (v, j, l)"
  shows "\<exists>ru'. demo_file (demo_stored_run RunRunning ru') (demo_stored JobRunning (a + 1) w (Some (now + ttl)) (Some now) now) v"
    and "demo_rates (n + 1) v"
proof -
  show "\<exists>ru'. demo_file (demo_stored_run RunRunning ru') (demo_stored JobRunning (a + 1) w (Some (now + ttl)) (Some now) now) v"
    using s rs g
    by (auto simp: grant_claim_def Let_def demo_file_def start_run_def appendEvent_def consumeRateLimits_def)
  have "ExecutionRateBuckets v = consume_bucket ''team'' now demo_rate_pin (ExecutionRateBuckets s)"
    using grant_fields(3) [OF g] by (simp add: consumeRateLimits_def)
  then show "demo_rates (n + 1) v"
    using rates consume_demo by (auto simp: demo_rates_def)
qed

lemma demo_requeue:
  assumes s: "demo_file (demo_stored_run rs ru) (demo_stored st a o' e b u) s" and rates: "demo_rates n s"
    and st: "st = JobQueued \<or> st = JobRunning \<and> (\<exists>x. e = Some x \<and> x \<le> now)"
  obtains s1 o1 e1 b1 u1 where "requeueExpiredJobs demo_codec s now = Inr s1"
    "demo_file (demo_stored_run rs ru) (demo_stored JobQueued a o1 e1 b1 u1) (pruneExecutionRateBuckets s1 now)"
    "demo_rates n (pruneExecutionRateBuckets s1 now)"
proof -
  have "\<exists>s1 o1 e1 b1 u1. requeueExpiredJobs demo_codec s now = Inr s1 \<and>
    demo_file (demo_stored_run rs ru) (demo_stored JobQueued a o1 e1 b1 u1) (pruneExecutionRateBuckets s1 now) \<and>
    demo_rates n (pruneExecutionRateBuckets s1 now)"
  proof (cases "st = JobQueued")
    case True
    then show ?thesis
      using s rates by (auto simp: requeueExpiredJobs_def demo_file_def requeue_entry_def lease_expired_def
          pruneExecutionRateBuckets_def demo_rates_def)
  next
    case False
    then have "lease_expired (demo_stored st a o' e b u) now"
      using st by (auto simp: lease_expired_def)
    then show ?thesis
      using s rates by (auto simp: requeueExpiredJobs_def demo_file_def requeue_entry_def appendEvent_def Let_def
          pruneExecutionRateBuckets_def demo_rates_def)
  qed
  then show ?thesis using that by blast
qed

lemma claim_demo:
  assumes s: "demo_file (demo_stored_run rs ru) (demo_stored st a o' e b u) s" and rates: "demo_rates n s" "0 \<le> n" "n < 5"
    and st: "st = JobQueued \<or> st = JobRunning \<and> (\<exists>x. e = Some x \<and> x \<le> now)"
    and rs: "rs = RunQueued \<or> rs = RunRunning" and w: "w \<noteq> []" and ttl: "0 < ttl"
  shows "\<exists>t j l ru'. ClaimJobForWorkerScope demo_codec demo_rnd now now w [] [] [] ttl s s = Inr (t, j, l) \<and>
    demo_file (demo_stored_run RunRunning ru') (demo_stored JobRunning (a + 1) w (Some (now + ttl)) (Some now) now) t \<and>
    demo_rates (n + 1) t \<and> j = demo_stored JobRunning (a + 1) w (Some (now + ttl)) (Some now) now \<and>
    l = \<lparr>ls_JobID = ''job-1'', ls_WorkerID = w, ls_ExpiresAt = now + ttl, ls_Attempt = a + 1, ls_AcquiredAt = now,
      ls_Identity = None\<rparr>"
proof -
  obtain s1 o1 e1 b1 u1 where rq: "requeueExpiredJobs demo_codec s now = Inr s1"
    and s2: "demo_file (demo_stored_run rs ru) (demo_stored JobQueued a o1 e1 b1 u1) (pruneExecutionRateBuckets s1 now)"
    and r2: "demo_rates n (pruneExecutionRateBuckets s1 now)"
    using s rates(1) st by (rule demo_requeue)
  let ?c = "demo_stored JobQueued a o1 e1 b1 u1" and ?s2 = "pruneExecutionRateBuckets s1 now"
  obtain v j l where g: "grant_claim ?s2 ?c w None ttl now = (v, j, l)" by (metis prod_cases3)
  have scope: "NormalizeWorkerScope [] = []" "normalizeClaimTags [] = []"
    by (simp_all add: NormalizeWorkerScope_def normalizeClaimTags_def sorted_set_def)
  have "claim_selector ?s2 w [] [] now = Inr ([], [], None)"
    using s2 by (simp add: claim_selector_def demo_file_def normalizeClaimTags_def)
  then have tx: "claim_tx demo_codec w [] [] [] ttl now s = Inr (v, j, l)"
    using demo_admissible [OF s2 r2 rates(3)] by (simp add: claim_tx_def rq demo_candidates [OF s2] g)
  obtain ru' where v: "demo_file (demo_stored_run RunRunning ru') (demo_stored JobRunning (a + 1) w (Some (now + ttl)) (Some now) now) v"
    and rv: "demo_rates (n + 1) v"
    using grant_demo [OF s2 r2 rates(2,3) rs g] by blast
  have offer: "localClaimMayOfferJob s w [] [] now = Inr True"
    using s st by (auto simp: localClaimMayOfferJob_def demo_file_def lease_expired_def)
  have "j = demo_stored JobRunning (a + 1) w (Some (now + ttl)) (Some now) now"
    "l = \<lparr>ls_JobID = ''job-1'', ls_WorkerID = w, ls_ExpiresAt = now + ttl, ls_Attempt = a + 1, ls_AcquiredAt = now,
      ls_Identity = None\<rparr>"
    using g by (auto simp: grant_claim_def Let_def)
  then show ?thesis
    using update_demo [where fn = "claim_tx demo_codec w [] [] [] ttl now", OF s tx v, of demo_rnd now] rv w ttl
    by (auto simp: ClaimJobForWorkerScope_def Let_def scope offer demo_rates_def)
qed

lemma enqueue_demo:
  "\<exists>t. CreateRunAndEnqueue demo_codec demo_rnd (demo_at 10) demo_run demo_job (newSnapshot ''epoch'') = Inr (t, ()) \<and>
    demo_file (demo_stored_run RunQueued (demo_at 10)) (demo_stored JobQueued 0 [] None None (demo_at 10)) t \<and>
    ExecutionRateBuckets t = []"
proof -
  let ?s = "newSnapshot ''epoch''"
  have ens: "ensureSnapshot ?s = ?s"
    by (simp add: ensureSnapshot_def attach_identities_def migrateLocalAdmissionOutcomes_def newSnapshot_def map_vals_def)
  obtain v where v: "create_run_and_enqueue demo_codec demo_run demo_job (demo_at 10) ?s = Inr (v, ())"
    "demo_file (demo_stored_run RunQueued (demo_at 10)) (demo_stored JobQueued 0 [] None None (demo_at 10)) v"
    "ExecutionRateBuckets v = []"
    by (simp add: create_run_and_enqueue_def bindLocalAdmissionOutcome_def admissionIdentityForRun_def Let_def)
      (simp add: demo_run_def demo_job_def zero_run_def zero_job_def newSnapshot_def demo_file_def appendEvent_def
        demo_stored_def demo_stored_run_def nonZeroTime_def Let_def demo_payload_def zero_job_payload_def)
  then have "run_hook demo_rnd (demo_at 10) (HumanTasks ?s) v = Inr v"
    by (simp add: run_hook_def demo_file_def)
  then show ?thesis
    using write_demo [OF v(2)] v
    by (simp add: CreateRunAndEnqueue_def updateWithClock_def ens)
qed

definition demo_result :: job_result where
  "demo_result = \<lparr>res_JobID = ''job-1'', res_App = ''app'', res_Action = [], res_Output = ''{}'', res_ExitCode = 0,
     res_Stdout = [], res_Stderr = [], res_DurationMs = 7, res_Error = [], res_Interruption = None\<rparr>"

lemma demo_result_encrypted: "encryptJobResult demo_codec d w demo_result = Inr demo_result"
  by (simp add: encryptJobResult_def demo_codec_def local_codec_def encryptJSONAtRest_def canonicalJSONValue_def
      demo_result_def empty_document)

lemma complete_demo:
  assumes s: "demo_file (demo_stored_run RunRunning ru) (demo_stored JobRunning a w (Some e) b u) s"
    and l: "ls_JobID l = ''job-1''" "ls_WorkerID l = w" "ls_Attempt l = a" and e: "now \<le> e"
  shows "\<exists>t r. CompleteJobSucceeded demo_codec demo_rnd now l demo_result s = Inr (t, ()) \<and> HumanTasks t = [] \<and>
    Runs t = [(''run-1'', r)] \<and> run_State r = RunSucceeded \<and> run_UpdatedAt r = now"
proof -
  have lr: "leasedJobAndRun s l now = Inr (demo_stored JobRunning a w (Some e) b u, demo_stored_run RunRunning ru)"
    using s l e by (simp add: leasedJobAndRun_def demo_file_def holds_lease_def)
  have held: "cancelHeldHumanTasksInSnapshot u' w' k c now = u'" if "HumanTasks u' = []" for u' w' k c
    using that by (simp add: cancelHeldHumanTasksInSnapshot_def)
  obtain v r where v: "complete_succeeded demo_codec l demo_result now s = Inr (v, ())" "HumanTasks v = []"
    "Runs v = [(''run-1'', r)]" "run_State r = RunSucceeded" "run_UpdatedAt r = now"
    using s by (simp add: complete_succeeded_def lr demo_result_encrypted Let_def held demo_file_def)
  then have "run_hook demo_rnd now (HumanTasks s) v = Inr v"
    by (simp add: run_hook_def)
  then show ?thesis
    using v by (simp add: CompleteJobSucceeded_def updateWithClock_def ensure_demo [OF s] write_file_runs write_file_tasks
        map_vals_def)
qed

section \<open>The history\<close>

definition demo_next :: "time \<Rightarrow> command \<Rightarrow> snapshot \<Rightarrow> snapshot" where
  "demo_next now c s = (case exec demo_codec demo_rnd now c s of Inl e \<Rightarrow> s | Inr t \<Rightarrow> t)"

definition demo_ttl :: duration where "demo_ttl = 10 * nanos_per_second"

definition demo_lease :: "string \<Rightarrow> int \<Rightarrow> int \<Rightarrow> lease" where
  "demo_lease w seconds attempt = \<lparr>ls_JobID = ''job-1'', ls_WorkerID = w, ls_ExpiresAt = demo_at seconds + demo_ttl,
     ls_Attempt = attempt, ls_AcquiredAt = demo_at seconds, ls_Identity = None\<rparr>"

definition demo_enqueued :: snapshot where
  "demo_enqueued = demo_next (demo_at 10) (CmdEnqueue demo_run demo_job) (newSnapshot ''epoch'')"

definition demo_claimed :: snapshot where
  "demo_claimed = demo_next (demo_at 20) (CmdClaim (demo_at 20) ''w1'' [] [] [] demo_ttl demo_enqueued) demo_enqueued"

definition demo_reclaimed :: snapshot where
  "demo_reclaimed = demo_next (demo_at 60) (CmdClaim (demo_at 60) ''w2'' [] [] [] demo_ttl demo_claimed) demo_claimed"

definition demo_done :: snapshot where
  "demo_done = demo_next (demo_at 65) (CmdSucceed (demo_lease ''w2'' 60 2) demo_result) demo_reclaimed"

definition demo_history :: "snapshot \<Rightarrow> history" where
  "demo_history s = \<lparr>state_file = s, issued = {''job-1''}\<rparr>"

lemma demo_ttl_pos: "0 < demo_ttl" and demo_ttl_at [simp]: "demo_at a + demo_ttl = demo_at (a + 10)"
  by (simp_all add: demo_ttl_def nanos_per_second_def demo_at_def unix_time_def algebra_simps)

lemma demo_next_eq: "exec demo_codec demo_rnd now c s = Inr t \<Longrightarrow> demo_next now c s = t"
  by (simp add: demo_next_def)

lemma demo_enqueued_step:
  "CreateRunAndEnqueue demo_codec demo_rnd (demo_at 10) demo_run demo_job (newSnapshot ''epoch'') = Inr (demo_enqueued, ())"
  "demo_file (demo_stored_run RunQueued (demo_at 10)) (demo_stored JobQueued 0 [] None None (demo_at 10)) demo_enqueued"
  "ExecutionRateBuckets demo_enqueued = []" "demo_rates 0 demo_enqueued"
  using enqueue_demo by (auto simp: demo_enqueued_def demo_next_def file_of_def demo_rates_def)

lemma demo_claimed_step:
  "ClaimJobForWorkerScope demo_codec demo_rnd (demo_at 20) (demo_at 20) ''w1'' [] [] [] demo_ttl demo_enqueued demo_enqueued =
     Inr (demo_claimed, demo_stored JobRunning 1 ''w1'' (Some (demo_at 30)) (Some (demo_at 20)) (demo_at 20), demo_lease ''w1'' 20 1)"
  "\<exists>ru. demo_file (demo_stored_run RunRunning ru)
     (demo_stored JobRunning 1 ''w1'' (Some (demo_at 30)) (Some (demo_at 20)) (demo_at 20)) demo_claimed"
  "demo_rates 1 demo_claimed"
  using claim_demo [OF demo_enqueued_step(2,4), of "demo_at 20" "''w1''" demo_ttl] demo_ttl_pos
  by (auto simp: demo_claimed_def demo_next_def file_of_def demo_lease_def)

lemma demo_reclaimed_step:
  "ClaimJobForWorkerScope demo_codec demo_rnd (demo_at 60) (demo_at 60) ''w2'' [] [] [] demo_ttl demo_claimed demo_claimed =
     Inr (demo_reclaimed, demo_stored JobRunning 2 ''w2'' (Some (demo_at 70)) (Some (demo_at 60)) (demo_at 60), demo_lease ''w2'' 60 2)"
  "\<exists>ru. demo_file (demo_stored_run RunRunning ru)
     (demo_stored JobRunning 2 ''w2'' (Some (demo_at 70)) (Some (demo_at 60)) (demo_at 60)) demo_reclaimed"
proof -
  obtain ru where c: "demo_file (demo_stored_run RunRunning ru)
     (demo_stored JobRunning 1 ''w1'' (Some (demo_at 30)) (Some (demo_at 20)) (demo_at 20)) demo_claimed"
    using demo_claimed_step(2) by blast
  show "ClaimJobForWorkerScope demo_codec demo_rnd (demo_at 60) (demo_at 60) ''w2'' [] [] [] demo_ttl demo_claimed demo_claimed =
     Inr (demo_reclaimed, demo_stored JobRunning 2 ''w2'' (Some (demo_at 70)) (Some (demo_at 60)) (demo_at 60), demo_lease ''w2'' 60 2)"
    "\<exists>ru. demo_file (demo_stored_run RunRunning ru)
     (demo_stored JobRunning 2 ''w2'' (Some (demo_at 70)) (Some (demo_at 60)) (demo_at 60)) demo_reclaimed"
    using claim_demo [OF c demo_claimed_step(3), of "demo_at 60" "''w2''" demo_ttl] demo_ttl_pos
    by (auto simp: demo_reclaimed_def demo_next_def file_of_def demo_lease_def)
qed

lemma demo_done_step:
  "CompleteJobSucceeded demo_codec demo_rnd (demo_at 65) (demo_lease ''w2'' 60 2) demo_result demo_reclaimed = Inr (demo_done, ())"
  "HumanTasks demo_done = []"
  "\<exists>r. Runs demo_done = [(''run-1'', r)] \<and> run_State r = RunSucceeded \<and> run_UpdatedAt r = demo_at 65"
proof -
  obtain ru where c: "demo_file (demo_stored_run RunRunning ru)
     (demo_stored JobRunning 2 ''w2'' (Some (demo_at 70)) (Some (demo_at 60)) (demo_at 60)) demo_reclaimed"
    using demo_reclaimed_step(2) by blast
  then show "CompleteJobSucceeded demo_codec demo_rnd (demo_at 65) (demo_lease ''w2'' 60 2) demo_result demo_reclaimed =
      Inr (demo_done, ())" "HumanTasks demo_done = []"
    "\<exists>r. Runs demo_done = [(''run-1'', r)] \<and> run_State r = RunSucceeded \<and> run_UpdatedAt r = demo_at 65"
    using complete_demo [OF c, of "demo_lease ''w2'' 60 2" "demo_at 65"]
    by (auto simp: demo_done_def demo_next_def file_of_def demo_lease_def)
qed

text \<open>Every file of the history is reached by steps of the store.\<close>

lemma demo_start: "reachable demo_codec (demo_history demo_enqueued)"
proof -
  let ?h = "\<lparr>state_file = newSnapshot ''epoch'', issued = {}\<rparr>"
  have "initial ?h" by (auto simp: initial_def)
  then have "reachable demo_codec ?h" by (rule reach.intros(1))
  moreover have "store_step demo_codec ?h (demo_history demo_enqueued)"
    using command_step [of demo_codec demo_rnd "demo_at 10" "CmdEnqueue demo_run demo_job" ?h demo_enqueued] demo_enqueued_step(1)
    by (simp add: demo_history_def enqueue_ok_def demo_run_def demo_job_def zero_run_def zero_job_def)
  ultimately show ?thesis by (rule reach.intros(2))
qed

lemma demo_exec_step:
  "exec demo_codec demo_rnd now c s = Inr t \<Longrightarrow> well_formed c \<Longrightarrow> new_jobs demo_rnd c = {} \<Longrightarrow>
   store_step demo_codec (demo_history s) (demo_history t)"
  using command_step [of demo_codec demo_rnd now c "demo_history s" t] by (simp add: demo_history_def)

lemma demo_steps:
  "store_step demo_codec (demo_history demo_enqueued) (demo_history demo_claimed)"
  "store_step demo_codec (demo_history demo_claimed) (demo_history demo_reclaimed)"
  "store_step demo_codec (demo_history demo_reclaimed) (demo_history demo_done)"
  using demo_exec_step [of "demo_at 20" "CmdClaim (demo_at 20) ''w1'' [] [] [] demo_ttl demo_enqueued"] demo_claimed_step(1)
    demo_exec_step [of "demo_at 60" "CmdClaim (demo_at 60) ''w2'' [] [] [] demo_ttl demo_claimed"] demo_reclaimed_step(1)
    demo_exec_step [of "demo_at 65" "CmdSucceed (demo_lease ''w2'' 60 2) demo_result"] demo_done_step(1)
  by simp_all

lemma demo_reachable:
  "reachable demo_codec (demo_history demo_claimed)" "reachable demo_codec (demo_history demo_reclaimed)"
  "reachable demo_codec (demo_history demo_done)"
  using demo_start demo_steps by (blast intro: reach.intros(2))+

text \<open>What a worker without registration is offered in the file with the queued job.\<close>

lemma demo_choice:
  "claim_state demo_codec now demo_enqueued = Inr demo_enqueued"
  "claim_selector demo_enqueued w (NormalizeWorkerScope []) (NormalizeWorkerScope []) now = Inr ([], [], None)"
  "map_of (Jobs demo_enqueued) k =
     (if k = ''job-1'' then Some (demo_stored JobQueued 0 [] None None (demo_at 10)) else None)"
  "offered demo_enqueued (normalizeClaimTags []) [] [] (demo_stored JobQueued 0 [] None None (demo_at 10))"
  "admissible demo_enqueued now (demo_stored JobQueued 0 [] None None (demo_at 10))"
  "localClaimMayOfferJob demo_enqueued w (NormalizeWorkerScope []) (NormalizeWorkerScope []) now = Inr True"
  "ExecutionLimitPolicies demo_enqueued = []"
proof -
  note f = demo_enqueued_step(2)
  have "claim_candidates demo_enqueued [] [] [] = [demo_stored JobQueued 0 [] None None (demo_at 10)]"
    by (rule demo_candidates [OF f])
  then have "demo_stored JobQueued 0 [] None None (demo_at 10) \<in> set (claim_candidates demo_enqueued [] [] [])"
    by simp
  then show "offered demo_enqueued (normalizeClaimTags []) [] [] (demo_stored JobQueued 0 [] None None (demo_at 10))"
    by (simp add: claim_candidates_def normalizeClaimTags_def)
  show "admissible demo_enqueued now (demo_stored JobQueued 0 [] None None (demo_at 10))"
    by (rule demo_admissible [OF f demo_enqueued_step(4)]) simp
  show "claim_state demo_codec now demo_enqueued = Inr demo_enqueued"
    using f demo_enqueued_step(3) by (cases demo_enqueued) (simp add: claim_state_def ensure_demo [OF f] requeueExpiredJobs_def
      requeue_entry_def lease_expired_def demo_file_def pruneExecutionRateBuckets_def)
qed (use demo_enqueued_step(2) in \<open>auto simp: demo_file_def claim_selector_def localClaimMayOfferJob_def normalizeClaimTags_def
      NormalizeWorkerScope_def sorted_set_def\<close>)

section \<open>Other histories\<close>

text \<open>An admission that is resolved before the run arrives is aborted.\<close>

definition demo_resolved :: snapshot where
  "demo_resolved = demo_next (demo_at 5) (CmdResolveAdmission ''team'' ''run-9'' ''fp'' ''ops'') (newSnapshot ''epoch'')"

definition demo_late_run :: run where
  "demo_late_run = demo_run\<lparr>run_ID := ''run-9'', run_IdempotencyHash := ''hash'', run_RequestFingerprint := ''fp''\<rparr>"

lemma admission_literals:
  "trim ''run-9'' = ''run-9''" "trim ''fp'' = ''fp''" "trim ''ops'' = ''ops''" "trim ''hash'' = ''hash''"
  "CleanID ''run-9'' = ''run-9''" "ValidWorkspaceID ''team''"
  by (simp_all add: trim_clean CleanID_fixed_iff ValidWorkspaceID_def valid_utf8_def runes_clean clean_rune_def
      label_edge_def is_lower_def byte_def upt_rec)

lemma ensure_new: "ensureSnapshot (newSnapshot e) = newSnapshot e"
  by (simp add: ensureSnapshot_def attach_identities_def migrateLocalAdmissionOutcomes_def newSnapshot_def map_vals_def)

lemma write_new:
  "write_file ((newSnapshot e)\<lparr>AdmissionOutcomes := a\<rparr>) = (newSnapshot e)\<lparr>AdmissionOutcomes := a, SnapshotRevision := 1\<rparr>"
  by (simp add: write_file_def persist_def ensureSnapshot_def attach_identities_def migrateLocalAdmissionOutcomes_def
      newSnapshot_def map_vals_def)

lemma demo_resolved_step:
  "\<exists>r. ResolveAdmissionOutcome demo_rnd (demo_at 5) ''team'' ''run-9'' ''fp'' ''ops'' (newSnapshot ''epoch'') = Inr (demo_resolved, r)"
  "map_of (AdmissionOutcomes demo_resolved) (admissionOutcomeKey ''team'' ''run-9'') =
     Some (newAdmissionOutcome ''team'' ''run-9'' [] AdmissionOutcomeAborted ''fp'' ''ops'' (demo_at 5))"
proof -
  let ?o = "newAdmissionOutcome ''team'' ''run-9'' [] AdmissionOutcomeAborted ''fp'' ''ops'' (demo_at 5)"
  let ?v = "(newSnapshot ''epoch'')\<lparr>AdmissionOutcomes := [(admissionOutcomeKey ''team'' ''run-9'', ?o)]\<rparr>"
  have "resolve_admission (newSnapshot ''epoch'') ''team'' ''run-9'' ''fp'' ''ops'' (demo_at 5) = Inr (?v, ?o)"
    by (simp add: resolve_admission_def newSnapshot_def localAdmissionRun_def Let_def)
  moreover have "run_hook demo_rnd (demo_at 5) (HumanTasks (newSnapshot ''epoch'')) ?v = Inr ?v"
    by (simp add: run_hook_def newSnapshot_def)
  ultimately have r: "ResolveAdmissionOutcome demo_rnd (demo_at 5) ''team'' ''run-9'' ''fp'' ''ops'' (newSnapshot ''epoch'') =
      Inr (?v\<lparr>SnapshotRevision := 1\<rparr>, ?o)"
    by (simp add: ResolveAdmissionOutcome_def normalizeAdmissionOutcomeIdentity_def normalizeAdmissionFingerprint_def
        admission_literals NormalizeWorkspace_def Let_def maxAdmissionFingerprintBytes_def updateWithClock_def ensure_new
        write_new)
  then show "\<exists>r. ResolveAdmissionOutcome demo_rnd (demo_at 5) ''team'' ''run-9'' ''fp'' ''ops'' (newSnapshot ''epoch'') =
      Inr (demo_resolved, r)"
    by (simp add: demo_resolved_def demo_next_def file_of_def)
  show "map_of (AdmissionOutcomes demo_resolved) (admissionOutcomeKey ''team'' ''run-9'') = Some ?o"
    by (simp add: demo_resolved_def demo_next_def file_of_def r)
qed

lemma demo_late_identity: "admissionIdentityForRun ''team'' demo_late_run = Inr (Some (''run-9'', ''fp''))"
  by (simp add: admissionIdentityForRun_def demo_late_run_def demo_run_def zero_run_def admission_literals
      normalizeAdmissionOutcomeIdentity_def normalizeAdmissionFingerprint_def maxAdmissionFingerprintBytes_def
      NormalizeWorkspace_def Let_def)

text \<open>The first worker suspends the run for a human task; then the run is canceled, which settles the task.\<close>

definition demo_task :: human_task where
  "demo_task = zero_human_task\<lparr>ht_ID := ''task-1'', ht_Mode := HumanTaskModeSuspend, ht_State := HumanTaskPending\<rparr>"

definition demo_waiting :: snapshot where
  "demo_waiting = demo_next (demo_at 25) (CmdWaitHuman (demo_lease ''w1'' 20 1) demo_result demo_task) demo_claimed"

definition demo_canceled :: snapshot where
  "demo_canceled = demo_next (demo_at 40) (CmdCancelRun ''run-1'' ''stop'') demo_waiting"

lemma run_hook_suspend:
  assumes "\<And>e. e \<in> set (HumanTasks v) \<Longrightarrow> ht_Mode (snd e) \<noteq> HumanTaskModeHold"
  shows "run_hook rnd now before v = Inr v"
proof -
  have "fold_res (hook_task rnd now before v) (HumanTasks v) ob = Inr ob" for ob
    by (rule fold_res_skip) (use assms in \<open>simp add: hook_task_def Let_def\<close>)
  then show ?thesis by (simp add: run_hook_def)
qed

lemma demo_waiting_step:
  "CompleteJobWaitingHuman demo_codec demo_rnd (demo_at 25) (demo_lease ''w1'' 20 1) demo_result demo_task demo_claimed =
     Inr (demo_waiting, ())"
  "\<exists>r. Runs demo_waiting = [(''run-1'', r)] \<and> run_State r = RunWaitingHuman"
  "\<exists>h. HumanTasks demo_waiting = [(''task-1'', h)] \<and> ht_Mode h = HumanTaskModeSuspend \<and> ht_RunID h = ''run-1'' \<and>
     ht_State h = HumanTaskPending"
proof -
  let ?l = "demo_lease ''w1'' 20 1" and ?s = demo_claimed
  obtain ru where s: "demo_file (demo_stored_run RunRunning ru)
      (demo_stored JobRunning 1 ''w1'' (Some (demo_at 30)) (Some (demo_at 20)) (demo_at 20)) ?s" (is "demo_file ?r ?j _")
    using demo_claimed_step(2) by blast
  have lr: "leasedJobAndRun ?s ?l (demo_at 25) = Inr (?j, ?r)"
    using s by (simp add: leasedJobAndRun_def demo_file_def holds_lease_def demo_lease_def)
  obtain v r where v: "complete_waiting_human demo_codec demo_rnd ?l demo_result demo_task (demo_at 25) ?s = Inr (v, ())"
    "Runs v = [(''run-1'', r)]" "run_State r = RunWaitingHuman"
    "HumanTasks v = [(''task-1'', demo_task\<lparr>ht_RunID := ''run-1'', ht_CreatedAt := demo_at 25\<rparr>)]"
    using s by (simp add: complete_waiting_human_def lr demo_result_encrypted Let_def)
      (simp add: demo_task_def zero_human_task_def demo_file_def appendEvent_def nonZeroTime_def)
  then have "run_hook demo_rnd (demo_at 25) (HumanTasks ?s) v = Inr v"
    by (intro run_hook_suspend) (auto simp: demo_task_def)
  then have t: "CompleteJobWaitingHuman demo_codec demo_rnd (demo_at 25) ?l demo_result demo_task ?s = Inr (write_file v, ())"
    by (simp add: CompleteJobWaitingHuman_def updateWithClock_def ensure_demo [OF s] v(1))
  then have e: "demo_waiting = write_file v"
    by (simp add: demo_waiting_def demo_next_def file_of_def)
  show "CompleteJobWaitingHuman demo_codec demo_rnd (demo_at 25) ?l demo_result demo_task ?s = Inr (demo_waiting, ())"
    using t e by simp
  show "\<exists>r. Runs demo_waiting = [(''run-1'', r)] \<and> run_State r = RunWaitingHuman"
    "\<exists>h. HumanTasks demo_waiting = [(''task-1'', h)] \<and> ht_Mode h = HumanTaskModeSuspend \<and> ht_RunID h = ''run-1'' \<and>
       ht_State h = HumanTaskPending"
    using v by (simp_all add: e write_file_runs write_file_tasks map_vals_def demo_task_def)
qed

lemma demo_canceled_step:
  "\<exists>r. CancelRun demo_rnd (demo_at 40) ''run-1'' ''stop'' demo_waiting = Inr (demo_canceled, r)"
  "\<exists>h. HumanTasks demo_canceled = [(''task-1'', h)] \<and> ht_Mode h = HumanTaskModeSuspend \<and> ht_State h = HumanTaskExpired"
proof -
  obtain r h where s: "Runs demo_waiting = [(''run-1'', r)]" "run_State r = RunWaitingHuman"
    "HumanTasks demo_waiting = [(''task-1'', h)]" "ht_Mode h = HumanTaskModeSuspend" "ht_RunID h = ''run-1''"
    "ht_State h = HumanTaskPending"
    using demo_waiting_step(2,3) by blast
  obtain v r' where v: "cancel_run_tx ''run-1'' ''stop'' (demo_at 40) (ensureSnapshot demo_waiting) = Inr (v, r')"
    "HumanTasks v = [(''task-1'', h\<lparr>ht_State := HumanTaskExpired, ht_UpdatedAt := demo_at 40\<rparr>)]"
    using s by (simp add: cancel_run_tx_def IsTerminal_def Let_def cancel_run_task_def)
  then have "run_hook demo_rnd (demo_at 40) (HumanTasks (ensureSnapshot demo_waiting)) v = Inr v"
    by (intro run_hook_suspend) (use s(4) in auto)
  then have t: "CancelRun demo_rnd (demo_at 40) ''run-1'' ''stop'' demo_waiting = Inr (write_file v, r')"
    by (simp add: CancelRun_def updateWithClock_def v(1))
  then have e: "demo_canceled = write_file v"
    by (simp add: demo_canceled_def demo_next_def file_of_def)
  show "\<exists>r. CancelRun demo_rnd (demo_at 40) ''run-1'' ''stop'' demo_waiting = Inr (demo_canceled, r)"
    using t e by simp
  show "\<exists>h. HumanTasks demo_canceled = [(''task-1'', h)] \<and> ht_Mode h = HumanTaskModeSuspend \<and> ht_State h = HumanTaskExpired"
    using v s(4) by (simp add: e write_file_tasks map_vals_def)
qed

lemma demo_other_reachable:
  "reachable demo_codec \<lparr>state_file = demo_resolved, issued = {}\<rparr>"
  "reachable demo_codec (demo_history demo_waiting)" "reachable demo_codec (demo_history demo_canceled)"
proof -
  let ?h = "\<lparr>state_file = newSnapshot ''epoch'', issued = {}\<rparr>"
  have "reachable demo_codec ?h" by (rule reach_init) (auto simp: initial_def)
  moreover have "store_step demo_codec ?h \<lparr>state_file = demo_resolved, issued = {}\<rparr>"
    using command_step [of demo_codec demo_rnd "demo_at 5" "CmdResolveAdmission ''team'' ''run-9'' ''fp'' ''ops''" ?h demo_resolved]
      demo_resolved_step(1) by simp
  ultimately show "reachable demo_codec \<lparr>state_file = demo_resolved, issued = {}\<rparr>" by (rule reach_step)
  have "store_step demo_codec (demo_history demo_claimed) (demo_history demo_waiting)"
    using demo_exec_step [of "demo_at 25" "CmdWaitHuman (demo_lease ''w1'' 20 1) demo_result demo_task"] demo_waiting_step(1)
    by simp
  with demo_reachable(1) show w: "reachable demo_codec (demo_history demo_waiting)" by (rule reach_step)
  have "store_step demo_codec (demo_history demo_waiting) (demo_history demo_canceled)"
    using demo_exec_step [of "demo_at 40" "CmdCancelRun ''run-1'' ''stop''"] demo_canceled_step(1) by simp
  with w show "reachable demo_codec (demo_history demo_canceled)" by (rule reach_step)
qed

section \<open>Requests of operators\<close>

lemmas literal_simps = trim_clean CleanID_fixed_iff clean_rune_def byte_def runes_clean

text \<open>A transaction on a file without human tasks.\<close>

lemma update_no_tasks:
  assumes "HumanTasks s = []" and "fn (ensureSnapshot s) = Inr (v, a)" and "HumanTasks v = []"
  shows "updateWithClock rnd now s fn = Inr (write_file v, a)"
  using assms by (simp add: updateWithClock_def run_hook_def)

definition demo_put :: "string \<Rightarrow> put_worker_group_run_state_request" where
  "demo_put op = \<lparr>pwg_Group = ''pool'', pwg_State = ''running'', pwg_OperationID = op, pwg_ExpectedRevision = 0,
     pwg_DeadlineAt = None, pwg_RequestFingerprint = ''fp'', pwg_Actor = ''ops''\<rparr>"

lemma demo_put_step: "\<exists>t g. PutWorkerGroupRunState demo_rnd (demo_at 5) (demo_put ''op-1'') (newSnapshot ''epoch'') = Inr (t, g, False)"
proof -
  have "\<exists>v g. put_group_state (demo_put ''op-1'') ''pool'' ''running'' (demo_at 5) (ensureSnapshot (newSnapshot ''epoch'')) =
      Inr (v, g, False) \<and> HumanTasks v = []"
    by (simp add: put_group_state_def ensure_new newSnapshot_def DefaultWorkerGroupRunState_def zero_worker_group_run_state_def
        demo_put_def Let_def)
  then obtain v g where v: "put_group_state (demo_put ''op-1'') ''pool'' ''running'' (demo_at 5)
      (ensureSnapshot (newSnapshot ''epoch'')) = Inr (v, g, False)" "HumanTasks v = []" by blast
  have "PutWorkerGroupRunState demo_rnd (demo_at 5) (demo_put ''op-1'') (newSnapshot ''epoch'') =
      updateWithClock demo_rnd (demo_at 5) (newSnapshot ''epoch'') (put_group_state (demo_put ''op-1'') ''pool'' ''running'' (demo_at 5))"
    by (simp add: PutWorkerGroupRunState_def demo_put_def NormalizeWorkerGroup_def NormalizeWorkerGroupRunState_def
        WorkerGroupRunning_def WorkerGroupDraining_def literal_simps Let_def)
  then show ?thesis
    using update_no_tasks [where fn = "put_group_state (demo_put ''op-1'') ''pool'' ''running'' (demo_at 5)", OF _ v]
    by (simp add: newSnapshot_def)
qed

definition demo_create :: create_worker_credential_request where
  "demo_create = \<lparr>cwc_ID = ''cred-1'', cwc_Group = ''pool'', cwc_ExpectedGeneration = 0, cwc_WorkspaceIDs = [''team''],
     cwc_Labels = [], cwc_ExpiresAt = None, cwc_TokenHash = ''hash'', cwc_OperationID = ''op-1'',
     cwc_RequestFingerprint = ''fp'', cwc_Actor = ''ops''\<rparr>"

definition demo_credential :: worker_credential where
  "demo_credential = zero_worker_credential\<lparr>wc_ID := ''cred-1'', wc_Group := ''pool'', wc_Generation := 1,
     wc_WorkspaceIDs := [''team''], wc_Labels := [], wc_Status := WorkerCredentialActive, wc_ExpiresAt := None,
     wc_CreatedBy := ''ops'', wc_CreatedAt := demo_at 5, wc_UpdatedAt := demo_at 5, wc_TokenHash := ''hash'',
     wc_OperationID := ''op-1'', wc_RequestFingerprint := ''fp''\<rparr>"

lemma demo_create_step:
  "\<exists>t. CreateWorkerCredential demo_rnd (demo_at 5) demo_create (newSnapshot ''epoch'') = Inr (t, demo_credential, False)"
proof -
  let ?v = "(newSnapshot ''epoch'')\<lparr>WorkerCredentials := [(''cred-1'', demo_credential)]\<rparr>"
  have "create_credential demo_rnd demo_create ''pool'' [''team''] [] (demo_at 5) (ensureSnapshot (newSnapshot ''epoch'')) =
      Inr (?v, demo_credential, False)"
    unfolding ensure_new
    by (simp add: create_credential_def newSnapshot_def demo_create_def demo_credential_def group_generation_def
        literal_simps Let_def)
  moreover have "CreateWorkerCredential demo_rnd (demo_at 5) demo_create (newSnapshot ''epoch'') =
      updateWithClock demo_rnd (demo_at 5) (newSnapshot ''epoch'')
        (create_credential demo_rnd demo_create ''pool'' [''team''] [] (demo_at 5))"
    by (simp add: CreateWorkerCredential_def demo_create_def NormalizeWorkerGroup_def NormalizeWorkerCredentialScope_def
        NormalizeWorkerScope_def NormalizeLabels_def sorted_set_def MaxLabels_def literal_simps Let_def)
  moreover have "HumanTasks (newSnapshot ''epoch'') = []" "HumanTasks ?v = []" by (simp_all add: newSnapshot_def)
  ultimately show ?thesis
    using update_no_tasks [where fn = "create_credential demo_rnd demo_create ''pool'' [''team''] [] (demo_at 5)"
        and s = "newSnapshot ''epoch''"] by auto
qed

definition demo_revoke :: set_app_runtime_lifecycle_request where
  "demo_revoke = \<lparr>sar_WorkspaceID = ''team'', sar_AppKey = ''app'', sar_State = AppRuntimeRevoked, sar_Reason = ''leak'',
     sar_Actor = ''ops'', sar_ExpectedRevision = None\<rparr>"

lemma demo_claimed_facts:
  "HumanTasks demo_claimed = []" "ensureSnapshot demo_claimed = demo_claimed"
  "Jobs demo_claimed = [(''job-1'', demo_stored JobRunning 1 ''w1'' (Some (demo_at 30)) (Some (demo_at 20)) (demo_at 20))]"
  "\<exists>ru. Runs demo_claimed = [(''run-1'', demo_stored_run RunRunning ru)]"
  "AppRuntimeLifecycles demo_claimed = []"
  using demo_claimed_step(2) ensure_demo by (auto simp: demo_file_def)

lemma demo_revoke_step: "\<exists>t lc. SetAppRuntimeLifecycle demo_rnd (demo_at 25) demo_revoke demo_claimed = Inr (t, lc)"
proof -
  obtain v lc where v: "set_lifecycle demo_revoke (demo_at 25) (ensureSnapshot demo_claimed) = Inr (v, lc)" "HumanTasks v = []"
    by (simp add: set_lifecycle_def demo_revoke_def demo_claimed_facts Let_def)
  have "SetAppRuntimeLifecycle demo_rnd (demo_at 25) demo_revoke demo_claimed =
      updateWithClock demo_rnd (demo_at 25) demo_claimed (set_lifecycle demo_revoke (demo_at 25))"
    by (simp add: SetAppRuntimeLifecycle_def demo_revoke_def NormalizeWorkspace_def literal_simps Let_def)
  then show ?thesis
    using update_no_tasks [where fn = "set_lifecycle demo_revoke (demo_at 25)", OF demo_claimed_facts(1) v] by simp
qed

lemma demo_cancel_step:
  "\<exists>t cr. CancelJob demo_codec demo_rnd (demo_at 25) ''team'' ''job-1'' ''ops'' ''stop'' demo_claimed = Inr (t, cr) \<and> cr_SoftCanceled cr"
proof -
  obtain ru where r: "Runs demo_claimed = [(''run-1'', demo_stored_run RunRunning ru)]" using demo_claimed_facts(4) by blast
  have "\<exists>v cr. cancel_job_tx demo_codec ''team'' ''job-1'' ''ops'' ''stop'' (demo_at 25) (ensureSnapshot demo_claimed) = Inr (v, cr) \<and>
      HumanTasks v = [] \<and> cr_SoftCanceled cr"
    by (simp add: cancel_job_tx_def demo_claimed_facts r NormalizeWorkspace_def literal_simps IsTerminal_def Let_def)
  then obtain v cr where v: "cancel_job_tx demo_codec ''team'' ''job-1'' ''ops'' ''stop'' (demo_at 25) (ensureSnapshot demo_claimed) =
      Inr (v, cr)" "HumanTasks v = []" "cr_SoftCanceled cr" by blast
  then show ?thesis
    using update_no_tasks [where fn = "cancel_job_tx demo_codec ''team'' ''job-1'' ''ops'' ''stop'' (demo_at 25)",
        OF demo_claimed_facts(1) v(1,2), of demo_rnd "demo_at 25"]
    by (auto simp: CancelJob_def)
qed

section \<open>A decision on a held task\<close>

definition demo_hold :: human_task where
  "demo_hold = zero_human_task\<lparr>ht_ID := ''task-2'', ht_WorkspaceID := ''team'', ht_RunID := ''run-1'', ht_JobID := ''job-1'',
     ht_Attempt := 1, ht_Key := ''approve'', ht_RequestFingerprint := ''fp'', ht_Mode := HumanTaskModeHold, ht_Kind := ''form'',
     ht_Title := ''Approve''\<rparr>"

definition demo_held :: snapshot where
  "demo_held = demo_claimed\<lparr>HumanTasks := [(''task-2'', demo_hold)]\<rparr>"

definition demo_decision :: human_task_decision where
  "demo_decision = \<lparr>htd_Outcome = HumanTaskOutcomeSubmit, htd_Value = ''{}'', htd_IdempotencyKey = ''key'',
     htd_Fingerprint = ''fp'', htd_Actor = ''ann'', htd_DecidedAt = 0\<rparr>"

lemma json_text_plain: "list_all plain_char s \<Longrightarrow> json_text s = s"
  by (simp add: json_text_def quote_plain key_text_plain)

lemma demo_held_ok: "store_ok demo_held"
proof -
  have "store_ok demo_claimed"
    using reachable_ok [OF demo_reachable(1)] by (simp add: history_ok_def demo_history_def)
  then show ?thesis
    by (simp add: store_ok_def demo_held_def tasks_ok_def keyed_by_def events_ok_def demo_hold_def)
qed

lemma demo_event:
  assumes "ht_State h = HumanTaskDecided" "ht_DecisionOutcome h = HumanTaskOutcomeSubmit" "ht_DecidedBy h = ''ann''"
    and "ht_ID h = ''task-2''" "ht_WorkspaceID h = ''team''" "ht_RunID h = ''run-1''" "ht_JobID h = ''job-1''" "ht_Attempt h = 1"
    and "ht_Mode h = HumanTaskModeHold" "ht_Kind h = ''form''" "ht_TerminalCause h = []"
  shows "\<exists>e. prepareHumanTaskLifecycleEvent (NewID demo_rnd ''evt'' ''evt/task-2'') h (demo_stored_run rs ru) HumanTaskDecidedType
    (demo_at 25) = Inr e"
proof -
  have id: "trim ''evt_id-evt/task-2'' = ''evt_id-evt/task-2''" by code_simp
  have now: "demo_at 25 \<noteq> 0" by (simp add: demo_at_def unix_time_def unix_epoch_def nanos_per_second_def)
  have r: "run_App (demo_stored_run rs ru) = ''app''" "run_Action (demo_stored_run rs ru) = ''act''"
    "run_CorrelationID (demo_stored_run rs ru) = []"
    by (simp_all add: demo_stored_run_def demo_run_def zero_run_def)
  have names: "mode_name HumanTaskModeHold = ''hold''" "state_name HumanTaskDecided = ''decided''"
    "outcome_name HumanTaskOutcomeSubmit = ''submit''"
    by (simp_all add: mode_name_def state_name_def outcome_name_def)
  show ?thesis
    unfolding prepareHumanTaskLifecycleEvent_def Let_def assms r names
    using now
    by (simp add: HumanTaskDecidedType_def HumanTaskCreatedType_def HumanTaskExpiredType_def HumanTaskCanceledType_def
        NewID_def demo_rnd_def NewHumanTaskLifecycle_def id
        validate_lifecycle_def validateHumanTaskLifecycle_def decoded_lifecycle_def lifecycle_types_def wanted_state_def
        json_text_plain plain_char_def NormalizeWorkspace_def literal_simps Let_def)
qed

lemma demo_decide_step:
  "\<exists>t r. DecideHeldHumanTask demo_codec demo_rnd (demo_at 25) ''team'' ''task-2'' demo_decision demo_held = Inr (t, r) \<and>
     \<not> htr_Replayed r \<and> htd_Outcome (htr_Decision r) = HumanTaskOutcomeSubmit \<and> htd_Value (htr_Decision r) = ''{}''"
proof -
  obtain ru where ru: "Runs demo_held = [(''run-1'', demo_stored_run RunRunning ru)]"
    using demo_claimed_facts(4) by (auto simp: demo_held_def)
  have norm: "normalizeHumanTaskDecision demo_decision = Inr demo_decision"
    using empty_document by (simp add: normalizeHumanTaskDecision_def demo_decision_def literal_simps Let_def)
  have fields: "ht_State demo_hold = HumanTaskPending" "ht_Mode demo_hold = HumanTaskModeHold" "ht_ID demo_hold = ''task-2''"
    "ht_RunID demo_hold = ''run-1''" "ht_WorkspaceID demo_hold = ''team''" "ht_ExpiresAt demo_hold = None"
    by (simp_all add: demo_hold_def zero_human_task_def)
  let ?h = "demo_hold\<lparr>ht_State := HumanTaskDecided, ht_DecisionOutcome := HumanTaskOutcomeSubmit,
    ht_DecisionEncrypted := ''{}'', ht_DecisionIdempotencyKey := ''key'', ht_DecisionFingerprint := ''fp'', ht_DecidedBy := ''ann'',
    ht_DecidedAt := Some (demo_at 25), ht_UpdatedAt := demo_at 25\<rparr>"
  obtain v where v: "decide_held ''team'' ''task-2'' demo_decision ''{}'' (demo_at 25) (ensureSnapshot demo_held) = Inr (v, DecideNew ?h)"
    "HumanTasks v = [(''task-2'', ?h)]" "Runs v = Runs demo_held"
    by (simp add: decide_held_def demo_held_def demo_decision_def validateHeldTaskOwnership_def due_def NormalizeWorkspace_def
        fields literal_simps Let_def)
  obtain e where e: "prepareHumanTaskLifecycleEvent (NewID demo_rnd ''evt'' ''evt/task-2'') ?h (demo_stored_run RunRunning ru)
      HumanTaskDecidedType (demo_at 25) = Inr e"
    using demo_event [of ?h RunRunning ru] by (auto simp: demo_hold_def zero_human_task_def)
  have "\<exists>ob. hook_task demo_rnd (demo_at 25) (HumanTasks demo_held) v (''task-2'', ?h) ob0 = Inr ob" for ob0
    using v(3) ru e fields by (simp add: hook_task_def demo_held_def humanTaskLifecycleEventType_def Let_def)
  then obtain u where "run_hook demo_rnd (demo_at 25) (HumanTasks demo_held) v = Inr u"
    using v(2) by (auto simp: run_hook_def) (metis bind_res_simps(2))
  then have "updateWithClock demo_rnd (demo_at 25) demo_held (decide_held ''team'' ''task-2'' demo_decision ''{}'' (demo_at 25)) =
      Inr (write_file u, DecideNew ?h)"
    by (simp add: updateWithClock_def v(1))
  then show ?thesis
    by (simp add: DecideHeldHumanTask_def norm NormalizeWorkspace_def literal_simps Let_def)
      (simp add: demo_decision_def)
qed

end
