(* ===== verification/Frames.thy ===== *)
theory Frames
  imports System
begin

text \<open>
  What the commands leave alone. The operations on runs, jobs and tasks do not touch policies, credentials,
  group run states, subscriptions or deliveries; apart from the operations of those components, the only
  writer of deliveries is the human task hook, which adds new ones. From this follow the orders in which
  policies, group run states and deliveries move in a history.
\<close>

declare map_of_eq_Some_iff [simp del] Some_eq_map_of_iff [simp del]

section \<open>The maps of other components\<close>

definition aside :: "snapshot \<Rightarrow> (string, execution_limit_policy) gomap \<times> (string, worker_credential) gomap \<times>
    (string, worker_group_run_state) gomap \<times> (string, webhook_subscription) gomap \<times>
    (string, webhook_delivery) gomap \<times> (string, envelope) gomap \<times> (string, app_runtime_lifecycle) gomap" where
  "aside s = (ExecutionLimitPolicies s, WorkerCredentials s, WorkerGroupRunStates s, WebhookSubscriptions s,
     WebhookDeliveries s, ControlPlaneEvents s, AppRuntimeLifecycles s)"

lemma aside_updates [simp]:
  "aside (s\<lparr>Runs := a1\<rparr>) = aside s" "aside (s\<lparr>Jobs := a2\<rparr>) = aside s" "aside (s\<lparr>HumanTasks := a3\<rparr>) = aside s"
  "aside (s\<lparr>Events := a4\<rparr>) = aside s" "aside (s\<lparr>Sequence := a5\<rparr>) = aside s" "aside (s\<lparr>JobLogs := a6\<rparr>) = aside s"
  "aside (s\<lparr>JobState := a7\<rparr>) = aside s"
  "aside (s\<lparr>AppRuntimeLifecycleAudits := a9\<rparr>) = aside s" "aside (s\<lparr>Workers := b1\<rparr>) = aside s"
  "aside (s\<lparr>WorkerLeaseIdentities := b2\<rparr>) = aside s" "aside (s\<lparr>ExecutionRateBuckets := b3\<rparr>) = aside s"
  "aside (s\<lparr>AdmissionOutcomes := b4\<rparr>) = aside s"
  by (simp_all add: aside_def)

lemma aside_appendEvent [simp]: "aside (appendEvent s r t p now) = aside s"
  by (simp add: appendEvent_def)

lemma aside_fold: "(\<And>x u. aside (f x u) = aside u) \<Longrightarrow> aside (fold f xs s) = aside s"
  by (induction xs arbitrary: s) auto

lemma aside_fold_res: "(\<And>x u v. f x u = Inr v \<Longrightarrow> aside v = aside u) \<Longrightarrow> fold_res f xs s = Inr t \<Longrightarrow> aside t = aside s"
  by (induction xs arbitrary: s) auto

section \<open>Bodies\<close>

lemma aside_terminate [simp]: "aside (fst (terminate_task st e s task c now)) = aside s"
  by (simp add: terminate_task_def Let_def)

lemma aside_cancel_entry: "aside (cancel_entry hit c now x s) = aside s"
  using aside_terminate by (auto simp: cancel_entry_def cancelHeldTask_def Let_def split: prod.splits) (metis aside_terminate fst_conv)

lemma aside_cancelHeld [simp]: "aside (cancelHeldHumanTasksInSnapshot s w j c now) = aside s"
  unfolding cancelHeldHumanTasksInSnapshot_def by (rule aside_fold) (rule aside_cancel_entry)

lemma aside_encrypt: "encryptStoredRunResult cx d w s r = Inr t \<Longrightarrow> aside t = aside s"
  by (auto simp: encryptStoredRunResult_def split: option.splits)

lemma aside_applyCanceled [simp]: "aside (applyCanceledJob s j r b c m now) = aside s"
  by (simp add: applyCanceledJob_def Let_def)

lemma aside_settle: "settle_canceled cx s j r b c now = Inr t \<Longrightarrow> aside t = aside s"
  by (auto simp: settle_canceled_def Let_def dest!: aside_encrypt split: if_splits)

lemma aside_requeue: "requeueExpiredJobs cx s now = Inr t \<Longrightarrow> aside t = aside s"
  unfolding requeueExpiredJobs_def
  by (erule aside_fold_res [rotated])
    (auto simp: requeue_entry_def Let_def dest!: aside_encrypt split: if_splits option.splits)

lemma aside_bind: "bindLocalAdmissionOutcome s w r now = Inr t \<Longrightarrow> aside t = aside s"
  by (auto dest!: bind_frame)

lemma aside_rates [simp]:
  "aside (pruneExecutionRateBuckets s now) = aside s" "aside (consumeRateLimits s j now) = aside s"
  by (simp_all add: pruneExecutionRateBuckets_def consumeRateLimits_def)

lemma aside_grant: "grant_claim s j w i ttl now = (t, x) \<Longrightarrow> aside t = aside s"
  by (auto simp: grant_claim_def start_run_def Let_def split: option.splits)

lemma aside_cancel_run_task: "aside (cancel_run_task r now x s) = aside s"
  using aside_terminate
  by (auto simp: cancel_run_task_def cancelHeldTask_def Let_def split: prod.splits) (metis aside_terminate fst_conv)

lemma aside_expire_run: "aside (fst (fold (expire_run_entry b now) xs acc)) = aside (fst acc)"
proof (induction xs arbitrary: acc)
  case (Cons x xs)
  have "aside (expire_job_entry b now r e u) = aside u" for r e u
    by (simp add: expire_job_entry_def Let_def)
  then have "aside (fst (expire_run_entry b now x acc)) = aside (fst acc)"
    by (auto simp: expire_run_entry_def Let_def aside_fold)
  then show ?case using Cons.IH by simp
qed simp

lemma aside_expire_one: "aside (expire_one now c s) = aside s"
  by (simp add: expire_one_def expireHeldTask_def)

lemma core_aside:
  "create_run_and_enqueue cx r j now u = Inr (v, x1) \<Longrightarrow> aside v = aside u"
  "claim_tx cx w tags labels ws ttl now u = Inr (v, x2) \<Longrightarrow> aside v = aside u"
  "heartbeat_tx l ttl now u = Inr (v, x3) \<Longrightarrow> aside v = aside u"
  "complete_succeeded cx l result now u = Inr (v, x4) \<Longrightarrow> aside v = aside u"
  "complete_failed cx l result now u = Inr (v, x5) \<Longrightarrow> aside v = aside u"
  "complete_waiting_human cx rnd l result task now u = Inr (v, x6) \<Longrightarrow> aside v = aside u"
  by (auto simp: create_run_and_enqueue_def claim_tx_def heartbeat_tx_def complete_succeeded_def complete_failed_def
      complete_waiting_human_def Let_def split: option.splits if_splits
      dest!: aside_bind aside_requeue aside_grant aside_settle)

lemma run_aside:
  "resume_tx cx rnd i input now u = Inr (v, x1) \<Longrightarrow> aside v = aside u"
  "retry_tx cx rnd i now u = Inr (v, x2) \<Longrightarrow> aside v = aside u"
  "cancel_job_tx cx w i who reason now u = Inr (v, x3) \<Longrightarrow> aside v = aside u"
  "cancel_run_tx i reason now u = Inr (v, x4) \<Longrightarrow> aside v = aside u"
  "prune_tx a b u = Inr (v, x5) \<Longrightarrow> aside v = aside u"
  "expire_stuck_tx b now u = Inr (v, n) \<Longrightarrow> aside v = aside u"
  "append_logs i w chunk now u = Inr (v, x6) \<Longrightarrow> aside v = aside u"
  "resolve_admission u w i f actor now = Inr (v, x7) \<Longrightarrow> aside v = aside u"
  using aside_expire_run [of b now "Runs u" "(u, 0)"]
  by (auto simp: resume_tx_def retry_tx_def cancel_job_tx_def cancel_run_tx_def prune_tx_def expire_stuck_tx_def
      append_logs_def resolve_admission_def Let_def aside_fold aside_cancel_run_task split: option.splits if_splits
      dest!: aside_encrypt)

lemma task_aside:
  "create_held task now u = Inr (v, x1) \<Longrightarrow> aside v = aside u"
  "decide_held w i d e now u = Inr (v, x2) \<Longrightarrow> aside v = aside u"
  "expire_held w i c now u = Inr (v, x3) \<Longrightarrow> aside v = aside u"
  "register_worker record now u = Inr (v, x5) \<Longrightarrow> aside v = aside u"
  "heartbeat_worker i p now u = Inr (v, x6) \<Longrightarrow> aside v = aside u"
  using aside_terminate
  by (auto simp: create_held_def decide_held_def expire_held_def expireHeldTask_def register_worker_def
      heartbeat_worker_def Let_def split: option.splits if_splits prod.splits) (metis aside_terminate fst_conv)+


section \<open>Revisions\<close>

text \<open>
  A map whose entries carry revisions: entries do not disappear, revisions do not decrease, and an entry is
  unchanged as long as its revision is.
\<close>

definition rev_later :: "('v \<Rightarrow> int) \<Rightarrow> ('k, 'v) gomap \<Rightarrow> ('k, 'v) gomap \<Rightarrow> bool" where
  "rev_later rev' m m' \<longleftrightarrow> (\<forall>k v. map_of m k = Some v \<longrightarrow>
     (\<exists>v'. map_of m' k = Some v' \<and> rev' v \<le> rev' v' \<and> (rev' v' = rev' v \<longrightarrow> v' = v)))"

lemma rev_later_refl [simp, intro]: "rev_later r m m"
  by (auto simp: rev_later_def)

lemma rev_laterE:
  assumes "rev_later r m m'" and "map_of m k = Some v"
  obtains v' where "map_of m' k = Some v'" and "r v \<le> r v'" and "r v' = r v \<Longrightarrow> v' = v"
  using assms unfolding rev_later_def by blast

lemma rev_later_trans:
  assumes "rev_later r a b" and "rev_later r b c"
  shows "rev_later r a c"
  unfolding rev_later_def
proof (intro allI impI)
  fix k v
  assume v: "map_of a k = Some v"
  obtain v1 where v1: "map_of b k = Some v1" "r v \<le> r v1" "r v1 = r v \<longrightarrow> v1 = v" using rev_laterE [OF assms(1) v] by blast
  obtain v2 where v2: "map_of c k = Some v2" "r v1 \<le> r v2" "r v2 = r v1 \<longrightarrow> v2 = v1" using rev_laterE [OF assms(2) v1(1)] by blast
  have "r v2 = r v \<longrightarrow> v2 = v" using v1(2,3) v2(2,3) by auto
  then show "\<exists>v'. map_of c k = Some v' \<and> r v \<le> r v' \<and> (r v' = r v \<longrightarrow> v' = v)"
    using v1(2) v2(1,2) by simp
qed

lemma rev_later_put:
  assumes "\<And>v0. map_of m k = Some v0 \<Longrightarrow> r v0 < r v"
  shows "rev_later r m (put k v m)"
  unfolding rev_later_def
proof (intro allI impI)
  fix k' v0
  assume "map_of m k' = Some v0"
  then show "\<exists>v'. map_of (put k v m) k' = Some v' \<and> r v0 \<le> r v' \<and> (r v' = r v0 \<longrightarrow> v' = v0)"
    using assms [of v0] by (cases "k' = k") simp_all
qed

definition admin_later :: "snapshot \<Rightarrow> snapshot \<Rightarrow> bool" where
  "admin_later s t \<longleftrightarrow> rev_later lp_Revision (ExecutionLimitPolicies s) (ExecutionLimitPolicies t) \<and>
     rev_later wg_Revision (WorkerGroupRunStates s) (WorkerGroupRunStates t) \<and>
     rev_later arl_Revision (AppRuntimeLifecycles s) (AppRuntimeLifecycles t)"

lemma admin_same: "aside v = aside u \<Longrightarrow> admin_later u v"
  by (simp add: aside_def admin_later_def)

lemma admin_later_trans: "admin_later s t \<Longrightarrow> admin_later t u \<Longrightarrow> admin_later s u"
  unfolding admin_later_def by (blast intro: rev_later_trans)

interpretation admin_frame: frame_monotone admin_later
proof
  show "admin_later s t \<Longrightarrow> admin_later t u \<Longrightarrow> admin_later s u" for s t u by (rule admin_later_trans)
qed (simp_all add: admin_later_def)

lemma mutation_admin: "applyLocalExecutionLimitPolicyMutation rnd request now u = Inr (v, b) \<Longrightarrow> admin_later u v"
proof (cases b)
  case (Pair p replayed)
  assume "applyLocalExecutionLimitPolicyMutation rnd request now u = Inr (v, b)"
  then show ?thesis
    using mutation_cases [of rnd request now u v p replayed]
    by (auto simp: Pair admin_later_def split: if_splits intro!: rev_later_put)
qed

lemma mutate_batch_admin: "mutate_batch rnd now requests u = Inr (v, b) \<Longrightarrow> admin_later u v"
proof (induction requests arbitrary: u b)
  case Nil
  then show ?case by (simp add: admin_frame.frame_refl)
next
  case (Cons r rs)
  then show ?case using admin_later_trans [OF mutation_admin] by fastforce
qed

lemma group_admin: "put_group_state request grp st now u = Inr (v, x) \<Longrightarrow> admin_later u v"
  by (auto simp: put_group_state_def admin_later_def Let_def split: if_splits option.splits intro!: rev_later_put)

lemma lifecycle_admin: "set_lifecycle request now u = Inr (v, x) \<Longrightarrow> admin_later u v"
  by (auto simp: set_lifecycle_def admin_later_def Let_def split: if_splits option.splits intro!: rev_later_put)

lemma credential_admin:
  "create_credential rnd request grp ws ls now u = Inr (v, x1) \<Longrightarrow> admin_later u v"
  "revoke_credential request' grp now u = Inr (v, x2) \<Longrightarrow> admin_later u v"
  by (auto simp: create_credential_def revoke_credential_def admin_later_def Let_def split: if_splits option.splits)

lemma webhook_admin:
  "create_subscription rnd prepared endpoint secret now u = Inr (v, x1) \<Longrightarrow> admin_later u v"
  "update_subscription net cx rnd sub now u = Inr (v, x2) \<Longrightarrow> admin_later u v"
  "delete_subscription rnd w i actor now u = Inr (v, x3) \<Longrightarrow> admin_later u v"
  "create_test_delivery rnd w i actor now u = Inr (v, x4) \<Longrightarrow> admin_later u v"
  "claim_delivery cx w ttl now u = Inr (v, x5) \<Longrightarrow> admin_later u v"
  "complete_delivery l result now u = Inr (v, x6) \<Longrightarrow> admin_later u v"
  "retry_delivery rnd w d actor now u = Inr (v, x7) \<Longrightarrow> admin_later u v"
  "prune_webhooks policy u = Inr (v, x8) \<Longrightarrow> admin_later u v"
  by (auto simp: admin_later_def create_subscription_def update_subscription_def delete_subscription_def
      create_test_delivery_def claim_delivery_def complete_delivery_def retry_delivery_def prune_webhooks_def Let_def
      split: if_splits option.splits)


section \<open>Commands\<close>

text \<open>The commands of the administrative components.\<close>

fun is_admin :: "command \<Rightarrow> bool" where
  "is_admin (CmdSetLifecycle _) \<longleftrightarrow> True"
| "is_admin (CmdCreateCredential _) \<longleftrightarrow> True"
| "is_admin (CmdRevokeCredential _) \<longleftrightarrow> True"
| "is_admin (CmdPutGroupState _) \<longleftrightarrow> True"
| "is_admin (CmdMutatePolicy _) \<longleftrightarrow> True"
| "is_admin (CmdMutatePolicies _) \<longleftrightarrow> True"
| "is_admin (CmdCreateSubscription _ _ _) \<longleftrightarrow> True"
| "is_admin (CmdUpdateSubscription _ _) \<longleftrightarrow> True"
| "is_admin (CmdDeleteSubscription _ _ _) \<longleftrightarrow> True"
| "is_admin (CmdTestDelivery _ _ _) \<longleftrightarrow> True"
| "is_admin (CmdClaimDelivery _ _ _ _) \<longleftrightarrow> True"
| "is_admin (CmdCompleteDelivery _ _) \<longleftrightarrow> True"
| "is_admin (CmdRetryDelivery _ _ _) \<longleftrightarrow> True"
| "is_admin (CmdPruneWebhooks _) \<longleftrightarrow> True"
| "is_admin _ \<longleftrightarrow> False"

definition untouched :: "rnd \<Rightarrow> snapshot \<Rightarrow> snapshot \<Rightarrow> bool" where
  "untouched rnd s t \<longleftrightarrow> t = s \<or>
     (\<exists>now fn. updateWithClock rnd now s fn = Inr (t, ()) \<and> (\<forall>u v. fn u = Inr (v, ()) \<longrightarrow> aside v = aside u))"

lemma untouchedI:
  assumes "updateWithClock rnd now s fn = Inr (t, a)" and "\<And>u v b. fn u = Inr (v, b) \<Longrightarrow> aside v = aside u"
  shows "untouched rnd s t"
proof -
  have "updateWithClock rnd now s (\<lambda>u. bind_res (fn u) (\<lambda>(v, b). Inr (v, ()))) = Inr (t, ())"
    using assms(1) by (force simp: updateWithClock_def Let_def)
  then show ?thesis unfolding untouched_def using assms(2) by (intro disjI2 exI conjI) auto
qed

lemma untouched_refl: "untouched rnd s s"
  by (simp add: untouched_def)

lemmas core_bodies = core_aside run_aside task_aside

lemmas core_defs = CreateRunAndEnqueue_def RequeueQueuedJobsForApp_def ClaimJobForWorkerScope_def ResumeHumanTask_def
  RetryRun_def PruneSettledJobs_def AppendLogs_def SetState_def ResolveAdmissionOutcome_def CreateHeldHumanTask_def
  ExpireHeldHumanTask_def ExpireDueHeldHumanTasks_def CancelHeldHumanTasksForJob_def RegisterWorker_def
  DeregisterWorker_def

lemma exec_untouched:
  assumes "exec cx rnd now c s = Inr t" and "\<not> is_admin c"
  shows "untouched rnd s t"
proof (cases c)
  case (CmdHeartbeatWorker w p)
  then show ?thesis
    using assms(1) by (cases p) (auto simp: HeartbeatWorker_def HeartbeatWorkerPressure_def dest: core_bodies elim!: untouchedI)
next
  case (CmdResumeRun runID input)
  then show ?thesis
    using assms(1) by (auto simp: ResumeRun_def ResumeHumanTask_def split: if_splits dest: core_bodies elim!: untouchedI)
next
  case (CmdDecideTask w task d)
  then show ?thesis
    using assms(1) by (auto elim!: DecideHeldHumanTask_cases untouchedI dest: core_bodies)
next
  case (CmdExpireDueTasks n l pre)
  have "aside (fold (expire_one n') xs u) = aside u" for n' xs u
    by (rule aside_fold) (rule aside_expire_one)
  then show ?thesis
    using assms(1) CmdExpireDueTasks
    by (auto simp: ExpireDueHeldHumanTasks_def Let_def untouched_refl split: if_splits elim!: untouchedI)
qed (use assms in \<open>auto simp: transaction_defs core_defs Let_def untouched_refl split: if_splits dest: core_bodies elim!: untouchedI\<close>)

lemma untouched_admin: "untouched rnd s t \<Longrightarrow> admin_later s t"
  by (auto simp: untouched_def admin_frame.frame_refl intro: admin_same elim!: admin_frame.update_rel)

lemmas admin_bodies = mutation_admin mutate_batch_admin group_admin lifecycle_admin credential_admin webhook_admin

lemmas worker_defs = CreateWorkerCredential_def RevokeWorkerCredential_def PutWorkerGroupRunState_def SetAppRuntimeLifecycle_def

lemma exec_admin:
  assumes "exec cx rnd now c s = Inr t"
  shows "admin_later s t"
proof (cases "is_admin c")
  case True
  then show ?thesis
    by (cases c) (use assms in \<open>auto simp: admin_defs worker_defs Let_def split: if_splits
      dest: admin_bodies elim!: admin_frame.update_rel\<close>)
next
  case False
  then show ?thesis using exec_untouched [OF assms] untouched_admin by blast
qed

interpretation admin_order: monotone_steps "store_step cx" "\<lambda>_. True"
  "\<lambda>h h'. admin_later (state_file h) (state_file h')" for cx
proof
  show "admin_later (state_file h) (state_file h')" if "store_step cx h h'" for h h' cx
    using that by (rule store_stepE) (auto dest: exec_admin)
qed (auto intro: admin_frame.frame_refl admin_later_trans)

end
