(* ===== verification/Outbox.thy ===== *)
theory Outbox
  imports Frames Leases
begin

text \<open>
  Webhook deliveries in histories of the store. A delivery enters through the human task hook or a test request,
  under a fresh identifier; its attempts only grow, and it is being delivered only under the lease of its latest
  claim. The ghost component \<open>drawn\<close> collects the delivery identifiers that the random source has given out.
\<close>

declare map_of_eq_Some_iff [simp del] Some_eq_map_of_iff [simp del]

section \<open>How a delivery moves\<close>

definition moved :: "webhook_delivery \<Rightarrow> webhook_delivery \<Rightarrow> bool" where
  "moved d d' \<longleftrightarrow> wd_Attempt d \<le> wd_Attempt d' \<and>
     (wd_Attempt d' = wd_Attempt d \<longrightarrow> wd_State d' = DeliveryDelivering \<longrightarrow>
       wd_State d = DeliveryDelivering \<and> wd_LeaseOwner d' = wd_LeaseOwner d \<and> wd_LeaseExpiresAt d' = wd_LeaseExpiresAt d)"

lemma moved_refl [simp, intro]: "moved d d"
  by (simp add: moved_def)

lemma moved_trans: "moved a b \<Longrightarrow> moved b c \<Longrightarrow> moved a c"
  unfolding moved_def by (metis order.antisym order.trans)

definition delivery_later :: "webhook_delivery option \<Rightarrow> webhook_delivery option \<Rightarrow> bool" where
  "delivery_later a b \<longleftrightarrow> (\<forall>d'. b = Some d' \<longrightarrow> (\<exists>d. a = Some d \<and> moved d d'))"

lemma delivery_later_refl [simp, intro]: "delivery_later a a"
  by (auto simp: delivery_later_def)

lemma delivery_later_trans: "delivery_later a b \<Longrightarrow> delivery_later b c \<Longrightarrow> delivery_later a c"
  unfolding delivery_later_def by (blast intro: moved_trans)

definition new_deliveries :: "rnd \<Rightarrow> string set" where
  "new_deliveries rnd = range (NewID rnd ''whd'')"

definition outbox_ok :: "string set \<Rightarrow> snapshot \<Rightarrow> bool" where
  "outbox_ok D s \<longleftrightarrow> go_map_ok (WebhookDeliveries s) \<and> keyed_by wd_ID (WebhookDeliveries s) \<and>
     dom (map_of (WebhookDeliveries s)) \<subseteq> D"

definition outbox_later :: "string set \<Rightarrow> snapshot \<Rightarrow> snapshot \<Rightarrow> bool" where
  "outbox_later D s t \<longleftrightarrow>
     (\<forall>k \<in> D. delivery_later (map_of (WebhookDeliveries s) k) (map_of (WebhookDeliveries t) k))"

lemma outbox_same: "WebhookDeliveries v = WebhookDeliveries u \<Longrightarrow> outbox_later D u v"
  by (simp add: outbox_later_def)

lemma outbox_later_trans: "outbox_later D s t \<Longrightarrow> outbox_later D t u \<Longrightarrow> outbox_later D s u"
  unfolding outbox_later_def by (blast intro: delivery_later_trans)

lemma dom_put [simp]: "dom (map_of (put k v m)) = insert k (dom (map_of m))"
  by (auto split: if_splits)

lemma dom_map_vals [simp]: "dom (map_of (map_vals f m)) = dom (map_of m)"
  by auto

lemma outbox_put:
  assumes "outbox_ok D u" and "map_of (WebhookDeliveries u) k = Some d" and "wd_ID d' = k" and "moved d d'"
    and "WebhookDeliveries v = put k d' (WebhookDeliveries u)"
  shows "outbox_ok D v \<and> outbox_later D u v"
  using assms by (auto simp: outbox_ok_def outbox_later_def delivery_later_def domI)

lemma outbox_add:
  assumes "outbox_ok E u" and "k \<in> E" and "k \<notin> D" and "wd_ID d = k"
    and "WebhookDeliveries v = put k d (WebhookDeliveries u)"
  shows "outbox_ok E v \<and> outbox_later D u v"
  using assms by (auto simp: outbox_ok_def outbox_later_def)

section \<open>The hook\<close>

lemma add_deliveries:
  assumes "outbox_ok E (s\<lparr>WebhookDeliveries := dels\<rparr>)" and "new_deliveries rnd \<subseteq> E" and "new_deliveries rnd \<inter> D = {}"
  shows "outbox_ok E (s\<lparr>WebhookDeliveries := fold (add_delivery rnd now event task) subs dels\<rparr>) \<and>
    (\<forall>k \<in> D. map_of (fold (add_delivery rnd now event task) subs dels) k = map_of dels k)"
  using assms(1)
proof (induction subs arbitrary: dels)
  case (Cons sub subs)
  let ?id = "NewID rnd ''whd'' (''whd/'' @ ht_ID task @ ''/'' @ ws_ID sub)"
  have id: "?id \<in> new_deliveries rnd" by (simp add: new_deliveries_def)
  have ok: "outbox_ok E (s\<lparr>WebhookDeliveries := add_delivery rnd now event task sub dels\<rparr>)"
    using Cons.prems id assms(2) by (auto simp: outbox_ok_def add_delivery_def newWebhookDelivery_def Let_def)
  have "map_of (add_delivery rnd now event task sub dels) k = map_of dels k" if "k \<in> D" for k
    using id assms(3) that by (auto simp: add_delivery_def newWebhookDelivery_def Let_def)
  then show ?case using Cons.IH [OF ok] by simp
qed simp

lemma hook_outbox:
  assumes "run_hook rnd now before s = Inr t" and "outbox_ok E s" and "new_deliveries rnd \<subseteq> E" and "new_deliveries rnd \<inter> D = {}"
  shows "outbox_ok E t \<and> (\<forall>k \<in> D. map_of (WebhookDeliveries t) k = map_of (WebhookDeliveries s) k)"
proof -
  let ?P = "\<lambda>ob. outbox_ok E (s\<lparr>WebhookDeliveries := snd ob\<rparr>) \<and> (\<forall>k \<in> D. map_of (snd ob) k = map_of (WebhookDeliveries s) k)"
  obtain ob where ob: "fold_res (hook_task rnd now before s) (HumanTasks s) (ControlPlaneEvents s, WebhookDeliveries s) = Inr ob"
    and t: "t = s\<lparr>ControlPlaneEvents := fst ob, WebhookDeliveries := snd ob\<rparr>"
    using assms(1) by (auto simp: run_hook_def)
  have "?P ob"
  proof (rule fold_res_inv [OF ob, of ?P])
    show "?P (ControlPlaneEvents s, WebhookDeliveries s)" using assms(2) by simp
    fix x u v
    assume u: "?P u" and v: "hook_task rnd now before s x u = Inr v"
    then have "v = u \<or> (\<exists>event subs. snd v = fold (add_delivery rnd now event (snd x)) subs (snd u))"
      by (auto simp: hook_task_def Let_def split: if_splits option.splits) blast+
    then show "?P v"
      using u add_deliveries [OF _ assms(3,4), where s = s and dels = "snd u"] by (elim disjE exE) simp_all
  qed
  then show ?thesis by (simp add: t outbox_ok_def)
qed

lemma update_outbox:
  assumes run: "updateWithClock rnd now s fn = Inr (t, a)" and ok: "outbox_ok D s" and fresh: "new_deliveries rnd \<inter> D = {}"
    and body: "\<And>u v b. outbox_ok D u \<Longrightarrow> fn u = Inr (v, b) \<Longrightarrow>
      outbox_ok (D \<union> new_deliveries rnd) v \<and> outbox_later D u v"
  shows "outbox_ok (D \<union> new_deliveries rnd) t \<and> outbox_later D s t"
proof -
  obtain s' evs dels where fn: "fn (ensureSnapshot s) = Inr (s', a)"
    and t: "t = write_file (s'\<lparr>ControlPlaneEvents := evs, WebhookDeliveries := dels\<rparr>)"
    and hook: "run_hook rnd now (HumanTasks (ensureSnapshot s)) s' = Inr (s'\<lparr>ControlPlaneEvents := evs, WebhookDeliveries := dels\<rparr>)"
    by (rule updateWithClock_cases [OF run])
  have "outbox_ok D (ensureSnapshot s)" using ok by (simp add: outbox_ok_def)
  from body [OF this fn] have s': "outbox_ok (D \<union> new_deliveries rnd) s'" "outbox_later D (ensureSnapshot s) s'" by simp_all
  have "outbox_ok (D \<union> new_deliveries rnd) (s'\<lparr>ControlPlaneEvents := evs, WebhookDeliveries := dels\<rparr>) \<and>
    (\<forall>k \<in> D. map_of dels k = map_of (WebhookDeliveries s') k)"
    using hook_outbox [OF hook s'(1) _ fresh] by simp
  moreover have "WebhookDeliveries t = dels" by (simp add: t write_file_def Let_def)
  ultimately show ?thesis
    using s'(2) by (simp add: outbox_ok_def outbox_later_def)
qed


section \<open>The operations on deliveries\<close>

lemma outbox_mono: "outbox_ok D s \<Longrightarrow> D \<subseteq> E \<Longrightarrow> outbox_ok E s"
  by (auto simp: outbox_ok_def)

text \<open>The claim takes a stored delivery.\<close>

lemma pick_stored:
  "fold (pick_delivery s now) xs best = Some (d, record) \<Longrightarrow>
   best = Some (d, record) \<or> (\<exists>k. (k, d) \<in> set xs \<and> eligible_record s now d = Some record)"
proof (induction xs arbitrary: best)
  case (Cons x xs)
  have "best = Some (d, record) \<or> (\<exists>k. (k, d) \<in> set (x # xs) \<and> eligible_record s now d = Some record)"
    if "pick_delivery s now x best = Some (d, record)"
    using that by (cases x) (auto simp: pick_delivery_def split: option.splits if_splits prod.splits)
  then show ?case using Cons.IH [of "pick_delivery s now x best"] Cons.prems by auto
qed simp

text \<open>Nothing that is eligible is due before it.\<close>

lemma pick_least:
  assumes "fold (pick_delivery s now) xs best = Some (d, record)"
  shows "(\<forall>b r. best = Some (b, r) \<longrightarrow> \<not> due_before b d) \<and>
    (\<forall>(k, e) \<in> set xs. eligible_record s now e \<noteq> None \<longrightarrow> \<not> due_before e d)"
  using assms
proof (induction xs arbitrary: best)
  case Nil
  then show ?case by (auto simp: due_before_def)
next
  case (Cons x xs)
  let ?b = "pick_delivery s now x best"
  have ih: "\<And>b r. ?b = Some (b, r) \<Longrightarrow> \<not> due_before b d"
    "\<forall>(k, e) \<in> set xs. eligible_record s now e \<noteq> None \<longrightarrow> \<not> due_before e d"
    using Cons.IH [of ?b] Cons.prems by auto
  have trans: "\<not> due_before a c" if "\<not> due_before a b" "\<not> due_before b c" for a b c
    using that by (auto simp: due_before_def)
  have asym: "\<not> due_before b a" if "due_before a b" for a b
    using that by (auto simp: due_before_def)
  have "\<not> due_before b d" if "best = Some (b, r)" for b r
  proof (cases "eligible_record s now (snd x) \<noteq> None \<and> due_before (snd x) b")
    case True
    then obtain q where "?b = Some (snd x, q)" using \<open>best = Some (b, r)\<close> by (auto simp: pick_delivery_def)
    then have "\<not> due_before (snd x) d" by (rule ih(1))
    then show ?thesis using True asym [of "snd x" b] trans [of b "snd x" d] by simp
  next
    case False
    then have "?b = best" using that by (auto simp: pick_delivery_def split: option.split)
    then show ?thesis using ih(1) that by simp
  qed
  moreover have "\<not> due_before (snd x) d" if el: "eligible_record s now (snd x) \<noteq> None"
  proof (cases best)
    case None
    then show ?thesis using ih(1) el by (auto simp: pick_delivery_def)
  next
    case (Some y)
    show ?thesis
    proof (cases "due_before (snd x) (fst y)")
      case True
      then show ?thesis using ih(1) el Some by (cases y) (auto simp: pick_delivery_def)
    next
      case False
      then have "?b = best" using el Some by (cases y) (auto simp: pick_delivery_def)
      then have "\<not> due_before (fst y) d" using ih(1) [of "fst y" "snd y"] Some by simp
      then show ?thesis using False trans [of "snd x" "fst y" d] by simp
    qed
  qed
  ultimately show ?case using ih(2) by (cases x) auto
qed

lemma claimed_entry:
  assumes "fold (pick_delivery s now) (WebhookDeliveries s) None = Some (d, record)" and "outbox_ok D s"
  shows "map_of (WebhookDeliveries s) (wd_ID d) = Some d \<and> eligible_record s now d = Some record"
proof -
  obtain k where k: "(k, d) \<in> set (WebhookDeliveries s)" "eligible_record s now d = Some record"
    using pick_stored [OF assms(1)] by auto
  then have "map_of (WebhookDeliveries s) k = Some d" using assms(2) in_set_map_of by (auto simp: outbox_ok_def)
  then show ?thesis using k(2) assms(2) by (auto simp: outbox_ok_def dest: keyed_byD)
qed

lemma claim_outbox:
  assumes "outbox_ok D u" and "claim_delivery cx w ttl now u = Inr (v, cd)"
  shows "outbox_ok D v \<and> outbox_later D u v"
proof -
  obtain d sub where p: "fold (pick_delivery u now) (WebhookDeliveries u) None = Some (d, sub)"
    using assms(2) by (auto simp: claim_delivery_def split: option.splits)
  let ?d' = "d\<lparr>wd_State := DeliveryDelivering, wd_Attempt := wd_Attempt d + 1,
      wd_LeaseOwner := Some w, wd_LeaseExpiresAt := Some (now + ttl), wd_UpdatedAt := now\<rparr>"
  have "WebhookDeliveries v = put (wd_ID d) ?d' (WebhookDeliveries u)"
    using assms(2) p by (auto simp: claim_delivery_def Let_def split: option.splits)
  then show ?thesis
    using outbox_put [OF assms(1) conjunct1 [OF claimed_entry [OF p assms(1)]], where d' = ?d' and v = v] by (simp add: moved_def)
qed

lemma complete_outbox:
  assumes "outbox_ok D u" and "complete_delivery l result now u = Inr (v, x)" and "ValidateDeliveryResult result = Inr ()"
  shows "outbox_ok D v \<and> outbox_later D u v"
proof -
  obtain d where d: "map_of (WebhookDeliveries u) (dl_DeliveryID l) = Some d" "wd_ID d = dl_DeliveryID l"
    using assms by (auto simp: complete_delivery_def outbox_ok_def dest: keyed_byD split: option.splits)
  obtain d' where d': "WebhookDeliveries v = put (wd_ID d) d' (WebhookDeliveries u)" "wd_ID d' = wd_ID d"
    "wd_Attempt d' = wd_Attempt d" "wd_State d' \<noteq> DeliveryDelivering"
    using assms(2,3) d
    by (auto simp: complete_delivery_def Let_def ValidateDeliveryResult_def split: option.splits if_splits delivery_state.splits)
  then show ?thesis
    using outbox_put [OF assms(1), where k = "wd_ID d" and d = d and d' = d' and v = v] d by (simp add: moved_def)
qed

lemma retry_outbox:
  assumes "outbox_ok D u" and "retry_delivery rnd w i actor now u = Inr (v, x)"
  shows "outbox_ok D v \<and> outbox_later D u v"
proof -
  obtain d where d: "map_of (WebhookDeliveries u) i = Some d" "wd_ID d = i"
    using assms by (auto simp: retry_delivery_def outbox_ok_def dest: keyed_byD split: option.splits)
  then have "\<exists>d'. WebhookDeliveries v = put i d' (WebhookDeliveries u) \<and> wd_ID d' = i \<and>
      wd_Attempt d' = wd_Attempt d \<and> wd_State d' \<noteq> DeliveryDelivering"
    using assms(2) by (auto simp: retry_delivery_def Let_def split: option.splits if_splits)
  then show ?thesis
    using outbox_put [OF assms(1) d(1)] by (auto simp: moved_def)
qed

lemma delete_outbox:
  assumes "outbox_ok D u" and "delete_subscription rnd w i actor now u = Inr (v, x)"
  shows "outbox_ok D v \<and> outbox_later D u v"
proof -
  let ?f = "\<lambda>(k :: string) d. if cancels w i d
    then d\<lparr>wd_State := DeliveryCanceled, wd_UpdatedAt := now, wd_CompletedAt := Some now\<rparr> else d"
  have v: "WebhookDeliveries v = map_vals ?f (WebhookDeliveries u)"
    using assms(2) by (auto simp: delete_subscription_def Let_def split: option.splits if_splits)
  have "keyed_by wd_ID (map_vals ?f (WebhookDeliveries u))"
    using assms(1) by (intro keyed_by_map_vals) (simp_all add: outbox_ok_def)
  then show ?thesis
    using assms(1) by (auto simp: v outbox_ok_def outbox_later_def delivery_later_def moved_def)
qed

lemma test_outbox:
  assumes "outbox_ok D u" and "create_test_delivery rnd w i actor now u = Inr (v, x)" and "new_deliveries rnd \<inter> D = {}"
  shows "outbox_ok (D \<union> new_deliveries rnd) v \<and> outbox_later D u v"
proof -
  let ?k = "NewID rnd ''whd'' ''whd/test''"
  have k: "?k \<in> new_deliveries rnd" by (simp add: new_deliveries_def)
  obtain d where "WebhookDeliveries v = put ?k d (WebhookDeliveries u)" "wd_ID d = ?k"
    using assms(2) by (auto simp: create_test_delivery_def newWebhookDelivery_def Let_def split: option.splits if_splits)
  then show ?thesis
    using outbox_add [OF outbox_mono [OF assms(1), of "D \<union> new_deliveries rnd"], where k = ?k and D = D and d = d and v = v] k assms(3) by auto
qed

lemma map_of_drop_keys: "map_of (drop_keys ks m) k = (if k \<in> set ks then None else map_of m k)"
  by (induction ks arbitrary: m) (auto simp: drop_keys_def)

lemma go_map_ok_drop_keys: "go_map_ok m \<Longrightarrow> go_map_ok (drop_keys ks m)"
  by (induction ks arbitrary: m) (auto simp: drop_keys_def)

lemma prune_outbox:
  assumes "outbox_ok D u" and "prune_webhooks policy u = Inr (v, x)"
  shows "outbox_ok D v \<and> outbox_later D u v"
proof -
  obtain ks where v: "WebhookDeliveries v = drop_keys ks (WebhookDeliveries u)"
    using assms(2) by (auto simp: prune_webhooks_def Let_def)
  have "keyed_by wd_ID (drop_keys ks (WebhookDeliveries u))"
    using assms(1) by (auto simp: outbox_ok_def keyed_by_def map_of_drop_keys)
  then show ?thesis
    using assms(1) by (auto simp: v outbox_ok_def outbox_later_def delivery_later_def map_of_drop_keys go_map_ok_drop_keys
        split: if_splits)
qed

section \<open>Histories of the outbox\<close>

lemma untouched_outbox:
  assumes "untouched rnd s t" and "outbox_ok D s" and "new_deliveries rnd \<inter> D = {}"
  shows "outbox_ok (D \<union> new_deliveries rnd) t \<and> outbox_later D s t"
  using assms(1) unfolding untouched_def
proof
  assume "t = s" then show ?thesis using assms(2) outbox_mono outbox_same by blast
next
  assume "\<exists>now fn. updateWithClock rnd now s fn = Inr (t, ()) \<and> (\<forall>u v. fn u = Inr (v, ()) \<longrightarrow> aside v = aside u)"
  then obtain now fn where u: "updateWithClock rnd now s fn = Inr (t, ())" "\<And>u v. fn u = Inr (v, ()) \<Longrightarrow> aside v = aside u" by blast
  show ?thesis
  proof (rule update_outbox [OF u(1) assms(2,3)])
    fix u v b
    assume "outbox_ok D u" "fn u = Inr (v, b)"
    moreover from u(2) this(2) have "WebhookDeliveries v = WebhookDeliveries u" by (simp add: aside_def)
    ultimately show "outbox_ok (D \<union> new_deliveries rnd) v \<and> outbox_later D u v"
      by (auto simp: outbox_same outbox_ok_def)
  qed
qed

lemma admin_keeps_outbox:
  "applyLocalExecutionLimitPolicyMutation rnd r now u = Inr (v, x0) \<Longrightarrow> WebhookDeliveries v = WebhookDeliveries u"
  "put_group_state request grp st now u = Inr (v, x1) \<Longrightarrow> WebhookDeliveries v = WebhookDeliveries u"
  "set_lifecycle request' now u = Inr (v, x2) \<Longrightarrow> WebhookDeliveries v = WebhookDeliveries u"
  "create_subscription rnd prepared endpoint secret now u = Inr (v, x3) \<Longrightarrow> WebhookDeliveries v = WebhookDeliveries u"
  "update_subscription net cx rnd sub now u = Inr (v, x4) \<Longrightarrow> WebhookDeliveries v = WebhookDeliveries u"
  "create_credential rnd cr grp ws ls now u = Inr (v, x5) \<Longrightarrow> WebhookDeliveries v = WebhookDeliveries u"
  "revoke_credential rr grp now u = Inr (v, x6) \<Longrightarrow> WebhookDeliveries v = WebhookDeliveries u"
  by (auto simp: applyLocalExecutionLimitPolicyMutation_def put_group_state_def set_lifecycle_def create_subscription_def
      update_subscription_def create_credential_def revoke_credential_def Let_def split: if_splits option.splits)

lemma batch_keeps_outbox: "mutate_batch rnd now rs u = Inr (v, x) \<Longrightarrow> WebhookDeliveries v = WebhookDeliveries u"
  by (induction rs arbitrary: u x) (auto dest!: admin_keeps_outbox)

lemma kept_outbox: "WebhookDeliveries v = WebhookDeliveries u \<Longrightarrow> outbox_ok D u \<Longrightarrow> outbox_ok D v \<and> outbox_later D u v"
  by (simp add: outbox_ok_def outbox_same)

lemmas admin_outbox = admin_keeps_outbox [THEN kept_outbox] batch_keeps_outbox [THEN kept_outbox]
  claim_outbox [rotated] complete_outbox [rotated] retry_outbox [rotated] delete_outbox [rotated] prune_outbox [rotated]

lemma update_moves_outbox:
  assumes "updateWithClock rnd now s fn = Inr (t, a)" and "outbox_ok D s" and "new_deliveries rnd \<inter> D = {}"
    and "\<And>u v b. outbox_ok D u \<Longrightarrow> fn u = Inr (v, b) \<Longrightarrow> outbox_ok D v \<and> outbox_later D u v"
  shows "outbox_ok (D \<union> new_deliveries rnd) t \<and> outbox_later D s t"
  by (rule update_outbox [OF assms(1,2,3)]) (use assms(4) outbox_mono in blast)

lemma exec_outbox:
  assumes run: "exec cx rnd now c s = Inr t" and ok: "outbox_ok D s" and fresh: "new_deliveries rnd \<inter> D = {}"
  shows "outbox_ok (D \<union> new_deliveries rnd) t \<and> outbox_later D s t"
proof (cases "is_admin c")
  case False
  then show ?thesis using untouched_outbox [OF exec_untouched [OF run] ok fresh] by blast
next
  case True
  then show ?thesis
  proof (cases c)
    case (CmdTestDelivery w sub actor)
    then show ?thesis
      using run by (auto simp: CreateTestDelivery_def Let_def split: if_splits
          elim!: update_outbox [OF _ ok fresh] dest: test_outbox [OF _ _ fresh])
  qed (use run in \<open>auto simp: admin_defs worker_defs Let_def split: if_splits
      dest: admin_outbox elim!: update_moves_outbox [OF _ ok fresh]\<close>)
qed

text \<open>A step of the store whose random source draws delivery identifiers that were never drawn before.\<close>

record outbox_history = history +
  drawn :: "string set"

inductive outbox_step :: "codec \<Rightarrow> outbox_history \<Rightarrow> outbox_history \<Rightarrow> bool" for cx :: codec where
  draw: "exec cx rnd now c (state_file h) = Inr t \<Longrightarrow> well_formed c \<Longrightarrow> new_jobs rnd c \<inter> issued h = {} \<Longrightarrow>
    new_deliveries rnd \<inter> drawn h = {} \<Longrightarrow>
    outbox_step cx h \<lparr>state_file = t, issued = issued h \<union> new_jobs rnd c, drawn = drawn h \<union> new_deliveries rnd\<rparr>"

inductive_cases outbox_stepE: "outbox_step cx h h'"

definition outbox_initial :: "outbox_history \<Rightarrow> bool" where
  "outbox_initial h \<longleftrightarrow> (\<exists>epoch. state_file h = newSnapshot epoch) \<and> issued h = {} \<and> drawn h = {}"

abbreviation outbox_fine :: "outbox_history \<Rightarrow> bool" where
  "outbox_fine h \<equiv> outbox_ok (drawn h) (state_file h)"

definition outbox_order :: "outbox_history \<Rightarrow> outbox_history \<Rightarrow> bool" where
  "outbox_order h h' \<longleftrightarrow> drawn h \<subseteq> drawn h' \<and> outbox_later (drawn h) (state_file h) (state_file h')"

lemma outbox_order_trans: "outbox_order a b \<Longrightarrow> outbox_order b c \<Longrightarrow> outbox_order a c"
  unfolding outbox_order_def outbox_later_def by (blast intro: delivery_later_trans)

lemma outbox_step_ok:
  assumes "outbox_fine h" and "outbox_step cx h h'"
  shows "outbox_fine h' \<and> outbox_order h h'"
  using assms(2) by (rule outbox_stepE) (use exec_outbox [OF _ assms(1)] in \<open>auto simp: outbox_order_def\<close>)

interpretation outbox_history: inductive_invariant outbox_initial "outbox_step cx" outbox_fine for cx
proof
  show "outbox_fine h" if "outbox_initial h" for h
    using that by (auto simp: outbox_initial_def newSnapshot_def outbox_ok_def keyed_by_def)
qed (use outbox_step_ok in blast)

interpretation outbox_steps: monotone_steps "outbox_step cx" outbox_fine outbox_order for cx
proof
  show "outbox_order h h" for h by (simp add: outbox_order_def outbox_same)
  show "outbox_order a b \<Longrightarrow> outbox_order b c \<Longrightarrow> outbox_order a c" for a b c by (rule outbox_order_trans)
qed (use outbox_step_ok in blast)+

text \<open>With the ghost component forgotten it is a history of the store.\<close>

lemma outbox_step_store: "outbox_step cx h h' \<Longrightarrow> store_step cx (history.truncate h) (history.truncate h')"
  unfolding history.truncate_def
  by (erule outbox_stepE) (use command_step [where h = "\<lparr>state_file = state_file h, issued = issued h\<rparr>"] in fastforce)

section \<open>Delivery leases\<close>

definition holds_delivery :: "delivery_lease \<Rightarrow> snapshot \<Rightarrow> bool" where
  "holds_delivery l s \<longleftrightarrow>
     (\<exists>d. map_of (WebhookDeliveries s) (dl_DeliveryID l) = Some d \<and> validateDeliveryLease d l = Inr ())"

definition delivery_lease_dead :: "delivery_lease \<Rightarrow> outbox_history \<Rightarrow> bool" where
  "delivery_lease_dead l h \<longleftrightarrow> dl_DeliveryID l \<in> drawn h \<and>
     (\<forall>d. map_of (WebhookDeliveries (state_file h)) (dl_DeliveryID l) = Some d \<longrightarrow>
        dl_Attempt l \<le> wd_Attempt d \<and> (wd_Attempt d = dl_Attempt l \<longrightarrow> validateDeliveryLease d l \<noteq> Inr ()))"

lemma valid_delivery_lease:
  "validateDeliveryLease d l = Inr () \<longleftrightarrow> wd_State d = DeliveryDelivering \<and> wd_LeaseOwner d = Some (dl_WorkerID l) \<and>
     wd_LeaseExpiresAt d = Some (dl_ExpiresAt l) \<and> wd_Attempt d = dl_Attempt l"
  by (auto simp: validateDeliveryLease_def)

lemma delivery_dead_later:
  assumes "delivery_lease_dead l h" and "outbox_order h h'"
  shows "delivery_lease_dead l h'"
  unfolding delivery_lease_dead_def
proof (intro conjI allI impI)
  show "dl_DeliveryID l \<in> drawn h'" using assms by (auto simp: delivery_lease_dead_def outbox_order_def)
  fix d'
  assume "map_of (WebhookDeliveries (state_file h')) (dl_DeliveryID l) = Some d'"
  then obtain d where "map_of (WebhookDeliveries (state_file h)) (dl_DeliveryID l) = Some d" and m: "moved d d'"
    using assms unfolding delivery_lease_dead_def outbox_order_def outbox_later_def delivery_later_def by blast
  then have d: "dl_Attempt l \<le> wd_Attempt d" "wd_Attempt d = dl_Attempt l \<longrightarrow> validateDeliveryLease d l \<noteq> Inr ()"
    using assms(1) by (auto simp: delivery_lease_dead_def)
  show "dl_Attempt l \<le> wd_Attempt d'" using d(1) m by (simp add: moved_def)
  show "validateDeliveryLease d' l \<noteq> Inr ()" if "wd_Attempt d' = dl_Attempt l"
    using d m that by (auto simp: moved_def valid_delivery_lease)
qed

interpretation delivery_lease: fenced_lease "outbox_step cx" outbox_fine delivery_lease_dead
  "\<lambda>l h. holds_delivery l (state_file h)" for cx
proof
  show "outbox_fine h \<Longrightarrow> outbox_step cx h h' \<Longrightarrow> outbox_fine h'" for h h' cx
    using outbox_step_ok by blast
  show "outbox_fine h \<Longrightarrow> delivery_lease_dead l h \<Longrightarrow> outbox_step cx h h' \<Longrightarrow> delivery_lease_dead l h'" for h h' l cx
    using outbox_step_ok delivery_dead_later by blast
  show "outbox_fine h \<Longrightarrow> delivery_lease_dead l h \<Longrightarrow> \<not> holds_delivery l (state_file h)" for h l
    by (auto simp: delivery_lease_dead_def holds_delivery_def valid_delivery_lease)
qed

lemma delivery_lost_dead:
  assumes "outbox_fine h" and "holds_delivery l (state_file h)" and "outbox_order h h'" and "\<not> holds_delivery l (state_file h')"
  shows "delivery_lease_dead l h'"
proof -
  obtain d where d: "map_of (WebhookDeliveries (state_file h)) (dl_DeliveryID l) = Some d" "validateDeliveryLease d l = Inr ()"
    using assms(2) by (auto simp: holds_delivery_def)
  then have k: "dl_DeliveryID l \<in> drawn h" using assms(1) by (auto simp: outbox_ok_def)
  have "moved d d'" if "map_of (WebhookDeliveries (state_file h')) (dl_DeliveryID l) = Some d'" for d'
    using assms(3) k d(1) that by (auto simp: outbox_order_def outbox_later_def delivery_later_def)
  then show ?thesis
    using assms(3,4) k d(2)
    by (auto simp: delivery_lease_dead_def outbox_order_def moved_def holds_delivery_def valid_delivery_lease)
qed

lemma complete_not_held:
  assumes "\<not> holds_delivery l s" and "ValidateDeliveryResult result = Inr ()"
  shows "CompleteDelivery rnd now l result s = Inl WebhookErrNotFound \<or>
    CompleteDelivery rnd now l result s = Inl WebhookErrInvalidLease"
proof -
  have "complete_delivery l result now (ensureSnapshot s) = Inl WebhookErrNotFound \<or>
    complete_delivery l result now (ensureSnapshot s) = Inl WebhookErrInvalidLease"
    using assms(1) by (auto simp: complete_delivery_def holds_delivery_def validateDeliveryLease_def split: option.splits)
  then show ?thesis using assms(2) by (auto simp: CompleteDelivery_def updateWithClock_def Let_def)
qed

text \<open>The claim takes the delivery that is due first.\<close>

lemma claim_earliest:
  assumes "ClaimDelivery cx rnd preNow now w ttl pre s = Inr (t, claimed)" and "outbox_ok D s"
  shows "\<exists>d. map_of (WebhookDeliveries s) (dl_DeliveryID (cd_Lease claimed)) = Some d \<and> eligible_record s now d \<noteq> None \<and>
    wd_Attempt (cd_Delivery claimed) = wd_Attempt d + 1 \<and> wd_LeaseOwner (cd_Delivery claimed) = Some (trim w) \<and>
    (\<forall>k e. (k, e) \<in> set (WebhookDeliveries s) \<longrightarrow> eligible_record s now e \<noteq> None \<longrightarrow>
      wd_NextAttemptAt d < wd_NextAttemptAt e \<or> (wd_NextAttemptAt d = wd_NextAttemptAt e \<and> wd_CreatedAt d \<le> wd_CreatedAt e))"
proof -
  obtain leaseTTL v where fn: "claim_delivery cx (trim w) leaseTTL now (ensureSnapshot s) = Inr (v, claimed)"
    using assms(1) by (auto simp: ClaimDelivery_def Let_def split: if_splits elim: updateWithClock_cases)
  obtain d sub where p: "fold (pick_delivery (ensureSnapshot s) now) (WebhookDeliveries (ensureSnapshot s)) None = Some (d, sub)"
    using fn by (auto simp: claim_delivery_def split: option.splits)
  have el: "eligible_record (ensureSnapshot s) = eligible_record s" by (intro ext) (simp add: eligible_record_def)
  have ok: "outbox_ok D (ensureSnapshot s)" using assms(2) by (simp add: outbox_ok_def)
  have c: "dl_DeliveryID (cd_Lease claimed) = wd_ID d" "wd_Attempt (cd_Delivery claimed) = wd_Attempt d + 1"
    "wd_LeaseOwner (cd_Delivery claimed) = Some (trim w)"
    using fn p by (auto simp: claim_delivery_def Let_def split: option.splits)
  have "wd_NextAttemptAt d < wd_NextAttemptAt e \<or> (wd_NextAttemptAt d = wd_NextAttemptAt e \<and> wd_CreatedAt d \<le> wd_CreatedAt e)"
    if "(k, e) \<in> set (WebhookDeliveries s)" "eligible_record s now e \<noteq> None" for k e
  proof -
    have "\<not> due_before e d" using pick_least [OF p] that by (auto simp: el)
    then show ?thesis by (auto simp: due_before_def)
  qed
  then show ?thesis using claimed_entry [OF p ok] c by (auto simp: el)
qed

end
