(* ===== verification/Retention.thy ===== *)
theory Retention
  imports Outbox Operations
begin

text \<open>
  The retention cycle of webhook data (cmd/windforce-core/webhook_retention.go): the policy from the flags, and the
  loop that calls \<open>PruneWebhookData\<close> until a call removes nothing. The loop is a partial function; it is proved
  to return, and to leave nothing that the policy would remove. The context of the cycle is a predicate \<open>over\<close>
  on the number of calls made: when it holds, the next call fails with the error of the context.
\<close>

declare map_of_eq_Some_iff [simp del] Some_eq_map_of_iff [simp del]

section \<open>The policy\<close>

record webhook_retention_policy =
  wrp_Success :: duration
  wrp_Failure :: duration
  wrp_Interval :: duration
  wrp_BatchSize :: int
  wrp_TimeBudget :: duration

definition Enabled :: "webhook_retention_policy \<Rightarrow> bool" where
  "Enabled policy \<longleftrightarrow> wrp_Success policy > 0 \<or> wrp_Failure policy > 0"

definition webhookRetentionFromFlags :: "webhook_retention_policy \<Rightarrow> webhook_retention_policy res" where
  "webhookRetentionFromFlags policy =
     (if wrp_Success policy < 0 \<or> wrp_Failure policy < 0 then Inl (ErrOther ''retention durations must be non-negative'')
      else if wrp_Interval policy \<le> 0 then Inl (ErrOther ''retention interval must be positive'')
      else if wrp_BatchSize policy \<le> 0 then Inl (ErrOther ''retention batch size must be positive'')
      else if wrp_TimeBudget policy \<le> 0 then Inl (ErrOther ''retention time budget must be positive'')
      else Inr policy)"

definition cutoff :: "time \<Rightarrow> duration \<Rightarrow> time" where
  "cutoff now ttl = (if ttl \<le> 0 then 0 else now - ttl)"

definition cycle_retention :: "webhook_retention_policy \<Rightarrow> time \<Rightarrow> retention_policy" where
  "cycle_retention policy now =
     \<lparr>rp_SucceededBefore = cutoff now (wrp_Success policy), rp_CanceledBefore = cutoff now (wrp_Success policy),
      rp_FailedBefore = cutoff now (wrp_Failure policy), rp_SubscriptionBefore = cutoff now (wrp_Success policy),
      rp_BatchSize = wrp_BatchSize policy\<rparr>"

section \<open>The cycle\<close>

definition Empty :: "retention_result \<Rightarrow> bool" where
  "Empty result \<longleftrightarrow> rr_Deliveries result = 0 \<and> rr_Events result = 0 \<and> rr_Subscriptions result = 0"

definition add_result :: "retention_result \<Rightarrow> retention_result \<Rightarrow> retention_result" where
  "add_result acc result =
     \<lparr>rr_Deliveries = rr_Deliveries acc + rr_Deliveries result, rr_Events = rr_Events acc + rr_Events result,
      rr_Subscriptions = rr_Subscriptions acc + rr_Subscriptions result\<rparr>"

partial_function (option) retention_loop ::
  "(nat \<Rightarrow> rnd) \<Rightarrow> (nat \<Rightarrow> time) \<Rightarrow> (nat \<Rightarrow> bool) \<Rightarrow> retention_policy \<Rightarrow> nat \<Rightarrow> retention_result \<Rightarrow> snapshot \<Rightarrow>
   (snapshot \<times> retention_result) option" where
  "retention_loop rnd clock over retention i acc s =
     (if over i then Some (s, acc)
      else case PruneWebhookData (rnd i) (clock i) retention s of
             Inl e \<Rightarrow> Some (s, acc)
           | Inr (t, result) \<Rightarrow>
               let acc' = add_result acc result
               in if Empty result then Some (t, acc')
                  else retention_loop rnd clock over retention (Suc i) acc' t)"

definition runWebhookRetentionCycle ::
  "(nat \<Rightarrow> rnd) \<Rightarrow> (nat \<Rightarrow> time) \<Rightarrow> (nat \<Rightarrow> bool) \<Rightarrow> webhook_retention_policy \<Rightarrow> time \<Rightarrow> snapshot \<Rightarrow>
   (snapshot \<times> retention_result) option" where
  "runWebhookRetentionCycle rnd clock over policy now s =
     retention_loop rnd clock over (cycle_retention policy now) 0
       \<lparr>rr_Deliveries = 0, rr_Events = 0, rr_Subscriptions = 0\<rparr> s"

section \<open>One call\<close>

definition prunable_file :: "snapshot \<Rightarrow> bool" where
  "prunable_file s \<longleftrightarrow> keyed_by wd_ID (WebhookDeliveries s) \<and> go_map_ok (WebhookDeliveries s) \<and> go_map_ok (HumanTasks s)"

definition webhook_records :: "snapshot \<Rightarrow> nat" where
  "webhook_records s = length (WebhookDeliveries s) + length (ControlPlaneEvents s) + length (WebhookSubscriptions s)"

text \<open>Nothing is left for the policy to remove.\<close>

definition retention_done :: "retention_policy \<Rightarrow> snapshot \<Rightarrow> bool" where
  "retention_done policy s \<longleftrightarrow>
     (\<forall>(k, d) \<in> set (WebhookDeliveries s). \<not> webhookDeliveryExpired d policy) \<and>
     (\<forall>(k, e) \<in> set (ControlPlaneEvents s). \<exists>(k', d) \<in> set (WebhookDeliveries s). wd_EventID d = k) \<and>
     (rp_SubscriptionBefore policy \<noteq> 0 \<longrightarrow>
       (\<forall>(k, sub) \<in> set (WebhookSubscriptions s). \<forall>deleted. ws_DeletedAt sub = Some deleted \<longrightarrow> deleted < rp_SubscriptionBefore policy \<longrightarrow>
         (\<exists>(k', d) \<in> set (WebhookDeliveries s). webhookSubscriptionKey (wd_WorkspaceID d) (wd_SubscriptionID d) = k)))"

lemma drop_keys_filter: "drop_keys ks m = filter (\<lambda>(k, v). k \<notin> set ks) m"
  by (induction ks arbitrary: m) (auto simp: drop_keys_def AList.delete_eq intro!: filter_cong)

lemma drop_keys_Nil [simp]: "drop_keys [] m = m"
  by (simp add: drop_keys_def)

lemma drop_keys_le: "length (drop_keys ks m) \<le> length m"
  by (simp add: drop_keys_filter)

lemma drop_keys_less: "k \<in> set ks \<Longrightarrow> (k, v) \<in> set m \<Longrightarrow> length (drop_keys ks m) < length m"
  unfolding drop_keys_filter by (rule length_filter_less) auto

lemma write_file_webhooks:
  "WebhookDeliveries (write_file s) = WebhookDeliveries s" "ControlPlaneEvents (write_file s) = ControlPlaneEvents s"
  "WebhookSubscriptions (write_file s) = WebhookSubscriptions s"
  by (simp_all add: write_file_def Let_def)

lemma prune_total: "\<exists>v r. prune_webhooks policy u = Inr (v, r)"
  by (simp add: prune_webhooks_def Let_def)

lemma prune_frame:
  assumes "prunable_file s" and "prune_webhooks policy (ensureSnapshot s) = Inr (v, r)"
  shows "updateWithClock rnd now s (prune_webhooks policy) = Inr (write_file v, r)"
proof -
  have "HumanTasks v = HumanTasks s" using assms(2) by (auto simp: prune_webhooks_def Let_def)
  then have "run_hook rnd now (HumanTasks (ensureSnapshot s)) v = Inr v"
    by (intro run_hook_same) (use assms(1) in \<open>simp_all add: prunable_file_def\<close>)
  then show ?thesis by (simp add: updateWithClock_def assms(2))
qed

text \<open>What a call does to the file, with the batch size already normalised.\<close>

lemma prune_cases:
  assumes "PruneWebhookData rnd now policy s = Inr (t, result)" and "prunable_file s"
  obtains batch ds es ss where "0 < batch"
    and "ds = take batch (expired_deliveries policy s)"
    and "es = take (batch - length ds) (unreferenced_events (s\<lparr>WebhookDeliveries := drop_keys ds (WebhookDeliveries s)\<rparr>))"
    and "ss = (if rp_SubscriptionBefore policy = 0 then [] else take (batch - length ds - length es)
        (removable_subscriptions policy (s\<lparr>WebhookDeliveries := drop_keys ds (WebhookDeliveries s),
          ControlPlaneEvents := drop_keys es (ControlPlaneEvents s)\<rparr>)))"
    and "result = \<lparr>rr_Deliveries = length ds, rr_Events = length es, rr_Subscriptions = length ss\<rparr>"
    and "WebhookDeliveries t = drop_keys ds (WebhookDeliveries s)"
    and "ControlPlaneEvents t = drop_keys es (ControlPlaneEvents s)"
    and "WebhookSubscriptions t = drop_keys ss (WebhookSubscriptions s)"
    and "HumanTasks t = map_vals (\<lambda>k. persist_task) (HumanTasks s)"
    and "batch = nat (normalizedWebhookRetentionBatchSize (rp_BatchSize policy))"
proof -
  let ?policy = "policy\<lparr>rp_BatchSize := normalizedWebhookRetentionBatchSize (rp_BatchSize policy)\<rparr>"
  have exp: "expired_deliveries (policy\<lparr>rp_BatchSize := b\<rparr>) u = expired_deliveries policy u"
    and rem: "removable_subscriptions (policy\<lparr>rp_BatchSize := b\<rparr>) u = removable_subscriptions policy u" for u b
    by (simp_all add: expired_deliveries_def webhookDeliveryExpired_def removable_subscriptions_def cong: delivery_state.case_cong option.case_cong)
  obtain v where v: "prune_webhooks ?policy (ensureSnapshot s) = Inr (v, result)" and t: "t = write_file v"
    using assms(1) prune_frame [OF assms(2)] prune_total [of ?policy "ensureSnapshot s"] unfolding PruneWebhookData_def by fastforce
  have lists: "unreferenced_events (ensureSnapshot s\<lparr>WebhookDeliveries := a\<rparr>) = unreferenced_events (s\<lparr>WebhookDeliveries := a\<rparr>)"
    "removable_subscriptions policy (ensureSnapshot s\<lparr>WebhookDeliveries := a, ControlPlaneEvents := b\<rparr>) =
      removable_subscriptions policy (s\<lparr>WebhookDeliveries := a, ControlPlaneEvents := b\<rparr>)"
    "expired_deliveries policy (ensureSnapshot s) = expired_deliveries policy s" for a b
    by (simp_all add: unreferenced_events_def removable_subscriptions_def expired_deliveries_def)
  define batch where "batch = nat (normalizedWebhookRetentionBatchSize (rp_BatchSize policy))"
  show thesis
    by (rule that [of batch])
      (use v in \<open>auto simp: t prune_webhooks_def Let_def exp rem lists write_file_webhooks write_file_tasks batch_def
        normalizedWebhookRetentionBatchSize_def\<close>)
qed

lemma prune_returns:
  assumes "prunable_file s"
  shows "\<exists>t result. PruneWebhookData rnd now policy s = Inr (t, result)"
  unfolding PruneWebhookData_def using prune_frame [OF assms] prune_total by blast

lemma expired_member:
  assumes "prunable_file s"
  shows "k \<in> set (expired_deliveries policy s) \<longleftrightarrow> (\<exists>d. (k, d) \<in> set (WebhookDeliveries s) \<and> webhookDeliveryExpired d policy)"
proof -
  have "wd_ID d = k'" if "(k', d) \<in> set (WebhookDeliveries s)" for k' d
    using assms in_set_map_of [OF _ that] keyed_byD [of wd_ID "WebhookDeliveries s" k' d] by (simp add: prunable_file_def)
  then show ?thesis by (force simp: expired_deliveries_def)
qed

lemma prune_step:
  assumes prune: "PruneWebhookData rnd now policy s = Inr (t, result)" and ok: "prunable_file s"
  shows "prunable_file t"
    and "\<not> Empty result \<Longrightarrow> webhook_records t < webhook_records s"
    and "Empty result \<Longrightarrow> retention_done policy t"
proof -
  obtain batch ds es ss where batch: "0 < batch"
    and ds: "ds = take batch (expired_deliveries policy s)"
    and es: "es = take (batch - length ds) (unreferenced_events (s\<lparr>WebhookDeliveries := drop_keys ds (WebhookDeliveries s)\<rparr>))"
    and ss: "ss = (if rp_SubscriptionBefore policy = 0 then [] else take (batch - length ds - length es)
        (removable_subscriptions policy (s\<lparr>WebhookDeliveries := drop_keys ds (WebhookDeliveries s),
          ControlPlaneEvents := drop_keys es (ControlPlaneEvents s)\<rparr>)))"
    and result: "result = \<lparr>rr_Deliveries = length ds, rr_Events = length es, rr_Subscriptions = length ss\<rparr>"
    and wd: "WebhookDeliveries t = drop_keys ds (WebhookDeliveries s)"
    and ev: "ControlPlaneEvents t = drop_keys es (ControlPlaneEvents s)"
    and ws: "WebhookSubscriptions t = drop_keys ss (WebhookSubscriptions s)"
    and ht: "HumanTasks t = map_vals (\<lambda>k. persist_task) (HumanTasks s)"
    by (rule prune_cases [OF prune ok])
  show "prunable_file t"
    using ok by (auto simp: prunable_file_def wd ht keyed_by_def map_of_drop_keys go_map_ok_drop_keys)
  have less: "length (drop_keys ks m) < length m" if "ks \<noteq> []" "set ks \<subseteq> fst ` set m" for ks :: "string list" and m :: "(string, 'v) gomap"
  proof -
    have "hd ks \<in> fst ` set m" using that by (cases ks) simp_all
    then obtain v where "(hd ks, v) \<in> set m" by force
    then show ?thesis using that(1) by (intro drop_keys_less [of "hd ks" ks v m]) simp_all
  qed
  have sub: "set ds \<subseteq> fst ` set (WebhookDeliveries s)" "set es \<subseteq> fst ` set (ControlPlaneEvents s)"
    "set ss \<subseteq> fst ` set (WebhookSubscriptions s)"
    using expired_member [OF ok, of _ policy] unfolding ds es ss
    by (force dest: in_set_takeD, force simp: unreferenced_events_def dest: in_set_takeD,
        force simp: removable_subscriptions_def dest: in_set_takeD split: if_splits)
  show "webhook_records t < webhook_records s" if "\<not> Empty result"
  proof -
    have "ds \<noteq> [] \<or> es \<noteq> [] \<or> ss \<noteq> []" using that by (auto simp: Empty_def result)
    then show ?thesis
      using less [OF _ sub(1)] less [OF _ sub(2)] less [OF _ sub(3)]
        drop_keys_le [of ds "WebhookDeliveries s"] drop_keys_le [of es "ControlPlaneEvents s"] drop_keys_le [of ss "WebhookSubscriptions s"]
      by (fastforce simp: webhook_records_def wd ev ws)
  qed
  show "retention_done policy t" if "Empty result"
  proof -
    have nil: "ds = []" "es = []" "ss = []" using that by (auto simp: Empty_def result)
    then have same: "WebhookDeliveries t = WebhookDeliveries s" "ControlPlaneEvents t = ControlPlaneEvents s"
      "WebhookSubscriptions t = WebhookSubscriptions s" by (simp_all add: wd ev ws)
    have lists: "expired_deliveries policy s = []" "unreferenced_events s = []"
      "rp_SubscriptionBefore policy \<noteq> 0 \<Longrightarrow> removable_subscriptions policy s = []"
      using ds es ss nil batch by simp_all
    have nil: "sort xs = [] \<longleftrightarrow> xs = []" for xs :: "string list" by (metis set_empty set_sort)
    show ?thesis
      unfolding retention_done_def same
    proof (intro conjI impI)
      show "\<forall>(k, d) \<in> set (WebhookDeliveries s). \<not> webhookDeliveryExpired d policy"
        using lists(1) expired_member [OF ok, of _ policy] by auto
      show "\<forall>(k, e) \<in> set (ControlPlaneEvents s). \<exists>(k', d) \<in> set (WebhookDeliveries s). wd_EventID d = k"
        using lists(2) by (auto simp: unreferenced_events_def nil filter_empty_conv) force
    next
      assume "rp_SubscriptionBefore policy \<noteq> 0"
      then show "\<forall>(k, sub) \<in> set (WebhookSubscriptions s). \<forall>deleted. ws_DeletedAt sub = Some deleted \<longrightarrow>
          deleted < rp_SubscriptionBefore policy \<longrightarrow>
          (\<exists>(k', d) \<in> set (WebhookDeliveries s). webhookSubscriptionKey (wd_WorkspaceID d) (wd_SubscriptionID d) = k)"
        using lists(3) by (fastforce simp: removable_subscriptions_def nil filter_empty_conv)
    qed
  qed
qed

text \<open>The loop returns, whenever the context ends, and leaves nothing to remove when it does not end.\<close>

lemma loop_returns:
  "prunable_file s \<Longrightarrow> \<exists>t result. retention_loop rnd clock over retention i acc s = Some (t, result) \<and> prunable_file t \<and>
     ((\<forall>j. \<not> over j) \<longrightarrow> retention_done retention t)"
proof (induction "webhook_records s" arbitrary: s i acc rule: less_induct)
  case less
  obtain t result where call: "PruneWebhookData (rnd i) (clock i) retention s = Inr (t, result)"
    using prune_returns [OF less.prems] by blast
  note step = prune_step [OF call less.prems]
  show ?case
  proof (cases "over i \<or> Empty result")
    case True
    then show ?thesis
      using less.prems step by (subst retention_loop.simps) (auto simp: call)
  next
    case False
    then have "retention_loop rnd clock over retention i acc s =
        retention_loop rnd clock over retention (Suc i) (add_result acc result) t"
      by (subst retention_loop.simps) (simp add: call)
    then show ?thesis using less.hyps [OF step(2) step(1)] False by auto
  qed
qed

section \<open>Files of histories\<close>

abbreviation outbox_reachable :: "codec \<Rightarrow> outbox_history \<Rightarrow> bool" where
  "outbox_reachable cx \<equiv> reach outbox_initial (outbox_step cx)"

lemma reached_store: "outbox_reachable cx h \<Longrightarrow> reachable cx (history.truncate h)"
proof (induction rule: reach.induct)
  case (reach_init h)
  then have "initial (history.truncate h)" by (auto simp: outbox_initial_def initial_def history.truncate_def)
  then show ?case by (rule reach.intros(1))
next
  case (reach_step h h')
  then show ?case using outbox_step_store reach.intros(2) by metis
qed

lemma reached_prunable:
  assumes "outbox_reachable cx h"
  shows "prunable_file (state_file h)"
proof -
  have "store_ok (state_file h)"
    using store_history.reach_inv [OF reached_store [OF assms]] by (simp add: history_ok_def history.truncate_def)
  then have "go_map_ok (HumanTasks (state_file h))" using store_okD(2) by (simp add: tasks_ok_def)
  then show ?thesis using outbox_history.reach_inv [OF assms] by (simp add: prunable_file_def outbox_ok_def)
qed

end
