(* ===== verification/Egress.thy ===== *)
theory Egress
  imports Webhooks "HOL-Library.Word" "HOL-Library.Sublist"
begin

unbundle bit_operations_syntax

text \<open>
  The egress policy of webhook deliveries (internal/webhook/security.go): which addresses an endpoint may resolve to,
  and which addresses the transport then dials. Addresses are those of \<open>net/netip\<close>: 32 or 128 bits, the latter
  with a zone. URL parsing, address and prefix parsing and name resolution are the fields of \<open>egress_net\<close>.
\<close>

declare map_of_eq_Some_iff [simp del] Some_eq_map_of_iff [simp del]

section \<open>Addresses and prefixes\<close>

datatype addr = NoAddr | V4 "32 word" | V6 "128 word" string

datatype prefix = P4 "32 word" nat | P6 "128 word" nat

definition ip4 :: "nat \<Rightarrow> nat \<Rightarrow> nat \<Rightarrow> nat \<Rightarrow> 32 word" where
  "ip4 a b c d = of_nat (((a * 256 + b) * 256 + c) * 256 + d)"

definition ip6 :: "nat list \<Rightarrow> 128 word" where
  "ip6 segments = of_nat (foldl (\<lambda>acc segment. acc * 65536 + segment) 0 segments)"

text \<open>The first byte, and the first 16 bits.\<close>

definition byte4 :: "nat \<Rightarrow> 32 word \<Rightarrow> 32 word" where
  "byte4 i w = drop_bit (24 - 8 * i) w AND 0xff"

definition top16 :: "128 word \<Rightarrow> 128 word" where
  "top16 w = drop_bit 112 w"

fun Unmap :: "addr \<Rightarrow> addr" where
  "Unmap (V6 w z) = (if drop_bit 32 w = 0xffff then V4 (ucast w) else V6 w z)"
| "Unmap a = a"

fun IsUnspecified :: "addr \<Rightarrow> bool" where
  "IsUnspecified (V4 w) \<longleftrightarrow> w = 0"
| "IsUnspecified (V6 w z) \<longleftrightarrow> w = 0 \<and> z = []"
| "IsUnspecified NoAddr \<longleftrightarrow> False"

fun IsMulticast :: "addr \<Rightarrow> bool" where
  "IsMulticast (V4 w) \<longleftrightarrow> byte4 0 w AND 0xf0 = 0xe0"
| "IsMulticast (V6 w z) \<longleftrightarrow> drop_bit 120 w = 0xff"
| "IsMulticast NoAddr \<longleftrightarrow> False"

fun IsLinkLocalUnicast :: "addr \<Rightarrow> bool" where
  "IsLinkLocalUnicast (V4 w) \<longleftrightarrow> byte4 0 w = 169 \<and> byte4 1 w = 254"
| "IsLinkLocalUnicast (V6 w z) \<longleftrightarrow> top16 w AND 0xffc0 = 0xfe80"
| "IsLinkLocalUnicast NoAddr \<longleftrightarrow> False"

fun IsLinkLocalMulticast :: "addr \<Rightarrow> bool" where
  "IsLinkLocalMulticast (V4 w) \<longleftrightarrow> byte4 0 w = 224 \<and> byte4 1 w = 0 \<and> byte4 2 w = 0"
| "IsLinkLocalMulticast (V6 w z) \<longleftrightarrow> top16 w AND 0xff0f = 0xff02"
| "IsLinkLocalMulticast NoAddr \<longleftrightarrow> False"

fun IsLoopback :: "addr \<Rightarrow> bool" where
  "IsLoopback (V4 w) \<longleftrightarrow> byte4 0 w = 127"
| "IsLoopback (V6 w z) \<longleftrightarrow> w = 1"
| "IsLoopback NoAddr \<longleftrightarrow> False"

fun IsPrivate :: "addr \<Rightarrow> bool" where
  "IsPrivate (V4 w) \<longleftrightarrow> byte4 0 w = 10 \<or> (byte4 0 w = 172 \<and> byte4 1 w AND 0xf0 = 16) \<or> (byte4 0 w = 192 \<and> byte4 1 w = 168)"
| "IsPrivate (V6 w z) \<longleftrightarrow> drop_bit 120 w AND 0xfe = 0xfc"
| "IsPrivate NoAddr \<longleftrightarrow> False"

text \<open>A prefix contains no zoned address, and no address of the other family.\<close>

fun Contains :: "prefix \<Rightarrow> addr \<Rightarrow> bool" where
  "Contains (P4 p n) (V4 w) \<longleftrightarrow> n \<le> 32 \<and> drop_bit (32 - n) p = drop_bit (32 - n) w"
| "Contains (P6 p n) (V6 w z) \<longleftrightarrow> n \<le> 128 \<and> z = [] \<and> drop_bit (128 - n) p = drop_bit (128 - n) w"
| "Contains _ _ \<longleftrightarrow> False"

fun Masked :: "prefix \<Rightarrow> prefix" where
  "Masked (P4 p n) = P4 (push_bit (32 - n) (drop_bit (32 - n) p)) n"
| "Masked (P6 p n) = P6 (push_bit (128 - n) (drop_bit (128 - n) p)) n"

section \<open>The policy\<close>

record egress_policy =
  ep_AllowedHosts :: "string list"
  ep_AllowedCIDRs :: "prefix list"
  ep_AllowedInsecureHTTPHosts :: "string list"
  ep_AllowInsecureLoopback :: bool

record egress_net = net +
  url_port :: "parsed_url \<Rightarrow> string"
  parse_addr :: "string \<Rightarrow> addr option"
  parse_prefix :: "string \<Rightarrow> prefix option"
  lookup_ip :: "string \<Rightarrow> addr list option"

record resolved_endpoint =
  re_URL :: parsed_url
  re_Host :: string
  re_Port :: string
  re_Addresses :: "addr list"

datatype egress_error = ErrEgressPolicy | ErrResolution | ErrBadCIDR | ErrBadHost

definition trim_dot :: "string \<Rightarrow> string" where
  "trim_dot s = (if s \<noteq> [] \<and> last s = CHR ''.'' then butlast s else s)"

definition normalizeHost :: "string \<Rightarrow> string" where
  "normalizeHost host = trim_dot (to_lower (trim host))"

fun fields_sep :: "string \<Rightarrow> string list" where
  "fields_sep [] = [[]]"
| "fields_sep (c # cs) =
     (if c = CHR '','' \<or> c = CHR '';'' then [] # fields_sep cs
      else case fields_sep cs of f # fs \<Rightarrow> (c # f) # fs | [] \<Rightarrow> [[c]])"

definition splitList :: "string \<Rightarrow> string list" where
  "splitList raw = filter (\<lambda>v. v \<noteq> []) (map trim (filter (\<lambda>f. f \<noteq> []) (fields_sep raw)))"

fun uniqueStrings :: "string list \<Rightarrow> string list" where
  "uniqueStrings (x # y # xs) = (if x = y then uniqueStrings (y # xs) else x # uniqueStrings (y # xs))"
| "uniqueStrings xs = xs"

definition ParseAllowedCIDRs :: "egress_net \<Rightarrow> string \<Rightarrow> egress_error + prefix list" where
  "ParseAllowedCIDRs net raw =
     (let prefixes = map (parse_prefix net) (splitList raw)
      in if None \<in> set prefixes then Inl ErrBadCIDR else Inr (map (Masked \<circ> the) prefixes))"

definition bad_host :: "string \<Rightarrow> bool" where
  "bad_host host \<longleftrightarrow> host = [] \<or> list_ex (\<lambda>c. c \<in> set ''/:@'') host \<or>
     (CHR ''*'' \<in> set host \<and> \<not> has_prefix host ''*.'')"

definition ParseAllowedHosts :: "string \<Rightarrow> egress_error + string list" where
  "ParseAllowedHosts raw =
     (let hosts = map normalizeHost (splitList raw)
      in if list_ex bad_host hosts then Inl ErrBadHost else Inr (uniqueStrings (sort hosts)))"

definition host_matches :: "string \<Rightarrow> string \<Rightarrow> bool" where
  "host_matches host candidate0 =
     (let candidate = normalizeHost candidate0
      in candidate = host \<or>
         (has_prefix candidate ''*.'' \<and>
          (let suf = tl candidate in suffix suf host \<and> host \<noteq> tl suf)))"

definition hostAllowed :: "string \<Rightarrow> string list \<Rightarrow> bool" where
  "hostAllowed host candidates = list_ex (host_matches (normalizeHost host)) candidates"

definition metadataAddresses :: "addr list" where
  "metadataAddresses = [V4 (ip4 169 254 169 254), V4 (ip4 100 100 100 200),
     V6 (ip6 [0xfd00, 0xec2, 0, 0, 0, 0, 0, 0x254]) []]"

definition allowlistedNetworkPrefixes :: "prefix list" where
  "allowlistedNetworkPrefixes = [P4 (ip4 100 64 0 0) 10]"

definition alwaysBlockedAddressPrefixes :: "prefix list" where
  "alwaysBlockedAddressPrefixes = [P4 (ip4 0 0 0 0) 8, P4 (ip4 192 0 0 0) 24, P4 (ip4 192 0 2 0) 24,
     P4 (ip4 198 18 0 0) 15, P4 (ip4 198 51 100 0) 24, P4 (ip4 203 0 113 0) 24, P4 (ip4 240 0 0 0) 4,
     P6 (ip6 [0x100, 0, 0, 0, 0, 0, 0, 0]) 64, P6 (ip6 [0x2001, 0xdb8, 0, 0, 0, 0, 0, 0]) 32]"

definition isMetadataAddress :: "addr \<Rightarrow> bool" where
  "isMetadataAddress a \<longleftrightarrow> a \<in> set metadataAddresses"

definition isAlwaysBlockedAddress :: "addr \<Rightarrow> bool" where
  "isAlwaysBlockedAddress a \<longleftrightarrow> list_ex (\<lambda>p. Contains p a) alwaysBlockedAddressPrefixes"

definition isRestrictedAddress :: "addr \<Rightarrow> bool" where
  "isRestrictedAddress a \<longleftrightarrow> IsPrivate a \<or> list_ex (\<lambda>p. Contains p a) allowlistedNetworkPrefixes"

definition policy_allows :: "egress_policy \<Rightarrow> string \<Rightarrow> string \<Rightarrow> addr \<Rightarrow> bool" where
  "policy_allows policy host scheme address0 =
     (let address = Unmap address0
      in if isMetadataAddress address then False
         else if address = NoAddr \<or> IsUnspecified address \<or> IsMulticast address \<or> IsLinkLocalUnicast address \<or>
                 IsLinkLocalMulticast address then False
         else if isAlwaysBlockedAddress address then False
         else if IsLoopback address then ep_AllowInsecureLoopback policy \<and> scheme = ''http''
         else if scheme = ''http'' then hostAllowed host (ep_AllowedInsecureHTTPHosts policy)
         else if scheme \<noteq> ''https'' then False
         else if \<not> isRestrictedAddress address then True
         else if hostAllowed host (ep_AllowedHosts policy) then True
         else list_ex (\<lambda>p. Contains p address) (ep_AllowedCIDRs policy))"

definition policy_lookup :: "egress_net \<Rightarrow> string \<Rightarrow> addr list option" where
  "policy_lookup net host =
     (case parse_addr net host of
        Some a \<Rightarrow> Some [Unmap a]
      | None \<Rightarrow>
          (case lookup_ip net host of
             None \<Rightarrow> None
           | Some addresses \<Rightarrow> Some (rev (fold (\<lambda>a out. if Unmap a \<in> set out then out else Unmap a # out) addresses []))))"

definition ResolveEndpoint :: "egress_policy \<Rightarrow> egress_net \<Rightarrow> string \<Rightarrow> egress_error + resolved_endpoint" where
  "ResolveEndpoint policy net raw =
     (case validateEndpoint (net.truncate net) raw (ep_AllowInsecureLoopback policy) (ep_AllowedInsecureHTTPHosts policy \<noteq> []) of
        Inl e \<Rightarrow> Inl ErrEgressPolicy
      | Inr parsed \<Rightarrow>
          let host = normalizeHost (url_Hostname parsed)
          in case policy_lookup net host of
               None \<Rightarrow> Inl ErrResolution
             | Some addresses \<Rightarrow>
                 if addresses = [] then Inl ErrResolution
                 else if list_ex (\<lambda>a. \<not> policy_allows policy host (url_Scheme parsed) a) addresses then Inl ErrEgressPolicy
                 else Inr \<lparr>re_URL = parsed, re_Host = host,
                        re_Port = (if url_port net parsed = [] then (if url_Scheme parsed = ''https'' then ''443'' else ''80'')
                                   else url_port net parsed),
                        re_Addresses = addresses\<rparr>)"

text \<open>
  The dial function of the transport: the resolved addresses in order until one connects. \<open>dial\<close> is the dialer, and
  \<open>over\<close> whether the context has ended after a failed attempt. The result has the addresses that were dialled.
\<close>

fun dial_addresses :: "(addr \<Rightarrow> string \<Rightarrow> bool) \<Rightarrow> (addr \<Rightarrow> bool) \<Rightarrow> string \<Rightarrow> addr list \<Rightarrow> addr option \<times> addr list" where
  "dial_addresses dial over port [] = (None, [])"
| "dial_addresses dial over port (a # as) =
     (if dial a port then (Some a, [a])
      else if over a then (None, [a])
      else let (result, dialled) = dial_addresses dial over port as in (result, a # dialled))"

definition NewTransport :: "(addr \<Rightarrow> string \<Rightarrow> bool) \<Rightarrow> (addr \<Rightarrow> bool) \<Rightarrow> resolved_endpoint \<Rightarrow> addr option \<times> addr list" where
  "NewTransport dial over endpoint = dial_addresses dial over (re_Port endpoint) (re_Addresses endpoint)"

section \<open>Address classes as intervals\<close>

lemma unat_ip4: "a < 256 \<Longrightarrow> b < 256 \<Longrightarrow> c < 256 \<Longrightarrow> d < 256 \<Longrightarrow> unat (ip4 a b c d) = ((a * 256 + b) * 256 + c) * 256 + d"
  unfolding ip4_def by (subst unat_of_nat, subst mod_less) auto

lemma unat_drop: "unat (drop_bit n w) = unat w div 2 ^ n" for w :: "'a::len word"
proof -
  have "unat (drop_bit n w) = drop_bit n (take_bit LENGTH('a) (unat w))" by (rule unsigned_drop_bit_eq)
  also have "take_bit LENGTH('a) (unat w) = unat w" using unsigned_less [of w, where 'a = nat] by (simp add: take_bit_nat_eq_self)
  finally show ?thesis by (simp add: drop_bit_eq_div [of n "unat w"])
qed

lemma unat_byte4: "unat (byte4 i w) = unat w div 2 ^ (24 - 8 * i) mod 256"
proof -
  have "unat (byte4 i w) = take_bit 8 (unat (drop_bit (24 - 8 * i) w))"
    by (simp add: byte4_def unsigned_and_eq take_bit_eq_mask mask_eq_exp_minus_1)
  then show ?thesis by (simp add: unat_drop take_bit_eq_mod)
qed

lemma byte4_eq: "byte4 i w = numeral k \<longleftrightarrow> unat w div 2 ^ (24 - 8 * i) mod 256 = unat (numeral k :: 32 word)"
  using unat_byte4 [of i w] by (auto simp: word_unat_eq_iff)

lemma and_high:
  fixes x :: nat
  assumes "x < 2 ^ (a + b)"
  shows "x AND push_bit a (mask b) = push_bit a (drop_bit a x)"
proof (rule bit_eqI)
  fix n
  have "bit x n \<Longrightarrow> n < a + b"
    using assms by (metis bit_take_bit_iff take_bit_nat_eq_self)
  then show "bit (x AND push_bit a (mask b)) n = bit (push_bit a (drop_bit a x)) n"
    by (auto simp: bit_and_iff bit_push_bit_iff bit_mask_iff bit_drop_bit_eq)
qed

lemma and_240: "(n :: nat) < 256 \<Longrightarrow> n AND 240 = n div 16 * 16"
  using and_high [of n 4 4] by (simp add: drop_bit_eq_div push_bit_eq_mult mask_eq_exp_minus_1)

lemma prefix4_interval:
  assumes "k \<le> 32"
  shows "Contains (P4 p (32 - k)) (V4 w) \<longleftrightarrow> unat w div 2 ^ k = unat p div 2 ^ k"
  using assms by (auto simp: word_unat_eq_iff unat_drop)

lemma div_interval: "0 < m \<Longrightarrow> n div m = q \<longleftrightarrow> q * m \<le> n \<and> n < (q + 1) * m" for n :: nat
  using less_eq_div_iff_mult_less_eq [of m q n] div_less_iff_less_mult [of m n "q + 1"] by auto

lemma byte_pair: "b < 256 \<Longrightarrow> (y div 256 = a \<and> y mod 256 = b) \<longleftrightarrow> y = a * 256 + b" for y :: nat
  by auto

text \<open>The classes of IPv4 addresses are ranges of numbers.\<close>

definition within4 :: "32 word \<Rightarrow> 32 word \<Rightarrow> 32 word \<Rightarrow> bool" where
  "within4 lo hi w \<longleftrightarrow> lo \<le> w \<and> w \<le> hi"

lemma within4_div:
  assumes "unat lo = q * m" and "unat hi = (q + 1) * m - 1" and "0 < m"
  shows "within4 lo hi w \<longleftrightarrow> unat w div m = q"
  using div_interval [OF assms(3), of "unat w" q] assms by (auto simp: within4_def word_le_nat_alt)

lemma first_byte: "byte4 0 w = numeral k \<longleftrightarrow> unat w div 16777216 = unat (numeral k :: 32 word)"
proof -
  have "unat w div 16777216 < 256" using unsigned_less [of w, where 'a = nat] by (simp add: div_less_iff_less_mult)
  then show ?thesis by (simp add: byte4_eq)
qed

lemma two_bytes:
  assumes "unat (b :: 32 word) < 256"
  shows "byte4 0 w = a \<and> byte4 (Suc 0) w = b \<longleftrightarrow> unat w div 65536 = unat a * 256 + unat b"
proof -
  have "unat w div 16777216 = unat w div 65536 div 256" by (simp add: div_mult2_eq [symmetric])
  moreover have "unat w div 16777216 mod 256 = unat w div 16777216"
    using unsigned_less [of w, where 'a = nat] by (simp add: div_less_iff_less_mult)
  ultimately have "unat (byte4 0 w) = unat w div 65536 div 256" "unat (byte4 (Suc 0) w) = unat w div 65536 mod 256"
    by (simp_all add: unat_byte4)
  then show ?thesis unfolding word_unat_eq_iff byte_pair [OF assms, symmetric] by simp
qed

lemma loopback_range: "IsLoopback (V4 w) \<longleftrightarrow> within4 (ip4 127 0 0 0) (ip4 127 255 255 255) w"
  by (subst within4_div [of _ 127 16777216]) (simp_all add: unat_ip4 first_byte)

lemma link_local_range: "IsLinkLocalUnicast (V4 w) \<longleftrightarrow> within4 (ip4 169 254 0 0) (ip4 169 254 255 255) w"
  by (subst within4_div [of _ 43518 65536]) (simp_all add: unat_ip4 two_bytes)

lemma and_240_eq: "byte4 i w AND 240 = numeral k \<longleftrightarrow> unat (byte4 i w) div 16 * 16 = unat (numeral k :: 32 word)"
proof -
  have "unat (byte4 i w AND 240) = unat (byte4 i w) div 16 * 16"
    using and_240 [of "unat (byte4 i w)"] unat_byte4 [of i w] by (simp add: unsigned_and_eq)
  then show ?thesis by (auto simp: word_unat_eq_iff)
qed

lemma multicast_range: "IsMulticast (V4 w) \<longleftrightarrow> within4 (ip4 224 0 0 0) (ip4 239 255 255 255) w"
proof -
  have n: "unat w div 16777216 < 256" using unsigned_less [of w, where 'a = nat] by (simp add: div_less_iff_less_mult)
  have "unat w div 268435456 = unat w div 16777216 div 16" by (simp add: div_mult2_eq [symmetric])
  then show ?thesis
    using n by (subst within4_div [of _ 14 268435456]) (simp_all add: unat_ip4 and_240_eq unat_byte4)
qed

lemma private_range:
  "IsPrivate (V4 w) \<longleftrightarrow> within4 (ip4 10 0 0 0) (ip4 10 255 255 255) w \<or>
     within4 (ip4 172 16 0 0) (ip4 172 31 255 255) w \<or> within4 (ip4 192 168 0 0) (ip4 192 168 255 255) w"
proof -
  have "(byte4 0 w = 172 \<and> byte4 1 w AND 240 = 16) \<longleftrightarrow> unat w div 1048576 = 2753"
  proof -
    have y: "unat w div 16777216 = unat w div 65536 div 256" "unat w div 1048576 = unat w div 65536 div 16"
      by (simp_all add: div_mult2_eq [symmetric])
    have "(y div 256 = 172 \<and> y mod 256 div 16 * 16 = 16) \<longleftrightarrow> y div 16 = 2753" for y :: nat
    proof -
      have "y mod 256 div 16 = y div 16 mod 16" "y div 256 = y div 16 div 16"
        using mod_mult2_eq [of y 16 16] by (simp_all add: div_mult2_eq [symmetric])
      moreover have "(z div 16 = 172 \<and> z mod 16 = 1) \<longleftrightarrow> z = 2753" for z :: nat by presburger
      ultimately show ?thesis by simp
    qed
    then show ?thesis by (simp add: first_byte and_240_eq unat_byte4 y)
  qed
  moreover have "within4 (ip4 172 16 0 0) (ip4 172 31 255 255) w \<longleftrightarrow> unat w div 1048576 = 2753"
    by (subst within4_div [of _ 2753 1048576]) (simp_all add: unat_ip4)
  moreover have "within4 (ip4 10 0 0 0) (ip4 10 255 255 255) w \<longleftrightarrow> byte4 0 w = 10"
    by (subst within4_div [of _ 10 16777216]) (simp_all add: unat_ip4 first_byte)
  moreover have "within4 (ip4 192 168 0 0) (ip4 192 168 255 255) w \<longleftrightarrow> byte4 0 w = 192 \<and> byte4 1 w = 168"
    by (subst within4_div [of _ 49320 65536]) (simp_all add: unat_ip4 two_bytes)
  ultimately show ?thesis by simp
qed

section \<open>The reference decision\<close>

text \<open>
  The decision for IPv4 written as ranges: special purpose addresses are never allowed, loopback only over HTTP when the
  operator allows it, and an internal address only for an allowed host or an allowed network.
\<close>

definition forbidden4 :: "(32 word \<times> 32 word) list" where
  "forbidden4 = [(ip4 0 0 0 0, ip4 0 255 255 255), (ip4 169 254 0 0, ip4 169 254 255 255),
     (ip4 192 0 0 0, ip4 192 0 0 255), (ip4 192 0 2 0, ip4 192 0 2 255), (ip4 198 18 0 0, ip4 198 19 255 255),
     (ip4 198 51 100 0, ip4 198 51 100 255), (ip4 203 0 113 0, ip4 203 0 113 255),
     (ip4 224 0 0 0, ip4 239 255 255 255), (ip4 240 0 0 0, ip4 255 255 255 255), (ip4 100 100 100 200, ip4 100 100 100 200)]"

definition internal4 :: "(32 word \<times> 32 word) list" where
  "internal4 = [(ip4 10 0 0 0, ip4 10 255 255 255), (ip4 172 16 0 0, ip4 172 31 255 255),
     (ip4 192 168 0 0, ip4 192 168 255 255), (ip4 100 64 0 0, ip4 100 127 255 255)]"

definition in_ranges :: "(32 word \<times> 32 word) list \<Rightarrow> 32 word \<Rightarrow> bool" where
  "in_ranges ranges w \<longleftrightarrow> list_ex (\<lambda>(lo, hi). within4 lo hi w) ranges"

definition allowed4 :: "egress_policy \<Rightarrow> string \<Rightarrow> string \<Rightarrow> 32 word \<Rightarrow> bool" where
  "allowed4 policy host scheme w \<longleftrightarrow>
     \<not> in_ranges forbidden4 w \<and>
     (if in_ranges [(ip4 127 0 0 0, ip4 127 255 255 255)] w then ep_AllowInsecureLoopback policy \<and> scheme = ''http''
      else if scheme = ''http'' then hostAllowed host (ep_AllowedInsecureHTTPHosts policy)
      else scheme = ''https'' \<and>
        (in_ranges internal4 w \<longrightarrow>
           hostAllowed host (ep_AllowedHosts policy) \<or> list_ex (\<lambda>p. Contains p (V4 w)) (ep_AllowedCIDRs policy)))"

lemma prefix_range:
  assumes "unat lo = q * 2 ^ k" and "unat hi = (q + 1) * 2 ^ k - 1" and "n = 32 - k" and "k \<le> 32"
  shows "Contains (P4 lo n) (V4 w) \<longleftrightarrow> within4 lo hi w"
  using prefix4_interval [OF assms(4), of lo w] within4_div [OF assms(1,2), of w] assms(1,3) by simp

lemma blocked_ranges:
  "Contains (P4 (ip4 0 0 0 0) 8) (V4 w) \<longleftrightarrow> within4 (ip4 0 0 0 0) (ip4 0 255 255 255) w"
  "Contains (P4 (ip4 192 0 0 0) 24) (V4 w) \<longleftrightarrow> within4 (ip4 192 0 0 0) (ip4 192 0 0 255) w"
  "Contains (P4 (ip4 192 0 2 0) 24) (V4 w) \<longleftrightarrow> within4 (ip4 192 0 2 0) (ip4 192 0 2 255) w"
  "Contains (P4 (ip4 198 18 0 0) 15) (V4 w) \<longleftrightarrow> within4 (ip4 198 18 0 0) (ip4 198 19 255 255) w"
  "Contains (P4 (ip4 198 51 100 0) 24) (V4 w) \<longleftrightarrow> within4 (ip4 198 51 100 0) (ip4 198 51 100 255) w"
  "Contains (P4 (ip4 203 0 113 0) 24) (V4 w) \<longleftrightarrow> within4 (ip4 203 0 113 0) (ip4 203 0 113 255) w"
  "Contains (P4 (ip4 240 0 0 0) 4) (V4 w) \<longleftrightarrow> within4 (ip4 240 0 0 0) (ip4 255 255 255 255) w"
  "Contains (P4 (ip4 100 64 0 0) 10) (V4 w) \<longleftrightarrow> within4 (ip4 100 64 0 0) (ip4 100 127 255 255) w"
  by (rule prefix_range [where k = 24 and q = 0] prefix_range [where k = 8 and q = 12582912]
      prefix_range [where k = 8 and q = 12582914] prefix_range [where k = 17 and q = 25353]
      prefix_range [where k = 8 and q = 12989284] prefix_range [where k = 8 and q = 13303921]
      prefix_range [where k = 28 and q = 15] prefix_range [where k = 22 and q = 401]; simp add: unat_ip4)+

lemma point_range: "within4 a a w \<longleftrightarrow> w = a"
  by (auto simp: within4_def)

lemma link_multicast4: "IsLinkLocalMulticast (V4 w) \<Longrightarrow> IsMulticast (V4 w)"
  by (simp add: and_240_eq)

lemma metadata_link_local: "within4 (ip4 169 254 0 0) (ip4 169 254 255 255) (ip4 169 254 169 254)"
  by (simp add: within4_def word_le_nat_alt unat_ip4)

lemma policy_allows_V4: "policy_allows policy host scheme (V4 w) \<longleftrightarrow> allowed4 policy host scheme w"
proof -
  have p6: "\<not> Contains (P6 p n) (V4 w)" for p n by simp
  have unspecified: "IsUnspecified (V4 w) \<Longrightarrow> within4 (ip4 0 0 0 0) (ip4 0 255 255 255) w"
    by (simp add: within4_def word_le_nat_alt unat_ip4)
  have metadata: "isMetadataAddress (V4 w) \<longleftrightarrow> w = ip4 169 254 169 254 \<or> within4 (ip4 100 100 100 200) (ip4 100 100 100 200) w"
    by (simp add: isMetadataAddress_def metadataAddresses_def point_range)
  have blocked: "isAlwaysBlockedAddress (V4 w) \<longleftrightarrow> list_ex (\<lambda>p. Contains p (V4 w)) alwaysBlockedAddressPrefixes"
    by (simp add: isAlwaysBlockedAddress_def)
  have special: "(isMetadataAddress (V4 w) \<or> IsUnspecified (V4 w) \<or> IsMulticast (V4 w) \<or> IsLinkLocalUnicast (V4 w) \<or>
      IsLinkLocalMulticast (V4 w) \<or> isAlwaysBlockedAddress (V4 w)) \<longleftrightarrow> in_ranges forbidden4 w"
    unfolding metadata blocked alwaysBlockedAddressPrefixes_def in_ranges_def forbidden4_def list_ex_Nil_iff list_ex_Cons_iff prod.case blocked_ranges
      multicast_range link_local_range
    using unspecified link_multicast4 [of w] metadata_link_local p6 multicast_range [of w] by blast
  have internal: "isRestrictedAddress (V4 w) \<longleftrightarrow> in_ranges internal4 w"
    unfolding isRestrictedAddress_def allowlistedNetworkPrefixes_def private_range in_ranges_def internal4_def list_ex_Nil_iff list_ex_Cons_iff
      prod.case blocked_ranges by blast
  have loop: "IsLoopback (V4 w) \<longleftrightarrow> in_ranges [(ip4 127 0 0 0, ip4 127 255 255 255)] w"
    unfolding in_ranges_def loopback_range by simp
  have "Unmap (V4 w) = V4 w" "V4 w \<noteq> NoAddr" by simp_all
  then show ?thesis
    unfolding policy_allows_def allowed4_def Let_def special [symmetric] internal [symmetric] loop [symmetric] by auto
qed

section \<open>What the transport dials\<close>

lemma Unmap_idem [simp]: "Unmap (Unmap a) = Unmap a"
  by (cases a) auto

lemma lookup_unmapped: "policy_lookup net host = Some as \<Longrightarrow> list_all (\<lambda>a. Unmap a = a) as"
proof -
  let ?step = "\<lambda>a out. if Unmap a \<in> set out then out else Unmap a # out"
  have "list_all (\<lambda>a. Unmap a = a) out \<Longrightarrow> list_all (\<lambda>a. Unmap a = a) (fold ?step xs out)" for xs out
  proof (induction xs arbitrary: out)
    case (Cons x xs)
    show ?case using Cons.IH [of "?step x out"] Cons.prems by simp
  qed simp
  from this [of "[]"] show "policy_lookup net host = Some as \<Longrightarrow> ?thesis"
    by (auto simp: policy_lookup_def list_all_iff split: option.splits)
qed

lemma resolved_allowed:
  assumes "ResolveEndpoint policy net raw = Inr ep"
  shows "re_Addresses ep \<noteq> [] \<and>
    (\<forall>a \<in> set (re_Addresses ep). Unmap a = a \<and> policy_allows policy (re_Host ep) (url_Scheme (re_URL ep)) a)"
  using assms
  by (auto simp: ResolveEndpoint_def Let_def list_ex_iff list_all_iff dest!: lookup_unmapped split: sum.splits option.splits if_splits)

lemma dialled_resolved: "NewTransport dial over ep = (result, dialled) \<Longrightarrow>
  set dialled \<subseteq> set (re_Addresses ep) \<and> (\<forall>a. result = Some a \<longrightarrow> a \<in> set dialled)"
proof -
  have "dial_addresses dial over port as = (result, dialled) \<Longrightarrow> set dialled \<subseteq> set as \<and> (\<forall>a. result = Some a \<longrightarrow> a \<in> set dialled)"
    for port as result dialled
    by (induction as arbitrary: result dialled) (auto split: if_splits prod.splits)
  then show "NewTransport dial over ep = (result, dialled) \<Longrightarrow> ?thesis"
    by (simp add: NewTransport_def)
qed

text \<open>An IPv6 address that is allowed is none of the special ones.\<close>

lemma policy_allows_V6:
  "policy_allows policy host scheme (V6 w z) \<Longrightarrow> Unmap (V6 w z) = V6 w z \<Longrightarrow>
   drop_bit 120 w \<noteq> 0xff \<and> top16 w AND 0xffc0 \<noteq> 0xfe80 \<and> (z = [] \<longrightarrow> w \<noteq> 0) \<and>
   (w = 1 \<longrightarrow> ep_AllowInsecureLoopback policy \<and> scheme = ''http'') \<and>
   (drop_bit 120 w AND 0xfe = 0xfc \<longrightarrow> scheme = ''https'' \<longrightarrow>
      hostAllowed host (ep_AllowedHosts policy) \<or> list_ex (\<lambda>p. Contains p (V6 w z)) (ep_AllowedCIDRs policy))"
  by (auto simp: policy_allows_def Let_def isRestrictedAddress_def split: if_splits)

section \<open>Configured hosts\<close>

lemma uniqueStrings_sorted: "sorted xs \<Longrightarrow> uniqueStrings xs = sorted_set xs"
proof -
  have "sorted (uniqueStrings xs) \<and> distinct (uniqueStrings xs) \<and> set (uniqueStrings xs) = set xs" if "sorted xs" for xs :: "string list"
    using that
  proof (induction xs rule: uniqueStrings.induct)
    case (1 x y xs)
    then show ?case by (auto simp: order.antisym)
  qed auto
  then show "sorted xs \<Longrightarrow> uniqueStrings xs = sorted_set xs"
    by (metis distinct_sorted_set set_sorted_set sorted_distinct_set_unique sorted_sorted_set)
qed

end
