(* ===== verification/Signature.thy ===== *)
theory Signature
  imports ExecLimits Sha256
begin

unbundle bit_operations_syntax

text \<open>
  Webhook signatures (pkg/webhook/signature.go): the sender signs the timestamp and the body with HMAC-SHA256, and a
  receiver verifies the signature and that the timestamp is close to its clock. HMAC is written out over the SHA-256
  of the development; \<open>strconv.ParseInt\<close> and the 64-bit arithmetic of \<open>time.Unix\<close> are written out too.
\<close>

declare map_of_eq_Some_iff [simp del] Some_eq_map_of_iff [simp del]

section \<open>HMAC and decimal numbers\<close>

definition hmac_key :: "nat list \<Rightarrow> nat list" where
  "hmac_key key = (let k = (if length key > 64 then sha256 key else key) in k @ replicate (64 - length k) 0)"

definition hmac_sha256 :: "nat list \<Rightarrow> nat list \<Rightarrow> nat list" where
  "hmac_sha256 key message =
     sha256 (map (\<lambda>b. b XOR 92) (hmac_key key) @ sha256 (map (\<lambda>b. b XOR 54) (hmac_key key) @ message))"

definition digits_value :: "string \<Rightarrow> nat" where
  "digits_value ds = foldl (\<lambda>n c. 10 * n + (byte c - 48)) 0 ds"

text \<open>\<open>strconv.ParseInt(s, 10, 64)\<close>.\<close>

definition parse_int64 :: "string \<Rightarrow> int option" where
  "parse_int64 s =
     (let neg = (s \<noteq> [] \<and> hd s = CHR ''-''); signed = (s \<noteq> [] \<and> (hd s = CHR ''-'' \<or> hd s = CHR ''+''));
          ds = (if signed then tl s else s); n = int (digits_value ds)
      in if ds = [] \<or> \<not> list_all is_digit ds then None
         else if neg then (if n \<le> 2 ^ 63 then Some (- n) else None)
         else if n < 2 ^ 63 then Some n else None)"

definition wrap64 :: "int \<Rightarrow> int" where
  "wrap64 n = (n + 2 ^ 63) mod 2 ^ 64 - 2 ^ 63"

text \<open>\<open>time.Unix(seconds, 0)\<close> adds the seconds from year one to 1970 in 64 bits.\<close>

definition time_Unix :: "int \<Rightarrow> time" where
  "time_Unix seconds = wrap64 (seconds + unix_epoch) * nanos_per_second"

section \<open>Signing and verifying\<close>

definition HeaderEventID :: string where "HeaderEventID = ''X-Windforce-Event''"
definition HeaderEventType :: string where "HeaderEventType = ''X-Windforce-Event-Type''"
definition HeaderDelivery :: string where "HeaderDelivery = ''X-Windforce-Delivery''"
definition HeaderTimestamp :: string where "HeaderTimestamp = ''X-Windforce-Timestamp''"
definition HeaderSignature :: string where "HeaderSignature = ''X-Windforce-Signature''"

definition DefaultTimestampTolerance :: duration where
  "DefaultTimestampTolerance = 5 * 60 * nanos_per_second"

record verification =
  vf_EventID :: string
  vf_EventType :: string
  vf_DeliveryID :: string
  vf_Timestamp :: time

record verifier =
  vr_Secret :: string
  vr_TimestampTolerance :: duration

definition TimestampValue :: "time \<Rightarrow> string" where
  "TimestampValue t = itoa (unix_seconds t)"

definition Sign :: "string \<Rightarrow> string \<Rightarrow> string \<Rightarrow> string" where
  "Sign secret timestamp body =
     ''v1='' @ hex_encode (hmac_sha256 (map byte secret) (map byte (timestamp @ ''.'' @ body)))"

definition VerifySignature :: "string \<Rightarrow> string \<Rightarrow> string \<Rightarrow> string \<Rightarrow> bool" where
  "VerifySignature secret timestamp body sig =
     (let provided = trim sig
      in has_prefix provided ''v1='' \<and> Sign secret timestamp body = provided)"

definition verificationError :: "string \<Rightarrow> error" where
  "verificationError message = ErrOther (''windforce webhook verification failed: '' @ message)"

text \<open>\<open>header\<close> is the \<open>Get\<close> of the request header: the first value under a name, or the empty string.\<close>

definition Verify :: "verifier \<Rightarrow> time \<Rightarrow> (string \<Rightarrow> string) \<Rightarrow> string \<Rightarrow> verification res" where
  "Verify v now header body =
     (if trim (vr_Secret v) = [] then Inl (verificationError ''secret is required'')
      else
        let eventID = trim (header HeaderEventID); eventType = trim (header HeaderEventType);
            deliveryID = trim (header HeaderDelivery); timestampValue = trim (header HeaderTimestamp)
        in if eventID = [] \<or> eventType = [] \<or> deliveryID = [] \<or> timestampValue = []
           then Inl (verificationError ''required identity headers are missing'')
           else case parse_int64 timestampValue of
                  None \<Rightarrow> Inl (verificationError ''timestamp is invalid'')
                | Some seconds \<Rightarrow>
                    let timestamp = time_Unix seconds;
                        tolerance = (if vr_TimestampTolerance v \<le> 0 then DefaultTimestampTolerance else vr_TimestampTolerance v)
                    in if timestamp < now - tolerance \<or> timestamp > now + tolerance
                       then Inl (verificationError ''timestamp is outside the allowed window'')
                       else if \<not> VerifySignature (vr_Secret v) timestampValue body (header HeaderSignature)
                       then Inl (verificationError ''signature is invalid'')
                       else Inr \<lparr>vf_EventID = eventID, vf_EventType = eventType, vf_DeliveryID = deliveryID,
                              vf_Timestamp = timestamp\<rparr>)"

section \<open>Round trips\<close>

lemma trim_ends:
  assumes "s \<noteq> []" and "clean_rune (byte (hd s))" and "clean_rune (byte (last s))"
  shows "trim s = s"
proof -
  have h: "ws_head (map byte s) = 0" using assms by (cases s) (simp_all add: ws_head_clean)
  have l: "ws_last (map byte (rev s)) = 0"
    using assms by (cases "rev s") (auto simp: ws_last_clean last_rev [symmetric] hd_rev)
  show ?thesis
    using drop_ws_fixed [of ws_head s, OF h] drop_ws_fixed [of ws_last "rev s", OF l] by (simp add: trim_def)
qed

lemma digits_value_append: "digits_value (ds @ [c]) = 10 * digits_value ds + (byte c - 48)"
  by (simp add: digits_value_def)

lemma digit_byte [simp]: "n < 10 \<Longrightarrow> byte (char_of (48 + n)) = 48 + n"
  by (simp add: byte_def)

lemma is_digit_char: "n < 10 \<Longrightarrow> is_digit (char_of (48 + n))" for n :: nat
  by (simp add: is_digit_def)

lemma digits10_digits: "list_all is_digit (digits10 n) \<and> digits10 n \<noteq> [] \<and> digits_value (digits10 n) = n"
proof (induction n rule: digits10.induct)
  case (1 n)
  show ?case
  proof (cases "n < 10")
    case True
    then show ?thesis by (subst (1 2 3) digits10.simps) (simp add: is_digit_def digits_value_def)
  next
    case False
    then show ?thesis
      using 1 [OF False] is_digit_char [of "n mod 10"]
      by (subst (1 2 3) digits10.simps) (simp add: digits_value_append)
  qed
qed

lemma digit_not_sign: "is_digit c \<Longrightarrow> c \<noteq> CHR ''-'' \<and> c \<noteq> CHR ''+''"
  by (auto simp: is_digit_def byte_def)

lemma parse_itoa:
  assumes "- (2 ^ 63) \<le> n" and "n < 2 ^ 63"
  shows "parse_int64 (itoa n) = Some n"
proof (cases "n < 0")
  case True
  then show ?thesis
    using digits10_digits [of "nat (- n)"] assms by (auto simp: parse_int64_def itoa_def Let_def)
next
  case False
  have d: "list_all is_digit (digits10 (nat n))" "digits10 (nat n) \<noteq> []" "digits_value (digits10 (nat n)) = nat n"
    using digits10_digits [of "nat n"] by simp_all
  then have "hd (digits10 (nat n)) \<noteq> CHR ''-'' \<and> hd (digits10 (nat n)) \<noteq> CHR ''+''"
    by (cases "digits10 (nat n)") (simp_all add: digit_not_sign)
  then show ?thesis using False assms d by (simp add: parse_int64_def itoa_def Let_def)
qed

lemma digit_clean: "is_digit c \<Longrightarrow> clean_rune (byte c)"
  by (auto simp: is_digit_def clean_rune_def)

lemma itoa_clean: "list_all (clean_rune \<circ> byte) (itoa n)"
proof -
  have "list_all (clean_rune \<circ> byte) (digits10 k)" for k
    using digits10_digits [of k] digit_clean by (auto simp: list_all_iff)
  moreover have "clean_rune (byte (CHR ''-''))" by (simp add: clean_rune_def byte_def)
  ultimately show ?thesis by (simp add: itoa_def)
qed

lemma itoa_not_Nil [simp]: "itoa n \<noteq> []"
  using digits10_digits by (auto simp: itoa_def)

lemma trim_itoa [simp]: "trim (itoa n) = itoa n"
  using itoa_clean by (rule trim_clean)

lemma wrap64_id: "- (2 ^ 63) \<le> n \<Longrightarrow> n < 2 ^ 63 \<Longrightarrow> wrap64 n = n"
  by (simp add: wrap64_def mod_pos_pos_trivial)

lemma hmac_length: "length (hmac_sha256 k m) = 32" and hmac_bytes: "b \<in> set (hmac_sha256 k m) \<Longrightarrow> b < 256"
  by (auto simp: hmac_sha256_def dest: sha256_bytes)

lemma hex_digit_clean: "hex_digit c \<Longrightarrow> clean_rune (byte c)"
  by (auto simp: hex_digit_def is_digit_def clean_rune_def)

lemma trim_Sign: "trim (Sign secret timestamp body) = Sign secret timestamp body"
proof (rule trim_ends)
  let ?h = "hex_encode (hmac_sha256 (map byte secret) (map byte (timestamp @ ''.'' @ body)))"
  have "length ?h = 64" by (simp add: hmac_length)
  then have ne: "?h \<noteq> []" by (metis list.size(3) zero_neq_numeral)
  have "list_all hex_digit ?h"
    using hex_decodable_hex_encode hmac_bytes by (force simp: hex_decodable_def)
  then have "clean_rune (byte (last ?h))" using ne by (auto simp: list_all_iff hex_digit_clean)
  then show "clean_rune (byte (last (Sign secret timestamp body)))" using ne by (simp add: Sign_def)
  show "clean_rune (byte (hd (Sign secret timestamp body)))" by (simp add: Sign_def clean_rune_def byte_def)
qed (simp add: Sign_def)

lemma VerifySignature_iff: "VerifySignature secret timestamp body sig \<longleftrightarrow> trim sig = Sign secret timestamp body"
  by (auto simp: VerifySignature_def Let_def has_prefix_iff) (auto simp: Sign_def)

text \<open>The timestamp header loses less than a second.\<close>

lemma timestamp_roundtrip:
  assumes "- (2 ^ 63) \<le> unix_seconds t" and "unix_seconds t + unix_epoch < 2 ^ 63"
  shows "parse_int64 (TimestampValue t) = Some (unix_seconds t)"
    and "time_Unix (unix_seconds t) \<le> t \<and> t < time_Unix (unix_seconds t) + nanos_per_second"
proof -
  show "parse_int64 (TimestampValue t) = Some (unix_seconds t)"
    unfolding TimestampValue_def by (rule parse_itoa) (use assms in \<open>auto simp: unix_epoch_def\<close>)
  have "wrap64 (unix_seconds t + unix_epoch) = t div nanos_per_second"
    by (subst wrap64_id) (use assms in \<open>auto simp: unix_seconds_def unix_epoch_def\<close>)
  then show "time_Unix (unix_seconds t) \<le> t \<and> t < time_Unix (unix_seconds t) + nanos_per_second"
  proof -
    assume w: "wrap64 (unix_seconds t + unix_epoch) = t div nanos_per_second"
    have "t = t div nanos_per_second * nanos_per_second + t mod nanos_per_second" by simp
    moreover have "0 \<le> t mod nanos_per_second" "t mod nanos_per_second < nanos_per_second"
      by (simp_all add: nanos_per_second_def)
    ultimately show ?thesis unfolding time_Unix_def w by linarith
  qed
qed

end
