(* ===== verification/Dispatch.thy ===== *)
theory Dispatch
  imports Egress Signature Outbox
begin

unbundle bit_operations_syntax

text \<open>
  The webhook dispatcher (internal/webhook/dispatcher.go) and its HTTP sender (internal/webhook/sender.go). One iteration
  claims a delivery, sends it, turns the outcome into a result and completes the delivery under its lease. The HTTP
  client, the clock readings and the host name are arguments; so is what other processes do to the file between the
  claim and the completion.
\<close>

declare map_of_eq_Some_iff [simp del] Some_eq_map_of_iff [simp del]

section \<open>Attempts\<close>

datatype attempt_outcome = AttemptSucceeded | AttemptRetry | AttemptTerminal

record attempt_result =
  ar_Outcome :: attempt_outcome
  ar_ResponseStatus :: "int option"
  ar_Latency :: duration
  ar_RetryAt :: "time option"
  ar_ErrorSummary :: string

record dispatcher =
  dp_WorkerID :: string
  dp_LeaseTTL :: duration
  dp_MaxAttempts :: int
  dp_BackoffBase :: duration
  dp_BackoffMax :: duration

definition defaultDispatcherLeaseTTL :: duration where "defaultDispatcherLeaseTTL = 30 * nanos_per_second"
definition defaultDispatcherMaxAttempts :: int where "defaultDispatcherMaxAttempts = 8"
definition defaultBackoffBase :: duration where "defaultBackoffBase = 5 * nanos_per_second"
definition defaultBackoffMax :: duration where "defaultBackoffMax = 24 * 3600 * nanos_per_second"

section \<open>Backoff\<close>

text \<open>FNV-1a over 64 bits, as in \<open>hash/fnv\<close>.\<close>

definition fnv64a :: "nat list \<Rightarrow> 64 word" where
  "fnv64a bytes = foldl (\<lambda>h b. (h XOR of_nat b) * 1099511628211) 14695981039346656037 bytes"

text \<open>The doubling loop over 64-bit durations; the first argument counts the iterations left.\<close>

fun backoff :: "nat \<Rightarrow> duration \<Rightarrow> duration \<Rightarrow> duration" where
  "backoff 0 maximum delay = delay"
| "backoff (Suc n) maximum delay =
     (if delay < maximum
      then if delay > maximum div 2 then maximum else backoff n maximum (wrap64 (delay * 2))
      else delay)"

definition RetryDelay :: "duration \<Rightarrow> duration \<Rightarrow> int \<Rightarrow> string \<Rightarrow> duration" where
  "RetryDelay base0 maximum0 attempt0 seed =
     (let base1 = (if base0 \<le> 0 then defaultBackoffBase else base0);
          maximum = (if maximum0 \<le> 0 then defaultBackoffMax else maximum0);
          base = (if base1 > maximum then maximum else base1);
          attempt = (if attempt0 < 1 then 1 else attempt0);
          delay0 = backoff (nat (attempt - 1)) maximum base;
          delay = (if delay0 > maximum then maximum else delay0);
          half = delay div 2
      in if half = 0 then delay
         else wrap64 (half + uint (fnv64a (map byte (seed @ ''/'' @ itoa attempt)) mod word_of_int (half + 1))))"

section \<open>Results of attempts\<close>

text \<open>\<open>time.Time.Sub\<close> saturates at the bounds of a duration.\<close>

definition time_sub :: "time \<Rightarrow> time \<Rightarrow> duration" where
  "time_sub a b = max (- (2 ^ 63)) (min (2 ^ 63 - 1) (a - b))"

definition retry_in :: "dispatcher \<Rightarrow> time \<Rightarrow> claimed_delivery \<Rightarrow> attempt_result \<Rightarrow> duration" where
  "retry_in dp now claimed attempt =
     (let d = cd_Delivery claimed;
          delay0 = RetryDelay (dp_BackoffBase dp) (dp_BackoffMax dp) (wd_Attempt d) (wd_ID d);
          delay1 = (case ar_RetryAt attempt of
                      Some t \<Rightarrow> if time_sub t now > delay0 then time_sub t now else delay0
                    | None \<Rightarrow> delay0);
          delay2 = (if delay1 > dp_BackoffMax dp then dp_BackoffMax dp else delay1)
      in if delay2 < 0 then 0 else delay2)"

definition base_result :: "attempt_result \<Rightarrow> delivery_result" where
  "base_result attempt = \<lparr>dr_State = DeliveryFailed, dr_NextAttemptAt = 0, dr_ResponseStatus = ar_ResponseStatus attempt,
     dr_LatencyMillis = Some (go_div (ar_Latency attempt) 1000000), dr_ErrorSummary = stringPtr (ar_ErrorSummary attempt),
     dr_CompletedAt = 0\<rparr>"

definition deliveryResult :: "dispatcher \<Rightarrow> time \<Rightarrow> claimed_delivery \<Rightarrow> attempt_result \<Rightarrow> delivery_result" where
  "deliveryResult dp now claimed attempt =
     (case ar_Outcome attempt of
        AttemptSucceeded \<Rightarrow> (base_result attempt)\<lparr>dr_State := DeliverySucceeded, dr_CompletedAt := now\<rparr>
      | AttemptRetry \<Rightarrow>
          (if wd_Attempt (cd_Delivery claimed) \<ge> dp_MaxAttempts dp
           then (base_result attempt)\<lparr>dr_State := DeliveryFailed, dr_CompletedAt := now,
                  dr_ErrorSummary := Some ''max_attempts_exceeded''\<rparr>
           else (base_result attempt)\<lparr>dr_State := DeliveryRetrying,
                  dr_NextAttemptAt := now + retry_in dp now claimed attempt\<rparr>)
      | AttemptTerminal \<Rightarrow> (base_result attempt)\<lparr>dr_State := DeliveryFailed, dr_CompletedAt := now\<rparr>)"

definition applyDefaults :: "string \<Rightarrow> string \<Rightarrow> dispatcher \<Rightarrow> dispatcher" where
  "applyDefaults hostname pid dp =
     dp\<lparr>dp_WorkerID := (if trim (dp_WorkerID dp) = []
           then ''webhook-'' @ (if trim hostname = [] then ''dispatcher'' else trim hostname) @ ''-'' @ pid else dp_WorkerID dp),
        dp_LeaseTTL := (if dp_LeaseTTL dp \<le> 0 then defaultDispatcherLeaseTTL else dp_LeaseTTL dp),
        dp_MaxAttempts := (if dp_MaxAttempts dp \<le> 0 then defaultDispatcherMaxAttempts else dp_MaxAttempts dp),
        dp_BackoffBase := (if dp_BackoffBase dp \<le> 0 then defaultBackoffBase else dp_BackoffBase dp),
        dp_BackoffMax := (if dp_BackoffMax dp \<le> 0 then defaultBackoffMax else dp_BackoffMax dp)\<rparr>"

section \<open>One iteration\<close>

record clock_readings =
  ck_preflight :: time
  ck_claim :: time
  ck_result :: time
  ck_complete :: time

text \<open>
  The outcome of an iteration: the file, whether a delivery was processed, and the error. \<open>between\<close> is what the other
  processes do to the file while the attempt is on its way.
\<close>

definition ProcessOne ::
  "codec \<Rightarrow> rnd \<Rightarrow> rnd \<Rightarrow> clock_readings \<Rightarrow> string \<times> string \<Rightarrow> (claimed_delivery \<Rightarrow> attempt_result) \<Rightarrow>
   (snapshot \<Rightarrow> snapshot) \<Rightarrow> dispatcher \<Rightarrow> snapshot \<Rightarrow> snapshot \<Rightarrow> snapshot \<times> bool \<times> error option" where
  "ProcessOne cx rnd rnd' ck host send between dp0 pre s =
     (let dp = applyDefaults (fst host) (snd host) dp0
      in case ClaimDelivery cx rnd (ck_preflight ck) (ck_claim ck) (dp_WorkerID dp) (dp_LeaseTTL dp) pre s of
           Inl e \<Rightarrow> if e = WebhookErrNoPendingDelivery then (s, False, None) else (s, False, Some e)
         | Inr (t, claimed) \<Rightarrow>
             let attempt = send claimed; result = deliveryResult dp (ck_result ck) claimed attempt; u = between t
             in case CompleteDelivery rnd' (ck_complete ck) (cd_Lease claimed) result u of
                  Inl e \<Rightarrow> (u, True, Some e)
                | Inr (v, _) \<Rightarrow> (v, True, None))"

section \<open>Sending\<close>

record http_request =
  hr_URL :: parsed_url
  hr_Header :: "(string \<times> string) list"
  hr_Body :: raw

datatype http_response = DoTimeout | DoError | Response int string

text \<open>
  What the sender uses of the environment: name resolution and URL parsing, whether a request can be built for the URL,
  the HTTP exchange, and the parser of HTTP dates.
\<close>

record send_env =
  se_Net :: egress_net
  se_CanRequest :: "parsed_url \<Rightarrow> bool"
  se_Do :: "http_request \<Rightarrow> http_response"
  se_ParseTime :: "string \<Rightarrow> time option"

definition header_get :: "(string \<times> string) list \<Rightarrow> string \<Rightarrow> string" where
  "header_get h name = (case map_of h name of Some v \<Rightarrow> v | None \<Rightarrow> [])"

text \<open>The JSON text of a time has the nanoseconds without trailing zeros.\<close>

definition drop_zeros :: "string \<Rightarrow> string" where
  "drop_zeros ds = rev (dropWhile (\<lambda>c. c = CHR ''0'') (rev ds))"

definition rfc3339_nano :: "time \<Rightarrow> string" where
  "rfc3339_nano t =
     (let nanos = t mod nanos_per_second
      in if nanos = 0 then rfc3339 t else butlast (rfc3339 t) @ ''.'' @ drop_zeros (pad 9 nanos) @ ''Z'')"

definition json_year :: "time \<Rightarrow> int" where
  "json_year t = fst (year_day (t div nanos_per_second div 86400))"

text \<open>\<open>json.Marshal\<close> of the event fails on a year beyond four digits and on data that is not JSON.\<close>

definition marshal_event :: "envelope \<Rightarrow> raw option" where
  "marshal_event e =
     (if json_year (env_Time e) < 0 \<or> json_year (env_Time e) \<ge> 10000 then None
      else if env_Data e \<noteq> [] \<and> \<not> json_valid (env_Data e) then None
      else Some (compact (JObj [(''specversion'', JString (env_SpecVersion e)), (''id'', JString (env_ID e)),
             (''type'', JString (env_Type e)), (''source'', JString (env_Source e)), (''subject'', JString (env_Subject e)),
             (''time'', JString (rfc3339_nano (env_Time e))), (''datacontenttype'', JString (env_DataContentType e)),
             (''data'', raw_json (env_Data e))])))"

definition retryableStatus :: "int \<Rightarrow> bool" where
  "retryableStatus status \<longleftrightarrow> status = 408 \<or> status = 425 \<or> status = 429 \<or> (500 \<le> status \<and> status \<le> 599)"

definition ParseRetryAfter :: "(string \<Rightarrow> time option) \<Rightarrow> string \<Rightarrow> time \<Rightarrow> time option" where
  "ParseRetryAfter parse_time raw now =
     (let value = trim raw
      in if value = [] then None
         else case parse_int64 value of
                Some seconds \<Rightarrow>
                  if seconds < 0 \<or> seconds > (2 ^ 63 - 1) div nanos_per_second then None
                  else Some (now + wrap64 (seconds * nanos_per_second))
              | None \<Rightarrow>
                  (case parse_time value of
                     Some t \<Rightarrow> if t > now then Some t else None
                   | None \<Rightarrow> None))"

definition attempt :: "attempt_outcome \<Rightarrow> string \<Rightarrow> attempt_result" where
  "attempt outcome summary = \<lparr>ar_Outcome = outcome, ar_ResponseStatus = None, ar_Latency = 0, ar_RetryAt = None, ar_ErrorSummary = summary\<rparr>"

definition classify :: "(string \<Rightarrow> time option) \<Rightarrow> time \<Rightarrow> int \<Rightarrow> string \<Rightarrow> attempt_result" where
  "classify parse_time now status retryAfter =
     (if 200 \<le> status \<and> status < 300 then (attempt AttemptSucceeded [])\<lparr>ar_ResponseStatus := Some status\<rparr>
      else if retryableStatus status
      then (attempt AttemptRetry (''http_'' @ itoa status))\<lparr>ar_ResponseStatus := Some status,
             ar_RetryAt := ParseRetryAfter parse_time retryAfter now\<rparr>
      else (attempt AttemptTerminal (''http_'' @ itoa status))\<lparr>ar_ResponseStatus := Some status\<rparr>)"

definition request_for :: "string \<Rightarrow> time \<Rightarrow> claimed_delivery \<Rightarrow> parsed_url \<Rightarrow> raw \<Rightarrow> http_request" where
  "request_for userAgent now claimed url body =
     (let timestamp = TimestampValue now
      in \<lparr>hr_URL = url,
          hr_Header = [(''Content-Type'', ''application/cloudevents+json''), (''User-Agent'', userAgent),
            (HeaderEventID, env_ID (cd_Event claimed)), (HeaderEventType, env_Type (cd_Event claimed)),
            (HeaderDelivery, wd_ID (cd_Delivery claimed)), (HeaderTimestamp, timestamp),
            (HeaderSignature, Sign (sub_SigningSecret (cd_Subscription claimed)) timestamp body)],
          hr_Body = body\<rparr>)"

text \<open>\<open>now\<close> and \<open>now'\<close> are the clock before and after the exchange, and \<open>latency\<close> the time the attempt took.\<close>

definition Send :: "send_env \<Rightarrow> egress_policy \<Rightarrow> string \<Rightarrow> time \<Rightarrow> time \<Rightarrow> duration \<Rightarrow> claimed_delivery \<Rightarrow> attempt_result" where
  "Send env policy userAgent now now' latency claimed =
     (if sub_SigningSecret (cd_Subscription claimed) = [] then attempt AttemptTerminal ''signing_secret_missing''
      else case marshal_event (cd_Event claimed) of
             None \<Rightarrow> attempt AttemptTerminal ''event_encoding_failed''
           | Some body \<Rightarrow>
               (case ResolveEndpoint policy (se_Net env) (sub_Endpoint (cd_Subscription claimed)) of
                  Inl e \<Rightarrow> if e = ErrEgressPolicy then attempt AttemptTerminal ''egress_policy_rejected''
                          else attempt AttemptRetry ''endpoint_resolution_failed''
                | Inr endpoint \<Rightarrow>
                    if \<not> se_CanRequest env (re_URL endpoint) then attempt AttemptTerminal ''request_creation_failed''
                    else case se_Do env (request_for userAgent now claimed (re_URL endpoint) body) of
                           DoTimeout \<Rightarrow> attempt AttemptRetry ''request_timeout''
                         | DoError \<Rightarrow> attempt AttemptRetry ''network_error''
                         | Response status retryAfter \<Rightarrow> classify (se_ParseTime env) now' status retryAfter))
     \<lparr>ar_Latency := latency\<rparr>"

section \<open>The delay is the doubled base, capped and spread\<close>

lemma backoff_eq:
  assumes "0 < delay" and "delay \<le> maximum" and "maximum < 2 ^ 63"
  shows "backoff n maximum delay = min maximum (delay * 2 ^ n)"
  using assms
proof (induction n arbitrary: delay)
  case (Suc n)
  show ?case
  proof (cases "delay > maximum div 2")
    case True
    have "maximum < delay * 2 * 1" using True by simp
    also have "\<dots> \<le> delay * 2 * 2 ^ n" using Suc.prems by (intro mult_left_mono) auto
    finally show ?thesis using True Suc.prems by (auto simp: algebra_simps)
  next
    case False
    then have "delay * 2 \<le> maximum" "delay < maximum" using Suc.prems by auto
    moreover from this have "wrap64 (delay * 2) = delay * 2" using Suc.prems by (intro wrap64_id) auto
    ultimately show ?thesis using Suc.IH [of "delay * 2"] Suc.prems False by (simp add: algebra_simps)
  qed
qed simp

definition capped_delay :: "duration \<Rightarrow> duration \<Rightarrow> int \<Rightarrow> duration" where
  "capped_delay base maximum k = min maximum (min base maximum * 2 ^ nat (k - 1))"

lemma RetryDelay_range:
  assumes "0 < base" and "0 < maximum" and "maximum < 2 ^ 63" and "1 \<le> k"
  shows "capped_delay base maximum k div 2 \<le> RetryDelay base maximum k seed \<and>
    RetryDelay base maximum k seed \<le> capped_delay base maximum k"
proof -
  let ?b = "if base > maximum then maximum else base"
  let ?d = "capped_delay base maximum k"
  have d: "backoff (nat (k - 1)) maximum ?b = ?d"
    using assms by (subst backoff_eq) (auto simp: capped_delay_def min_def)
  have pos: "0 < ?d" "?d \<le> maximum" using assms by (auto simp: capped_delay_def)
  let ?h = "fnv64a (map byte (seed @ ''/'' @ itoa k))"
  have jitter: "0 \<le> uint (?h mod word_of_int (?d div 2 + 1)) \<and> uint (?h mod word_of_int (?d div 2 + 1)) \<le> ?d div 2"
  proof -
    have u: "uint (word_of_int (?d div 2 + 1) :: 64 word) = ?d div 2 + 1"
      using pos assms(3) by (subst uint_word_of_int) (simp add: mod_pos_pos_trivial)
    have "uint (?h mod word_of_int (?d div 2 + 1)) = uint ?h mod (?d div 2 + 1)"
      by (simp only: uint_mod u)
    then show ?thesis using pos pos_mod_bound [of "?d div 2 + 1" "uint ?h"] by simp
  qed
  have "wrap64 (?d div 2 + uint (?h mod word_of_int (?d div 2 + 1))) = ?d div 2 + uint (?h mod word_of_int (?d div 2 + 1))"
    using jitter pos assms(3) by (intro wrap64_id) linarith+
  moreover have "RetryDelay base maximum k seed =
      (if ?d div 2 = 0 then ?d else wrap64 (?d div 2 + uint (?h mod word_of_int (?d div 2 + 1))))"
    using assms pos d by (simp add: RetryDelay_def Let_def)
  ultimately have "RetryDelay base maximum k seed = ?d \<or>
      RetryDelay base maximum k seed = ?d div 2 + uint (?h mod word_of_int (?d div 2 + 1))" by presburger
  then show ?thesis using pos jitter by (elim disjE) linarith+
qed

lemma retry_in_range: "0 \<le> dp_BackoffMax dp \<Longrightarrow> 0 \<le> retry_in dp now claimed a \<and> retry_in dp now claimed a \<le> dp_BackoffMax dp"
  by (simp add: retry_in_def Let_def)

section \<open>Receivers accept what is sent\<close>

lemma int_div_less: "0 < m \<Longrightarrow> n < b * m \<Longrightarrow> n div m < b" for n :: int
  using div_mult_mod_eq [of n m] pos_mod_sign [of m n] by (smt (verit) mult_right_mono)

lemma request_headers:
  "header_get (hr_Header (request_for ua now claimed url body)) HeaderEventID = env_ID (cd_Event claimed)"
  "header_get (hr_Header (request_for ua now claimed url body)) HeaderEventType = env_Type (cd_Event claimed)"
  "header_get (hr_Header (request_for ua now claimed url body)) HeaderDelivery = wd_ID (cd_Delivery claimed)"
  "header_get (hr_Header (request_for ua now claimed url body)) HeaderTimestamp = TimestampValue now"
  "header_get (hr_Header (request_for ua now claimed url body)) HeaderSignature =
     Sign (sub_SigningSecret (cd_Subscription claimed)) (TimestampValue now) body"
  by (simp_all add: header_get_def request_for_def Let_def HeaderEventID_def HeaderEventType_def HeaderDelivery_def
      HeaderTimestamp_def HeaderSignature_def)

lemma request_verifies:
  assumes "trim (env_ID (cd_Event claimed)) \<noteq> []" and "trim (env_Type (cd_Event claimed)) \<noteq> []" and "trim (wd_ID (cd_Delivery claimed)) \<noteq> []"
    and "vr_Secret v = sub_SigningSecret (cd_Subscription claimed)" and "trim (vr_Secret v) \<noteq> []"
    and "0 \<le> now" and "now < 2 ^ 63 * nanos_per_second"
    and "\<bar>now' - now\<bar> + nanos_per_second \<le> (if vr_TimestampTolerance v \<le> 0 then DefaultTimestampTolerance else vr_TimestampTolerance v)"
  shows "\<exists>info. Verify v now' (header_get (hr_Header (request_for ua now claimed url body))) body = Inr info \<and>
    vf_EventID info = trim (env_ID (cd_Event claimed)) \<and> vf_DeliveryID info = trim (wd_ID (cd_Delivery claimed))"
proof -
  have "0 \<le> now div nanos_per_second \<and> now div nanos_per_second < 2 ^ 63"
    using assms(6,7) int_div_less [of nanos_per_second now "2 ^ 63"]
    by (simp add: nanos_per_second_def pos_imp_zdiv_nonneg_iff)
  then have secs: "- (2 ^ 63) \<le> unix_seconds now" "unix_seconds now + unix_epoch < 2 ^ 63"
    by (simp_all add: unix_seconds_def unix_epoch_def)
  note ts = timestamp_roundtrip [OF secs]
  have "trim (TimestampValue now) = TimestampValue now" "TimestampValue now \<noteq> []" by (simp_all add: TimestampValue_def)
  moreover have "\<not> (time_Unix (unix_seconds now) < now' - tol \<or> time_Unix (unix_seconds now) > now' + tol)"
    if "\<bar>now' - now\<bar> + nanos_per_second \<le> tol" for tol
    using ts(2) that by linarith
  ultimately show ?thesis
    using assms ts(1) by (simp add: Verify_def Let_def request_headers VerifySignature_iff trim_Sign)
qed

section \<open>What an iteration leaves behind\<close>

lemma claim_returns:
  assumes "ClaimDelivery cx rnd preNow now w ttl pre s = Inr (t, claimed)" and "outbox_ok D s" and "new_deliveries rnd \<inter> D = {}"
  shows "map_of (WebhookDeliveries t) (wd_ID (cd_Delivery claimed)) = Some (cd_Delivery claimed) \<and>
    dl_DeliveryID (cd_Lease claimed) = wd_ID (cd_Delivery claimed) \<and> validateDeliveryLease (cd_Delivery claimed) (cd_Lease claimed) = Inr ()"
proof -
  obtain leaseTTL where run: "updateWithClock rnd now s (claim_delivery cx (trim w) leaseTTL now) = Inr (t, claimed)"
    using assms(1) by (auto simp: ClaimDelivery_def Let_def split: if_splits)
  obtain v evs dels where fn: "claim_delivery cx (trim w) leaseTTL now (ensureSnapshot s) = Inr (v, claimed)"
    and t: "t = write_file (v\<lparr>ControlPlaneEvents := evs, WebhookDeliveries := dels\<rparr>)"
    and hook: "run_hook rnd now (HumanTasks (ensureSnapshot s)) v = Inr (v\<lparr>ControlPlaneEvents := evs, WebhookDeliveries := dels\<rparr>)"
    by (rule updateWithClock_cases [OF run])
  have ok: "outbox_ok D (ensureSnapshot s)" using assms(2) by (simp add: outbox_ok_def)
  obtain d sub where p: "fold (pick_delivery (ensureSnapshot s) now) (WebhookDeliveries (ensureSnapshot s)) None = Some (d, sub)"
    using fn by (auto simp: claim_delivery_def split: option.splits)
  have d: "wd_ID d \<in> D" using claimed_entry [OF p ok] ok by (auto simp: outbox_ok_def)
  have c: "WebhookDeliveries v = put (wd_ID (cd_Delivery claimed)) (cd_Delivery claimed) (WebhookDeliveries (ensureSnapshot s))"
    "wd_ID (cd_Delivery claimed) = wd_ID d" "dl_DeliveryID (cd_Lease claimed) = wd_ID d"
    "validateDeliveryLease (cd_Delivery claimed) (cd_Lease claimed) = Inr ()"
    using fn p by (auto simp: claim_delivery_def Let_def valid_delivery_lease split: option.splits)
  have "outbox_ok (D \<union> new_deliveries rnd) v"
    using outbox_mono [OF conjunct1 [OF claim_outbox [OF ok fn]]] by blast
  from hook_outbox [OF hook this _ assms(3)] have "map_of dels (wd_ID d) = map_of (WebhookDeliveries v) (wd_ID d)"
    using d by simp
  moreover have "WebhookDeliveries t = dels" by (simp add: t write_file_def Let_def)
  ultimately show ?thesis using c by simp
qed

lemma result_valid: "0 < now \<Longrightarrow> 0 \<le> dp_BackoffMax dp \<Longrightarrow> ValidateDeliveryResult (deliveryResult dp now claimed a) = Inr ()"
  using retry_in_range [of dp now claimed a]
  by (auto simp: ValidateDeliveryResult_def deliveryResult_def base_result_def split: attempt_outcome.splits)

lemma result_states:
  "dr_State (deliveryResult dp now claimed a) = DeliveryRetrying \<Longrightarrow>
     wd_Attempt (cd_Delivery claimed) < dp_MaxAttempts dp \<and> ar_Outcome a = AttemptRetry \<and>
     dr_NextAttemptAt (deliveryResult dp now claimed a) = now + retry_in dp now claimed a"
  "dr_State (deliveryResult dp now claimed a) = DeliverySucceeded \<longleftrightarrow> ar_Outcome a = AttemptSucceeded"
  by (auto simp: deliveryResult_def base_result_def split: attempt_outcome.splits if_splits)

lemma complete_returns:
  assumes "CompleteDelivery rnd now l result u = Inr (v, x)" and "outbox_ok D u" and "new_deliveries rnd \<inter> D = {}"
  obtains d d' where "map_of (WebhookDeliveries u) (dl_DeliveryID l) = Some d" and "validateDeliveryLease d l = Inr ()"
    and "map_of (WebhookDeliveries v) (dl_DeliveryID l) = Some d'" and "wd_Attempt d' = dl_Attempt l" and "wd_LeaseOwner d' = None"
    and "wd_NextAttemptAt d' = dr_NextAttemptAt result"
    and "wd_State d' = dr_State result \<or> (dr_State result = DeliveryRetrying \<and> wd_State d' = DeliveryCanceled)"
proof -
  have run: "updateWithClock rnd now u (complete_delivery l result now) = Inr (v, x)" "ValidateDeliveryResult result = Inr ()"
    using assms(1) by (auto simp: CompleteDelivery_def)
  obtain w evs dels where fn: "complete_delivery l result now (ensureSnapshot u) = Inr (w, x)"
    and v: "v = write_file (w\<lparr>ControlPlaneEvents := evs, WebhookDeliveries := dels\<rparr>)"
    and hook: "run_hook rnd now (HumanTasks (ensureSnapshot u)) w = Inr (w\<lparr>ControlPlaneEvents := evs, WebhookDeliveries := dels\<rparr>)"
    by (rule updateWithClock_cases [OF run(1)])
  have ok: "outbox_ok D (ensureSnapshot u)" using assms(2) by (simp add: outbox_ok_def)
  obtain d where d: "map_of (WebhookDeliveries u) (dl_DeliveryID l) = Some d" "validateDeliveryLease d l = Inr ()"
    using fn by (auto simp: complete_delivery_def split: option.splits)
  have id: "wd_ID d = dl_DeliveryID l" "dl_DeliveryID l \<in> D" using d(1) assms(2) by (auto simp: outbox_ok_def dest: keyed_byD)
  obtain d' where d': "WebhookDeliveries w = put (wd_ID d) d' (WebhookDeliveries u)" "wd_Attempt d' = wd_Attempt d" "wd_LeaseOwner d' = None"
    "wd_NextAttemptAt d' = dr_NextAttemptAt result"
    "wd_State d' = dr_State result \<or> (dr_State result = DeliveryRetrying \<and> wd_State d' = DeliveryCanceled)"
    using fn d by (auto simp: complete_delivery_def Let_def split: option.splits if_splits)
  have "outbox_ok (D \<union> new_deliveries rnd) w"
    using outbox_mono [OF conjunct1 [OF complete_outbox [OF ok fn run(2)]]] by blast
  from hook_outbox [OF hook this _ assms(3)] have "map_of dels (wd_ID d) = Some d'" using id d'(1) by simp
  moreover have "WebhookDeliveries v = dels" by (simp add: v write_file_def Let_def)
  ultimately show thesis using that [OF d] d' d(2) id by (simp add: valid_delivery_lease)
qed

text \<open>What a dispatcher iteration that ends without an error has done to the delivery it claimed.\<close>

definition settled_delivery :: "dispatcher \<Rightarrow> time \<Rightarrow> attempt_result \<Rightarrow> claimed_delivery \<Rightarrow> webhook_delivery \<Rightarrow> bool" where
  "settled_delivery dp now a claimed d \<longleftrightarrow>
     wd_Attempt d = wd_Attempt (cd_Delivery claimed) \<and> wd_LeaseOwner d = None \<and>
     wd_State d \<in> {DeliverySucceeded, DeliveryFailed, DeliveryRetrying, DeliveryCanceled} \<and>
     (wd_State d = DeliverySucceeded \<longleftrightarrow> ar_Outcome a = AttemptSucceeded) \<and>
     (wd_State d = DeliveryRetrying \<longrightarrow> wd_Attempt d < dp_MaxAttempts dp \<and> now \<le> wd_NextAttemptAt d \<and>
        wd_NextAttemptAt d \<le> now + dp_BackoffMax dp)"

lemma defaults_positive: "0 < dp_BackoffMax (applyDefaults h pid dp) \<and> 0 < dp_MaxAttempts (applyDefaults h pid dp)"
  by (auto simp: applyDefaults_def defaultBackoffMax_def defaultDispatcherMaxAttempts_def nanos_per_second_def)

lemma result_settles:
  assumes "wd_State d = dr_State (deliveryResult dp now claimed a) \<or>
      (dr_State (deliveryResult dp now claimed a) = DeliveryRetrying \<and> wd_State d = DeliveryCanceled)"
    and "wd_Attempt d = wd_Attempt (cd_Delivery claimed)" and "wd_LeaseOwner d = None"
    and "wd_NextAttemptAt d = dr_NextAttemptAt (deliveryResult dp now claimed a)" and "0 \<le> dp_BackoffMax dp"
  shows "settled_delivery dp now a claimed d"
  using assms retry_in_range [OF assms(5), of now claimed a]
  by (cases "ar_Outcome a") (auto simp: settled_delivery_def deliveryResult_def base_result_def split: if_splits)

lemma process_one_settles:
  assumes run: "ProcessOne cx rnd rnd' ck (h, pid) send between dp pre s = (v, True, None)"
    and ok: "outbox_ok D s" and fresh: "new_deliveries rnd \<inter> D = {}"
    and between: "\<And>t. outbox_ok (D \<union> new_deliveries rnd) t \<Longrightarrow> outbox_ok E (between t)" and fresh': "new_deliveries rnd' \<inter> E = {}"
  shows "\<exists>claimed d. map_of (WebhookDeliveries v) (wd_ID (cd_Delivery claimed)) = Some d \<and>
    settled_delivery (applyDefaults h pid dp) (ck_result ck) (send claimed) claimed d"
proof -
  let ?dp = "applyDefaults h pid dp"
  obtain t claimed where claim: "ClaimDelivery cx rnd (ck_preflight ck) (ck_claim ck) (dp_WorkerID ?dp) (dp_LeaseTTL ?dp) pre s = Inr (t, claimed)"
    using run by (auto simp: ProcessOne_def Let_def split: sum.splits if_splits)
  let ?r = "deliveryResult ?dp (ck_result ck) claimed (send claimed)"
  have complete: "CompleteDelivery rnd' (ck_complete ck) (cd_Lease claimed) ?r (between t) = Inr (v, ())"
    using run claim by (auto simp: ProcessOne_def Let_def split: sum.splits)
  have "outbox_ok (D \<union> new_deliveries rnd) t"
    using claim by (auto simp: ClaimDelivery_def Let_def split: if_splits
        elim!: update_moves_outbox [OF _ ok fresh, THEN conjunct1] dest: claim_outbox)
  note E = between [OF this]
  have c: "dl_DeliveryID (cd_Lease claimed) = wd_ID (cd_Delivery claimed)" "dl_Attempt (cd_Lease claimed) = wd_Attempt (cd_Delivery claimed)"
    using claim_returns [OF claim ok fresh] by (simp_all add: valid_delivery_lease)
  from complete E fresh' show ?thesis
  proof (rule complete_returns)
    fix d' assume d': "map_of (WebhookDeliveries v) (dl_DeliveryID (cd_Lease claimed)) = Some d'"
      "wd_Attempt d' = dl_Attempt (cd_Lease claimed)" "wd_LeaseOwner d' = None" "wd_NextAttemptAt d' = dr_NextAttemptAt ?r"
      "wd_State d' = dr_State ?r \<or> (dr_State ?r = DeliveryRetrying \<and> wd_State d' = DeliveryCanceled)"
    have "settled_delivery ?dp (ck_result ck) (send claimed) claimed d'"
      by (rule result_settles) (use d' c defaults_positive [of h pid dp] in auto)
    then show ?thesis using d'(1) c by auto
  qed
qed

end
