(* ===== verification/PolicyOps.thy ===== *)
theory PolicyOps
  imports Frames Operations
begin

text \<open>
  Mutations of execution limit policies as whole transactions: a revision is used by at most one mutation in a history,
  and a batch is the same as its requests sent one by one to the same file.
\<close>

declare map_of_eq_Some_iff [simp del] Some_eq_map_of_iff [simp del]

section \<open>One mutation\<close>

lemma write_file_policies [simp]: "ExecutionLimitPolicies (write_file s) = ExecutionLimitPolicies s"
  by (simp add: write_file_def Let_def)

lemma mutation_tasks: "applyLocalExecutionLimitPolicyMutation rnd r now s = Inr (t, x) \<Longrightarrow> HumanTasks t = HumanTasks s"
  by (auto simp: applyLocalExecutionLimitPolicyMutation_def Let_def split: if_splits option.splits)

lemma batch_tasks: "mutate_batch rnd now rs s = Inr (t, x) \<Longrightarrow> HumanTasks t = HumanTasks s"
  by (induction rs arbitrary: s x) (auto dest!: mutation_tasks)

text \<open>A transaction that leaves the human tasks alone has nothing to tell the subscribers.\<close>

lemma update_quiet:
  assumes "go_map_ok (HumanTasks s)" and "\<And>v x. fn (ensureSnapshot s) = Inr (v, x) \<Longrightarrow> HumanTasks v = HumanTasks s"
  shows "updateWithClock rnd now s fn = bind_res (fn (ensureSnapshot s)) (\<lambda>(v, x). Inr (write_file v, x))"
proof (cases "fn (ensureSnapshot s)")
  case (Inr p)
  obtain v x where p: "p = (v, x)" by fastforce
  with Inr assms have "run_hook rnd now (HumanTasks (ensureSnapshot s)) v = Inr v"
    by (intro run_hook_same) auto
  with Inr p show ?thesis by (simp add: updateWithClock_def)
qed (simp add: updateWithClock_def)

lemma mutate_cases:
  assumes "MutateExecutionLimitPolicy rnd now r s = Inr (t, p, replayed)"
  obtains i v where "NormalizeExecutionLimitPolicyMutation r = Inr i"
    and "applyLocalExecutionLimitPolicyMutation rnd i now (ensureSnapshot s) = Inr (v, p, replayed)"
    and "ExecutionLimitPolicies t = ExecutionLimitPolicies v"
proof -
  obtain i where i: "NormalizeExecutionLimitPolicyMutation r = Inr i"
    and run: "updateWithClock rnd now s (applyLocalExecutionLimitPolicyMutation rnd i now) = Inr (t, p, replayed)"
    using assms by (auto simp: MutateExecutionLimitPolicy_def)
  from run show thesis
    by (rule updateWithClock_cases) (rule that [OF i], auto)
qed

lemma applied_mutation:
  assumes "MutateExecutionLimitPolicy rnd now r s = Inr (t, p, False)" and "NormalizeExecutionLimitPolicyMutation r = Inr i"
  shows "map_of (ExecutionLimitPolicies t) (request_key i) = Some p \<and> lp_Revision p = mlp_ExpectedRevision i + 1 \<and>
    (case map_of (ExecutionLimitPolicies s) (request_key i) of None \<Rightarrow> mlp_ExpectedRevision i = 0
     | Some c \<Rightarrow> lp_Revision c = mlp_ExpectedRevision i)"
  using assms(1)
proof (rule mutate_cases)
  fix i' v
  assume i': "NormalizeExecutionLimitPolicyMutation r = Inr i'"
    and v: "applyLocalExecutionLimitPolicyMutation rnd i' now (ensureSnapshot s) = Inr (v, p, False)"
    and t: "ExecutionLimitPolicies t = ExecutionLimitPolicies v"
  have "i' = i" using i' assms(2) by simp
  with mutation_cases [OF v] mutation_policies [OF v] t show ?thesis by (auto split: option.splits)
qed

lemma revision_used_once:
  assumes one: "MutateExecutionLimitPolicy rnd now r1 s = Inr (state_file h, p, False)"
    and i1: "NormalizeExecutionLimitPolicyMutation r1 = Inr i1"
    and later: "(store_step cx)\<^sup>*\<^sup>* h h'"
    and i2: "NormalizeExecutionLimitPolicyMutation r2 = Inr i2"
    and same: "request_key i2 = request_key i1" "mlp_ExpectedRevision i2 = mlp_ExpectedRevision i1"
  shows "MutateExecutionLimitPolicy rnd' now' r2 (state_file h') \<noteq> Inr (t', p', False)"
proof
  assume two: "MutateExecutionLimitPolicy rnd' now' r2 (state_file h') = Inr (t', p', False)"
  have a: "map_of (ExecutionLimitPolicies (state_file h)) (request_key i1) = Some p" "lp_Revision p = mlp_ExpectedRevision i1 + 1"
    using applied_mutation [OF one i1] by simp_all
  have "rev_later lp_Revision (ExecutionLimitPolicies (state_file h)) (ExecutionLimitPolicies (state_file h'))"
    using admin_order.steps_rel [OF later] by (simp add: admin_later_def)
  then obtain p2 where "map_of (ExecutionLimitPolicies (state_file h')) (request_key i1) = Some p2" "lp_Revision p \<le> lp_Revision p2"
    by (rule rev_laterE [OF _ a(1)])
  then show False using applied_mutation [OF two i2] same a(2) by auto
qed

lemma unchanged_revision:
  assumes "(store_step cx)\<^sup>*\<^sup>* h h'" and "map_of (ExecutionLimitPolicies (state_file h)) k = Some p"
  shows "\<exists>p'. map_of (ExecutionLimitPolicies (state_file h')) k = Some p' \<and> lp_Revision p \<le> lp_Revision p' \<and>
    (lp_Revision p' = lp_Revision p \<longrightarrow> p' = p)"
  using admin_order.steps_rel [OF assms(1)] assms(2) by (auto simp: admin_later_def elim: rev_laterE)

section \<open>Batches\<close>

lemma single_returns:
  assumes "go_map_ok (HumanTasks s)" and "NormalizeExecutionLimitPolicyMutation r = Inr i"
  shows "(\<exists>t. MutateExecutionLimitPolicy rnd now r s = Inr (t, p, b)) \<longleftrightarrow>
    (\<exists>u. applyLocalExecutionLimitPolicyMutation rnd i now (ensureSnapshot s) = Inr (u, p, b))"
proof -
  have "MutateExecutionLimitPolicy rnd now r s =
      bind_res (applyLocalExecutionLimitPolicyMutation rnd i now (ensureSnapshot s)) (\<lambda>(v, x). Inr (write_file v, x))"
    unfolding MutateExecutionLimitPolicy_def
    using update_quiet [OF assms(1), of "applyLocalExecutionLimitPolicyMutation rnd i now"] mutation_tasks [of rnd i now "ensureSnapshot s"]
    by (simp add: assms(2))
  then show ?thesis by (auto simp: bind_res_def split: sum.splits)
qed

lemma batch_returns:
  assumes "go_map_ok (HumanTasks s)" and "normalizeExecutionLimitPolicyBatch rs = Inr items"
  shows "MutateExecutionLimitPolicies rnd now rs s =
    bind_res (mutate_batch rnd now items (ensureSnapshot s)) (\<lambda>(v, x). Inr (write_file v, x))"
  using update_quiet [OF assms(1), of "mutate_batch rnd now items"] batch_tasks [of rnd now items "ensureSnapshot s"]
  by (simp add: MutateExecutionLimitPolicies_def assms(2))

lemma list_all2_right: "list_all2 P xs ys \<Longrightarrow> (\<And>x y. x \<in> set xs \<Longrightarrow> y \<in> set ys \<Longrightarrow> P x y \<Longrightarrow> Q x y) \<Longrightarrow> list_all2 Q xs ys"
  by (rule list.rel_mono_strong)

lemma list_all2_mem:
  "list_all2 P xs ys \<Longrightarrow> y \<in> set ys \<Longrightarrow> \<exists>x \<in> set xs. P x y"
  "list_all2 P xs ys \<Longrightarrow> x \<in> set xs \<Longrightarrow> \<exists>y \<in> set ys. P x y"
  by (induction rule: list_all2_induct) auto

text \<open>A batch is applied when each of its requests would be applied alone, with the same results.\<close>

lemma batch_is_singles:
  assumes ok: "go_map_ok (HumanTasks s)" and norm: "normalizeExecutionLimitPolicyBatch rs = Inr items"
  shows "(\<exists>t results. MutateExecutionLimitPolicies rnd now rs s = Inr (t, results)) \<longleftrightarrow>
      (\<forall>r \<in> set rs. \<exists>t p b. MutateExecutionLimitPolicy rnd now r s = Inr (t, p, b))"
    and "MutateExecutionLimitPolicies rnd now rs s = Inr (t, results) \<Longrightarrow>
      list_all2 (\<lambda>r x. \<exists>u. MutateExecutionLimitPolicy rnd now r s = Inr (u, mlr_Policy x, mlr_Replayed x)) rs results"
proof -
  have "normalize_batch [] rs = Inr items" using norm by (simp add: normalizeExecutionLimitPolicyBatch_def)
  note keys = normalize_batch_keys [OF this]
  have dist: "distinct (map request_key items)" and rel: "list_all2 (\<lambda>r i. NormalizeExecutionLimitPolicyMutation r = Inr i) rs items"
    using keys by simp_all
  have single: "list_all2 (\<lambda>r i. NormalizeExecutionLimitPolicyMutation r = Inr i \<and> (\<forall>p b. (\<exists>t. MutateExecutionLimitPolicy rnd now r s = Inr (t, p, b)) \<longleftrightarrow>
      (\<exists>u. applyLocalExecutionLimitPolicyMutation rnd i now (ensureSnapshot s) = Inr (u, p, b)))) rs items"
    by (rule list_all2_right [OF rel]) (use single_returns [OF ok] in blast)
  have results: "list_all2 (\<lambda>r x. \<exists>u. MutateExecutionLimitPolicy rnd now r s = Inr (u, mlr_Policy x, mlr_Replayed x)) rs results"
    if run: "MutateExecutionLimitPolicies rnd now rs s = Inr (t, results)" for t results
  proof -
    obtain v where "mutate_batch rnd now items (ensureSnapshot s) = Inr (v, results)"
      using run unfolding batch_returns [OF ok norm] by (auto simp: bind_res_def split: sum.splits)
    from conjunct1 [OF mutate_batch_single [OF this dist]]
    have "list_all2 (\<lambda>i x. \<exists>u. applyLocalExecutionLimitPolicyMutation rnd i now (ensureSnapshot s) = Inr (u, mlr_Policy x, mlr_Replayed x)) items results"
      by (rule list.rel_mono_strong) auto
    with single show ?thesis by (rule list_all2_trans [rotated]) blast
  qed
  then show "MutateExecutionLimitPolicies rnd now rs s = Inr (t, results) \<Longrightarrow>
      list_all2 (\<lambda>r x. \<exists>u. MutateExecutionLimitPolicy rnd now r s = Inr (u, mlr_Policy x, mlr_Replayed x)) rs results" .
  show "(\<exists>t results. MutateExecutionLimitPolicies rnd now rs s = Inr (t, results)) \<longleftrightarrow>
      (\<forall>r \<in> set rs. \<exists>t p b. MutateExecutionLimitPolicy rnd now r s = Inr (t, p, b))"
  proof
    show "\<exists>t results. MutateExecutionLimitPolicies rnd now rs s = Inr (t, results) \<Longrightarrow>
        \<forall>r \<in> set rs. \<exists>t p b. MutateExecutionLimitPolicy rnd now r s = Inr (t, p, b)"
      using results list_all2_mem(2) by fast
    assume all: "\<forall>r \<in> set rs. \<exists>t p b. MutateExecutionLimitPolicy rnd now r s = Inr (t, p, b)"
    have "\<exists>u p b. applyLocalExecutionLimitPolicyMutation rnd i now (ensureSnapshot s) = Inr (u, p, b)" if mem: "i \<in> set items" for i
    proof -
      obtain r where "r \<in> set rs" "\<forall>p b. (\<exists>t. MutateExecutionLimitPolicy rnd now r s = Inr (t, p, b)) \<longleftrightarrow>
          (\<exists>u. applyLocalExecutionLimitPolicyMutation rnd i now (ensureSnapshot s) = Inr (u, p, b))"
        using list_all2_mem(1) [OF single mem] by blast
      then show ?thesis using all by blast
    qed
    from mutate_batch_total [OF this dist] show "\<exists>t results. MutateExecutionLimitPolicies rnd now rs s = Inr (t, results)"
      using batch_returns [OF ok norm, of rnd now] by auto
  qed
qed

end
