(* ===== verification/Credentials.thy ===== *)
theory Credentials
  imports Frames Operations
begin

text \<open>
  Worker credentials in histories of the store. Only creation and revocation touch them: a credential keeps its
  group, generation and token hash, a revoked one never changes again, and none is removed.
\<close>

declare map_of_eq_Some_iff [simp del] Some_eq_map_of_iff [simp del]

section \<open>Credentials\<close>

text \<open>Credentials are stored under their identifiers; token hashes and, in a group, generations are unique.\<close>

definition creds_ok :: "snapshot \<Rightarrow> bool" where
  "creds_ok s \<longleftrightarrow> keyed_by wc_ID (WorkerCredentials s) \<and> go_map_ok (WorkerCredentials s) \<and>
     (\<forall>k c k' c'. map_of (WorkerCredentials s) k = Some c \<longrightarrow> map_of (WorkerCredentials s) k' = Some c' \<longrightarrow> k \<noteq> k' \<longrightarrow>
        wc_TokenHash c \<noteq> wc_TokenHash c' \<and> (wc_Group c = wc_Group c' \<longrightarrow> wc_Generation c \<noteq> wc_Generation c'))"

definition cred_later :: "worker_credential \<Rightarrow> worker_credential \<Rightarrow> bool" where
  "cred_later c c' \<longleftrightarrow> wc_Group c' = wc_Group c \<and> wc_Generation c' = wc_Generation c \<and> wc_TokenHash c' = wc_TokenHash c \<and>
     (wc_RevokeOperationID c \<noteq> [] \<longrightarrow> c' = c)"

definition creds_later :: "snapshot \<Rightarrow> snapshot \<Rightarrow> bool" where
  "creds_later s t \<longleftrightarrow> (\<forall>k c. map_of (WorkerCredentials s) k = Some c \<longrightarrow>
     (\<exists>c'. map_of (WorkerCredentials t) k = Some c' \<and> cred_later c c'))"

lemma creds_later_same: "WorkerCredentials t = WorkerCredentials s \<Longrightarrow> creds_later s t"
  by (simp add: creds_later_def cred_later_def)

lemma creds_later_trans: "creds_later s t \<Longrightarrow> creds_later t u \<Longrightarrow> creds_later s u"
  unfolding creds_later_def cred_later_def by metis

interpretation creds_frame: frame_stable creds_ok
  by unfold_locales (simp_all add: creds_ok_def)

interpretation creds_order: frame_monotone creds_later
proof
  show "creds_later s t \<Longrightarrow> creds_later t u \<Longrightarrow> creds_later s u" for s t u by (rule creds_later_trans)
qed (simp_all add: creds_later_same)


section \<open>Creation and revocation\<close>

lemma create_creds:
  assumes ok: "creds_ok u" and tx: "create_credential rnd request grp ws ls now u = Inr (v, x)"
  shows "creds_ok v \<and> creds_later u v"
proof -
  let ?c = "fst x"
  have "v = u \<or> (v = u\<lparr>WorkerCredentials := put (wc_ID ?c) ?c (WorkerCredentials u)\<rparr> \<and>
      map_of (WorkerCredentials u) (wc_ID ?c) = None \<and> wc_Group ?c = grp \<and>
      wc_Generation ?c = group_generation grp (WorkerCredentials u) + 1 \<and>
      (\<forall>(k, c') \<in> set (WorkerCredentials u). wc_TokenHash c' \<noteq> wc_TokenHash ?c))"
    using tx by (auto simp: create_credential_def Let_def list_ex_iff split: option.splits if_splits)
  then show ?thesis
  proof (elim disjE conjE)
    assume "v = u"
    then show ?thesis using ok creds_later_same by blast
  next
    assume v: "v = u\<lparr>WorkerCredentials := put (wc_ID ?c) ?c (WorkerCredentials u)\<rparr>"
      and fresh: "map_of (WorkerCredentials u) (wc_ID ?c) = None" and grp: "wc_Group ?c = grp"
      and gen: "wc_Generation ?c = group_generation grp (WorkerCredentials u) + 1"
      and hash: "\<forall>(k, c') \<in> set (WorkerCredentials u). wc_TokenHash c' \<noteq> wc_TokenHash ?c"
    have other: "wc_TokenHash c' \<noteq> wc_TokenHash ?c \<and> (wc_Group c' = wc_Group ?c \<longrightarrow> wc_Generation c' < wc_Generation ?c)"
      if "map_of (WorkerCredentials u) k = Some c'" for k c'
      using hash map_of_SomeD [OF that] group_generation_ge [of k c' "WorkerCredentials u" grp] grp gen
      by fastforce
    have "creds_ok v"
      using ok other by (fastforce simp: creds_ok_def v split: if_splits)
    moreover have "creds_later u v"
      using fresh by (auto simp: creds_later_def cred_later_def v)
    ultimately show ?thesis ..
  qed
qed

lemma revoke_creds:
  assumes ok: "creds_ok u" and tx: "revoke_credential request grp now u = Inr (v, x)"
  shows "creds_ok v \<and> creds_later u v"
proof -
  obtain c where c: "map_of (WorkerCredentials u) (rwc_CredentialID request) = Some c"
    using tx by (auto simp: revoke_credential_def split: option.splits)
  then have id: "wc_ID c = rwc_CredentialID request"
    using ok keyed_byD [of wc_ID "WorkerCredentials u"] by (simp add: creds_ok_def)
  let ?c' = "fst x"
  have "v = u \<or> (wc_RevokeOperationID c = [] \<and> wc_ID ?c' = wc_ID c \<and> wc_Group ?c' = wc_Group c \<and>
      wc_Generation ?c' = wc_Generation c \<and> wc_TokenHash ?c' = wc_TokenHash c \<and>
      v = u\<lparr>WorkerCredentials := put (wc_ID ?c') ?c' (WorkerCredentials u)\<rparr>)"
    using tx c by (auto simp: revoke_credential_def Let_def split: if_splits)
  then show ?thesis
  proof (elim disjE conjE)
    assume "v = u"
    then show ?thesis using ok creds_later_same by blast
  next
    assume c': "wc_RevokeOperationID c = []" "wc_ID ?c' = wc_ID c" "wc_Group ?c' = wc_Group c"
        "wc_Generation ?c' = wc_Generation c" "wc_TokenHash ?c' = wc_TokenHash c"
      and v: "v = u\<lparr>WorkerCredentials := put (wc_ID ?c') ?c' (WorkerCredentials u)\<rparr>"
    have "creds_ok v"
      using ok c c' id unfolding creds_ok_def v by (auto simp: keyed_by_def split: if_splits)
    moreover have "creds_later u v"
      using c c' id by (auto simp: creds_later_def cred_later_def v)
    ultimately show ?thesis ..
  qed
qed

section \<open>Histories\<close>

lemma update_creds:
  assumes run: "updateWithClock rnd now s fn = Inr (t, a)" and ok: "creds_ok s"
    and body: "\<And>u v b. creds_ok u \<Longrightarrow> fn u = Inr (v, b) \<Longrightarrow> creds_ok v \<and> creds_later u v"
  shows "creds_ok t \<and> creds_later s t"
  using creds_frame.update_inv [OF run ok] creds_order.update_rel [OF run] body creds_frame.inv_ensure [OF ok] by blast

lemma untouched_creds:
  assumes "untouched rnd s t" and "creds_ok s"
  shows "creds_ok t \<and> creds_later s t"
  using assms(1) unfolding untouched_def
proof
  assume "t = s" then show ?thesis using assms(2) creds_later_same by blast
next
  assume "\<exists>now fn. updateWithClock rnd now s fn = Inr (t, ()) \<and> (\<forall>u v. fn u = Inr (v, ()) \<longrightarrow> aside v = aside u)"
  then obtain now fn where u: "updateWithClock rnd now s fn = Inr (t, ())" "\<And>u v. fn u = Inr (v, ()) \<Longrightarrow> aside v = aside u" by blast
  show ?thesis
    using update_creds [OF u(1) assms(2)] u(2) by (fastforce simp: aside_def creds_ok_def creds_later_same)
qed

lemma admin_keeps_creds:
  "applyLocalExecutionLimitPolicyMutation rnd r now u = Inr (v, x0) \<Longrightarrow> WorkerCredentials v = WorkerCredentials u"
  "put_group_state request grp st now u = Inr (v, x1) \<Longrightarrow> WorkerCredentials v = WorkerCredentials u"
  "set_lifecycle request' now u = Inr (v, x2) \<Longrightarrow> WorkerCredentials v = WorkerCredentials u"
  "create_subscription rnd prepared endpoint secret now u = Inr (v, x3) \<Longrightarrow> WorkerCredentials v = WorkerCredentials u"
  "update_subscription net cx rnd sub now u = Inr (v, x4) \<Longrightarrow> WorkerCredentials v = WorkerCredentials u"
  "delete_subscription rnd w i actor now u = Inr (v, x5) \<Longrightarrow> WorkerCredentials v = WorkerCredentials u"
  "create_test_delivery rnd w i actor now u = Inr (v, x6) \<Longrightarrow> WorkerCredentials v = WorkerCredentials u"
  "claim_delivery cx w ttl now u = Inr (v, x7) \<Longrightarrow> WorkerCredentials v = WorkerCredentials u"
  "complete_delivery l result now u = Inr (v, x8) \<Longrightarrow> WorkerCredentials v = WorkerCredentials u"
  "retry_delivery rnd w d actor now u = Inr (v, x9) \<Longrightarrow> WorkerCredentials v = WorkerCredentials u"
  "prune_webhooks policy u = Inr (v, x10) \<Longrightarrow> WorkerCredentials v = WorkerCredentials u"
  by (auto simp: applyLocalExecutionLimitPolicyMutation_def put_group_state_def set_lifecycle_def create_subscription_def
      update_subscription_def delete_subscription_def create_test_delivery_def claim_delivery_def complete_delivery_def
      retry_delivery_def prune_webhooks_def Let_def split: if_splits option.splits)

lemma batch_keeps_creds: "mutate_batch rnd now rs u = Inr (v, x) \<Longrightarrow> WorkerCredentials v = WorkerCredentials u"
  by (induction rs arbitrary: u x) (auto dest!: admin_keeps_creds)

lemma update_keeps_creds:
  assumes "updateWithClock rnd now s fn = Inr (t, a)" and "creds_ok s"
    and "\<And>u v b. fn u = Inr (v, b) \<Longrightarrow> WorkerCredentials v = WorkerCredentials u"
  shows "creds_ok t \<and> creds_later s t"
  by (rule update_creds [OF assms(1,2)]) (use assms(3) in \<open>auto simp: creds_ok_def creds_later_same\<close>)

lemma exec_creds:
  assumes run: "exec cx rnd now c s = Inr t" and ok: "creds_ok s"
  shows "creds_ok t \<and> creds_later s t"
proof (cases "is_admin c")
  case False
  then show ?thesis using untouched_creds [OF exec_untouched [OF run] ok] by blast
next
  case True
  then show ?thesis
  proof (cases c)
    case (CmdCreateCredential r)
    then show ?thesis
      using run ok create_creds
      by (auto simp: CreateWorkerCredential_def Let_def split: if_splits elim!: update_creds dest: create_creds)
  next
    case (CmdRevokeCredential r)
    then show ?thesis
      using run ok revoke_creds
      by (auto simp: RevokeWorkerCredential_def Let_def split: if_splits elim!: update_creds dest: revoke_creds)
  qed (use run ok in \<open>auto simp: admin_defs worker_defs Let_def split: if_splits
      dest: admin_keeps_creds batch_keeps_creds elim!: update_keeps_creds\<close>)
qed

interpretation creds_history: inductive_invariant initial "store_step cx" "\<lambda>h. creds_ok (state_file h)" for cx
proof
  show "creds_ok (state_file h)" if "initial h" for h
    using that by (auto simp: initial_def newSnapshot_def creds_ok_def keyed_by_def)
  show "creds_ok (state_file h')" if "creds_ok (state_file h)" "store_step cx h h'" for h h' cx
    using that(2) by (rule store_stepE) (use exec_creds that(1) in fastforce)
qed

interpretation creds_steps: monotone_steps "store_step cx" "\<lambda>h. creds_ok (state_file h)"
  "\<lambda>h h'. creds_later (state_file h) (state_file h')" for cx
proof
  show "creds_later (state_file h) (state_file h')" if "creds_ok (state_file h)" "store_step cx h h'" for h h' cx
    using that(2) by (rule store_stepE) (use exec_creds that(1) in fastforce)
qed (auto intro: creds_order.frame_refl creds_later_trans creds_history.inv_step)

end
