(* ===== verification/Subscriptions.thy ===== *)
theory Subscriptions
  imports PolicyOps Crypto Credentials
begin

text \<open>
  What operators get back: a created webhook subscription is read as it was prepared and its endpoint and signing secret
  are stored encrypted only; a worker credential is found by its token for ever.
\<close>

declare map_of_eq_Some_iff [simp del] Some_eq_map_of_iff [simp del]

section \<open>Subscriptions\<close>

lemma webhook_string_encrypted:
  assumes "encryptWebhookString draw keys config w v = Inr c" and "list_all plain_char v"
  shows "IsEnc c"
proof -
  have "\<not> IsEnc (compact (JString v))"
    by (simp add: IsEnc_def unmarshal_object_def parse_plain_text [OF assms(2)])
  then show ?thesis
    using assms(1) by (auto simp: encryptWebhookString_def encryptJSONAtRest_def canonicalJSONValue_def JString_def Let_def
        IsEnc_WrapEnc split: if_splits)
qed

lemma write_file_subscriptions [simp]: "WebhookSubscriptions (write_file s) = WebhookSubscriptions s"
  by (simp add: write_file_def Let_def)

lemma create_cases:
  assumes "CreateSubscription net cx rnd preNow now sub s = Inr (t, prepared)"
  obtains e x where "encryptLocalSubscription cx prepared = Inr (e, x)" and "prepareNewSubscription net rnd sub preNow = Inr prepared"
    and "map_of (WebhookSubscriptions t) (webhookSubscriptionKey (sub_WorkspaceID prepared) (sub_ID prepared)) =
      Some (subscriptionRecord prepared e x)"
proof -
  obtain e x where p: "prepareNewSubscription net rnd sub preNow = Inr prepared" and enc: "encryptLocalSubscription cx prepared = Inr (e, x)"
    and run: "updateWithClock rnd now s (create_subscription rnd prepared e x now) = Inr (t, ())"
    using assms by (auto simp: CreateSubscription_def)
  from run show thesis
    by (rule updateWithClock_cases)
      (rule that [OF enc p], auto simp: create_subscription_def Let_def split: if_splits)
qed

lemma prepared_not_deleted: "prepareNewSubscription net rnd sub now = Inr prepared \<Longrightarrow> sub_DeletedAt prepared = None"
  by (auto simp: prepareNewSubscription_def Let_def split: if_splits)

lemma created_is_read:
  assumes run: "CreateSubscription net (local_codec keys config r) rnd preNow now sub s = Inr (t, prepared)"
    and plain: "list_all plain_char (sub_Endpoint prepared)" "list_all plain_char (sub_SigningSecret prepared)"
  shows "GetSubscription (local_codec keys config r) t (sub_WorkspaceID prepared) (sub_ID prepared) = Inr prepared"
    and "\<exists>stored. map_of (WebhookSubscriptions t) (webhookSubscriptionKey (sub_WorkspaceID prepared) (sub_ID prepared)) = Some stored \<and>
      IsEnc (ws_EndpointEncrypted stored) \<and> IsEnc (ws_SigningSecretEncrypted stored)"
proof -
  let ?cx = "local_codec keys config r"
  obtain e x where enc: "encryptLocalSubscription ?cx prepared = Inr (e, x)" and p: "prepareNewSubscription net rnd sub preNow = Inr prepared"
    and stored: "map_of (WebhookSubscriptions t) (webhookSubscriptionKey (sub_WorkspaceID prepared) (sub_ID prepared)) =
      Some (subscriptionRecord prepared e x)"
    by (rule create_cases [OF run])
  have e: "enc_text ?cx ''webhook endpoint'' (sub_WorkspaceID prepared) (sub_Endpoint prepared) = Inr e"
    and x: "enc_text ?cx ''webhook signing secret'' (sub_WorkspaceID prepared) (sub_SigningSecret prepared) = Inr x"
    using enc by (auto simp: encryptLocalSubscription_def)
  have "dec_text ?cx (sub_WorkspaceID prepared) e = Inr (sub_Endpoint prepared)"
    "dec_text ?cx (sub_WorkspaceID prepared) x = Inr (sub_SigningSecret prepared)"
    using e x webhook_string_roundtrip plain by (simp_all add: local_codec_def)
  then show "GetSubscription ?cx t (sub_WorkspaceID prepared) (sub_ID prepared) = Inr prepared"
    using prepared_not_deleted [OF p]
    by (simp add: GetSubscription_def stored localSubscription_def subscriptionRecord_def subscriptionFromRecord_def)
  have "IsEnc e" "IsEnc x"
    using e x webhook_string_encrypted plain by (auto simp: local_codec_def)
  then show "\<exists>stored. map_of (WebhookSubscriptions t) (webhookSubscriptionKey (sub_WorkspaceID prepared) (sub_ID prepared)) = Some stored \<and>
      IsEnc (ws_EndpointEncrypted stored) \<and> IsEnc (ws_SigningSecretEncrypted stored)"
    using stored by (simp add: subscriptionRecord_def)
qed

section \<open>Credentials by their token\<close>

lemma token_lookup:
  assumes ok: "creds_ok s" and c: "map_of (WorkerCredentials s) k = Some c" and hash: "trim (wc_TokenHash c) = wc_TokenHash c" "wc_TokenHash c \<noteq> []"
  shows "GetWorkerCredentialByTokenHash s (wc_TokenHash c) = Inr c"
proof -
  have mem: "(k, c) \<in> set (WorkerCredentials s)" by (rule map_of_SomeD [OF c])
  obtain c' where found: "List.find (\<lambda>x. wc_TokenHash x = wc_TokenHash c) (map snd (WorkerCredentials s)) = Some c'"
    using mem by (cases "List.find (\<lambda>x. wc_TokenHash x = wc_TokenHash c) (map snd (WorkerCredentials s))") (force simp: find_None_iff)+
  then obtain k' where k': "(k', c') \<in> set (WorkerCredentials s)" "wc_TokenHash c' = wc_TokenHash c"
    by (auto simp: find_Some_iff in_set_conv_nth) (metis prod.collapse)
  then have "map_of (WorkerCredentials s) k' = Some c'" using ok in_set_map_of by (auto simp: creds_ok_def)
  then have "c' = c" using ok c k'(2) unfolding creds_ok_def by (metis option.inject)
  then show ?thesis using found hash by (simp add: GetWorkerCredentialByTokenHash_def)
qed

lemma token_for_ever:
  assumes "reachable cx h" and c: "map_of (WorkerCredentials (state_file h)) k = Some c"
    and hash: "trim (wc_TokenHash c) = wc_TokenHash c" "wc_TokenHash c \<noteq> []" and later: "(store_step cx)\<^sup>*\<^sup>* h h'"
  shows "\<exists>c'. GetWorkerCredentialByTokenHash (state_file h') (wc_TokenHash c) = Inr c' \<and> wc_Group c' = wc_Group c \<and>
    wc_Generation c' = wc_Generation c \<and> (wc_RevokeOperationID c \<noteq> [] \<longrightarrow> c' = c)"
proof -
  have ok: "creds_ok (state_file h)" by (rule creds_history.reach_inv [OF assms(1)])
  have l: "creds_later (state_file h) (state_file h')" "creds_ok (state_file h')"
    using creds_steps.steps_rel [OF later ok] by simp_all
  then obtain c' where c': "map_of (WorkerCredentials (state_file h')) k = Some c'" "cred_later c c'"
    using c by (auto simp: creds_later_def)
  then show ?thesis using token_lookup [OF l(2) c'(1)] hash by (auto simp: cred_later_def)
qed

end
