(* ===== verification/WebhookScenario.thy ===== *)
theory WebhookScenario
  imports Scenario Retention Dispatch Subscriptions
begin

text \<open>
  A short concrete history of the outbox, with encryption: a subscription is created, a test delivery is requested for
  it, a dispatcher claims the delivery and completes it. Each step draws its identifiers from a source of its own.
\<close>

declare map_of_eq_Some_iff [simp del] Some_eq_map_of_iff [simp del]

section \<open>Data\<close>

definition hook_codec :: codec where
  "hook_codec = local_codec (\<lambda>w. Inr (''key'', 0)) \<lparr>icc_SecretKey = ''secret'', icc_SecretKeyPrevious = []\<rparr> (\<lambda>d. [])"

definition hook_rnd :: "string \<Rightarrow> rnd" where "hook_rnd tag = (\<lambda>d. tag)"

definition hook_url :: parsed_url where
  "hook_url = \<lparr>url_Scheme = ''https'', url_Host = ''hooks.test'', url_Hostname = ''hooks.test'', url_User = None, url_Fragment = []\<rparr>"

definition hook_net :: net where "hook_net = \<lparr>parse_url = \<lambda>raw. Some hook_url, loopback_addr = \<lambda>h. False\<rparr>"

definition hook_sub :: subscription where
  "hook_sub = \<lparr>sub_ID = ''whs_1'', sub_WorkspaceID = ''team'', sub_Name = ''audit'', sub_Endpoint = ''https:hooks.test'',
     sub_SigningSecret = ''0123456789abcdef'', sub_EventTypes = [ReleasePublishedType], sub_AppKeys = [], sub_Enabled = True,
     sub_CreatedBy = ''ops'', sub_UpdatedBy = ''ops'', sub_CreatedAt = demo_at 1, sub_UpdatedAt = demo_at 1, sub_DeletedAt = None\<rparr>"

lemma hook_new_deliveries [simp]: "new_deliveries (hook_rnd tag) = {''whd_'' @ tag}"
  by (auto simp: new_deliveries_def NewID_def hook_rnd_def)

lemma hook_prepared: "prepareNewSubscription hook_net rnd hook_sub (demo_at 1) = Inr hook_sub"
  by (simp add: prepareNewSubscription_def hook_sub_def NormalizeWorkspace_def NormalizeFilters_def uniqueSorted_def
      ValidateSubscription_def validateEndpoint_def hook_net_def hook_url_def ReleasePublishedType_def lifecycle_types_def
      sorted_set_def literal_simps Let_def)

lemma hook_text:
  assumes "list_all plain_char v"
  shows "\<exists>ct. enc_text hook_codec draw w v = Inr ct \<and> dec_text hook_codec w ct = Inr v"
proof -
  have "json_valid (compact (JString v))"
    using parse_plain_text [OF assms] by (simp add: json_valid_def)
  then have "\<exists>ct. encryptWebhookString draw' (\<lambda>w. Inr (''key'', 0)) \<lparr>icc_SecretKey = ''secret'', icc_SecretKeyPrevious = []\<rparr> w v = Inr ct" for draw'
    by (auto simp: encryptWebhookString_def encryptJSONAtRest_def canonicalJSONValue_def resolveInputDEK_def ResolveDEK_def
        literal_simps JString_def Let_def)
  then show ?thesis
    using webhook_string_roundtrip [OF assms] by (simp add: hook_codec_def local_codec_def) blast
qed

definition hook_record :: webhook_subscription where
  "hook_record = subscriptionRecord hook_sub (projr (enc_text hook_codec ''webhook endpoint'' ''team'' (sub_Endpoint hook_sub)))
     (projr (enc_text hook_codec ''webhook signing secret'' ''team'' (sub_SigningSecret hook_sub)))"

lemma hook_plain: "list_all plain_char (sub_Endpoint hook_sub)" "list_all plain_char (sub_SigningSecret hook_sub)"
  by (simp_all add: hook_sub_def plain_char_def byte_def)

lemma hook_encrypted:
  "encryptLocalSubscription hook_codec hook_sub = Inr (ws_EndpointEncrypted hook_record, ws_SigningSecretEncrypted hook_record)"
  "localSubscription hook_codec hook_record = Inr hook_sub"
proof -
  obtain c1 c2 where c: "enc_text hook_codec ''webhook endpoint'' ''team'' (sub_Endpoint hook_sub) = Inr c1"
      "dec_text hook_codec ''team'' c1 = Inr (sub_Endpoint hook_sub)"
      "enc_text hook_codec ''webhook signing secret'' ''team'' (sub_SigningSecret hook_sub) = Inr c2"
      "dec_text hook_codec ''team'' c2 = Inr (sub_SigningSecret hook_sub)"
    using hook_text [OF hook_plain(1)] hook_text [OF hook_plain(2)] by meson
  have w: "sub_WorkspaceID hook_sub = ''team''" by (simp add: hook_sub_def)
  show "encryptLocalSubscription hook_codec hook_sub = Inr (ws_EndpointEncrypted hook_record, ws_SigningSecretEncrypted hook_record)"
    by (simp add: encryptLocalSubscription_def hook_record_def subscriptionRecord_def c w)
  show "localSubscription hook_codec hook_record = Inr hook_sub"
    by (simp add: localSubscription_def hook_record_def subscriptionRecord_def subscriptionFromRecord_def c w)
qed

lemma hook_record_fields [simp]:
  "ws_DeletedAt hook_record = None" "ws_Enabled hook_record" "ws_Name hook_record = ''audit''" "ws_WorkspaceID hook_record = ''team''"
  by (simp_all add: hook_record_def subscriptionRecord_def hook_sub_def)

definition hook_file :: "(string, webhook_delivery) gomap \<Rightarrow> (string, envelope) gomap \<Rightarrow> snapshot \<Rightarrow> bool" where
  "hook_file dels evs s \<longleftrightarrow> HumanTasks s = [] \<and> WebhookSubscriptions s = [(''team/whs_1'', hook_record)] \<and>
     WebhookDeliveries s = dels \<and> ControlPlaneEvents s = evs"

definition hook_next :: "string \<Rightarrow> time \<Rightarrow> command \<Rightarrow> snapshot \<Rightarrow> snapshot" where
  "hook_next tag now c s = (case exec hook_codec (hook_rnd tag) now c s of Inl e \<Rightarrow> s | Inr t \<Rightarrow> t)"

definition hook_created :: snapshot where
  "hook_created = hook_next ''a'' (demo_at 1) (CmdCreateSubscription hook_net (demo_at 1) hook_sub) (newSnapshot ''epoch'')"

definition hook_queued :: snapshot where
  "hook_queued = hook_next ''b'' (demo_at 2) (CmdTestDelivery ''team'' ''whs_1'' ''ops'') hook_created"

definition hook_sending :: snapshot where
  "hook_sending = hook_next ''c'' (demo_at 3) (CmdClaimDelivery (demo_at 3) ''d1'' demo_ttl hook_queued) hook_queued"

definition hook_lease :: delivery_lease where
  "hook_lease = \<lparr>dl_DeliveryID = ''whd_b'', dl_WorkerID = ''d1'', dl_Attempt = 1, dl_ExpiresAt = demo_at 13\<rparr>"

definition hook_result :: delivery_result where
  "hook_result = \<lparr>dr_State = DeliverySucceeded, dr_NextAttemptAt = 0, dr_ResponseStatus = Some 200, dr_LatencyMillis = Some 12,
     dr_ErrorSummary = None, dr_CompletedAt = demo_at 4\<rparr>"

definition hook_sent :: snapshot where
  "hook_sent = hook_next ''d'' (demo_at 4) (CmdCompleteDelivery hook_lease hook_result) hook_sending"

section \<open>The steps\<close>

lemma map_vals_Nil [simp]: "map_vals f [] = []"
  by (simp add: map_vals_def)

lemma team_workspace [simp]: "NormalizeWorkspace ''team'' = ''team''" "webhookSubscriptionKey ''team'' ''whs_1'' = ''team/whs_1''"
  by (simp_all add: NormalizeWorkspace_def webhookSubscriptionKey_def literal_simps)

lemma hook_created_step:
  "CreateSubscription hook_net hook_codec (hook_rnd ''a'') (demo_at 1) (demo_at 1) hook_sub (newSnapshot ''epoch'') = Inr (hook_created, hook_sub)"
  "hook_file [] [] hook_created"
proof -
  let ?fn = "create_subscription (hook_rnd ''a'') hook_sub (ws_EndpointEncrypted hook_record) (ws_SigningSecretEncrypted hook_record) (demo_at 1)"
  have id: "sub_WorkspaceID hook_sub = ''team''" "sub_ID hook_sub = ''whs_1''" by (simp_all add: hook_sub_def)
  have rec: "subscriptionRecord hook_sub (ws_EndpointEncrypted hook_record) (ws_SigningSecretEncrypted hook_record) = hook_record"
    by (simp add: hook_record_def subscriptionRecord_def)
  obtain audits where fn: "?fn (ensureSnapshot (newSnapshot ''epoch'')) =
      Inr ((newSnapshot ''epoch'')\<lparr>WebhookSubscriptions := [(''team/whs_1'', hook_record)], WebhookAudits := audits\<rparr>, ())"
    unfolding ensure_new by (simp add: create_subscription_def Let_def name_taken_def newSnapshot_def id rec)
  have run: "CreateSubscription hook_net hook_codec (hook_rnd ''a'') (demo_at 1) (demo_at 1) hook_sub (newSnapshot ''epoch'') =
      Inr (write_file ((newSnapshot ''epoch'')\<lparr>WebhookSubscriptions := [(''team/whs_1'', hook_record)], WebhookAudits := audits\<rparr>), hook_sub)"
    using update_no_tasks [where fn = ?fn, OF _ fn, of "hook_rnd ''a''" "demo_at 1"]
    by (simp add: CreateSubscription_def hook_prepared hook_encrypted newSnapshot_def)
  then show "CreateSubscription hook_net hook_codec (hook_rnd ''a'') (demo_at 1) (demo_at 1) hook_sub (newSnapshot ''epoch'') = Inr (hook_created, hook_sub)"
    by (simp add: hook_created_def hook_next_def file_of_def)
  then have eq: "hook_created = write_file ((newSnapshot ''epoch'')\<lparr>WebhookSubscriptions := [(''team/whs_1'', hook_record)], WebhookAudits := audits\<rparr>)"
    unfolding run by simp
  show "hook_file [] [] hook_created"
    unfolding eq by (simp add: hook_file_def write_file_webhooks write_file_tasks newSnapshot_def)
qed

lemma hook_update:
  assumes "hook_file d e s" and "fn (ensureSnapshot s) = Inr (v, a)" and "hook_file d' e' v"
  shows "updateWithClock rnd now s fn = Inr (write_file v, a) \<and> hook_file d' e' (write_file v)"
  using assms update_no_tasks [of s fn v a rnd now]
  by (simp add: hook_file_def write_file_webhooks write_file_tasks)

lemma hook_file_ensure: "hook_file d e s \<Longrightarrow> hook_file d e (ensureSnapshot s)"
  by (simp add: hook_file_def)

definition hook_event :: envelope where
  "hook_event = \<lparr>env_SpecVersion = CloudEventsSpecVersion, env_ID = ''evt_b'', env_Type = WebhookTestType,
     env_Source = ''/workspaces/team/control-plane'', env_Subject = ''webhooks/whs_1/test'', env_Time = demo_at 2,
     env_DataContentType = JSONContentType,
     env_Data = marshal_test \<lparr>wt_Workspace = ''team'', wt_SubscriptionID = ''whs_1'', wt_Actor = ''ops''\<rparr>\<rparr>"

definition hook_delivery :: webhook_delivery where
  "hook_delivery = newWebhookDelivery ''whd_b'' hook_event ''team'' ''whs_1'' (demo_at 2)"

lemma demo_at_pos: "0 < demo_at n \<longleftrightarrow> - 63835596800 < n" "demo_at n = 0 \<longleftrightarrow> n = - 63835596800"
  by (auto simp: demo_at_def unix_time_def unix_epoch_def nanos_per_second_def)

lemma hook_event_made:
  "NewWebhookTest ''evt_b'' (demo_at 2) \<lparr>wt_Workspace = ''team'', wt_SubscriptionID = ''whs_1'', wt_Actor = ''ops''\<rparr> = Inr hook_event"
proof -
  have j: "json_text ''team'' = ''team''" "json_text ''whs_1'' = ''whs_1''" "json_text ''ops'' = ''ops''"
    by (rule json_text_plain; simp add: plain_char_def byte_def)+
  show ?thesis
    by (simp add: NewWebhookTest_def validate_test_def validateWebhookTest_def hook_event_def CloudEventsSpecVersion_def
        JSONContentType_def literal_simps demo_at_pos j Let_def)
qed

lemma hook_queued_step:
  "\<exists>x. CreateTestDelivery (hook_rnd ''b'') (demo_at 2) ''team'' ''whs_1'' ''ops'' hook_created = Inr (hook_queued, x)"
  "hook_file [(''whd_b'', hook_delivery)] [(''evt_b'', hook_event)] hook_queued"
proof -
  let ?fn = "create_test_delivery (hook_rnd ''b'') ''team'' ''whs_1'' ''ops'' (demo_at 2)"
  have id: "NewID (hook_rnd ''b'') ''evt'' x = ''evt_b''" "NewID (hook_rnd ''b'') ''whd'' x = ''whd_b''" for x
    by (simp_all add: NewID_def hook_rnd_def)
  have "\<exists>v x. ?fn (ensureSnapshot hook_created) = Inr (v, x) \<and> hook_file [(''whd_b'', hook_delivery)] [(''evt_b'', hook_event)] v"
    using hook_file_ensure [OF hook_created_step(2)]
    by (simp add: create_test_delivery_def Let_def hook_file_def id hook_event_made hook_delivery_def newWebhookDelivery_def hook_event_def)
  then obtain v x where v: "?fn (ensureSnapshot hook_created) = Inr (v, x)"
    "hook_file [(''whd_b'', hook_delivery)] [(''evt_b'', hook_event)] v" by blast
  note up = hook_update [OF hook_created_step(2), of ?fn, OF v, of "hook_rnd ''b''" "demo_at 2"]
  then have q: "hook_queued = write_file v"
    by (simp add: hook_queued_def hook_next_def file_of_def CreateTestDelivery_def)
  show "\<exists>x. CreateTestDelivery (hook_rnd ''b'') (demo_at 2) ''team'' ''whs_1'' ''ops'' hook_created = Inr (hook_queued, x)"
    "hook_file [(''whd_b'', hook_delivery)] [(''evt_b'', hook_event)] hook_queued"
    using up by (simp_all add: CreateTestDelivery_def q)
qed

definition hook_taken :: webhook_delivery where
  "hook_taken = hook_delivery\<lparr>wd_State := DeliveryDelivering, wd_Attempt := 1, wd_LeaseOwner := Some ''d1'',
     wd_LeaseExpiresAt := Some (demo_at 13), wd_UpdatedAt := demo_at 3\<rparr>"

definition hook_claimed :: claimed_delivery where
  "hook_claimed = \<lparr>cd_Delivery = hook_taken, cd_Event = hook_event, cd_Subscription = hook_sub, cd_Lease = hook_lease\<rparr>"

lemma hook_delivery_fields [simp]:
  "wd_ID hook_delivery = ''whd_b''" "wd_State hook_delivery = DeliveryPending" "wd_NextAttemptAt hook_delivery = demo_at 2"
  "wd_WorkspaceID hook_delivery = ''team''" "wd_SubscriptionID hook_delivery = ''whs_1''" "wd_EventID hook_delivery = ''evt_b''"
  "wd_Attempt hook_delivery = 0" "wd_CreatedAt hook_delivery = demo_at 2"
  by (simp_all add: hook_delivery_def newWebhookDelivery_def zero_webhook_delivery_def hook_event_def)

lemma hook_eligible: "hook_file d e s \<Longrightarrow> eligible_record s (demo_at 3) hook_delivery = Some hook_record"
  by (simp add: eligible_record_def hook_file_def deliveryEligible_def)

lemma hook_sending_step:
  "ClaimDelivery hook_codec (hook_rnd ''c'') (demo_at 3) (demo_at 3) ''d1'' demo_ttl hook_queued hook_queued = Inr (hook_sending, hook_claimed)"
  "hook_file [(''whd_b'', hook_taken)] [(''evt_b'', hook_event)] hook_sending"
proof -
  let ?fn = "claim_delivery hook_codec ''d1'' demo_ttl (demo_at 3)"
  have "\<exists>v. ?fn (ensureSnapshot hook_queued) = Inr (v, hook_claimed) \<and> hook_file [(''whd_b'', hook_taken)] [(''evt_b'', hook_event)] v"
    using hook_file_ensure [OF hook_queued_step(2)] hook_eligible [OF hook_file_ensure [OF hook_queued_step(2)]]
    by (simp add: claim_delivery_def hook_file_def pick_delivery_def hook_encrypted Let_def hook_taken_def hook_claimed_def hook_lease_def)
  then obtain v where v: "?fn (ensureSnapshot hook_queued) = Inr (v, hook_claimed)"
    "hook_file [(''whd_b'', hook_taken)] [(''evt_b'', hook_event)] v" by blast
  note up = hook_update [OF hook_queued_step(2), of ?fn, OF v, of "hook_rnd ''c''" "demo_at 3"]
  have pre: "localSnapshotHasEligibleDelivery hook_queued (demo_at 3)"
    using hook_queued_step(2) hook_eligible [OF hook_queued_step(2)] by (simp add: localSnapshotHasEligibleDelivery_def hook_file_def)
  have call: "ClaimDelivery hook_codec (hook_rnd ''c'') (demo_at 3) (demo_at 3) ''d1'' demo_ttl hook_queued hook_queued = Inr (write_file v, hook_claimed)"
    using up pre demo_ttl_pos by (simp add: ClaimDelivery_def Let_def literal_simps)
  then have q: "hook_sending = write_file v" by (simp add: hook_sending_def hook_next_def file_of_def)
  show "ClaimDelivery hook_codec (hook_rnd ''c'') (demo_at 3) (demo_at 3) ''d1'' demo_ttl hook_queued hook_queued = Inr (hook_sending, hook_claimed)"
    "hook_file [(''whd_b'', hook_taken)] [(''evt_b'', hook_event)] hook_sending"
    using up call by (simp_all add: q)
qed

definition hook_finished :: webhook_delivery where
  "hook_finished = hook_taken\<lparr>wd_State := DeliverySucceeded, wd_NextAttemptAt := 0, wd_ResponseStatus := Some 200,
     wd_LatencyMillis := Some 12, wd_ErrorSummary := None, wd_LeaseOwner := None, wd_LeaseExpiresAt := None,
     wd_UpdatedAt := demo_at 4, wd_CompletedAt := Some (demo_at 4)\<rparr>"

lemma hook_sent_step:
  "CompleteDelivery (hook_rnd ''d'') (demo_at 4) hook_lease hook_result hook_sending = Inr (hook_sent, ())"
  "hook_file [(''whd_b'', hook_finished)] [(''evt_b'', hook_event)] hook_sent"
proof -
  let ?fn = "complete_delivery hook_lease hook_result (demo_at 4)"
  have "\<exists>v. ?fn (ensureSnapshot hook_sending) = Inr (v, ()) \<and> hook_file [(''whd_b'', hook_finished)] [(''evt_b'', hook_event)] v"
    using hook_file_ensure [OF hook_sending_step(2)]
    by (simp add: complete_delivery_def hook_file_def hook_lease_def hook_result_def hook_taken_def hook_finished_def
        validateDeliveryLease_def Let_def)
  then obtain v where v: "?fn (ensureSnapshot hook_sending) = Inr (v, ())"
    "hook_file [(''whd_b'', hook_finished)] [(''evt_b'', hook_event)] v" by blast
  note up = hook_update [OF hook_sending_step(2), of ?fn, OF v, of "hook_rnd ''d''" "demo_at 4"]
  have call: "CompleteDelivery (hook_rnd ''d'') (demo_at 4) hook_lease hook_result hook_sending = Inr (write_file v, ())"
    using up by (simp add: CompleteDelivery_def ValidateDeliveryResult_def hook_result_def demo_at_pos)
  then have q: "hook_sent = write_file v" by (simp add: hook_sent_def hook_next_def file_of_def)
  show "CompleteDelivery (hook_rnd ''d'') (demo_at 4) hook_lease hook_result hook_sending = Inr (hook_sent, ())"
    "hook_file [(''whd_b'', hook_finished)] [(''evt_b'', hook_event)] hook_sent"
    using up call by (simp_all add: q)
qed

section \<open>The history\<close>

definition hook_history :: "snapshot \<Rightarrow> string list \<Rightarrow> outbox_history" where
  "hook_history s tags = \<lparr>state_file = s, issued = {}, drawn = (\<lambda>tag. ''whd_'' @ tag) ` set tags\<rparr>"

lemma hook_step:
  assumes "exec hook_codec (hook_rnd tag) now c s = Inr t" and "well_formed c" and "new_jobs (hook_rnd tag) c = {}" and "tag \<notin> set tags"
  shows "outbox_step hook_codec (hook_history s tags) (hook_history t (tag # tags))"
proof -
  have "outbox_step hook_codec (hook_history s tags)
      \<lparr>state_file = t, issued = issued (hook_history s tags) \<union> new_jobs (hook_rnd tag) c,
       drawn = drawn (hook_history s tags) \<union> new_deliveries (hook_rnd tag)\<rparr>"
    by (rule draw [OF _ assms(2)]) (use assms in \<open>auto simp: hook_history_def\<close>)
  moreover have "\<lparr>state_file = t, issued = issued (hook_history s tags) \<union> new_jobs (hook_rnd tag) c,
       drawn = drawn (hook_history s tags) \<union> new_deliveries (hook_rnd tag)\<rparr> = hook_history t (tag # tags)"
    using assms(3) by (simp add: hook_history_def)
  ultimately show ?thesis by simp
qed

lemma hook_steps:
  "outbox_step hook_codec (hook_history (newSnapshot ''epoch'') []) (hook_history hook_created [''a''])"
  "outbox_step hook_codec (hook_history hook_created [''a'']) (hook_history hook_queued [''b'', ''a''])"
  "outbox_step hook_codec (hook_history hook_queued [''b'', ''a'']) (hook_history hook_sending [''c'', ''b'', ''a''])"
  "outbox_step hook_codec (hook_history hook_sending [''c'', ''b'', ''a'']) (hook_history hook_sent [''d'', ''c'', ''b'', ''a''])"
proof -
  show "outbox_step hook_codec (hook_history (newSnapshot ''epoch'') []) (hook_history hook_created [''a''])"
    by (rule hook_step [where c = "CmdCreateSubscription hook_net (demo_at 1) hook_sub" and now = "demo_at 1"])
      (use hook_created_step(1) in \<open>simp_all add: file_of_def\<close>)
  show "outbox_step hook_codec (hook_history hook_created [''a'']) (hook_history hook_queued [''b'', ''a''])"
    by (rule hook_step [where c = "CmdTestDelivery ''team'' ''whs_1'' ''ops''" and now = "demo_at 2"])
      (use hook_queued_step(1) in \<open>auto simp: file_of_def\<close>)
  show "outbox_step hook_codec (hook_history hook_queued [''b'', ''a'']) (hook_history hook_sending [''c'', ''b'', ''a''])"
    by (rule hook_step [where c = "CmdClaimDelivery (demo_at 3) ''d1'' demo_ttl hook_queued" and now = "demo_at 3"])
      (use hook_sending_step(1) in \<open>simp_all add: file_of_def\<close>)
  show "outbox_step hook_codec (hook_history hook_sending [''c'', ''b'', ''a'']) (hook_history hook_sent [''d'', ''c'', ''b'', ''a''])"
    by (rule hook_step [where c = "CmdCompleteDelivery hook_lease hook_result" and now = "demo_at 4"])
      (use hook_sent_step(1) in \<open>simp_all add: file_of_def\<close>)
qed

lemma hook_reachable:
  "outbox_reachable hook_codec (hook_history hook_queued [''b'', ''a''])"
  "outbox_reachable hook_codec (hook_history hook_sending [''c'', ''b'', ''a''])"
  "outbox_reachable hook_codec (hook_history hook_sent [''d'', ''c'', ''b'', ''a''])"
proof -
  have "outbox_initial (hook_history (newSnapshot ''epoch'') [])" by (auto simp: outbox_initial_def hook_history_def)
  then have "outbox_reachable hook_codec (hook_history (newSnapshot ''epoch'') [])" by (rule reach.intros(1))
  then show "outbox_reachable hook_codec (hook_history hook_queued [''b'', ''a''])"
    "outbox_reachable hook_codec (hook_history hook_sending [''c'', ''b'', ''a''])"
    "outbox_reachable hook_codec (hook_history hook_sent [''d'', ''c'', ''b'', ''a''])"
    using hook_steps by (blast intro: reach.intros(2))+
qed

section \<open>A policy request\<close>

definition demo_mutation :: "string \<Rightarrow> mutate_execution_limit_policy_request" where
  "demo_mutation op = \<lparr>mlp_Policy = zero_execution_limit_policy\<lparr>lp_Key := \<lparr>lpk_WorkspaceID = ''team'', lpk_AppKey = ''app'',
       lpk_ActionKey = [], lpk_Scope = ScopeAppName, lpk_PolicyID = ''per-user'', lpk_Kind = KindConcurrency\<rparr>,
       lp_ShapeFingerprint := ''elfp:v1:sha256:'' @ demo_hex, lp_Allowance := 2\<rparr>,
     mlp_ExpectedRevision = 0, mlp_OperationID = op, mlp_RequestFingerprint = ''fp'', mlp_Delete = False, mlp_Actor = ''ops'',
     mlp_Reason = ''launch''\<rparr>"

lemma demo_mutation_normal: "NormalizeExecutionLimitPolicyMutation (demo_mutation ''op-1'') = Inr (demo_mutation ''op-1'')"
  "NormalizeExecutionLimitPolicyMutation (demo_mutation ''op-2'') = Inr (demo_mutation ''op-2'')"
proof -
  have fp: "IsFingerprint (''elfp:v1:sha256:'' @ demo_hex)" using demo_fingerprint by (simp add: demo_app_pin_def)
  moreover have "trim (''elfp:v1:sha256:'' @ demo_hex) = ''elfp:v1:sha256:'' @ demo_hex"
    by (rule trim_clean) (simp add: demo_hex_def clean_rune_def byte_def)
  ultimately show "NormalizeExecutionLimitPolicyMutation (demo_mutation ''op-1'') = Inr (demo_mutation ''op-1'')"
    "NormalizeExecutionLimitPolicyMutation (demo_mutation ''op-2'') = Inr (demo_mutation ''op-2'')"
    by (simp_all add: NormalizeExecutionLimitPolicyMutation_def NormalizeExecutionLimitPolicyKey_def demo_mutation_def
        zero_execution_limit_policy_def ScopeAppName_def ScopeActionName_def KindConcurrency_def KindRate_def literal_simps Let_def)
qed

lemma demo_mutation_step:
  "\<exists>t p. MutateExecutionLimitPolicy demo_rnd (demo_at 5) (demo_mutation ''op-1'') (newSnapshot ''epoch'') = Inr (t, p, False)"
proof -
  have "\<exists>v p. applyLocalExecutionLimitPolicyMutation demo_rnd (demo_mutation ''op-1'') (demo_at 5) (ensureSnapshot (newSnapshot ''epoch'')) =
      Inr (v, p, False)"
    unfolding ensure_new
    by (simp add: applyLocalExecutionLimitPolicyMutation_def newSnapshot_def demo_mutation_def Let_def)
  moreover have "go_map_ok (HumanTasks (newSnapshot ''epoch''))" by (simp add: newSnapshot_def)
  ultimately show ?thesis
    using single_returns [OF _ demo_mutation_normal(1), of "newSnapshot ''epoch''" demo_rnd "demo_at 5"] by blast
qed

section \<open>An attempt\<close>

definition hook_dispatcher :: dispatcher where
  "hook_dispatcher = \<lparr>dp_WorkerID = ''d1'', dp_LeaseTTL = demo_ttl, dp_MaxAttempts = 0, dp_BackoffBase = 0, dp_BackoffMax = 0\<rparr>"

definition hook_ok :: attempt_result where
  "hook_ok = \<lparr>ar_Outcome = AttemptSucceeded, ar_ResponseStatus = Some 200, ar_Latency = 12000000, ar_RetryAt = None, ar_ErrorSummary = []\<rparr>"

definition hook_clock :: clock_readings where
  "hook_clock = \<lparr>ck_preflight = demo_at 3, ck_claim = demo_at 3, ck_result = demo_at 4, ck_complete = demo_at 4\<rparr>"

lemma hook_processed:
  "ProcessOne hook_codec (hook_rnd ''c'') (hook_rnd ''d'') hook_clock (''h'', ''1'') (\<lambda>_. hook_ok) (\<lambda>t. t) hook_dispatcher hook_queued hook_queued =
     (hook_sent, True, None)"
proof -
  have "deliveryResult (applyDefaults ''h'' ''1'' hook_dispatcher) (demo_at 4) hook_claimed hook_ok = hook_result"
    by (simp add: deliveryResult_def hook_ok_def base_result_def hook_result_def stringPtr_def go_div_nonneg)
  moreover have "dp_WorkerID (applyDefaults ''h'' ''1'' hook_dispatcher) = ''d1''" "dp_LeaseTTL (applyDefaults ''h'' ''1'' hook_dispatcher) = demo_ttl"
    using demo_ttl_pos by (simp_all add: applyDefaults_def hook_dispatcher_def literal_simps)
  moreover have "cd_Lease hook_claimed = hook_lease" by (simp add: hook_claimed_def)
  ultimately show ?thesis
    using hook_sending_step(1) hook_sent_step(1) by (simp add: ProcessOne_def Let_def hook_clock_def)
qed

section \<open>An endpoint\<close>

definition hook_egress_net :: egress_net where
  "hook_egress_net = net.extend hook_net \<lparr>url_port = \<lambda>u. [], parse_addr = \<lambda>h. None, parse_prefix = \<lambda>p. None,
     lookup_ip = \<lambda>h. Some [V4 (ip4 93 184 216 34)]\<rparr>"

definition hook_policy :: egress_policy where
  "hook_policy = \<lparr>ep_AllowedHosts = [], ep_AllowedCIDRs = [], ep_AllowedInsecureHTTPHosts = [], ep_AllowInsecureLoopback = False\<rparr>"

lemma hook_public: "\<not> in_ranges forbidden4 (ip4 93 184 216 34)" "\<not> in_ranges internal4 (ip4 93 184 216 34)"
  "\<not> in_ranges [(ip4 127 0 0 0, ip4 127 255 255 255)] (ip4 93 184 216 34)"
  by (simp_all add: in_ranges_def forbidden4_def internal4_def within4_def word_le_nat_alt unat_ip4)

lemma hook_resolved:
  "ResolveEndpoint hook_policy hook_egress_net ''https:hooks.test'' =
     Inr \<lparr>re_URL = hook_url, re_Host = normalizeHost ''hooks.test'', re_Port = ''443'', re_Addresses = [V4 (ip4 93 184 216 34)]\<rparr>"
proof -
  have "net.truncate hook_egress_net = hook_net"
    by (simp add: hook_egress_net_def net.defs)
  moreover have "validateEndpoint hook_net ''https:hooks.test'' False False = Inr hook_url"
    by (simp add: validateEndpoint_def hook_net_def hook_url_def)
  moreover have "policy_lookup hook_egress_net h = Some [V4 (ip4 93 184 216 34)]" for h
    by (simp add: policy_lookup_def hook_egress_net_def net.defs)
  moreover have "policy_allows hook_policy h ''https'' (V4 (ip4 93 184 216 34))" for h
    unfolding policy_allows_V4 allowed4_def using hook_public by simp
  moreover have "url_port hook_egress_net u = []" for u by (simp add: hook_egress_net_def net.defs)
  moreover have "\<not> ep_AllowInsecureLoopback hook_policy" "ep_AllowedInsecureHTTPHosts hook_policy = []"
    "url_Scheme hook_url = ''https''" "url_Hostname hook_url = ''hooks.test''"
    by (simp_all add: hook_policy_def hook_url_def)
  ultimately show ?thesis by (simp add: ResolveEndpoint_def Let_def)
qed

end
