(* ===== verification/Matcher.thy ===== *)
theory Matcher
  imports Prelude "HOL-Library.Sublist"
begin

text \<open>
  The multi-pattern matcher of \<^verbatim>\<open>internal/secretmask/matcher.go\<close>, an Aho-Corasick automaton. Nodes and edges lie in two
  arrays; the edges out of a node form a list linked through \<open>me_next\<close>. An absent index, \<open>-1\<close> in the code, is
  \<open>None\<close>. The indices are natural numbers: \<open>matcher_size\<close> shows that they stay within the total length of the
  patterns, so 32 bits suffice below two gigabytes of patterns.

  The ghost list \<open>lab\<close> names every node by the path that leads to it. A node is linked correctly when its failure link
  leads to the longest proper suffix of its path that is a path, and its match length is that of the longest pattern
  that ends its path. The theorem is \<open>scan_marks\<close>: at every position the scan marks the longest pattern ending there.
\<close>

section \<open>Nodes and edges\<close>

record matcher_node =
  mn_firstEdge :: "nat option"
  mn_fail :: nat
  mn_terminal :: nat
  mn_maxMatched :: nat

record matcher_edge =
  me_to :: nat
  me_next :: "nat option"
  me_char :: char

record matcher =
  mm_nodes :: "matcher_node list"
  mm_edges :: "matcher_edge list"

abbreviation new_node :: matcher_node where
  "new_node \<equiv> \<lparr>mn_firstEdge = None, mn_fail = 0, mn_terminal = 0, mn_maxMatched = 0\<rparr>"

abbreviation node :: "matcher \<Rightarrow> nat \<Rightarrow> matcher_node" where
  "node m s \<equiv> mm_nodes m ! s"

definition set_node :: "nat \<Rightarrow> (matcher_node \<Rightarrow> matcher_node) \<Rightarrow> matcher \<Rightarrow> matcher" where
  "set_node s f m = m\<lparr>mm_nodes := (mm_nodes m)[s := f (node m s)]\<rparr>"

text \<open>The edges met on the way from an index. Every link goes down, so the number of edges is enough fuel.\<close>

fun chain :: "nat \<Rightarrow> matcher_edge list \<Rightarrow> nat option \<Rightarrow> matcher_edge list" where
  "chain 0 es e = []"
| "chain (Suc n) es e = (case e of None \<Rightarrow> [] | Some i \<Rightarrow> es ! i # chain n es (me_next (es ! i)))"

definition out_edges :: "matcher \<Rightarrow> nat \<Rightarrow> matcher_edge list" where
  "out_edges m s = chain (length (mm_edges m)) (mm_edges m) (mn_firstEdge (node m s))"

definition transition :: "matcher \<Rightarrow> nat \<Rightarrow> char \<Rightarrow> nat option" where
  "transition m s c =
     (if s < length (mm_nodes m) then map_option me_to (find (\<lambda>e. me_char e = c) (out_edges m s)) else None)"

section \<open>Building\<close>

definition add_node :: "matcher \<Rightarrow> nat \<Rightarrow> char \<Rightarrow> matcher" where
  "add_node m s c =
     \<lparr>mm_nodes = (mm_nodes m)[s := (node m s)\<lparr>mn_firstEdge := Some (length (mm_edges m))\<rparr>] @ [new_node],
      mm_edges = mm_edges m @ [\<lparr>me_to = length (mm_nodes m), me_next = mn_firstEdge (node m s), me_char = c\<rparr>]\<rparr>"

fun insert_bytes :: "matcher \<Rightarrow> nat \<Rightarrow> string \<Rightarrow> matcher \<times> nat" where
  "insert_bytes m s [] = (m, s)"
| "insert_bytes m s (c # cs) =
     (case transition m s c of
        Some t \<Rightarrow> insert_bytes m t cs
      | None \<Rightarrow> insert_bytes (add_node m s c) (length (mm_nodes m)) cs)"

definition insert_pattern :: "string \<Rightarrow> matcher \<Rightarrow> matcher" where
  "insert_pattern pattern m =
     (if pattern = [] then m
      else case insert_bytes m 0 pattern of
             (m', s) \<Rightarrow>
               if length pattern > mn_terminal (node m' s)
               then set_node s (\<lambda>n. n\<lparr>mn_terminal := length pattern\<rparr>) m' else m')"

text \<open>Following failure links until there is a transition or the root is reached.\<close>

fun climb :: "nat \<Rightarrow> matcher \<Rightarrow> nat \<Rightarrow> char \<Rightarrow> nat option" where
  "climb 0 m s c = transition m s c"
| "climb (Suc n) m s c =
     (case transition m s c of
        Some t \<Rightarrow> Some t
      | None \<Rightarrow> if s = 0 then None else climb n m (mn_fail (node m s)) c)"

definition link_root_child :: "matcher_edge \<Rightarrow> matcher \<Rightarrow> matcher" where
  "link_root_child e m =
     set_node (me_to e) (\<lambda>n. n\<lparr>mn_fail := 0, mn_maxMatched := max (mn_terminal n) (mn_maxMatched (node m 0))\<rparr>) m"

definition link_child :: "nat \<Rightarrow> matcher_edge \<Rightarrow> matcher \<Rightarrow> matcher" where
  "link_child parent e m =
     (let child = me_to e;
          m1 = (case climb (length (mm_nodes m)) m (mn_fail (node m parent)) (me_char e) of
                  Some t \<Rightarrow> if t \<noteq> child then set_node child (\<lambda>n. n\<lparr>mn_fail := t\<rparr>) m else m
                | None \<Rightarrow> m);
          failureMatch = mn_maxMatched (node m1 (mn_fail (node m1 child)))
      in set_node child (\<lambda>n. n\<lparr>mn_maxMatched := max (mn_terminal n) failureMatch\<rparr>) m1)"

text \<open>The queue without the part before its head; every node enters it once, so the number of nodes is enough fuel.\<close>

fun link_queue :: "nat \<Rightarrow> nat list \<Rightarrow> matcher \<Rightarrow> matcher" where
  "link_queue 0 queue m = m"
| "link_queue (Suc n) [] m = m"
| "link_queue (Suc n) (parent # queue) m =
     link_queue n (queue @ map me_to (out_edges m parent)) (fold (link_child parent) (out_edges m parent) m)"

definition buildFailureLinks :: "matcher \<Rightarrow> matcher" where
  "buildFailureLinks m =
     (let m1 = set_node 0 (\<lambda>n. n\<lparr>mn_maxMatched := mn_terminal n\<rparr>) m
      in link_queue (length (mm_nodes m)) (map me_to (out_edges m 0)) (fold link_root_child (out_edges m 0) m1))"

definition newMultiPatternMatcher :: "string list \<Rightarrow> matcher" where
  "newMultiPatternMatcher patterns =
     buildFailureLinks (fold insert_pattern patterns \<lparr>mm_nodes = [new_node], mm_edges = []\<rparr>)"

section \<open>Scanning\<close>

text \<open>
  The scan returns its final state and the intervals it marks, in order. \<open>base\<close> is the position of the first byte; the
  intervals are integers, since a match may begin before it.
\<close>

fun scan :: "matcher \<Rightarrow> string \<Rightarrow> nat \<Rightarrow> nat \<Rightarrow> nat \<times> (int \<times> int) list" where
  "scan m [] s base = (s, [])"
| "scan m (c # cs) s base =
     (let s' = (case climb (length (mm_nodes m)) m s c of Some t \<Rightarrow> t | None \<Rightarrow> 0);
          len = mn_maxMatched (node m s');
          (final, marks) = scan m cs s' (Suc base)
      in (final, (if len > 0 then [(int (Suc base) - int len, int (Suc base))] else []) @ marks))"

section \<open>Longest suffixes\<close>

fun lsuf :: "string set \<Rightarrow> string \<Rightarrow> string" where
  "lsuf S [] = []"
| "lsuf S (c # cs) = (if c # cs \<in> S then c # cs else lsuf S cs)"

definition prefix_closed :: "string set \<Rightarrow> bool" where
  "prefix_closed S \<longleftrightarrow> [] \<in> S \<and> (\<forall>u c. u @ [c] \<in> S \<longrightarrow> u \<in> S)"

lemma lsuf_suffix: "suffix (lsuf S u) u"
  by (induction u) (auto simp: suffix_ConsI)

lemma lsuf_mem: "lsuf S u \<noteq> [] \<Longrightarrow> lsuf S u \<in> S"
  by (induction u) auto

lemma lsuf_mem_closed: "[] \<in> S \<Longrightarrow> lsuf S u \<in> S"
  by (induction u) auto

lemma lsuf_longest: "suffix v u \<Longrightarrow> v \<in> S \<Longrightarrow> suffix v (lsuf S u)"
  by (induction u) (auto simp: suffix_Cons)

lemma lsuf_length: "length (lsuf S u) \<le> length u"
  using lsuf_suffix [of S u] by (simp add: suffix_length_le)

lemma lsuf_fixed: "u \<in> S \<Longrightarrow> lsuf S u = u"
  by (cases u) auto

lemma lsuf_unique:
  assumes "suffix v u" and "v \<in> S \<or> v = []" and "\<And>w. suffix w u \<Longrightarrow> w \<in> S \<Longrightarrow> length w \<le> length v"
  shows "lsuf S u = v"
proof -
  have "length (lsuf S u) \<le> length v"
    using lsuf_mem [of S u] lsuf_suffix [of S u] assms(3) by (cases "lsuf S u = []") auto
  moreover have "length v \<le> length (lsuf S u)"
    using assms(1,2) lsuf_longest [of v u S] by (auto intro: suffix_length_le)
  ultimately show ?thesis
    using suffix_length_suffix [OF assms(1) lsuf_suffix [of S u]] suffix_length_suffix [OF lsuf_suffix [of S u] assms(1)]
    by (intro suffix_order.antisym) simp_all
qed

lemma prefix_closed_butlast: "prefix_closed S \<Longrightarrow> w \<in> S \<Longrightarrow> w \<noteq> [] \<Longrightarrow> butlast w \<in> S"
  unfolding prefix_closed_def by (metis append_butlast_last_id)

lemma lsuf_snoc:
  assumes "prefix_closed S"
  shows "lsuf S (u @ [c]) = lsuf S (lsuf S u @ [c])"
proof (rule lsuf_unique)
  let ?v = "lsuf S (lsuf S u @ [c])"
  show "suffix ?v (u @ [c])"
    using lsuf_suffix [of S "lsuf S u @ [c]"] lsuf_suffix [of S u] by (meson same_suffix_suffix suffix_order.trans suffix_snoc)
  show "?v \<in> S \<or> ?v = []" using lsuf_mem by blast
  fix w assume w: "suffix w (u @ [c])" "w \<in> S"
  show "length w \<le> length ?v"
  proof (cases "w = []")
    case False
    then obtain w' where w': "w = w' @ [c]" "suffix w' u" using w(1) by (auto simp: suffix_snoc)
    then have "suffix w' (lsuf S u)"
      using assms w(2) by (intro lsuf_longest) (auto simp: prefix_closed_def)
    then have "suffix w ?v" using w' w(2) by (intro lsuf_longest) (auto simp: suffix_snoc)
    then show ?thesis by (rule suffix_length_le)
  qed simp
qed

lemma lsuf_sub: "P \<subseteq> S \<Longrightarrow> lsuf P (lsuf S u) = lsuf P u"
  by (induction u) auto

section \<open>The tree of paths\<close>

definition edges_down :: "matcher_edge list \<Rightarrow> bool" where
  "edges_down es \<longleftrightarrow> (\<forall>i<length es. \<forall>j. me_next (es ! i) = Some j \<longrightarrow> j < i)"

lemma chain_fuel:
  assumes "edges_down es" and "\<And>i. e = Some i \<Longrightarrow> i < n \<and> i < length es" and "n \<le> k"
  shows "chain k es e = chain n es e"
  using assms(2,3)
proof (induction n arbitrary: e k)
  case 0
  then show ?case by (cases k; cases e) auto
next
  case (Suc n)
  then obtain k' where k: "k = Suc k'" "n \<le> k'" by (cases k) auto
  show ?case
  proof (cases e)
    case (Some i)
    then have "chain k' es (me_next (es ! i)) = chain n es (me_next (es ! i))"
      using Suc.prems(1) [OF Some] assms(1) k(2)
      by (intro Suc.IH) (fastforce simp: edges_down_def)+
    then show ?thesis using Some k by simp
  qed (simp add: k)
qed

lemma chain_append:
  assumes "edges_down es" and "\<And>i. e = Some i \<Longrightarrow> i < length es"
  shows "chain n (es @ xs) e = chain n es e"
  using assms(2)
proof (induction n arbitrary: e)
  case (Suc n)
  show ?case
  proof (cases e)
    case (Some i)
    then have i: "i < length es" using Suc.prems by simp
    then have "chain n (es @ xs) (me_next (es ! i)) = chain n es (me_next (es ! i))"
      using assms(1) by (intro Suc.IH) (auto simp: edges_down_def intro: less_trans)
    then show ?thesis using Some i by (simp add: nth_append)
  qed simp
qed simp

lemma chain_grow:
  assumes "edges_down es" and "\<And>i. e = Some i \<Longrightarrow> i < length es" and "length es \<le> k"
  shows "chain k (es @ xs) e = chain (length es) es e"
  using chain_append [OF assms(1,2)] chain_fuel [OF assms(1), of e "length es" k] assms(2,3) by simp

definition children :: "matcher \<Rightarrow> nat \<Rightarrow> (char \<times> nat) list" where
  "children m s = map (\<lambda>e. (me_char e, me_to e)) (out_edges m s)"

definition trie_ok :: "matcher \<Rightarrow> string list \<Rightarrow> bool" where
  "trie_ok m lab \<longleftrightarrow>
     length lab = length (mm_nodes m) \<and> lab \<noteq> [] \<and> lab ! 0 = [] \<and> distinct lab \<and> prefix_closed (set lab) \<and>
     edges_down (mm_edges m) \<and>
     (\<forall>s<length lab. (\<forall>i. mn_firstEdge (node m s) = Some i \<longrightarrow> i < length (mm_edges m)) \<and>
        distinct (map fst (children m s)) \<and> set (children m s) = {(c, t). t < length lab \<and> lab ! t = lab ! s @ [c]})"

definition terminals_ok :: "matcher \<Rightarrow> string list \<Rightarrow> string set \<Rightarrow> bool" where
  "terminals_ok m lab P \<longleftrightarrow> P \<subseteq> set lab \<and> [] \<notin> P \<and>
     (\<forall>s<length lab. mn_terminal (node m s) = (if lab ! s \<in> P then length (lab ! s) else 0))"

lemma trie_okD:
  assumes "trie_ok m lab"
  shows "length lab = length (mm_nodes m)" "0 < length lab" "lab ! 0 = []" "distinct lab" "prefix_closed (set lab)"
    "edges_down (mm_edges m)"
    "s < length lab \<Longrightarrow> mn_firstEdge (node m s) = Some i \<Longrightarrow> i < length (mm_edges m)"
    "s < length lab \<Longrightarrow> distinct (map fst (children m s))"
    "s < length lab \<Longrightarrow> (c, t) \<in> set (children m s) \<longleftrightarrow> t < length lab \<and> lab ! t = lab ! s @ [c]"
  using assms by (auto simp: trie_ok_def)

lemma same_label: "trie_ok m lab \<Longrightarrow> s < length lab \<Longrightarrow> t < length lab \<Longrightarrow> lab ! s = lab ! t \<longleftrightarrow> s = t"
  using trie_okD(4) nth_eq_iff_index_eq by blast

lemma transition_map_of:
  "transition m s c = (if s < length (mm_nodes m) then map_of (children m s) c else None)"
proof -
  have "map_option me_to (find (\<lambda>e. me_char e = c) es) = map_of (map (\<lambda>e. (me_char e, me_to e)) es) c" for es :: "matcher_edge list"
    by (induction es) auto
  then show ?thesis by (simp add: transition_def children_def)
qed

lemma transition_iff:
  assumes "trie_ok m lab" and "s < length lab"
  shows "transition m s c = Some t \<longleftrightarrow> t < length lab \<and> lab ! t = lab ! s @ [c]"
  using trie_okD(1) [OF assms(1)] trie_okD(8,9) [OF assms] assms(2)
  by (simp add: transition_map_of map_of_eq_Some_iff)

lemma transition_None_iff:
  assumes "trie_ok m lab" and "s < length lab"
  shows "transition m s c = None \<longleftrightarrow> lab ! s @ [c] \<notin> set lab"
proof -
  have "transition m s c = None \<longleftrightarrow> (\<forall>t. transition m s c \<noteq> Some t)" by auto
  then show ?thesis by (simp add: transition_iff [OF assms] in_set_conv_nth)
qed

section \<open>Insertion\<close>

lemma add_node_children:
  assumes ok: "trie_ok m lab" and s: "s < length lab" and t: "t \<le> length lab"
  shows "children (add_node m s c) t =
    (if t = length lab then [] else if t = s then (c, length lab) # children m s else children m t)"
proof -
  let ?es = "mm_edges m" and ?e = "\<lparr>me_to = length (mm_nodes m), me_next = mn_firstEdge (node m s), me_char = c\<rparr>"
  have len: "length lab = length (mm_nodes m)" and down: "edges_down ?es" using trie_okD(1,6) [OF ok] by simp_all
  have first: "i < length ?es" if "mn_firstEdge (node m u) = Some i" "u < length lab" for u i
    using trie_okD(7) [OF ok that(2,1)] .
  have same: "chain k (?es @ [?e]) (mn_firstEdge (node m u)) = out_edges m u" if "u < length lab" "length ?es \<le> k" for u k
    using chain_grow [OF down first [OF _ that(1)] that(2)] by (simp add: out_edges_def)
  show ?thesis
  proof (cases "t = length lab")
    case True
    then show ?thesis using len by (simp add: children_def out_edges_def add_node_def nth_append)
  next
    case False
    then have t': "t < length lab" using t by simp
    show ?thesis
    proof (cases "t = s")
      case True
      then have "out_edges (add_node m s c) t = ?e # out_edges m s"
        using same [OF s order_refl] s len by (simp add: out_edges_def add_node_def nth_append)
      then show ?thesis using True s len by (simp add: children_def)
    next
      case ne: False
      then have "out_edges (add_node m s c) t = out_edges m t"
        using same [OF t', of "Suc (length ?es)"] t' len by (simp add: out_edges_def add_node_def nth_append del: chain.simps)
      then show ?thesis using ne t' by (simp add: children_def)
    qed
  qed
qed

lemma add_node_ok:
  assumes ok: "trie_ok m lab" and s: "s < length lab" and none: "transition m s c = None"
  shows "trie_ok (add_node m s c) (lab @ [lab ! s @ [c]])"
proof -
  let ?n = "length lab" and ?lab = "lab @ [lab ! s @ [c]]" and ?m = "add_node m s c"
  have len: "?n = length (mm_nodes m)" using trie_okD(1) [OF ok] .
  have new: "lab ! s @ [c] \<notin> set lab" using none transition_None_iff [OF ok s] by simp
  have closed: "prefix_closed (set ?lab)"
    using trie_okD(5) [OF ok] s by (auto simp: prefix_closed_def)
  have nth: "?lab ! t = (if t = ?n then lab ! s @ [c] else lab ! t)" if "t \<le> ?n" for t
    using that by (simp add: nth_append)
  have kids: "distinct (map fst (children ?m t)) \<and>
      set (children ?m t) = {(d, u). u < Suc ?n \<and> ?lab ! u = ?lab ! t @ [d]}" if t: "t \<le> ?n" for t
  proof (cases "t = ?n")
    case True
    have "False" if u: "u < ?n" "lab ! u = lab ! s @ [c, d]" for u d
    proof -
      have "lab ! s @ [c, d] \<in> set lab" using u nth_mem [of u lab] by simp
      then have "lab ! s @ [c] \<in> set lab"
        using trie_okD(5) [OF ok] prefix_closed_butlast [of "set lab" "lab ! s @ [c, d]"]
        by (simp add: butlast_append)
      then show False using new by simp
    qed
    then show ?thesis using add_node_children [OF ok s t] True by (auto simp: nth_append less_Suc_eq)
  next
    case False
    then have t': "t < ?n" using t by simp
    have old: "u < Suc ?n \<and> ?lab ! u = lab ! t @ [d] \<longleftrightarrow>
        (d, u) \<in> set (children m t) \<or> (u = ?n \<and> t = s \<and> d = c)" for u d
      using same_label [OF ok s t'] by (auto simp: trie_okD(9) [OF ok t'] less_Suc_eq nth_append t')
    have "c \<notin> set (map fst (children m s))"
      using none s len by (simp add: transition_map_of map_of_eq_None_iff)
    then have "distinct (map fst (children ?m t))"
      using add_node_children [OF ok s t] False trie_okD(8) [OF ok t'] trie_okD(8) [OF ok s] by simp
    moreover have "set (children ?m t) = {(d, u). u < Suc ?n \<and> ?lab ! u = lab ! t @ [d]}"
      unfolding old using add_node_children [OF ok s t] False by auto
    ultimately show ?thesis using nth [OF t] False by simp
  qed
  have down: "edges_down (mm_edges ?m)"
    using trie_okD(6,7) [OF ok] s by (auto simp: edges_down_def add_node_def nth_append less_Suc_eq)
  have first: "i < length (mm_edges ?m)" if "t \<le> ?n" "mn_firstEdge (node ?m t) = Some i" for t i
    using that trie_okD(7) [OF ok, of t i] len s
    by (cases "t = ?n") (auto simp: add_node_def nth_append nth_list_update less_Suc_eq split: if_splits)
  show ?thesis
    unfolding trie_ok_def
  proof (intro conjI allI impI)
    show "length ?lab = length (mm_nodes ?m)" using len by (simp add: add_node_def)
    show "?lab ! 0 = []" using trie_okD(2,3) [OF ok] by (simp add: nth_append)
    show "distinct ?lab" using new trie_okD(4) [OF ok] by simp
  qed (use kids first down closed in \<open>auto simp: less_Suc_eq_le\<close>)
qed

definition unlinked :: "matcher \<Rightarrow> bool" where
  "unlinked m \<longleftrightarrow> (\<forall>n \<in> set (mm_nodes m). mn_fail n = 0)"

definition built :: "string set \<Rightarrow> matcher \<Rightarrow> string list \<Rightarrow> bool" where
  "built P m lab \<longleftrightarrow> trie_ok m lab \<and> terminals_ok m lab P \<and> unlinked m"

lemma add_node_built:
  assumes "built P m lab" and "s < length lab" and "transition m s c = None"
  shows "built P (add_node m s c) (lab @ [lab ! s @ [c]])"
proof -
  have ok: "trie_ok m lab" and P: "P \<subseteq> set lab" and len: "length lab = length (mm_nodes m)"
    using assms(1) trie_okD(1) by (auto simp: built_def terminals_ok_def)
  have "lab ! s @ [c] \<notin> P" using transition_None_iff [OF ok assms(2)] assms(3) P by auto
  then have "terminals_ok (add_node m s c) (lab @ [lab ! s @ [c]]) P"
    using assms(1,2) len
    by (auto simp: built_def terminals_ok_def add_node_def nth_append nth_list_update less_Suc_eq)
  moreover have "unlinked (add_node m s c)"
    using assms(1,2) len by (auto simp: built_def unlinked_def add_node_def dest!: subsetD [OF set_update_subset_insert])
  ultimately show ?thesis using add_node_ok [OF ok assms(2,3)] by (simp add: built_def)
qed

lemma insert_bytes_built:
  assumes "built P m lab" and "s < length lab" and "insert_bytes m s cs = (m', s')"
  shows "\<exists>ext. built P m' (lab @ ext) \<and> s' < length (lab @ ext) \<and> (lab @ ext) ! s' = lab ! s @ cs \<and> length ext \<le> length cs"
  using assms
proof (induction m s cs arbitrary: lab m' s' rule: insert_bytes.induct)
  case (1 m s)
  then show ?case by (intro exI [of _ "[]"]) simp
next
  case (2 m s c cs)
  have ok: "trie_ok m lab" using 2(3) by (simp add: built_def)
  show ?case
  proof (cases "transition m s c")
    case (Some t)
    then have "t < length lab" "lab ! t = lab ! s @ [c]" using transition_iff [OF ok 2(4)] by simp_all
    then show ?thesis using 2(2) [OF Some 2(3) \<open>t < length lab\<close>] 2(5) Some by fastforce
  next
    case None
    let ?lab = "lab @ [lab ! s @ [c]]"
    have n: "length (mm_nodes m) = length lab" using trie_okD(1) [OF ok] by simp
    obtain ext where ext: "built P m' (?lab @ ext)" "s' < length (?lab @ ext)"
        "(?lab @ ext) ! s' = ?lab ! length lab @ cs" "length ext \<le> length cs"
      using 2(1) [OF None add_node_built [OF 2(3,4) None], of m' s'] 2(5) None n by auto
    then show ?thesis by (intro exI [of _ "(lab ! s @ [c]) # ext"]) auto
  qed
qed

lemma insert_pattern_built:
  assumes "built P m lab"
  shows "\<exists>ext. built (P \<union> ({p} - {[]})) (insert_pattern p m) (lab @ ext) \<and> length ext \<le> length p"
proof (cases "p = []")
  case True
  then show ?thesis using assms by (intro exI [of _ "[]"]) (simp add: insert_pattern_def)
next
  case False
  obtain m' s where ins: "insert_bytes m 0 p = (m', s)" by fastforce
  have "0 < length lab" "lab ! 0 = []" using assms trie_okD(2,3) by (auto simp: built_def)
  with insert_bytes_built [OF assms _ ins] obtain ext where
    b: "built P m' (lab @ ext)" and s: "s < length (lab @ ext)" "(lab @ ext) ! s = p" and e: "length ext \<le> length p" by auto
  let ?m = "insert_pattern p m"
  have ok: "trie_ok m' (lab @ ext)" using b by (simp add: built_def)
  have n: "length (lab @ ext) = length (mm_nodes m')" using trie_okD(1) [OF ok] .
  have old: "mn_terminal (node m' s) = (if p \<in> P then length p else 0)"
    using b s by (simp add: built_def terminals_ok_def)
  have m: "?m = (if p \<in> P then m' else set_node s (\<lambda>n. n\<lparr>mn_terminal := length p\<rparr>) m')"
    using False ins old by (simp add: insert_pattern_def)
  have kids: "children ?m t = children m' t" for t
    using s n by (simp add: m children_def out_edges_def set_node_def nth_list_update)
  have first: "mn_firstEdge (node ?m t) = mn_firstEdge (node m' t)" for t
    using s n by (simp add: m set_node_def nth_list_update)
  have "trie_ok ?m (lab @ ext)"
    using ok unfolding trie_ok_def kids first by (simp add: m set_node_def)
  moreover have "terminals_ok ?m (lab @ ext) (P \<union> ({p} - {[]}))"
    using b s n False same_label [OF ok] nth_mem [OF s(1)]
    by (auto simp: built_def terminals_ok_def m set_node_def nth_list_update)
  moreover have "unlinked ?m"
    using b s n by (auto simp: built_def unlinked_def m set_node_def dest!: subsetD [OF set_update_subset_insert])
  ultimately show ?thesis using e by (auto simp: built_def)
qed

lemma insert_patterns_built:
  assumes "built P m lab"
  shows "\<exists>lab'. built (P \<union> (set ps - {[]})) (fold insert_pattern ps m) lab' \<and> length lab' \<le> length lab + sum_list (map length ps)"
  using assms
proof (induction ps arbitrary: P m lab)
  case Nil
  then show ?case by auto
next
  case (Cons p ps)
  obtain ext where ext: "built (P \<union> ({p} - {[]})) (insert_pattern p m) (lab @ ext)" "length ext \<le> length p"
    using insert_pattern_built [OF Cons.prems] by blast
  have "P \<union> ({p} - {[]}) \<union> (set ps - {[]}) = P \<union> (set (p # ps) - {[]})" by auto
  then show ?case using Cons.IH [OF ext(1)] ext(2) by fastforce
qed

lemma new_built: "built {} \<lparr>mm_nodes = [new_node], mm_edges = []\<rparr> [[]]"
  by (auto simp: built_def trie_ok_def terminals_ok_def unlinked_def prefix_closed_def edges_down_def children_def out_edges_def)

section \<open>Failure links\<close>

text \<open>\<open>links P lab m L\<close>: the nodes of \<open>L\<close> are linked, the others still have the root as their failure link.\<close>

definition linked :: "string set \<Rightarrow> string list \<Rightarrow> matcher \<Rightarrow> nat \<Rightarrow> bool" where
  "linked P lab m s \<longleftrightarrow> mn_maxMatched (node m s) = length (lsuf P (lab ! s)) \<and>
     mn_fail (node m s) < length lab \<and> lab ! mn_fail (node m s) = lsuf (set lab) (tl (lab ! s))"

definition links :: "string set \<Rightarrow> string list \<Rightarrow> matcher \<Rightarrow> nat set \<Rightarrow> bool" where
  "links P lab m L \<longleftrightarrow> trie_ok m lab \<and> terminals_ok m lab P \<and> L \<subseteq> {..<length lab} \<and>
     (\<forall>s \<in> L. linked P lab m s) \<and> (\<forall>s<length lab. s \<notin> L \<longrightarrow> mn_fail (node m s) = 0)"

lemma depth_bound:
  assumes "trie_ok m lab" and "s < length lab"
  shows "length (lab ! s) < length lab"
proof -
  have closed: "prefix_closed (set lab)" using trie_okD(5) [OF assms(1)] .
  have "prefix u w \<Longrightarrow> w \<in> set lab \<Longrightarrow> u \<in> set lab" for u w
  proof (induction w rule: rev_induct)
    case (snoc c w)
    then show ?case using closed by (auto simp: prefix_closed_def prefix_snoc)
  qed (use closed in \<open>auto simp: prefix_closed_def\<close>)
  then have "set (prefixes (lab ! s)) \<subseteq> set lab" using assms(2) by (auto simp: in_set_prefixes)
  then have "card (set (prefixes (lab ! s))) \<le> card (set lab)" by (intro card_mono) simp_all
  also have "\<dots> \<le> length lab" by (rule card_length)
  finally have "card (set (prefixes (lab ! s))) \<le> length lab" .
  then show ?thesis by (simp add: distinct_card length_prefixes)
qed

lemma climb_correct:
  assumes ok: "trie_ok m lab"
    and "s < length lab" and "length (lab ! s) \<le> k"
    and "\<And>t. t < length lab \<Longrightarrow> length (lab ! t) \<le> length (lab ! s) \<Longrightarrow>
      mn_fail (node m t) < length lab \<and> lab ! mn_fail (node m t) = lsuf (set lab) (tl (lab ! t))"
  shows "case climb k m s c of
      Some t \<Rightarrow> t < length lab \<and> lab ! t = lsuf (set lab) (lab ! s @ [c])
    | None \<Rightarrow> lsuf (set lab) (lab ! s @ [c]) = []"
  using assms(2-)
proof (induction k arbitrary: s)
  case 0
  then show ?case
    using transition_iff [OF ok 0(1)] transition_None_iff [OF ok 0(1)]
    by (auto split: option.split simp: lsuf_fixed in_set_conv_nth)
next
  case (Suc k)
  let ?S = "set lab"
  show ?case
  proof (cases "transition m s c")
    case (Some t)
    then have t: "t < length lab" "lab ! t = lab ! s @ [c]" using transition_iff [OF ok Suc.prems(1)] by simp_all
    then have "lab ! s @ [c] \<in> ?S" using nth_mem [OF t(1)] by simp
    then show ?thesis using Some t by (simp add: lsuf_fixed)
  next
    case None
    then have new: "lab ! s @ [c] \<notin> ?S" using transition_None_iff [OF ok Suc.prems(1)] by simp
    show ?thesis
    proof (cases "s = 0")
      case True
      then show ?thesis using None new trie_okD(3) [OF ok] by simp
    next
      case False
      let ?f = "mn_fail (node m s)"
      have f: "?f < length lab" "lab ! ?f = lsuf ?S (tl (lab ! s))" using Suc.prems(3) [OF Suc.prems(1)] by simp_all
      obtain d w where w: "lab ! s = d # w"
        using False same_label [OF ok Suc.prems(1) trie_okD(2) [OF ok]] trie_okD(3) [OF ok] by (cases "lab ! s") auto
      have shorter: "length (lab ! ?f) \<le> length w" using f(2) w lsuf_length [of ?S w] by simp
      have "lsuf ?S (lab ! s @ [c]) = lsuf ?S (w @ [c])" using new w by simp
      also have "\<dots> = lsuf ?S (lab ! ?f @ [c])" using lsuf_snoc [OF trie_okD(5) [OF ok]] f(2) w by simp
      finally have eq: "lsuf ?S (lab ! s @ [c]) = lsuf ?S (lab ! ?f @ [c])" .
      have "case climb k m ?f c of
          Some t \<Rightarrow> t < length lab \<and> lab ! t = lsuf ?S (lab ! ?f @ [c]) | None \<Rightarrow> lsuf ?S (lab ! ?f @ [c]) = []"
        using Suc.prems shorter w by (intro Suc.IH [OF f(1)]) auto
      then show ?thesis unfolding eq using None False by simp
    qed
  qed
qed

lemma set_node_trie:
  assumes "\<And>n. mn_firstEdge (f n) = mn_firstEdge n" and "\<And>n. mn_terminal (f n) = mn_terminal n"
  shows "trie_ok (set_node k f m) lab \<longleftrightarrow> trie_ok m lab" and "terminals_ok (set_node k f m) lab P \<longleftrightarrow> terminals_ok m lab P"
proof -
  have nodes: "mn_firstEdge (node (set_node k f m) s) = mn_firstEdge (node m s)"
    "mn_terminal (node (set_node k f m) s) = mn_terminal (node m s)" for s
    by (cases "k < length (mm_nodes m) \<and> s = k"; auto simp: set_node_def assms list_update_beyond nth_list_update_neq)+
  have kids: "children (set_node k f m) s = children m s" for s
    using nodes(1) [of s] by (simp add: children_def out_edges_def set_node_def)
  show "trie_ok (set_node k f m) lab \<longleftrightarrow> trie_ok m lab"
    unfolding trie_ok_def kids nodes by (simp add: set_node_def)
  show "terminals_ok (set_node k f m) lab P \<longleftrightarrow> terminals_ok m lab P"
    unfolding terminals_ok_def nodes ..
qed

lemma node_set_node: "k < length (mm_nodes m) \<Longrightarrow> node (set_node k f m) s = (if s = k then f (node m k) else node m s)"
  by (simp add: set_node_def)

text \<open>Linking one more node.\<close>

lemma links_insert:
  assumes l: "links P lab m L" and t: "t < length lab"
    and f: "\<And>n. mn_firstEdge (f n) = mn_firstEdge n" "\<And>n. mn_terminal (f n) = mn_terminal n"
    and new: "mn_maxMatched (f (node m t)) = length (lsuf P (lab ! t))" "mn_fail (f (node m t)) < length lab"
      "lab ! mn_fail (f (node m t)) = lsuf (set lab) (tl (lab ! t))"
  shows "links P lab (set_node t f m) (insert t L)"
proof -
  have "t < length (mm_nodes m)" using l t trie_okD(1) by (auto simp: links_def)
  then show ?thesis
    using l t new unfolding links_def linked_def set_node_trie [OF f] by (auto simp: node_set_node)
qed

lemma match_step:
  assumes "P \<subseteq> S" and "w \<noteq> []"
  shows "length (lsuf P w) = max (if w \<in> P then length w else 0) (length (lsuf P (lsuf S (tl w))))"
proof -
  obtain c u where w: "w = c # u" using assms(2) by (cases w) auto
  show ?thesis using lsuf_length [of P u] by (simp add: w lsuf_sub [OF assms(1)])
qed

lemma link_root_child_links:
  assumes l: "links P lab m L" and "0 \<in> L" and e: "me_to e < length lab" "lab ! me_to e = [me_char e]" "me_to e \<notin> L"
  shows "links P lab (link_root_child e m) (insert (me_to e) L)"
proof -
  have ok: "trie_ok m lab" and tm: "terminals_ok m lab P" and "linked P lab m 0" using l assms(2) by (auto simp: links_def)
  then have "mn_maxMatched (node m 0) = 0" using trie_okD(3) [OF ok] by (simp add: linked_def)
  moreover have "mn_terminal (node m (me_to e)) = length (lsuf P (lab ! me_to e))"
    using tm e by (simp add: terminals_ok_def)
  ultimately show ?thesis
    unfolding link_root_child_def using e trie_okD(2,3) [OF ok] by (intro links_insert [OF l]) auto
qed

lemma link_child_links:
  assumes l: "links P lab m L" and p: "p \<in> L" "p \<noteq> 0"
    and shallow: "\<And>t. t < length lab \<Longrightarrow> length (lab ! t) \<le> length (lab ! p) \<Longrightarrow> t \<in> L"
    and e: "me_to e < length lab" "lab ! me_to e = lab ! p @ [me_char e]" "me_to e \<notin> L"
  shows "links P lab (link_child p e m) (insert (me_to e) L)"
proof -
  let ?S = "set lab" and ?c = "me_to e" and ?f = "mn_fail (node m p)"
  have ok: "trie_ok m lab" and tm: "terminals_ok m lab P" and sub: "L \<subseteq> {..<length lab}" and P: "P \<subseteq> ?S"
    and lk: "\<And>s. s \<in> L \<Longrightarrow> linked P lab m s" and unl: "mn_fail (node m ?c) = 0"
    using l e by (auto simp: links_def terminals_ok_def)
  have n: "length lab = length (mm_nodes m)" using trie_okD(1) [OF ok] .
  have pn: "p < length lab" using p sub by auto
  obtain d w where w: "lab ! p = d # w"
    using p(2) same_label [OF ok pn trie_okD(2) [OF ok]] trie_okD(3) [OF ok] by (cases "lab ! p") auto
  have f: "?f < length lab" "lab ! ?f = lsuf ?S w" using lk [OF p(1)] w by (auto simp: linked_def)
  then have flen: "length (lab ! ?f) \<le> length w" using lsuf_length [of ?S w] by simp
  have target: "lsuf ?S (lab ! ?f @ [me_char e]) = lsuf ?S (tl (lab ! ?c))"
    using lsuf_snoc [OF trie_okD(5) [OF ok], of w] f(2) e(2) w by simp
  have "mn_fail (node m t) < length lab \<and> lab ! mn_fail (node m t) = lsuf ?S (tl (lab ! t))"
    if "t < length lab" "length (lab ! t) \<le> length (lab ! ?f)" for t
    using lk [OF shallow [OF that(1)]] that(2) flen w by (simp add: linked_def)
  then have "case climb (length (mm_nodes m)) m ?f (me_char e) of
      Some t \<Rightarrow> t < length lab \<and> lab ! t = lsuf ?S (lab ! ?f @ [me_char e]) | None \<Rightarrow> lsuf ?S (lab ! ?f @ [me_char e]) = []"
    using depth_bound [OF ok f(1)] n by (intro climb_correct [OF ok f(1)]) simp_all
  then have climbed: "case climb (length (mm_nodes m)) m ?f (me_char e) of
      Some t \<Rightarrow> t < length lab \<and> lab ! t = lsuf ?S (tl (lab ! ?c)) | None \<Rightarrow> lsuf ?S (tl (lab ! ?c)) = []"
    unfolding target .
  define g where "g = (case climb (length (mm_nodes m)) m ?f (me_char e) of Some t \<Rightarrow> t | None \<Rightarrow> 0)"
  have g: "g < length lab" "lab ! g = lsuf ?S (tl (lab ! ?c))"
    using climbed trie_okD(2,3) [OF ok] by (auto simp: g_def split: option.splits)
  have glen: "length (lab ! g) \<le> length (lab ! p)" using g(2) e(2) w lsuf_length [of ?S "tl (lab ! ?c)"] by simp
  then have gc: "g \<noteq> ?c" using e(2) by auto
  have same: "(node m ?c)\<lparr>mn_fail := 0, mn_maxMatched := x\<rparr> = (node m ?c)\<lparr>mn_maxMatched := x\<rparr>" for x
    using unl by (cases "node m ?c") simp
  have "link_child p e m = set_node ?c (\<lambda>n. n\<lparr>mn_fail := g, mn_maxMatched := max (mn_terminal n) (mn_maxMatched (node m g))\<rparr>) m"
    using e(1) n gc unl
    by (auto simp: same link_child_def Let_def g_def set_node_def split: option.splits)
  moreover have "mn_maxMatched (node m g) = length (lsuf P (lsuf ?S (tl (lab ! ?c))))"
    using lk [OF shallow [OF g(1) glen]] g(2) by (simp add: linked_def)
  moreover have "mn_terminal (node m ?c) = (if lab ! ?c \<in> P then length (lab ! ?c) else 0)"
    using tm e(1) by (simp add: terminals_ok_def)
  ultimately show ?thesis
    using g match_step [OF P, of "lab ! ?c"] e(2)
    by (simp only:) (rule links_insert [OF l e(1)]; simp)
qed

lemma tree_parent:
  assumes "trie_ok m lab" and "t < length lab" and "t \<noteq> 0"
  obtains s c where "s < length lab" and "lab ! t = lab ! s @ [c]"
proof -
  have ne: "lab ! t \<noteq> []"
    using assms same_label [OF assms(1,2) trie_okD(2) [OF assms(1)]] trie_okD(3) [OF assms(1)] by auto
  then have "butlast (lab ! t) \<in> set lab"
    using prefix_closed_butlast [OF trie_okD(5) [OF assms(1)]] assms(2) by simp
  then obtain s where "s < length lab" "lab ! s = butlast (lab ! t)" by (auto simp: in_set_conv_nth)
  then show ?thesis using that [of s "last (lab ! t)"] ne by simp
qed

text \<open>
  The queue holds linked nodes whose children are not linked yet, in the order of their depth, which differs by at most
  one. Every other linked node has all its children linked.
\<close>

definition queue_ok :: "string list \<Rightarrow> nat set \<Rightarrow> nat list \<Rightarrow> bool" where
  "queue_ok lab L Q \<longleftrightarrow> 0 \<in> L - set Q \<and> set Q \<subseteq> L \<and> distinct Q \<and>
     (\<forall>s \<in> L - set Q. \<forall>t<length lab. \<forall>c. lab ! t = lab ! s @ [c] \<longrightarrow> t \<in> L) \<and>
     (\<forall>t \<in> L. t \<noteq> 0 \<longrightarrow> (\<exists>s \<in> L - set Q. \<exists>c. lab ! t = lab ! s @ [c])) \<and>
     sorted_wrt (\<lambda>a b. length (lab ! a) \<le> length (lab ! b)) Q \<and>
     (\<forall>q \<in> set Q. length (lab ! q) \<le> Suc (length (lab ! hd Q)))"

lemma queue_shallow:
  assumes "trie_ok m lab" and "queue_ok lab L Q" and "t < length lab" and "\<And>q. q \<in> set Q \<Longrightarrow> length (lab ! t) \<le> length (lab ! q)"
  shows "t \<in> L"
  using assms(3,4)
proof (induction "length (lab ! t)" arbitrary: t rule: less_induct)
  case less
  show ?case
  proof (cases "t = 0")
    case True
    then show ?thesis using assms(2) by (simp add: queue_ok_def)
  next
    case False
    obtain s c where s: "s < length lab" "lab ! t = lab ! s @ [c]" using tree_parent [OF assms(1) less.prems(1) False] .
    have below: "length (lab ! s) < length (lab ! q)" if "q \<in> set Q" for q using less.prems(2) [OF that] s(2) by simp
    have "s \<in> L" using less.hyps [of s] s below by (simp add: less_imp_le)
    moreover have "s \<notin> set Q" using below by blast
    ultimately show ?thesis using assms(2) less.prems(1) s(2) unfolding queue_ok_def by blast
  qed
qed

lemma flat_sorted: "(\<And>t. t \<in> set ts \<Longrightarrow> length (lab ! t) = d) \<Longrightarrow> sorted_wrt (\<lambda>a b. length (lab ! a) \<le> length (lab ! b)) ts"
  by (induction ts) auto

lemma fold_links:
  assumes step: "\<And>m L e. \<lbrakk>links P lab m L; L0 \<subseteq> L; e \<in> set es; me_to e \<notin> L\<rbrakk> \<Longrightarrow> links P lab (g e m) (insert (me_to e) L)"
    and "links P lab m L" and "L0 \<subseteq> L" and "distinct (map me_to es)" and "me_to ` set es \<inter> L = {}"
  shows "links P lab (fold g es m) (L \<union> me_to ` set es)"
  using assms
proof (induction es arbitrary: m L)
  case (Cons e es)
  have "links P lab (fold g es (g e m)) (insert (me_to e) L \<union> me_to ` set es)"
    using Cons.prems by (intro Cons.IH) (auto intro: Cons.prems(1))
  then show ?case by (simp add: insert_commute)
qed simp

lemma child_edges:
  assumes "trie_ok m lab" and "s < length lab"
  shows "e \<in> set (out_edges m s) \<Longrightarrow> me_to e < length lab \<and> lab ! me_to e = lab ! s @ [me_char e]"
    and "t \<in> me_to ` set (out_edges m s) \<longleftrightarrow> t < length lab \<and> (\<exists>c. lab ! t = lab ! s @ [c])"
    and "distinct (map me_to (out_edges m s))"
proof -
  have kids: "set (children m s) = {(c, t). t < length lab \<and> lab ! t = lab ! s @ [c]}"
    using assms by (simp add: trie_ok_def)
  show edge: "e \<in> set (out_edges m s) \<Longrightarrow> me_to e < length lab \<and> lab ! me_to e = lab ! s @ [me_char e]" for e
    using kids by (auto simp: children_def)
  have "t \<in> me_to ` set (out_edges m s) \<longleftrightarrow> (\<exists>c. (c, t) \<in> set (children m s))" by (auto simp: children_def)
  then show "t \<in> me_to ` set (out_edges m s) \<longleftrightarrow> t < length lab \<and> (\<exists>c. lab ! t = lab ! s @ [c])"
    using kids by auto
  have "distinct (map me_char (out_edges m s))" using trie_okD(8) [OF assms] by (simp add: children_def comp_def)
  moreover have "inj_on me_to (set (out_edges m s))" if "inj_on me_char (set (out_edges m s))"
  proof (rule inj_onI)
    fix x y assume xy: "x \<in> set (out_edges m s)" "y \<in> set (out_edges m s)" "me_to x = me_to y"
    then have "me_char x = me_char y" using edge [OF xy(1)] edge [OF xy(2)] by simp
    then show "x = y" using that xy by (simp add: inj_on_def)
  qed
  ultimately show "distinct (map me_to (out_edges m s))" by (simp add: distinct_map)
qed

lemma queue_head:
  assumes "queue_ok lab L (p # Q)"
  shows "p \<in> L" "p \<noteq> 0" "p \<notin> set Q" "set Q \<subseteq> L" "0 \<in> L" "0 \<notin> set Q" "distinct Q"
    "q \<in> set Q \<Longrightarrow> length (lab ! p) \<le> length (lab ! q)" "q \<in> set Q \<Longrightarrow> length (lab ! q) \<le> Suc (length (lab ! p))"
  using assms by (auto simp: queue_ok_def)

lemma queue_fresh:
  assumes ok: "trie_ok m lab" and queue: "queue_ok lab L (p # Q)" and sub: "L \<subseteq> {..<length lab}"
  shows "me_to ` set (out_edges m p) \<inter> L = {}"
proof (rule ccontr)
  have pn: "p < length lab" using queue_head(1) [OF queue] sub by auto
  assume "me_to ` set (out_edges m p) \<inter> L \<noteq> {}"
  then obtain t c where t: "t \<in> L" "t < length lab" "lab ! t = lab ! p @ [c]" using child_edges(2) [OF ok pn] by blast
  then have "t \<noteq> 0" using trie_okD(3) [OF ok] by (cases "t = 0") simp_all
  then obtain s d where s: "s \<in> L - set (p # Q)" "lab ! t = lab ! s @ [d]" using queue t(1) unfolding queue_ok_def by blast
  then have "s = p" using same_label [OF ok _ pn, of s] t(3) sub by auto
  then show False using s(1) by simp
qed

lemma queue_step:
  assumes ok: "trie_ok m lab" and queue: "queue_ok lab L (p # Q)" and sub: "L \<subseteq> {..<length lab}"
  defines "new \<equiv> map me_to (out_edges m p)"
  shows "L \<union> set new - set (Q @ new) = insert p (L - set (p # Q))" and "queue_ok lab (L \<union> set new) (Q @ new)"
proof -
  note q = queue_head [OF queue]
  have pn: "p < length lab" using q(1) sub by auto
  have fresh: "set new \<inter> L = {}" using queue_fresh [OF ok queue sub] by (simp add: new_def)
  have kids: "t \<in> set new \<longleftrightarrow> t < length lab \<and> (\<exists>c. lab ! t = lab ! p @ [c])" for t
    using child_edges(2) [OF ok pn] by (simp add: new_def)
  have depth: "length (lab ! t) = Suc (length (lab ! p))" if "t \<in> set new" for t
  proof -
    from that kids obtain c where "lab ! t = lab ! p @ [c]" by blast
    then show ?thesis by simp
  qed
  show rest: "L \<union> set new - set (Q @ new) = insert p (L - set (p # Q))" using q(1,3) fresh by auto
  have closed: "\<And>s t c. \<lbrakk>s \<in> L - set (p # Q); t < length lab; lab ! t = lab ! s @ [c]\<rbrakk> \<Longrightarrow> t \<in> L"
    and parent: "\<And>t. t \<in> L \<Longrightarrow> t \<noteq> 0 \<Longrightarrow> \<exists>s \<in> L - set (p # Q). \<exists>c. lab ! t = lab ! s @ [c]"
    using queue unfolding queue_ok_def by blast+
  have order: "sorted_wrt (\<lambda>a b. length (lab ! a) \<le> length (lab ! b)) (Q @ new)"
  proof (unfold sorted_wrt_append, intro conjI ballI)
    show "sorted_wrt (\<lambda>a b. length (lab ! a) \<le> length (lab ! b)) Q" using queue by (simp add: queue_ok_def)
  qed (use flat_sorted [OF depth] depth q(9) in simp_all)
  have close: "length (lab ! t) \<le> Suc (length (lab ! hd (Q @ new)))" if t: "t \<in> set (Q @ new)" for t
  proof -
    have "hd (Q @ new) \<in> set (Q @ new)" using t by (intro hd_in_set) auto
    then have "length (lab ! p) \<le> length (lab ! hd (Q @ new))"
      using q(8) depth unfolding set_append by (metis UnE le_SucI order_refl)
    moreover have "length (lab ! t) \<le> Suc (length (lab ! p))"
      using t q(9) depth unfolding set_append by (metis UnE order_refl)
    ultimately show ?thesis by simp
  qed
  have "distinct (Q @ new)"
    using q(4,7) fresh child_edges(3) [OF ok pn] unfolding distinct_append new_def [symmetric] by blast
  moreover have "\<forall>s \<in> insert p (L - set (p # Q)). \<forall>t<length lab. \<forall>c. lab ! t = lab ! s @ [c] \<longrightarrow> t \<in> L \<union> set new"
    using closed kids by blast
  moreover have "\<forall>t \<in> L \<union> set new. t \<noteq> 0 \<longrightarrow> (\<exists>s \<in> insert p (L - set (p # Q)). \<exists>c. lab ! t = lab ! s @ [c])"
    using parent kids by blast
  ultimately show "queue_ok lab (L \<union> set new) (Q @ new)"
    unfolding queue_ok_def rest using order close q by auto
qed

lemma link_queue_all:
  assumes "links P lab m L" and "queue_ok lab L Q" and "length lab \<le> k + card (L - set Q)"
  shows "links P lab (link_queue k Q m) {..<length lab}"
  using assms
proof (induction k Q m arbitrary: L rule: link_queue.induct)
  case (1 Q m)
  have sub: "L \<subseteq> {..<length lab}" using 1(1) by (simp add: links_def)
  then have "L - set Q = {..<length lab}" using 1(3) by (intro card_seteq) auto
  then have "L = {..<length lab}" using sub by blast
  then show ?case using 1(1) by simp
next
  case (2 k m)
  have ok: "trie_ok m lab" and sub: "L \<subseteq> {..<length lab}" using 2(1) by (simp_all add: links_def)
  have "t \<in> L" if "t < length lab" for t using queue_shallow [OF ok 2(2) that] by simp
  then have "L = {..<length lab}" using sub by auto
  then show ?case using 2(1) by simp
next
  case (3 k p Q m)
  let ?new = "map me_to (out_edges m p)"
  have ok: "trie_ok m lab" and sub: "L \<subseteq> {..<length lab}" using 3(2) by (simp_all add: links_def)
  note q = queue_head [OF 3(3)] and step = queue_step [OF ok 3(3) sub]
  have pn: "p < length lab" using q(1) sub by auto
  have shallow: "t \<in> L" if "t < length lab" "length (lab ! t) \<le> length (lab ! p)" for t
    using queue_shallow [OF ok 3(3) that(1)] that(2) q(8) by force
  have links: "links P lab (fold (link_child p) (out_edges m p) m) (L \<union> me_to ` set (out_edges m p))"
  proof (rule fold_links [where ?L0.0 = L])
    show "links P lab (link_child p e m') (insert (me_to e) L')"
      if "links P lab m' L'" "L \<subseteq> L'" "e \<in> set (out_edges m p)" "me_to e \<notin> L'" for m' L' e
      using that q(1,2) shallow child_edges(1) [OF ok pn that(3)] by (intro link_child_links) auto
  qed (use 3(2) child_edges(3) [OF ok pn] queue_fresh [OF ok 3(3) sub] in auto)
  have "card (L \<union> set ?new - set (Q @ ?new)) = Suc (card (L - set (p # Q)))"
    unfolding step(1) using finite_subset [OF sub] by (subst card_insert_disjoint) auto
  then show ?case using 3(1) [OF links] step(2) 3(4) by simp
qed

lemma root_links:
  assumes "built P m lab"
  shows "links P lab (set_node 0 (\<lambda>n. n\<lparr>mn_maxMatched := mn_terminal n\<rparr>) m) {0}"
proof -
  have ok: "trie_ok m lab" and tm: "terminals_ok m lab P" and un: "unlinked m" using assms by (simp_all add: built_def)
  have n: "length lab = length (mm_nodes m)" "0 < length lab" "lab ! 0 = []" using trie_okD(1-3) [OF ok] by simp_all
  have fails: "mn_fail (node m s) = 0" if "s < length lab" for s using un n that by (simp add: unlinked_def)
  have l: "links P lab m {}" using ok tm fails by (simp add: links_def)
  show ?thesis
    using tm n fails [OF n(2)] by (intro links_insert [OF l]) (auto simp: terminals_ok_def)
qed

lemma buildFailureLinks_all:
  assumes "built P m lab"
  shows "links P lab (buildFailureLinks m) {..<length lab}"
proof -
  let ?m = "set_node 0 (\<lambda>n. n\<lparr>mn_maxMatched := mn_terminal n\<rparr>) m" and ?es = "out_edges m 0"
  have ok: "trie_ok m lab" using assms by (simp add: built_def)
  have n: "length lab = length (mm_nodes m)" and pos: "0 < length lab" and root: "lab ! 0 = []" using trie_okD(1-3) [OF ok] by simp_all
  have fresh: "0 \<notin> me_to ` set ?es" using child_edges(2) [OF ok pos, of 0] root by auto
  have links: "links P lab (fold link_root_child ?es ?m) ({0} \<union> me_to ` set ?es)"
  proof (rule fold_links [where ?L0.0 = "{0}"])
    show "links P lab (link_root_child e m') (insert (me_to e) L')"
      if "links P lab m' L'" "{0} \<subseteq> L'" "e \<in> set ?es" "me_to e \<notin> L'" for m' L' e
      using that child_edges(1) [OF ok pos that(3)] root by (intro link_root_child_links) auto
  qed (use root_links [OF assms] child_edges(3) [OF ok pos] fresh in auto)
  have depth: "length (lab ! t) = 1" if "t \<in> me_to ` set ?es" for t using that child_edges(2) [OF ok pos, of t] root by auto
  have near: "length (lab ! t) \<le> Suc k" if "t \<in> set (map me_to ?es)" for t k using depth that by simp
  have "{0} \<union> me_to ` set ?es - set (map me_to ?es) = {0}" using fresh by auto
  then have "queue_ok lab ({0} \<union> me_to ` set ?es) (map me_to ?es)"
    unfolding queue_ok_def
  proof (simp only:, intro conjI)
    show "sorted_wrt (\<lambda>a b. length (lab ! a) \<le> length (lab ! b)) (map me_to ?es)"
      using depth by (intro flat_sorted) simp
    show "\<forall>q \<in> set (map me_to ?es). length (lab ! q) \<le> Suc (length (lab ! hd (map me_to ?es)))" using near by blast
  qed (use child_edges(2,3) [OF ok pos] in auto)
  then show ?thesis
    unfolding buildFailureLinks_def Let_def using n fresh
    by (intro link_queue_all [OF links]) simp_all
qed

definition matches_all :: "string set \<Rightarrow> matcher \<Rightarrow> string list \<Rightarrow> bool" where
  "matches_all P m lab \<longleftrightarrow> links P lab m {..<length lab}"

theorem new_matcher:
  obtains lab where "matches_all (set ps - {[]}) (newMultiPatternMatcher ps) lab"
    and "length lab \<le> Suc (sum_list (map length ps))"
proof -
  obtain lab where "built ({} \<union> (set ps - {[]})) (fold insert_pattern ps \<lparr>mm_nodes = [new_node], mm_edges = []\<rparr>) lab"
    "length lab \<le> length [[] :: string] + sum_list (map length ps)"
    using insert_patterns_built [OF new_built, of ps] by blast
  then show ?thesis
    using that [of lab] buildFailureLinks_all by (simp add: newMultiPatternMatcher_def matches_all_def)
qed

lemma matcher_size: "length (mm_nodes (newMultiPatternMatcher ps)) \<le> Suc (sum_list (map length ps))"
proof -
  obtain lab where "matches_all (set ps - {[]}) (newMultiPatternMatcher ps) lab" "length lab \<le> Suc (sum_list (map length ps))"
    by (rule new_matcher)
  then show ?thesis using trie_okD(1) by (auto simp: matches_all_def links_def)
qed

section \<open>The scan\<close>

text \<open>The interval of the longest pattern that ends a text, if there is one; its end is at \<open>k\<close>.\<close>

definition longest_mark :: "string set \<Rightarrow> string \<Rightarrow> nat \<Rightarrow> (int \<times> int) list" where
  "longest_mark P u k = (if lsuf P u = [] then [] else [(int k - int (length (lsuf P u)), int k)])"

theorem scan_marks:
  assumes m: "matches_all P m lab" and "s < length lab" and "lab ! s = lsuf (set lab) u" and "scan m cs s base = (s', marks)"
  shows "s' < length lab \<and> lab ! s' = lsuf (set lab) (u @ cs) \<and>
    marks = concat (map (\<lambda>i. longest_mark P (u @ take (Suc i) cs) (base + Suc i)) [0..<length cs])"
  using assms(2-)
proof (induction cs arbitrary: s u base marks)
  case (Cons c cs)
  let ?S = "set lab"
  have ok: "trie_ok m lab" and P: "P \<subseteq> ?S" and lk: "\<And>t. t < length lab \<Longrightarrow> linked P lab m t"
    using m by (auto simp: matches_all_def links_def terminals_ok_def)
  define t where "t = (case climb (length (mm_nodes m)) m s c of Some t \<Rightarrow> t | None \<Rightarrow> 0)"
  have "case climb (length (mm_nodes m)) m s c of
      Some t \<Rightarrow> t < length lab \<and> lab ! t = lsuf ?S (lab ! s @ [c]) | None \<Rightarrow> lsuf ?S (lab ! s @ [c]) = []"
    using lk depth_bound [OF ok Cons.prems(1)] trie_okD(1) [OF ok]
    by (intro climb_correct [OF ok Cons.prems(1)]) (auto simp: linked_def)
  then have t: "t < length lab" "lab ! t = lsuf ?S (u @ [c])"
    using trie_okD(2,3) [OF ok] lsuf_snoc [OF trie_okD(5) [OF ok]] Cons.prems(2)
    by (auto simp: t_def split: option.splits)
  obtain marks' where rest: "scan m cs t (Suc base) = (s', marks')"
    and marks: "marks = (if mn_maxMatched (node m t) > 0
        then [(int (Suc base) - int (mn_maxMatched (node m t)), int (Suc base))] else []) @ marks'"
    using Cons.prems(3) by (auto simp: t_def Let_def split: prod.splits)
  have max: "mn_maxMatched (node m t) = length (lsuf P (u @ [c]))"
    using lk [OF t(1)] t(2) lsuf_sub [OF P] by (simp add: linked_def)
  have "marks = longest_mark P (u @ [c]) (Suc base) @ marks'"
    unfolding marks max by (simp add: longest_mark_def)
  moreover have "[0..<length (c # cs)] = 0 # map Suc [0..<length cs]" by (simp add: upt_conv_Cons map_Suc_upt del: upt_Suc)
  ultimately show ?case
    using Cons.IH [OF t rest] by (simp add: comp_def)
qed simp

end
