(* ===== verification/SecretMask.thy ===== *)
theory SecretMask
  imports Matcher Signature
begin

text \<open>
  Secret masking (\<^verbatim>\<open>internal/secretmask/mask.go\<close>, \<^verbatim>\<open>internal/secretmask/registry.go\<close>): a registry of the patterns
  to hide, and the function that masks a whole text. The registry of a job starts from the secrets of its inputs and
  takes in the secrets that the action reads while it runs, each with its JSON leaves and their JSON-escaped forms,
  within fixed limits. Byte strings are \<open>string\<close>; the counters of the marks, 32 bits in the code, are integers: at
  most one mark ends at a position, so they are bounded by the length of the text. The mutexes are the atomicity of an
  operation, and registries are not nil.

  The reference is \<open>mask\<close>: a byte is hidden exactly when it lies in an occurrence of a pattern.
\<close>

declare map_of_eq_Some_iff [simp del] Some_eq_map_of_iff [simp del]

section \<open>Patterns of a secret\<close>

definition replacementByte :: char where "replacementByte = CHR ''*''"
definition MaxSecretPayloadBytes :: nat where "MaxSecretPayloadBytes = 2 ^ 20"
definition MaxSecretJSONLeaves :: nat where "MaxSecretJSONLeaves = 2048"
definition MaxDynamicPatternBytes :: nat where "MaxDynamicPatternBytes = 64 * 2 ^ 10"
definition MaxDynamicPatterns :: nat where "MaxDynamicPatterns = 4096"
definition MaxDynamicTotalPatternBytes :: nat where "MaxDynamicTotalPatternBytes = 4 * 2 ^ 20"

datatype mask_error = ErrMaskLimit

text \<open>The text of a string between the quotes that \<open>json.Marshal\<close> puts around it.\<close>

definition escaped :: "string \<Rightarrow> string" where
  "escaped value = quote_text (map byte value)"

definition Normalize :: "string list \<Rightarrow> string list" where
  "Normalize values =
     sort_by (\<lambda>p q. length p > length q)
       (filter (\<lambda>v. v \<noteq> []) (remdups (concat (map (\<lambda>v. if v = [] then [] else [v, escaped v]) values))))"

text \<open>
  \<open>json.Unmarshal\<close> into an interface fails on a number that overflows a 64-bit float: one that is at least the midpoint
  between the largest finite value and the next power of two. Exponents are read with a cap, as \<open>strconv\<close> does.
\<close>

definition capped_exponent :: "string \<Rightarrow> nat" where
  "capped_exponent ds = foldl (\<lambda>e c. if e < 10000 then e * 10 + (byte c - 48) else e) 0 ds"

definition float_overflows :: "string \<Rightarrow> bool" where
  "float_overflows lit =
     (let s = dropWhile (\<lambda>c. c = CHR ''-'') lit;
          i = takeWhile is_digit s; s1 = dropWhile is_digit s;
          f = (if s1 \<noteq> [] \<and> hd s1 = CHR ''.'' then takeWhile is_digit (tl s1) else []);
          s2 = (if s1 \<noteq> [] \<and> hd s1 = CHR ''.'' then dropWhile is_digit (tl s1) else s1);
          e = (if s2 = [] then 0
               else let u = tl s2 in
                 if u \<noteq> [] \<and> hd u = CHR ''-'' then - int (capped_exponent (tl u))
                 else if u \<noteq> [] \<and> hd u = CHR ''+'' then int (capped_exponent (tl u)) else int (capped_exponent u));
          mantissa = digits_value (i @ f); exponent = e - int (length f); bound = 2 ^ 1024 - 2 ^ 970
      in if exponent \<ge> 0 then mantissa * 10 ^ nat exponent \<ge> bound else mantissa \<ge> bound * 10 ^ nat (- exponent))"

fun numbers_fit :: "json \<Rightarrow> bool" where
  "numbers_fit (JNum lit) = (\<not> float_overflows lit)"
| "numbers_fit (JArr vs) = (\<forall>v \<in> set vs. numbers_fit v)"
| "numbers_fit (JObj ms) = (\<forall>p \<in> set ms. numbers_fit (snd p))"
| "numbers_fit _ = True"

definition unmarshal_any :: "string \<Rightarrow> json option" where
  "unmarshal_any value = (case json_parse value of Some j \<Rightarrow> if numbers_fit j then Some j else None | None \<Rightarrow> None)"

text \<open>The non-empty strings in a document; of a repeated key the last value counts.\<close>

fun string_leaves :: "json \<Rightarrow> string list" where
  "string_leaves (JStr lit) = (if key_text lit = [] then [] else [key_text lit])"
| "string_leaves (JArr vs) = concat (map string_leaves vs)"
| "string_leaves (JObj ms) =
     concat (map snd (fold (\<lambda>(k, vs) m. put k vs m) (map (\<lambda>(k, v). (key_text k, string_leaves v)) ms) []))"
| "string_leaves _ = []"

definition requiredSecretValues :: "string \<Rightarrow> mask_error + string list" where
  "requiredSecretValues value =
     (case unmarshal_any value of
        None \<Rightarrow> if length value > MaxDynamicPatternBytes then Inl ErrMaskLimit else Inr [value]
      | Some decoded \<Rightarrow>
          if length (string_leaves decoded) > MaxSecretJSONLeaves then Inl ErrMaskLimit
          else Inr (string_leaves decoded @ (if length value \<le> MaxDynamicPatternBytes then [value] else [])))"

section \<open>The registry\<close>

record registry =
  rg_patterns :: "(string, string) gomap"
  rg_matcher :: matcher
  rg_generation :: nat
  rg_totalBytes :: nat
  rg_maxLen :: nat

definition addTrusted :: "string \<Rightarrow> registry \<Rightarrow> registry" where
  "addTrusted pattern r =
     (if pattern = [] then r
      else if map_of (rg_patterns r) pattern \<noteq> None then r
      else r\<lparr>rg_patterns := put pattern pattern (rg_patterns r), rg_totalBytes := rg_totalBytes r + length pattern,
             rg_maxLen := (if length pattern > rg_maxLen r then length pattern else rg_maxLen r)\<rparr>)"

definition rebuildMatcherLocked :: "registry \<Rightarrow> registry" where
  "rebuildMatcherLocked r =
     r\<lparr>rg_matcher := newMultiPatternMatcher (map snd (rg_patterns r)), rg_generation := rg_generation r + 1\<rparr>"

definition empty_registry :: registry where
  "empty_registry = \<lparr>rg_patterns = [], rg_matcher = \<lparr>mm_nodes = [], mm_edges = []\<rparr>, rg_generation = 0, rg_totalBytes = 0, rg_maxLen = 1\<rparr>"

definition NewRegistry :: "string list \<Rightarrow> registry" where
  "NewRegistry initial = rebuildMatcherLocked (fold addTrusted (Normalize initial) empty_registry)"

definition new_patterns :: "registry \<Rightarrow> string list \<Rightarrow> string list" where
  "new_patterns r candidates = filter (\<lambda>p. map_of (rg_patterns r) p = None) candidates"

text \<open>The second loop of \<open>RegisterSecret\<close> stores what is new, as \<open>addTrusted\<close> does.\<close>

definition RegisterSecret :: "string \<Rightarrow> registry \<Rightarrow> mask_error + registry" where
  "RegisterSecret value r =
     (if value = [] then Inr r
      else if length value > MaxSecretPayloadBytes then Inl ErrMaskLimit
      else case requiredSecretValues value of
             Inl e \<Rightarrow> Inl e
           | Inr values \<Rightarrow>
               let candidates = Normalize values; fresh = new_patterns r candidates
               in if list_ex (\<lambda>p. length p > MaxDynamicPatternBytes) candidates then Inl ErrMaskLimit
                  else if length (rg_patterns r) + length fresh > MaxDynamicPatterns then Inl ErrMaskLimit
                  else if rg_totalBytes r + sum_list (map length fresh) > MaxDynamicTotalPatternBytes then Inl ErrMaskLimit
                  else let r' = fold addTrusted candidates r
                       in Inr (if length fresh > 0 then rebuildMatcherLocked r' else r'))"

section \<open>Masking\<close>

definition markRange :: "int \<Rightarrow> int \<Rightarrow> int list \<Rightarrow> int list" where
  "markRange start0 end0 deltas =
     (let start = (if start0 < 0 then 0 else start0);
          end' = (if end0 > int (length deltas) - 1 then int (length deltas) - 1 else end0)
      in if start \<ge> end' then deltas
         else let d = deltas[nat start := deltas ! nat start + 1]
              in d[nat end' := d ! nat end' - 1])"

fun apply_marks :: "int \<Rightarrow> string \<Rightarrow> int list \<Rightarrow> string \<times> int" where
  "apply_marks active [] deltas = ([], active)"
| "apply_marks active (c # cs) deltas =
     (let active' = active + (case deltas of [] \<Rightarrow> 0 | d # _ \<Rightarrow> d);
          (out, final) = apply_marks active' cs (tl deltas)
      in ((if active' > 0 then replacementByte else c) # out, final))"

definition applyRangeMarks :: "string \<Rightarrow> int list \<Rightarrow> string \<times> int" where
  "applyRangeMarks value deltas = apply_marks 0 value deltas"

definition mark_all :: "(int \<times> int) list \<Rightarrow> int list \<Rightarrow> int list" where
  "mark_all marks deltas = fold (\<lambda>(s, e). markRange s e) marks deltas"

definition Bytes :: "registry \<Rightarrow> string \<Rightarrow> string" where
  "Bytes r value =
     fst (applyRangeMarks value (mark_all (snd (scan (rg_matcher r) value 0 0)) (replicate (length value + 1) 0)))"

section \<open>The reference\<close>

definition occurs :: "string \<Rightarrow> nat \<Rightarrow> string \<Rightarrow> bool" where
  "occurs p s t \<longleftrightarrow> s + length p \<le> length t \<and> take (length p) (drop s t) = p"

definition covered :: "string set \<Rightarrow> string \<Rightarrow> nat \<Rightarrow> bool" where
  "covered P t i \<longleftrightarrow> (\<exists>p \<in> P. \<exists>s \<le> i. i < s + length p \<and> occurs p s t)"

definition mask :: "string set \<Rightarrow> string \<Rightarrow> string" where
  "mask P t = map (\<lambda>i. if covered P t i then replacementByte else t ! i) [0..<length t]"

section \<open>Sums of marks\<close>

definition psum :: "int list \<Rightarrow> nat \<Rightarrow> int" where
  "psum ds i = sum_list (take (Suc i) ds)"

definition cover_count :: "(int \<times> int) list \<Rightarrow> int \<Rightarrow> int" where
  "cover_count M i = int (length (filter (\<lambda>(s, e). s \<le> i \<and> i < e) M))"

lemma cover_count_simps [simp]:
  "cover_count [] i = 0" "cover_count ((s, e) # M) i = (if s \<le> i \<and> i < e then 1 else 0) + cover_count M i"
  "cover_count (M @ N) i = cover_count M i + cover_count N i"
  by (simp_all add: cover_count_def)

lemma cover_count_pos: "0 < cover_count M i \<longleftrightarrow> (\<exists>(s, e) \<in> set M. s \<le> i \<and> i < e)"
  by (auto simp: cover_count_def filter_empty_conv)

lemma cover_count_nonneg [simp]: "0 \<le> cover_count M i"
  by (simp add: cover_count_def)

lemma sum_take_update:
  "k < length ds \<Longrightarrow> sum_list (take n (ds[k := ds ! k + d])) = sum_list (take n ds) + (if k < n then d else (0 :: int))"
proof (induction ds arbitrary: k n)
  case (Cons a ds)
  then show ?case by (cases k; cases n) auto
qed simp

lemma length_markRange [simp]: "length (markRange s e ds) = length ds"
  by (simp add: markRange_def Let_def)

lemma length_mark_all [simp]: "length (mark_all M ds) = length ds"
  unfolding mark_all_def by (induction M arbitrary: ds) auto

lemma sum_take_markRange:
  shows "0 < n \<Longrightarrow> n < length ds \<Longrightarrow> sum_list (take n (markRange s e ds)) = sum_list (take n ds) + (if s < int n \<and> int n \<le> e then 1 else 0)"
    and "sum_list (markRange s e ds) = sum_list ds"
proof -
  let ?s = "if s < 0 then 0 else s" and ?e = "if e > int (length ds) - 1 then int (length ds) - 1 else e"
  have upd: "sum_list (take k (markRange s e ds)) =
      sum_list (take k ds) + (if ?s < ?e then (if nat ?s < k then 1 else 0) - (if nat ?e < k then 1 else 0) else 0)" for k
  proof (cases "?s < ?e")
    case True
    define a b d where "a = nat ?s" and "b = nat ?e" and "d = ds[a := ds ! a + 1]"
    have bounds: "a < length ds" "b < length d" using True by (auto simp: a_def b_def d_def split: if_splits)
    have "markRange s e ds = d[b := d ! b + - 1]"
      using True unfolding markRange_def Let_def a_def b_def d_def by simp
    then show ?thesis
      using sum_take_update [OF bounds(1), of k 1] sum_take_update [OF bounds(2), of k "- 1"] True
      by (simp only: a_def [symmetric] b_def [symmetric] d_def [symmetric] if_True) simp
  next
    case False
    then show ?thesis unfolding markRange_def Let_def by simp
  qed
  show "0 < n \<Longrightarrow> n < length ds \<Longrightarrow> sum_list (take n (markRange s e ds)) = sum_list (take n ds) + (if s < int n \<and> int n \<le> e then 1 else 0)"
    unfolding upd by auto
  show "sum_list (markRange s e ds) = sum_list ds"
    using upd [of "length ds"] by auto
qed

lemma psum_mark_all:
  assumes "Suc i < length ds"
  shows "psum (mark_all M ds) i = psum ds i + cover_count M (int i)"
  using assms
proof (induction M arbitrary: ds)
  case (Cons x M)
  obtain s e where x: "x = (s, e)" by (cases x)
  have "psum (mark_all M (markRange s e ds)) i = psum (markRange s e ds) i + cover_count M (int i)"
    using Cons by simp
  moreover have "psum (markRange s e ds) i = psum ds i + (if s \<le> int i \<and> int i < e then 1 else 0)"
    unfolding psum_def using sum_take_markRange(1) [OF _ Cons.prems, of s e] by auto
  ultimately show ?case by (simp add: x mark_all_def)
qed (simp add: mark_all_def)

lemma sum_mark_all: "sum_list (mark_all M ds) = sum_list ds"
  unfolding mark_all_def by (induction M arbitrary: ds) (auto simp: sum_take_markRange(2))

lemma apply_marks_eq:
  assumes "length cs < length ds"
  shows "apply_marks a cs ds =
    (map (\<lambda>i. if a + psum ds i > 0 then replacementByte else cs ! i) [0..<length cs], a + sum_list (take (length cs) ds))"
  using assms
proof (induction cs arbitrary: a ds)
  case (Cons c cs)
  then obtain d ds' where ds: "ds = d # ds'" by (cases ds) auto
  have "[0..<length (c # cs)] = 0 # map Suc [0..<length cs]" by (simp add: upt_conv_Cons map_Suc_upt del: upt_Suc)
  then show ?case using Cons ds by (simp add: psum_def comp_def add.assoc)
qed simp

section \<open>Marks and occurrences\<close>

lemma occurs_suffix:
  assumes "a \<le> s" and "s + length p \<le> length t"
  shows "occurs p s t \<longleftrightarrow> suffix p (take (s + length p - a) (drop a t))"
proof -
  have "take (s + length p - a) (drop a t) = take (s - a) (drop a t) @ take (length p) (drop s t)"
    using assms take_add [of "s - a" "length p" "drop a t"] by (simp add: drop_drop)
  moreover have "length (take (length p) (drop s t)) = length p" using assms by simp
  ultimately have "suffix p (take (s + length p - a) (drop a t)) \<longleftrightarrow> p = take (length p) (drop s t)"
    by (auto simp: suffix_def)
  then show ?thesis using assms by (auto simp: occurs_def)
qed

lemma mark_covers:
  assumes "p \<in> P" and "p \<noteq> []" and "occurs p s t" and "a \<le> s"
  shows "\<exists>b \<le> int s. (b, int (s + length p)) \<in> set (longest_mark P (take (s + length p - a) (drop a t)) (s + length p))"
proof -
  let ?u = "take (s + length p - a) (drop a t)"
  have "s + length p \<le> length t" using assms(3) by (simp add: occurs_def)
  then have "suffix p ?u" using occurs_suffix [OF assms(4)] assms(3) by blast
  then have "suffix p (lsuf P ?u)" using assms(1) by (rule lsuf_longest)
  then have "length p \<le> length (lsuf P ?u)" "lsuf P ?u \<noteq> []" using assms(2) suffix_length_le by auto
  then show ?thesis by (simp add: longest_mark_def)
qed

lemma mark_sound:
  assumes "(b, e) \<in> set (longest_mark P (take (k - a) (drop a t)) k)" and "a \<le> k" and "k \<le> length t"
  shows "\<exists>p \<in> P. p \<noteq> [] \<and> length p \<le> k - a \<and> b = int (k - length p) \<and> e = int k \<and> occurs p (k - length p) t"
proof -
  let ?u = "take (k - a) (drop a t)" and ?p = "lsuf P (take (k - a) (drop a t))"
  have p: "?p \<noteq> []" "b = int k - int (length ?p)" "e = int k"
    using assms(1) by (auto simp: longest_mark_def split: if_splits)
  have len: "length ?p \<le> k - a" using lsuf_length [of P ?u] assms by simp
  have "suffix ?p ?u" by (rule lsuf_suffix)
  then have "occurs ?p (k - length ?p) t" using occurs_suffix [of a "k - length ?p" ?p t] len assms(2,3) by simp
  then show ?thesis using lsuf_mem [OF p(1)] p len by (intro bexI [of _ ?p]) (auto simp: of_nat_diff)
qed

section \<open>A registry and its matcher\<close>

abbreviation pattern_set :: "registry \<Rightarrow> string set" where
  "pattern_set r \<equiv> fst ` set (rg_patterns r)"

definition patterns_ok :: "registry \<Rightarrow> bool" where
  "patterns_ok r \<longleftrightarrow> go_map_ok (rg_patterns r) \<and> (\<forall>(k, v) \<in> set (rg_patterns r). v = k \<and> k \<noteq> []) \<and>
     1 \<le> rg_maxLen r \<and> (\<forall>p \<in> pattern_set r. length p \<le> rg_maxLen r) \<and>
     rg_totalBytes r = sum_list (map length (map fst (rg_patterns r)))"

definition registry_ok :: "registry \<Rightarrow> bool" where
  "registry_ok r \<longleftrightarrow> patterns_ok r \<and> 0 < rg_generation r \<and> rg_matcher r = newMultiPatternMatcher (map snd (rg_patterns r))"

lemma registry_matcher:
  assumes "registry_ok r"
  obtains lab where "matches_all (pattern_set r) (rg_matcher r) lab"
proof -
  have "snd ` set (rg_patterns r) = pattern_set r" "[] \<notin> pattern_set r"
    using assms by (force simp: registry_ok_def patterns_ok_def)+
  then have "set (map snd (rg_patterns r)) - {[]} = pattern_set r" by simp
  then show ?thesis
    using new_matcher [of "map snd (rg_patterns r)"] that assms by (metis registry_ok_def)
qed

lemma root_state:
  assumes "matches_all P m lab"
  shows "0 < length lab" "lab ! 0 = lsuf (set lab) []"
  using assms trie_okD(2,3) by (auto simp: matches_all_def links_def)

theorem Bytes_mask:
  assumes "registry_ok r"
  shows "Bytes r t = mask (pattern_set r) t"
proof -
  let ?P = "pattern_set r"
  obtain lab where lab: "matches_all ?P (rg_matcher r) lab" using registry_matcher [OF assms] .
  obtain s M where scan: "scan (rg_matcher r) t 0 0 = (s, M)" by fastforce
  have M: "M = concat (map (\<lambda>i. longest_mark ?P (take (Suc i) t) (Suc i)) [0..<length t])"
    using scan_marks [OF lab root_state [OF lab] scan] by simp
  have "0 < cover_count M (int i) \<longleftrightarrow> covered ?P t i" if i: "i < length t" for i
  proof
    assume "0 < cover_count M (int i)"
    then obtain b e k where k: "k < length t" "(b, e) \<in> set (longest_mark ?P (take (Suc k) t) (Suc k))" "b \<le> int i" "int i < e"
      by (auto simp: cover_count_pos M)
    then obtain p where p: "p \<in> ?P" "length p \<le> Suc k" "b = int (Suc k - length p)" "e = int (Suc k)" "occurs p (Suc k - length p) t"
      using mark_sound [of b e ?P "Suc k" 0 t, unfolded drop_0 minus_nat.diff_0, OF _ le0 Suc_leI] by blast
    show "covered ?P t i" unfolding covered_def
    proof (intro bexI exI conjI)
      show "Suc k - length p \<le> i" "i < Suc k - length p + length p" using k p by auto
    qed (use p in auto)
  next
    assume "covered ?P t i"
    then obtain p s where p: "p \<in> ?P" "s \<le> i" "i < s + length p" "occurs p s t" by (auto simp: covered_def)
    then have "p \<noteq> []" by auto
    then obtain b where b: "b \<le> int s" "(b, int (s + length p)) \<in> set (longest_mark ?P (take (s + length p) t) (s + length p))"
      using mark_covers [OF p(1) _ p(4), of 0] by auto
    have "Suc (s + length p - 1) = s + length p" "s + length p - 1 < length t" using p by (auto simp: occurs_def)
    then have "(b, int (s + length p)) \<in> set M" using b(2) by (force simp: M)
    then show "0 < cover_count M (int i)"
      using b(1) p(2,3) unfolding cover_count_pos by (intro bexI [of _ "(b, int (s + length p))"]) auto
  qed
  moreover have "psum (mark_all M (replicate (Suc (length t)) 0)) i = cover_count M (int i)" if "i < length t" for i
    using psum_mark_all [of i "replicate (Suc (length t)) 0" M] that by (simp add: psum_def sum_list_replicate del: replicate_Suc)
  ultimately show ?thesis
    by (simp add: Bytes_def applyRangeMarks_def scan apply_marks_eq mask_def)
qed

lemma put_absent: "map_of m k = None \<Longrightarrow> put k v m = m @ [(k, v)]"
  by (induction m) (auto split: if_splits)

lemma addTrusted_ok:
  assumes "patterns_ok r"
  shows "patterns_ok (addTrusted p r)" and "pattern_set (addTrusted p r) = pattern_set r \<union> ({p} - {[]})"
    and "rg_generation (addTrusted p r) = rg_generation r" "rg_matcher (addTrusted p r) = rg_matcher r"
proof -
  have absent: "map_of (rg_patterns r) p = None \<longleftrightarrow> p \<notin> pattern_set r" by (simp add: map_of_eq_None_iff)
  have put: "put p p (rg_patterns r) = rg_patterns r @ [(p, p)]" if "p \<notin> pattern_set r"
    using that absent by (simp add: put_absent)
  show "patterns_ok (addTrusted p r)" "pattern_set (addTrusted p r) = pattern_set r \<union> ({p} - {[]})"
    "rg_generation (addTrusted p r) = rg_generation r" "rg_matcher (addTrusted p r) = rg_matcher r"
    using assms absent by (auto simp: addTrusted_def patterns_ok_def put)
qed

lemma rebuild_ok:
  "patterns_ok r \<Longrightarrow> registry_ok (rebuildMatcherLocked r)"
  "rg_patterns (rebuildMatcherLocked r) = rg_patterns r" "rg_generation (rebuildMatcherLocked r) = Suc (rg_generation r)"
  "rg_totalBytes (rebuildMatcherLocked r) = rg_totalBytes r"
  by (simp_all add: rebuildMatcherLocked_def registry_ok_def patterns_ok_def)

lemma add_all_ok:
  assumes "patterns_ok r"
  shows "patterns_ok (fold addTrusted ps r) \<and> pattern_set (fold addTrusted ps r) = pattern_set r \<union> (set ps - {[]}) \<and>
    rg_generation (fold addTrusted ps r) = rg_generation r \<and> rg_matcher (fold addTrusted ps r) = rg_matcher r"
  using assms
proof (induction ps arbitrary: r)
  case (Cons p ps)
  note p = addTrusted_ok [OF Cons.prems, of p]
  have "pattern_set r \<union> ({p} - {[]}) \<union> (set ps - {[]}) = pattern_set r \<union> (set (p # ps) - {[]})" by auto
  then show ?case using Cons.IH [OF p(1)] p(2-) by simp
qed simp

lemma set_Normalize: "set (Normalize vs) = {v \<in> set vs. v \<noteq> []} \<union> {escaped v |v. v \<in> set vs \<and> v \<noteq> [] \<and> escaped v \<noteq> []}"
  by (auto simp: Normalize_def split: if_splits)

lemma Normalize_nonempty: "[] \<notin> set (Normalize vs)"
  by (simp add: Normalize_def)

lemma NewRegistry_ok: "registry_ok (NewRegistry initial)" and NewRegistry_patterns: "pattern_set (NewRegistry initial) = set (Normalize initial)"
proof -
  have "patterns_ok empty_registry" by (simp add: patterns_ok_def empty_registry_def)
  note all = add_all_ok [OF this, of "Normalize initial"]
  show "registry_ok (NewRegistry initial)"
    using all by (simp add: NewRegistry_def rebuild_ok(1))
  show "pattern_set (NewRegistry initial) = set (Normalize initial)"
    using all Normalize_nonempty [of initial] by (simp add: NewRegistry_def rebuild_ok) (simp add: empty_registry_def)
qed

lemma register_cases:
  assumes ok: "registry_ok r" and reg: "RegisterSecret v r = Inr r'"
  shows "registry_ok r' \<and> pattern_set r \<subseteq> pattern_set r' \<and> rg_generation r \<le> rg_generation r' \<and>
    (rg_generation r' = rg_generation r \<longrightarrow> r' = r) \<and>
    (v \<noteq> [] \<longrightarrow> (\<exists>vs. requiredSecretValues v = Inr vs \<and> pattern_set r' = pattern_set r \<union> set (Normalize vs)))"
proof (cases "v = []")
  case True
  then show ?thesis using ok reg by (simp add: RegisterSecret_def)
next
  case False
  then obtain vs where vs: "requiredSecretValues v = Inr vs" and r': "r' = (let r1 = fold addTrusted (Normalize vs) r
      in if length (new_patterns r (Normalize vs)) > 0 then rebuildMatcherLocked r1 else r1)"
    using reg by (auto simp: RegisterSecret_def Let_def split: sum.splits if_splits)
  have p: "patterns_ok r" using ok by (simp add: registry_ok_def)
  note all = add_all_ok [OF p, of "Normalize vs"]
  have union: "pattern_set r \<union> (set (Normalize vs) - {[]}) = pattern_set r \<union> set (Normalize vs)"
    using Normalize_nonempty [of vs] by auto
  show ?thesis
  proof (cases "new_patterns r (Normalize vs) = []")
    case True
    have "fold addTrusted ps r = r" if "set ps \<subseteq> pattern_set r" for ps
      using that by (induction ps) (auto simp: addTrusted_def map_of_eq_None_iff image_iff)
    moreover have "set (Normalize vs) \<subseteq> pattern_set r"
      using True by (auto simp: new_patterns_def filter_empty_conv map_of_eq_None_iff)
    ultimately have "r' = r" "pattern_set r \<union> set (Normalize vs) = pattern_set r" using r' True by auto
    then show ?thesis using ok vs by simp
  next
    case new: False
    then have "r' = rebuildMatcherLocked (fold addTrusted (Normalize vs) r)" using r' by simp
    then show ?thesis
      using all vs union rebuild_ok(1) [of "fold addTrusted (Normalize vs) r"] by (simp add: rebuild_ok)
  qed
qed

lemma add_all_sizes:
  assumes "distinct ps" and "[] \<notin> set ps"
  shows "length (rg_patterns (fold addTrusted ps r)) = length (rg_patterns r) + length (new_patterns r ps) \<and>
    rg_totalBytes (fold addTrusted ps r) = rg_totalBytes r + sum_list (map length (new_patterns r ps))"
  using assms
proof (induction ps arbitrary: r)
  case (Cons p ps)
  have "new_patterns (addTrusted p r) ps = new_patterns r ps"
    using Cons.prems by (auto simp: new_patterns_def addTrusted_def intro!: filter_cong)
  then show ?case
    using Cons by (auto simp: new_patterns_def addTrusted_def put_absent)
qed (simp add: new_patterns_def)

lemma register_limits:
  assumes "RegisterSecret v r = Inr r'" and "v \<noteq> []"
  shows "length (rg_patterns r') \<le> MaxDynamicPatterns \<and> rg_totalBytes r' \<le> MaxDynamicTotalPatternBytes"
proof -
  obtain vs where vs: "length (rg_patterns r) + length (new_patterns r (Normalize vs)) \<le> MaxDynamicPatterns"
      "rg_totalBytes r + sum_list (map length (new_patterns r (Normalize vs))) \<le> MaxDynamicTotalPatternBytes"
    and r': "r' = (let r1 = fold addTrusted (Normalize vs) r
      in if length (new_patterns r (Normalize vs)) > 0 then rebuildMatcherLocked r1 else r1)"
    using assms by (auto simp: RegisterSecret_def Let_def not_less split: sum.splits if_splits)
  have "distinct (Normalize vs)" by (simp add: Normalize_def)
  then show ?thesis
    using add_all_sizes [of "Normalize vs" r] Normalize_nonempty [of vs] vs by (simp add: r' Let_def rebuild_ok)
qed

section \<open>Registries of a job\<close>

text \<open>Registering one secret after the other; a refused one changes nothing.\<close>

definition register_all :: "string list \<Rightarrow> registry \<Rightarrow> registry" where
  "register_all vs r = fold (\<lambda>v r. case RegisterSecret v r of Inl e \<Rightarrow> r | Inr r' \<Rightarrow> r') vs r"

lemma register_all_ok: "registry_ok r \<Longrightarrow> registry_ok (register_all vs r)"
  unfolding register_all_def by (induction vs arbitrary: r) (auto split: sum.splits dest: register_cases)

lemma registry_of_job: "registry_ok (register_all vs (NewRegistry initial))"
  by (rule register_all_ok) (rule NewRegistry_ok)

lemma registered_forms:
  assumes "registry_ok r" and "RegisterSecret v r = Inr r'" and "w \<noteq> []" and "x \<noteq> []" and "w = x \<or> w = escaped x"
    and "length v \<le> MaxDynamicPatternBytes \<and> x = v \<or> (\<exists>j. unmarshal_any v = Some j \<and> x \<in> set (string_leaves j))"
  shows "w \<in> pattern_set r'"
proof -
  have "v \<noteq> []"
  proof
    assume "v = []"
    moreover have "unmarshal_any [] = None" by (simp add: unmarshal_any_def json_parse_def numeral_2_eq_2) code_simp
    ultimately show False using assms(4,6) by auto
  qed
  then obtain vs where vs: "requiredSecretValues v = Inr vs" "pattern_set r' = pattern_set r \<union> set (Normalize vs)"
    using register_cases [OF assms(1,2)] by blast
  then have "x \<in> set vs" using assms(6) by (auto simp: requiredSecretValues_def split: option.splits if_splits)
  then show ?thesis using vs(2) assms(3-5) by (auto simp: set_Normalize)
qed

lemma registered_sizes:
  assumes "registry_ok r" and "RegisterSecret v r = Inr r'" and "v \<noteq> []"
  shows "length (rg_patterns r') \<le> MaxDynamicPatterns \<and> length (mm_nodes (rg_matcher r')) \<le> MaxDynamicTotalPatternBytes + 1"
proof -
  have ok: "registry_ok r'" using register_cases [OF assms(1,2)] by blast
  then have "map snd (rg_patterns r') = map fst (rg_patterns r')"
    by (auto simp: registry_ok_def patterns_ok_def)
  then have "rg_totalBytes r' = sum_list (map length (map snd (rg_patterns r')))"
    using ok by (simp only: registry_ok_def patterns_ok_def)
  then have "length (mm_nodes (rg_matcher r')) \<le> Suc (rg_totalBytes r')"
    using ok matcher_size [of "map snd (rg_patterns r')"] by (simp only: registry_ok_def)
  then show ?thesis using register_limits [OF assms(2,3)] by simp
qed

end
