(* ===== verification/MaskStream.thy ===== *)
theory MaskStream
  imports SecretMask
begin

text \<open>
  The masking stream of \<^verbatim>\<open>internal/secretmask/mask.go\<close>, through which the log of a job passes in chunks. It holds back
  what may be the beginning of a secret, and it starts its scan of the held bytes again when a secret has been
  registered since the last chunk. \<open>Write\<close> and \<open>Flush\<close> return the new stream and the bytes they emit.

  In the invariant, \<open>T\<close> is everything written so far, \<open>out\<close> everything emitted, and \<open>M\<close> the marks made so far, as
  positions in \<open>T\<close>. The streams of a job see exactly one order of writes and registrations; the theorems hold for
  all of them.
\<close>

declare map_of_eq_Some_iff [simp del] Some_eq_map_of_iff [simp del]

section \<open>The stream\<close>

record mask_stream =
  st_raw :: string
  st_deltas :: "int list"
  st_state :: nat
  st_scanned :: nat
  st_generation :: nat

definition NewRegistryStream :: mask_stream where
  "NewRegistryStream = \<lparr>st_raw = [], st_deltas = [], st_state = 0, st_scanned = 0, st_generation = 0\<rparr>"

text \<open>What \<open>Write\<close> and \<open>Flush\<close> share: scanning what has not been scanned with the current matcher.\<close>

definition rescan :: "registry \<Rightarrow> mask_stream \<Rightarrow> mask_stream" where
  "rescan r st =
     (let st = (if rg_generation r \<noteq> st_generation st
                then st\<lparr>st_state := 0, st_scanned := 0, st_generation := rg_generation r\<rparr> else st);
          (s, marks) = scan (rg_matcher r) (drop (st_scanned st) (st_raw st)) (st_state st) (st_scanned st)
      in st\<lparr>st_state := s, st_deltas := mark_all marks (st_deltas st), st_scanned := length (st_raw st)\<rparr>)"

definition emitPrefix :: "int \<Rightarrow> mask_stream \<Rightarrow> mask_stream \<times> string" where
  "emitPrefix size0 st =
     (if size0 \<le> 0 then (st, [])
      else let size = nat size0;
               (output, active) = applyRangeMarks (take size (st_raw st)) (take (size + 1) (st_deltas st));
               deltas = drop size (st_deltas st)
           in (st\<lparr>st_raw := drop size (st_raw st),
                  st_deltas := (if deltas = [] then [active] else (hd deltas + active) # tl deltas),
                  st_scanned := st_scanned st - size\<rparr>, output))"

definition append_chunk :: "string \<Rightarrow> mask_stream \<Rightarrow> mask_stream" where
  "append_chunk chunk st =
     (let raw = st_raw st @ chunk
      in st\<lparr>st_raw := raw,
            st_deltas := (if st_deltas st = [] then replicate (length raw + 1) 0
                          else st_deltas st @ replicate (length chunk) 0)\<rparr>)"

definition Write :: "registry \<Rightarrow> string \<Rightarrow> mask_stream \<Rightarrow> mask_stream \<times> string" where
  "Write r chunk st =
     (if chunk = [] then (st, [])
      else let st = rescan r (append_chunk chunk st); keep = int (rg_maxLen r) - 1
           in if int (length (st_raw st)) \<le> keep then (st, [])
              else emitPrefix (int (length (st_raw st)) - keep) st)"

definition Flush :: "registry \<Rightarrow> mask_stream \<Rightarrow> mask_stream \<times> string" where
  "Flush r st = (let st = rescan r st in emitPrefix (int (length (st_raw st))) st)"

section \<open>Histories of a stream\<close>

datatype mask_op = OpWrite string | OpRegister string

type_synonym masking = "registry \<times> mask_stream \<times> string"

fun mask_step :: "mask_op \<Rightarrow> masking \<Rightarrow> masking" where
  "mask_step (OpWrite chunk) (r, st, out) = (case Write r chunk st of (st', o') \<Rightarrow> (r, st', out @ o'))"
| "mask_step (OpRegister v) (r, st, out) = (case RegisterSecret v r of Inl e \<Rightarrow> (r, st, out) | Inr r' \<Rightarrow> (r', st, out))"

definition mask_run :: "mask_op list \<Rightarrow> masking \<Rightarrow> masking" where
  "mask_run ops x = fold mask_step ops x"

fun written :: "mask_op list \<Rightarrow> string" where
  "written [] = []"
| "written (OpWrite c # ops) = c @ written ops"
| "written (OpRegister v # ops) = written ops"

definition finish :: "masking \<Rightarrow> string" where
  "finish x = (case x of (r, st, out) \<Rightarrow> out @ snd (Flush r st))"

section \<open>The invariant\<close>

text \<open>Since the last restart, at position \<open>a\<close>, every end of a longest match has been marked.\<close>

definition scanned_from :: "registry \<Rightarrow> nat \<Rightarrow> string \<Rightarrow> (int \<times> int) list \<Rightarrow> nat \<Rightarrow> bool" where
  "scanned_from r s T M a \<longleftrightarrow>
     (\<forall>lab. matches_all (pattern_set r) (rg_matcher r) lab \<longrightarrow> s < length lab \<and> lab ! s = lsuf (set lab) (drop a T)) \<and>
     (\<forall>k. a < k \<and> k \<le> length T \<longrightarrow> set (longest_mark (pattern_set r) (take (k - a) (drop a T)) k) \<subseteq> set M)"

definition occurrence_mark :: "registry \<Rightarrow> string \<Rightarrow> int \<times> int \<Rightarrow> bool" where
  "occurrence_mark r T x \<longleftrightarrow> (\<exists>p \<in> pattern_set r. \<exists>s. x = (int s, int (s + length p)) \<and> occurs p s T)"

definition stream_ok :: "registry \<Rightarrow> mask_stream \<Rightarrow> string \<Rightarrow> string \<Rightarrow> (int \<times> int) list \<Rightarrow> bool" where
  "stream_ok r st T out M \<longleftrightarrow>
     length out \<le> length T \<and> st_raw st = drop (length out) T \<and> st_scanned st = length (st_raw st) \<and>
     (T = [] \<and> st_deltas st = [] \<or> length (st_deltas st) = Suc (length (st_raw st))) \<and> sum_list (st_deltas st) = 0 \<and>
     (\<forall>i<length (st_raw st). psum (st_deltas st) i = cover_count M (int (length out + i))) \<and>
     (\<forall>x \<in> set M. occurrence_mark r T x) \<and>
     (\<forall>i<length out. out ! i = T ! i \<or> out ! i = replacementByte \<and> covered (pattern_set r) T i) \<and>
     st_generation st \<le> rg_generation r \<and>
     (st_generation st = rg_generation r \<longrightarrow> (\<exists>a \<le> length out. scanned_from r (st_state st) T M a))"

lemma stream_okD:
  assumes "stream_ok r st T out M"
  shows "length out \<le> length T" "st_raw st = drop (length out) T" "st_scanned st = length (st_raw st)"
    "T = [] \<and> st_deltas st = [] \<or> length (st_deltas st) = Suc (length (st_raw st))" "sum_list (st_deltas st) = 0"
    "i < length (st_raw st) \<Longrightarrow> psum (st_deltas st) i = cover_count M (int (length out + i))"
    "x \<in> set M \<Longrightarrow> occurrence_mark r T x"
    "i < length out \<Longrightarrow> out ! i = T ! i \<or> out ! i = replacementByte \<and> covered (pattern_set r) T i"
    "st_generation st = rg_generation r \<Longrightarrow> \<exists>a \<le> length out. scanned_from r (st_state st) T M a"
  using assms unfolding stream_ok_def by blast+

lemma stream_start: "registry_ok r \<Longrightarrow> stream_ok r NewRegistryStream [] [] []"
  by (auto simp: stream_ok_def NewRegistryStream_def registry_ok_def)

lemma occurs_append: "occurs p s T \<Longrightarrow> occurs p s (T @ U)"
  by (auto simp: occurs_def)

lemma occurs_prefix: "occurs p s (T @ U) \<Longrightarrow> s + length p \<le> length T \<Longrightarrow> occurs p s T"
  by (auto simp: occurs_def)

lemma covered_append: "covered P T i \<Longrightarrow> covered P (T @ U) i"
  unfolding covered_def by (meson occurs_append)

section \<open>Scanning at positions of the whole text\<close>

abbreviation shift :: "nat \<Rightarrow> (int \<times> int) list \<Rightarrow> (int \<times> int) list" where
  "shift n M \<equiv> map (\<lambda>(b, e). (b + int n, e + int n)) M"

lemma shift_longest: "shift n (longest_mark P u k) = longest_mark P u (n + k)"
  by (simp add: longest_mark_def)

lemma cover_count_shift: "cover_count (shift n M) (int (n + i)) = cover_count M (int i)"
  by (induction M) (auto simp: algebra_simps)

lemma scan_positions:
  assumes "matches_all P m lab" and "s < length lab" and "lab ! s = lsuf (set lab) u" and "scan m cs s base = (s', marks)"
    and T: "drop a T = u @ cs" "a \<le> length T" and pos: "a + length u = off + base"
  shows "s' < length lab \<and> lab ! s' = lsuf (set lab) (drop a T) \<and>
    set (shift off marks) = (\<Union>k \<in> {off + base<..length T}. set (longest_mark P (take (k - a) (drop a T)) k))"
proof -
  have scan: "s' < length lab" "lab ! s' = lsuf (set lab) (u @ cs)"
    "marks = concat (map (\<lambda>i. longest_mark P (u @ take (Suc i) cs) (base + Suc i)) [0..<length cs])"
    using scan_marks [OF assms(1-4)] by blast+
  have len: "length T = off + base + length cs"
    using arg_cong [OF T(1), of length] T(2) pos by simp
  have take: "u @ take (Suc i) cs = take (off + base + Suc i - a) (drop a T)" for i
    using pos by (simp add: T(1))
  have "set (shift off marks) =
      (\<Union>i \<in> {..<length cs}. set (longest_mark P (take (off + base + Suc i - a) (drop a T)) (off + base + Suc i)))"
    unfolding scan(3) map_concat set_concat by (auto simp: shift_longest take add.assoc comp_def)
  also have "\<dots> = (\<Union>k \<in> (\<lambda>i. off + base + Suc i) ` {..<length cs}. set (longest_mark P (take (k - a) (drop a T)) k))" by simp
  also have "(\<lambda>i. off + base + Suc i) ` {..<length cs} = {off + base<..length T}"
    unfolding len by (auto simp: image_iff Bex_def) presburger
  finally show ?thesis using scan T(1) by simp
qed

section \<open>The steps keep the invariant\<close>

text \<open>The state after a chunk has been appended and before it is scanned: as \<open>stream_ok\<close>, but scanned only up to \<open>T\<close>.\<close>

definition appended :: "registry \<Rightarrow> mask_stream \<Rightarrow> string \<Rightarrow> string \<Rightarrow> string \<Rightarrow> (int \<times> int) list \<Rightarrow> bool" where
  "appended r st T U out M \<longleftrightarrow>
     length out \<le> length T \<and> st_raw st = drop (length out) (T @ U) \<and> st_scanned st = length T - length out \<and>
     (T @ U = [] \<and> st_deltas st = [] \<or> length (st_deltas st) = Suc (length (st_raw st))) \<and> sum_list (st_deltas st) = 0 \<and>
     (\<forall>i<length (st_raw st). psum (st_deltas st) i = cover_count M (int (length out + i))) \<and>
     (\<forall>x \<in> set M. occurrence_mark r (T @ U) x) \<and>
     (\<forall>i<length out. out ! i = (T @ U) ! i \<or> out ! i = replacementByte \<and> covered (pattern_set r) (T @ U) i) \<and>
     st_generation st \<le> rg_generation r \<and>
     (st_generation st = rg_generation r \<longrightarrow> (\<exists>a \<le> length out. scanned_from r (st_state st) T M a))"

lemma occurrence_mark_append: "occurrence_mark r T x \<Longrightarrow> occurrence_mark r (T @ U) x"
  unfolding occurrence_mark_def by (meson occurs_append)

lemma occurrence_mark_end: "occurrence_mark r T (b, e) \<Longrightarrow> e \<le> int (length T)"
  by (auto simp: occurrence_mark_def occurs_def)

lemma marks_end: "(\<And>x. x \<in> set M \<Longrightarrow> occurrence_mark r T x) \<Longrightarrow> length T \<le> i \<Longrightarrow> cover_count M (int i) = 0"
  using occurrence_mark_end by (force simp: cover_count_def filter_empty_conv)

lemma append_chunk_appended:
  assumes ok: "stream_ok r st T out M" and "chunk \<noteq> []"
  shows "appended r (append_chunk chunk st) T chunk out M"
proof -
  let ?st = "append_chunk chunk st"
  note D = stream_okD [OF ok]
  have raw: "st_raw ?st = drop (length out) (T @ chunk)" using D(1,2) by (simp add: append_chunk_def Let_def)
  have psum: "psum (st_deltas ?st) i = cover_count M (int (length out + i))" if i: "i < length (st_raw ?st)" for i
  proof (cases "i < length (st_raw st)")
    case True
    then have "st_deltas st \<noteq> []" "Suc i < length (st_deltas st)" using D(2,4) by auto
    then show ?thesis using D(6) [OF True] by (simp add: append_chunk_def psum_def Let_def)
  next
    case False
    have "psum (st_deltas ?st) i = 0"
      using False D(4,5) by (auto simp: append_chunk_def psum_def Let_def sum_list_replicate simp del: replicate_Suc)
    moreover have "length T \<le> length out + i" using False D(1,2) by simp
    ultimately show ?thesis using marks_end [of M r T "length out + i"] D(7) by simp
  qed
  have "length (st_deltas ?st) = Suc (length (st_raw ?st))" "sum_list (st_deltas ?st) = 0"
    using D(2,4,5) by (auto simp: append_chunk_def Let_def sum_list_replicate simp del: replicate_Suc)
  moreover have "out ! i = (T @ chunk) ! i \<or> out ! i = replacementByte \<and> covered (pattern_set r) (T @ chunk) i"
    if "i < length out" for i
    using D(8) [OF that] that D(1) covered_append by (auto simp: nth_append)
  ultimately show ?thesis
    unfolding appended_def
    using D raw psum ok occurrence_mark_append by (auto simp: append_chunk_def Let_def stream_ok_def)
qed

lemma flush_appended: "stream_ok r st T out M \<Longrightarrow> appended r st T [] out M"
  by (auto simp: appended_def stream_ok_def)

text \<open>After a scan, the stream is up to date with the registry.\<close>

definition current :: "registry \<Rightarrow> mask_stream \<Rightarrow> string \<Rightarrow> string \<Rightarrow> (int \<times> int) list \<Rightarrow> bool" where
  "current r st T out M \<longleftrightarrow> stream_ok r st T out M \<and> (\<exists>a \<le> length out. scanned_from r (st_state st) T M a)"

lemma scanned_fields:
  assumes A: "appended r st T U out M" and N: "N = shift (length out) marks"
    and sound: "\<And>x. x \<in> set N \<Longrightarrow> occurrence_mark r (T @ U) x"
    and a: "a \<le> length out" "scanned_from r s (T @ U) (M @ N) a"
  shows "current r (st\<lparr>st_state := s, st_deltas := mark_all marks (st_deltas st), st_scanned := length (st_raw st),
      st_generation := rg_generation r\<rparr>) (T @ U) out (M @ N)"
proof -
  have deltas: "psum (mark_all marks (st_deltas st)) i = cover_count (M @ N) (int (length out + i))"
    if "i < length (st_raw st)" for i
  proof -
    have "Suc i < length (st_deltas st)" using A that by (auto simp: appended_def)
    then show ?thesis
      using psum_mark_all [of i "st_deltas st" marks] A that cover_count_shift [of "length out" marks i] N by (simp add: appended_def)
  qed
  have "mark_all marks [] = []" using length_mark_all [of marks "[]"] by (simp del: length_mark_all)
  then have "T @ U = [] \<and> mark_all marks (st_deltas st) = [] \<or> length (mark_all marks (st_deltas st)) = Suc (length (st_raw st))"
    using A by (auto simp: appended_def)
  moreover have "\<forall>x \<in> set (M @ N). occurrence_mark r (T @ U) x" using A sound by (auto simp: appended_def)
  ultimately have "stream_ok r (st\<lparr>st_state := s, st_deltas := mark_all marks (st_deltas st), st_scanned := length (st_raw st),
      st_generation := rg_generation r\<rparr>) (T @ U) out (M @ N)"
    unfolding stream_ok_def using A a deltas by (simp add: appended_def sum_mark_all) blast
  then show ?thesis using a by (auto simp: current_def)
qed

lemma longest_is_occurrence:
  assumes "x \<in> set (longest_mark (pattern_set r) (take (k - a) (drop a T)) k)" and "a \<le> k" and "k \<le> length T"
  shows "occurrence_mark r T x"
proof -
  obtain b e where x: "x = (b, e)" by (cases x)
  obtain p where p: "p \<in> pattern_set r" "length p \<le> k - a" "b = int (k - length p)" "e = int k" "occurs p (k - length p) T"
    using mark_sound [OF assms(1) [unfolded x] assms(2,3)] by blast
  then have "x = (int (k - length p), int (k - length p + length p))" by (simp add: x)
  then show ?thesis using p unfolding occurrence_mark_def by blast
qed

lemma rescan_current:
  assumes r: "registry_ok r" and A: "appended r st T U out M"
  shows "\<exists>M'. set M \<subseteq> set M' \<and> current r (rescan r st) (T @ U) out M'"
proof -
  let ?P = "pattern_set r" and ?T = "T @ U" and ?off = "length out"
  define same where "same \<longleftrightarrow> st_generation st = rg_generation r"
  obtain a where a: "a \<le> ?off" "same \<Longrightarrow> scanned_from r (st_state st) T M a" "\<not> same \<Longrightarrow> a = ?off"
    using A unfolding appended_def same_def by (cases "st_generation st = rg_generation r") auto
  define s0 base where "s0 = (if same then st_state st else 0)" and "base = (if same then st_scanned st else 0)"
  define u where "u = (if same then drop a T else [])"
  obtain s marks where scan: "scan (rg_matcher r) (drop base (st_raw st)) s0 base = (s, marks)" by fastforce
  have len: "?off \<le> length T" and raw: "st_raw st = drop ?off ?T" and sc: "st_scanned st = length T - ?off"
    using A by (auto simp: appended_def)
  have whole: "drop a ?T = u @ drop base (st_raw st)" "a \<le> length ?T" "a + length u = ?off + base"
    using a len raw sc by (auto simp: u_def base_def)
  have pos: "s < length lab \<and> lab ! s = lsuf (set lab) (drop a ?T) \<and>
      set (shift ?off marks) = (\<Union>k \<in> {?off + base<..length ?T}. set (longest_mark ?P (take (k - a) (drop a ?T)) k))"
    if lab: "matches_all ?P (rg_matcher r) lab" for lab
    using a(2) lab root_state [OF lab] by (intro scan_positions [OF lab _ _ scan whole]) (auto simp: s0_def u_def scanned_from_def)
  obtain lab0 where "matches_all ?P (rg_matcher r) lab0" using registry_matcher [OF r] .
  then have marks: "set (shift ?off marks) = (\<Union>k \<in> {?off + base<..length ?T}. set (longest_mark ?P (take (k - a) (drop a ?T)) k))"
    using pos by blast
  have sound: "occurrence_mark r ?T x" if "x \<in> set (shift ?off marks)" for x
    using that unfolding marks using a(1) by (auto intro!: longest_is_occurrence simp del: drop_append take_append)
  have old: "set (longest_mark ?P (take (k - a) (drop a ?T)) k) \<subseteq> set M" if "a < k" "k \<le> ?off + base" for k
  proof -
    have same and k: "k \<le> length T" using that a len sc by (auto simp: base_def split: if_splits)
    then have "set (longest_mark ?P (take (k - a) (drop a T)) k) \<subseteq> set M" using a(2) that by (simp add: scanned_from_def)
    moreover have "take (k - a) (drop a ?T) = take (k - a) (drop a T)" using that k by simp
    ultimately show ?thesis by (simp only:)
  qed
  have "set (longest_mark ?P (take (k - a) (drop a ?T)) k) \<subseteq> set (M @ shift ?off marks)" if "a < k" "k \<le> length ?T" for k
    using old [OF that(1)] that(2) marks by (cases "k \<le> ?off + base") auto
  then have upto: "scanned_from r s ?T (M @ shift ?off marks) a" using pos by (auto simp: scanned_from_def)
  have "rescan r st = st\<lparr>st_state := s, st_deltas := mark_all marks (st_deltas st), st_scanned := length (st_raw st),
      st_generation := rg_generation r\<rparr>"
    using scan by (auto simp: rescan_def Let_def s0_def base_def same_def)
  then show ?thesis using scanned_fields [OF A refl sound a(1) upto] by (intro exI [of _ "M @ shift ?off marks"]) simp
qed

lemma emit_fields:
  assumes "stream_ok r st T out M" and "0 < n" and "n \<le> length (st_raw st)"
  shows "emitPrefix (int n) st =
    (st\<lparr>st_raw := drop n (st_raw st),
        st_deltas := (hd (drop n (st_deltas st)) + sum_list (take n (st_deltas st))) # tl (drop n (st_deltas st)),
        st_scanned := st_scanned st - n\<rparr>,
     map (\<lambda>i. if cover_count M (int (length out + i)) > 0 then replacementByte else st_raw st ! i) [0..<n])"
proof -
  note D = stream_okD [OF assms(1)]
  have len: "length (st_deltas st) = Suc (length (st_raw st))" using D(2,4) assms(2,3) by auto
  have sums: "0 + psum (take (n + 1) (st_deltas st)) i = cover_count M (int (length out + i))" if "i < n" for i
    using D(6) [of i] that assms(3) by (simp add: psum_def min_def)
  have "length (take n (st_raw st)) < length (take (n + 1) (st_deltas st))" "length (take n (st_raw st)) = n"
    using len assms(3) by simp_all
  then have "applyRangeMarks (take n (st_raw st)) (take (n + 1) (st_deltas st)) =
      (map (\<lambda>i. if cover_count M (int (length out + i)) > 0 then replacementByte else st_raw st ! i) [0..<n],
       sum_list (take n (st_deltas st)))"
    unfolding applyRangeMarks_def by (subst apply_marks_eq) (auto simp: sums [simplified])
  moreover have "drop n (st_deltas st) \<noteq> []" using len assms(3) by simp
  ultimately show ?thesis using assms(2) by (simp add: emitPrefix_def Let_def)
qed

lemma mark_covered:
  assumes "\<And>x. x \<in> set M \<Longrightarrow> occurrence_mark r T x" and "0 < cover_count M (int i)"
  shows "covered (pattern_set r) T i"
proof -
  obtain b e where x: "(b, e) \<in> set M" "b \<le> int i" "int i < e" using assms(2) unfolding cover_count_pos by blast
  then obtain p s where "p \<in> pattern_set r" "b = int s" "e = int (s + length p)" "occurs p s T"
    using assms(1) unfolding occurrence_mark_def by blast
  then show ?thesis using x unfolding covered_def by (intro bexI [of _ p] exI [of _ s]) auto
qed

lemma emit_current:
  assumes C: "current r st T out M" and "0 < n" and "n \<le> length (st_raw st)" and "emitPrefix (int n) st = (st', o')"
  shows "current r st' T (out @ o') M \<and> length o' = n \<and>
    (\<forall>i<length o'. 0 < cover_count M (int (length out + i)) \<longrightarrow> o' ! i = replacementByte)"
proof -
  have ok: "stream_ok r st T out M" using C by (simp add: current_def)
  note D = stream_okD [OF ok] and E = emit_fields [OF ok assms(2,3)]
  have len: "length (st_deltas st) = Suc (length (st_raw st))" using D(2,4) assms(2,3) by auto
  have o': "o' = map (\<lambda>i. if cover_count M (int (length out + i)) > 0 then replacementByte else st_raw st ! i) [0..<n]"
    and st': "st' = st\<lparr>st_raw := drop n (st_raw st),
        st_deltas := (hd (drop n (st_deltas st)) + sum_list (take n (st_deltas st))) # tl (drop n (st_deltas st)),
        st_scanned := st_scanned st - n\<rparr>"
    using E assms(4) by simp_all
  obtain d ds where ds: "drop n (st_deltas st) = d # ds" using len assms(3) by (cases "drop n (st_deltas st)") auto
  then have lds: "length ds = length (st_raw st) - n" using length_drop [of n "st_deltas st"] len assms(3) by simp
  have psum: "psum (st_deltas st') i = psum (st_deltas st) (n + i)" for i
    using take_add [of n "Suc i" "st_deltas st"] by (simp add: psum_def st' ds)
  have sum: "sum_list (st_deltas st') = 0"
    using D(5) arg_cong [OF append_take_drop_id [of n "st_deltas st"], of sum_list] by (simp add: st' ds)
  have bytes: "(out @ o') ! i = T ! i \<or> (out @ o') ! i = replacementByte \<and> covered (pattern_set r) T i"
    if "i < length (out @ o')" for i
  proof (cases "i < length out")
    case True
    then show ?thesis using D(8) [OF True] by (simp add: nth_append)
  next
    case False
    then have "i - length out < n" "length out + (i - length out) = i" using that by (simp_all add: o')
    then show ?thesis
      using False D(1,2) assms(3) mark_covered [of M r T i] D(7) by (auto simp: nth_append o')
  qed
  have still: "\<exists>a \<le> length (out @ o'). scanned_from r (st_state st') T M a"
    using C unfolding current_def st' by (simp add: st') (meson trans_le_add1)
  have "stream_ok r st' T (out @ o') M"
    unfolding stream_ok_def
  proof (intro conjI allI impI)
    show "psum (st_deltas st') i = cover_count M (int (length (out @ o') + i))" if "i < length (st_raw st')" for i
      using D(6) [of "n + i"] that psum [of i] by (simp add: st' o' add.assoc)
    show "T = [] \<and> st_deltas st' = [] \<or> length (st_deltas st') = Suc (length (st_raw st'))"
      using lds by (simp add: st' ds)
    show "st_raw st' = drop (length (out @ o')) T" using D(2) by (simp add: st' o' add.commute)
    show "length (out @ o') \<le> length T" using D(1,2) assms(3) by (simp add: o')
    show "\<exists>a \<le> length (out @ o'). scanned_from r (st_state st') T M a" by (rule still)
  qed (use ok D sum bytes in \<open>auto simp: st' stream_ok_def\<close>)
  then show ?thesis using still by (simp add: current_def o')
qed

section \<open>What is promised of a pattern\<close>

text \<open>
  The occurrence of \<open>p\<close> at \<open>s\<close> either has not begun to be emitted, or it has been read completely and its bytes
  are emitted masked or marked.
\<close>

definition hidden :: "string \<Rightarrow> string \<Rightarrow> (int \<times> int) list \<Rightarrow> string \<Rightarrow> nat \<Rightarrow> bool" where
  "hidden T out M p s \<longleftrightarrow> s + length p \<le> length T \<and>
     (\<forall>i. s \<le> i \<and> i < s + length p \<longrightarrow> (if i < length out then out ! i = replacementByte else 0 < cover_count M (int i)))"

definition promised :: "registry \<Rightarrow> string \<Rightarrow> string \<Rightarrow> (int \<times> int) list \<Rightarrow> string \<Rightarrow> nat \<Rightarrow> bool" where
  "promised r T out M p s \<longleftrightarrow> p \<in> pattern_set r \<and> p \<noteq> [] \<and> (length out \<le> s \<or> hidden T out M p s)"

lemma hidden_scanned:
  assumes C: "current r st T out M" and p: "p \<in> pattern_set r" "p \<noteq> []" "occurs p s T" and s: "length out \<le> s"
  shows "hidden T out M p s"
proof -
  obtain a where a: "a \<le> length out" "scanned_from r (st_state st) T M a" using C by (auto simp: current_def)
  let ?k = "s + length p"
  obtain b where b: "b \<le> int s" "(b, int ?k) \<in> set (longest_mark (pattern_set r) (take (?k - a) (drop a T)) ?k)"
    using mark_covers [OF p, of a] a s by auto
  have "0 < length p" using p(2) by simp
  then have k: "a < ?k" using a(1) s by linarith
  have k': "?k \<le> length T" using p(3) by (simp add: occurs_def)
  then have "(b, int ?k) \<in> set M" using a(2) b(2) k k' unfolding scanned_from_def by blast
  then have "0 < cover_count M (int i)" if "s \<le> i" "i < ?k" for i
    unfolding cover_count_pos using b(1) that by (intro bexI [of _ "(b, int ?k)"]) auto
  then show ?thesis using k' s by (auto simp: hidden_def)
qed

lemma hidden_mono:
  assumes "hidden T out M p s" and "set M \<subseteq> set M'"
  shows "hidden (T @ U) out M' p s"
proof -
  have "0 < cover_count M' (int i)" if "0 < cover_count M (int i)" for i
    using that assms(2) unfolding cover_count_pos by blast
  then show ?thesis using assms(1) by (auto simp: hidden_def)
qed

lemma hidden_emit:
  assumes "hidden T out M p s" and "\<forall>i<length o'. 0 < cover_count M (int (length out + i)) \<longrightarrow> o' ! i = replacementByte"
  shows "hidden T (out @ o') M p s"
  unfolding hidden_def
proof (intro conjI allI impI)
  show "s + length p \<le> length T" using assms(1) by (simp add: hidden_def)
  fix i assume i: "s \<le> i \<and> i < s + length p"
  then have h: "if i < length out then out ! i = replacementByte else 0 < cover_count M (int i)"
    using assms(1) by (simp add: hidden_def)
  show "if i < length (out @ o') then (out @ o') ! i = replacementByte else 0 < cover_count M (int i)"
    using h assms(2) [rule_format, of "i - length out"] by (auto simp: nth_append)
qed

text \<open>The scan keeps the promise, and so does an emission that holds back enough.\<close>

lemma promised_scanned:
  assumes "current r st (T @ U) out M'" and "promised r T out M p s" and "set M \<subseteq> set M'" and "occurs p s (T @ U @ V)"
  shows "hidden (T @ U) out M' p s \<or> (length out \<le> s \<and> length (T @ U) < s + length p)"
proof (cases "length out \<le> s \<and> s + length p \<le> length (T @ U)")
  case True
  then have "occurs p s (T @ U)" using occurs_prefix [of p s "T @ U" V] assms(4) by simp
  then show ?thesis using hidden_scanned [OF assms(1)] assms(2) True by (auto simp: promised_def)
next
  case False
  then show ?thesis
    using assms(2) hidden_mono [OF _ assms(3)] by (auto simp: promised_def)
qed

lemma write_current:
  assumes r: "registry_ok r" and ok: "stream_ok r st T out M" and W: "Write r chunk st = (st', o')"
  shows "\<exists>M'. stream_ok r st' (T @ chunk) (out @ o') M' \<and>
    (\<forall>p s V. promised r T out M p s \<longrightarrow> occurs p s (T @ chunk @ V) \<longrightarrow> promised r (T @ chunk) (out @ o') M' p s)"
proof (cases "chunk = []")
  case True
  then show ?thesis using ok W by (intro exI [of _ M]) (simp add: Write_def)
next
  case False
  obtain M' where M': "set M \<subseteq> set M'" and C: "current r (rescan r (append_chunk chunk st)) (T @ chunk) out M'"
    using rescan_current [OF r append_chunk_appended [OF ok False]] by blast
  let ?st = "rescan r (append_chunk chunk st)" and ?keep = "rg_maxLen r - 1"
  have keep: "1 \<le> rg_maxLen r" "\<And>p. p \<in> pattern_set r \<Longrightarrow> length p \<le> rg_maxLen r"
    using r by (auto simp: registry_ok_def patterns_ok_def)
  have raw: "st_raw ?st = drop (length out) (T @ chunk)" and out: "length out \<le> length (T @ chunk)"
    using C stream_okD(1,2) [of r ?st "T @ chunk" out M'] by (simp_all add: current_def)
  have emitted: "current r st' (T @ chunk) (out @ o') M' \<and> (length (out @ o') = length out \<or> length (out @ o') = length (T @ chunk) - ?keep) \<and>
      (\<forall>i<length o'. 0 < cover_count M' (int (length out + i)) \<longrightarrow> o' ! i = replacementByte)"
  proof (cases "length (st_raw ?st) \<le> ?keep")
    case True
    then have "int (length (st_raw ?st)) \<le> int (rg_maxLen r) - 1" using keep(1) by linarith
    then have "st' = ?st" "o' = []" using W False unfolding Write_def Let_def by simp_all
    then show ?thesis using C by simp
  next
    case long: False
    let ?n = "length (st_raw ?st) - ?keep"
    have "\<not> int (length (st_raw ?st)) \<le> int (rg_maxLen r) - 1" "int (length (st_raw ?st)) - (int (rg_maxLen r) - 1) = int ?n"
      using long keep(1) by linarith+
    then have "emitPrefix (int ?n) ?st = (st', o')" using W False unfolding Write_def Let_def by (simp only: if_False)
    then have "current r st' (T @ chunk) (out @ o') M' \<and> length o' = ?n \<and>
        (\<forall>i<length o'. 0 < cover_count M' (int (length out + i)) \<longrightarrow> o' ! i = replacementByte)"
      using long by (intro emit_current [OF C]) auto
    moreover have "length out + ?n = length (T @ chunk) - ?keep"
      using arg_cong [OF raw, of length] out long unfolding length_drop by arith
    ultimately show ?thesis by simp
  qed
  have "promised r (T @ chunk) (out @ o') M' p s" if pr: "promised r T out M p s" and occ: "occurs p s (T @ chunk @ V)" for p s V
  proof -
    have "length (out @ o') \<le> s" if "length out \<le> s" "length (T @ chunk) < s + length p"
      using emitted that keep(2) [of p] pr by (auto simp: promised_def)
    then show ?thesis
      using promised_scanned [OF C pr M' occ] hidden_emit emitted pr by (auto simp: promised_def)
  qed
  then show ?thesis using emitted by (auto simp: current_def)
qed

lemma register_current:
  assumes "registry_ok r" and "stream_ok r st T out M" and "RegisterSecret v r = Inr r'"
  shows "registry_ok r' \<and> stream_ok r' st T out M \<and> (\<forall>p s. promised r T out M p s \<longrightarrow> promised r' T out M p s)"
proof -
  have c: "registry_ok r'" "pattern_set r \<subseteq> pattern_set r'" "rg_generation r \<le> rg_generation r'"
    "rg_generation r' = rg_generation r \<longrightarrow> r' = r"
    using register_cases [OF assms(1,3)] by blast+
  have "occurrence_mark r' T x" if "occurrence_mark r T x" for x using that c(2) unfolding occurrence_mark_def by blast
  moreover have "covered (pattern_set r') T i" if "covered (pattern_set r) T i" for i using that c(2) unfolding covered_def by blast
  ultimately have "stream_ok r' st T out M" if "rg_generation r < rg_generation r'"
    using that assms(2) unfolding stream_ok_def by auto
  then have "stream_ok r' st T out M" using c(3,4) assms(2) by (cases "rg_generation r' = rg_generation r") auto
  then show ?thesis using c by (auto simp: promised_def)
qed

lemma mask_step_ok:
  assumes "registry_ok r" and "stream_ok r st T out M" and "mask_step x (r, st, out) = (r', st', out')"
  shows "registry_ok r' \<and> (\<exists>M'. stream_ok r' st' (T @ written [x]) out' M' \<and>
    (\<forall>p s V. promised r T out M p s \<longrightarrow> occurs p s (T @ written [x] @ V) \<longrightarrow> promised r' (T @ written [x]) out' M' p s))"
proof (cases x)
  case (OpWrite c)
  then show ?thesis using assms write_current [OF assms(1,2)] by (auto split: prod.splits)
next
  case (OpRegister v)
  then show ?thesis using assms register_current [OF assms(1,2)] by (fastforce split: sum.splits)
qed

lemma written_append: "written (ops @ ops') = written ops @ written ops'"
  by (induction ops rule: written.induct) simp_all

lemma mask_run_ok:
  assumes "registry_ok r" and "stream_ok r st T out M" and "mask_run ops (r, st, out) = (r', st', out')"
  shows "registry_ok r' \<and> (\<exists>M'. stream_ok r' st' (T @ written ops) out' M' \<and>
    (\<forall>p s V. promised r T out M p s \<longrightarrow> occurs p s (T @ written ops @ V) \<longrightarrow> promised r' (T @ written ops) out' M' p s))"
  using assms
proof (induction ops arbitrary: r st T out M)
  case Nil
  then show ?case by (auto simp: mask_run_def)
next
  case (Cons x ops)
  obtain r1 st1 out1 where step: "mask_step x (r, st, out) = (r1, st1, out1)" by (cases "mask_step x (r, st, out)")
  obtain M1 where r1: "registry_ok r1" and ok1: "stream_ok r1 st1 (T @ written [x]) out1 M1"
    and pr1: "\<And>p s V. promised r T out M p s \<Longrightarrow> occurs p s (T @ written [x] @ V) \<Longrightarrow> promised r1 (T @ written [x]) out1 M1 p s"
    using mask_step_ok [OF Cons.prems(1,2) step] by blast
  have run: "mask_run ops (r1, st1, out1) = (r', st', out')" using Cons.prems(3) step by (simp add: mask_run_def)
  have w: "written (x # ops) = written [x] @ written ops" using written_append [of "[x]" ops] by simp
  obtain M2 where "registry_ok r'" "stream_ok r' st' ((T @ written [x]) @ written ops) out' M2"
    and pr2: "\<And>p s V. promised r1 (T @ written [x]) out1 M1 p s \<Longrightarrow> occurs p s ((T @ written [x]) @ written ops @ V) \<Longrightarrow>
      promised r' ((T @ written [x]) @ written ops) out' M2 p s"
    using Cons.IH [OF r1 ok1 run] by blast
  moreover have "promised r' (T @ written (x # ops)) out' M2 p s"
    if "promised r T out M p s" "occurs p s (T @ written (x # ops) @ V)" for p s V
    using pr2 [OF pr1 [OF that(1)], of "written ops @ V" V] that(2) by (simp add: w)
  ultimately show ?case by (intro conjI exI [of _ M2]) (auto simp: w)
qed

lemma flush_all:
  assumes r: "registry_ok r" and ok: "stream_ok r st T out M" and F: "Flush r st = (st', o')"
  shows "length (out @ o') = length T \<and>
    (\<forall>i<length T. (out @ o') ! i = T ! i \<or> (out @ o') ! i = replacementByte \<and> covered (pattern_set r) T i) \<and>
    (\<forall>p s. promised r T out M p s \<and> occurs p s T \<longrightarrow> (\<forall>i. s \<le> i \<and> i < s + length p \<longrightarrow> (out @ o') ! i = replacementByte))"
proof -
  obtain M' where M': "set M \<subseteq> set M'" and C: "current r (rescan r st) (T @ []) out M'"
    using rescan_current [OF r flush_appended [OF ok]] by blast
  let ?st = "rescan r st"
  have raw: "st_raw ?st = drop (length out) T" and out: "length out \<le> length T"
    using C stream_okD(1,2) [of r ?st T out M'] by (simp_all add: current_def)
  have emitted: "current r st' T (out @ o') M' \<and> length o' = length (st_raw ?st) \<and>
      (\<forall>i<length o'. 0 < cover_count M' (int (length out + i)) \<longrightarrow> o' ! i = replacementByte)"
  proof (cases "st_raw ?st = []")
    case True
    then have "st' = ?st" "o' = []" using F by (simp_all add: Flush_def Let_def emitPrefix_def)
    then show ?thesis using C True by simp
  next
    case False
    have "emitPrefix (int (length (st_raw ?st))) ?st = (st', o')" using F by (simp add: Flush_def Let_def)
    then show ?thesis using emit_current [of r ?st T out M' "length (st_raw ?st)"] C False by simp
  qed
  then have len: "length (out @ o') = length T" using raw out by simp
  have ok': "stream_ok r st' T (out @ o') M'" using emitted by (simp add: current_def)
  have "(out @ o') ! i = replacementByte" if "promised r T out M p s" "occurs p s T" "s \<le> i" "i < s + length p" for p s i
  proof -
    have "hidden T out M' p s"
      using promised_scanned [OF C that(1) M', of "[]"] that(2) by (auto simp: occurs_def)
    then have "hidden T (out @ o') M' p s" using emitted by (intro hidden_emit) auto
    then show ?thesis using that(2,3,4) len by (auto simp: hidden_def split: if_splits)
  qed
  then show ?thesis using len stream_okD(8) [OF ok'] by auto
qed

section \<open>The theorems\<close>

lemma run_from_start:
  assumes r: "registry_ok r" and run: "mask_run ops (r, NewRegistryStream, []) = (r', st', out')"
  obtains M where "registry_ok r'" and "stream_ok r' st' (written ops) out' M"
  using mask_run_ok [OF r stream_start [OF r] run] by auto

theorem stream_hides:
  assumes r: "registry_ok r" and run: "mask_run ops (r, NewRegistryStream, []) = (r1, st1, out1)"
    and p: "p \<in> pattern_set r1" "length out1 \<le> s" "occurs p s (written (ops @ ops'))" "s \<le> i" "i < s + length p"
  shows "finish (mask_run (ops @ ops') (r, NewRegistryStream, [])) ! i = replacementByte"
proof -
  obtain M1 where r1: "registry_ok r1" and ok1: "stream_ok r1 st1 (written ops) out1 M1" using run_from_start [OF r run] .
  obtain r2 st2 out2 where run': "mask_run ops' (r1, st1, out1) = (r2, st2, out2)" by (cases "mask_run ops' (r1, st1, out1)")
  have "p \<noteq> []" using p by auto
  then have "promised r1 (written ops) out1 M1 p s" using p by (simp add: promised_def)
  then obtain M2 where "registry_ok r2" "stream_ok r2 st2 (written (ops @ ops')) out2 M2" "promised r2 (written (ops @ ops')) out2 M2 p s"
    using mask_run_ok [OF r1 ok1 run'] p(3) by (metis append_Nil2 written_append)
  moreover obtain st3 o3 where F: "Flush r2 st2 = (st3, o3)" by fastforce
  ultimately have "(out2 @ o3) ! i = replacementByte" using flush_all [OF _ _ F] p(3-5) by blast
  moreover have "mask_run (ops @ ops') (r, NewRegistryStream, []) = (r2, st2, out2)" using run run' by (simp add: mask_run_def)
  ultimately show ?thesis using F by (simp add: finish_def)
qed

theorem stream_reveals_rest:
  assumes r: "registry_ok r" and run: "mask_run ops (r, NewRegistryStream, []) = (r1, st1, out1)"
  shows "length (finish (r1, st1, out1)) = length (written ops) \<and>
    (\<forall>i<length (written ops). finish (r1, st1, out1) ! i = written ops ! i \<or>
      finish (r1, st1, out1) ! i = replacementByte \<and> covered (pattern_set r1) (written ops) i)"
proof -
  obtain M1 where r1: "registry_ok r1" and ok1: "stream_ok r1 st1 (written ops) out1 M1" using run_from_start [OF r run] .
  obtain st3 o3 where F: "Flush r1 st1 = (st3, o3)" by fastforce
  show ?thesis using flush_all [OF r1 ok1 F] F by (simp add: finish_def)
qed

lemma writes_keep_registry: "fst (mask_run (map OpWrite cs) (r, st, out)) = r"
  unfolding mask_run_def by (induction cs arbitrary: st out) (auto split: prod.splits)

lemma written_writes [simp]: "written (map OpWrite cs) = concat cs"
  by (induction cs) simp_all

theorem stream_mask:
  assumes r: "registry_ok r"
  shows "finish (mask_run (map OpWrite cs) (r, NewRegistryStream, [])) = mask (pattern_set r) (concat cs)"
proof -
  let ?ops = "map OpWrite cs" and ?T = "concat cs"
  obtain st1 out1 where run: "mask_run ?ops (r, NewRegistryStream, []) = (r, st1, out1)"
    using writes_keep_registry [of cs r NewRegistryStream "[]"] by (metis prod.collapse)
  let ?out = "finish (r, st1, out1)"
  have rest: "length ?out = length ?T"
    "\<And>i. i < length ?T \<Longrightarrow> ?out ! i = ?T ! i \<or> ?out ! i = replacementByte \<and> covered (pattern_set r) ?T i"
    using stream_reveals_rest [OF r run] by simp_all
  have "?out ! i = replacementByte" if "covered (pattern_set r) ?T i" for i
  proof -
    obtain p s where p: "p \<in> pattern_set r" "s \<le> i" "i < s + length p" "occurs p s ?T" using \<open>covered _ _ _\<close> by (auto simp: covered_def)
    show ?thesis using stream_hides [OF r, of "[]" r NewRegistryStream "[]" p s ?ops i] p run by (simp add: mask_run_def)
  qed
  then show ?thesis unfolding run using rest by (intro nth_equalityI) (auto simp: mask_def)
qed

end
