(* ===== verification/MaskScenario.thy ===== *)
theory MaskScenario
  imports MaskStream Crypto
begin

text \<open>
  A job whose registry starts empty, and which registers a secret after it has written its first byte. The theorems on
  masking are applied to it.
\<close>

definition demo_secret :: string where "demo_secret = ''xyz''"

definition demo_registry :: registry where
  "demo_registry = rebuildMatcherLocked (addTrusted demo_secret (NewRegistry []))"

lemma demo_secret_values: "requiredSecretValues demo_secret = Inr [demo_secret]"
proof -
  have "unmarshal_any ''xyz'' = None"
    by (simp add: unmarshal_any_def json_parse_def numeral_2_eq_2) code_simp
  then show ?thesis by (simp add: demo_secret_def requiredSecretValues_def MaxDynamicPatternBytes_def)
qed

lemma demo_secret_plain: "escaped demo_secret = demo_secret"
  unfolding escaped_def demo_secret_def by (rule quote_plain) code_simp

lemma demo_registered: "RegisterSecret demo_secret (NewRegistry []) = Inr demo_registry"
proof -
  have "rg_patterns (NewRegistry []) = []" "rg_totalBytes (NewRegistry []) = 0" by code_simp+
  moreover have "Normalize [demo_secret] = [demo_secret]" "length demo_secret = 3" "demo_secret \<noteq> []"
    by (simp_all add: Normalize_def demo_secret_plain) (simp_all add: demo_secret_def)
  ultimately show ?thesis
    using demo_secret_values
    by (simp add: RegisterSecret_def new_patterns_def Let_def demo_registry_def MaxDynamicPatternBytes_def MaxSecretPayloadBytes_def
        MaxDynamicPatterns_def MaxDynamicTotalPatternBytes_def)
qed

definition demo_written :: masking where
  "demo_written = mask_run [OpWrite ''a''] (NewRegistry [], NewRegistryStream, [])"

lemma demo_written_parts: "fst demo_written = NewRegistry []" "length (snd (snd demo_written)) = 1"
proof -
  show "fst demo_written = NewRegistry []"
    using writes_keep_registry [of "[''a'']" "NewRegistry []"] by (simp add: demo_written_def)
  show "length (snd (snd demo_written)) = 1" unfolding demo_written_def by code_simp
qed

end
