(* ===== verification/Pressure.thy ===== *)
theory Pressure
  imports Workers
begin

text \<open>
  The pressure controller of a worker (\<^verbatim>\<open>internal/workerpressure/controller.go\<close>): it stops claiming when a resource
  reaches the high watermark and claims again only when every resource it can compare is below the low one. The sampler
  is an argument: \<open>None\<close> is a failed sample. Ratios and watermarks are rational numbers, so the model has no NaN; a
  copied measurement map is the map itself, and the mutex is the atomicity of an observation.

  The reports of the controller are what a worker sends with its heartbeats; the store normalises them
  (\<open>NormalizeWorkerResourcePressure\<close>).
\<close>

declare map_of_eq_Some_iff [simp del] Some_eq_map_of_iff [simp del]

section \<open>The controller\<close>

definition DefaultHighWatermark :: rat where "DefaultHighWatermark = 9 / 10"
definition DefaultLowWatermark :: rat where "DefaultLowWatermark = 8 / 10"
definition DefaultSampleInterval :: duration where "DefaultSampleInterval = 5 * nanos_per_second"

record pressure_sample =
  ps_Scope :: string
  ps_Measurements :: "(string, worker_resource_measurement) gomap"

record pressure_config =
  pc_HighWatermark :: rat
  pc_LowWatermark :: rat
  pc_SampleInterval :: duration

record pressure_controller =
  ct_config :: pressure_config
  ct_paused :: bool
  ct_reason :: string
  ct_last :: worker_resource_pressure
  ct_next :: time

definition with_defaults :: "pressure_config \<Rightarrow> pressure_config" where
  "with_defaults config =
     config\<lparr>pc_HighWatermark := (if pc_HighWatermark config = 0 then DefaultHighWatermark else pc_HighWatermark config),
            pc_LowWatermark := (if pc_LowWatermark config = 0 then DefaultLowWatermark else pc_LowWatermark config),
            pc_SampleInterval := (if pc_SampleInterval config \<le> 0 then DefaultSampleInterval else pc_SampleInterval config)\<rparr>"

definition New :: "pressure_config \<Rightarrow> pressure_controller res" where
  "New config0 =
     (let config = with_defaults config0
      in if pc_LowWatermark config \<le> 0 \<or> pc_HighWatermark config > 1 \<or> pc_LowWatermark config \<ge> pc_HighWatermark config
         then Inl (ErrOther ''worker pressure watermarks must satisfy 0 < low < high <= 1'')
         else Inr \<lparr>ct_config = config, ct_paused = False, ct_reason = [], ct_last = zero_worker_resource_pressure, ct_next = 0\<rparr>)"

definition pressureReason :: "string \<Rightarrow> string" where
  "pressureReason resource =
     (if resource = ''memory'' then ''memory_high'' else if resource = ''cpu'' then ''cpu_high'' else ''file_descriptors_high'')"

text \<open>The variables of the loop over the resources.\<close>

record pressure_scan =
  pz_supported :: bool
  pz_comparable :: nat
  pz_allLow :: bool
  pz_highReason :: string

definition scan_resource ::
  "pressure_config \<Rightarrow> (string, worker_resource_measurement) gomap \<Rightarrow> string \<Rightarrow> pressure_scan \<Rightarrow> pressure_scan" where
  "scan_resource config ms resource z =
     (case map_of ms resource of
        None \<Rightarrow> z
      | Some m \<Rightarrow>
          if \<not> wrm_Supported m then z
          else let z = z\<lparr>pz_supported := True\<rparr>
               in case wrm_Ratio m of
                    None \<Rightarrow> z
                  | Some ratio \<Rightarrow>
                      z\<lparr>pz_comparable := pz_comparable z + 1,
                        pz_allLow := (if ratio \<ge> pc_LowWatermark config then False else pz_allLow z),
                        pz_highReason := (if pz_highReason z = [] \<and> ratio \<ge> pc_HighWatermark config
                                          then pressureReason resource else pz_highReason z)\<rparr>)"

definition scan_resources :: "pressure_config \<Rightarrow> (string, worker_resource_measurement) gomap \<Rightarrow> pressure_scan" where
  "scan_resources config ms =
     fold (scan_resource config ms) [''memory'', ''cpu'', ''file_descriptors'']
       \<lparr>pz_supported = False, pz_comparable = 0, pz_allLow = True, pz_highReason = []\<rparr>"

definition transit :: "pressure_scan \<Rightarrow> pressure_controller \<Rightarrow> pressure_controller" where
  "transit z c =
     (if pz_highReason z \<noteq> [] then c\<lparr>ct_paused := True, ct_reason := pz_highReason z\<rparr>
      else if ct_paused c \<and> pz_comparable z > 0 \<and> pz_allLow z then c\<lparr>ct_paused := False, ct_reason := []\<rparr>
      else if ct_paused c \<and> pz_comparable z = 0 then c\<lparr>ct_reason := ''observation_unknown''\<rparr>
      else if \<not> ct_paused c \<and> pz_comparable z = 0 then c\<lparr>ct_reason := ''observation_unknown''\<rparr>
      else c)"

definition Observe :: "time \<Rightarrow> pressure_sample option \<Rightarrow> pressure_controller \<Rightarrow> pressure_controller \<times> worker_resource_pressure" where
  "Observe now sample c =
     (if wrp_ObservedAt (ct_last c) \<noteq> 0 \<and> now < ct_next c then (c, ct_last c)
      else let scope = (case sample of Some s \<Rightarrow> ps_Scope s | None \<Rightarrow> ''unknown'');
               ms = (case sample of Some s \<Rightarrow> ps_Measurements s | None \<Rightarrow> []);
               z = scan_resources (ct_config c) ms;
               c1 = transit z c;
               observation = \<lparr>wrp_Supported = pz_supported z, wrp_AcceptingClaims = \<not> ct_paused c1, wrp_ReasonCode = ct_reason c1,
                 wrp_Scope = (if scope = [] then ''unknown'' else scope), wrp_ObservedAt = now,
                 wrp_FreshUntil = now + WorkerPressureFreshTTL, wrp_Measurements = ms\<rparr>
           in (c1\<lparr>ct_last := observation, ct_next := now + pc_SampleInterval (ct_config c)\<rparr>, observation))"

section \<open>Hysteresis\<close>

text \<open>The ratios a sample allows to compare.\<close>

definition ratios :: "(string, worker_resource_measurement) gomap \<Rightarrow> rat set" where
  "ratios ms = {r. \<exists>resource \<in> {''memory'', ''cpu'', ''file_descriptors''}. \<exists>m. map_of ms resource = Some m \<and> wrm_Supported m \<and> wrm_Ratio m = Some r}"

definition scanned :: "pressure_config \<Rightarrow> rat set \<Rightarrow> pressure_scan \<Rightarrow> bool" where
  "scanned config R z \<longleftrightarrow> (pz_comparable z = 0 \<longleftrightarrow> R = {}) \<and> (pz_allLow z \<longleftrightarrow> (\<forall>r \<in> R. r < pc_LowWatermark config)) \<and>
     (pz_highReason z \<noteq> [] \<longleftrightarrow> (\<exists>r \<in> R. r \<ge> pc_HighWatermark config)) \<and>
     (pz_highReason z = [] \<or> pz_highReason z \<in> {''memory_high'', ''cpu_high'', ''file_descriptors_high''})"

lemma scan_resource_scanned:
  assumes "scanned config R z"
  shows "scanned config (R \<union> {r. \<exists>m. map_of ms resource = Some m \<and> wrm_Supported m \<and> wrm_Ratio m = Some r}) (scan_resource config ms resource z)"
proof (cases "\<exists>m r. map_of ms resource = Some m \<and> wrm_Supported m \<and> wrm_Ratio m = Some r")
  case True
  then obtain m r where m: "map_of ms resource = Some m" "wrm_Supported m" "wrm_Ratio m = Some r" by blast
  then have "{r. \<exists>m. map_of ms resource = Some m \<and> wrm_Supported m \<and> wrm_Ratio m = Some r} = {r}" by auto
  then show ?thesis
    using assms m by (auto simp: scanned_def scan_resource_def pressureReason_def Let_def not_le)
next
  case False
  then have none: "{r. \<exists>m. map_of ms resource = Some m \<and> wrm_Supported m \<and> wrm_Ratio m = Some r} = {}" by auto
  show ?thesis
    unfolding none using assms False by (auto simp: scanned_def scan_resource_def Let_def split: option.splits)
qed

lemma scan_resources_scanned: "scanned config (ratios ms) (scan_resources config ms)"
proof -
  let ?R = "\<lambda>resource. {r. \<exists>m. map_of ms resource = Some m \<and> wrm_Supported m \<and> wrm_Ratio m = Some r}"
  have "scanned config {} \<lparr>pz_supported = False, pz_comparable = 0, pz_allLow = True, pz_highReason = []\<rparr>"
    by (simp add: scanned_def)
  then have "scanned config ((({} \<union> ?R ''memory'') \<union> ?R ''cpu'') \<union> ?R ''file_descriptors'') (scan_resources config ms)"
    unfolding scan_resources_def by (simp only: fold.simps comp_apply id_apply) (intro scan_resource_scanned)
  moreover have "(({} \<union> ?R ''memory'') \<union> ?R ''cpu'') \<union> ?R ''file_descriptors'' = ratios ms"
    unfolding ratios_def by blast
  ultimately show ?thesis by simp
qed

section \<open>Reachable controllers\<close>

text \<open>
  What the Linux sampler delivers: a known scope and measurements of the three resources with ratios between zero and one.
\<close>

definition sample_ok :: "pressure_sample option \<Rightarrow> bool" where
  "sample_ok sample = (case sample of
     None \<Rightarrow> True
   | Some s \<Rightarrow> ps_Scope s \<in> {[], ''cgroup_v2'', ''process_tree_host'', ''unknown''} \<and> go_map_ok (ps_Measurements s) \<and>
       (\<forall>(k, m) \<in> set (ps_Measurements s). validWorkerPressureResource k \<and> ratio_ok m))"

inductive observes :: "pressure_controller \<Rightarrow> pressure_controller \<Rightarrow> bool" where
  "sample_ok sample \<Longrightarrow> Observe now sample c = (c', report) \<Longrightarrow> observes c c'"

inductive_cases observesE: "observes c c'"

definition report_ok :: "worker_resource_pressure \<Rightarrow> bool" where
  "report_ok p \<longleftrightarrow> validWorkerPressureReason (wrp_ReasonCode p) (wrp_AcceptingClaims p) \<and>
     wrp_Scope p \<in> {''cgroup_v2'', ''process_tree_host'', ''unknown''} \<and>
     (\<forall>(k, m) \<in> set (wrp_Measurements p). validWorkerPressureResource k \<and> ratio_ok m)"

definition controller_ok :: "pressure_controller \<Rightarrow> bool" where
  "controller_ok c \<longleftrightarrow> validWorkerPressureReason (ct_reason c) (\<not> ct_paused c) \<and>
     (wrp_ObservedAt (ct_last c) \<noteq> 0 \<longrightarrow> report_ok (ct_last c) \<and> wrp_AcceptingClaims (ct_last c) = (\<not> ct_paused c))"

lemma transit_valid:
  assumes "scanned config R z" and "validWorkerPressureReason (ct_reason c) (\<not> ct_paused c)"
  shows "validWorkerPressureReason (ct_reason (transit z c)) (\<not> ct_paused (transit z c))"
  using assms by (auto simp: transit_def scanned_def validWorkerPressureReason_def)

lemma transit_paused:
  assumes "scanned config R z"
  shows "ct_paused (transit z c) \<longleftrightarrow>
    (\<exists>r \<in> R. r \<ge> pc_HighWatermark config) \<or> (ct_paused c \<and> (R = {} \<or> (\<exists>r \<in> R. r \<ge> pc_LowWatermark config)))"
  using assms by (auto simp: transit_def scanned_def not_less)

lemma Observe_ok:
  assumes "controller_ok c" and "sample_ok sample" and "Observe now sample c = (c', p)"
  shows "controller_ok c' \<and> report_ok p \<and> wrp_AcceptingClaims p = (\<not> ct_paused c')"
proof (cases "wrp_ObservedAt (ct_last c) \<noteq> 0 \<and> now < ct_next c")
  case True
  then show ?thesis using assms by (auto simp: Observe_def controller_ok_def)
next
  case False
  let ?ms = "case sample of Some s \<Rightarrow> ps_Measurements s | None \<Rightarrow> []"
  let ?z = "scan_resources (ct_config c) ?ms"
  have v: "validWorkerPressureReason (ct_reason (transit ?z c)) (\<not> ct_paused (transit ?z c))"
    using transit_valid [OF scan_resources_scanned] assms(1) by (simp add: controller_ok_def)
  have p: "p = snd (Observe now sample c)" "c' = fst (Observe now sample c)" using assms(3) by simp_all
  have "report_ok p \<and> wrp_AcceptingClaims p = (\<not> ct_paused c') \<and> ct_last c' = p \<and>
      ct_reason c' = ct_reason (transit ?z c) \<and> ct_paused c' = ct_paused (transit ?z c)"
    unfolding p using False assms(2) v
    by (auto simp: Observe_def Let_def report_ok_def sample_ok_def split: option.splits)
  then show ?thesis using v by (simp add: controller_ok_def)
qed

interpretation pressure: inductive_invariant "\<lambda>c. \<exists>config. New config = Inr c" observes controller_ok
proof
  show "controller_ok c" if "\<exists>config. New config = Inr c" for c
    using that by (auto simp: New_def Let_def controller_ok_def validWorkerPressureReason_def zero_worker_resource_pressure_def split: if_splits)
  show "controller_ok c'" if "controller_ok c" "observes c c'" for c c'
    using that Observe_ok by (auto elim!: observesE)
qed

lemma check_measurements_ok: "(\<forall>(k, m) \<in> set ms. validWorkerPressureResource k \<and> ratio_ok m) \<Longrightarrow> check_measurements ms = Inr ()"
  by (induction ms rule: check_measurements.induct) auto

lemma report_accepted:
  assumes "report_ok p"
  shows "\<exists>q. NormalizeWorkerResourcePressure (Some p) now = Inr (Some q) \<and> wrp_AcceptingClaims q = wrp_AcceptingClaims p"
proof -
  have trims: "trim (wrp_Scope p) = wrp_Scope p" "trim (wrp_ReasonCode p) = wrp_ReasonCode p"
    using assms
    by (auto simp: report_ok_def validWorkerPressureReason_def byte_def clean_rune_def intro!: trim_clean split: if_splits)
  have "check_measurements (sort_by (\<lambda>a b. fst a < fst b) (wrp_Measurements p)) = Inr ()"
    using assms by (intro check_measurements_ok) (simp add: report_ok_def)
  then show ?thesis
    using assms by (auto simp: NormalizeWorkerResourcePressure_def Let_def trims report_ok_def)
qed

lemma Observe_paused:
  assumes "wrp_ObservedAt (ct_last c) = 0 \<or> ct_next c \<le> now"
  shows "ct_paused (fst (Observe now (Some s) c)) \<longleftrightarrow>
      (\<exists>r \<in> ratios (ps_Measurements s). r \<ge> pc_HighWatermark (ct_config c)) \<or>
      (ct_paused c \<and> (ratios (ps_Measurements s) = {} \<or> (\<exists>r \<in> ratios (ps_Measurements s). r \<ge> pc_LowWatermark (ct_config c))))"
    and "ct_paused (fst (Observe now None c)) \<longleftrightarrow> ct_paused c"
proof -
  have "ratios [] = {}" by (simp add: ratios_def)
  then show "ct_paused (fst (Observe now (Some s) c)) \<longleftrightarrow>
      (\<exists>r \<in> ratios (ps_Measurements s). r \<ge> pc_HighWatermark (ct_config c)) \<or>
      (ct_paused c \<and> (ratios (ps_Measurements s) = {} \<or> (\<exists>r \<in> ratios (ps_Measurements s). r \<ge> pc_LowWatermark (ct_config c))))"
    and "ct_paused (fst (Observe now None c)) \<longleftrightarrow> ct_paused c"
    using assms transit_paused [OF scan_resources_scanned] by (auto simp: Observe_def Let_def)
qed

end
