(* ===== verification/Demand.thy ===== *)
theory Demand
  imports JobStore
begin

text \<open>
  The demand view for worker scaling (\<^verbatim>\<open>internal/state/queue_demand.go\<close>, \<^verbatim>\<open>internal/state/local_queue_demand.go\<close>, and the
  demand functions of \<^verbatim>\<open>internal/state/execution_rate.go\<close>): for a worker selector, how many jobs could be claimed now, how
  many are leased and by how many workers. Claims are simulated in claim order against copies of the counters of the
  execution limits. Counters are Go maps from keys to integers; an absent key counts as zero.
\<close>

declare map_of_eq_Some_iff [simp del] Some_eq_map_of_iff [simp del]

section \<open>Counters\<close>

type_synonym counts = "(string, int) gomap"

definition count_of :: "counts \<Rightarrow> string \<Rightarrow> int" where
  "count_of m k = (case map_of m k of Some n \<Rightarrow> n | None \<Rightarrow> 0)"

definition incr :: "string \<Rightarrow> counts \<Rightarrow> counts" where
  "incr k m = put k (count_of m k + 1) m"

lemma count_of_incr [simp]: "count_of (incr k m) k' = count_of m k' + (if k' = k then 1 else 0)"
  by (simp add: count_of_def incr_def)

section \<open>Selectors and jobs\<close>

record queue_demand_selector =
  qs_Key :: string
  qs_WorkspaceID :: string
  qs_Tags :: "string list"
  qs_Labels :: "string list"

record queue_demand =
  qd_Selector :: queue_demand_selector
  qd_Eligible :: int
  qd_Queued :: int
  qd_ExpiredReacquirable :: int
  qd_Claimed :: int
  qd_BusyWorkers :: int
  qd_OldestEligibleAt :: "time option"

record queue_demand_snapshot =
  qds_StoreEpoch :: string
  qds_SnapshotRevision :: int
  qds_ObservedAt :: time
  qds_Items :: "queue_demand list"

definition normalizedDemandValues :: "string list \<Rightarrow> string list" where
  "normalizedDemandValues values = sort (normalizeClaimTags values)"

definition normalizeQueueDemandSelector :: "queue_demand_selector \<Rightarrow> queue_demand_selector" where
  "normalizeQueueDemandSelector selector =
     \<lparr>qs_Key = trim (qs_Key selector), qs_WorkspaceID = NormalizeWorkspace (qs_WorkspaceID selector),
      qs_Tags = normalizedDemandValues (qs_Tags selector), qs_Labels = normalizedDemandValues (qs_Labels selector)\<rparr>"

definition activeQueueLease :: "job \<Rightarrow> time \<Rightarrow> bool" where
  "activeQueueLease j observedAt \<longleftrightarrow> job_State j = JobRunning \<and>
     (case job_LeaseExpiresAt j of None \<Rightarrow> True | Some t \<Rightarrow> t > observedAt)"

definition queueDemandCandidate :: "job \<Rightarrow> time \<Rightarrow> bool" where
  "queueDemandCandidate j observedAt =
     (if job_CanceledBy j \<noteq> None then False
      else if job_State j = JobQueued then True
      else job_State j = JobRunning \<and> (case job_LeaseExpiresAt j of None \<Rightarrow> False | Some t \<Rightarrow> t \<le> observedAt))"

definition demandAppKey :: "job \<Rightarrow> string" where
  "demandAppKey j = (if jobAppKey j = [] then [] else normalizedJobWorkspace [] j @ [nul] @ jobAppKey j)"

definition keyedConcurrencyCountKey :: "job \<Rightarrow> keyed_concurrency_pin \<Rightarrow> string" where
  "keyedConcurrencyCountKey j pin =
     normalizedJobWorkspace [] j @ [nul] @ kcp_Scope pin @ [nul] @ kcp_PolicyID pin @ [nul] @ kcp_ShapeFingerprint pin @ [nul] @ kcp_KeyDigest pin"

definition activeRunningByApp :: "job list \<Rightarrow> time \<Rightarrow> counts" where
  "activeRunningByApp jobs observedAt =
     fold (\<lambda>j m. if \<not> activeQueueLease j observedAt then m else if demandAppKey j \<noteq> [] then incr (demandAppKey j) m else m) jobs []"

definition activeRunningByKeyedConcurrency :: "job list \<Rightarrow> time \<Rightarrow> counts" where
  "activeRunningByKeyedConcurrency jobs observedAt =
     fold (\<lambda>j m. if \<not> activeQueueLease j observedAt then m
                  else fold (\<lambda>pin m. if validKeyedConcurrencyPin pin then incr (keyedConcurrencyCountKey j pin) m else m)
                         (elp_Concurrency (pl_ExecutionLimits (job_Payload j))) m) jobs []"

definition currentRateUsage :: "(string, execution_rate_bucket) gomap \<Rightarrow> time \<Rightarrow> counts" where
  "currentRateUsage buckets observedAt =
     fold (\<lambda>(key, b) usage.
        if erb_WindowStart b = 0 \<or> erb_WindowEnd b = 0 \<or> erb_WindowStart b > observedAt \<or> erb_WindowEnd b \<le> observedAt \<or> erb_Consumed b \<le> 0
        then usage else put key (erb_Consumed b) usage) buckets []"

definition demandKeyedConcurrencyReached :: "job \<Rightarrow> counts \<Rightarrow> policy_lookup \<Rightarrow> bool" where
  "demandKeyedConcurrencyReached candidate running policies =
     list_ex (\<lambda>pin. \<not> validKeyedConcurrencyPin pin \<or>
       (case effectiveKeyedConcurrencyLimit candidate pin policies of
          None \<Rightarrow> True | Some effectiveLimit \<Rightarrow> count_of running (keyedConcurrencyCountKey candidate pin) \<ge> effectiveLimit))
       (elp_Concurrency (pl_ExecutionLimits (job_Payload candidate)))"

definition demandRateLimitsReached :: "job \<Rightarrow> counts \<Rightarrow> policy_lookup \<Rightarrow> bool" where
  "demandRateLimitsReached candidate usage policies =
     list_ex (\<lambda>pin. \<not> validKeyedRatePin pin \<or>
       (case effectiveKeyedRateLimit candidate pin policies of
          None \<Rightarrow> True | Some effectiveLimit \<Rightarrow> count_of usage (rateBucketKey (normalizedJobWorkspace [] candidate) pin) \<ge> effectiveLimit))
       (elp_Rate (pl_ExecutionLimits (job_Payload candidate)))"

definition addDemandRateConsumption :: "job \<Rightarrow> counts \<Rightarrow> counts" where
  "addDemandRateConsumption candidate usage =
     fold (\<lambda>pin. incr (rateBucketKey (normalizedJobWorkspace [] candidate) pin)) (elp_Rate (pl_ExecutionLimits (job_Payload candidate))) usage"

section \<open>The simulation of claims\<close>

record demand_counts =
  dc_running :: counts
  dc_keyedRunning :: counts
  dc_rateUsage :: counts

definition demand_refused :: "policy_lookup \<Rightarrow> job \<Rightarrow> demand_counts \<Rightarrow> bool" where
  "demand_refused policies candidate c \<longleftrightarrow>
     (case effectiveAppConcurrencyLimit candidate policies of
        Invalid \<Rightarrow> True
      | Unlimited \<Rightarrow> False
      | AtMost appLimit \<Rightarrow> demandAppKey candidate \<noteq> [] \<and> count_of (dc_running c) (demandAppKey candidate) \<ge> appLimit) \<or>
     demandKeyedConcurrencyReached candidate (dc_keyedRunning c) policies \<or>
     demandRateLimitsReached candidate (dc_rateUsage c) policies"

definition demand_consume :: "job \<Rightarrow> demand_counts \<Rightarrow> demand_counts" where
  "demand_consume candidate c =
     \<lparr>dc_running = (if demandAppKey candidate \<noteq> [] then incr (demandAppKey candidate) (dc_running c) else dc_running c),
      dc_keyedRunning = fold (\<lambda>pin. incr (keyedConcurrencyCountKey candidate pin))
        (elp_Concurrency (pl_ExecutionLimits (job_Payload candidate))) (dc_keyedRunning c),
      dc_rateUsage = addDemandRateConsumption candidate (dc_rateUsage c)\<rparr>"

definition demand_count :: "job \<Rightarrow> queue_demand \<Rightarrow> queue_demand" where
  "demand_count candidate item =
     item\<lparr>qd_Eligible := qd_Eligible item + 1,
          qd_Queued := (if job_State candidate = JobQueued then qd_Queued item + 1 else qd_Queued item),
          qd_ExpiredReacquirable := (if job_State candidate = JobQueued then qd_ExpiredReacquirable item else qd_ExpiredReacquirable item + 1),
          qd_OldestEligibleAt := (case qd_OldestEligibleAt item of
             None \<Rightarrow> Some (job_CreatedAt candidate)
           | Some t \<Rightarrow> if job_CreatedAt candidate < t then Some (job_CreatedAt candidate) else Some t)\<rparr>"

definition demand_step :: "policy_lookup \<Rightarrow> job \<Rightarrow> queue_demand \<times> demand_counts \<Rightarrow> queue_demand \<times> demand_counts" where
  "demand_step policies candidate x =
     (case x of (item, c) \<Rightarrow>
        if demand_refused policies candidate c then (item, c) else (demand_count candidate item, demand_consume candidate c))"

definition in_scope :: "queue_demand_selector \<Rightarrow> job \<Rightarrow> bool" where
  "in_scope selector j \<longleftrightarrow> normalizedJobWorkspace [] j = qs_WorkspaceID selector \<and>
     claimAllowed j (normalizeClaimTags (qs_Tags selector)) (normalizeClaimTags (qs_Labels selector))"

definition base_counts :: "job list \<Rightarrow> (string, execution_rate_bucket) gomap \<Rightarrow> time \<Rightarrow> demand_counts" where
  "base_counts jobs buckets observedAt =
     \<lparr>dc_running = activeRunningByApp jobs observedAt, dc_keyedRunning = activeRunningByKeyedConcurrency jobs observedAt,
      dc_rateUsage = currentRateUsage buckets observedAt\<rparr>"

definition demand_candidates :: "job list \<Rightarrow> queue_demand_selector \<Rightarrow> time \<Rightarrow> job list" where
  "demand_candidates jobs selector observedAt =
     sort_by job_less (filter (\<lambda>j. in_scope selector j \<and> \<not> activeQueueLease j observedAt \<and> queueDemandCandidate j observedAt) jobs)"

definition demand_item :: "job list \<Rightarrow> demand_counts \<Rightarrow> policy_lookup \<Rightarrow> time \<Rightarrow> queue_demand_selector \<Rightarrow> queue_demand" where
  "demand_item jobs base policies observedAt rawSelector =
     (let selector = normalizeQueueDemandSelector rawSelector;
          leased = filter (\<lambda>j. in_scope selector j \<and> activeQueueLease j observedAt) jobs;
          item = \<lparr>qd_Selector = selector, qd_Eligible = 0, qd_Queued = 0, qd_ExpiredReacquirable = 0,
                  qd_Claimed = int (length leased), qd_BusyWorkers = 0, qd_OldestEligibleAt = None\<rparr>;
          counted = fst (fold (demand_step policies) (demand_candidates jobs selector observedAt) (item, base))
      in counted\<lparr>qd_BusyWorkers := int (card (set (map job_LeaseOwner leased) - {[]}))\<rparr>)"

definition buildQueueDemandSnapshotWithPolicies ::
  "string \<Rightarrow> int \<Rightarrow> time \<Rightarrow> job list \<Rightarrow> queue_demand_selector list \<Rightarrow> (string, execution_rate_bucket) gomap \<Rightarrow> policy_lookup \<Rightarrow> queue_demand_snapshot" where
  "buildQueueDemandSnapshotWithPolicies storeEpoch revision observedAt jobs selectors rateBuckets policies =
     \<lparr>qds_StoreEpoch = storeEpoch, qds_SnapshotRevision = revision, qds_ObservedAt = observedAt,
      qds_Items = map (demand_item jobs (base_counts jobs rateBuckets observedAt) policies observedAt) selectors\<rparr>"

text \<open>The local store; a file that was never written is written first, so that the epoch is durable.\<close>

definition QueueDemandSnapshot :: "time \<Rightarrow> queue_demand_selector list \<Rightarrow> snapshot \<Rightarrow> snapshot \<times> queue_demand_snapshot" where
  "QueueDemandSnapshot now selectors s =
     (let loaded = ensureSnapshot s;
          stored = (if SnapshotRevision loaded = 0 then write_file loaded else s);
          view = (if SnapshotRevision loaded = 0 then ensureSnapshot (write_file loaded) else loaded)
      in (stored, buildQueueDemandSnapshotWithPolicies (StoreEpoch view) (SnapshotRevision view) now (map snd (Jobs view)) selectors
            (ExecutionRateBuckets view) (ExecutionLimitPolicies view)))"

section \<open>What the numbers mean\<close>

definition demand_fine :: "queue_demand \<Rightarrow> bool" where
  "demand_fine item \<longleftrightarrow> qd_Eligible item = qd_Queued item + qd_ExpiredReacquirable item \<and> 0 \<le> qd_Queued item \<and>
     0 \<le> qd_ExpiredReacquirable item \<and> (qd_OldestEligibleAt item = None \<longleftrightarrow> qd_Eligible item = 0)"

lemma demand_step_fine:
  assumes "demand_fine item" and "demand_step policies j (item, c) = (item', c')"
  shows "demand_fine item' \<and> qd_Eligible item \<le> qd_Eligible item' \<and> qd_Claimed item' = qd_Claimed item"
  using assms by (auto simp: demand_step_def demand_count_def demand_fine_def split: if_splits option.splits)

lemma demand_fold_fine:
  assumes "demand_fine item" and "fold (demand_step policies) js (item, c) = (item', c')"
  shows "demand_fine item' \<and> qd_Eligible item \<le> qd_Eligible item' \<and> qd_Claimed item' = qd_Claimed item"
  using assms
proof (induction js arbitrary: item c)
  case (Cons j js)
  obtain item1 c1 where s: "demand_step policies j (item, c) = (item1, c1)" by fastforce
  note f = demand_step_fine [OF Cons.prems(1) s]
  show ?case using Cons.IH [of item1 c1] f Cons.prems(2) s by fastforce
qed simp

lemma demand_fold_none:
  assumes "fold (demand_step policies) js (item, c) = (item', c')" and "demand_fine item"
  shows "qd_Eligible item < qd_Eligible item' \<longleftrightarrow> (\<exists>j \<in> set js. \<not> demand_refused policies j c)"
  using assms
proof (induction js arbitrary: item c)
  case (Cons j js)
  show ?case
  proof (cases "demand_refused policies j c")
    case True
    then show ?thesis using Cons.IH [of item c] Cons.prems by (simp add: demand_step_def)
  next
    case False
    let ?item = "demand_count j item"
    have step: "demand_step policies j (item, c) = (?item, demand_consume j c)" using False by (simp add: demand_step_def)
    then have "demand_fine ?item" using demand_step_fine [OF Cons.prems(2) step] by blast
    moreover have "fold (demand_step policies) js (?item, demand_consume j c) = (item', c')" using Cons.prems(1) step by simp
    ultimately have "qd_Eligible ?item \<le> qd_Eligible item'" using demand_fold_fine by blast
    then show ?thesis using False by (auto simp: demand_count_def)
  qed
qed simp

text \<open>If all candidates belong to one app with the limit \<open>n\<close>, the simulation stops at the limit.\<close>

lemma demand_fold_limit:
  assumes "fold (demand_step policies) js (item, c) = (item', c')"
    and "\<And>j. j \<in> set js \<Longrightarrow> demandAppKey j = app \<and> effectiveAppConcurrencyLimit j policies = AtMost n" and "app \<noteq> []"
    and "count_of (dc_running c) app + k = qd_Eligible item" and "qd_Eligible item \<le> n + k"
  shows "qd_Eligible item' \<le> n + k"
  using assms
proof (induction js arbitrary: item c)
  case (Cons j js)
  show ?case
  proof (cases "demand_refused policies j c")
    case True
    then have "demand_step policies j (item, c) = (item, c)" by (simp add: demand_step_def)
    then show ?thesis using Cons.prems by (intro Cons.IH [of item c]) simp_all
  next
    case False
    then have step: "demand_step policies j (item, c) = (demand_count j item, demand_consume j c)" by (simp add: demand_step_def)
    have j: "demandAppKey j = app" "effectiveAppConcurrencyLimit j policies = AtMost n" using Cons.prems(2) by simp_all
    then have "count_of (dc_running c) app < n" using False Cons.prems(3) by (simp add: demand_refused_def)
    moreover have "fold (demand_step policies) js (demand_count j item, demand_consume j c) = (item', c')"
      using Cons.prems(1) step by simp
    ultimately show ?thesis
      using Cons.prems j by (intro Cons.IH [of "demand_count j item" "demand_consume j c"]) (auto simp: demand_count_def demand_consume_def)
  qed
qed simp

lemma in_demand_candidates:
  "j \<in> set (demand_candidates jobs sel t) \<longleftrightarrow> j \<in> set jobs \<and> in_scope sel j \<and> \<not> activeQueueLease j t \<and> queueDemandCandidate j t"
  by (auto simp: demand_candidates_def)

lemma demand_item_cases:
  obtains item c counted where "demand_item jobs base policies t raw = counted\<lparr>qd_BusyWorkers := int (card (set (map job_LeaseOwner
        (filter (\<lambda>j. in_scope (normalizeQueueDemandSelector raw) j \<and> activeQueueLease j t) jobs)) - {[]}))\<rparr>"
    and "fold (demand_step policies) (demand_candidates jobs (normalizeQueueDemandSelector raw) t) (item, base) = (counted, c)"
    and "demand_fine item" and "qd_Eligible item = 0"
    and "qd_Claimed item = int (length (filter (\<lambda>j. in_scope (normalizeQueueDemandSelector raw) j \<and> activeQueueLease j t) jobs))"
proof -
  let ?sel = "normalizeQueueDemandSelector raw"
  let ?item = "\<lparr>qd_Selector = ?sel, qd_Eligible = 0, qd_Queued = 0, qd_ExpiredReacquirable = 0,
    qd_Claimed = int (length (filter (\<lambda>j. in_scope ?sel j \<and> activeQueueLease j t) jobs)), qd_BusyWorkers = 0, qd_OldestEligibleAt = None\<rparr>"
  obtain counted c where f: "fold (demand_step policies) (demand_candidates jobs ?sel t) (?item, base) = (counted, c)" by fastforce
  show ?thesis
    by (rule that [OF _ f]) (simp_all add: demand_item_def Let_def f demand_fine_def)
qed

lemma demand_item_fine:
  "demand_fine (demand_item jobs base policies t raw)"
  "0 \<le> qd_BusyWorkers (demand_item jobs base policies t raw)"
  "qd_BusyWorkers (demand_item jobs base policies t raw) \<le> qd_Claimed (demand_item jobs base policies t raw)"
  "0 < qd_Eligible (demand_item jobs base policies t raw) \<longleftrightarrow>
     (\<exists>j \<in> set (demand_candidates jobs (normalizeQueueDemandSelector raw) t). \<not> demand_refused policies j base)"
proof -
  let ?sel = "normalizeQueueDemandSelector raw"
  let ?leased = "filter (\<lambda>j. in_scope ?sel j \<and> activeQueueLease j t) jobs"
  obtain item c counted where d: "demand_item jobs base policies t raw = counted\<lparr>qd_BusyWorkers := int (card (set (map job_LeaseOwner ?leased) - {[]}))\<rparr>"
      "fold (demand_step policies) (demand_candidates jobs ?sel t) (item, base) = (counted, c)"
      "demand_fine item" "qd_Eligible item = 0" "qd_Claimed item = int (length ?leased)"
    using demand_item_cases [where thesis = thesis and jobs = jobs and base = base and policies = policies and t = t and raw = raw] by blast
  note f = demand_fold_fine [OF d(3,2)] and n = demand_fold_none [OF d(2,3)]
  have "card (set (map job_LeaseOwner ?leased) - {[]}) \<le> card (set (map job_LeaseOwner ?leased))" by (intro card_mono) auto
  also have "\<dots> \<le> length ?leased" using card_length [of "map job_LeaseOwner ?leased"] by simp
  finally show "qd_BusyWorkers (demand_item jobs base policies t raw) \<le> qd_Claimed (demand_item jobs base policies t raw)"
    using f d by simp
  show "demand_fine (demand_item jobs base policies t raw)" using f by (simp add: d(1) demand_fine_def)
  show "0 \<le> qd_BusyWorkers (demand_item jobs base policies t raw)" by (simp add: d(1))
  show "0 < qd_Eligible (demand_item jobs base policies t raw) \<longleftrightarrow>
     (\<exists>j \<in> set (demand_candidates jobs ?sel t). \<not> demand_refused policies j base)"
    using n d(4) by (simp add: d(1))
qed

lemma demand_item_limit:
  assumes "\<And>j. j \<in> set (demand_candidates jobs (normalizeQueueDemandSelector raw) t) \<Longrightarrow>
      demandAppKey j = app \<and> effectiveAppConcurrencyLimit j policies = AtMost n"
    and "app \<noteq> []" and "count_of (dc_running base) app \<le> n"
  shows "count_of (dc_running base) app + qd_Eligible (demand_item jobs base policies t raw) \<le> n"
proof -
  obtain item c counted where d: "qd_Eligible (demand_item jobs base policies t raw) = qd_Eligible counted"
      "fold (demand_step policies) (demand_candidates jobs (normalizeQueueDemandSelector raw) t) (item, base) = (counted, c)"
      "qd_Eligible item = 0"
    using demand_item_cases [of jobs base policies t raw] by (metis queue_demand.select_convs(2) queue_demand.surjective queue_demand.update_convs(6))
  show ?thesis
    using demand_fold_limit [OF d(2) assms(1,2), of "- count_of (dc_running base) app"] d assms(3) by simp
qed

lemma activeRunning_count:
  "app \<noteq> [] \<Longrightarrow> count_of (activeRunningByApp jobs t) app = int (length (filter (\<lambda>j. activeQueueLease j t \<and> demandAppKey j = app) jobs))"
proof -
  assume "app \<noteq> []"
  then have "count_of (fold (\<lambda>j m. if \<not> activeQueueLease j t then m else if demandAppKey j \<noteq> [] then incr (demandAppKey j) m else m) jobs m) app =
      count_of m app + int (length (filter (\<lambda>j. activeQueueLease j t \<and> demandAppKey j = app) jobs))" for m
    by (induction jobs arbitrary: m) auto
  then show ?thesis by (simp add: activeRunningByApp_def count_of_def)
qed

lemma demand_item_selector: "qd_Selector (demand_item jobs base policies t raw) = normalizeQueueDemandSelector raw"
proof -
  have "qd_Selector (fst (fold (demand_step policies) js x)) = qd_Selector (fst x)" for js x
    by (induction js arbitrary: x) (auto simp: demand_step_def demand_count_def split: prod.splits)
  then show ?thesis by (simp add: demand_item_def Let_def)
qed

lemma candidate_unleased: "queueDemandCandidate j t \<Longrightarrow> \<not> activeQueueLease j t"
  by (auto simp: queueDemandCandidate_def activeQueueLease_def split: option.splits if_splits)

text \<open>
  The simulation does not consult the runtime state of an app, which a claim does: jobs of a stopped app count as
  eligible though no claim is offered them.
\<close>

lemma load_lifecycles:
  "ensureSnapshot (s\<lparr>AppRuntimeLifecycles := l\<rparr>) = (ensureSnapshot s)\<lparr>AppRuntimeLifecycles := l\<rparr>"
  "write_file (s\<lparr>AppRuntimeLifecycles := l\<rparr>) = (write_file s)\<lparr>AppRuntimeLifecycles := l\<rparr>"
proof -
  show e: "ensureSnapshot (s\<lparr>AppRuntimeLifecycles := l\<rparr>) = (ensureSnapshot s)\<lparr>AppRuntimeLifecycles := l\<rparr>" for s
    by (cases s) (simp add: ensureSnapshot_def attach_identities_def migrateLocalAdmissionOutcomes_def Let_def)
  show "write_file (s\<lparr>AppRuntimeLifecycles := l\<rparr>) = (write_file s)\<lparr>AppRuntimeLifecycles := l\<rparr>"
    by (simp add: write_file_def e Let_def persist_def)
qed

lemma demand_ignores_lifecycle:
  "snd (QueueDemandSnapshot now selectors (s\<lparr>AppRuntimeLifecycles := l\<rparr>)) = snd (QueueDemandSnapshot now selectors s) \<and>
   (\<forall>lc. map_of l (appRuntimeLifecycleKey (workerJobWorkspace j) (pl_App (job_Payload j))) = Some lc \<and> arl_State lc \<noteq> AppRuntimeActive \<longrightarrow>
     \<not> offered (s\<lparr>AppRuntimeLifecycles := l\<rparr>) ws tags labels j)"
  by (simp add: QueueDemandSnapshot_def Let_def load_lifecycles offered_def appRuntimeAllowsNewAttempt_def job_lifecycle_def)

end
