(* ===== verification/Token.thy ===== *)
theory Token
  imports Signature Crypto
begin

text \<open>
  Job tokens (\<^verbatim>\<open>internal/token/token.go\<close>): a bearer token of a running job holds its principal as JSON in unpadded URL-safe
  base64, and an HMAC of that text under the secret of the instance. The server verifies it without any stored state.
  A claim's expiry is in Unix seconds; zero is no expiry.
\<close>

declare map_of_eq_Some_iff [simp del] Some_eq_map_of_iff [simp del]

section \<open>URL-safe base64 without padding\<close>

definition url_char :: "char \<Rightarrow> char" where
  "url_char c = (if c = CHR ''+'' then CHR ''-'' else if c = CHR ''/'' then CHR ''_'' else c)"

definition std_char :: "char \<Rightarrow> char" where
  "std_char c = (if c = CHR ''-'' then CHR ''+'' else if c = CHR ''_'' then CHR ''/'' else c)"

definition url_alphabet :: string where "url_alphabet = map url_char b64_alphabet"

definition rawurl_encode :: "nat list \<Rightarrow> string" where
  "rawurl_encode bs = map url_char (b64_encode False bs)"

text \<open>\<open>RawURLEncoding.DecodeString\<close>: line breaks are ignored and padding is an error; the padding added here is only that of the standard decoder.\<close>

definition rawurl_decode :: "string \<Rightarrow> nat list option" where
  "rawurl_decode s =
     (let t = filter (\<lambda>c. byte c \<noteq> 10 \<and> byte c \<noteq> 13) s
      in if \<not> list_all (\<lambda>c. c \<in> set url_alphabet) t then None
         else b64_groups (map std_char t @ replicate ((4 - length t mod 4) mod 4) (CHR ''='')))"

section \<open>Tokens\<close>

definition JobTokenPrefix :: string where "JobTokenPrefix = ''wfjob_''"

record job_claims =
  jc_Workspace :: string
  jc_JobID :: string
  jc_Subject :: string
  jc_Attempt :: int
  jc_Exp :: int

definition zero_job_claims :: job_claims where
  "zero_job_claims = \<lparr>jc_Workspace = [], jc_JobID = [], jc_Subject = [], jc_Attempt = 0, jc_Exp = 0\<rparr>"

definition IsJobToken :: "string \<Rightarrow> bool" where
  "IsJobToken tok = has_prefix tok JobTokenPrefix"

definition sign :: "string \<Rightarrow> string \<Rightarrow> string" where
  "sign secret msg = rawurl_encode (hmac_sha256 (map byte secret) (map byte msg))"

definition marshal_claims :: "job_claims \<Rightarrow> raw" where
  "marshal_claims c =
     compact (JObj [(''ws'', JString (jc_Workspace c)), (''job'', JString (jc_JobID c)), (''sub'', JString (jc_Subject c)),
       (''attempt'', JInt (jc_Attempt c)), (''exp'', JInt (jc_Exp c))])"

definition MintJob :: "string \<Rightarrow> job_claims \<Rightarrow> string" where
  "MintJob secret c =
     (let p = rawurl_encode (map byte (marshal_claims c))
      in JobTokenPrefix @ p @ ''.'' @ sign secret p)"

text \<open>
  \<open>Unmarshal\<close> into the claims: a member goes to the field whose name it has up to case, where U+017F folds to an \<open>s\<close>;
  unknown members are ignored, \<open>null\<close> leaves a field as it is, and another type or an integer out of range is an error.
\<close>

fun fold_name :: "string \<Rightarrow> string" where
  "fold_name (a # b # s) = (if byte a = 0xC5 \<and> byte b = 0xBF then CHR ''s'' # fold_name s else ascii_lower [a] @ fold_name (b # s))"
| "fold_name s = ascii_lower s"

definition string_member :: "json \<Rightarrow> string \<Rightarrow> string option" where
  "string_member v old = (case v of JNull \<Rightarrow> Some old | JStr l \<Rightarrow> Some (key_text l) | _ \<Rightarrow> None)"

definition int_member :: "json \<Rightarrow> int \<Rightarrow> int option" where
  "int_member v old = (case v of JNull \<Rightarrow> Some old | JNum l \<Rightarrow> parse_int64 l | _ \<Rightarrow> None)"

definition claims_member :: "string \<times> json \<Rightarrow> job_claims \<Rightarrow> job_claims option" where
  "claims_member kv c =
     (let name = fold_name (key_text (fst kv)); v = snd kv
      in if name = ''ws'' then map_option (\<lambda>x. c\<lparr>jc_Workspace := x\<rparr>) (string_member v (jc_Workspace c))
         else if name = ''job'' then map_option (\<lambda>x. c\<lparr>jc_JobID := x\<rparr>) (string_member v (jc_JobID c))
         else if name = ''sub'' then map_option (\<lambda>x. c\<lparr>jc_Subject := x\<rparr>) (string_member v (jc_Subject c))
         else if name = ''attempt'' then map_option (\<lambda>x. c\<lparr>jc_Attempt := x\<rparr>) (int_member v (jc_Attempt c))
         else if name = ''exp'' then map_option (\<lambda>x. c\<lparr>jc_Exp := x\<rparr>) (int_member v (jc_Exp c))
         else Some c)"

definition unmarshal_claims :: "raw \<Rightarrow> job_claims option" where
  "unmarshal_claims raw' =
     (case json_parse raw' of
        Some (JObj ms) \<Rightarrow> fold (\<lambda>kv acc. Option.bind acc (claims_member kv)) ms (Some zero_job_claims)
      | Some JNull \<Rightarrow> Some zero_job_claims
      | _ \<Rightarrow> None)"

definition last_dot :: "string \<Rightarrow> (string \<times> string) option" where
  "last_dot body =
     (if CHR ''.'' \<in> set body
      then Some (rev (tl (dropWhile (\<lambda>c. c \<noteq> CHR ''.'') (rev body))), rev (takeWhile (\<lambda>c. c \<noteq> CHR ''.'') (rev body)))
      else None)"

definition VerifyJob :: "time \<Rightarrow> string \<Rightarrow> string \<Rightarrow> job_claims option" where
  "VerifyJob now secret tok =
     (if secret = [] \<or> \<not> has_prefix tok JobTokenPrefix then None
      else case last_dot (drop (length JobTokenPrefix) tok) of
             None \<Rightarrow> None
           | Some (p, mac) \<Rightarrow>
               if mac \<noteq> sign secret p then None
               else case rawurl_decode p of
                      None \<Rightarrow> None
                    | Some raw' \<Rightarrow>
                        (case unmarshal_claims (map char_of raw') of
                           None \<Rightarrow> None
                         | Some c \<Rightarrow> if jc_Exp c \<noteq> 0 \<and> unix_seconds now > jc_Exp c then None else Some c))"

fun VerifyJobAny :: "time \<Rightarrow> string list \<Rightarrow> string \<Rightarrow> job_claims option" where
  "VerifyJobAny now [] tok = None"
| "VerifyJobAny now (secret # secrets) tok =
     (case VerifyJob now secret tok of Some c \<Rightarrow> Some c | None \<Rightarrow> VerifyJobAny now secrets tok)"

section \<open>The encoding\<close>

lemma url_std: "c \<in> set b64_alphabet \<Longrightarrow> std_char (url_char c) = c"
  by (auto simp: b64_alphabet_def url_char_def std_char_def)

lemma url_plain: "c \<in> set url_alphabet \<Longrightarrow> byte c \<noteq> 10 \<and> byte c \<noteq> 13 \<and> c \<noteq> CHR ''.''"
  by (auto simp: url_alphabet_def b64_alphabet_def url_char_def byte_def)

lemma b64_encode_unpadded:
  assumes "\<forall>b \<in> set bs. b < 256"
  shows "set (b64_encode False bs) \<subseteq> set b64_alphabet \<and>
    b64_encode True bs = b64_encode False bs @ replicate ((4 - length (b64_encode False bs) mod 4) mod 4) (CHR ''='')"
  using assms
proof (induction "False" bs rule: b64_encode.induct)
  case (1 a b c rest)
  have "a < 256" "b < 256" "c < 256" using 1(2) by simp_all
  from six_bits [OF this] show ?case using 1 b64_char_in by simp
next
  case (2 a b)
  have "a < 256" "b < 256" "(0::nat) < 256" using 2 by simp_all
  from six_bits [OF this] show ?case using b64_char_in by simp
next
  case (3 a)
  have "a < 256" "(0::nat) < 256" "(0::nat) < 256" using 3 by simp_all
  from six_bits [OF this] show ?case using b64_char_in by (simp add: numeral_2_eq_2)
qed simp

lemma rawurl_alphabet: "\<forall>b \<in> set bs. b < 256 \<Longrightarrow> set (rawurl_encode bs) \<subseteq> set url_alphabet"
  using b64_encode_unpadded unfolding rawurl_encode_def url_alphabet_def by auto

lemma rawurl_roundtrip:
  assumes "\<forall>b \<in> set bs. b < 256"
  shows "rawurl_decode (rawurl_encode bs) = Some bs"
proof -
  note u = rawurl_alphabet [OF assms] and e = b64_encode_unpadded [OF assms]
  have "filter (\<lambda>c. byte c \<noteq> 10 \<and> byte c \<noteq> 13) (rawurl_encode bs) = rawurl_encode bs"
    using u url_plain by (auto simp: filter_id_conv)
  moreover have "map std_char (rawurl_encode bs) = b64_encode False bs"
    using e url_std unfolding rawurl_encode_def by (auto simp: comp_def intro!: map_idI)
  moreover have "length (rawurl_encode bs) = length (b64_encode False bs)" by (simp add: rawurl_encode_def)
  ultimately show ?thesis
    using u e b64_groups_encode [OF assms] by (auto simp: rawurl_decode_def list_all_iff Let_def)
qed

lemma last_dot_append: "CHR ''.'' \<notin> set mac \<Longrightarrow> last_dot (p @ CHR ''.'' # mac) = Some (p, mac)"
proof -
  assume "CHR ''.'' \<notin> set mac"
  then have n: "\<And>c. c \<in> set (rev mac) \<Longrightarrow> c \<noteq> CHR ''.''" by auto
  have "takeWhile (\<lambda>c. c \<noteq> CHR ''.'') (rev mac @ CHR ''.'' # rev p) = rev mac"
    by (subst takeWhile_append2) (use n in auto)
  moreover have "dropWhile (\<lambda>c. c \<noteq> CHR ''.'') (rev mac @ CHR ''.'' # rev p) = CHR ''.'' # rev p"
    by (subst dropWhile_append2) (use n in auto)
  ultimately show ?thesis by (simp add: last_dot_def)
qed

lemma last_dot_Some: "last_dot body = Some (p, mac) \<Longrightarrow> body = p @ CHR ''.'' # mac"
proof -
  assume "last_dot body = Some (p, mac)"
  then have d: "CHR ''.'' \<in> set (rev body)" "p = rev (tl (dropWhile (\<lambda>c. c \<noteq> CHR ''.'') (rev body)))"
      "mac = rev (takeWhile (\<lambda>c. c \<noteq> CHR ''.'') (rev body))"
    by (auto simp: last_dot_def split: if_splits)
  obtain x rest where x: "dropWhile (\<lambda>c. c \<noteq> CHR ''.'') (rev body) = x # rest"
    using d(1) by (metis (mono_tags, lifting) dropWhile_eq_Nil_conv list.exhaust)
  then have "x = CHR ''.''" by (metis (mono_tags, lifting) dropWhile_eq_Cons_conv)
  then have "rev body = rev mac @ CHR ''.'' # rev p"
    using x d by (metis list.sel(3) rev_rev_ident takeWhile_dropWhile_id)
  then have "rev (rev body) = rev (rev mac @ CHR ''.'' # rev p)" by (rule arg_cong)
  then show "body = p @ CHR ''.'' # mac" by simp
qed

lemma sign_no_dot: "CHR ''.'' \<notin> set (sign secret msg)"
proof -
  have "\<forall>b \<in> set (hmac_sha256 (map byte secret) (map byte msg)). b < 256" using hmac_bytes by blast
  from rawurl_alphabet [OF this] show ?thesis using url_plain unfolding sign_def by blast
qed

section \<open>Strings in JSON\<close>

text \<open>A Go string of ASCII characters is quoted by \<open>Marshal\<close> character by character.\<close>

definition ascii :: "string \<Rightarrow> bool" where "ascii s = list_all (\<lambda>c. byte c < 128) s"

definition quoted :: "nat \<Rightarrow> string" where
  "quoted b =
     (if b = 34 \<or> b = 92 then [backslash, char_of b]
      else if b = 8 then [backslash, CHR ''b''] else if b = 12 then [backslash, CHR ''f'']
      else if b = 10 then [backslash, CHR ''n''] else if b = 13 then [backslash, CHR ''r'']
      else if b = 9 then [backslash, CHR ''t'']
      else if b < 32 \<or> b = 60 \<or> b = 62 \<or> b = 38
      then backslash # ''u00'' @ [hex_of (b div 16), hex_of (b mod 16)]
      else [char_of b])"

lemma quote_ascii: "ascii s \<Longrightarrow> quote_text (map byte s) = concat (map (\<lambda>c. quoted (byte c)) s)"
proof (induction s)
  case Nil
  then show ?case by (simp add: quote_text.simps)
next
  case (Cons c s)
  then have c: "byte c < 128" and s: "quote_text (map byte s) = concat (map (\<lambda>c. quoted (byte c)) s)"
    by (simp_all add: ascii_def)
  show ?case
    using c s by (subst list.map(2), subst quote_text.simps) (simp add: quoted_def)
qed

text \<open>What the three readers of a literal do with one quoted character; all the characters are tried.\<close>

definition quoted_reads :: "nat \<Rightarrow> bool" where
  "quoted_reads b \<longleftrightarrow>
     (case quoted b of
        [c] \<Rightarrow> plain_char c \<and> byte c = b
      | [c, e] \<Rightarrow> c = backslash \<and> simple_escape e \<and> escape_byte e = b
      | [c, e, h1, h2, h3, h4] \<Rightarrow> c = backslash \<and> e = CHR ''u'' \<and> list_all hex_digit [h1, h2, h3, h4] \<and> hex4 [h1, h2, h3, h4] = b
      | _ \<Rightarrow> False)"

lemma quoted_reads_ascii: "b < 128 \<Longrightarrow> quoted_reads b"
proof -
  have "list_all quoted_reads [0..<128]" by code_simp
  then show "b < 128 \<Longrightarrow> quoted_reads b" by (simp add: list_all_iff)
qed

lemma quoted_cases:
  assumes "b < 128"
  obtains (Plain) c where "quoted b = [c]" "plain_char c" "byte c = b"
    | (Short) e where "quoted b = [backslash, e]" "simple_escape e" "escape_byte e = b"
    | (Long) h1 h2 h3 h4 where "quoted b = [backslash, CHR ''u'', h1, h2, h3, h4]" "list_all hex_digit [h1, h2, h3, h4]"
        "hex4 [h1, h2, h3, h4] = b"
  using quoted_reads_ascii [OF assms] unfolding quoted_reads_def by (auto split: list.splits)

lemma html_escape_Cons:
  assumes "byte a \<notin> {0xE2, 60, 62, 38}"
  shows "html_escape (a # s) = a # html_escape s"
proof -
  have "a \<notin> set ''<>&''" using assms by (auto simp: byte_def)
  then show ?thesis using assms by (cases "a # s" rule: html_escape.cases) auto
qed

lemma html_inert:
  "html_escape (backslash # s) = backslash # html_escape s"
  "html_escape (CHR ''u'' # s) = CHR ''u'' # html_escape s"
  "simple_escape e \<Longrightarrow> html_escape (e # s) = e # html_escape s"
  "hex_digit e \<Longrightarrow> html_escape (e # s) = e # html_escape s"
  "plain_char e \<Longrightarrow> html_escape (e # s) = e # html_escape s"
proof -
  show "html_escape (backslash # s) = backslash # html_escape s" "html_escape (CHR ''u'' # s) = CHR ''u'' # html_escape s"
    by (rule html_escape_Cons, simp add: backslash_def byte_def)+
  show "html_escape (e # s) = e # html_escape s" if "simple_escape e"
    using that by (intro html_escape_Cons) (auto simp: simple_escape_def backslash_def dquote_def byte_def)
  show "html_escape (e # s) = e # html_escape s" if "hex_digit e"
    using that by (intro html_escape_Cons) (auto simp: hex_digit_def is_digit_def)
  show "html_escape (e # s) = e # html_escape s" if "plain_char e"
    using that by (intro html_escape_Cons) (auto simp: plain_char_def)
qed

lemma quoted_html: "b < 128 \<Longrightarrow> html_escape (quoted b @ t) = quoted b @ html_escape t"
proof (erule quoted_cases)
  show "html_escape (quoted b @ t) = quoted b @ html_escape t" if "quoted b = [c]" "plain_char c" for c
    unfolding that(1) using that(2) by (simp add: html_inert del: html_escape.simps)
  show "html_escape (quoted b @ t) = quoted b @ html_escape t" if "quoted b = [backslash, e]" "simple_escape e" for e
    unfolding that(1) using that(2) by (simp add: html_inert del: html_escape.simps)
  show "html_escape (quoted b @ t) = quoted b @ html_escape t"
    if "quoted b = [backslash, CHR ''u'', h1, h2, h3, h4]" "list_all hex_digit [h1, h2, h3, h4]" for h1 h2 h3 h4
    unfolding that(1) using that(2) by (simp add: html_inert del: html_escape.simps)
qed

lemma quoted_scan: "b < 128 \<Longrightarrow> scan_str (quoted b @ t) = map_option (\<lambda>(l, r). (quoted b @ l, r)) (scan_str t)"
proof (rule quoted_cases)
  have b: "backslash \<noteq> dquote" "\<not> byte backslash < 32" "\<not> simple_escape (CHR ''u'')"
    by (simp_all add: backslash_def dquote_def byte_def simple_escape_def)
  show "scan_str (quoted b @ t) = map_option (\<lambda>(l, r). (quoted b @ l, r)) (scan_str t)"
    if "quoted b = [c]" "plain_char c" for c
    using that plain_not_special [of c] by simp
  show "scan_str (quoted b @ t) = map_option (\<lambda>(l, r). (quoted b @ l, r)) (scan_str t)"
    if "quoted b = [backslash, e]" "simple_escape e" for e
    using that b by simp
  show "scan_str (quoted b @ t) = map_option (\<lambda>(l, r). (quoted b @ l, r)) (scan_str t)"
    if "quoted b = [backslash, CHR ''u'', h1, h2, h3, h4]" "list_all hex_digit [h1, h2, h3, h4]" for h1 h2 h3 h4
    using that b by simp
qed

lemma quoted_unquote: "b < 128 \<Longrightarrow> unquote (quoted b @ t) = b # unquote t"
proof (rule quoted_cases)
  assume lt: "b < 128"
  show "unquote (quoted b @ t) = b # unquote t" if "quoted b = [c]" "plain_char c" "byte c = b" for c
    using that plain_not_special [of c] by (subst unquote.simps) (simp add: plain_char_def encode_rune_def)
  show "unquote (quoted b @ t) = b # unquote t" if "quoted b = [backslash, e]" "simple_escape e" "escape_byte e = b" for e
    using that by (subst unquote.simps) (auto simp: simple_escape_def backslash_def dquote_def)
  show "unquote (quoted b @ t) = b # unquote t"
    if "quoted b = [backslash, CHR ''u'', h1, h2, h3, h4]" "list_all hex_digit [h1, h2, h3, h4]" "hex4 [h1, h2, h3, h4] = b" for h1 h2 h3 h4
    using that lt by (subst unquote.simps) (simp add: hex4_def encode_rune_def Let_def)
qed

text \<open>A quoted ASCII string survives printing, is scanned up to its closing quote, and denotes the string.\<close>

lemma ascii_quote:
  assumes "ascii s"
  shows "html_escape (quote_text (map byte s)) = quote_text (map byte s)"
    and "scan_str (quote_text (map byte s) @ dquote # r) = Some (quote_text (map byte s), r)"
    and "key_text (quote_text (map byte s)) = s"
proof -
  let ?q = "\<lambda>s. concat (map (\<lambda>c. quoted (byte c)) s)"
  have "html_escape (?q s) = ?q s" "scan_str (?q s @ dquote # r) = Some (?q s, r)" "unquote (?q s) = map byte s"
    using assms unfolding ascii_def
    by (induction s) (simp_all add: quoted_html quoted_scan quoted_unquote unquote.simps [of "[]"])
  then show "html_escape (quote_text (map byte s)) = quote_text (map byte s)"
    and "scan_str (quote_text (map byte s) @ dquote # r) = Some (quote_text (map byte s), r)"
    and "key_text (quote_text (map byte s)) = s"
    unfolding quote_ascii [OF assms] by (simp_all add: key_text_def comp_def)
qed

section \<open>Numbers and members in JSON\<close>

lemma digits10_head: "n \<noteq> 0 \<Longrightarrow> hd (digits10 n) \<noteq> CHR ''0''"
proof (induction n rule: digits10.induct)
  case (1 n)
  show ?case
  proof (cases "n < 10")
    case True
    have "char_of (48 + n) \<noteq> CHR ''0''"
    proof
      assume "char_of (48 + n) = CHR ''0''"
      then have "byte (char_of (48 + n)) = byte (CHR ''0'')" by (simp only:)
      moreover have "byte (CHR ''0'') = 48" by (simp add: byte_def)
      ultimately show False using digit_byte [OF True] 1(2) by linarith
    qed
    then show ?thesis using True by (subst digits10.simps) simp
  next
    case False
    then have "hd (digits10 (n div 10)) \<noteq> CHR ''0''" "digits10 (n div 10) \<noteq> []"
      using 1(1) [OF False] digits10_digits [of "n div 10"] by auto
    then show ?thesis using False by (subst digits10.simps) simp
  qed
qed

definition ends_value :: "string \<Rightarrow> bool" where
  "ends_value s \<longleftrightarrow> (\<exists>r. s = CHR '','' # r \<or> s = CHR ''}'' # r)"

lemma ends_value_heads:
  assumes "ends_value s"
  shows "scan_frac s = Some ([], s)" "scan_exp s = Some ([], s)" "takeWhile is_digit s = []" "dropWhile is_digit s = s"
    "skip_ws s = s"
  using assms by (auto simp: ends_value_def scan_frac_def scan_exp_def is_digit_def byte_def)

lemma scan_digits10:
  assumes "ends_value s"
  shows "scan_int (digits10 n @ s) = Some (digits10 n, s)"
proof -
  note d = digits10_digits [of n]
  show ?thesis
  proof (cases "n = 0")
    case True
    moreover have "digits10 0 = ''0''" by code_simp
    ultimately show ?thesis by (simp add: scan_int_def)
  next
    case False
    obtain c t where c: "digits10 n = c # t" using d by (cases "digits10 n") auto
    moreover have "c \<noteq> CHR ''0''" using digits10_head [OF False] c by simp
    moreover have "is_digit c" "\<And>x. x \<in> set t \<Longrightarrow> is_digit x" using d c by (auto simp: list_all_iff)
    ultimately show ?thesis
      using ends_value_heads(3,4) [OF assms]
      by (simp add: scan_int_def scan_digits_def takeWhile_append2 dropWhile_append2)
  qed
qed

lemma scan_itoa:
  assumes "ends_value s"
  shows "scan_num (itoa n @ s) = Some (itoa n, s)"
proof -
  note d = digits10_digits [of "nat n"]
  obtain c t where c: "digits10 (nat n) = c # t" using d by (cases "digits10 (nat n)") auto
  have "c \<noteq> CHR ''-''" using d c digit_not_sign by (simp add: list_all_iff)
  then show ?thesis
    using scan_digits10 [OF assms, of "nat n"] scan_digits10 [OF assms, of "nat (- n)"] ends_value_heads(1,2) [OF assms] c
    by (simp add: scan_num_def itoa_def)
qed

text \<open>A value with its text: the parser reads the value from the text whatever member or end follows.\<close>

definition reads_as :: "string \<Rightarrow> json \<Rightarrow> bool" where
  "reads_as tx v \<longleftrightarrow> (\<forall>n s. ends_value s \<longrightarrow> p_value (Suc n) (tx @ s) = Some (v, s))"

lemma reads_text: "ascii s \<Longrightarrow> reads_as (compact (JString s)) (JStr (quote_text (map byte s)))"
  by (simp add: reads_as_def JString_def ascii_quote)

lemma reads_int: "reads_as (compact (JInt n)) (JNum (itoa n))"
proof -
  have "p_value (Suc k) (itoa n @ s) = Some (JNum (itoa n), s)" if s: "ends_value s" for k s
  proof -
    obtain c t where c: "itoa n = c # t" by (cases "itoa n") simp_all
    have "c = CHR ''-'' \<or> is_digit c"
      using c digits10_digits [of "nat n"] digits10_digits [of "nat (- n)"] by (auto simp: itoa_def list_all_iff split: if_splits)
    then have "skip_ws (c # t @ s) = c # t @ s" "c \<noteq> dquote" "c \<noteq> CHR ''{''" "c \<noteq> CHR ''[''"
        "CHR ''t'' \<noteq> c" "CHR ''f'' \<noteq> c" "CHR ''n'' \<noteq> c"
      by (auto simp: skip_ws_def json_space_def is_digit_def dquote_def byte_def)
    then show ?thesis using scan_itoa [OF s, of n] c by simp
  qed
  then show ?thesis by (simp add: reads_as_def JInt_def)
qed

fun members_text :: "(string \<times> string) list \<Rightarrow> string" where
  "members_text [] = []"
| "members_text [(k, tx)] = dquote # k @ dquote # CHR '':'' # tx"
| "members_text ((k, tx) # ms) = dquote # k @ dquote # CHR '':'' # tx @ CHR '','' # members_text ms"

lemma p_members_text:
  assumes "ms \<noteq> []" and "\<forall>(k, tx, v) \<in> set ms. list_all plain_char k \<and> reads_as tx v" and "length ms < n"
  shows "p_members n (members_text (map (\<lambda>(k, tx, v). (k, tx)) ms) @ CHR ''}'' # r) = Some (map (\<lambda>(k, tx, v). (k, v)) ms, r)"
  using assms
proof (induction ms arbitrary: n)
  case (Cons m ms)
  obtain k tx v where m: "m = (k, tx, v)" by (cases m)
  have k: "list_all plain_char k" and v: "reads_as tx v" using Cons.prems(2) m by auto
  obtain n' where n: "n = Suc (Suc n')" using Cons.prems(3) by (metis Suc_lessE length_Cons less_imp_Suc_add add_Suc)
  have val: "p_value (Suc n') (tx @ CHR '','' # s) = Some (v, CHR '','' # s)"
      "p_value (Suc n') (tx @ CHR ''}'' # s) = Some (v, CHR ''}'' # s)" for s
    using v by (auto simp: reads_as_def ends_value_def simp del: p_value.simps)
  show ?case
  proof (cases ms)
    case Nil
    then show ?thesis using m n val scan_plain [OF k] by (simp del: p_value.simps)
  next
    case (Cons m' ms')
    let ?rest = "members_text (map (\<lambda>(k, tx, v). (k, tx)) ms)"
    have t: "members_text (map (\<lambda>(k, tx, v). (k, tx)) (m # ms)) = dquote # k @ dquote # CHR '':'' # tx @ CHR '','' # ?rest"
      using m Cons by (cases m') simp
    have "p_members (Suc n') (?rest @ CHR ''}'' # r) = Some (map (\<lambda>(k, tx, v). (k, v)) ms, r)"
      using Cons.IH [of "Suc n'"] Cons.prems Cons n by simp
    then show ?thesis
      unfolding t n using m val scan_plain [OF k] by (simp del: p_value.simps)
  qed
qed simp

section \<open>Round trip and authenticity\<close>

definition claims_ok :: "job_claims \<Rightarrow> bool" where
  "claims_ok c \<longleftrightarrow> ascii (jc_Workspace c) \<and> ascii (jc_JobID c) \<and> ascii (jc_Subject c) \<and>
     - (2 ^ 63) \<le> jc_Attempt c \<and> jc_Attempt c < 2 ^ 63 \<and> - (2 ^ 63) \<le> jc_Exp c \<and> jc_Exp c < 2 ^ 63"

definition claims_parts :: "job_claims \<Rightarrow> (string \<times> string \<times> json) list" where
  "claims_parts c =
     [(''ws'', compact (JString (jc_Workspace c)), JStr (quote_text (map byte (jc_Workspace c)))),
      (''job'', compact (JString (jc_JobID c)), JStr (quote_text (map byte (jc_JobID c)))),
      (''sub'', compact (JString (jc_Subject c)), JStr (quote_text (map byte (jc_Subject c)))),
      (''attempt'', compact (JInt (jc_Attempt c)), JNum (itoa (jc_Attempt c))),
      (''exp'', compact (JInt (jc_Exp c)), JNum (itoa (jc_Exp c)))]"

lemma claim_names_plain:
  "list_all plain_char ''ws''" "list_all plain_char ''job''" "list_all plain_char ''sub''" "list_all plain_char ''attempt''"
  "list_all plain_char ''exp''"
  by code_simp+

lemma claim_names:
  "fold_name (key_text ''ws'') = ''ws''" "fold_name (key_text ''job'') = ''job''" "fold_name (key_text ''sub'') = ''sub''"
  "fold_name (key_text ''attempt'') = ''attempt''" "fold_name (key_text ''exp'') = ''exp''"
  unfolding claim_names_plain [THEN key_text_plain] by code_simp+

lemma marshal_parts:
  "marshal_claims c = CHR ''{'' # members_text (map (\<lambda>(k, tx, v). (k, tx)) (claims_parts c)) @ ''}''"
  unfolding marshal_claims_def claims_parts_def
  using claim_names_plain [THEN html_plain]
  by (simp add: join_def del: html_escape.simps compact.simps(3,4))

lemma claims_parts_read:
  "claims_ok c \<Longrightarrow> \<forall>(k, tx, v) \<in> set (claims_parts c). list_all plain_char k \<and> reads_as tx v"
  using claim_names_plain reads_text reads_int by (auto simp: claims_parts_def claims_ok_def simp del: compact.simps)

lemma marshal_parse:
  assumes "claims_ok c"
  shows "json_parse (marshal_claims c) = Some (JObj (map (\<lambda>(k, tx, v). (k, v)) (claims_parts c)))"
proof -
  let ?t = "members_text (map (\<lambda>(k, tx, v). (k, tx)) (claims_parts c))"
  obtain u where u: "?t = dquote # u" by (simp add: claims_parts_def)
  have "length (claims_parts c) < 2 * length (marshal_claims c) + 1"
    unfolding marshal_parts by (simp add: claims_parts_def del: compact.simps)
  then have "p_members (2 * length (marshal_claims c) + 1) (?t @ ''}'') = Some (map (\<lambda>(k, tx, v). (k, v)) (claims_parts c), [])"
    by (intro p_members_text claims_parts_read [OF assms]) (auto simp: claims_parts_def)
  then have "p_value (Suc (2 * length (marshal_claims c) + 1)) (marshal_claims c) =
      Some (JObj (map (\<lambda>(k, tx, v). (k, v)) (claims_parts c)), [])"
    unfolding marshal_parts [of c] u by (simp del: p_members.simps)
  moreover have "json_depth (JObj (map (\<lambda>(k, tx, v). (k, v)) (claims_parts c))) \<le> 10000"
    by (simp add: claims_parts_def)
  ultimately show ?thesis by (simp add: json_parse_def)
qed

lemma unmarshal_marshal:
  assumes "claims_ok c"
  shows "unmarshal_claims (marshal_claims c) = Some c"
  using assms
  by (simp add: unmarshal_claims_def marshal_parse claims_parts_def claims_member_def claim_names string_member_def int_member_def
      ascii_quote(3) parse_itoa claims_ok_def zero_job_claims_def)

lemma VerifyJob_iff:
  assumes "secret \<noteq> []"
  shows "VerifyJob now secret tok = Some c \<longleftrightarrow>
    (\<exists>p raw'. tok = JobTokenPrefix @ p @ ''.'' @ sign secret p \<and> rawurl_decode p = Some raw' \<and>
       unmarshal_claims (map char_of raw') = Some c \<and> (jc_Exp c = 0 \<or> unix_seconds now \<le> jc_Exp c))"
proof
  assume "VerifyJob now secret tok = Some c"
  then obtain p raw' where v: "has_prefix tok JobTokenPrefix" "last_dot (drop (length JobTokenPrefix) tok) = Some (p, sign secret p)"
      "rawurl_decode p = Some raw'" "unmarshal_claims (map char_of raw') = Some c" "jc_Exp c = 0 \<or> unix_seconds now \<le> jc_Exp c"
    by (auto simp: VerifyJob_def split: if_splits option.splits prod.splits)
  obtain body where "tok = JobTokenPrefix @ body" using v(1) has_prefix_iff by blast
  then show "\<exists>p raw'. tok = JobTokenPrefix @ p @ ''.'' @ sign secret p \<and> rawurl_decode p = Some raw' \<and>
       unmarshal_claims (map char_of raw') = Some c \<and> (jc_Exp c = 0 \<or> unix_seconds now \<le> jc_Exp c)"
    using v last_dot_Some [OF v(2)] by auto
next
  assume "\<exists>p raw'. tok = JobTokenPrefix @ p @ ''.'' @ sign secret p \<and> rawurl_decode p = Some raw' \<and>
       unmarshal_claims (map char_of raw') = Some c \<and> (jc_Exp c = 0 \<or> unix_seconds now \<le> jc_Exp c)"
  then show "VerifyJob now secret tok = Some c"
    using assms last_dot_append [OF sign_no_dot] by (auto simp: VerifyJob_def)
qed

lemma VerifyJob_MintJob:
  assumes "secret \<noteq> []" and "claims_ok c"
  shows "VerifyJob now secret (MintJob secret c) = (if jc_Exp c \<noteq> 0 \<and> unix_seconds now > jc_Exp c then None else Some c)"
proof -
  have "rawurl_decode (rawurl_encode (map byte (marshal_claims c))) = Some (map byte (marshal_claims c))"
    by (rule rawurl_roundtrip) simp
  moreover have "map char_of (map byte (marshal_claims c)) = marshal_claims c" by (simp add: comp_def)
  ultimately show ?thesis
    using assms unmarshal_marshal [OF assms(2)] last_dot_append [OF sign_no_dot]
    by (simp add: VerifyJob_def MintJob_def Let_def)
qed

lemma VerifyJobAny_iff: "VerifyJobAny now secrets tok = Some c \<Longrightarrow> \<exists>secret \<in> set secrets. VerifyJob now secret tok = Some c"
  by (induction secrets) (auto split: option.splits)

end
