(* ===== verification/Spec2Isabelle.thy ===== *)
theory Spec2Isabelle
  imports WebhookScenario MaskScenario Pressure Demand Token
begin

text \<open>
  windforce-core is a control plane that admits runs of scripts, queues their jobs, leases the jobs to workers and tells
  webhook subscribers what happened. This development models its core: the local store, which keeps all state in one
  JSON file under a lock, the contract data the store pins, the webhook dispatcher that works on the store's outbox, and
  the parts of a worker that decide whether it claims and what of a job's output leaves it.

  \<^bold>\<open>The program and its parts\<close>

  \<^item> Every store operation is a transaction: it locks the file, loads and migrates it, runs a body, lets the human task
    hook add webhook deliveries, and writes the file (\<^verbatim>\<open>internal/state/local_store.go\<close>). Here a body is a
    function from a snapshot to an error or a new snapshot with a result, and the frame is a function around bodies.
  \<^item> Workers register, claim jobs, send heartbeats and complete attempts under leases. Operators put limits on apps,
    revoke them, cancel runs, decide held human tasks, manage worker credentials and subscriptions.
  \<^item> The dispatcher claims deliveries from the outbox, sends them through an egress policy and settles them.
  \<^item> A worker watches its resources, masks the secrets of a job in its log, and hands the job a signed token.

  \<^bold>\<open>Theories\<close>

  \<^item> \<^bold>\<open>Prelude\<close>: results (\<open>error + 'a\<close>), Go maps as association lists with distinct keys, stable insertion sort for
    \<^verbatim>\<open>sort.Slice\<close>, and the interfaces: \<open>total_less\<close> (sorting by a total order is independent of the iteration order of a
    map), \<open>inductive_invariant\<close> and \<open>monotone_steps\<close> (what holds in, and relates, the states of a history).
    \<^bold>\<open>GoText\<close> is what the code uses of Go strings: bytes, UTF-8, trimming, case folding, hexadecimal and decimal digits,
    times in text. \<^bold>\<open>Json\<close> is \<^verbatim>\<open>encoding/json\<close>; \<^bold>\<open>Sha256\<close> and \<^bold>\<open>Gcm\<close> are SHA-256, AES-GCM and base64 as their
    standards define them.
  \<^item> \<^bold>\<open>Contract\<close> (\<^verbatim>\<open>internal/contract\<close>): actions, deployments, execution profiles, labels, execution limits and runtime
    access with their normalisations. \<^bold>\<open>StateModel\<close> (\<^verbatim>\<open>internal/state\<close>): the stored records field by field, and the
    views on jobs. \<^bold>\<open>ExecLimits\<close>: limit fingerprints, pins, concurrency counts and rate windows. \<^bold>\<open>Admission\<close>: admission
    outcomes. \<^bold>\<open>Events\<close>: the envelopes of events and the first state of a delivery.
  \<^item> \<^bold>\<open>Store\<close>: the transaction frame. \<^bold>\<open>Policies\<close>, \<^bold>\<open>Webhooks\<close>, \<^bold>\<open>HumanTasks\<close>, \<^bold>\<open>Workers\<close>, \<^bold>\<open>AppRuntime\<close> and
    \<^bold>\<open>JobStore\<close>: the operations of the store, one definition per operation and per loop body.
  \<^item> \<^bold>\<open>JobInv\<close>, \<^bold>\<open>StoreInv\<close>, \<^bold>\<open>StoreSteps\<close>: the invariant \<open>store_ok\<close> and the order \<open>progress\<close>, and that every body keeps
    them; the locales \<open>frame_stable\<close> and \<open>frame_monotone\<close> lift this through the frame. \<^bold>\<open>System\<close>: the store as a step
    relation over commands; a history also collects the job identifiers issued in it.
    \<^bold>\<open>Leases\<close>: the locale \<open>fenced_lease\<close>, and job leases as an instance.
    \<^bold>\<open>Claims\<close>, \<^bold>\<open>Operations\<close>: what claims and single operations guarantee. \<^bold>\<open>Frames\<close>, \<^bold>\<open>Credentials\<close>, \<^bold>\<open>PolicyOps\<close>,
    \<^bold>\<open>Subscriptions\<close>: the operators' data in histories.
  \<^item> \<^bold>\<open>Crypto\<close> (\<^verbatim>\<open>internal/crypto\<close>, \<^verbatim>\<open>internal/state\<close>): key derivation, envelopes and encryption at rest; the store relies
    on it only through the locale \<open>at_rest_codec\<close>, interpreted on the code's own codec.
  \<^item> \<^bold>\<open>Outbox\<close>: deliveries in histories, and delivery leases as the second instance of \<open>fenced_lease\<close>. \<^bold>\<open>Egress\<close>,
    \<^bold>\<open>Signature\<close>, \<^bold>\<open>Dispatch\<close> (\<^verbatim>\<open>internal/webhook\<close>, \<^verbatim>\<open>pkg/webhook\<close>): the egress policy, signatures, one iteration of the
    dispatcher and its sender. \<^bold>\<open>Retention\<close> (\<^verbatim>\<open>cmd/windforce-core/webhook_retention.go\<close>): the retention cycle.
  \<^item> \<^bold>\<open>Matcher\<close>, \<^bold>\<open>SecretMask\<close>, \<^bold>\<open>MaskStream\<close> (\<^verbatim>\<open>internal/secretmask\<close>): the Aho-Corasick matcher over its node and edge
    arrays, the registry of patterns and the masking stream. \<^bold>\<open>Pressure\<close> (\<^verbatim>\<open>internal/workerpressure\<close>): the pressure
    controller. \<^bold>\<open>Demand\<close> (\<^verbatim>\<open>internal/state/queue_demand.go\<close>): the demand view for autoscalers. \<^bold>\<open>Token\<close>
    (\<^verbatim>\<open>internal/token\<close>): job tokens.
  \<^item> \<^bold>\<open>Scenario\<close>, \<^bold>\<open>WebhookScenario\<close>, \<^bold>\<open>MaskScenario\<close>: short concrete histories, on which the theorems are applied.

  \<^bold>\<open>What is shown\<close>

  In every history of the store: live runs and active jobs correspond, running jobs are leased, lost leases stay lost and
  complete nothing, attempts increase, admission outcomes, events and settled tasks are never rewritten (C1 to C5, C11 to
  C13). A claim takes the least admissible job, misses none and leaves all limits respected (C6 to C10). Retention,
  results, cancellation, decisions, revocation, credentials, group states, policies and action state behave as their
  operations promise (C14 to C24). Deliveries are fenced, ordered, retried within bounds, signed verifiably, sent only to
  allowed addresses, and removed by a retention cycle that ends (C25 to C32). Masking is the obvious reference, in one
  piece or in chunks, and hides secrets registered late (C33 to C36). The pressure controller has hysteresis, the demand
  view counts claimable jobs within limits, normalised limits form a type, and tokens round trip and are authentic
  (C37 to C40).

  \<^bold>\<open>Parameters\<close>

  Code outside the repository is an argument: the random source (\<open>rnd\<close>, a function of a label for each draw), the clock
  (one time per transaction, as the code reads it once), the codec of the store, the key provider, URL parsing and name
  resolution (\<open>net\<close>), the HTTP exchange of the sender, and the resource sampler. Times are nanoseconds since Go's zero
  time as integers; where durations or seconds can leave 64 bits, the wrap-around is written out (\<open>wrap64\<close>).

  \<^bold>\<open>Loops and fuel\<close>

  Loops are structural recursion or \<open>function\<close> with a measure. The JSON parser has fuel twice the length of the text plus
  two, which \<open>p_value_fuel\<close> shows to be enough. The edge chains, failure climbs and the queue of the matcher take the sizes
  of its arrays as fuel, since every link leads to a smaller index; \<open>new_matcher\<close> shows that the result is the automaton.
  The retention cycle is a \<open>partial_function\<close>, and C28 shows that it returns.

  \<^bold>\<open>Not modelled\<close>

  \<^item> The Postgres store: its behaviour is that of SQL statements on a server, which the sources only send.
  \<^item> The HTTP server, its OpenAPI document and its response models; the command line, configuration and process wiring;
    logging, tracing and metrics.
  \<^item> The worker loop, executor, runner and language runtimes: processes, sandboxes and containers.
  \<^item> Git sources, the syncer, bundles and provisioning: file systems and remote services.
  \<^item> The catalog, clients, workspaces and runtime variables, the triggers and completions of runs, and release events:
    further tables of the same file, which the modelled operations do not read; the snapshot has the fields the modelled
    operations touch.
  \<^item> Concurrency inside a process beyond the file lock: transactions and observations are atomic steps, and what
    other processes do between two calls is covered by quantifying over histories.
\<close>

declare map_of_eq_Some_iff [simp del] Some_eq_map_of_iff [simp del]

section \<open>Runs, jobs and leases in every history of the store\<close>

text \<open>
  C1. In every file that a history of the local store reaches, a stored run is queued, running or
  resuming exactly when one job of it is queued or running, and then exactly one is.
\<close>

theorem live_run_has_one_active_job:
  assumes "reachable cx h" and "map_of (Runs (state_file h)) k = Some r"
  shows "live_run r \<longleftrightarrow>
    (\<exists>!k'. \<exists>j. map_of (Jobs (state_file h)) k' = Some j \<and> job_RunID j = k \<and> active_job j)"
proof -
  have c: "coherent (Runs (state_file h)) (Jobs (state_file h))"
    using reachable_ok [OF assms(1)] store_okD(1) by (simp add: history_ok_def)
  show ?thesis
  proof
    assume "live_run r"
    with c assms(2) obtain k' j where "map_of (Jobs (state_file h)) k' = Some j" "active_job j" "job_RunID j = k"
      by (rule coherent_live_has_job)
    then show "\<exists>!k'. \<exists>j. map_of (Jobs (state_file h)) k' = Some j \<and> job_RunID j = k \<and> active_job j"
      using coherent_one_active [OF c] by metis
  next
    assume "\<exists>!k'. \<exists>j. map_of (Jobs (state_file h)) k' = Some j \<and> job_RunID j = k \<and> active_job j"
    then obtain k' j where "map_of (Jobs (state_file h)) k' = Some j" "job_RunID j = k" "active_job j" by blast
    with coherent_job [OF c] assms(2) show "live_run r" by (metis option.inject)
  qed
qed

theorem live_run_has_one_active_job_witness:
  "\<exists>r. map_of (Runs demo_claimed) ''run-1'' = Some r \<and>
     (\<exists>!k'. \<exists>j. map_of (Jobs demo_claimed) k' = Some j \<and> job_RunID j = ''run-1'' \<and> active_job j)"
proof -
  obtain ru where "demo_file (demo_stored_run RunRunning ru)
     (demo_stored JobRunning 1 ''w1'' (Some (demo_at 30)) (Some (demo_at 20)) (demo_at 20)) demo_claimed"
    using demo_claimed_step(2) by blast
  then have r: "map_of (Runs demo_claimed) ''run-1'' = Some (demo_stored_run RunRunning ru)"
    by (simp add: demo_file_def)
  then show ?thesis
    using live_run_has_one_active_job [OF demo_reachable(1), of "''run-1''" "demo_stored_run RunRunning ru"]
    by (simp add: demo_history_def live_run_def)
qed

text \<open>
  C2. In every reached file, a running job carries a lease deadline and a positive attempt number, and its
  run exists and is running.
\<close>

theorem running_job_is_leased:
  assumes "reachable cx h" and "map_of (Jobs (state_file h)) k = Some j" and "job_State j = JobRunning"
  shows "job_ID j = k \<and> 1 \<le> job_Attempt j \<and> job_LeaseExpiresAt j \<noteq> None \<and>
    (\<exists>r. map_of (Runs (state_file h)) (job_RunID j) = Some r \<and> run_State r = RunRunning)"
proof -
  have c: "coherent (Runs (state_file h)) (Jobs (state_file h))"
    using reachable_ok [OF assms(1)] store_okD(1) by (simp add: history_ok_def)
  from c assms(2) obtain r where "map_of (Runs (state_file h)) (job_RunID j) = Some r" "attempt_ok r j" "job_ID j = k"
    by (rule coherent_job)
  then show ?thesis using assms(3) by (auto simp: attempt_ok_def)
qed

theorem running_job_is_leased_witness:
  "\<exists>j. map_of (Jobs demo_reclaimed) ''job-1'' = Some j \<and> job_LeaseExpiresAt j \<noteq> None \<and>
     (\<exists>r. map_of (Runs demo_reclaimed) ''run-1'' = Some r \<and> run_State r = RunRunning)"
proof -
  let ?j = "demo_stored JobRunning 2 ''w2'' (Some (demo_at 70)) (Some (demo_at 60)) (demo_at 60)"
  have "map_of (Jobs demo_reclaimed) ''job-1'' = Some ?j"
    using demo_reclaimed_step(2) by (auto simp: demo_file_def)
  then show ?thesis
    using running_job_is_leased [OF demo_reachable(2), of "''job-1''" ?j] by (simp add: demo_history_def)
qed

text \<open>
  C3. Fencing. Once a lease that the store granted is no longer owned, then at every later point of the
  history all three completions by its holder are refused, and a heartbeat reports the loss.
\<close>

theorem lost_lease_stays_lost:
  assumes "reachable cx h" and "owns l (state_file h)"
    and "(store_step cx)\<^sup>*\<^sup>* h h1" and "\<not> owns l (state_file h1)" and "(store_step cx)\<^sup>*\<^sup>* h1 h2"
  shows "lease_refused (CompleteJobSucceeded cx rnd now l result (state_file h2)) \<and>
    lease_refused (CompleteJobFailed cx rnd now l result (state_file h2)) \<and>
    lease_refused (CompleteJobWaitingHuman cx rnd now l result task (state_file h2)) \<and>
    (\<forall>t r. HeartbeatJob rnd now l ttl (state_file h2) = Inr (t, r) \<longrightarrow> \<not> hb_StillOwned r)"
proof -
  have h1: "later h h1" "history_ok h1"
    using steps_later [OF assms(3) reachable_ok [OF assms(1)]] by simp_all
  have "lease_dead l h1" by (rule lost_dead [OF reachable_ok [OF assms(1)] assms(2) h1(1) assms(4)])
  then have "\<not> owns l (state_file h2)" using job_lease.dead_forever [OF assms(5) h1(2)] by blast
  then show ?thesis
    by (intro conjI allI impI completion_refused) (simp_all add: heartbeat_not_owned)
qed

theorem lost_lease_stays_lost_witness:
  "lease_refused (CompleteJobSucceeded demo_codec demo_rnd (demo_at 66) (demo_lease ''w1'' 20 1) demo_result demo_done)"
proof -
  have own: "owns (demo_lease ''w1'' 20 1) demo_claimed" "\<not> owns (demo_lease ''w1'' 20 1) demo_reclaimed"
    using demo_claimed_step(2) demo_reclaimed_step(2)
    by (auto simp: owns_def demo_file_def demo_lease_def holds_lease_def)
  show ?thesis
    using lost_lease_stays_lost [OF demo_reachable(1), of "demo_lease ''w1'' 20 1" "demo_history demo_reclaimed"
        "demo_history demo_done" demo_rnd "demo_at 66" demo_result] own demo_steps(2,3)
    by (auto simp: demo_history_def)
qed

text \<open>
  C4. At most one completion. After a completion under a lease has succeeded, every later completion under
  the same lease is refused, whatever happens in between.
\<close>

theorem lease_completes_once:
  assumes "reachable cx h" and "completes l c" and "exec cx rnd now c (state_file h) = Inr t"
    and "(store_step cx)\<^sup>*\<^sup>* \<lparr>state_file = t, issued = issued h\<rparr> h'" and "completes l c'"
  shows "lease_refused (exec cx rnd' now' c' (state_file h'))"
proof -
  let ?h = "\<lparr>state_file = t, issued = issued h\<rparr>"
  have c: "well_formed c" "new_jobs rnd c = {}" using assms(2) by (cases c; simp)+
  then have ok: "history_ok ?h"
    using exec_later [OF reachable_ok [OF assms(1)] assms(3)] by simp
  have "settled_by l t"
    using reachable_ok [OF assms(1)] completion_settles [OF _ assms(2,3)] by (simp add: history_ok_def)
  then have "lease_dead l ?h" using settled_dead [OF ok] by simp
  then have "\<not> owns l (state_file h')" using job_lease.dead_forever [OF assms(4) ok] by blast
  then show ?thesis
    using completion_refused [of l "state_file h'"] assms(5)
    by (cases c') (auto simp: lease_refused_def file_of_def)
qed

theorem lease_completes_once_witness:
  "lease_refused (exec demo_codec demo_rnd (demo_at 66) (CmdFail (demo_lease ''w2'' 60 2) demo_result) demo_done)"
  using lease_completes_once [OF demo_reachable(2), of "demo_lease ''w2'' 60 2" "CmdSucceed (demo_lease ''w2'' 60 2) demo_result"
      demo_rnd "demo_at 65" demo_done "demo_history demo_done" "CmdFail (demo_lease ''w2'' 60 2) demo_result" demo_rnd "demo_at 66"]
    demo_done_step
  by (simp add: demo_history_def file_of_def)

text \<open>C5. Two claims of one job in a history have increasing attempt numbers: no attempt is leased twice.\<close>

theorem attempts_increase:
  assumes "reachable cx h"
    and "ClaimJobForWorkerScope cx rnd p now w tags labels ws ttl pre (state_file h) = Inr (t, j, l)"
    and "(store_step cx)\<^sup>*\<^sup>* \<lparr>state_file = t, issued = issued h\<rparr> h'"
    and "ClaimJobForWorkerScope cx rnd' p' now' w' tags' labels' ws' ttl' pre' (state_file h') = Inr (t', j', l')"
    and "ls_JobID l' = ls_JobID l"
  shows "ls_Attempt l < ls_Attempt l'"
proof -
  let ?h = "\<lparr>state_file = t, issued = issued h\<rparr>"
  have ok: "history_ok ?h"
    using exec_later [OF reachable_ok [OF assms(1)], of cx rnd now "CmdClaim p w tags labels ws ttl pre" t] assms(2) by simp
  have own: "owns l (state_file ?h)"
    using claim_attempt(2) [OF _ assms(2)] reachable_ok [OF assms(1)] by (simp add: history_ok_def)
  have ok': "history_ok h'" using steps_later [OF assms(3) ok] by simp
  obtain j0 where "map_of (Jobs (state_file h')) (ls_JobID l) = Some j0" "job_Attempt j0 < ls_Attempt l'"
    using claim_attempt(1) [OF _ assms(4)] ok' assms(5) by (auto simp: history_ok_def)
  then show ?thesis using attempt_at_least [OF ok own assms(3)] by fastforce
qed

theorem attempts_increase_witness: "ls_Attempt (demo_lease ''w1'' 20 1) < ls_Attempt (demo_lease ''w2'' 60 2)"
  by (rule attempts_increase [OF demo_start _ _ _ _, where t = demo_claimed and h' = "demo_history demo_claimed"])
    (use demo_claimed_step(1) demo_reclaimed_step(1) in \<open>simp_all add: demo_history_def demo_lease_def\<close>)

section \<open>Claims\<close>

text \<open>
  C6. A claim takes the least job, by priority, then creation time, then identifier, among the queued jobs that
  are offered to the worker and within their limits when expired leases have been settled.
\<close>

theorem claim_takes_least_admissible:
  assumes "reachable cx h"
    and "ClaimJobForWorkerScope cx rnd p now w tags labels ws ttl pre (state_file h) = Inr (t, j, l)"
    and "claim_state cx now (state_file h) = Inr s2"
    and "claim_selector s2 (ls_WorkerID l) (NormalizeWorkerScope tags) (NormalizeWorkerScope labels) now =
      Inr (tags', labels', ident)"
    and "map_of (Jobs s2) k = Some y" "offered s2 (normalizeClaimTags ws) tags' labels' y" "admissible s2 now y"
  shows "\<exists>c. map_of (Jobs s2) (ls_JobID l) = Some c \<and> job_State c = JobQueued \<and>
    (y = c \<or> job_Priority c < job_Priority y \<or>
      job_Priority c = job_Priority y \<and> (job_CreatedAt c < job_CreatedAt y \<or>
        job_CreatedAt c = job_CreatedAt y \<and> job_ID c < job_ID y))"
proof -
  have "\<exists>c. map_of (Jobs s2) (ls_JobID l) = Some c \<and> job_State c = JobQueued \<and> (y = c \<or> job_less c y)"
    using claim_least [OF _ assms(2-)] reachable_ok [OF assms(1)] by (simp add: history_ok_def)
  then show ?thesis by (auto simp: job_less_def split: if_splits)
qed

theorem claim_takes_least_admissible_witness:
  "\<exists>c. map_of (Jobs demo_enqueued) ''job-1'' = Some c \<and> job_State c = JobQueued"
  using claim_takes_least_admissible [OF demo_start, of demo_rnd "demo_at 20" "demo_at 20" "''w1''" "[]" "[]" "[]" demo_ttl
      demo_enqueued demo_claimed _ "demo_lease ''w1'' 20 1" demo_enqueued "[]" "[]" None "''job-1''"]
    demo_claimed_step(1) demo_choice
  by (auto simp: demo_history_def demo_lease_def)

text \<open>
  C7. A claim does not miss work: if after the settling of expired leases some queued job is offered to the worker
  and within its limits, the claim returns a job and a lease. (The preflight, which reads some earlier file, must
  have let it through, and no job has the empty identifier.)
\<close>

theorem claim_finds_admissible_job:
  assumes "reachable cx h" and "claim_state cx now (state_file h) = Inr s2" and "w \<noteq> []"
    and "claim_selector s2 w (NormalizeWorkerScope tags) (NormalizeWorkerScope labels) now = Inr (tags', labels', ident)"
    and "localClaimMayOfferJob pre w (NormalizeWorkerScope tags) (NormalizeWorkerScope labels) p = Inr True"
    and "map_of (Jobs s2) k = Some y" "offered s2 (normalizeClaimTags ws) tags' labels' y" "admissible s2 now y"
    and "map_of (Jobs s2) [] = None"
  shows "\<exists>t j l. ClaimJobForWorkerScope cx rnd p now w tags labels ws ttl pre (state_file h) = Inr (t, j, l)"
  using claim_succeeds [OF _ assms(2-)] reachable_ok [OF assms(1)] by (simp add: history_ok_def)

theorem claim_finds_admissible_job_witness:
  "\<exists>t j l. ClaimJobForWorkerScope demo_codec demo_rnd (demo_at 20) (demo_at 20) ''w3'' [] [] [] demo_ttl
     demo_enqueued demo_enqueued = Inr (t, j, l)"
  using claim_finds_admissible_job [OF demo_start, of "demo_at 20" demo_enqueued "''w3''" "[]" "[]" "[]" "[]" None
      demo_enqueued "demo_at 20" "''job-1''"] demo_choice
  by (simp add: demo_history_def)

text \<open>
  C8. Application concurrency: in the file that a claim writes, the number of running jobs of the claimed job's
  application is at most the limit pinned to the job as an operator policy may have lowered it; a job whose
  limits do not validate is not claimed.
\<close>

theorem app_concurrency_respected:
  assumes "reachable cx h"
    and "ClaimJobForWorkerScope cx rnd p now w tags labels ws ttl pre (state_file h) = Inr (t, j, l)"
  shows "case effectiveAppConcurrencyLimit j (ExecutionLimitPolicies (state_file h)) of
      Invalid \<Rightarrow> False
    | Unlimited \<Rightarrow> True
    | AtMost n \<Rightarrow> 0 < n \<and> app_running t (normalizedJobWorkspace [] j) (jobAppKey j) \<le> n"
  using claim_concurrency [OF _ assms(2)] reachable_ok [OF assms(1)] effectiveAppConcurrencyLimit_pos
  by (auto simp: history_ok_def split: limit.splits)

theorem app_concurrency_respected_witness: "app_running demo_claimed ''team'' ''app'' \<le> 1"
  using app_concurrency_respected [OF demo_start, of demo_rnd "demo_at 20" "demo_at 20" "''w1''" "[]" "[]" "[]" demo_ttl
      demo_enqueued demo_claimed _ "demo_lease ''w1'' 20 1"] demo_claimed_step(1) demo_choice
  by (auto simp: demo_history_def demo_file_def)

text \<open>
  C9. Keyed concurrency: after a claim, for every concurrency key pinned to the claimed job, the running jobs with
  that key do not exceed the effective limit, which is never above the pinned one.
\<close>

theorem keyed_concurrency_respected:
  assumes "reachable cx h"
    and "ClaimJobForWorkerScope cx rnd p now w tags labels ws ttl pre (state_file h) = Inr (t, j, l)"
    and "pin \<in> set (elp_Concurrency (pl_ExecutionLimits (job_Payload j)))"
  shows "\<exists>m. effectiveKeyedConcurrencyLimit j pin (ExecutionLimitPolicies (state_file h)) = Some m \<and>
    m \<le> kcp_MaxConcurrent pin \<and> keyed_running t j pin \<le> m"
  using claim_concurrency(3) [OF _ assms(2,3)] reachable_ok [OF assms(1)] by (simp add: history_ok_def)

theorem keyed_concurrency_respected_witness:
  "keyed_running demo_claimed (demo_stored JobRunning 1 ''w1'' (Some (demo_at 30)) (Some (demo_at 20)) (demo_at 20)) demo_key_pin \<le> 1"
  using keyed_concurrency_respected [OF demo_start, of demo_rnd "demo_at 20" "demo_at 20" "''w1''" "[]" "[]" "[]" demo_ttl
      demo_enqueued demo_claimed _ "demo_lease ''w1'' 20 1" demo_key_pin] demo_claimed_step(1) demo_choice
  by (auto simp: demo_history_def demo_file_def)



section \<open>What the store never forgets\<close>

text \<open>
  C11. The admission fence: an admission outcome, once recorded, is never changed, and from then on no run under its
  identity is enqueued. So a request that was resolved as aborted is not admitted later, and an admitted one is not
  admitted twice.
\<close>

theorem recorded_admission_is_final:
  assumes "reachable cx h"
    and "map_of (AdmissionOutcomes (state_file h)) (admissionOutcomeKey (normalizedJobWorkspace [] j) a) = Some out"
    and "(store_step cx)\<^sup>*\<^sup>* h h'"
    and "admissionIdentityForRun (normalizedJobWorkspace [] j) r = Inr (Some (a, f))"
  shows "map_of (AdmissionOutcomes (state_file h')) (admissionOutcomeKey (normalizedJobWorkspace [] j) a) = Some out \<and>
    (\<exists>e \<in> {ErrAdmissionAborted, ErrConflict, ErrInvalidState}. CreateRunAndEnqueue cx rnd now r j (state_file h') = Inl e)"
proof -
  have kept: "outcomes_kept (state_file h) (state_file h')"
    using steps_later [OF assms(3) reachable_ok [OF assms(1)]] by (simp add: later_def)
  then have "outcomes_kept (state_file h) (ensureSnapshot (state_file h'))"
    using outcomes_kept_trans outcomes_frame.rel_ensure by blast
  then have "\<exists>e \<in> {ErrAdmissionAborted, ErrConflict, ErrInvalidState}.
      create_run_and_enqueue cx r j now (ensureSnapshot (state_file h')) = Inl e"
    using refused_by_outcome [OF outcomes_keptD [OF _ assms(2)] assms(4)]
    by (fastforce simp: create_run_and_enqueue_def Let_def)
  then show ?thesis
    using outcomes_keptD [OF kept assms(2)] by (auto simp: CreateRunAndEnqueue_def updateWithClock_def)
qed

theorem recorded_admission_is_final_witness:
  "\<exists>e \<in> {ErrAdmissionAborted, ErrConflict, ErrInvalidState}.
     CreateRunAndEnqueue demo_codec demo_rnd (demo_at 50) demo_late_run demo_job demo_resolved = Inl e"
  using recorded_admission_is_final [OF demo_other_reachable(1), of demo_job "''run-9''" _
      "\<lparr>state_file = demo_resolved, issued = {}\<rparr>" demo_late_run "''fp''" demo_rnd "demo_at 50"]
    demo_resolved_step(2) demo_late_identity
  by (simp add: demo_job_def newAdmissionOutcome_def)





text \<open>
  C14. Retention: pruning removes exactly the runs that are over and older than the cutoff of their outcome, and
  exactly the jobs of those runs.
\<close>

theorem prune_removes_old_terminal_runs:
  assumes "reachable cx h" and "PruneSettledJobs rnd now a b (state_file h) = Inr (t, n)"
  shows "map_of (Runs t) k = (case map_of (Runs (state_file h)) k of None \<Rightarrow> None
      | Some r \<Rightarrow> if TerminalRunState (run_State r) \<and> run_UpdatedAt r < retentionCutoff (run_State r) a b
          then None else Some (persist_run r)) \<and>
    (map_of (Jobs t) k' \<noteq> None \<longleftrightarrow> (\<exists>j r. map_of (Jobs (state_file h)) k' = Some j \<and>
       map_of (Runs (state_file h)) (job_RunID j) = Some r \<and>
       \<not> (TerminalRunState (run_State r) \<and> run_UpdatedAt r < retentionCutoff (run_State r) a b)))"
  using prune_removes [OF _ assms(2)] reachable_ok [OF assms(1)] unfolding prunable_def history_ok_def by blast

theorem prune_removes_old_terminal_runs_witness:
  "\<exists>t n. PruneSettledJobs demo_rnd (demo_at 1000) (demo_at 900) (demo_at 900) demo_done = Inr (t, n) \<and>
     map_of (Runs t) ''run-1'' = None \<and> map_of (Jobs t) ''job-1'' = None"
proof -
  obtain r where r: "Runs demo_done = [(''run-1'', r)]" "run_State r = RunSucceeded" "run_UpdatedAt r = demo_at 65"
    using demo_done_step(3) by blast
  have "\<exists>v n. prune_tx (demo_at 900) (demo_at 900) (ensureSnapshot demo_done) = Inr (v, n) \<and> HumanTasks v = []"
    using demo_done_step(2) by (simp add: prune_tx_def Let_def)
  then obtain t n where t: "PruneSettledJobs demo_rnd (demo_at 1000) (demo_at 900) (demo_at 900) demo_done = Inr (t, n)"
    by (auto simp: PruneSettledJobs_def updateWithClock_def run_hook_def)
  have "prunable (demo_at 900) (demo_at 900) r"
    using r by (simp add: prunable_def TerminalRunState_def retentionCutoff_def)
  moreover have "map_of (Runs demo_done) x = (if x = ''run-1'' then Some r else None)" for x
    by (simp add: r(1))
  ultimately show ?thesis
    using prune_removes_old_terminal_runs [OF demo_reachable(3), of demo_rnd "demo_at 1000" "demo_at 900" "demo_at 900" t n
        "''run-1''" "''job-1''"] t
    by (intro exI [of _ t] exI [of _ n]) (simp add: demo_history_def prunable_def split: if_splits)
qed

section \<open>Completion, cancellation and decisions\<close>

text \<open>
  C15. The result of a successful completion is what readers get: after the completion, reading the run gives the
  state of success, the decrypted input and the output and result the worker reported, through encryption at rest.
\<close>

theorem completed_result_is_readable:
  assumes "reachable (local_codec keys config rnd0) h"
    and "CompleteJobSucceeded (local_codec keys config rnd0) rnd now l result (state_file h) = Inr (t, ())"
    and "map_of (Jobs (state_file h)) (ls_JobID l) = Some j" "job_CanceledBy j = None"
    and "map_of (Runs (state_file h)) (job_RunID j) = Some r"
    and "normalizedJobWorkspace [] j = SourceWorkspace (run_Deployment r)"
    and "dec_input (local_codec keys config rnd0) (SourceWorkspace (run_Deployment r)) (run_Input r) = Inr input"
    and "\<not> IsEnc (res_Output result)" "res_Output result \<noteq> []"
  shows "\<exists>r'. GetRun (local_codec keys config rnd0) t (job_RunID j) = Inr r' \<and> run_State r' = RunSucceeded \<and>
    run_Input r' = input \<and> run_Output r' = res_Output result \<and> run_Result r' = Some result"
  by (rule success_readable [OF _ assms(2-)]) (use reachable_ok [OF assms(1)] in \<open>simp add: history_ok_def\<close>)

theorem completed_result_is_readable_witness:
  "\<exists>r'. GetRun demo_codec demo_done ''run-1'' = Inr r' \<and> run_State r' = RunSucceeded \<and> run_Result r' = Some demo_result"
proof -
  obtain ru where f: "demo_file (demo_stored_run RunRunning ru)
     (demo_stored JobRunning 2 ''w2'' (Some (demo_at 70)) (Some (demo_at 60)) (demo_at 60)) demo_reclaimed" (is "demo_file ?r ?j _")
    using demo_reclaimed_step(2) by blast
  have w: "SourceWorkspace (run_Deployment ?r) = ''team''" and i: "run_Input ?r = ''{}''"
    by (simp_all add: demo_stored_run_def demo_run_def demo_deployment_def SourceWorkspace_def literal_simps NormalizeWorkspace_def)
  have d: "dec_input demo_codec x ''{}'' = Inr ''{}''" for x
    using default_plain by (simp add: demo_codec_def local_codec_def decryptJSONAtRest_def canonicalJSONValue_def)
  have "\<not> IsEnc (res_Output demo_result)" "res_Output demo_result \<noteq> []"
    using default_plain by (simp_all add: demo_result_def)
  then show ?thesis
    using completed_result_is_readable [OF demo_reachable(2) [unfolded demo_codec_def], folded demo_codec_def,
        of demo_rnd "demo_at 65" "demo_lease ''w2'' 60 2" demo_result demo_done ?j ?r "''{}''"] demo_done_step(1) f w i d
    by (auto simp: demo_history_def demo_file_def demo_lease_def)
qed



text \<open>
  C17. Decisions on held tasks are idempotent: repeating a decision that was recorded returns the recorded outcome and
  value, marked as a replay, at any later time and without changing the outcome.
\<close>

theorem decision_replays:
  assumes "store_ok s"
    and "DecideHeldHumanTask (local_codec keys config rnd0) rnd now w task d s = Inr (t, r)"
    and "\<not> htr_Replayed r" "htd_Outcome (htr_Decision r) \<noteq> HumanTaskOutcomeNone"
    and "\<not> IsEnc (htd_Value (htr_Decision r))" "htd_Value (htr_Decision r) \<noteq> []"
  shows "\<exists>t' r'. DecideHeldHumanTask (local_codec keys config rnd0) rnd' now' w task d t = Inr (t', r') \<and>
    htr_Replayed r' \<and> htr_Decision r' = htr_Decision r"
proof -
  have "dec_input (local_codec keys config rnd0) (NormalizeWorkspace w) c = Inr v"
    if "enc_input (local_codec keys config rnd0) draw (NormalizeWorkspace w) v = Inr c" "v = htd_Value (htr_Decision r)" for draw v c
    using local_at_rest.input_roundtrip [OF _ that(1)] that(2) assms(5,6) by simp
  then have "\<exists>t' r'. DecideHeldHumanTask (local_codec keys config rnd0) rnd' now' w task d t = Inr (t', r') \<and>
      htr_Replayed r' \<and> htr_Task r' = humanTaskMetadata (persist_task (the (map_of (HumanTasks t) (trim task)))) \<and>
      htr_Decision r' = htr_Decision r"
    by (rule decide_replays [OF assms(1-4)])
  then show ?thesis by blast
qed

theorem decision_replays_witness:
  "\<exists>t r t' r'. DecideHeldHumanTask demo_codec demo_rnd (demo_at 25) ''team'' ''task-2'' demo_decision demo_held = Inr (t, r) \<and>
     DecideHeldHumanTask demo_codec demo_rnd (demo_at 99) ''team'' ''task-2'' demo_decision t = Inr (t', r') \<and>
     htr_Replayed r' \<and> htr_Decision r' = htr_Decision r"
proof -
  obtain t r where d: "DecideHeldHumanTask demo_codec demo_rnd (demo_at 25) ''team'' ''task-2'' demo_decision demo_held = Inr (t, r)"
    "\<not> htr_Replayed r" "htd_Outcome (htr_Decision r) = HumanTaskOutcomeSubmit" "htd_Value (htr_Decision r) = ''{}''"
    using demo_decide_step by blast
  show ?thesis
    using decision_replays [OF demo_held_ok d(1) [unfolded demo_codec_def] d(2), folded demo_codec_def, of demo_rnd "demo_at 99"]
      d default_plain(1) by auto
qed

section \<open>Operators\<close>



text \<open>
  C19. Worker credentials are fenced by generation: a new credential gets the expected generation plus one, which is
  above every generation of its group, under a fresh identifier and a fresh token hash.
\<close>

theorem credential_generations_increase:
  assumes "CreateWorkerCredential rnd now request s = Inr (t, c, False)"
  shows "map_of (WorkerCredentials s) (wc_ID c) = None \<and> map_of (WorkerCredentials t) (wc_ID c) = Some c \<and>
    wc_Generation c = cwc_ExpectedGeneration request + 1 \<and>
    (\<forall>k c'. (k, c') \<in> set (WorkerCredentials s) \<longrightarrow> wc_TokenHash c' \<noteq> wc_TokenHash c \<and>
       (wc_Group c' = wc_Group c \<longrightarrow> wc_Generation c' < wc_Generation c))"
  using create_credential_new [OF assms] by auto

theorem credential_generations_increase_witness:
  "wc_Generation demo_credential = cwc_ExpectedGeneration demo_create + 1"
  using demo_create_step credential_generations_increase by blast

text \<open>
  C20. Run states of worker groups are changed by compare and swap: of two requests with the same expected revision and
  different operation identifiers, the second fails once the first has succeeded; repeating the first returns its
  result as a replay and changes nothing.
\<close>

theorem group_run_state_compare_and_swap:
  assumes "PutWorkerGroupRunState rnd now r1 s = Inr (t, g, False)" and "go_map_ok (HumanTasks t)"
  shows "wg_Revision g = pwg_ExpectedRevision r1 + 1 \<and>
    (\<exists>t'. PutWorkerGroupRunState rnd' now' r1 t = Inr (t', g, True) \<and> WorkerGroupRunStates t' = WorkerGroupRunStates t) \<and>
    (\<forall>r2. NormalizeWorkerGroup (pwg_Group r2) = NormalizeWorkerGroup (pwg_Group r1) \<longrightarrow>
      pwg_ExpectedRevision r2 = pwg_ExpectedRevision r1 \<longrightarrow> trim (pwg_OperationID r2) \<noteq> trim (pwg_OperationID r1) \<longrightarrow>
      (\<exists>e. PutWorkerGroupRunState rnd' now' r2 t = Inl e))"
  using put_state_new [OF assms(1)] put_state_replays [OF assms] put_state_stale [OF assms(1)] by blast

theorem group_run_state_compare_and_swap_witness:
  "\<exists>t g e. PutWorkerGroupRunState demo_rnd (demo_at 5) (demo_put ''op-1'') (newSnapshot ''epoch'') = Inr (t, g, False) \<and>
     PutWorkerGroupRunState demo_rnd (demo_at 6) (demo_put ''op-2'') t = Inl e"
proof -
  obtain t g where t: "PutWorkerGroupRunState demo_rnd (demo_at 5) (demo_put ''op-1'') (newSnapshot ''epoch'') = Inr (t, g, False)"
    using demo_put_step by blast
  have "store_ok (newSnapshot ''epoch'')"
    using initial_ok [of "\<lparr>state_file = newSnapshot ''epoch'', issued = {}\<rparr>"] by (auto simp: initial_def history_ok_def)
  then have "go_map_ok (HumanTasks t)"
    using store_okD(2) [OF goodD [OF PutWorkerGroupRunState_good [OF _ t]]] by (simp add: tasks_ok_def)
  moreover have "trim (pwg_OperationID (demo_put ''op-2'')) \<noteq> trim (pwg_OperationID (demo_put ''op-1''))"
    by (simp add: demo_put_def literal_simps)
  moreover have "pwg_Group (demo_put ''op-2'') = pwg_Group (demo_put ''op-1'')"
    "pwg_ExpectedRevision (demo_put ''op-2'') = pwg_ExpectedRevision (demo_put ''op-1'')" by (simp_all add: demo_put_def)
  ultimately show ?thesis
    using group_run_state_compare_and_swap [OF t, of demo_rnd "demo_at 6"] t by metis
qed



section \<open>Requests of operators in histories of the store\<close>

text \<open>
  C22. A revision of an execution limit policy is used at most once: after a mutation has been applied, no mutation of the
  same policy with the same expected revision is applied in any later file of the history. As long as the stored
  revision is unchanged, so is the stored policy.
\<close>

theorem policy_revision_used_once:
  assumes "MutateExecutionLimitPolicy rnd now r1 s = Inr (state_file h, p, False)" and "(store_step cx)\<^sup>*\<^sup>* h h'"
    and "NormalizeExecutionLimitPolicyMutation r1 = Inr i1" and "NormalizeExecutionLimitPolicyMutation r2 = Inr i2"
    and "request_key i2 = request_key i1" and "mlp_ExpectedRevision i2 = mlp_ExpectedRevision i1"
  shows "(\<forall>rnd' now' t' p'. MutateExecutionLimitPolicy rnd' now' r2 (state_file h') \<noteq> Inr (t', p', False)) \<and>
    (\<exists>p'. map_of (ExecutionLimitPolicies (state_file h')) (request_key i1) = Some p' \<and> lp_Revision p \<le> lp_Revision p' \<and>
      (lp_Revision p' = lp_Revision p \<longrightarrow> p' = p))"
  using revision_used_once [OF assms(1,3,2,4,5,6)] unchanged_revision [OF assms(2)] applied_mutation [OF assms(1,3)] by blast

theorem policy_revision_used_once_witness:
  "\<exists>t p. MutateExecutionLimitPolicy demo_rnd (demo_at 5) (demo_mutation ''op-1'') (newSnapshot ''epoch'') = Inr (t, p, False) \<and>
     (\<forall>t' p'. MutateExecutionLimitPolicy demo_rnd (demo_at 6) (demo_mutation ''op-2'') t \<noteq> Inr (t', p', False))"
proof -
  obtain t p where t: "MutateExecutionLimitPolicy demo_rnd (demo_at 5) (demo_mutation ''op-1'') (newSnapshot ''epoch'') = Inr (t, p, False)"
    using demo_mutation_step by blast
  let ?h = "\<lparr>state_file = t, issued = {}\<rparr>"
  have "request_key (demo_mutation ''op-2'') = request_key (demo_mutation ''op-1'')"
    "mlp_ExpectedRevision (demo_mutation ''op-2'') = mlp_ExpectedRevision (demo_mutation ''op-1'')"
    by (simp_all add: demo_mutation_def request_key_def)
  then show ?thesis
    using policy_revision_used_once [where h = ?h and h' = ?h and cx = demo_codec, OF _ _ demo_mutation_normal(1,2)] t by fastforce
qed





section \<open>The webhook outbox\<close>

text \<open>
  C25. Delivery leases are fenced: once a dispatcher that held the lease of a delivery no longer holds it, every later
  completion under that lease fails, whatever happens to the file.
\<close>

theorem delivery_lease_stays_lost:
  assumes "outbox_reachable cx h" and "holds_delivery l (state_file h)" and "(outbox_step cx)\<^sup>*\<^sup>* h h'"
    and "\<not> holds_delivery l (state_file h')" and "(outbox_step cx)\<^sup>*\<^sup>* h' h''"
  shows "CompleteDelivery rnd now l result (state_file h'') \<noteq> Inr (t, ())"
proof -
  have "outbox_fine h" by (rule outbox_history.reach_inv [OF assms(1)])
  then have "outbox_order h h'" "outbox_fine h'" using outbox_steps.steps_rel [OF assms(3)] by simp_all
  moreover from this have "delivery_lease_dead l h'"
    using delivery_lost_dead [OF \<open>outbox_fine h\<close> assms(2) _ assms(4)] by blast
  ultimately have "\<not> holds_delivery l (state_file h'')" using delivery_lease.dead_forever [OF assms(5)] by blast
  then show ?thesis
    using complete_not_held [of l "state_file h''" result rnd now] by (auto simp: CompleteDelivery_def)
qed

theorem delivery_lease_stays_lost_witness:
  "CompleteDelivery (hook_rnd ''e'') (demo_at 5) hook_lease hook_result hook_sent \<noteq> Inr (hook_sent, ())"
proof -
  have "holds_delivery hook_lease hook_sending"
    using hook_sending_step(2) by (simp add: holds_delivery_def hook_file_def valid_delivery_lease hook_lease_def hook_taken_def)
  moreover have "\<not> holds_delivery hook_lease hook_sent"
    using hook_sent_step(2) by (simp add: holds_delivery_def hook_file_def valid_delivery_lease hook_lease_def hook_finished_def)
  ultimately show ?thesis
    using delivery_lease_stays_lost [where h' = "hook_history hook_sent [''d'', ''c'', ''b'', ''a'']"
        and h'' = "hook_history hook_sent [''d'', ''c'', ''b'', ''a'']" and l = hook_lease, OF hook_reachable(2)]
      r_into_rtranclp [of "outbox_step hook_codec", OF hook_steps(4)]
    by (simp add: hook_history_def)
qed

text \<open>
  C26. A dispatcher claims a stored delivery that is eligible and due no later than any other eligible one (by the time
  of the next attempt, then by creation), with the next attempt number and itself as the lease owner.
\<close>

theorem delivery_claim_takes_earliest:
  assumes "outbox_reachable cx h" and "ClaimDelivery cx rnd preNow now w ttl pre (state_file h) = Inr (t, claimed)"
  shows "\<exists>d. map_of (WebhookDeliveries (state_file h)) (dl_DeliveryID (cd_Lease claimed)) = Some d \<and>
    eligible_record (state_file h) now d \<noteq> None \<and>
    wd_Attempt (cd_Delivery claimed) = wd_Attempt d + 1 \<and> wd_LeaseOwner (cd_Delivery claimed) = Some (trim w) \<and>
    (\<forall>k e. (k, e) \<in> set (WebhookDeliveries (state_file h)) \<longrightarrow> eligible_record (state_file h) now e \<noteq> None \<longrightarrow>
      wd_NextAttemptAt d < wd_NextAttemptAt e \<or> (wd_NextAttemptAt d = wd_NextAttemptAt e \<and> wd_CreatedAt d \<le> wd_CreatedAt e))"
  using claim_earliest [OF assms(2) outbox_history.reach_inv [OF assms(1)]] by blast

theorem delivery_claim_takes_earliest_witness:
  "\<exists>d. map_of (WebhookDeliveries hook_queued) ''whd_b'' = Some d \<and> wd_Attempt (cd_Delivery hook_claimed) = wd_Attempt d + 1"
  using delivery_claim_takes_earliest [OF hook_reachable(1), of "hook_rnd ''c''" "demo_at 3" "demo_at 3" "''d1''" demo_ttl hook_queued hook_sending hook_claimed]
    hook_sending_step(1)
  by (auto simp: hook_history_def hook_claimed_def hook_lease_def)



text \<open>
  C28. The retention cycle of webhook data returns on every file a history reaches, however its calls are timed. If its
  time budget does not run out, nothing is left that the policy removes: no expired delivery, no event without a
  delivery and no old deleted subscription without a delivery.
\<close>

theorem retention_cycle_terminates:
  assumes "outbox_reachable cx h"
  shows "\<exists>t removed. runWebhookRetentionCycle rnd clock over policy now (state_file h) = Some (t, removed) \<and>
    ((\<forall>j. \<not> over j) \<longrightarrow> retention_done (cycle_retention policy now) t)"
  unfolding runWebhookRetentionCycle_def using loop_returns [OF reached_prunable [OF assms]] by blast

theorem retention_cycle_terminates_witness:
  "\<exists>t removed. runWebhookRetentionCycle (\<lambda>i. hook_rnd ''e'') (\<lambda>i. demo_at 99) (\<lambda>i. False)
      \<lparr>wrp_Success = nanos_per_second, wrp_Failure = nanos_per_second, wrp_Interval = 1, wrp_BatchSize = 1, wrp_TimeBudget = 1\<rparr>
      (demo_at 99) hook_sent = Some (t, removed)"
proof -
  have "state_file (hook_history hook_sent [''d'', ''c'', ''b'', ''a'']) = hook_sent" by (simp add: hook_history_def)
  then show ?thesis using retention_cycle_terminates [OF hook_reachable(3)] by metis
qed



text \<open>
  C30. The delay before a retry is spread between one half and the whole of the base delay doubled with every attempt,
  capped at the maximum; the arithmetic wraps at 64 bits, and this shows that it does not.
\<close>

theorem retry_delay_bounds:
  assumes "0 < base" and "0 < maximum" and "maximum < 2 ^ 63" and "1 \<le> n"
  shows "min maximum (min base maximum * 2 ^ nat (n - 1)) div 2 \<le> RetryDelay base maximum n seed \<and>
    RetryDelay base maximum n seed \<le> min maximum (min base maximum * 2 ^ nat (n - 1))"
  using RetryDelay_range [OF assms] unfolding capped_delay_def .

theorem retry_delay_bounds_witness:
  "5 * nanos_per_second \<le> RetryDelay (5 * nanos_per_second) (24 * 3600 * nanos_per_second) 2 ''whd_b''"
  using retry_delay_bounds [of "5 * nanos_per_second" "24 * 3600 * nanos_per_second" 2 "''whd_b''"]
  by (simp add: nanos_per_second_def)

text \<open>
  C31. A receiver that shares the signing secret accepts the request the sender builds, as long as its clock is within
  the tolerance, less one second, of the sender's; it then reads the identifiers of the event and the delivery.
\<close>

theorem signed_request_verifies:
  assumes "trim (env_ID (cd_Event claimed)) \<noteq> []" and "trim (env_Type (cd_Event claimed)) \<noteq> []" and "trim (wd_ID (cd_Delivery claimed)) \<noteq> []"
    and "vr_Secret v = sub_SigningSecret (cd_Subscription claimed)" and "trim (vr_Secret v) \<noteq> []"
    and "0 \<le> now" and "now < 2 ^ 63 * nanos_per_second"
    and "\<bar>now' - now\<bar> + nanos_per_second \<le> (if vr_TimestampTolerance v \<le> 0 then DefaultTimestampTolerance else vr_TimestampTolerance v)"
  shows "\<exists>info. Verify v now' (header_get (hr_Header (request_for userAgent now claimed url body))) body = Inr info \<and>
    vf_EventID info = trim (env_ID (cd_Event claimed)) \<and> vf_DeliveryID info = trim (wd_ID (cd_Delivery claimed))"
  using request_verifies [OF assms] .

theorem signed_request_verifies_witness:
  "\<exists>info. Verify \<lparr>vr_Secret = ''0123456789abcdef'', vr_TimestampTolerance = 0\<rparr> (demo_at 60)
      (header_get (hr_Header (request_for ''agent'' (demo_at 3) hook_claimed hook_url ''{}''))) ''{}'' = Inr info \<and>
    vf_DeliveryID info = ''whd_b''"
proof -
  let ?v = "\<lparr>vr_Secret = ''0123456789abcdef'', vr_TimestampTolerance = 0\<rparr> :: verifier"
  have f: "trim (env_ID (cd_Event hook_claimed)) \<noteq> []" "trim (env_Type (cd_Event hook_claimed)) \<noteq> []"
    "trim (wd_ID (cd_Delivery hook_claimed)) = ''whd_b''" "sub_SigningSecret (cd_Subscription hook_claimed) = ''0123456789abcdef''"
    "trim ''0123456789abcdef'' \<noteq> []"
    by (simp_all add: hook_claimed_def hook_event_def hook_taken_def WebhookTestType_def hook_sub_def literal_simps)
  have "0 \<le> demo_at 3" "demo_at 3 < 2 ^ 63 * nanos_per_second" "\<bar>demo_at 60 - demo_at 3\<bar> + nanos_per_second \<le> DefaultTimestampTolerance"
    by (simp_all add: demo_at_def unix_time_def unix_epoch_def nanos_per_second_def DefaultTimestampTolerance_def)
  then show ?thesis
    using signed_request_verifies [of hook_claimed ?v "demo_at 3" "demo_at 60" "''agent''" hook_url "''{}''"] f by auto
qed

text \<open>
  C32. Every address the transport dials for a resolved endpoint is allowed. For IPv4 the decision of the policy is the
  one written as ranges: special purpose addresses never, loopback only over HTTP if the operator allows it, internal
  addresses only for allowed hosts or networks, and plain HTTP only for the hosts listed for it.
\<close>

theorem egress_decision_is_ranges:
  assumes "ResolveEndpoint policy net raw = Inr ep" and "NewTransport dial over ep = (result, dialled)" and "a \<in> set dialled"
  shows "policy_allows policy (re_Host ep) (url_Scheme (re_URL ep)) a \<and>
    (\<forall>host scheme w. policy_allows policy host scheme (V4 w) \<longleftrightarrow> \<not> in_ranges forbidden4 w \<and>
      (if in_ranges [(ip4 127 0 0 0, ip4 127 255 255 255)] w then ep_AllowInsecureLoopback policy \<and> scheme = ''http''
       else if scheme = ''http'' then hostAllowed host (ep_AllowedInsecureHTTPHosts policy)
       else scheme = ''https'' \<and>
         (in_ranges internal4 w \<longrightarrow> hostAllowed host (ep_AllowedHosts policy) \<or>
            list_ex (\<lambda>p. Contains p (V4 w)) (ep_AllowedCIDRs policy))))"
proof -
  have "policy_allows policy (re_Host ep) (url_Scheme (re_URL ep)) a"
    using resolved_allowed [OF assms(1)] dialled_resolved [OF assms(2)] assms(3) by blast
  then show ?thesis using policy_allows_V4 unfolding allowed4_def by blast
qed

theorem egress_decision_is_ranges_witness:
  "policy_allows hook_policy (normalizeHost ''hooks.test'') ''https'' (V4 (ip4 93 184 216 34))"
  using egress_decision_is_ranges [OF hook_resolved, of "\<lambda>a p. True" "\<lambda>a. False" "Some (V4 (ip4 93 184 216 34))"
      "[V4 (ip4 93 184 216 34)]" "V4 (ip4 93 184 216 34)", THEN conjunct1]
  by (simp add: NewTransport_def hook_url_def)

section \<open>Secrets in the output of a job\<close>

text \<open>
  C33. Masking with the Aho-Corasick matcher is the reference: for the registry of a job, whatever secrets it started
  from and registered, a byte of a text is replaced exactly when it lies in an occurrence of a registered pattern.
\<close>

theorem masking_is_reference:
  "Bytes (register_all secrets (NewRegistry inputs)) t =
     map (\<lambda>i. if \<exists>p \<in> pattern_set (register_all secrets (NewRegistry inputs)).
                 \<exists>s \<le> i. i < s + length p \<and> s + length p \<le> length t \<and> take (length p) (drop s t) = p
              then CHR ''*'' else t ! i) [0..<length t]"
  using Bytes_mask [OF registry_of_job] unfolding mask_def covered_def occurs_def replacementByte_def by blast

theorem masking_is_reference_witness:
  "Bytes (register_all [] (NewRegistry [])) ''ab'' = ''ab''"
  using masking_is_reference [of "[]" "[]" "''ab''"] NewRegistry_patterns [of "[]"]
  by (simp add: register_all_def Normalize_def numeral_2_eq_2)

text \<open>
  C34. The stream is the batch function: however a text is cut into chunks, writing them and flushing emits the text
  masked as a whole.
\<close>

theorem stream_is_batch:
  "finish (mask_run (map OpWrite chunks) (register_all secrets (NewRegistry inputs), NewRegistryStream, [])) =
     Bytes (register_all secrets (NewRegistry inputs)) (concat chunks)"
  by (simp only: stream_mask [OF registry_of_job] Bytes_mask [OF registry_of_job])

text \<open>
  C35. A secret that is registered while a job runs is hidden from then on: wherever it, a string in it or the JSON form
  of either begins in the output that has not been emitted yet, all of it is masked, also if it was
  written before the registration, is cut into chunks, or other secrets are registered meanwhile.
\<close>

theorem registered_secret_hidden:
  assumes "mask_run ops (NewRegistry inputs, NewRegistryStream, []) = (r, st, out)" and "RegisterSecret v r = Inr r'"
    and "length v \<le> MaxDynamicPatternBytes \<and> x = v \<or> (\<exists>j. unmarshal_any v = Some j \<and> x \<in> set (string_leaves j))"
    and "x \<noteq> []" and "w = x \<or> w = escaped x"
    and "length out \<le> s" and "occurs w s (written (ops @ OpRegister v # ops'))" and "s \<le> i" and "i < s + length w"
  shows "finish (mask_run (ops @ OpRegister v # ops') (NewRegistry inputs, NewRegistryStream, [])) ! i = CHR ''*''"
proof -
  have r: "registry_ok r" using run_from_start [OF NewRegistry_ok assms(1)] .
  have run: "mask_run (ops @ [OpRegister v]) (NewRegistry inputs, NewRegistryStream, []) = (r', st, out)"
    using assms(1,2) by (simp add: mask_run_def)
  have "w \<noteq> []" using assms(8,9) by auto
  then have "w \<in> pattern_set r'" using registered_forms [OF r assms(2) _ assms(4,5,3)] by simp
  then show ?thesis
    using stream_hides [OF NewRegistry_ok run, of w s ops' i] assms(6-9) by (simp add: replacementByte_def)
qed

theorem registered_secret_hidden_witness:
  "finish (mask_run [OpWrite ''a'', OpRegister demo_secret, OpWrite ''-xy'', OpWrite ''z!''] (NewRegistry [], NewRegistryStream, [])) ! 3 = CHR ''*''"
proof -
  obtain st out where run: "mask_run [OpWrite ''a''] (NewRegistry [], NewRegistryStream, []) = (NewRegistry [], st, out)" "length out = 1"
    using demo_written_parts unfolding demo_written_def by (metis prod.collapse)
  have "demo_secret \<noteq> []" "length demo_secret \<le> MaxDynamicPatternBytes" "length demo_secret = 3"
    by (simp_all add: demo_secret_def MaxDynamicPatternBytes_def)
  moreover have "occurs demo_secret 2 (written ([OpWrite ''a''] @ OpRegister demo_secret # [OpWrite ''-xy'', OpWrite ''z!'']))"
    by (simp add: occurs_def demo_secret_def)
  ultimately show ?thesis
    using registered_secret_hidden [OF run(1) demo_registered, of demo_secret demo_secret 2 "[OpWrite ''-xy'', OpWrite ''z!'']" 3] run(2)
    by simp
qed

text \<open>
  C36. A registration that succeeds keeps the registry within its limits: at most 4096 patterns, and a matcher
  whose nodes are numbered far below the range of its 32-bit indices.
\<close>

theorem registry_within_limits:
  assumes "RegisterSecret v (register_all secrets (NewRegistry inputs)) = Inr r" and "v \<noteq> []"
  shows "length (rg_patterns r) \<le> 4096 \<and> length (mm_nodes (rg_matcher r)) < 2 ^ 31"
  using registered_sizes [OF registry_of_job assms] by (simp add: MaxDynamicPatterns_def MaxDynamicTotalPatternBytes_def)

theorem registry_within_limits_witness:
  "length (mm_nodes (rg_matcher demo_registry)) < 2 ^ 31"
  using registry_within_limits [of demo_secret "[]" "[]" demo_registry] demo_registered
  by (simp add: register_all_def demo_secret_def)

section \<open>Capacity: worker pressure and queue demand\<close>

text \<open>
  C37. The pressure controller has hysteresis: of every controller built with valid watermarks, a fresh sample pauses
  claims exactly when a ratio reaches the high watermark, or when they were paused and nothing could be compared or some
  ratio is still at the low watermark; a failed sample changes nothing. Its report says so and the store accepts it.
\<close>

theorem pressure_hysteresis:
  assumes "reach (\<lambda>c. \<exists>config. New config = Inr c) observes c" and "sample_ok (Some s)"
    and "wrp_ObservedAt (ct_last c) = 0 \<or> ct_next c \<le> now" and "Observe now (Some s) c = (c', report)"
  shows "(ct_paused c' \<longleftrightarrow>
      (\<exists>r \<in> ratios (ps_Measurements s). pc_HighWatermark (ct_config c) \<le> r) \<or>
      (ct_paused c \<and> (ratios (ps_Measurements s) = {} \<or> (\<exists>r \<in> ratios (ps_Measurements s). pc_LowWatermark (ct_config c) \<le> r)))) \<and>
    (ct_paused (fst (Observe now None c)) \<longleftrightarrow> ct_paused c) \<and>
    (\<exists>accepted. NormalizeWorkerResourcePressure (Some report) received = Inr (Some accepted) \<and>
      wrp_AcceptingClaims accepted = (\<not> ct_paused c'))"
proof -
  have "controller_ok c" by (rule pressure.reach_inv [OF assms(1)])
  then have "report_ok report" "wrp_AcceptingClaims report = (\<not> ct_paused c')"
    using Observe_ok [OF _ assms(2,4)] by simp_all
  then show ?thesis
    using Observe_paused(1) [OF assms(3), of s] Observe_paused(2) [OF assms(3)] report_accepted assms(4) by fastforce
qed

theorem pressure_hysteresis_witness:
  "ct_paused (fst (Observe 7 (Some \<lparr>ps_Scope = ''cgroup_v2'', ps_Measurements = [(''cpu'', zero_worker_resource_measurement
      \<lparr>wrm_Supported := True, wrm_Ratio := Some (19 / 20)\<rparr>)]\<rparr>)
    \<lparr>ct_config = \<lparr>pc_HighWatermark = 9 / 10, pc_LowWatermark = 8 / 10, pc_SampleInterval = 1\<rparr>, ct_paused = False,
     ct_reason = [], ct_last = zero_worker_resource_pressure, ct_next = 0\<rparr>))"
proof -
  let ?config = "\<lparr>pc_HighWatermark = 9 / 10, pc_LowWatermark = 8 / 10, pc_SampleInterval = 1\<rparr>"
  let ?c = "\<lparr>ct_config = ?config, ct_paused = False, ct_reason = [], ct_last = zero_worker_resource_pressure, ct_next = 0\<rparr>"
  let ?s = "\<lparr>ps_Scope = ''cgroup_v2'', ps_Measurements = [(''cpu'', zero_worker_resource_measurement
      \<lparr>wrm_Supported := True, wrm_Ratio := Some (19 / 20)\<rparr>)]\<rparr>"
  have "New ?config = Inr ?c" by (simp add: New_def with_defaults_def Let_def)
  then have "reach (\<lambda>c. \<exists>config. New config = Inr c) observes ?c" by (intro reach_init exI)
  moreover have "sample_ok (Some ?s)"
    by (simp add: sample_ok_def zero_worker_resource_measurement_def validWorkerPressureResource_def ratio_ok_def)
  moreover have "19 / 20 \<in> ratios (ps_Measurements ?s)" by (simp add: ratios_def zero_worker_resource_measurement_def)
  ultimately show ?thesis
    using pressure_hysteresis [of ?c ?s 7 "fst (Observe 7 (Some ?s) ?c)" "snd (Observe 7 (Some ?s) ?c)"]
    by (auto simp: zero_worker_resource_pressure_def intro!: bexI [of _ "19 / 20"])
qed



section \<open>Contracts and tokens\<close>

text \<open>
  C39. The normalised execution limits are a type: the results of the normalisation are exactly the well-formed limits
  (positive bounds, windows in range, distinct policies with valid distinct input pointers, within the maximal numbers),
  and it leaves exactly those unchanged.
\<close>

theorem normalized_limits_are_a_type:
  "((\<exists>l. NormalizeExecutionLimits l = Inr r) \<longleftrightarrow> limits_ok r) \<and> (NormalizeExecutionLimits r = Inr r \<longleftrightarrow> limits_ok r)"
  using NormalizeExecutionLimits_ok NormalizeExecutionLimits_fixed by blast

text \<open>
  C40. A job token minted for ASCII claims is verified back to the same claims until it expires, and with a secret exactly
  the texts are accepted whose last part is the HMAC of the payload before it and whose payload decodes to unexpired claims.
\<close>

theorem job_token_roundtrip:
  assumes "secret \<noteq> []" and "claims_ok c"
  shows "VerifyJob now secret (MintJob secret c) = (if jc_Exp c \<noteq> 0 \<and> unix_seconds now > jc_Exp c then None else Some c) \<and>
    (\<forall>tok c'. VerifyJob now secret tok = Some c' \<longleftrightarrow>
      (\<exists>p bytes. tok = ''wfjob_'' @ p @ ''.'' @ rawurl_encode (hmac_sha256 (map byte secret) (map byte p)) \<and>
         rawurl_decode p = Some bytes \<and> unmarshal_claims (map char_of bytes) = Some c' \<and>
         (jc_Exp c' = 0 \<or> unix_seconds now \<le> jc_Exp c')))"
  using VerifyJob_MintJob [OF assms] VerifyJob_iff [OF assms(1)] unfolding JobTokenPrefix_def sign_def by blast

theorem job_token_roundtrip_witness:
  "VerifyJob 0 ''key'' (MintJob ''key'' \<lparr>jc_Workspace = ''team'', jc_JobID = ''job-1'', jc_Subject = ''u/admin'', jc_Attempt = 1, jc_Exp = 0\<rparr>) =
     Some \<lparr>jc_Workspace = ''team'', jc_JobID = ''job-1'', jc_Subject = ''u/admin'', jc_Attempt = 1, jc_Exp = 0\<rparr>"
proof -
  have "claims_ok \<lparr>jc_Workspace = ''team'', jc_JobID = ''job-1'', jc_Subject = ''u/admin'', jc_Attempt = 1, jc_Exp = 0\<rparr>"
    by (simp add: claims_ok_def ascii_def byte_def)
  then show ?thesis
    using job_token_roundtrip [of "''key''" "\<lparr>jc_Workspace = ''team'', jc_JobID = ''job-1'', jc_Subject = ''u/admin'', jc_Attempt = 1, jc_Exp = 0\<rparr>" 0]
    by simp
qed

end
